(* ===== verification/Prelude.thy ===== *)
theory Prelude
  imports Main "HOL-Library.Word" "HOL-Library.Char_ord" "HOL-Library.List_Lexorder"
    "HOL-Library.Multiset"
begin

section \<open>Prelude: what every component shares\<close>

text \<open>
  The parts of Rust's core and standard library the modelled code uses, and the lemmas the
  components share: results, text (\<open>str\<close>, as a list of characters with a code point below 256),
  \<open>Ordering\<close> and the stable \<open>sort_by\<close>, saturating integers, and the minimum of optional instants.
  The collections below gather the facts the component proofs rewrite with.
\<close>

named_theorems text_simps \<open>trimming and case folding of text\<close>
named_theorems word_simps \<open>readings of saturating words\<close>
named_theorems ledger_defs \<open>definitions of the ledger's operations, unfolded entry by entry\<close>
named_theorems entry_simps \<open>what one ledger operation leaves in the record it writes\<close>

text \<open>A Rust \<open>Result<T, E>\<close>: \<open>Inl\<close> is \<open>Err\<close>, \<open>Inr\<close> is \<open>Ok\<close>.\<close>

type_synonym ('e, 'a) result = "'e + 'a"

text \<open>An \<open>i64\<close> instant in milliseconds since the epoch.\<close>

type_synonym instant = int

subsection \<open>Text\<close>

text \<open>
  \<open>char::is_whitespace\<close> on the code points below 256: the Unicode \<open>White_Space\<close> characters there
  are U+0009 to U+000D, U+0020, U+0085 and U+00A0.
\<close>

definition is_ws :: "char \<Rightarrow> bool" where
  "is_ws c = (let n = (of_char c :: nat) in (9 \<le> n \<and> n \<le> 13) \<or> n = 32 \<or> n = 133 \<or> n = 160)"

text \<open>\<open>str::trim\<close>.\<close>

definition trim :: "string \<Rightarrow> string" where
  "trim s = rev (dropWhile is_ws (rev (dropWhile is_ws s)))"

definition ascii_lower :: "char \<Rightarrow> char" where
  "ascii_lower c = (let n = (of_char c :: nat) in if 65 \<le> n \<and> n \<le> 90 then char_of (n + 32) else c)"

text \<open>\<open>str::eq_ignore_ascii_case\<close>.\<close>

definition eq_ignore_ascii_case :: "string \<Rightarrow> string \<Rightarrow> bool" where
  "eq_ignore_ascii_case s t = (map ascii_lower s = map ascii_lower t)"

text \<open>The decimal \<open>Display\<close> of an unsigned and of a signed integer.\<close>

fun show_nat :: "nat \<Rightarrow> string" where
  "show_nat n = (if n < 10 then [char_of (48 + n)] else show_nat (n div 10) @ [char_of (48 + n mod 10)])"

declare show_nat.simps [simp del]

definition show_int :: "int \<Rightarrow> string" where
  "show_int i = (if i < 0 then CHR ''-'' # show_nat (nat (- i)) else show_nat (nat i))"

text \<open>\<open>[a, b, c].join(sep)\<close>.\<close>

fun join :: "string \<Rightarrow> string list \<Rightarrow> string" where
  "join sep [] = []"
| "join sep [x] = x"
| "join sep (x # y # xs) = x @ sep @ join sep (y # xs)"

lemma dropWhile_hd: "dropWhile P xs = y # ys \<Longrightarrow> \<not> P y"
  by (induction xs) (auto split: if_splits)

lemma dropWhile_idem: "dropWhile P (dropWhile P xs) = dropWhile P xs"
  by (induction xs) auto

lemma dropWhile_suffix: "\<exists>ys. xs = ys @ dropWhile P xs"
  by (metis takeWhile_dropWhile_id)

lemma trim_hd: "trim s = c # cs \<Longrightarrow> \<not> is_ws c"
proof -
  assume eq: "trim s = c # cs"
  let ?d = "dropWhile is_ws s"
  obtain p where p: "rev ?d = p @ dropWhile is_ws (rev ?d)"
    using dropWhile_suffix by blast
  from eq have "dropWhile is_ws (rev ?d) = rev (c # cs)"
    by (metis rev_rev_ident trim_def)
  with p have "rev ?d = p @ rev cs @ [c]" by simp
  then have "?d = c # cs @ rev p"
    by (metis append.assoc rev.simps(2) rev_append rev_rev_ident append_Cons)
  then show ?thesis by (rule dropWhile_hd)
qed

lemma trim_idem [simp, text_simps]: "trim (trim s) = trim s"
proof (cases "trim s")
  case Nil
  then show ?thesis by (simp only:) (simp add: trim_def)
next
  case (Cons c cs)
  then have "dropWhile is_ws (trim s) = trim s"
    using trim_hd by simp
  then show ?thesis
    by (metis dropWhile_idem rev_rev_ident trim_def)
qed

lemma show_nat_nonempty [simp]: "show_nat n \<noteq> []"
  by (subst show_nat.simps) simp

subsection \<open>Saturating integers\<close>

text \<open>\<open>u32::saturating_add\<close> and \<open>u64::saturating_add\<close>.\<close>

definition saturating_add :: "'a::len word \<Rightarrow> 'a word \<Rightarrow> 'a word" where
  "saturating_add a b = (if unat a + unat b < 2 ^ LENGTH('a) then a + b else - 1)"

lemma unat_saturating_add [word_simps]:
  "unat (saturating_add a b) = min (unat a + unat b) (2 ^ LENGTH('a) - 1)"
  for a b :: "'a::len word"
proof (cases "unat a + unat b < 2 ^ LENGTH('a)")
  case True
  then show ?thesis
    by (simp add: saturating_add_def unat_word_ariths)
next
  case False
  then have "2 ^ LENGTH('a) - 1 \<le> unat a + unat b" by simp
  with False show ?thesis
    by (simp add: saturating_add_def unsigned_minus_1_eq_mask mask_eq_exp_minus_1)
qed

lemma saturating_add_mono: "a \<le> saturating_add a b"
  for a b :: "'a::len word"
proof -
  have "unat a < 2 ^ LENGTH('a)" by (rule unsigned_less)
  then have "unat a \<le> 2 ^ LENGTH('a) - 1" by linarith
  then show ?thesis by (simp add: word_le_nat_alt unat_saturating_add)
qed

lemma saturating_add_zero [simp]: "saturating_add a 0 = a" "saturating_add 0 a = a"
  by (simp_all add: saturating_add_def)

text \<open>\<open>i64::saturating_add\<close> on instants kept as integers.\<close>

definition i64_max :: int where
  "i64_max = 2 ^ 63 - 1"

definition i64_min :: int where
  "i64_min = - (2 ^ 63)"

definition i64_saturating_add :: "int \<Rightarrow> int \<Rightarrow> int" where
  "i64_saturating_add a b = max i64_min (min i64_max (a + b))"

subsection \<open>Ordering and the stable sort\<close>

text \<open>\<open>std::cmp::Ordering\<close>, the \<open>cmp\<close> of an ordered key, and \<open>Ordering::then_with\<close>.\<close>

datatype ordering = Less | Equal | Greater

definition cmp :: "'a::linorder \<Rightarrow> 'a \<Rightarrow> ordering" where
  "cmp a b = (if a < b then Less else if a = b then Equal else Greater)"

definition then_with :: "ordering \<Rightarrow> ordering \<Rightarrow> ordering" where
  "then_with o1 o2 = (if o1 = Equal then o2 else o1)"

text \<open>
  \<open>slice::sort_by\<close>, as insertion: for a comparison that is a total order the stable sorting of a
  list is unique, so this is the list the library's merge sort leaves.
\<close>

fun insert_by :: "('a \<Rightarrow> 'a \<Rightarrow> ordering) \<Rightarrow> 'a \<Rightarrow> 'a list \<Rightarrow> 'a list" where
  "insert_by c x [] = [x]"
| "insert_by c x (y # ys) = (if c x y = Greater then y # insert_by c x ys else x # y # ys)"

fun sort_by :: "('a \<Rightarrow> 'a \<Rightarrow> ordering) \<Rightarrow> 'a list \<Rightarrow> 'a list" where
  "sort_by c [] = []"
| "sort_by c (x # xs) = insert_by c x (sort_by c xs)"

text \<open>\<open>slice::sort_by_key\<close>.\<close>

definition sort_by_key :: "('a \<Rightarrow> 'k::linorder) \<Rightarrow> 'a list \<Rightarrow> 'a list" where
  "sort_by_key k = sort_by (\<lambda>x y. cmp (k x) (k y))"

lemma cmp_simps [simp]:
  "cmp a b = Less \<longleftrightarrow> a < b" "cmp a b = Equal \<longleftrightarrow> a = b" "cmp a b = Greater \<longleftrightarrow> b < a"
  by (auto simp: cmp_def)

lemma mset_insert_by [simp]: "mset (insert_by c x xs) = add_mset x (mset xs)"
  by (induction xs) auto

lemma mset_sort_by [simp]: "mset (sort_by c xs) = mset xs"
  by (induction xs) auto

lemma set_sort_by [simp]: "set (sort_by c xs) = set xs"
  by (metis mset_sort_by set_mset_mset)

lemma length_sort_by [simp]: "length (sort_by c xs) = length xs"
  by (metis mset_sort_by size_mset)

lemma insert_by_key: "insert_by (\<lambda>x y. cmp (k x) (k y)) x xs = insort_key k x xs"
  by (induction xs) (auto simp: not_le)

lemma sort_by_key_eq: "sort_by_key k xs = sort_key k xs"
  by (induction xs) (simp_all add: sort_by_key_def insert_by_key)

lemma sort_by_key_props [simp]:
  "mset (sort_by_key k xs) = mset xs" "set (sort_by_key k xs) = set xs"
  "length (sort_by_key k xs) = length xs" "sorted (map k (sort_by_key k xs))"
  by (simp_all add: sort_by_key_eq)

subsection \<open>Options and lists\<close>

text \<open>\<open>Iterator::min\<close> over instants: \<open>None\<close> of an empty sequence.\<close>

fun min_opt :: "'a::linorder list \<Rightarrow> 'a option" where
  "min_opt [] = None"
| "min_opt (x # xs) = (case min_opt xs of None \<Rightarrow> Some x | Some m \<Rightarrow> Some (min x m))"

lemma min_opt_None [simp]: "min_opt xs = None \<longleftrightarrow> xs = []"
  by (cases xs) (auto split: option.splits)

lemma min_opt_Some: "min_opt xs = Some m \<longleftrightarrow> m \<in> set xs \<and> (\<forall>x \<in> set xs. m \<le> x)"
proof (induction xs arbitrary: m)
  case (Cons x xs)
  show ?case
  proof (cases "min_opt xs")
    case None
    then show ?thesis by auto
  next
    case (Some m')
    with Cons.IH [of m'] have "m' \<in> set xs" "\<forall>y \<in> set xs. m' \<le> y" by auto
    with Some show ?thesis by (auto simp: min_def intro: antisym)
  qed
qed simp

text \<open>\<open>Iterator::max\<close>.\<close>

fun max_opt :: "'a::linorder list \<Rightarrow> 'a option" where
  "max_opt [] = None"
| "max_opt (x # xs) = (case max_opt xs of None \<Rightarrow> Some x | Some m \<Rightarrow> Some (max x m))"

lemma find_SomeD: "List.find P xs = Some x \<Longrightarrow> x \<in> set xs \<and> P x"
  by (metis find_Some_iff nth_mem)

text \<open>\<open>Iterator::filter_map\<close>.\<close>

definition filter_map :: "('a \<Rightarrow> 'b option) \<Rightarrow> 'a list \<Rightarrow> 'b list" where
  "filter_map f xs = List.map_filter f xs"

lemma filter_map_simps [simp]:
  "filter_map f [] = []"
  "filter_map f (x # xs) = (case f x of None \<Rightarrow> filter_map f xs | Some y \<Rightarrow> y # filter_map f xs)"
  by (auto simp: filter_map_def map_filter_simps split: option.splits)

lemma set_filter_map [simp]: "set (filter_map f xs) = {y. \<exists>x \<in> set xs. f x = Some y}"
  by (induction xs) (auto split: option.splits)

end
