(* ===== verification/BTree_Map.thy ===== *)
theory BTree_Map
  imports Prelude
begin

section \<open>Ordered maps\<close>

text \<open>
  \<open>std::collections::BTreeMap\<close>: keys in ascending order, each once. The map is the list of its
  entries in key order, so that \<open>values()\<close> iterates as the code does. The locale states what a
  client relies on; the interpretation discharges it for the list.
\<close>

type_synonym ('k, 'v) btmap = "('k \<times> 'v) list"

definition bt_wf :: "('k::linorder, 'v) btmap \<Rightarrow> bool" where
  "bt_wf m = sorted_wrt (<) (map fst m)"

fun bt_get :: "('k::linorder, 'v) btmap \<Rightarrow> 'k \<Rightarrow> 'v option" where
  "bt_get [] k = None"
| "bt_get ((k', v) # m) k = (if k = k' then Some v else bt_get m k)"

fun bt_insert :: "'k::linorder \<Rightarrow> 'v \<Rightarrow> ('k, 'v) btmap \<Rightarrow> ('k, 'v) btmap" where
  "bt_insert k v [] = [(k, v)]"
| "bt_insert k v ((k', v') # m) =
     (if k < k' then (k, v) # (k', v') # m
      else if k = k' then (k, v) # m
      else (k', v') # bt_insert k v m)"

fun bt_remove :: "'k::linorder \<Rightarrow> ('k, 'v) btmap \<Rightarrow> ('k, 'v) btmap" where
  "bt_remove k [] = []"
| "bt_remove k ((k', v') # m) = (if k = k' then m else (k', v') # bt_remove k m)"

definition bt_values :: "('k, 'v) btmap \<Rightarrow> 'v list" where
  "bt_values m = map snd m"

text \<open>\<open>map.entry(k).or_default()\<close>, then a mutation of the entry.\<close>

definition bt_entry :: "'v \<Rightarrow> 'k::linorder \<Rightarrow> ('v \<Rightarrow> 'v) \<Rightarrow> ('k, 'v) btmap \<Rightarrow> ('k, 'v) btmap" where
  "bt_entry d k f m = bt_insert k (f (case bt_get m k of None \<Rightarrow> d | Some v \<Rightarrow> v)) m"

subsection \<open>The interface\<close>

locale ordered_map =
  fixes get :: "'m \<Rightarrow> 'k \<Rightarrow> 'v option"
    and put :: "'k \<Rightarrow> 'v \<Rightarrow> 'm \<Rightarrow> 'm"
    and del :: "'k \<Rightarrow> 'm \<Rightarrow> 'm"
    and wf :: "'m \<Rightarrow> bool"
  assumes get_put: "wf m \<Longrightarrow> get (put k v m) k' = (if k' = k then Some v else get m k')"
    and get_del: "wf m \<Longrightarrow> get (del k m) k' = (if k' = k then None else get m k')"
    and wf_put: "wf m \<Longrightarrow> wf (put k v m)"
    and wf_del: "wf m \<Longrightarrow> wf (del k m)"
begin

text \<open>A sequence of writes: each key reads the last value written to it, every other key the old one.\<close>

lemma wf_put_all: "wf m \<Longrightarrow> wf (foldl (\<lambda>m x. put (key x) x m) m xs)"
  by (induction xs arbitrary: m) (auto intro: wf_put)

lemma get_put_all:
  "wf m \<Longrightarrow> get (foldl (\<lambda>m x. put (key x) x m) m xs) k =
     (case List.find (\<lambda>x. key x = k) (rev xs) of None \<Rightarrow> get m k | Some x \<Rightarrow> Some x)"
proof (induction xs rule: rev_induct)
  case Nil
  then show ?case by simp
next
  case (snoc x xs)
  then show ?case by (auto simp: get_put wf_put_all)
qed

lemma get_put_all_other:
  "wf m \<Longrightarrow> \<forall>x \<in> set xs. key x \<noteq> k \<Longrightarrow> get (foldl (\<lambda>m x. put (key x) x m) m xs) k = get m k"
  by (induction xs arbitrary: m) (auto simp: get_put wf_put)

end

subsection \<open>The provider\<close>

definition bt_keys :: "('k, 'v) btmap \<Rightarrow> 'k set" where
  "bt_keys m = fst ` set m"

lemma bt_keys_simps [simp]: "bt_keys [] = {}" "bt_keys ((k, v) # m) = insert k (bt_keys m)"
  by (simp_all add: bt_keys_def)

lemma bt_wf_Cons: "bt_wf ((k, v) # m) \<longleftrightarrow> (\<forall>k' \<in> bt_keys m. k < k') \<and> bt_wf m"
  by (auto simp: bt_wf_def bt_keys_def)

lemma bt_get_None: "bt_get m k = None \<longleftrightarrow> k \<notin> bt_keys m"
  by (induction m k rule: bt_get.induct) auto

lemma bt_keys_insert: "bt_keys (bt_insert k v m) = insert k (bt_keys m)"
  by (induction k v m rule: bt_insert.induct) auto

lemma bt_wf_insert: "bt_wf m \<Longrightarrow> bt_wf (bt_insert k v m)"
proof (induction k v m rule: bt_insert.induct)
  case (1 k v)
  then show ?case by (simp add: bt_wf_def)
next
  case (2 k v k' v' m)
  then show ?case
    by (cases k k' rule: linorder_cases) (auto simp: bt_wf_Cons bt_keys_insert)
qed

lemma bt_get_insert: "bt_get (bt_insert k v m) k' = (if k' = k then Some v else bt_get m k')"
  by (induction k v m rule: bt_insert.induct) auto

lemma bt_keys_remove: "bt_keys (bt_remove k m) \<subseteq> bt_keys m"
  by (induction k m rule: bt_remove.induct) auto

lemma bt_wf_remove: "bt_wf m \<Longrightarrow> bt_wf (bt_remove k m)"
proof (induction k m rule: bt_remove.induct)
  case (2 k k' v' m)
  with bt_keys_remove [of k m] show ?case by (auto simp: bt_wf_Cons)
qed simp

lemma bt_get_remove: "bt_wf m \<Longrightarrow> bt_get (bt_remove k m) k' = (if k' = k then None else bt_get m k')"
proof (induction m)
  case (Cons e m)
  obtain k1 v1 where e: "e = (k1, v1)" by (cases e)
  with Cons.prems have "k1 \<notin> bt_keys m" "bt_wf m" by (auto simp: bt_wf_Cons)
  with Cons.IH e show ?case by (auto simp: bt_get_None)
qed simp

interpretation btm: ordered_map bt_get bt_insert bt_remove bt_wf
  by unfold_locales (auto simp: bt_get_insert bt_get_remove bt_wf_insert bt_wf_remove)

lemma bt_get_entry [simp]:
  "bt_get (bt_entry d k f m) k' =
     (if k' = k then Some (f (case bt_get m k of None \<Rightarrow> d | Some v \<Rightarrow> v)) else bt_get m k')"
  by (simp add: bt_entry_def bt_get_insert)

lemma bt_wf_entry [simp]: "bt_wf m \<Longrightarrow> bt_wf (bt_entry d k f m)"
  by (simp add: bt_entry_def bt_wf_insert)

lemma bt_wf_Nil [simp]: "bt_wf []"
  by (simp add: bt_wf_def)

lemma bt_get_values: "bt_get m k = Some v \<Longrightarrow> v \<in> set (bt_values m)"
  by (induction m) (auto simp: bt_values_def split: if_splits)

end
