(* ===== verification/F64.thy ===== *)
theory F64
  imports Prelude
begin

section \<open>Double-precision numbers\<close>

text \<open>
  A plan reading is an \<open>f64\<close>, and the code compares readings in three ways that disagree on the
  numbers a header can smuggle in: \<open>partial_cmp\<close> and \<open>>=\<close> (a NaN compares with nothing, the two
  zeros are equal), \<open>total_cmp\<close> (every bit pattern has a place) and \<open>f64::max\<close> (a NaN is passed
  over). A double is kept as its 64 bits, so the three are the ones the standard library defines;
  the magnitude of a double is ordered as the integer its low 63 bits spell. The threshold every
  component shares, \<open>at_limit\<close>, is here too.
\<close>

type_synonym f64 = "64 word"

definition f64_negative :: "f64 \<Rightarrow> bool" where
  "f64_negative x = (uint x \<ge> 2 ^ 63)"

definition f64_mag :: "f64 \<Rightarrow> int" where
  "f64_mag x = uint x mod 2 ^ 63"

definition f64_is_nan :: "f64 \<Rightarrow> bool" where
  "f64_is_nan x = (f64_mag x > 0x7FF0000000000000)"

text \<open>Where \<open>f64::total_cmp\<close> places a bit pattern: the sign folded over the other 63 bits.\<close>

definition f64_total :: "f64 \<Rightarrow> int" where
  "f64_total x = (if f64_negative x then - f64_mag x - 1 else f64_mag x)"

text \<open>The signed magnitude, which identifies the two zeros.\<close>

definition f64_value :: "f64 \<Rightarrow> int" where
  "f64_value x = (if f64_negative x then - f64_mag x else f64_mag x)"

definition f64_total_cmp :: "f64 \<Rightarrow> f64 \<Rightarrow> ordering" where
  "f64_total_cmp x y = cmp (f64_total x) (f64_total y)"

definition f64_partial_cmp :: "f64 \<Rightarrow> f64 \<Rightarrow> ordering option" where
  "f64_partial_cmp x y =
     (if f64_is_nan x \<or> f64_is_nan y then None else Some (cmp (f64_value x) (f64_value y)))"

definition f64_ge :: "f64 \<Rightarrow> f64 \<Rightarrow> bool" where
  "f64_ge x y = (case f64_partial_cmp x y of None \<Rightarrow> False | Some r \<Rightarrow> r \<noteq> Less)"

definition f64_max :: "f64 \<Rightarrow> f64 \<Rightarrow> f64" where
  "f64_max x y =
     (if f64_is_nan x then y else if f64_is_nan y then x
      else if f64_value x < f64_value y then y else x)"

text \<open>\<open>Iterator::reduce(f64::max)\<close>.\<close>

definition f64_reduce_max :: "f64 list \<Rightarrow> f64 option" where
  "f64_reduce_max xs = (case xs of [] \<Rightarrow> None | x # xs \<Rightarrow> Some (foldl f64_max x xs))"

text \<open>\<open>WHOLE_LIMIT\<close> is the double 1.0.\<close>

definition WHOLE_LIMIT :: f64 where
  "WHOLE_LIMIT = 0x3FF0000000000000"

definition at_limit :: "f64 \<Rightarrow> bool" where
  "at_limit used_fraction = f64_ge used_fraction WHOLE_LIMIT"

subsection \<open>Two decimals\<close>

text \<open>
  \<open>{:.2}\<close>: the double's exact value in hundredths, rounded to the nearest and a half to the even one.
\<close>

definition f64_hundredths :: "f64 \<Rightarrow> int" where
  "f64_hundredths x =
     (let e = f64_mag x div 2 ^ 52; m = f64_mag x mod 2 ^ 52;
          n = 100 * (if e = 0 then m else 2 ^ 52 + m); scale = (if e = 0 then - 1074 else e - 1075)
      in if scale \<ge> 0 then n * 2 ^ nat scale
         else (let d = 2 ^ nat (- scale); q = n div d; r = n mod d
               in if 2 * r > d \<or> 2 * r = d \<and> odd q then q + 1 else q))"

definition show_f64_two :: "f64 \<Rightarrow> string" where
  "show_f64_two x =
     (if f64_is_nan x then ''NaN''
      else (if f64_negative x then ''-'' else []) @
        (if f64_mag x = 0x7FF0000000000000 then ''inf''
         else (let h = nat (f64_hundredths x)
               in show_nat (h div 100) @ ''.'' @ show_nat (h mod 100 div 10) @ show_nat (h mod 10))))"

subsection \<open>How the orders relate\<close>

lemma f64_mag_bounds: "0 \<le> f64_mag x" "f64_mag x < 2 ^ 63"
  by (simp_all add: f64_mag_def)

lemma uint_f64_split: "uint x = (if f64_negative x then 2 ^ 63 else 0) + f64_mag x"
  for x :: f64
proof -
  have lt: "uint x < 2 ^ 64" using uint_lt2p [of x] by simp
  show ?thesis
  proof (cases "f64_negative x")
    case True
    then have ge: "2 ^ 63 \<le> uint x" by (simp add: f64_negative_def)
    have "uint x mod 2 ^ 63 = (uint x - 2 ^ 63) mod 2 ^ 63" by simp
    also have "\<dots> = uint x - 2 ^ 63" using ge lt by (intro mod_pos_pos_trivial) auto
    finally show ?thesis using True by (simp add: f64_mag_def)
  next
    case False
    then have "uint x < 2 ^ 63" by (simp add: f64_negative_def)
    then show ?thesis using False by (simp add: f64_mag_def)
  qed
qed

text \<open>\<open>total_cmp\<close> is a linear order of the bit patterns: equal only when the bits are.\<close>

lemma f64_total_inject: "f64_total x = f64_total y \<longleftrightarrow> x = y"
proof
  assume eq: "f64_total x = f64_total y"
  then have "f64_negative x = f64_negative y"
    using f64_mag_bounds [of x] f64_mag_bounds [of y]
    by (auto simp: f64_total_def split: if_splits)
  with eq have "uint x = uint y"
    using uint_f64_split [of x] uint_f64_split [of y]
    by (auto simp: f64_total_def split: if_splits)
  then show "x = y" by (rule word_uint_eqI)
qed simp

lemma f64_total_value: "f64_value x < f64_value y \<Longrightarrow> f64_total x < f64_total y"
  using f64_mag_bounds [of x] f64_mag_bounds [of y]
  by (auto simp: f64_total_def f64_value_def split: if_splits)

lemma f64_is_nan_WHOLE_LIMIT [simp]: "\<not> f64_is_nan WHOLE_LIMIT"
  by (simp add: f64_is_nan_def f64_mag_def WHOLE_LIMIT_def)

lemma at_limit_iff: "at_limit x \<longleftrightarrow> \<not> f64_is_nan x \<and> f64_value WHOLE_LIMIT \<le> f64_value x"
  by (auto simp: at_limit_def f64_ge_def f64_partial_cmp_def cmp_def split: if_splits)

lemma at_limit_mono:
  "at_limit x \<Longrightarrow> \<not> f64_is_nan y \<Longrightarrow> f64_value x \<le> f64_value y \<Longrightarrow> at_limit y"
  by (auto simp: at_limit_iff)

lemma f64_max_nan: "f64_is_nan (f64_max x y) \<longleftrightarrow> f64_is_nan x \<and> f64_is_nan y"
  by (auto simp: f64_max_def)

lemma at_limit_max: "at_limit (f64_max x y) \<longleftrightarrow> at_limit x \<or> at_limit y"
  by (auto simp: at_limit_iff f64_max_def)

lemma at_limit_foldl_max: "at_limit (foldl f64_max x xs) \<longleftrightarrow> at_limit x \<or> (\<exists>y \<in> set xs. at_limit y)"
  by (induction xs arbitrary: x) (auto simp: at_limit_max)

text \<open>
  The tightest window decides: the reduced maximum is at the limit exactly when one of the
  readings is, whatever NaNs stand beside it.
\<close>

lemma at_limit_reduce_max:
  "(case f64_reduce_max xs of None \<Rightarrow> False | Some m \<Rightarrow> at_limit m) \<longleftrightarrow> (\<exists>x \<in> set xs. at_limit x)"
  by (cases xs) (auto simp: f64_reduce_max_def at_limit_foldl_max)

lemma f64_reduce_max_None [simp]: "f64_reduce_max xs = None \<longleftrightarrow> xs = []"
  by (cases xs) (simp_all add: f64_reduce_max_def)

lemma f64_foldl_max_mem: "foldl f64_max x xs \<in> insert x (set xs)"
proof (induction xs arbitrary: x)
  case (Cons y ys)
  have "f64_max x y \<in> {x, y}" by (simp add: f64_max_def)
  with Cons.IH [of "f64_max x y"] show ?case by auto
qed simp

lemma f64_reduce_max_mem: "f64_reduce_max xs = Some m \<Longrightarrow> m \<in> set xs"
  using f64_foldl_max_mem by (cases xs) (auto simp: f64_reduce_max_def)

lemma f64_foldl_max_upper:
  "y \<in> insert x (set xs) \<Longrightarrow> \<not> f64_is_nan y \<Longrightarrow>
     \<not> f64_is_nan (foldl f64_max x xs) \<and> f64_value y \<le> f64_value (foldl f64_max x xs)"
proof (induction xs arbitrary: x y)
  case (Cons z zs)
  show ?case
  proof (cases "y \<in> set zs")
    case True
    with Cons.IH [of y "f64_max x z"] Cons.prems(2) show ?thesis by simp
  next
    case False
    with Cons.prems have "y = x \<or> y = z" by auto
    then have "\<not> f64_is_nan (f64_max x z)" "f64_value y \<le> f64_value (f64_max x z)"
      using Cons.prems(2) by (auto simp: f64_max_def)
    with Cons.IH [of "f64_max x z" "f64_max x z"] show ?thesis by fastforce
  qed
qed simp

lemma f64_reduce_max_upper:
  "f64_reduce_max xs = Some m \<Longrightarrow> y \<in> set xs \<Longrightarrow> \<not> f64_is_nan y \<Longrightarrow> f64_value y \<le> f64_value m"
  using f64_foldl_max_upper by (cases xs) (auto simp: f64_reduce_max_def)

end
