(* ===== verification/Model_Types.thy ===== *)
theory Model_Types
  imports F64
begin

section \<open>Requests, answers and refusals\<close>

text \<open>
  The values every component passes on: the class of a refusal and its sentence
  (\<open>src/src/types/refusal.rs\<close>), one routed answer (\<open>src/src/types/response.rs\<close>), one plan reading,
  one request and its billing target (\<open>src/src/types.rs\<close>), one pool member
  (\<open>src/src/gateway/broker/subscription/account.rs\<close>), and the fleet's failure codes
  (\<open>src/src/core/failure.rs\<close>). The crates outside the repository the code calls
  (\<open>wisent-errors\<close> for envelopes, \<open>chrono\<close> for the calendar) are the record \<open>crates\<close>, an argument
  of the definitions that use them; an envelope is a value of its type variable.
\<close>

subsection \<open>Refusal classes\<close>

datatype gateway_refusal =
    GUnauthenticated
  | GInvalidRequest
  | GDependencyUnavailable
  | GProviderFailure
  | GCredentialUnauthorized
  | GSubscriptionReauthorizationRequired
  | GSubscriptionUnavailable

datatype provider_refusal =
    RateLimited
  | QuotaExhausted
  | Authentication
  | DependencyUnavailable
  | ContextLengthExceeded
  | ProviderFailure
  | Gateway gateway_refusal

fun asked_provider :: "provider_refusal \<Rightarrow> bool" where
  "asked_provider (Gateway g) = False"
| "asked_provider c = True"

fun contract_kind :: "provider_refusal \<Rightarrow> string" where
  "contract_kind RateLimited = ''provider_rate_limited''"
| "contract_kind QuotaExhausted = ''provider_quota_exhausted''"
| "contract_kind ContextLengthExceeded = ''context_length_exceeded''"
| "contract_kind Authentication = ''provider_authentication''"
| "contract_kind DependencyUnavailable = ''dependency_unavailable''"
| "contract_kind (Gateway GDependencyUnavailable) = ''dependency_unavailable''"
| "contract_kind ProviderFailure = ''provider_failure''"
| "contract_kind (Gateway GProviderFailure) = ''provider_failure''"
| "contract_kind (Gateway GUnauthenticated) = ''unauthenticated''"
| "contract_kind (Gateway GInvalidRequest) = ''invalid_request''"
| "contract_kind (Gateway GCredentialUnauthorized) = ''credential_unauthorized''"
| "contract_kind (Gateway GSubscriptionReauthorizationRequired) =
     ''subscription_reauthorization_required''"
| "contract_kind (Gateway GSubscriptionUnavailable) = ''subscription_unavailable''"

record refusal =
  rf_class :: provider_refusal
  rf_message :: string

definition gateway :: "gateway_refusal \<Rightarrow> string \<Rightarrow> refusal" where
  "gateway c message = \<lparr>rf_class = Gateway c, rf_message = message\<rparr>"

subsection \<open>Fleet codes\<close>

datatype fleet_code = Auth | RateLimit | InfraDown | Config | NotFound | Refused | Unknown

definition code_for_kind :: "string \<Rightarrow> fleet_code option" where
  "code_for_kind kind =
     (if kind \<in> {''provider_authentication'', ''unauthenticated'', ''credential_unauthorized'',
                 ''subscription_reauthorization_required''} then Some Auth
      else if kind \<in> {''provider_rate_limited'', ''subscription_unavailable''} then Some RateLimit
      else if kind = ''dependency_unavailable'' then Some InfraDown
      else if kind = ''provider_quota_exhausted'' then Some Config
      else if kind = ''invalid_request'' then Some NotFound
      else if kind = ''context_length_exceeded'' then Some Refused
      else if kind \<in> {''provider_failure'', ''internal_error''} then Some Unknown
      else None)"

definition code_for :: "string \<Rightarrow> fleet_code" where
  "code_for kind = (case code_for_kind kind of Some code \<Rightarrow> code | None \<Rightarrow> Unknown)"

text \<open>
  The crates: \<open>Failure::or_fallback(point, code, service).impact(impact).detail(detail)\<close>,
  \<open>with_context\<close>, \<open>caused_by\<close>, the readings of an envelope, its JSON text, the UTC text
  of an instant chrono can place (\<open>None\<close> when it cannot), and the bound of an envelope's detail.
  \<open>show_f64\<close> is the decimal text of a double, which only sentences carry.
\<close>

record 'f crates =
  failure_new :: "string \<Rightarrow> fleet_code \<Rightarrow> string \<Rightarrow> string \<Rightarrow> string \<Rightarrow> 'f"
  with_context :: "'f \<Rightarrow> string \<Rightarrow> string \<Rightarrow> 'f"
  caused_by :: "'f \<Rightarrow> 'f \<Rightarrow> 'f"
  failure_detail_of :: "'f \<Rightarrow> string option"
  failure_render :: "'f \<Rightarrow> string"
  failure_json :: "'f \<Rightarrow> string"
  failure_outage :: "'f \<Rightarrow> bool"
  failure_retryable :: "'f \<Rightarrow> bool"
  utc_text :: "instant \<Rightarrow> string option"
  detail_limit :: nat
  show_f64 :: "f64 \<Rightarrow> string"

definition SERVICE :: string where
  "SERVICE = ''brama''"

definition envelope :: "'f crates \<Rightarrow> string \<Rightarrow> fleet_code \<Rightarrow> string \<Rightarrow> string \<Rightarrow> 'f" where
  "envelope K point code impact detail = failure_new K point code SERVICE impact detail"

definition POINT_MODEL_SELECTION :: string where
  "POINT_MODEL_SELECTION = ''brama.dispatch.model-selection''"
definition POINT_CREDENTIAL_SELECTION :: string where
  "POINT_CREDENTIAL_SELECTION = ''brama.dispatch.credential-selection''"
definition POINT_BOUNDED_ROTATION :: string where
  "POINT_BOUNDED_ROTATION = ''brama.dispatch.bounded-rotation''"
definition POINT_CREDENTIAL_BLOCK :: string where
  "POINT_CREDENTIAL_BLOCK = ''brama.dispatch.credential-block''"
definition IMPACT_MODEL_REQUEST :: string where
  "IMPACT_MODEL_REQUEST = ''one model request''"
definition IMPACT_CREDENTIAL_BLOCK :: string where
  "IMPACT_CREDENTIAL_BLOCK = ''this subscription until its block expires''"

subsection \<open>Plan readings and answers\<close>

record limit_reading =
  lr_limit_id :: string
  lr_label :: string
  lr_window_label :: "string option"
  lr_used_fraction :: f64
  lr_resets_at_ms :: "instant option"
  lr_recorded_at_ms :: "instant option"

record token_usage =
  tu_input_tokens :: "32 word"
  tu_output_tokens :: "32 word"

definition total_tokens :: "token_usage \<Rightarrow> 64 word" where
  "total_tokens u = ucast (tu_input_tokens u) + ucast (tu_output_tokens u)"

record tool_call =
  tc_id :: string
  tc_call_type :: string
  tc_name :: string
  tc_arguments :: string

record model_response =
  mr_content :: string
  mr_model :: string
  mr_usage :: "token_usage option"
  mr_latency_ms :: f64
  mr_attempts :: "32 word"
  mr_tool_calls :: "tool_call list option"
  mr_limits :: "limit_reading list"
  mr_refusal :: "refusal option"

definition answered ::
  "string \<Rightarrow> string \<Rightarrow> token_usage option \<Rightarrow> f64 \<Rightarrow> tool_call list option \<Rightarrow> model_response" where
  "answered model content usage latency_ms tool_calls =
     \<lparr>mr_content = content, mr_model = model, mr_usage = usage, mr_latency_ms = latency_ms,
      mr_attempts = 1, mr_tool_calls = tool_calls, mr_limits = [], mr_refusal = None\<rparr>"

definition from_refusal :: "string \<Rightarrow> refusal \<Rightarrow> model_response" where
  "from_refusal model refusal =
     \<lparr>mr_content = [], mr_model = model, mr_usage = None, mr_latency_ms = 0,
      mr_attempts = 0, mr_tool_calls = None, mr_limits = [], mr_refusal = Some refusal\<rparr>"

definition failure_answer :: "string \<Rightarrow> provider_refusal \<Rightarrow> string \<Rightarrow> model_response" where
  "failure_answer model c err = from_refusal model \<lparr>rf_class = c, rf_message = err\<rparr>"

definition refused_answer :: "string \<Rightarrow> gateway_refusal \<Rightarrow> string \<Rightarrow> model_response" where
  "refused_answer model c err = failure_answer model (Gateway c) err"

definition success :: "model_response \<Rightarrow> bool" where
  "success r = (mr_refusal r = None)"

definition failure_class :: "model_response \<Rightarrow> provider_refusal option" where
  "failure_class r = map_option rf_class (mr_refusal r)"

definition reason_of :: "model_response \<Rightarrow> string option" where
  "reason_of r = map_option rf_message (mr_refusal r)"

subsection \<open>Requests and pool members\<close>

datatype json =
    JNull
  | JBool bool
  | JInt int
  | JFloat f64
  | JStr string
  | JArr "json list"
  | JObj "(string \<times> json) list"

text \<open>\<open>Value::get\<close> with a string key, and \<open>Value::as_str\<close>.\<close>

fun json_get :: "json \<Rightarrow> string \<Rightarrow> json option" where
  "json_get (JObj kvs) k = map_of kvs k"
| "json_get _ k = None"

fun as_str :: "json \<Rightarrow> string option" where
  "as_str (JStr s) = Some s"
| "as_str _ = None"

record message =
  msg_role :: string
  msg_content :: json
  msg_tool_call_id :: "string option"
  msg_name :: "string option"
  msg_tool_calls :: "json list option"

record billing_target =
  bt_provider_id :: string
  bt_account_id :: string
  bt_subscription_id :: string

record tool =
  tool_type :: string
  tool_name :: string
  tool_description :: string
  tool_parameters :: "json option"

record response_schema =
  rs_name :: string
  rs_schema :: json

record model_request =
  rq_messages :: "message list"
  rq_model :: string
  rq_max_tokens :: "32 word option"
  rq_temperature :: "f64 option"
  rq_system :: "string option"
  rq_tools :: "tool list option"
  rq_tool_choice :: "json option"
  rq_billing_target :: "billing_target option"
  rq_response_schema :: "response_schema option"

record subscription_entry =
  se_id :: string
  se_provider :: string
  se_status :: string
  se_label :: "string option"
  se_login_item :: "string option"
  se_account :: "string option"

subsection \<open>Facts about the vocabulary\<close>

lemmas response_defs = answered_def from_refusal_def failure_answer_def refused_answer_def success_def
  failure_class_def reason_of_def

text \<open>Two classes share a contract kind exactly where a provider's class and Brama's own coincide.\<close>

lemma contract_kind_eq_iff:
  "contract_kind c = contract_kind d \<longleftrightarrow>
     c = d \<or> {c, d} = {DependencyUnavailable, Gateway GDependencyUnavailable}
       \<or> {c, d} = {ProviderFailure, Gateway GProviderFailure}"
  by (cases c rule: contract_kind.cases; cases d rule: contract_kind.cases)
     (auto simp: doubleton_eq_iff)

text \<open>Every kind the gateway speaks has a fleet code, so no refusal falls to the unattributed one.\<close>

lemma code_for_kind_total: "\<exists>code. code_for_kind (contract_kind c) = Some code"
  by (cases c rule: contract_kind.cases) (simp_all add: code_for_kind_def)

lemma total_tokens_exact: "unat (total_tokens u) = unat (tu_input_tokens u) + unat (tu_output_tokens u)"
proof -
  let ?a = "tu_input_tokens u" and ?b = "tu_output_tokens u"
  have a: "unat ?a < 2 ^ 32" and b: "unat ?b < 2 ^ 32"
    using unsigned_less [of ?a, where ?'a = nat] unsigned_less [of ?b, where ?'a = nat] by simp_all
  have "unat (ucast ?a :: 64 word) = unat ?a" "unat (ucast ?b :: 64 word) = unat ?b"
    using a b by (simp_all add: unsigned_ucast_eq take_bit_nat_eq_self)
  then show ?thesis using a b by (simp add: total_tokens_def unat_word_ariths)
qed

end
