(* ===== verification/Usage_Ledger.thy ===== *)
theory Usage_Ledger
  imports BTree_Map Model_Types
begin

section \<open>The usage ledger: records, the process copy and the file\<close>

text \<open>
  \<open>src/src/subscription_dispatch/usage/mod.rs\<close> and \<open>ledger_file.rs\<close>: one record per subscription,
  the copy one process holds behind its lock, and the file a new copy replaces whole. The file is
  kept as what reading it yields: no path, no file, a file that cannot be read or decoded, or a
  ledger. An operation on the ledger takes the instant \<open>now_ms()\<close> answers as an argument; whether
  one write of the file succeeds is the environment's answer, an argument too.
\<close>

subsection \<open>One subscription's record\<close>

datatype usage_source = UsageProvider | UsageTraffic | UsageProbe | UsageHarness

datatype check_source = UsageReport | Completion

record probe =
  pb_attempted_at_ms :: instant
  pb_ok :: bool
  pb_detail :: "string option"
  pb_source :: "check_source option"

record measured =
  ms_requests :: "64 word"
  ms_failures :: "64 word"
  ms_input_tokens :: "64 word"
  ms_output_tokens :: "64 word"
  ms_unmeasured_calls :: "64 word"
  ms_last_unmeasured_call_ms :: "instant option"
  ms_since_ms :: "instant option"
  ms_last_used_ms :: "instant option"

record block =
  bk_blocked_until_ms :: instant
  bk_reason :: string
  bk_recorded_at_ms :: instant
  bk_envelope :: "string option"
  bk_quota_exhausted :: bool

datatype credential_state = Active | NeedsReauthorization | Disabled

fun state_as_str :: "credential_state \<Rightarrow> string" where
  "state_as_str Active = ''active''"
| "state_as_str NeedsReauthorization = ''needs_reauthorization''"
| "state_as_str Disabled = ''disabled''"

fun usable :: "credential_state \<Rightarrow> bool" where
  "usable Active = True"
| "usable _ = False"

record credential =
  cr_state :: credential_state
  cr_cause :: "string option"
  cr_recorded_at_ms :: instant
  cr_expires_at_ms :: "instant option"
  cr_refreshed_at_ms :: "instant option"
  cr_borrowed_from :: "string option"

record discovered_account =
  da_account :: string
  da_plan :: "string option"
  da_plan_at_ms :: "instant option"
  da_sources :: "string list"
  da_discovered_at_ms :: instant
  da_observed_at_ms :: instant
  da_registration_error :: "string option"

record sign_in_check_failure =
  sf_code :: string
  sf_detail :: string
  sf_at_ms :: instant

record reset_credit =
  rc_id :: string
  rc_program :: string
  rc_remaining_count :: "64 word"
  rc_consumption_observable :: bool
  rc_usable :: bool
  rc_requires_limit :: bool
  rc_expires_at_ms :: "instant option"
  rc_clears :: "string list"

record reset_offer =
  ro_available_count :: "64 word"
  ro_redeemable_count :: "64 word option"
  ro_eligible :: "bool option"
  ro_limit_reached :: "bool option"
  ro_reason :: "string option"
  ro_next_credit_id :: "string option"
  ro_credits :: "reset_credit list"
  ro_observed_at_ms :: instant

record reset_observation =
  rb_offer :: "reset_offer option"
  rb_attempted_at_ms :: instant
  rb_error :: "string option"

datatype reset_state = Requested | Unconfirmed | ConsumptionObserved | Redeemed | ResetRefused

fun unresolved :: "reset_state \<Rightarrow> bool" where
  "unresolved Requested = True"
| "unresolved Unconfirmed = True"
| "unresolved _ = False"

record reset_redemption =
  rd_provider :: string
  rd_member :: string
  rd_credit_id :: string
  rd_remaining_before :: "64 word"
  rd_request_id :: string
  rd_reason :: string
  rd_state :: reset_state
  rd_detail :: "string option"
  rd_at_ms :: instant

text \<open>
  \<open>usage_failure\<close> is the failure's envelope; the code keeps it as the JSON value its text reads
  back as, the model as the text.
\<close>

record subscription_usage =
  su_provider :: string
  su_measured :: measured
  su_limits :: "(string, limit_reading) btmap"
  su_block :: "block option"
  su_updated_at_ms :: "instant option"
  su_probe :: "probe option"
  su_usage_check :: "probe option"
  su_usage_failure :: "string option"
  su_usage_source :: "usage_source option"
  su_plan_usage_checked_at_ms :: "instant option"
  su_credential :: "credential option"
  su_discovery :: "discovered_account option"
  su_sign_in_check_failure :: "sign_in_check_failure option"
  su_resets :: "reset_observation option"
  su_reset_redemption :: "reset_redemption option"

definition measured_default :: measured where
  "measured_default =
     \<lparr>ms_requests = 0, ms_failures = 0, ms_input_tokens = 0, ms_output_tokens = 0,
      ms_unmeasured_calls = 0, ms_last_unmeasured_call_ms = None, ms_since_ms = None,
      ms_last_used_ms = None\<rparr>"

definition usage_default :: subscription_usage where
  "usage_default =
     \<lparr>su_provider = [], su_measured = measured_default, su_limits = [], su_block = None,
      su_updated_at_ms = None, su_probe = None, su_usage_check = None, su_usage_failure = None,
      su_usage_source = None, su_plan_usage_checked_at_ms = None, su_credential = None,
      su_discovery = None, su_sign_in_check_failure = None, su_resets = None,
      su_reset_redemption = None\<rparr>"

type_synonym ledger = "(string, subscription_usage) btmap"

text \<open>\<open>ledger.subscriptions.entry(id).or_default()\<close> and a mutation of it.\<close>

abbreviation on_entry ::
  "string \<Rightarrow> (subscription_usage \<Rightarrow> subscription_usage) \<Rightarrow> ledger \<Rightarrow> ledger" where
  "on_entry \<equiv> bt_entry usage_default"

text \<open>The record an operation on \<open>entry(sid).or_default()\<close> starts from.\<close>

definition entry_of :: "ledger \<Rightarrow> string \<Rightarrow> subscription_usage" where
  "entry_of L sid = (case bt_get L sid of None \<Rightarrow> usage_default | Some e \<Rightarrow> e)"

lemma bt_get_on_entry: "bt_get (on_entry sid f L) sid = Some (f (entry_of L sid))"
  by (simp add: entry_of_def)

definition insert_reading :: "subscription_usage \<Rightarrow> limit_reading \<Rightarrow> subscription_usage" where
  "insert_reading e r = e\<lparr>su_limits := bt_insert (lr_limit_id r) r (su_limits e)\<rparr>"

subsection \<open>The process copy and the file\<close>

record ledger_state =
  ls_ledger :: ledger
  ls_storage_error :: "string option"
  ls_persist_blocked :: bool

datatype usage_file =
    NoPath string
  | FileAbsent
  | FileUnreadable string
  | FileUndecodable string
  | FileLedger ledger

record usage_store =
  us_state :: "ledger_state option"
  us_file :: usage_file

text \<open>The usage-report verdict an older ledger kept in \<open>probe\<close> is copied to its own field.\<close>

definition migrate_usage :: "subscription_usage \<Rightarrow> subscription_usage" where
  "migrate_usage u =
     (if su_usage_check u = None \<and>
         (case su_probe u of None \<Rightarrow> False | Some p \<Rightarrow> pb_source p = Some UsageReport)
      then u\<lparr>su_usage_check := su_probe u\<rparr> else u)"

definition load :: "usage_file \<Rightarrow> ledger_state" where
  "load file = (case file of
       NoPath cause \<Rightarrow> \<lparr>ls_ledger = [], ls_storage_error = Some cause, ls_persist_blocked = True\<rparr>
     | FileAbsent \<Rightarrow> \<lparr>ls_ledger = [], ls_storage_error = None, ls_persist_blocked = False\<rparr>
     | FileUnreadable cause \<Rightarrow>
         \<lparr>ls_ledger = [], ls_storage_error = Some cause, ls_persist_blocked = True\<rparr>
     | FileUndecodable cause \<Rightarrow>
         \<lparr>ls_ledger = [], ls_storage_error = Some cause, ls_persist_blocked = True\<rparr>
     | FileLedger L \<Rightarrow>
         \<lparr>ls_ledger = map (\<lambda>(i, u). (i, migrate_usage u)) L,
          ls_storage_error = None, ls_persist_blocked = False\<rparr>)"

definition ledger_state :: "usage_store \<Rightarrow> ledger_state" where
  "ledger_state st = (case us_state st of Some s \<Rightarrow> s | None \<Rightarrow> load (us_file st))"

text \<open>
  A new copy replaces the file by one rename, so a failed write leaves the file as it was.
  \<open>fault\<close> is the cause the file system gives for refusing this write, when it refuses it.
\<close>

definition persist :: "string option \<Rightarrow> ledger \<Rightarrow> usage_file \<Rightarrow> (string, unit) result \<times> usage_file" where
  "persist fault L file = (case file of
       NoPath cause \<Rightarrow> (Inl cause, file)
     | _ \<Rightarrow> (case fault of Some err \<Rightarrow> (Inl err, file) | None \<Rightarrow> (Inr (), FileLedger L)))"

definition BLOCKED_WITHOUT_CAUSE :: string where
  "BLOCKED_WITHOUT_CAUSE =
     ''subscription usage ledger persistence is blocked by an earlier load failure, '' @
     ''whose cause this process no longer holds''"

definition write_ledger ::
  "string option \<Rightarrow> (ledger \<Rightarrow> 'a \<times> ledger) \<Rightarrow> usage_store \<Rightarrow>
   ('a \<times> (string, unit) result) \<times> usage_store" where
  "write_ledger fault apply_op st =
     (let s = ledger_state st;
          (outcome, L) = apply_op (ls_ledger s);
          (stored, file) =
            (if ls_persist_blocked s
             then (Inl (case ls_storage_error s of Some err \<Rightarrow> err | None \<Rightarrow> BLOCKED_WITHOUT_CAUSE),
                   us_file st)
             else persist fault L (us_file st));
          err = (case stored of Inr _ \<Rightarrow> None | Inl e \<Rightarrow> Some e)
      in ((outcome, stored),
          \<lparr>us_state = Some \<lparr>ls_ledger = L, ls_storage_error = err,
                           ls_persist_blocked = ls_persist_blocked s\<rparr>,
           us_file = file\<rparr>))"

definition with_ledger :: "string option \<Rightarrow> (ledger \<Rightarrow> ledger) \<Rightarrow> usage_store \<Rightarrow> usage_store" where
  "with_ledger fault f st = snd (write_ledger fault (\<lambda>L. ((), f L)) st)"

definition read_ledger :: "(ledger \<Rightarrow> 'a) \<Rightarrow> usage_store \<Rightarrow> 'a \<times> usage_store" where
  "read_ledger f st =
     (let s = ledger_state st in (f (ls_ledger s), st\<lparr>us_state := Some s\<rparr>))"

definition with_ledger_memory :: "(ledger \<Rightarrow> 'a \<times> ledger) \<Rightarrow> usage_store \<Rightarrow> 'a \<times> usage_store" where
  "with_ledger_memory f st =
     (let s = ledger_state st; (outcome, L) = f (ls_ledger s)
      in (outcome, st\<lparr>us_state := Some (s\<lparr>ls_ledger := L\<rparr>)\<rparr>))"

definition storage_error :: "usage_store \<Rightarrow> string option" where
  "storage_error st = ls_storage_error (ledger_state st)"

definition usage_for :: "ledger \<Rightarrow> string \<Rightarrow> subscription_usage option" where
  "usage_for L sid = bt_get L sid"

definition recorded_subscriptions :: "usage_store \<Rightarrow> ledger" where
  "recorded_subscriptions st = ls_ledger (ledger_state st)"

definition remove_subscription ::
  "string option \<Rightarrow> string \<Rightarrow> usage_store \<Rightarrow> (string, unit) result \<times> usage_store" where
  "remove_subscription fault sid st =
     (case write_ledger fault (\<lambda>L. ((), bt_remove sid L)) st of ((_, stored), st') \<Rightarrow> (stored, st'))"

text \<open>The instants one record states something becomes due at, and the next of them all.\<close>

definition due_instants :: "subscription_usage \<Rightarrow> instant list" where
  "due_instants e =
     (case su_credential e of
        Some c \<Rightarrow> (if usable (cr_state c) then (case cr_expires_at_ms c of Some t \<Rightarrow> [t] | None \<Rightarrow> [])
                   else [])
      | None \<Rightarrow> []) @
     filter_map lr_resets_at_ms (bt_values (su_limits e)) @
     (case su_block e of Some b \<Rightarrow> [bk_blocked_until_ms b] | None \<Rightarrow> [])"

definition next_due_ms :: "instant \<Rightarrow> ledger \<Rightarrow> instant option" where
  "next_due_ms now L =
     min_opt (filter (\<lambda>at. at > now) (concat (map due_instants (bt_values L))))"

subsection \<open>Well-formed ledgers\<close>

definition measured_ok :: "measured \<Rightarrow> bool" where
  "measured_ok m =
     (ms_failures m \<le> ms_requests m \<and> ms_unmeasured_calls m \<le> ms_requests m \<and>
      (ms_since_ms m = None) = (ms_last_used_ms m = None) \<and>
      (ms_last_unmeasured_call_ms m = None) = (ms_unmeasured_calls m = 0))"

definition limits_ok :: "(string, limit_reading) btmap \<Rightarrow> bool" where
  "limits_ok m = (bt_wf m \<and> (\<forall>(k, r) \<in> set m. lr_limit_id r = k))"

text \<open>A working grant carries no refusal's sentence, and a refused or retired one always does.\<close>

definition credential_ok :: "credential \<Rightarrow> bool" where
  "credential_ok c = (cr_cause c = None \<longleftrightarrow> usable (cr_state c))"

definition stored_ok :: "subscription_usage \<Rightarrow> bool" where
  "stored_ok e =
     (measured_ok (su_measured e) \<and> limits_ok (su_limits e) \<and>
      (\<forall>c. su_credential e = Some c \<longrightarrow> credential_ok c))"

text \<open>
  A record in memory: well formed, and with no usage-report verdict left in the field completion
  probes own.
\<close>

definition entry_ok :: "subscription_usage \<Rightarrow> bool" where
  "entry_ok e =
     (measured_ok (su_measured e) \<and> limits_ok (su_limits e) \<and>
      (\<forall>c. su_credential e = Some c \<longrightarrow> credential_ok c) \<and>
      (su_usage_check e = None \<longrightarrow> (\<forall>p. su_probe e = Some p \<longrightarrow> pb_source p \<noteq> Some UsageReport)))"

definition ledger_ok :: "ledger \<Rightarrow> bool" where
  "ledger_ok L = (bt_wf L \<and> (\<forall>sid e. bt_get L sid = Some e \<longrightarrow> entry_ok e))"

lemma limits_ok_Nil [simp]: "limits_ok []"
  by (simp add: limits_ok_def)

lemma set_bt_insert: "set (bt_insert k v m) \<subseteq> insert (k, v) (set m)"
  by (induction k v m rule: bt_insert.induct) auto

lemma limits_ok_insert [simp]: "limits_ok m \<Longrightarrow> limits_ok (bt_insert (lr_limit_id r) r m)"
  using set_bt_insert [of "lr_limit_id r" r m]
  by (auto simp: limits_ok_def bt_wf_insert)

lemma foldl_insert_reading:
  "foldl insert_reading e rs =
     e\<lparr>su_limits := foldl (\<lambda>m r. bt_insert (lr_limit_id r) r m) (su_limits e) rs\<rparr>"
  by (induction rs arbitrary: e) (simp_all add: insert_reading_def)

lemma limits_ok_foldl:
  "limits_ok m \<Longrightarrow> limits_ok (foldl (\<lambda>m r. bt_insert (lr_limit_id r) r m) m rs)"
  by (induction rs arbitrary: m) simp_all

lemma entry_ok_migrate: "stored_ok e \<Longrightarrow> entry_ok (migrate_usage e)"
  by (auto simp: stored_ok_def entry_ok_def migrate_usage_def split: option.splits)

lemma migrate_ok [simp]: "entry_ok e \<Longrightarrow> migrate_usage e = e"
  by (auto simp: entry_ok_def migrate_usage_def split: option.splits)

lemma entry_ok_stored: "entry_ok e \<Longrightarrow> stored_ok e"
  by (simp add: entry_ok_def stored_ok_def)

lemma entry_ok_default [simp]: "entry_ok usage_default"
  by (simp add: entry_ok_def usage_default_def measured_ok_def measured_default_def)

lemma ledger_ok_Nil [simp]: "ledger_ok []"
  by (simp add: ledger_ok_def)

lemma entry_of_ok: "ledger_ok L \<Longrightarrow> entry_ok (entry_of L sid)"
  by (auto simp: ledger_ok_def entry_of_def split: option.splits)

lemma ledger_ok_on_entry:
  "ledger_ok L \<Longrightarrow> (\<And>e. entry_ok e \<Longrightarrow> entry_ok (f e)) \<Longrightarrow> ledger_ok (on_entry sid f L)"
  using entry_of_ok [of L sid]
  by (auto simp: ledger_ok_def entry_of_def split: if_splits)

lemma ledger_ok_remove: "ledger_ok L \<Longrightarrow> ledger_ok (bt_remove sid L)"
  by (auto simp: ledger_ok_def bt_wf_remove bt_get_remove split: if_splits)

subsection \<open>What every ledger write promises\<close>

text \<open>
  An operation of the ledger writes one subscription's record and keeps the ledger well formed.
  Everything a reader decides from another subscription's record is then untouched.
\<close>

locale entry_writer =
  fixes wr :: "ledger \<Rightarrow> ledger" and sid :: string
  assumes frame: "i \<noteq> sid \<Longrightarrow> bt_get (wr L) i = bt_get L i"
    and keeps_ok: "ledger_ok L \<Longrightarrow> ledger_ok (wr L)"
begin

lemma reader_frame: "i \<noteq> sid \<Longrightarrow> rd (bt_get (wr L) i) = rd (bt_get L i)"
  by (simp add: frame)

lemma iterate_ok: "ledger_ok L \<Longrightarrow> ledger_ok ((wr ^^ n) L)"
  by (induction n) (auto intro: keeps_ok)

end

lemma on_entry_writer:
  "(\<And>e. entry_ok e \<Longrightarrow> entry_ok (f e)) \<Longrightarrow> entry_writer (on_entry sid f) sid"
  by unfold_locales (auto intro: ledger_ok_on_entry)

interpretation forgets: entry_writer "bt_remove sid" sid for sid
  apply unfold_locales
   subgoal for i L
     by (induction L rule: bt_remove.induct [of _ sid]) auto
  by (rule ledger_ok_remove)

subsection \<open>The file is history: it is never overwritten by a copy that did not read it\<close>

definition file_is_history :: "usage_file \<Rightarrow> bool" where
  "file_is_history file = (\<exists>cause. file = FileUnreadable cause \<or> file = FileUndecodable cause)"

lemma load_blocked: "file_is_history file \<Longrightarrow> ls_persist_blocked (load file)"
  by (auto simp: file_is_history_def load_def)

lemma write_ledger_file:
  "us_file (snd (write_ledger fault f st)) =
     (if ls_persist_blocked (ledger_state st) then us_file st
      else snd (persist fault (snd (f (ls_ledger (ledger_state st)))) (us_file st)))"
  by (auto simp: write_ledger_def Let_def split: prod.splits)

lemma write_ledger_blocked:
  "ls_persist_blocked (ledger_state (snd (write_ledger fault f st))) = ls_persist_blocked (ledger_state st)"
  by (auto simp: write_ledger_def ledger_state_def Let_def split: prod.splits)

lemma write_ledger_memory:
  "ls_ledger (ledger_state (snd (write_ledger fault f st))) = snd (f (ls_ledger (ledger_state st)))"
  by (auto simp: write_ledger_def ledger_state_def Let_def split: prod.splits)

lemma write_ledger_error:
  "storage_error (snd (write_ledger fault f st)) =
     (case snd (fst (write_ledger fault f st)) of Inr _ \<Rightarrow> None | Inl e \<Rightarrow> Some e)"
  by (auto simp: write_ledger_def storage_error_def ledger_state_def Let_def split: prod.splits)

lemma with_ledger_memory_eq [simp]:
  "ls_ledger (ledger_state (with_ledger fault f st)) = f (ls_ledger (ledger_state st))"
  by (simp add: with_ledger_def write_ledger_memory)

end
