(* ===== verification/Samples.thy ===== *)
theory Samples
  imports Model_Types
begin

section \<open>Concrete values the witnesses evaluate on\<close>

text \<open>
  One instance of the crates record, whose envelopes are their detail text, and small requests,
  readings and answers. Nothing of the model refers to them.
\<close>

definition plain_crates :: "string crates" where
  "plain_crates =
     \<lparr>failure_new = (\<lambda>point code service impact detail. detail),
      with_context = (\<lambda>f k v. f), caused_by = (\<lambda>f c. f), failure_detail_of = (\<lambda>f. Some f),
      failure_render = (\<lambda>f. f), failure_json = (\<lambda>f. f), failure_outage = (\<lambda>f. False),
      failure_retryable = (\<lambda>f. False), utc_text = (\<lambda>t. None), detail_limit = 512,
      show_f64 = (\<lambda>x. [])\<rparr>"

definition plain_answer :: model_response where
  "plain_answer =
     answered ''m'' ''hello'' (Some \<lparr>tu_input_tokens = 3, tu_output_tokens = 5\<rparr>) 0 None"

definition plain_refusal :: model_response where
  "plain_refusal = failure_answer ''m'' RateLimited ''slow down''"

definition plain_request :: model_request where
  "plain_request =
     \<lparr>rq_messages = [], rq_model = ''codex/m'', rq_max_tokens = None, rq_temperature = None,
      rq_system = None, rq_tools = None, rq_tool_choice = None, rq_billing_target = None,
      rq_response_schema = None\<rparr>"

definition plain_member :: subscription_entry where
  "plain_member =
     \<lparr>se_id = ''s1'', se_provider = ''codex'', se_status = ''active'', se_label = None,
      se_login_item = None, se_account = None\<rparr>"

lemma plain_answer_success [simp]: "success plain_answer" "\<not> success plain_refusal"
  by (simp_all add: plain_answer_def plain_refusal_def response_defs)

end
