(* ===== verification/Usage_Spend.thy ===== *)
theory Usage_Spend
  imports Usage_Ledger Samples
begin

section \<open>Spend and blocks\<close>

text \<open>
  \<open>src/src/subscription_dispatch/usage/spend.rs\<close>: what one provider call adds to the account that
  paid for it, and until when a refused account may spend nothing more. Each operation is its
  mutation of one record and its application to the ledger.
\<close>

definition ONE_CALL :: "64 word" where
  "ONE_CALL = 1"

definition measure_call :: "model_response \<Rightarrow> instant \<Rightarrow> measured \<Rightarrow> measured" where
  "measure_call response now m =
     (let m1 = m\<lparr>ms_since_ms := (case ms_since_ms m of None \<Rightarrow> Some now | Some t \<Rightarrow> Some t),
                 ms_last_used_ms := Some now,
                 ms_requests := saturating_add (ms_requests m) ONE_CALL\<rparr>;
          m2 = (if \<not> success response
                then m1\<lparr>ms_failures := saturating_add (ms_failures m1) ONE_CALL\<rparr> else m1)
      in (case mr_usage response of
            Some u \<Rightarrow> m2\<lparr>ms_input_tokens := saturating_add (ms_input_tokens m2) (ucast (tu_input_tokens u)),
                        ms_output_tokens := saturating_add (ms_output_tokens m2) (ucast (tu_output_tokens u))\<rparr>
          | None \<Rightarrow>
              (if success response
               then m2\<lparr>ms_unmeasured_calls := saturating_add (ms_unmeasured_calls m2) ONE_CALL,
                       ms_last_unmeasured_call_ms := Some now\<rparr>
               else m2)))"

text \<open>An answer proves the grant behind it, so a recorded refusal is over; a retirement is not.\<close>

definition proved_credential :: "instant \<Rightarrow> credential \<Rightarrow> credential" where
  "proved_credential now c =
     (if cr_state c = NeedsReauthorization
      then c\<lparr>cr_state := Active, cr_cause := None, cr_recorded_at_ms := now\<rparr> else c)"

definition call_entry ::
  "string \<Rightarrow> model_response \<Rightarrow> usage_source \<Rightarrow> instant \<Rightarrow> subscription_usage \<Rightarrow> subscription_usage" where
  "call_entry provider response source now e =
     (let e1 = e\<lparr>su_provider := provider, su_updated_at_ms := Some now,
                 su_measured := measure_call response now (su_measured e)\<rparr>;
          e2 = foldl insert_reading e1 (mr_limits response);
          e3 = (if mr_limits response \<noteq> [] then e2\<lparr>su_usage_source := Some source\<rparr> else e2)
      in (if success response
          then e3\<lparr>su_block := None,
                  su_credential := map_option (proved_credential now) (su_credential e3)\<rparr>
          else e3))"

definition record_call_from ::
  "string \<Rightarrow> string \<Rightarrow> model_response \<Rightarrow> usage_source \<Rightarrow> instant \<Rightarrow> ledger \<Rightarrow> ledger" where
  "record_call_from sid provider response source now L =
     on_entry sid (call_entry provider response source now) L"

text \<open>
  A caller's request; the second component is the contribution noted for the day
  (\<open>rewards::note_served\<close>), which is made for an answered call only.
\<close>

definition record_call ::
  "string \<Rightarrow> string \<Rightarrow> model_response \<Rightarrow> instant \<Rightarrow> ledger \<Rightarrow> ledger \<times> (string \<times> string) option" where
  "record_call sid provider response now L =
     (record_call_from sid provider response UsageTraffic now L,
      if success response then Some (sid, provider) else None)"

text \<open>The instant a refusal blocks its account until, when the provider named one.\<close>

definition block_until :: "limit_reading list \<Rightarrow> instant \<Rightarrow> instant option" where
  "block_until limits now =
     (let only_window = (length limits = 1)
      in min_opt (filter (\<lambda>resets. resets > now)
           (filter_map lr_resets_at_ms
              (filter (\<lambda>r. at_limit (lr_used_fraction r) \<or> only_window) limits))))"

definition block_envelope :: "'f crates \<Rightarrow> string \<Rightarrow> string \<Rightarrow> string \<Rightarrow> string \<Rightarrow> 'f" where
  "block_envelope K kind sid provider reason =
     with_context K
       (with_context K
          (envelope K POINT_CREDENTIAL_BLOCK (code_for kind) IMPACT_CREDENTIAL_BLOCK reason)
          ''subscription'' sid)
       ''provider'' provider"

definition block_entry ::
  "string \<Rightarrow> instant \<Rightarrow> block \<Rightarrow> subscription_usage \<Rightarrow> subscription_usage" where
  "block_entry provider now b e =
     e\<lparr>su_provider := provider, su_updated_at_ms := Some now, su_block := Some b\<rparr>"

definition record_block ::
  "'f crates \<Rightarrow> string \<Rightarrow> string \<Rightarrow> refusal \<Rightarrow> limit_reading list \<Rightarrow> instant \<Rightarrow> ledger \<Rightarrow> ledger" where
  "record_block K sid provider rf limits now L =
     (case block_until limits now of
        None \<Rightarrow> L
      | Some until \<Rightarrow>
          on_entry sid
            (block_entry provider now
              \<lparr>bk_blocked_until_ms = until, bk_reason = rf_message rf, bk_recorded_at_ms = now,
               bk_envelope =
                 Some (failure_json K
                   (block_envelope K (contract_kind (rf_class rf)) sid provider (rf_message rf))),
               bk_quota_exhausted = (rf_class rf = QuotaExhausted)\<rparr>) L)"

definition record_reported_block ::
  "'f crates \<Rightarrow> string \<Rightarrow> string \<Rightarrow> string \<Rightarrow> instant \<Rightarrow> instant \<Rightarrow> ledger \<Rightarrow> ledger" where
  "record_reported_block K sid provider reason until_ms now L =
     on_entry sid
       (block_entry provider now
         \<lparr>bk_blocked_until_ms = until_ms, bk_reason = reason, bk_recorded_at_ms = now,
          bk_envelope =
            Some (failure_json K (block_envelope K ''provider_rate_limited'' sid provider reason)),
          bk_quota_exhausted = False\<rparr>) L"

text \<open>The block standing against a subscription at \<open>now\<close>, and the three readings of it.\<close>

definition standing_block :: "ledger \<Rightarrow> string \<Rightarrow> instant \<Rightarrow> block option" where
  "standing_block L sid now =
     (case bt_get L sid of
        None \<Rightarrow> None
      | Some e \<Rightarrow>
          (case su_block e of
             Some b \<Rightarrow> (if bk_blocked_until_ms b > now then Some b else None)
           | None \<Rightarrow> None))"

definition is_blocked :: "ledger \<Rightarrow> string \<Rightarrow> instant \<Rightarrow> bool" where
  "is_blocked L sid now = (standing_block L sid now \<noteq> None)"

definition blocked_until_ms :: "ledger \<Rightarrow> string \<Rightarrow> instant \<Rightarrow> instant option" where
  "blocked_until_ms L sid now = map_option bk_blocked_until_ms (standing_block L sid now)"

definition is_quota_exhausted :: "ledger \<Rightarrow> string \<Rightarrow> instant \<Rightarrow> bool" where
  "is_quota_exhausted L sid now =
     (case standing_block L sid now of None \<Rightarrow> False | Some b \<Rightarrow> bk_quota_exhausted b)"

subsection \<open>What a call leaves in its record\<close>

lemma call_entry_fields [entry_simps]:
  "su_provider (call_entry provider r src now e) = provider"
  "su_updated_at_ms (call_entry provider r src now e) = Some now"
  "su_measured (call_entry provider r src now e) = measure_call r now (su_measured e)"
  "su_limits (call_entry provider r src now e) =
     foldl (\<lambda>m r. bt_insert (lr_limit_id r) r m) (su_limits e) (mr_limits r)"
  "su_block (call_entry provider r src now e) = (if success r then None else su_block e)"
  "su_credential (call_entry provider r src now e) =
     (if success r then map_option (proved_credential now) (su_credential e) else su_credential e)"
  "su_usage_source (call_entry provider r src now e) =
     (if mr_limits r = [] then su_usage_source e else Some src)"
  by (simp_all add: call_entry_def Let_def foldl_insert_reading)

lemma call_entry_kept [entry_simps]:
  "su_probe (call_entry provider r src now e) = su_probe e"
  "su_usage_check (call_entry provider r src now e) = su_usage_check e"
  "su_usage_failure (call_entry provider r src now e) = su_usage_failure e"
  "su_discovery (call_entry provider r src now e) = su_discovery e"
  by (simp_all add: call_entry_def Let_def foldl_insert_reading)

lemma saturating_add_le_mono: "a \<le> b \<Longrightarrow> saturating_add a c \<le> saturating_add b c"
  by (simp add: word_le_nat_alt unat_saturating_add min_le_iff_disj)

lemma saturating_add_one_nonzero: "saturating_add a ONE_CALL \<noteq> 0"
  using saturating_add_mono [of ONE_CALL a] unat_saturating_add [of a ONE_CALL]
  by (auto simp: ONE_CALL_def min_def split: if_splits)

lemma measured_ok_call: "measured_ok m \<Longrightarrow> measured_ok (measure_call r now m)"
  by (auto simp: measured_ok_def measure_call_def Let_def saturating_add_one_nonzero
      intro: saturating_add_le_mono order_trans [OF _ saturating_add_mono] split: option.splits)

lemma credential_ok_proved: "credential_ok c \<Longrightarrow> credential_ok (proved_credential now c)"
  by (auto simp: credential_ok_def proved_credential_def)

lemma entry_ok_call: "entry_ok e \<Longrightarrow> entry_ok (call_entry provider r src now e)"
  by (auto simp: entry_ok_def entry_simps measured_ok_call limits_ok_foldl credential_ok_proved
      split: if_splits)

lemma entry_ok_block: "entry_ok e \<Longrightarrow> entry_ok (block_entry provider now b e)"
  by (simp add: entry_ok_def block_entry_def)

interpretation calls: entry_writer "record_call_from sid provider r src now" sid
  for sid provider r src now
  unfolding record_call_from_def
  by (rule on_entry_writer) (rule entry_ok_call)

interpretation blocks: entry_writer "record_block K sid provider rf limits now" sid
  for K sid provider rf limits now
  by unfold_locales
     (auto simp: record_block_def intro: ledger_ok_on_entry entry_ok_block split: option.splits)

interpretation reported: entry_writer "record_reported_block K sid provider reason until_ms now" sid
  for K sid provider reason until_ms now
  unfolding record_reported_block_def
  by (rule on_entry_writer) (rule entry_ok_block)

text \<open>Reading a block off the ledger.\<close>

lemma standing_block_eq:
  "standing_block L sid now = Some b \<longleftrightarrow>
     (\<exists>e. bt_get L sid = Some e \<and> su_block e = Some b \<and> now < bk_blocked_until_ms b)"
  by (auto simp: standing_block_def split: option.splits if_splits)

lemma blocked_until_future: "blocked_until_ms L sid now = Some until \<Longrightarrow> now < until"
  by (auto simp: blocked_until_ms_def standing_block_eq)

lemma is_blocked_iff_until: "is_blocked L sid now \<longleftrightarrow> (\<exists>until. blocked_until_ms L sid now = Some until)"
  by (auto simp: is_blocked_def blocked_until_ms_def)

lemma is_blocked_antimono: "is_blocked L sid now \<Longrightarrow> now' \<le> now \<Longrightarrow> is_blocked L sid now'"
  by (force simp: is_blocked_def standing_block_def split: option.splits if_splits)

lemma block_until_Some:
  "block_until limits now = Some until \<Longrightarrow>
     now < until \<and> (\<exists>r \<in> set limits. lr_resets_at_ms r = Some until \<and>
        (at_limit (lr_used_fraction r) \<or> length limits = 1))"
  by (auto simp: block_until_def Let_def min_opt_Some)

subsection \<open>Spend over any run of calls\<close>

definition record_all ::
  "string \<Rightarrow> string \<Rightarrow> (model_response \<times> instant) list \<Rightarrow> ledger \<Rightarrow> ledger" where
  "record_all sid provider calls L =
     foldl (\<lambda>L (r, now). fst (record_call sid provider r now L)) L calls"

abbreviation measured_of :: "ledger \<Rightarrow> string \<Rightarrow> measured" where
  "measured_of L sid \<equiv> su_measured (entry_of L sid)"

definition stated_input :: "model_response \<Rightarrow> nat" where
  "stated_input r = (case mr_usage r of None \<Rightarrow> 0 | Some u \<Rightarrow> unat (tu_input_tokens u))"

definition stated_output :: "model_response \<Rightarrow> nat" where
  "stated_output r = (case mr_usage r of None \<Rightarrow> 0 | Some u \<Rightarrow> unat (tu_output_tokens u))"

lemma unat_ucast_up: "unat (ucast (x :: 32 word) :: 64 word) = unat x"
  using unsigned_less [of x, where ?'a = nat] by (simp add: unsigned_ucast_eq take_bit_nat_eq_self)

lemma entry_of_on_entry [simp]:
  "entry_of (on_entry sid f L) i = (if i = sid then f (entry_of L sid) else entry_of L i)"
  by (simp add: entry_of_def)

lemma measured_of_call:
  "measured_of (fst (record_call sid provider r now L)) sid = measure_call r now (measured_of L sid)"
  by (simp add: record_call_def record_call_from_def entry_simps)

lemma measure_call_counts:
  "unat (ms_requests (measure_call r now m)) = min (unat (ms_requests m) + 1) (2 ^ 64 - 1)"
  "unat (ms_failures (measure_call r now m)) =
     min (unat (ms_failures m) + (if success r then 0 else 1)) (2 ^ 64 - 1)"
  "unat (ms_input_tokens (measure_call r now m)) = min (unat (ms_input_tokens m) + stated_input r) (2 ^ 64 - 1)"
  "unat (ms_output_tokens (measure_call r now m)) = min (unat (ms_output_tokens m) + stated_output r) (2 ^ 64 - 1)"
  "unat (ms_unmeasured_calls (measure_call r now m)) =
     min (unat (ms_unmeasured_calls m) + (if success r \<and> mr_usage r = None then 1 else 0)) (2 ^ 64 - 1)"
  using unsigned_less [of "ms_failures m", where ?'a = nat] unsigned_less [of "ms_input_tokens m", where ?'a = nat]
    unsigned_less [of "ms_output_tokens m", where ?'a = nat] unsigned_less [of "ms_unmeasured_calls m", where ?'a = nat]
  by (simp_all add: measure_call_def Let_def unat_saturating_add ONE_CALL_def stated_input_def
      stated_output_def unat_ucast_up split: option.splits)

text \<open>A counter that adds and saturates holds, after a run, its start plus the sum, saturated.\<close>

lemma saturating_run:
  fixes c :: "'s \<Rightarrow> nat"
  assumes "\<And>x s. c (f s x) = min (c s + g x) M" and "c s \<le> M"
  shows "c (foldl f s xs) = min (c s + sum_list (map g xs)) M"
  using assms(2)
proof (induction xs arbitrary: s)
  case (Cons x xs)
  have "c (foldl f s (x # xs)) = min (min (c s + g x) M + sum_list (map g xs)) M"
    using Cons.IH [of "f s x"] assms(1) by simp
  then show ?case by simp
qed simp

lemma record_all_counter:
  fixes c :: "measured \<Rightarrow> 64 word"
  assumes "\<And>r now m. unat (c (measure_call r now m)) = min (unat (c m) + g r) (2 ^ 64 - 1)"
  shows "unat (c (measured_of (record_all sid provider calls L) sid)) =
     min (unat (c (measured_of L sid)) + (\<Sum>(r, now) \<leftarrow> calls. g r)) (2 ^ 64 - 1)"
proof -
  have le: "unat w \<le> 2 ^ 64 - 1" for w :: "64 word"
    using unsigned_less [of w, where ?'a = nat] by simp
  have "unat (c (measured_of ((\<lambda>L (r, now). fst (record_call sid provider r now L)) s x) sid)) =
      min (unat (c (measured_of s sid)) + (case x of (r, now) \<Rightarrow> g r)) (2 ^ 64 - 1)" for s x
    using assms by (cases x) (simp add: measured_of_call)
  from saturating_run [of "\<lambda>L. unat (c (measured_of L sid))", OF this le]
  show ?thesis unfolding record_all_def .
qed

text \<open>
  Whatever sequence of calls is billed to an account, its counters hold exactly what they held
  before plus the calls made, the refused ones, the tokens the provider stated and the answers that
  stated none, each capped at the largest 64-bit value instead of wrapping.
\<close>

theorem spend_is_summed:
  "let m = measured_of L sid; m' = measured_of (record_all sid provider calls L) sid; cap = 2 ^ 64 - 1
   in unat (ms_requests m') = min (unat (ms_requests m) + length calls) cap
    \<and> unat (ms_failures m') =
        min (unat (ms_failures m) + length (filter (\<lambda>(r, now). \<not> success r) calls)) cap
    \<and> unat (ms_input_tokens m') =
        min (unat (ms_input_tokens m) + (\<Sum>(r, now) \<leftarrow> calls. stated_input r)) cap
    \<and> unat (ms_output_tokens m') =
        min (unat (ms_output_tokens m) + (\<Sum>(r, now) \<leftarrow> calls. stated_output r)) cap
    \<and> unat (ms_unmeasured_calls m') =
        min (unat (ms_unmeasured_calls m)
             + length (filter (\<lambda>(r, now). success r \<and> mr_usage r = None) calls)) cap"
proof -
  have count: "(\<Sum>(r, now) \<leftarrow> calls. if P r then 1 else 0) = length (filter (\<lambda>(r, now). P r) calls)" for P
    by (induction calls) auto
  have ones: "(\<Sum>(r, now) \<leftarrow> calls. 1 :: nat) = length calls"
    by (induction calls) auto
  have refused: "(\<Sum>(r, now) \<leftarrow> calls. if success r then 0 else 1) = length (filter (\<lambda>(r, now). \<not> success r) calls)"
    by (induction calls) auto
  show ?thesis
    unfolding Let_def
      record_all_counter [of ms_requests "\<lambda>_. 1", OF measure_call_counts(1)] ones
      record_all_counter [of ms_failures, OF measure_call_counts(2)] refused
      record_all_counter [of ms_input_tokens, OF measure_call_counts(3)]
      record_all_counter [of ms_output_tokens, OF measure_call_counts(4)]
      record_all_counter [of ms_unmeasured_calls, OF measure_call_counts(5)] count
    by simp
qed

subsection \<open>Until when a refused account is blocked\<close>

text \<open>The future resets of the windows a refusal shows full, a sole window counting as full.\<close>

definition full_resets :: "limit_reading list \<Rightarrow> instant \<Rightarrow> instant set" where
  "full_resets limits now =
     {t. now < t \<and> (\<exists>r \<in> set limits. lr_resets_at_ms r = Some t \<and>
                       (at_limit (lr_used_fraction r) \<or> length limits = 1))}"

lemma set_block_candidates:
  "set (filter (\<lambda>resets. resets > now) (filter_map lr_resets_at_ms
      (filter (\<lambda>r. at_limit (lr_used_fraction r) \<or> length limits = 1) limits))) = full_resets limits now"
  by (auto simp: full_resets_def)

lemma block_until_Min:
  "block_until limits now = (if full_resets limits now = {} then None else Some (Min (full_resets limits now)))"
proof (cases "full_resets limits now = {}")
  case True
  then have "block_until limits now = None"
    unfolding block_until_def Let_def min_opt_None set_empty [symmetric] set_block_candidates .
  with True show ?thesis by simp
next
  case False
  have fin: "finite (full_resets limits now)"
    unfolding set_block_candidates [of now limits, symmetric] by (rule finite_set)
  have "Min (full_resets limits now) \<in> full_resets limits now" using fin False by simp
  moreover have "\<forall>t \<in> full_resets limits now. Min (full_resets limits now) \<le> t" using fin by simp
  ultimately have "block_until limits now = Some (Min (full_resets limits now))"
    unfolding block_until_def Let_def min_opt_Some set_block_candidates by blast
  with False show ?thesis by simp
qed

lemma standing_block_record:
  "standing_block (on_entry sid (block_entry provider now b) L) sid at =
     (if at < bk_blocked_until_ms b then Some b else None)"
  by (simp add: standing_block_def block_entry_def)

text \<open>
  A rate-limited or spent account is blocked until the earliest future reset of a window its
  answer shows full (or of its only window), at every instant before that and none after; the block
  says a spent balance exactly for the quota class. With no such reset the ledger is left as it was,
  so no cooldown is invented. Other accounts' blocks do not move.
\<close>

theorem blocked_until_first_reset:
  "let due = full_resets limits now; L' = record_block K sid provider rf limits now L
   in if due = {} then L' = L
      else (\<forall>at. is_blocked L' sid at = (at < Min due))
         \<and> blocked_until_ms L' sid now = Some (Min due)
         \<and> is_quota_exhausted L' sid now = (rf_class rf = QuotaExhausted)
         \<and> (\<forall>other at. other = sid \<or> is_blocked L' other at = is_blocked L other at)"
proof -
  have future: "now < Min (full_resets limits now)" if "full_resets limits now \<noteq> {}"
    using block_until_Some [of limits now] that block_until_Min [of limits now] by simp
  have other: "is_blocked (record_block K sid provider rf limits now L) i at = is_blocked L i at" if "i \<noteq> sid" for i at
    using that by (simp add: is_blocked_def standing_block_def blocks.frame)
  have same: "is_blocked (record_block K sid provider rf limits now L) sid at = (at < Min (full_resets limits now))"
    "blocked_until_ms (record_block K sid provider rf limits now L) sid now = Some (Min (full_resets limits now))"
    "is_quota_exhausted (record_block K sid provider rf limits now L) sid now = (rf_class rf = QuotaExhausted)"
    if "full_resets limits now \<noteq> {}" for at
    using that future [OF that]
    by (simp_all add: record_block_def block_until_Min is_blocked_def blocked_until_ms_def
        is_quota_exhausted_def standing_block_record)
  have none: "record_block K sid provider rf limits now L = L" if "full_resets limits now = {}"
    using that by (simp add: record_block_def block_until_Min)
  show ?thesis using same other none by (simp add: Let_def) blast
qed

end
