(* ===== verification/Usage_Checks.thy ===== *)
theory Usage_Checks
  imports Usage_Ledger
begin

section \<open>Proactive checks\<close>

text \<open>
  \<open>src/src/subscription_dispatch/usage/check/\<close>: the verdict of an operator's completion probe
  (\<open>completion.rs\<close>) and of the provider's own usage report (\<open>usage_report.rs\<close>), each kept in its
  own field. The usage-report operations work on the whole store, because what they record depends
  on whether the ledger file could be written.
\<close>

definition plan_usage_check :: "subscription_usage option \<Rightarrow> probe option" where
  "plan_usage_check recorded =
     (case recorded of
        None \<Rightarrow> None
      | Some u \<Rightarrow>
          (case su_usage_check u of
             Some p \<Rightarrow> Some p
           | None \<Rightarrow>
               (case su_probe u of
                  Some p \<Rightarrow> (if pb_source p = Some UsageReport then Some p else None)
                | None \<Rightarrow> None)))"

subsection \<open>The completion probe\<close>

definition bounded_reason :: "string option \<Rightarrow> string option" where
  "bounded_reason detail =
     (case detail of None \<Rightarrow> None | Some d \<Rightarrow> (if trim d = [] then None else Some (trim d)))"

definition probe_entry :: "string \<Rightarrow> instant \<Rightarrow> probe \<Rightarrow> subscription_usage \<Rightarrow> subscription_usage" where
  "probe_entry provider now p e =
     e\<lparr>su_provider := provider, su_updated_at_ms := Some now, su_probe := Some p\<rparr>"

definition record_probe ::
  "string \<Rightarrow> string \<Rightarrow> bool \<Rightarrow> string option \<Rightarrow> instant \<Rightarrow> ledger \<Rightarrow> probe \<times> ledger" where
  "record_probe sid provider ok detail now L =
     (let p = \<lparr>pb_attempted_at_ms = now, pb_ok = ok, pb_detail = bounded_reason detail,
               pb_source = Some Completion\<rparr>
      in (p, on_entry sid (probe_entry provider now p) L))"

subsection \<open>The usage report\<close>

definition POINT_USAGE_LEDGER_PERSIST :: string where
  "POINT_USAGE_LEDGER_PERSIST = ''brama.subscription-usage.ledger-persist''"

definition IMPACT_PLAN_USAGE :: string where
  "IMPACT_PLAN_USAGE = ''this subscription's current usage report''"

definition plan_usage_storage_failure :: "'f crates \<Rightarrow> string \<Rightarrow> string \<Rightarrow> string \<Rightarrow> 'f" where
  "plan_usage_storage_failure K sid provider detail =
     with_context K
       (with_context K (envelope K POINT_USAGE_LEDGER_PERSIST Config IMPACT_PLAN_USAGE detail)
         ''subscription'' sid)
       ''provider'' provider"

definition bounded_usage_detail :: "'f crates \<Rightarrow> string option \<Rightarrow> string option" where
  "bounded_usage_detail K detail =
     (case detail of
        None \<Rightarrow> None
      | Some d \<Rightarrow> (if trim d = [] then None else Some (take (detail_limit K) (trim d))))"

text \<open>One report attempt as it stands in a record: who was asked, when, and the verdict.\<close>

definition checked_entry ::
  "string \<Rightarrow> instant \<Rightarrow> bool \<Rightarrow> string option \<Rightarrow> string option \<Rightarrow> subscription_usage \<Rightarrow> subscription_usage" where
  "checked_entry provider at ok detail refused e =
     e\<lparr>su_provider := provider, su_updated_at_ms := Some at, su_plan_usage_checked_at_ms := Some at,
       su_usage_check := Some \<lparr>pb_attempted_at_ms = at, pb_ok = ok, pb_detail = detail,
                               pb_source = Some UsageReport\<rparr>,
       su_usage_failure := refused\<rparr>"

definition remember_plan_usage_failure ::
  "'f crates \<Rightarrow> string \<Rightarrow> string \<Rightarrow> instant \<Rightarrow> 'f \<Rightarrow> usage_store \<Rightarrow> usage_store" where
  "remember_plan_usage_failure K sid provider at refused st =
     snd (with_ledger_memory
       (\<lambda>L. ((), on_entry sid
          (checked_entry provider at False (bounded_usage_detail K (failure_detail_of K refused))
             (Some (failure_json K refused))) L)) st)"

definition report_entry ::
  "string \<Rightarrow> limit_reading list \<Rightarrow> instant \<Rightarrow> subscription_usage \<Rightarrow> subscription_usage" where
  "report_entry provider readings now e =
     (let e1 = foldl insert_reading e readings;
          e2 = (if readings \<noteq> [] then e1\<lparr>su_usage_source := Some UsageProvider\<rparr> else e1)
      in checked_entry provider now True None None e2)"

definition record_plan_usage ::
  "'f crates \<Rightarrow> string option \<Rightarrow> string \<Rightarrow> string \<Rightarrow> limit_reading list \<Rightarrow> instant \<Rightarrow> usage_store \<Rightarrow>
   ('f, unit) result \<times> usage_store" where
  "record_plan_usage K fault sid provider readings now st =
     (case write_ledger fault (\<lambda>L. ((), on_entry sid (report_entry provider readings now) L)) st of
        ((_, Inr _), st') \<Rightarrow> (Inr (), st')
      | ((_, Inl err), st') \<Rightarrow>
          (let refused = plan_usage_storage_failure K sid provider err
           in (Inl refused, remember_plan_usage_failure K sid provider now refused st')))"

definition record_plan_usage_unpublished ::
  "'f crates \<Rightarrow> string option \<Rightarrow> string \<Rightarrow> string \<Rightarrow> string \<Rightarrow> instant \<Rightarrow> usage_store \<Rightarrow>
   ('f, unit) result \<times> usage_store" where
  "record_plan_usage_unpublished K fault sid provider detail now st =
     (case write_ledger fault
         (\<lambda>L. ((), on_entry sid
            (checked_entry provider now True (bounded_usage_detail K (Some detail)) None) L)) st of
        ((_, Inr _), st') \<Rightarrow> (Inr (), st')
      | ((_, Inl err), st') \<Rightarrow>
          (let refused = plan_usage_storage_failure K sid provider err
           in (Inl refused, remember_plan_usage_failure K sid provider now refused st')))"

definition record_plan_usage_failure ::
  "'f crates \<Rightarrow> string option \<Rightarrow> string \<Rightarrow> string \<Rightarrow> 'f \<Rightarrow> instant \<Rightarrow> usage_store \<Rightarrow>
   ('f, unit) result \<times> usage_store" where
  "record_plan_usage_failure K fault sid provider refused now st =
     (case write_ledger fault
         (\<lambda>L. ((), on_entry sid
            (checked_entry provider now False (bounded_usage_detail K (failure_detail_of K refused))
               (Some (failure_json K refused))) L)) st of
        ((_, Inr _), st') \<Rightarrow> (Inr (), st')
      | ((_, Inl err), st') \<Rightarrow>
          (let storage = caused_by K (plan_usage_storage_failure K sid provider err) refused
           in (Inl storage, remember_plan_usage_failure K sid provider now storage st')))"

subsection \<open>What the checks leave\<close>

lemma entry_ok_probe:
  "pb_source p = Some Completion \<Longrightarrow> entry_ok e \<Longrightarrow> entry_ok (probe_entry provider now p e)"
  by (simp add: entry_ok_def probe_entry_def)

lemma entry_ok_checked: "entry_ok e \<Longrightarrow> entry_ok (checked_entry provider at ok detail refused e)"
  by (simp add: entry_ok_def checked_entry_def)

lemma entry_ok_report: "entry_ok e \<Longrightarrow> entry_ok (report_entry provider readings now e)"
  by (auto simp: report_entry_def Let_def entry_ok_def checked_entry_def foldl_insert_reading
      limits_ok_foldl)

interpretation probes: entry_writer "\<lambda>L. snd (record_probe sid provider ok detail now L)" sid
  for sid provider ok detail now
  unfolding record_probe_def Let_def snd_conv
  by (rule on_entry_writer) (simp add: entry_ok_probe)

interpretation reports: entry_writer "on_entry sid (report_entry provider readings now)" sid
  for sid provider readings now
  by (rule on_entry_writer) (rule entry_ok_report)

interpretation attempts: entry_writer "on_entry sid (checked_entry provider at ok detail refused)" sid
  for sid provider at ok detail refused
  by (rule on_entry_writer) (rule entry_ok_checked)

lemma remember_memory:
  "ls_ledger (ledger_state (remember_plan_usage_failure K sid provider at refused st)) =
     on_entry sid
       (checked_entry provider at False (bounded_usage_detail K (failure_detail_of K refused))
          (Some (failure_json K refused))) (ls_ledger (ledger_state st))"
  by (simp add: remember_plan_usage_failure_def with_ledger_memory_def Let_def ledger_state_def)

lemma remember_file [simp]:
  "us_file (remember_plan_usage_failure K sid provider at refused st) = us_file st"
  by (simp add: remember_plan_usage_failure_def with_ledger_memory_def Let_def)

lemma bounded_usage_detail_bound:
  "bounded_usage_detail K detail = Some d \<Longrightarrow> length d \<le> detail_limit K"
  by (auto simp: bounded_usage_detail_def split: option.splits if_splits)

end
