(* ===== verification/Declarations.thy ===== *)
theory Declarations
  imports BTree_Map
begin

section \<open>Provider declarations\<close>

text \<open>
  \<open>src/src/subscription_dispatch/acquire/declaration.rs\<close> with the two documents compiled into the
  binary beside it, \<open>providers.json\<close> and \<open>numeric-provenance.json\<close>: which providers' accounts may
  be bought and leased, and the operator's numbers for them.
\<close>

record harness_declaration =
  hd_provider :: string
  hd_model :: "string option"

datatype reset_protocol = CodexWham | ClaudePrograms

record reset_declaration =
  rdl_protocol :: reset_protocol
  rdl_listing_path :: string
  rdl_usage_path :: "string option"
  rdl_alternate_listing_path :: "string option"
  rdl_profile_path :: "string option"
  rdl_redemption_path :: string

record provider_declaration =
  pd_weles_provider :: "string option"
  pd_accounts_max :: "string option"
  pd_sessions_per_subscription_max :: string
  pd_harnesses :: "(string, harness_declaration) btmap"
  pd_resets :: "reset_declaration option"

definition DECLARATION_FILE :: string where
  "DECLARATION_FILE = ''src/subscription_dispatch/acquire/providers.json''"

definition NUMBERS_FILE :: string where
  "NUMBERS_FILE = ''src/subscription_dispatch/acquire/numeric-provenance.json''"

text \<open>\<open>providers.json\<close>, in name order.\<close>

definition DECLARED :: "(string, provider_declaration) btmap" where
  "DECLARED =
     [(''claude-code'',
        \<lparr>pd_weles_provider = Some ''claude'', pd_accounts_max = Some ''claude_code_accounts_max'',
         pd_sessions_per_subscription_max = ''sessions_per_subscription_max'',
         pd_harnesses =
           [(''claude'', \<lparr>hd_provider = ''anthropic'', hd_model = None\<rparr>),
            (''omp'', \<lparr>hd_provider = ''anthropic'', hd_model = Some ''anthropic/opus''\<rparr>)],
         pd_resets = None\<rparr>),
      (''codex'',
        \<lparr>pd_weles_provider = Some ''codex'', pd_accounts_max = None,
         pd_sessions_per_subscription_max = ''sessions_per_subscription_max'',
         pd_harnesses = [(''omp'', \<lparr>hd_provider = ''openai-codex'', hd_model = None\<rparr>)],
         pd_resets = Some
           \<lparr>rdl_protocol = CodexWham,
            rdl_listing_path = ''/backend-api/wham/rate-limit-reset-credits'',
            rdl_usage_path = Some ''/backend-api/wham/usage'',
            rdl_alternate_listing_path = None, rdl_profile_path = None,
            rdl_redemption_path = ''/backend-api/wham/rate-limit-reset-credits/consume''\<rparr>\<rparr>),
      (''kimi'',
        \<lparr>pd_weles_provider = Some ''kimi'', pd_accounts_max = None,
         pd_sessions_per_subscription_max = ''sessions_per_subscription_max'',
         pd_harnesses = [(''omp'', \<lparr>hd_provider = ''kimi-code'', hd_model = None\<rparr>)],
         pd_resets = None\<rparr>),
      (''zai'',
        \<lparr>pd_weles_provider = None, pd_accounts_max = None,
         pd_sessions_per_subscription_max = ''sessions_per_subscription_max'',
         pd_harnesses = [(''omp'', \<lparr>hd_provider = ''zai'', hd_model = None\<rparr>)],
         pd_resets = None\<rparr>)]"

text \<open>\<open>numeric-provenance.json\<close>: the value of each stated number.\<close>

definition STATED :: "(string, nat) btmap" where
  "STATED = [(''claude_code_accounts_max'', 5), (''sessions_per_subscription_max'', 5)]"

definition declared_providers :: "string list" where
  "declared_providers = map fst DECLARED"

definition declared_provider :: "string \<Rightarrow> (string, provider_declaration) result" where
  "declared_provider provider =
     (case bt_get DECLARED provider of
        Some d \<Rightarrow> Inr d
      | None \<Rightarrow> Inl (DECLARATION_FILE @ '' declares no subscription provider `'' @ provider @
                    ''`; it declares '' @ join '', '' declared_providers))"

definition declared_harness :: "string \<Rightarrow> string \<Rightarrow> (string, harness_declaration) result" where
  "declared_harness provider harness =
     (case declared_provider provider of
        Inl missing \<Rightarrow> Inl missing
      | Inr d \<Rightarrow>
          (case bt_get (pd_harnesses d) harness of
             Some h \<Rightarrow> Inr h
           | None \<Rightarrow> Inl (DECLARATION_FILE @ '' declares no `'' @ harness @ ''` harness for `'' @
               provider @ ''`; it declares '' @
               (if pd_harnesses d = [] then ''none'' else join '', '' (map fst (pd_harnesses d))))))"

definition stated :: "string \<Rightarrow> (string, nat) result" where
  "stated name =
     (case bt_get STATED name of
        Some v \<Rightarrow> Inr v
      | None \<Rightarrow> Inl (NUMBERS_FILE @ '' states no number `'' @ name @ ''`''))"

definition accounts_cap :: "string \<Rightarrow> (string, nat) result" where
  "accounts_cap provider =
     (case declared_provider provider of
        Inl missing \<Rightarrow> Inl missing
      | Inr d \<Rightarrow>
          (case pd_accounts_max d of
             None \<Rightarrow> Inl (''the operator has not authorized account purchases for '' @ provider)
           | Some name \<Rightarrow>
               (case stated name of
                  Inr cap \<Rightarrow> Inr cap
                | Inl missing \<Rightarrow> Inl (''the operator's account cap for '' @ provider @
                    '' is not stated: '' @ missing))))"

definition sessions_cap :: "string \<Rightarrow> (string, nat) result" where
  "sessions_cap provider =
     (case declared_provider provider of
        Inl missing \<Rightarrow> Inl missing
      | Inr d \<Rightarrow>
          (case stated (pd_sessions_per_subscription_max d) of
             Inr cap \<Rightarrow> Inr cap
           | Inl missing \<Rightarrow> Inl (''the operator's limit on sessions per '' @ provider @
               '' subscription is not stated: '' @ missing)))"

definition weles_provider :: "string \<Rightarrow> (string, string) result" where
  "weles_provider provider =
     (let provider = trim provider
      in (case declared_provider provider of
            Inl missing \<Rightarrow> Inl missing
          | Inr d \<Rightarrow>
              (case pd_weles_provider d of
                 Some w \<Rightarrow> Inr w
               | None \<Rightarrow> Inl (''provider `'' @ provider @
                   ''` declares no Weles authorization capability''))))"

lemma DECLARED_wf: "bt_wf DECLARED"
  by (simp add: DECLARED_def bt_wf_def)

lemma STATED_wf: "bt_wf STATED"
  by (simp add: STATED_def bt_wf_def)

text \<open>Every declared provider states a session limit, and it is not zero.\<close>

lemma sessions_cap_declared:
  "provider \<in> set declared_providers \<Longrightarrow> sessions_cap provider = Inr 5"
  by (auto simp: declared_providers_def DECLARED_def STATED_def sessions_cap_def declared_provider_def
      stated_def)

lemma sessions_cap_value: "sessions_cap provider = Inr limit \<Longrightarrow> limit = 5"
proof -
  assume cap: "sessions_cap provider = Inr limit"
  then obtain d where "bt_get DECLARED provider = Some d"
    by (auto simp: sessions_cap_def declared_provider_def split: option.splits sum.splits)
  then have "provider \<in> bt_keys DECLARED"
    by (metis bt_get_None option.distinct(1))
  then have "provider \<in> set declared_providers"
    by (simp add: declared_providers_def bt_keys_def)
  with cap sessions_cap_declared show ?thesis by simp
qed

end
