(* ===== verification/Usage_Credential.thy ===== *)
theory Usage_Credential
  imports Usage_Ledger Declarations
begin

section \<open>Where a subscription's grant stands\<close>

text \<open>
  \<open>src/src/subscription_dispatch/usage/credential/\<close>: the grant confirmed, replaced, retired or
  reinstated (\<open>mod.rs\<close>), refused (\<open>refusal.rs\<close>), what the ledger alone says of it
  (\<open>refresh_hint.rs\<close>), an account observed on the machine (\<open>discovery.rs\<close>) and the provider's
  one-time resets (\<open>resets.rs\<close>). Every operation is its mutation of one record, then its application
  to the ledger; where the code reads the clock twice the two instants are two arguments.
\<close>

subsection \<open>Confirmed, replaced, retired, reinstated\<close>

definition active_entry ::
  "string \<Rightarrow> instant option \<Rightarrow> bool \<Rightarrow> instant \<Rightarrow> subscription_usage \<Rightarrow> subscription_usage" where
  "active_entry provider expires refreshed now e =
     (let previous = su_credential e;
          unchanged = (\<not> refreshed \<and>
            (case previous of
               None \<Rightarrow> False
             | Some c \<Rightarrow> cr_state c = Active \<and> cr_cause c = None \<and> cr_expires_at_ms c = expires))
      in if unchanged then e
         else (let e1 = (case previous of
                           Some c \<Rightarrow> (if cr_state c = NeedsReauthorization then e\<lparr>su_block := None\<rparr> else e)
                         | None \<Rightarrow> e)
               in e1\<lparr>su_provider := provider, su_updated_at_ms := Some now,
                     su_credential := Some
                       \<lparr>cr_state = Active, cr_cause = None, cr_recorded_at_ms = now,
                        cr_expires_at_ms = expires,
                        cr_refreshed_at_ms =
                          (if refreshed then Some now else Option.bind previous cr_refreshed_at_ms),
                        cr_borrowed_from = Option.bind previous cr_borrowed_from\<rparr>\<rparr>))"

definition record_credential_active ::
  "string \<Rightarrow> string \<Rightarrow> instant option \<Rightarrow> bool \<Rightarrow> instant \<Rightarrow> ledger \<Rightarrow> ledger" where
  "record_credential_active sid provider expires refreshed now L =
     on_entry sid (active_entry provider expires refreshed now) L"

definition signed_in_entry :: "string \<Rightarrow> instant \<Rightarrow> subscription_usage \<Rightarrow> subscription_usage" where
  "signed_in_entry provider now e =
     (let e1 = (case su_credential e of
                  Some c \<Rightarrow> (if cr_state c = NeedsReauthorization then e\<lparr>su_block := None\<rparr> else e)
                | None \<Rightarrow> e)
      in e1\<lparr>su_provider := provider, su_updated_at_ms := Some now,
            su_credential := Some
              \<lparr>cr_state = Active, cr_cause = None, cr_recorded_at_ms = now, cr_expires_at_ms = None,
               cr_refreshed_at_ms = None, cr_borrowed_from = None\<rparr>\<rparr>)"

definition record_credential_signed_in :: "string \<Rightarrow> string \<Rightarrow> instant \<Rightarrow> ledger \<Rightarrow> ledger" where
  "record_credential_signed_in sid provider now L = on_entry sid (signed_in_entry provider now) L"

definition disabled_entry :: "string \<Rightarrow> string \<Rightarrow> instant \<Rightarrow> subscription_usage \<Rightarrow> subscription_usage" where
  "disabled_entry provider cause now e =
     (let previous = su_credential e
      in e\<lparr>su_provider := provider, su_updated_at_ms := Some now,
           su_credential := Some
             \<lparr>cr_state = Disabled, cr_cause = Some cause, cr_recorded_at_ms = now,
              cr_expires_at_ms = Option.bind previous cr_expires_at_ms,
              cr_refreshed_at_ms = Option.bind previous cr_refreshed_at_ms,
              cr_borrowed_from = Option.bind previous cr_borrowed_from\<rparr>\<rparr>)"

definition record_credential_disabled ::
  "string \<Rightarrow> string \<Rightarrow> string \<Rightarrow> instant \<Rightarrow> ledger \<Rightarrow> ledger" where
  "record_credential_disabled sid provider cause now L =
     on_entry sid (disabled_entry provider cause now) L"

definition reinstated_entry :: "string \<Rightarrow> string \<Rightarrow> instant \<Rightarrow> subscription_usage \<Rightarrow> subscription_usage" where
  "reinstated_entry provider reason now e =
     (let previous = su_credential e
      in e\<lparr>su_provider := provider, su_updated_at_ms := Some now,
           su_credential := Some
             \<lparr>cr_state = NeedsReauthorization, cr_cause = Some reason, cr_recorded_at_ms = now,
              cr_expires_at_ms = Option.bind previous cr_expires_at_ms,
              cr_refreshed_at_ms = Option.bind previous cr_refreshed_at_ms,
              cr_borrowed_from = Option.bind previous cr_borrowed_from\<rparr>\<rparr>)"

definition record_credential_reinstated ::
  "string \<Rightarrow> string \<Rightarrow> string \<Rightarrow> instant \<Rightarrow> ledger \<Rightarrow> ledger" where
  "record_credential_reinstated sid provider reason now L =
     on_entry sid (reinstated_entry provider reason now) L"

text \<open>The credential recorded for a subscription, and whether it is a refused one.\<close>

definition credential_of :: "ledger \<Rightarrow> string \<Rightarrow> credential option" where
  "credential_of L sid = Option.bind (bt_get L sid) su_credential"

definition needs_reauthorization :: "ledger \<Rightarrow> string \<Rightarrow> bool" where
  "needs_reauthorization L sid =
     (case credential_of L sid of None \<Rightarrow> False | Some c \<Rightarrow> cr_state c = NeedsReauthorization)"

subsection \<open>Refused\<close>

definition REAUTHORIZATION_BLOCK_MS :: int where
  "REAUTHORIZATION_BLOCK_MS = 30 * 60 * 1000"

definition refusal_recorded_at_ms :: "credential option \<Rightarrow> string \<Rightarrow> instant \<Rightarrow> instant" where
  "refusal_recorded_at_ms previous cause now =
     (case previous of
        Some c \<Rightarrow> (if cr_state c = NeedsReauthorization \<and> cr_cause c = Some cause
                   then cr_recorded_at_ms c else now)
      | None \<Rightarrow> now)"

definition reauthorization_entry ::
  "'f crates \<Rightarrow> string \<Rightarrow> string \<Rightarrow> string \<Rightarrow> instant \<Rightarrow> subscription_usage \<Rightarrow> subscription_usage" where
  "reauthorization_entry K sid provider reason now e =
     (let recorded =
            with_context K
              (with_context K
                (envelope K POINT_CREDENTIAL_BLOCK (code_for ''credential_unauthorized'')
                   IMPACT_CREDENTIAL_BLOCK reason)
                ''subscription'' sid)
              ''provider'' provider;
          previous = su_credential e
      in e\<lparr>su_provider := provider, su_updated_at_ms := Some now,
           su_credential := Some
             \<lparr>cr_state = NeedsReauthorization, cr_cause = Some reason,
              cr_recorded_at_ms = refusal_recorded_at_ms previous reason now,
              cr_expires_at_ms = Option.bind previous cr_expires_at_ms,
              cr_refreshed_at_ms = Option.bind previous cr_refreshed_at_ms,
              cr_borrowed_from = Option.bind previous cr_borrowed_from\<rparr>,
           su_block := Some
             \<lparr>bk_blocked_until_ms = i64_saturating_add now REAUTHORIZATION_BLOCK_MS,
              bk_reason = reason, bk_recorded_at_ms = now,
              bk_envelope = Some (failure_json K recorded), bk_quota_exhausted = False\<rparr>\<rparr>)"

definition record_reauthorization_needed ::
  "'f crates \<Rightarrow> string \<Rightarrow> string \<Rightarrow> string \<Rightarrow> instant \<Rightarrow> ledger \<Rightarrow> ledger" where
  "record_reauthorization_needed K sid provider reason now L =
     on_entry sid (reauthorization_entry K sid provider reason now) L"

subsection \<open>What the ledger alone says\<close>

datatype refresh_hint = AwaitingSignIn | NotDue | ReadVault

definition credential_refresh_hint :: "ledger \<Rightarrow> string \<Rightarrow> instant \<Rightarrow> refresh_hint" where
  "credential_refresh_hint L sid now =
     (case credential_of L sid of
        None \<Rightarrow> ReadVault
      | Some c \<Rightarrow>
          (if \<not> usable (cr_state c) then AwaitingSignIn
           else (case cr_expires_at_ms c of
                   Some expires \<Rightarrow> (if expires > now then NotDue else ReadVault)
                 | None \<Rightarrow> ReadVault)))"

definition credential_recorded_at_ms :: "ledger \<Rightarrow> string \<Rightarrow> instant option" where
  "credential_recorded_at_ms L sid = map_option cr_recorded_at_ms (credential_of L sid)"

definition awaiting_sign_in_cause :: "ledger \<Rightarrow> string \<Rightarrow> string option" where
  "awaiting_sign_in_cause L sid =
     (case credential_of L sid of
        None \<Rightarrow> None
      | Some c \<Rightarrow>
          (if usable (cr_state c) then None
           else Some (case cr_cause c of
                        Some cause \<Rightarrow> cause
                      | None \<Rightarrow> ''credential is '' @ state_as_str (cr_state c))))"

subsection \<open>Observed on the machine\<close>

record account_observation =
  ao_provider :: string
  ao_account :: string
  ao_plan :: "string option"
  ao_source :: string
  ao_observed_at_ms :: instant
  ao_fact_at_ms :: instant
  ao_discovered_at_ms :: instant
  ao_windows :: "limit_reading list"

definition sign_in_check_entry ::
  "string \<Rightarrow> (string \<times> string) option \<Rightarrow> instant \<Rightarrow> instant \<Rightarrow> subscription_usage \<Rightarrow> subscription_usage" where
  "sign_in_check_entry provider failed failed_at now e =
     e\<lparr>su_provider := provider,
       su_sign_in_check_failure :=
         map_option (\<lambda>(code, detail). \<lparr>sf_code = code, sf_detail = detail, sf_at_ms = failed_at\<rparr>) failed,
       su_updated_at_ms := Some now\<rparr>"

definition record_sign_in_check ::
  "string \<Rightarrow> string \<Rightarrow> (string \<times> string) option \<Rightarrow> instant \<Rightarrow> instant \<Rightarrow> ledger \<Rightarrow> ledger" where
  "record_sign_in_check sid provider failed failed_at now L =
     on_entry sid (sign_in_check_entry provider failed failed_at now) L"

text \<open>\<open>discovery.get_or_insert_with(..)\<close> and what one observation adds to it.\<close>

definition observed_account :: "account_observation \<Rightarrow> discovered_account option \<Rightarrow> discovered_account" where
  "observed_account ob held =
     (let d = (case held of
                 Some d \<Rightarrow> d
               | None \<Rightarrow>
                   \<lparr>da_account = ao_account ob, da_plan = ao_plan ob,
                    da_plan_at_ms = map_option (\<lambda>_. ao_fact_at_ms ob) (ao_plan ob),
                    da_sources = [], da_discovered_at_ms = ao_discovered_at_ms ob,
                    da_observed_at_ms = ao_observed_at_ms ob, da_registration_error = None\<rparr>);
          d1 = (if ao_source ob \<in> set (da_sources d) then d
                else d\<lparr>da_sources := da_sources d @ [ao_source ob]\<rparr>);
          d2 = (if ao_plan ob \<noteq> None \<and>
                   (case da_plan_at_ms d1 of None \<Rightarrow> True | Some at \<Rightarrow> ao_fact_at_ms ob \<ge> at)
                then d1\<lparr>da_plan := ao_plan ob, da_plan_at_ms := Some (ao_fact_at_ms ob)\<rparr> else d1)
      in d2\<lparr>da_discovered_at_ms := min (da_discovered_at_ms d2) (ao_discovered_at_ms ob),
            da_observed_at_ms := max (da_observed_at_ms d2) (ao_observed_at_ms ob)\<rparr>)"

text \<open>\<open>Option<i64> < Option<i64>\<close>: \<open>None\<close> is below every instant.\<close>

fun opt_less :: "instant option \<Rightarrow> instant option \<Rightarrow> bool" where
  "opt_less None (Some _) = True"
| "opt_less (Some a) (Some b) = (a < b)"
| "opt_less _ None = False"

text \<open>Each relayed window replaces the held one only when it is newer.\<close>

definition relay_window ::
  "(string, limit_reading) btmap \<times> bool \<Rightarrow> limit_reading \<Rightarrow> (string, limit_reading) btmap \<times> bool" where
  "relay_window acc w =
     (case acc of (limits, relayed) \<Rightarrow>
       (if (case bt_get limits (lr_limit_id w) of
              None \<Rightarrow> True | Some held \<Rightarrow> opt_less (lr_recorded_at_ms held) (lr_recorded_at_ms w))
        then (bt_insert (lr_limit_id w) w limits, True) else (limits, relayed)))"

definition discovery_cause :: "string \<Rightarrow> string" where
  "discovery_cause provider =
     (case weles_provider provider of
        Inr _ \<Rightarrow> ''account discovered; an independent Brama sign-in has not supplied a grant''
      | Inl cause \<Rightarrow> ''account discovered; '' @ cause @ '', so no independent Brama grant was obtained'')"

definition discovered_entry ::
  "account_observation \<Rightarrow> bool \<Rightarrow> instant \<Rightarrow> instant \<Rightarrow> subscription_usage \<Rightarrow> subscription_usage" where
  "discovered_entry ob needs_grant now recorded_at e =
     (let (limits, relayed) = foldl relay_window (su_limits e, False) (ao_windows ob);
          e1 = e\<lparr>su_provider := ao_provider ob,
                 su_discovery := Some (observed_account ob (su_discovery e)),
                 su_limits := limits\<rparr>;
          e2 = (if relayed then e1\<lparr>su_usage_source := Some UsageHarness\<rparr> else e1);
          e3 = e2\<lparr>su_updated_at_ms := Some now\<rparr>
      in (if needs_grant \<and> su_credential e3 = None
          then e3\<lparr>su_credential := Some
                    \<lparr>cr_state = NeedsReauthorization, cr_cause = Some (discovery_cause (ao_provider ob)),
                     cr_recorded_at_ms = recorded_at, cr_expires_at_ms = None,
                     cr_refreshed_at_ms = None, cr_borrowed_from = None\<rparr>\<rparr>
          else e3))"

definition record_discovered_account ::
  "string \<Rightarrow> account_observation \<Rightarrow> bool \<Rightarrow> instant \<Rightarrow> instant \<Rightarrow> ledger \<Rightarrow> ledger" where
  "record_discovered_account sid ob needs_grant now recorded_at L =
     on_entry sid (discovered_entry ob needs_grant now recorded_at) L"

definition record_registration :: "string \<Rightarrow> string option \<Rightarrow> instant \<Rightarrow> ledger \<Rightarrow> ledger" where
  "record_registration sid err now L =
     (case bt_get L sid of
        None \<Rightarrow> L
      | Some e \<Rightarrow>
          (case su_discovery e of
             None \<Rightarrow> L
           | Some d \<Rightarrow>
               bt_insert sid (e\<lparr>su_discovery := Some (d\<lparr>da_registration_error := err\<rparr>),
                               su_updated_at_ms := Some now\<rparr>) L))"

subsection \<open>One-time resets\<close>

definition reset_offer_entry ::
  "string \<Rightarrow> (string, reset_offer) result \<Rightarrow> instant \<Rightarrow> instant \<Rightarrow> subscription_usage \<Rightarrow> subscription_usage" where
  "reset_offer_entry provider outcome attempted_at now e =
     (let (offer, err) = (case outcome of
            Inr offer \<Rightarrow> (Some offer, None)
          | Inl err \<Rightarrow> (Option.bind (su_resets e) rb_offer, Some err))
      in e\<lparr>su_provider := provider,
           su_resets := Some \<lparr>rb_offer = offer, rb_attempted_at_ms = attempted_at, rb_error = err\<rparr>,
           su_updated_at_ms := Some now\<rparr>)"

definition record_reset_offer ::
  "string \<Rightarrow> string \<Rightarrow> (string, reset_offer) result \<Rightarrow> instant \<Rightarrow> instant \<Rightarrow> ledger \<Rightarrow> ledger" where
  "record_reset_offer sid provider outcome attempted_at now L =
     on_entry sid (reset_offer_entry provider outcome attempted_at now) L"

definition record_reset_redemption :: "reset_redemption \<Rightarrow> instant \<Rightarrow> ledger \<Rightarrow> ledger" where
  "record_reset_redemption outcome now L =
     on_entry (rd_member outcome)
       (\<lambda>e. e\<lparr>su_provider := rd_provider outcome, su_updated_at_ms := Some now,
             su_reset_redemption := Some outcome\<rparr>) L"

definition record_reset_unblocked :: "string \<Rightarrow> string \<Rightarrow> instant \<Rightarrow> ledger \<Rightarrow> ledger" where
  "record_reset_unblocked sid provider now L =
     (case bt_get L sid of
        None \<Rightarrow> L
      | Some e \<Rightarrow>
          (if su_provider e = provider \<and>
              (case su_block e of None \<Rightarrow> False | Some b \<Rightarrow> \<not> bk_quota_exhausted b)
           then bt_insert sid (e\<lparr>su_block := None, su_updated_at_ms := Some now\<rparr>) L else L))"

subsection \<open>Every operation keeps a well-formed record well formed\<close>

lemmas credential_entries = active_entry_def signed_in_entry_def disabled_entry_def
  reinstated_entry_def reauthorization_entry_def sign_in_check_entry_def reset_offer_entry_def

lemma entry_ok_credential_entries:
  assumes "entry_ok e"
  shows "entry_ok (active_entry provider expires refreshed now e)"
    and "entry_ok (signed_in_entry provider now e)"
    and "entry_ok (disabled_entry provider cause now e)"
    and "entry_ok (reinstated_entry provider reason now e)"
    and "entry_ok (reauthorization_entry K sid provider reason now e)"
    and "entry_ok (sign_in_check_entry provider failed failed_at now e)"
    and "entry_ok (reset_offer_entry provider outcome attempted_at now e)"
  using assms
  by (auto simp: credential_entries entry_ok_def credential_ok_def Let_def split: option.splits sum.splits)

lemma limits_ok_relay: "limits_ok limits \<Longrightarrow> limits_ok (fst (foldl relay_window (limits, relayed) ws))"
proof (induction ws arbitrary: limits relayed)
  case (Cons w ws)
  obtain limits' relayed' where step: "relay_window (limits, relayed) w = (limits', relayed')"
    by (cases "relay_window (limits, relayed) w")
  with Cons.prems have "limits_ok limits'"
    by (auto simp: relay_window_def split: if_splits)
  with Cons.IH step show ?case by simp
qed simp

lemma entry_ok_discovered: "entry_ok e \<Longrightarrow> entry_ok (discovered_entry ob needs_grant now recorded_at e)"
  using limits_ok_relay [of "su_limits e" False "ao_windows ob"]
  by (auto simp: discovered_entry_def entry_ok_def credential_ok_def Let_def split: prod.splits)

lemma ledger_ok_insert: "ledger_ok L \<Longrightarrow> entry_ok e \<Longrightarrow> ledger_ok (bt_insert sid e L)"
  by (auto simp: ledger_ok_def bt_wf_insert bt_get_insert split: if_splits)

lemma ledger_ok_get: "ledger_ok L \<Longrightarrow> bt_get L sid = Some e \<Longrightarrow> entry_ok e"
  by (simp add: ledger_ok_def)

interpretation active: entry_writer "record_credential_active sid provider expires refreshed now" sid
  for sid provider expires refreshed now
  unfolding record_credential_active_def
  by (rule on_entry_writer) (rule entry_ok_credential_entries)

interpretation signed_in: entry_writer "record_credential_signed_in sid provider now" sid
  for sid provider now
  unfolding record_credential_signed_in_def
  by (rule on_entry_writer) (rule entry_ok_credential_entries)

interpretation disabled: entry_writer "record_credential_disabled sid provider cause now" sid
  for sid provider cause now
  unfolding record_credential_disabled_def
  by (rule on_entry_writer) (rule entry_ok_credential_entries)

interpretation reinstated: entry_writer "record_credential_reinstated sid provider reason now" sid
  for sid provider reason now
  unfolding record_credential_reinstated_def
  by (rule on_entry_writer) (rule entry_ok_credential_entries)

interpretation disowned: entry_writer "record_reauthorization_needed K sid provider reason now" sid
  for K sid provider reason now
  unfolding record_reauthorization_needed_def
  by (rule on_entry_writer) (rule entry_ok_credential_entries)

interpretation sign_in_checks: entry_writer "record_sign_in_check sid provider failed failed_at now" sid
  for sid provider failed failed_at now
  unfolding record_sign_in_check_def
  by (rule on_entry_writer) (rule entry_ok_credential_entries)

interpretation offers: entry_writer "record_reset_offer sid provider outcome attempted_at now" sid
  for sid provider outcome attempted_at now
  unfolding record_reset_offer_def
  by (rule on_entry_writer) (rule entry_ok_credential_entries)

interpretation discoveries: entry_writer "record_discovered_account sid ob needs_grant now recorded_at" sid
  for sid ob needs_grant now recorded_at
  unfolding record_discovered_account_def
  by (rule on_entry_writer) (rule entry_ok_discovered)

interpretation redemptions: entry_writer "record_reset_redemption outcome now" "rd_member outcome"
  for outcome now
  unfolding record_reset_redemption_def
  by (rule on_entry_writer) (simp add: entry_ok_def)

interpretation registrations: entry_writer "record_registration sid err now" sid
  for sid err now
  by unfold_locales
     (auto simp: record_registration_def bt_get_insert entry_ok_def dest: ledger_ok_get
       intro!: ledger_ok_insert split: option.splits)

interpretation unblocked: entry_writer "record_reset_unblocked sid provider now" sid
  for sid provider now
  by unfold_locales
     (auto simp: record_reset_unblocked_def bt_get_insert entry_ok_def dest: ledger_ok_get
       intro!: ledger_ok_insert split: option.splits)

subsection \<open>Reading a grant off the ledger\<close>

lemma credential_of_on_entry [simp]:
  "credential_of (on_entry sid f L) i =
     (if i = sid then su_credential (f (entry_of L sid)) else credential_of L i)"
  by (simp add: credential_of_def entry_of_def)

lemma credential_of_entry_of: "credential_of L sid = su_credential (entry_of L sid)"
  by (simp add: credential_of_def entry_of_def usage_default_def split: option.splits)

lemma awaiting_iff_unusable:
  "awaiting_sign_in_cause L sid \<noteq> None \<longleftrightarrow> (\<exists>c. credential_of L sid = Some c \<and> \<not> usable (cr_state c))"
  by (auto simp: awaiting_sign_in_cause_def split: option.splits)

lemma refresh_hint_awaiting:
  "credential_refresh_hint L sid now = AwaitingSignIn \<longleftrightarrow> awaiting_sign_in_cause L sid \<noteq> None"
  by (auto simp: credential_refresh_hint_def awaiting_sign_in_cause_def split: option.splits)

end
