(* ===== verification/Plan_Windows.thy ===== *)
theory Plan_Windows
  imports Usage_Spend Usage_Checks Usage_Credential
begin

section \<open>Plan windows and standing refusals\<close>

text \<open>
  \<open>src/src/subscription_dispatch/usage/plan_window/mod.rs\<close> and \<open>standing.rs\<close>: which readings a
  reader is given, when they are due again, how full the tightest current window is, and what the
  ledger alone already holds against presenting a subscription.
\<close>

fun source_as_str :: "usage_source \<Rightarrow> string" where
  "source_as_str UsageProvider = ''provider''"
| "source_as_str UsageTraffic = ''traffic''"
| "source_as_str UsageProbe = ''probe''"
| "source_as_str UsageHarness = ''harness''"

definition plan_usage_due :: "ledger \<Rightarrow> string \<Rightarrow> instant \<Rightarrow> bool" where
  "plan_usage_due L sid now =
     (case bt_get L sid of
        None \<Rightarrow> True
      | Some e \<Rightarrow>
          (case su_usage_check e of None \<Rightarrow> False | Some c \<Rightarrow> \<not> pb_ok c) \<or>
          su_limits e = [] \<or>
          list_ex (\<lambda>r. case lr_resets_at_ms r of None \<Rightarrow> True | Some t \<Rightarrow> t \<le> now)
            (bt_values (su_limits e)))"

record plan_windows =
  pw_limits :: "limit_reading list"
  pw_source :: "usage_source option"
  pw_stale :: bool

definition plan_windows :: "subscription_usage option \<Rightarrow> instant \<Rightarrow> plan_windows" where
  "plan_windows usage now =
     (case usage of
        None \<Rightarrow> \<lparr>pw_limits = [], pw_source = None, pw_stale = False\<rparr>
      | Some u \<Rightarrow>
          (let limits = bt_values (su_limits u)
           in if limits = [] then \<lparr>pw_limits = limits, pw_source = None, pw_stale = False\<rparr>
              else \<lparr>pw_limits = limits, pw_source = su_usage_source u,
                    pw_stale =
                      (case su_usage_check u of None \<Rightarrow> False | Some c \<Rightarrow> \<not> pb_ok c) \<or>
                      list_ex (\<lambda>r. lr_recorded_at_ms r = None \<or>
                        (case lr_resets_at_ms r of None \<Rightarrow> False | Some t \<Rightarrow> t \<le> now)) limits\<rparr>))"

text \<open>The clock is read once for the projection and once for the filter over it.\<close>

definition next_reset_ms :: "ledger \<Rightarrow> string \<Rightarrow> instant \<Rightarrow> instant \<Rightarrow> instant option" where
  "next_reset_ms L sid now1 now =
     (case usage_for L sid of
        None \<Rightarrow> None
      | Some e \<Rightarrow>
          min_opt (filter (\<lambda>t. t > now)
            (filter_map lr_resets_at_ms (pw_limits (plan_windows (Some e) now1)))))"

definition window_current :: "instant \<Rightarrow> limit_reading \<Rightarrow> bool" where
  "window_current now r = (case lr_resets_at_ms r of None \<Rightarrow> True | Some t \<Rightarrow> t > now)"

definition used_fraction :: "ledger \<Rightarrow> string \<Rightarrow> instant \<Rightarrow> instant \<Rightarrow> f64 option" where
  "used_fraction L sid now1 now =
     (case usage_for L sid of
        None \<Rightarrow> None
      | Some e \<Rightarrow>
          f64_reduce_max (map lr_used_fraction
            (filter (window_current now) (pw_limits (plan_windows (Some e) now1)))))"

subsection \<open>The refusal already recorded\<close>

definition block_instant :: "'f crates \<Rightarrow> instant \<Rightarrow> string" where
  "block_instant K ms =
     (case utc_text K ms of
        Some at \<Rightarrow> at
      | None \<Rightarrow> show_int ms @ ''ms since the epoch, outside the calendar'')"

definition standing_refusal :: "'f crates \<Rightarrow> ledger \<Rightarrow> string \<Rightarrow> instant \<Rightarrow> refusal option" where
  "standing_refusal K L sid now =
     (case awaiting_sign_in_cause L sid of
        Some cause \<Rightarrow>
          Some (gateway GSubscriptionReauthorizationRequired (''awaiting sign-in: '' @ cause))
      | None \<Rightarrow>
          (case standing_block L sid now of
             None \<Rightarrow> None
           | Some b \<Rightarrow>
               (let lifts = block_instant K (bk_blocked_until_ms b)
                in if bk_quota_exhausted b
                   then Some \<lparr>rf_class = QuotaExhausted,
                              rf_message = ''paid balance spent, recorded until '' @ lifts @ '': '' @ bk_reason b\<rparr>
                   else Some \<lparr>rf_class = RateLimited,
                              rf_message = ''rate limited, the block lifts at '' @ lifts @ '': '' @ bk_reason b\<rparr>)))"

subsection \<open>Facts\<close>

lemma pw_limits_plan_windows [simp]: "pw_limits (plan_windows (Some e) now) = bt_values (su_limits e)"
  by (simp add: plan_windows_def Let_def)

lemma used_fraction_some_current:
  "used_fraction L sid now1 now = Some f \<longleftrightarrow>
     (\<exists>e. bt_get L sid = Some e \<and>
       f64_reduce_max (map lr_used_fraction (filter (window_current now) (bt_values (su_limits e)))) = Some f)"
  by (auto simp: used_fraction_def usage_for_def split: option.splits)

lemma standing_refusal_cases:
  "standing_refusal K L sid now = None \<longleftrightarrow>
     awaiting_sign_in_cause L sid = None \<and> \<not> is_blocked L sid now"
  by (auto simp: standing_refusal_def is_blocked_def Let_def split: option.splits)

lemma standing_refusal_class:
  "standing_refusal K L sid now = Some rf \<Longrightarrow>
     rf_class rf \<in> {Gateway GSubscriptionReauthorizationRequired, QuotaExhausted, RateLimited}"
  by (auto simp: standing_refusal_def gateway_def Let_def split: option.splits if_splits)

text \<open>A reading that is due is one whose windows no longer all state a future reset.\<close>

lemma plan_usage_due_fresh:
  "\<not> plan_usage_due L sid now \<longleftrightarrow>
     (\<exists>e. bt_get L sid = Some e \<and> su_limits e \<noteq> [] \<and>
        (\<forall>c. su_usage_check e = Some c \<longrightarrow> pb_ok c) \<and>
        (\<forall>r \<in> set (bt_values (su_limits e)). \<exists>t. lr_resets_at_ms r = Some t \<and> now < t))"
  by (fastforce simp: plan_usage_due_def list_ex_iff not_le split: option.splits)

subsection \<open>What an account may be presented for\<close>

lemma standing_refusal_entry:
  "standing_refusal K L sid at = None \<longleftrightarrow>
     (\<forall>c. su_credential (entry_of L sid) = Some c \<longrightarrow> usable (cr_state c)) \<and>
     (\<forall>b. su_block (entry_of L sid) = Some b \<longrightarrow> bk_blocked_until_ms b \<le> at)"
proof -
  have "is_blocked L sid at \<longleftrightarrow> (\<exists>b. su_block (entry_of L sid) = Some b \<and> at < bk_blocked_until_ms b)"
    by (auto simp: is_blocked_def standing_block_def entry_of_def usage_default_def split: option.splits)
  moreover have "awaiting_sign_in_cause L sid = None \<longleftrightarrow>
      (\<forall>c. su_credential (entry_of L sid) = Some c \<longrightarrow> usable (cr_state c))"
    using awaiting_iff_unusable [of L sid] by (auto simp: credential_of_entry_of)
  ultimately show ?thesis by (auto simp: standing_refusal_cases not_less)
qed

definition ledger_retired :: "ledger \<Rightarrow> string \<Rightarrow> bool" where
  "ledger_retired L sid = (\<exists>c. credential_of L sid = Some c \<and> cr_state c = Disabled)"

lemma usable_proved: "usable (cr_state (proved_credential now c)) \<longleftrightarrow> cr_state c \<noteq> Disabled"
  by (cases "cr_state c") (simp_all add: proved_credential_def)

text \<open>
  After a call an account may be presented at any instant exactly when, for an answered call, its
  owner has not retired it (an answer ends a recorded block and a recorded refusal of the grant,
  never a retirement), and, for a refused call, exactly when it might have been before.
\<close>

theorem call_decides_presentable:
  "standing_refusal K (fst (record_call sid provider response now L)) sid at = None \<longleftrightarrow>
     (if success response then \<not> ledger_retired L sid else standing_refusal K L sid at = None)"
proof (cases "success response")
  case True
  then show ?thesis
    by (auto simp: record_call_def record_call_from_def standing_refusal_entry entry_simps usable_proved
        ledger_retired_def credential_of_entry_of)
next
  case False
  then show ?thesis
    by (simp add: record_call_def record_call_from_def standing_refusal_entry entry_simps)
qed

text \<open>
  A grant its provider disowned keeps its account from being presented at every instant, block
  expired or not, until a sign-in replaces the grant, which makes the account presentable again. The
  same sentence recorded again keeps the instant the refusal was first recorded; a different one
  starts its own.
\<close>

theorem disowned_until_signed_in:
  "let L1 = record_reauthorization_needed K sid provider reason now L;
       L2 = record_reauthorization_needed K sid provider reason' later L1
   in (\<exists>rf. standing_refusal K L1 sid at = Some rf
          \<and> rf_class rf = Gateway GSubscriptionReauthorizationRequired)
    \<and> standing_refusal K (record_credential_signed_in sid provider' at0 L1) sid at = None
    \<and> credential_recorded_at_ms L2 sid =
        (if reason' = reason then credential_recorded_at_ms L1 sid else Some later)
    \<and> awaiting_sign_in_cause L2 sid = Some reason'"
proof -
  have refused: "awaiting_sign_in_cause (record_reauthorization_needed K sid provider reason now L) sid = Some reason"
    for provider reason now L
    by (simp add: record_reauthorization_needed_def awaiting_sign_in_cause_def reauthorization_entry_def Let_def)
  have signed: "standing_refusal K (record_credential_signed_in sid provider' at0
      (record_reauthorization_needed K sid provider reason now L)) sid at = None"
    by (simp add: standing_refusal_entry record_credential_signed_in_def record_reauthorization_needed_def
        signed_in_entry_def reauthorization_entry_def Let_def)
  have instants: "credential_recorded_at_ms (record_reauthorization_needed K sid provider reason' later
      (record_reauthorization_needed K sid provider reason now L)) sid =
      (if reason' = reason then credential_recorded_at_ms (record_reauthorization_needed K sid provider reason now L) sid
       else Some later)"
    by (simp add: credential_recorded_at_ms_def record_reauthorization_needed_def reauthorization_entry_def
        Let_def refusal_recorded_at_ms_def)
  have stands: "\<exists>rf. standing_refusal K (record_reauthorization_needed K sid provider reason now L) sid at = Some rf
      \<and> rf_class rf = Gateway GSubscriptionReauthorizationRequired"
    by (simp add: standing_refusal_def refused gateway_def)
  show ?thesis unfolding Let_def using stands signed instants refused by blast
qed

subsection \<open>What the readings decide\<close>

text \<open>
  An account counts as full exactly when some window that has not yet reset is at its limit:
  windows already reset do not count, and a reading that is not a number neither fills an account
  nor hides a full window beside it.
\<close>

theorem full_iff_current_window_full:
  "(\<exists>f. used_fraction L sid now1 now = Some f \<and> at_limit f) \<longleftrightarrow>
     (\<exists>r \<in> set (bt_values (su_limits (entry_of L sid))).
        (case lr_resets_at_ms r of None \<Rightarrow> True | Some t \<Rightarrow> now < t) \<and> at_limit (lr_used_fraction r))"
proof -
  let ?rs = "filter (window_current now) (bt_values (su_limits (entry_of L sid)))"
  have "used_fraction L sid now1 now = f64_reduce_max (map lr_used_fraction ?rs)"
    by (simp add: used_fraction_def usage_for_def entry_of_def usage_default_def bt_values_def
        f64_reduce_max_def split: option.splits)
  then have "(\<exists>f. used_fraction L sid now1 now = Some f \<and> at_limit f) \<longleftrightarrow>
      (case f64_reduce_max (map lr_used_fraction ?rs) of None \<Rightarrow> False | Some m \<Rightarrow> at_limit m)"
    by (simp only:) (simp split: option.split del: f64_reduce_max_None)
  also have "\<dots> \<longleftrightarrow> (\<exists>r \<in> set ?rs. at_limit (lr_used_fraction r))"
    unfolding at_limit_reduce_max by simp
  finally show ?thesis by (auto simp: window_current_def)
qed

text \<open>
  The next instant anything falls due is after now, is stated by some record (a working grant's
  expiry, a window's reset or a block's end), and no record states an earlier one still to come; there is
  none exactly when no record states a future instant.
\<close>

theorem next_due_is_first:
  "(case next_due_ms now L of
      None \<Rightarrow> \<not> (\<exists>e t. e \<in> set (bt_values L) \<and> t \<in> set (due_instants e) \<and> now < t)
    | Some t \<Rightarrow> now < t \<and> (\<exists>e \<in> set (bt_values L). t \<in> set (due_instants e))
        \<and> \<not> (\<exists>e t'. e \<in> set (bt_values L) \<and> t' \<in> set (due_instants e) \<and> now < t' \<and> t' < t))"
proof (cases "next_due_ms now L")
  case None
  then have "filter (\<lambda>at. at > now) (concat (map due_instants (bt_values L))) = []"
    by (simp add: next_due_ms_def)
  then show ?thesis using None by (auto simp: filter_empty_conv)
next
  case (Some t)
  then have "t \<in> set (filter (\<lambda>at. at > now) (concat (map due_instants (bt_values L))))"
    and least: "\<forall>x \<in> set (filter (\<lambda>at. at > now) (concat (map due_instants (bt_values L)))). t \<le> x"
    unfolding next_due_ms_def min_opt_Some by blast+
  with Some show ?thesis by fastforce
qed

lemma relay_fold:
  assumes "foldl relay_window (m, b) ws = (m', b')"
  shows "(\<forall>k r. bt_get m k = Some r \<longrightarrow> (\<exists>r'. bt_get m' k = Some r' \<and>
            (r' = r \<or> r' \<in> set ws \<and> lr_limit_id r' = k \<and> opt_less (lr_recorded_at_ms r) (lr_recorded_at_ms r')))) \<and>
         (\<forall>w \<in> set ws. \<exists>r'. bt_get m' (lr_limit_id w) = Some r' \<and>
            \<not> opt_less (lr_recorded_at_ms r') (lr_recorded_at_ms w))"
  using assms
proof (induction ws arbitrary: m b)
  case (Cons w ws)
  have trans: "opt_less a c" if "opt_less a b" "opt_less b c" for a b c
    using that by (cases a; cases b; cases c) auto
  have total: "\<not> opt_less c a" if "\<not> opt_less b a" "b = c \<or> opt_less b c" for a b c
    using that by (cases a; cases b; cases c) auto
  have irrefl: "\<not> opt_less a a" for a by (cases a) auto
  obtain m1 b1 where step: "relay_window (m, b) w = (m1, b1)" by fastforce
  have held: "\<exists>r1. bt_get m1 (lr_limit_id w) = Some r1 \<and> \<not> opt_less (lr_recorded_at_ms r1) (lr_recorded_at_ms w)"
    using step irrefl by (auto simp: relay_window_def bt_get_insert split: if_splits option.splits)
  have kept: "\<exists>r1. bt_get m1 k = Some r1 \<and> (r1 = r \<or> r1 = w \<and> lr_limit_id w = k \<and>
      opt_less (lr_recorded_at_ms r) (lr_recorded_at_ms w))" if "bt_get m k = Some r" for k r
    using step that by (auto simp: relay_window_def bt_get_insert split: if_splits option.splits)
  from Cons.prems step have rest: "foldl relay_window (m1, b1) ws = (m', b')" by simp
  note IH = Cons.IH [OF rest]
  show ?case
  proof (intro conjI allI impI ballI)
    fix k r assume "bt_get m k = Some r"
    from kept [OF this] IH show "\<exists>r'. bt_get m' k = Some r' \<and> (r' = r \<or> r' \<in> set (w # ws) \<and>
      lr_limit_id r' = k \<and> opt_less (lr_recorded_at_ms r) (lr_recorded_at_ms r'))"
      by (fastforce intro: trans)
  next
    fix v assume "v \<in> set (w # ws)"
    then consider "v = w" | "v \<in> set ws" by auto
    then show "\<exists>r'. bt_get m' (lr_limit_id v) = Some r' \<and>
      \<not> opt_less (lr_recorded_at_ms r') (lr_recorded_at_ms v)"
    proof cases
      case 1
      from held IH obtain r1 r' where "\<not> opt_less (lr_recorded_at_ms r1) (lr_recorded_at_ms w)"
        "bt_get m' (lr_limit_id w) = Some r'" "r1 = r' \<or> opt_less (lr_recorded_at_ms r1) (lr_recorded_at_ms r')"
        by blast
      with 1 total [of "lr_recorded_at_ms r1" "lr_recorded_at_ms w" "lr_recorded_at_ms r'"] show ?thesis by auto
    qed (use IH in blast)
  qed
qed simp

text \<open>
  A relayed reading never replaces one at least as recent: after an account is discovered, each
  window the ledger held is held still, unchanged or replaced by a strictly newer relayed reading of the
  same window, and every relayed window is held at least as recent as it was relayed.
\<close>

theorem relay_keeps_newest:
  assumes "bt_get (su_limits (entry_of L sid)) k = Some r" and "w \<in> set (ao_windows ob)"
  shows "let limits = su_limits (entry_of (record_discovered_account sid ob needs now at L) sid)
    in (\<exists>r'. bt_get limits k = Some r' \<and> (r' = r \<or> r' \<in> set (ao_windows ob) \<and> lr_limit_id r' = k \<and>
          opt_less (lr_recorded_at_ms r) (lr_recorded_at_ms r')))
     \<and> (\<exists>r'. bt_get limits (lr_limit_id w) = Some r' \<and> \<not> opt_less (lr_recorded_at_ms r') (lr_recorded_at_ms w))"
proof -
  obtain m' b' where fold: "foldl relay_window (su_limits (entry_of L sid), False) (ao_windows ob) = (m', b')"
    by fastforce
  then have "su_limits (entry_of (record_discovered_account sid ob needs now at L) sid) = m'"
    by (simp add: record_discovered_account_def discovered_entry_def Let_def)
  with relay_fold [OF fold] assms show ?thesis by (simp add: Let_def)
qed

definition plain_window :: "instant \<Rightarrow> limit_reading" where
  "plain_window at =
     \<lparr>lr_limit_id = ''5h'', lr_label = [], lr_window_label = None, lr_used_fraction = 0,
      lr_resets_at_ms = None, lr_recorded_at_ms = Some at\<rparr>"

definition plain_observation :: account_observation where
  "plain_observation =
     \<lparr>ao_provider = ''codex'', ao_account = ''a'', ao_plan = None, ao_source = ''h'',
      ao_observed_at_ms = 9, ao_fact_at_ms = 9, ao_discovered_at_ms = 9, ao_windows = [plain_window 5]\<rparr>"

definition plain_ledger :: ledger where
  "plain_ledger = [(''s1'', usage_default\<lparr>su_limits := [(''5h'', plain_window 7)]\<rparr>)]"

theorem relay_keeps_newest_witness:
  "let limits = su_limits (entry_of (record_discovered_account ''s1'' plain_observation False 10 10 plain_ledger) ''s1'')
   in (\<exists>r'. bt_get limits ''5h'' = Some r' \<and> (r' = plain_window 7 \<or> r' \<in> set (ao_windows plain_observation) \<and>
         lr_limit_id r' = ''5h'' \<and> opt_less (lr_recorded_at_ms (plain_window 7)) (lr_recorded_at_ms r')))
    \<and> (\<exists>r'. bt_get limits (lr_limit_id (plain_window 5)) = Some r'
         \<and> \<not> opt_less (lr_recorded_at_ms r') (lr_recorded_at_ms (plain_window 5)))"
  by (rule relay_keeps_newest) (simp_all add: plain_ledger_def plain_observation_def entry_of_def)

end
