(* ===== verification/Usage_Events.thy ===== *)
theory Usage_Events
  imports Plan_Windows
begin

section \<open>Histories of the ledger\<close>

text \<open>
  Every operation of the ledger as an event, the store they drive as a step relation, and what
  holds of every store a process can be in: after any sequence of operations, failed writes of the
  file and restarts of the process included.
\<close>

datatype usage_event =
    CallEv string string model_response usage_source instant
  | BlockEv string string refusal "limit_reading list" instant
  | ReportedBlockEv string string string instant instant
  | ProbeEv string string bool "string option" instant
  | ActiveEv string string "instant option" bool instant
  | SignedInEv string string instant
  | DisabledEv string string string instant
  | ReinstatedEv string string string instant
  | DisownedEv string string string instant
  | SignInCheckEv string string "(string \<times> string) option" instant instant
  | DiscoveredEv string account_observation bool instant instant
  | RegistrationEv string "string option" instant
  | OfferEv string string "(string, reset_offer) result" instant instant
  | RedemptionEv reset_redemption instant
  | UnblockedEv string string instant
  | RemovedEv string

fun ledger_event :: "'f crates \<Rightarrow> usage_event \<Rightarrow> ledger \<Rightarrow> ledger" where
  "ledger_event K (CallEv sid p r src now) = record_call_from sid p r src now"
| "ledger_event K (BlockEv sid p rf limits now) = record_block K sid p rf limits now"
| "ledger_event K (ReportedBlockEv sid p reason until now) = record_reported_block K sid p reason until now"
| "ledger_event K (ProbeEv sid p ok detail now) = (\<lambda>L. snd (record_probe sid p ok detail now L))"
| "ledger_event K (ActiveEv sid p expires refreshed now) = record_credential_active sid p expires refreshed now"
| "ledger_event K (SignedInEv sid p now) = record_credential_signed_in sid p now"
| "ledger_event K (DisabledEv sid p cause now) = record_credential_disabled sid p cause now"
| "ledger_event K (ReinstatedEv sid p reason now) = record_credential_reinstated sid p reason now"
| "ledger_event K (DisownedEv sid p reason now) = record_reauthorization_needed K sid p reason now"
| "ledger_event K (SignInCheckEv sid p failed at now) = record_sign_in_check sid p failed at now"
| "ledger_event K (DiscoveredEv sid ob needs now at) = record_discovered_account sid ob needs now at"
| "ledger_event K (RegistrationEv sid err now) = record_registration sid err now"
| "ledger_event K (OfferEv sid p outcome at now) = record_reset_offer sid p outcome at now"
| "ledger_event K (RedemptionEv outcome now) = record_reset_redemption outcome now"
| "ledger_event K (UnblockedEv sid p now) = record_reset_unblocked sid p now"
| "ledger_event K (RemovedEv sid) = bt_remove sid"

fun subject :: "usage_event \<Rightarrow> string" where
  "subject (CallEv sid p r src now) = sid"
| "subject (BlockEv sid p rf limits now) = sid"
| "subject (ReportedBlockEv sid p reason until now) = sid"
| "subject (ProbeEv sid p ok detail now) = sid"
| "subject (ActiveEv sid p expires refreshed now) = sid"
| "subject (SignedInEv sid p now) = sid"
| "subject (DisabledEv sid p cause now) = sid"
| "subject (ReinstatedEv sid p reason now) = sid"
| "subject (DisownedEv sid p reason now) = sid"
| "subject (SignInCheckEv sid p failed at now) = sid"
| "subject (DiscoveredEv sid ob needs now at) = sid"
| "subject (RegistrationEv sid err now) = sid"
| "subject (OfferEv sid p outcome at now) = sid"
| "subject (RedemptionEv outcome now) = rd_member outcome"
| "subject (UnblockedEv sid p now) = sid"
| "subject (RemovedEv sid) = sid"

text \<open>The contract each operation was shown to meet, for an event.\<close>

lemma ledger_event_writer: "entry_writer (ledger_event K ev) (subject ev)"
  by (cases ev)
     (simp_all only: ledger_event.simps subject.simps calls.entry_writer_axioms
       blocks.entry_writer_axioms reported.entry_writer_axioms probes.entry_writer_axioms
       active.entry_writer_axioms signed_in.entry_writer_axioms disabled.entry_writer_axioms
       reinstated.entry_writer_axioms disowned.entry_writer_axioms sign_in_checks.entry_writer_axioms
       discoveries.entry_writer_axioms registrations.entry_writer_axioms offers.entry_writer_axioms
       redemptions.entry_writer_axioms unblocked.entry_writer_axioms forgets.entry_writer_axioms)

interpretation events: entry_writer "ledger_event K ev" "subject ev" for K ev
  by (rule ledger_event_writer)

subsection \<open>One store, step by step\<close>

inductive usage_step :: "'f crates \<Rightarrow> usage_store \<Rightarrow> usage_store \<Rightarrow> bool" for K where
  Record: "usage_step K st (with_ledger fault (ledger_event K ev) st)"
| Report: "usage_step K st (snd (record_plan_usage K fault sid p readings now st))"
| Unpublished: "usage_step K st (snd (record_plan_usage_unpublished K fault sid p detail now st))"
| ReportFailed: "usage_step K st (snd (record_plan_usage_failure K fault sid p refused now st))"
| Look: "usage_step K st (snd (read_ledger (\<lambda>L. L) st))"
| Restart: "usage_step K st (st\<lparr>us_state := None\<rparr>)"

definition usage_reaches :: "'f crates \<Rightarrow> usage_store \<Rightarrow> usage_store \<Rightarrow> bool" where
  "usage_reaches K = (usage_step K)\<^sup>*\<^sup>*"

definition file_ok :: "usage_file \<Rightarrow> bool" where
  "file_ok file = (\<forall>L. file = FileLedger L \<longrightarrow> bt_wf L \<and> (\<forall>sid e. bt_get L sid = Some e \<longrightarrow> stored_ok e))"

text \<open>
  A process's copy is well formed, refuses to write exactly when what it loaded could not be read
  as a ledger, says so, and, when it reports no storage error, is the copy a restart would load.
\<close>

definition state_ok :: "usage_file \<Rightarrow> ledger_state \<Rightarrow> bool" where
  "state_ok file s =
     (ledger_ok (ls_ledger s) \<and>
      ls_persist_blocked s = ls_persist_blocked (load file) \<and>
      (ls_persist_blocked s \<longrightarrow> ls_storage_error s \<noteq> None) \<and>
      (ls_storage_error s = None \<longrightarrow> ls_ledger s = ls_ledger (load file)))"

definition store_ok :: "usage_store \<Rightarrow> bool" where
  "store_ok st =
     (file_ok (us_file st) \<and> (\<forall>s. us_state st = Some s \<longrightarrow> state_ok (us_file st) s))"

lemma bt_get_map: "bt_get (map (\<lambda>(i, u). (i, f u)) m) k = map_option f (bt_get m k)"
  by (induction m k rule: bt_get.induct) auto

lemma bt_wf_map [simp]: "bt_wf (map (\<lambda>(i, u). (i, f u)) m) = bt_wf m"
  by (simp add: bt_wf_def sorted_wrt_map split_def)

lemma ledger_ok_load: "file_ok file \<Longrightarrow> ledger_ok (ls_ledger (load file))"
  by (auto simp: file_ok_def load_def ledger_ok_def bt_get_map entry_ok_migrate split: usage_file.splits)

lemma load_ok_ledger: "ledger_ok L \<Longrightarrow> ls_ledger (load (FileLedger L)) = L"
proof -
  assume ok: "ledger_ok L"
  then have "distinct (map fst L)"
    by (simp add: ledger_ok_def bt_wf_def strict_sorted_iff)
  have "(i, migrate_usage u) = (i, u)" if "(i, u) \<in> set L" for i u
  proof -
    have "bt_get L i = Some u"
      using that \<open>distinct (map fst L)\<close> by (induction L i rule: bt_get.induct) force+
    with ok show ?thesis by (simp add: ledger_ok_def)
  qed
  then show ?thesis by (auto simp: load_def intro: map_idI)
qed

lemma file_ok_ledger: "ledger_ok L \<Longrightarrow> file_ok (FileLedger L)"
  by (simp add: file_ok_def ledger_ok_def entry_ok_stored)

lemma state_ok_load: "file_ok file \<Longrightarrow> state_ok file (load file)"
  by (simp add: state_ok_def ledger_ok_load) (simp add: load_def split: usage_file.splits)

lemma store_ok_state: "store_ok st \<Longrightarrow> state_ok (us_file st) (ledger_state st)"
  by (auto simp: store_ok_def ledger_state_def state_ok_load split: option.splits)

lemma not_blocked_load: "\<not> ls_persist_blocked (load (FileLedger L))"
  by (simp add: load_def)

lemma persist_state_ok:
  assumes "ledger_ok L" "file_ok file" "\<not> ls_persist_blocked (load file)"
    and "persist fault L file = (stored, file')"
  shows "file_ok file' \<and>
    state_ok file' \<lparr>ls_ledger = L,
      ls_storage_error = (case stored of Inr _ \<Rightarrow> None | Inl e \<Rightarrow> Some e), ls_persist_blocked = False\<rparr>"
proof -
  consider err where "stored = Inl err" "file' = file" | "stored = Inr ()" "file' = FileLedger L"
    using assms(4) by (auto simp: persist_def split: usage_file.splits option.splits)
  then show ?thesis
    using assms by cases (simp_all add: state_ok_def load_ok_ledger file_ok_ledger not_blocked_load)
qed

lemma store_ok_write:
  assumes "store_ok st" "\<And>L. ledger_ok L \<Longrightarrow> ledger_ok (snd (f L))"
  shows "store_ok (snd (write_ledger fault f st))"
proof -
  note st = store_ok_state [OF assms(1)]
  obtain outcome L where f: "f (ls_ledger (ledger_state st)) = (outcome, L)" by fastforce
  have L: "ledger_ok L" using st assms(2) [of "ls_ledger (ledger_state st)"] f by (simp add: state_ok_def)
  have fok: "file_ok (us_file st)" using assms(1) by (simp add: store_ok_def)
  show ?thesis
  proof (cases "ls_persist_blocked (ledger_state st)")
    case True
    with st L fok f show ?thesis
      by (simp add: store_ok_def state_ok_def write_ledger_def Let_def)
  next
    case False
    obtain stored file' where p: "persist fault L (us_file st) = (stored, file')" by fastforce
    have "\<not> ls_persist_blocked (load (us_file st))" using False st by (simp add: state_ok_def)
    from persist_state_ok [OF L fok this p] False f p show ?thesis
      by (simp add: store_ok_def write_ledger_def Let_def)
  qed
qed

lemma store_ok_remember:
  assumes "store_ok st" "storage_error st \<noteq> None"
  shows "store_ok (remember_plan_usage_failure K sid provider at refused st)"
proof -
  from store_ok_state [OF assms(1)] assms show ?thesis
    by (auto simp: store_ok_def state_ok_def storage_error_def remember_plan_usage_failure_def
        with_ledger_memory_def Let_def attempts.keeps_ok)
qed

lemma storage_error_write:
  "write_ledger fault f st = ((outcome, Inl err), st') \<Longrightarrow> storage_error st' = Some err"
  using write_ledger_error [of fault f st] by simp

text \<open>The three report operations share one shape: write, and on a failed write remember why.\<close>

lemma store_ok_report:
  assumes "store_ok st" "\<And>L. ledger_ok L \<Longrightarrow> ledger_ok (f L)"
    and "write_ledger fault (\<lambda>L. ((), f L)) st = ((outcome, stored), st')"
  shows "store_ok st'"
    and "stored = Inl err \<Longrightarrow> store_ok (remember_plan_usage_failure K sid provider at refused st')"
proof -
  show ok: "store_ok st'"
    using store_ok_write [OF assms(1), of "\<lambda>L. ((), f L)" fault] assms(2,3) by simp
  show "store_ok (remember_plan_usage_failure K sid provider at refused st')" if "stored = Inl err"
    using ok assms(3) that by (simp add: store_ok_remember storage_error_write)
qed

lemma store_ok_step: "usage_step K st st' \<Longrightarrow> store_ok st \<Longrightarrow> store_ok st'"
proof (induction rule: usage_step.induct)
  case (Record st fault ev)
  then show ?case by (simp add: with_ledger_def store_ok_write events.keeps_ok)
next
  case (Report st fault sid p readings now)
  note ok = store_ok_report [OF Report reports.keeps_ok]
  show ?case
    by (auto simp: record_plan_usage_def Let_def intro: ok split: prod.splits sum.splits)
next
  case (Unpublished st fault sid p detail now)
  note ok = store_ok_report [OF Unpublished attempts.keeps_ok]
  show ?case
    by (auto simp: record_plan_usage_unpublished_def Let_def intro: ok split: prod.splits sum.splits)
next
  case (ReportFailed st fault sid p refused now)
  note ok = store_ok_report [OF ReportFailed attempts.keeps_ok]
  show ?case
    by (auto simp: record_plan_usage_failure_def Let_def intro: ok split: prod.splits sum.splits)
next
  case (Look st)
  then show ?case
    using store_ok_state [OF Look] by (simp add: read_ledger_def Let_def store_ok_def)
next
  case (Restart st)
  then show ?case by (simp add: store_ok_def)
qed

lemma store_ok_reaches: "usage_reaches K st st' \<Longrightarrow> store_ok st \<Longrightarrow> store_ok st'"
  unfolding usage_reaches_def by (induction rule: rtranclp_induct) (auto intro: store_ok_step)

lemma history_write:
  assumes "store_ok st" "file_is_history (us_file st)" "write_ledger fault f st = (r, st')"
  shows "us_file st' = us_file st"
  using store_ok_state [OF assms(1)] load_blocked [OF assms(2)] write_ledger_file [of fault f st] assms(3)
  by (simp add: state_ok_def)

lemma file_history_step:
  "usage_step K st st' \<Longrightarrow> store_ok st \<Longrightarrow> file_is_history (us_file st) \<Longrightarrow> us_file st' = us_file st"
proof (induction rule: usage_step.induct)
  case (Record st fault ev)
  then show ?case by (auto simp: with_ledger_def intro: history_write [OF _ _ surjective_pairing])
qed (auto simp: record_plan_usage_def record_plan_usage_unpublished_def record_plan_usage_failure_def
    read_ledger_def Let_def dest: history_write split: prod.splits sum.splits)

lemma file_history_reaches:
  "usage_reaches K st st' \<Longrightarrow> store_ok st \<Longrightarrow> file_is_history (us_file st) \<Longrightarrow> us_file st' = us_file st"
  unfolding usage_reaches_def
  by (induction rule: rtranclp_induct)
     (auto simp: usage_reaches_def [symmetric] dest: file_history_step store_ok_reaches)

subsection \<open>What holds of every ledger a process can hold\<close>

definition fresh_store :: "usage_file \<Rightarrow> usage_store" where
  "fresh_store file = \<lparr>us_state = None, us_file = file\<rparr>"

lemma fresh_store_ok: "file_ok file \<Longrightarrow> store_ok (fresh_store file)"
  by (simp add: store_ok_def fresh_store_def)

lemma reached_state_ok:
  "file_ok file \<Longrightarrow> usage_reaches K (fresh_store file) st \<Longrightarrow> state_ok (us_file st) (ledger_state st)"
  by (auto intro: store_ok_state store_ok_reaches fresh_store_ok)

text \<open>One run the witnesses apply the properties to: a call is recorded, then its write fails, then a probe.\<close>

definition sample_run :: "usage_file \<Rightarrow> usage_store" where
  "sample_run file =
     with_ledger None (ledger_event plain_crates (ProbeEv ''s1'' ''codex'' True None 3))
       (with_ledger (Some ''disk full'') (ledger_event plain_crates (CallEv ''s1'' ''codex'' plain_answer UsageTraffic 2))
         (fresh_store file))"

lemma sample_run_reached: "usage_reaches plain_crates (fresh_store file) (sample_run file)"
  unfolding usage_reaches_def sample_run_def by (meson r_into_rtranclp rtranclp_trans usage_step.Record)

text \<open>
  C14. From a process started on any ledger file, after any sequence of ledger operations, reports,
  readings, failed writes and restarts, every record is well formed: accounts are kept once and in
  order, failures and unmeasured answers never exceed the requests, a window is kept under its own id,
  a grant carries a cause exactly when it is not usable, and no usage-report verdict stands in the
  field completion probes own.
\<close>

theorem every_reached_ledger_ok:
  assumes "file_ok file" and "usage_reaches K (fresh_store file) st"
  shows "ledger_ok (recorded_subscriptions st)"
  using reached_state_ok [OF assms] by (simp add: state_ok_def recorded_subscriptions_def)

theorem every_reached_ledger_ok_witness:
  "file_ok FileAbsent \<and> usage_reaches plain_crates (fresh_store FileAbsent) (sample_run FileAbsent)
   \<and> ledger_ok (recorded_subscriptions (sample_run FileAbsent))"
proof -
  have "file_ok FileAbsent" by (simp add: file_ok_def)
  with sample_run_reached every_reached_ledger_ok [of FileAbsent plain_crates "sample_run FileAbsent"]
  show ?thesis by blast
qed

text \<open>
  Nothing recorded is lost by a restart unless the process said so: in every reached state that
  reports no storage error, the ledger a new process loads from the file is the ledger this one holds.
\<close>

theorem restart_keeps_the_ledger:
  assumes "file_ok file" and "usage_reaches K (fresh_store file) st" and "storage_error st = None"
  shows "recorded_subscriptions (st\<lparr>us_state := None\<rparr>) = recorded_subscriptions st"
  using reached_state_ok [OF assms(1,2)] assms(3)
  by (simp add: state_ok_def storage_error_def recorded_subscriptions_def ledger_state_def [of "st\<lparr>us_state := None\<rparr>"])

theorem restart_keeps_the_ledger_witness:
  "recorded_subscriptions ((sample_run FileAbsent)\<lparr>us_state := None\<rparr>) = recorded_subscriptions (sample_run FileAbsent)"
proof (rule restart_keeps_the_ledger)
  show "file_ok FileAbsent" by (simp add: file_ok_def)
  show "usage_reaches plain_crates (fresh_store FileAbsent) (sample_run FileAbsent)" by (rule sample_run_reached)
  show "storage_error (sample_run FileAbsent) = None"
    by (simp add: sample_run_def fresh_store_def with_ledger_def write_ledger_def storage_error_def
        ledger_state_def load_def persist_def Let_def)
qed

text \<open>
  C34. A ledger file that could not be read or decoded is history and is never overwritten: whatever the
  process records afterwards, and however often it restarts, the file stays as it is and every state reports
  the storage error.
\<close>

theorem unreadable_ledger_never_overwritten:
  assumes "file_is_history file" and "usage_reaches K (fresh_store file) st"
  shows "us_file st = file \<and> storage_error st \<noteq> None"
proof -
  have ok: "file_ok file" using assms(1) by (auto simp: file_is_history_def file_ok_def)
  have kept: "us_file st = file"
    using file_history_reaches [OF assms(2) fresh_store_ok [OF ok]] assms(1) by (simp add: fresh_store_def)
  with reached_state_ok [OF ok assms(2)] load_blocked [OF assms(1)] show ?thesis
    by (simp add: state_ok_def storage_error_def)
qed

theorem unreadable_ledger_never_overwritten_witness:
  "us_file (sample_run (FileUndecodable ''bad'')) = FileUndecodable ''bad''
   \<and> storage_error (sample_run (FileUndecodable ''bad'')) \<noteq> None"
  by (rule unreadable_ledger_never_overwritten [OF _ sample_run_reached]) (simp add: file_is_history_def)

text \<open>
  An operation writes the record of the account it names and no other, whether or not its write
  reached the file: every reader of another account sees what it saw.
\<close>

theorem operations_touch_one_account:
  assumes "other \<noteq> subject ev"
  shows "usage_for (recorded_subscriptions (with_ledger fault (ledger_event K ev) st)) other =
    usage_for (recorded_subscriptions st) other"
  using events.frame [OF assms] by (simp add: recorded_subscriptions_def usage_for_def)

theorem operations_touch_one_account_witness:
  "usage_for (recorded_subscriptions (with_ledger None (ledger_event plain_crates (RemovedEv ''s1'')) (fresh_store FileAbsent)))
     ''s2'' = usage_for (recorded_subscriptions (fresh_store FileAbsent)) ''s2''"
  by (rule operations_touch_one_account) simp

end
