(* ===== verification/Alias_Measures.thy ===== *)
theory Alias_Measures
  imports BTree_Map
begin

section \<open>What each alias has carried and was last answered\<close>

text \<open>
  \<open>src/src/journal/concurrency.rs\<close> and \<open>answers.rs\<close>. A call in flight is a live \<open>Arc\<close> the route
  keeps a weak reference to: handles are numbers, \<open>cc_live\<close> holds the ones not dropped yet, and a
  route's \<open>calls\<close> may still name handles that ended.
\<close>

subsection \<open>Concurrency\<close>

record concurrency =
  cy_carried :: "nat option"
  cy_refused_beside :: "nat option"
  cy_in_flight :: nat

record route =
  rt_calls :: "nat list"
  rt_carried :: "nat option"
  rt_refused_beside :: "nat option"

definition route_default :: route where
  "route_default = \<lparr>rt_calls = [], rt_carried = None, rt_refused_beside = None\<rparr>"

record concurrency_state =
  cc_routes :: "(string, route) btmap"
  cc_live :: "nat list"
  cc_next :: nat

datatype settled = Answered | RefusedForCapacity | OtherRefusal

record admission =
  ad_alias :: string
  ad_call :: nat

text \<open>\<open>Route::in_flight\<close>: forget the calls that ended, count the rest.\<close>

definition route_in_flight :: "nat list \<Rightarrow> route \<Rightarrow> nat \<times> route" where
  "route_in_flight live r =
     (let calls = filter (\<lambda>c. c \<in> set live) (rt_calls r) in (length calls, r\<lparr>rt_calls := calls\<rparr>))"

definition admit :: "string \<Rightarrow> concurrency_state \<Rightarrow> admission \<times> concurrency_state" where
  "admit alias s =
     (let call = cc_next s
      in (\<lparr>ad_alias = alias, ad_call = call\<rparr>,
          s\<lparr>cc_next := call + 1, cc_live := cc_live s @ [call],
            cc_routes := bt_entry route_default alias (\<lambda>r. r\<lparr>rt_calls := rt_calls r @ [call]\<rparr>)
              (cc_routes s)\<rparr>))"

text \<open>An abandoned request drops its handle and nothing else.\<close>

definition abandon :: "admission \<Rightarrow> concurrency_state \<Rightarrow> concurrency_state" where
  "abandon a s = s\<lparr>cc_live := removeAll (ad_call a) (cc_live s)\<rparr>"

definition settled_route :: "settled \<Rightarrow> nat \<Rightarrow> nat \<Rightarrow> route \<Rightarrow> route" where
  "settled_route how with_this_one beside r = (case how of
       Answered \<Rightarrow>
         r\<lparr>rt_carried := Some (case rt_carried r of Some c \<Rightarrow> max c with_this_one | None \<Rightarrow> with_this_one)\<rparr>
     | RefusedForCapacity \<Rightarrow>
         r\<lparr>rt_refused_beside := Some beside,
           rt_carried := Some (case rt_carried r of Some c \<Rightarrow> min c beside | None \<Rightarrow> beside)\<rparr>
     | OtherRefusal \<Rightarrow> r)"

definition settle :: "admission \<Rightarrow> settled \<Rightarrow> concurrency_state \<Rightarrow> concurrency_state" where
  "settle a how s =
     (let live' = removeAll (ad_call a) (cc_live s)
      in s\<lparr>cc_live := live',
           cc_routes := bt_entry route_default (ad_alias a)
             (\<lambda>r. let (with_this_one, r1) = route_in_flight (cc_live s) r;
                      (beside, r2) = route_in_flight live' r1
                  in settled_route how with_this_one beside r2) (cc_routes s)\<rparr>)"

definition current_concurrency :: "concurrency_state \<Rightarrow> (string, concurrency) btmap \<times> concurrency_state" where
  "current_concurrency s =
     (map (\<lambda>(alias, r). (alias, \<lparr>cy_carried = rt_carried r, cy_refused_beside = rt_refused_beside r,
                                 cy_in_flight = fst (route_in_flight (cc_live s) r)\<rparr>)) (cc_routes s),
      s\<lparr>cc_routes := map (\<lambda>(alias, r). (alias, snd (route_in_flight (cc_live s) r))) (cc_routes s)\<rparr>)"

subsection \<open>The last answer\<close>

record last_answer =
  la_answered :: bool
  la_refusal :: "string option"
  la_message :: "string option"
  la_at :: string

type_synonym answers = "(string, last_answer) btmap"

datatype answers_file = AnswersAbsent | AnswersUnreadable string | AnswersNotJson string | AnswersFile answers

text \<open>\<open>record_answer\<close> is \<open>answers::record\<close>; \<open>fault\<close> is whether the file system refuses the rename.\<close>

record answers_state =
  an_last :: "answers option"
  an_file :: answers_file

definition last_answers :: "answers_file \<Rightarrow> (string, answers) result" where
  "last_answers file = (case file of
       AnswersAbsent \<Rightarrow> Inr []
     | AnswersUnreadable err \<Rightarrow> Inl err
     | AnswersNotJson err \<Rightarrow> Inl err
     | AnswersFile m \<Rightarrow> Inr m)"

definition answers_copy :: "answers_state \<Rightarrow> answers" where
  "answers_copy s =
     (case an_last s of
        Some m \<Rightarrow> m
      | None \<Rightarrow> (case last_answers (an_file s) of Inr m \<Rightarrow> m | Inl _ \<Rightarrow> []))"

definition record_answer ::
  "bool \<Rightarrow> string \<Rightarrow> (string \<times> string option) option \<Rightarrow> string \<Rightarrow> answers_state \<Rightarrow> answers_state" where
  "record_answer fault alias refusal at s =
     (let last = answers_copy s;
          answered = (refusal = None);
          cls = map_option fst refusal
      in if (case bt_get last alias of
               None \<Rightarrow> False
             | Some known \<Rightarrow> la_answered known = answered \<and> la_refusal known = cls)
         then s\<lparr>an_last := Some last\<rparr>
         else (let last' = bt_insert alias
                     \<lparr>la_answered = answered, la_refusal = cls,
                      la_message = Option.bind refusal snd, la_at = at\<rparr> last
               in \<lparr>an_last = Some last', an_file = (if fault then an_file s else AnswersFile last')\<rparr>))"

subsection \<open>The handles and the counts agree\<close>

text \<open>
  Every handle a route names was issued, once, and a live handle is named by the route of its
  alias. \<open>owner\<close> is the history variable: which alias a handle was admitted to.
\<close>

definition in_flight_of :: "concurrency_state \<Rightarrow> string \<Rightarrow> nat" where
  "in_flight_of s alias =
     (case bt_get (cc_routes s) alias of
        None \<Rightarrow> 0
      | Some r \<Rightarrow> length (filter (\<lambda>c. c \<in> set (cc_live s)) (rt_calls r)))"

definition carried_of :: "concurrency_state \<Rightarrow> string \<Rightarrow> nat option" where
  "carried_of s alias = Option.bind (bt_get (cc_routes s) alias) rt_carried"

definition route_ok :: "(nat \<Rightarrow> string) \<Rightarrow> nat \<Rightarrow> string \<Rightarrow> route \<Rightarrow> bool" where
  "route_ok owner bound alias r =
     (distinct (rt_calls r) \<and> (\<forall>c \<in> set (rt_calls r). c < bound \<and> owner c = alias))"

definition named :: "(string, route) btmap \<Rightarrow> string \<Rightarrow> nat set" where
  "named routes alias = (case bt_get routes alias of None \<Rightarrow> {} | Some r \<Rightarrow> set (rt_calls r))"

definition concurrency_ok :: "(nat \<Rightarrow> string) \<Rightarrow> concurrency_state \<Rightarrow> bool" where
  "concurrency_ok owner s =
     ((\<forall>alias r. bt_get (cc_routes s) alias = Some r \<longrightarrow> route_ok owner (cc_next s) alias r) \<and>
      distinct (cc_live s) \<and>
      (\<forall>c \<in> set (cc_live s). c < cc_next s \<and> c \<in> named (cc_routes s) (owner c)))"

lemma concurrency_okD:
  assumes "concurrency_ok owner s"
  shows "bt_get (cc_routes s) alias = Some r \<Longrightarrow> route_ok owner (cc_next s) alias r"
    and "distinct (cc_live s)"
    and "c \<in> set (cc_live s) \<Longrightarrow> c < cc_next s \<and> c \<in> named (cc_routes s) (owner c)"
  using assms by (simp_all add: concurrency_ok_def)

lemma route_ok_default [simp]: "route_ok owner bound alias route_default"
  by (simp add: route_ok_def route_default_def)

lemma named_entry:
  "named (bt_entry route_default alias f routes) i =
     (if i = alias then set (rt_calls (f (case bt_get routes alias of None \<Rightarrow> route_default | Some r \<Rightarrow> r)))
      else named routes i)"
  by (simp add: named_def)

lemma named_default:
  "named routes alias = set (rt_calls (case bt_get routes alias of None \<Rightarrow> route_default | Some r \<Rightarrow> r))"
  by (simp add: named_def route_default_def split: option.splits)

lemma route_of_ok:
  "concurrency_ok owner s \<Longrightarrow>
     route_ok owner (cc_next s) alias (case bt_get (cc_routes s) alias of None \<Rightarrow> route_default | Some r \<Rightarrow> r)"
  by (auto simp: concurrency_okD split: option.splits)

lemma concurrency_ok_admit:
  assumes ok: "concurrency_ok owner s" and "admit alias s = (a, s')"
  shows "concurrency_ok (owner(ad_call a := alias)) s'"
proof -
  let ?r = "case bt_get (cc_routes s) alias of None \<Rightarrow> route_default | Some r \<Rightarrow> r"
  let ?n = "cc_next s" and ?o = "owner(cc_next s := alias)"
  have a: "ad_call a = ?n"
    and routes: "cc_routes s' = bt_entry route_default alias (\<lambda>r. r\<lparr>rt_calls := rt_calls r @ [?n]\<rparr>) (cc_routes s)"
    and live: "cc_live s' = cc_live s @ [?n]" and nxt: "cc_next s' = Suc ?n"
    using assms(2) by (auto simp: admit_def Let_def)
  have old: "route_ok owner ?n i r \<Longrightarrow> route_ok ?o (Suc ?n) i r" for i r
    by (auto simp: route_ok_def)
  have new: "route_ok ?o (Suc ?n) alias (?r\<lparr>rt_calls := rt_calls ?r @ [?n]\<rparr>)"
    using route_of_ok [OF ok, of "alias"] by (auto simp: route_ok_def)
  have fresh: "c \<noteq> ?n" if "c \<in> set (cc_live s)" for c
    using concurrency_okD(3) [OF ok that] by simp
  show ?thesis
    unfolding concurrency_ok_def a routes live nxt
    using concurrency_okD [OF ok] old new fresh
    by (auto simp: named_entry named_default [symmetric] less_SucI split: if_splits)
qed

lemma concurrency_ok_abandon: "concurrency_ok owner s \<Longrightarrow> concurrency_ok owner (abandon a s)"
  by (auto simp: concurrency_ok_def abandon_def distinct_removeAll)

lemma settled_route_calls [simp]: "rt_calls (settled_route how w b r) = rt_calls r"
  by (simp add: settled_route_def split: settled.splits)

lemma route_in_flight_snd [simp]:
  "snd (route_in_flight live r) = r\<lparr>rt_calls := filter (\<lambda>c. c \<in> set live) (rt_calls r)\<rparr>"
  "fst (route_in_flight live r) = length (filter (\<lambda>c. c \<in> set live) (rt_calls r))"
  by (simp_all add: route_in_flight_def Let_def)

lemma concurrency_ok_settle:
  assumes ok: "concurrency_ok owner s"
  shows "concurrency_ok owner (settle a how s)"
proof -
  let ?here = "ad_alias a"
  let ?r = "case bt_get (cc_routes s) ?here of None \<Rightarrow> route_default | Some r \<Rightarrow> r"
  have r: "route_ok owner (cc_next s) ?here ?r" by (rule route_of_ok [OF ok])
  have live_named: "\<forall>c i. c \<in> set (cc_live s) \<and> owner c = i \<longrightarrow> c < cc_next s \<and> c \<in> named (cc_routes s) i"
    using concurrency_okD(3) [OF ok] by blast
  show ?thesis
    unfolding concurrency_ok_def
    using concurrency_okD(1,2) [OF ok] r live_named
    by (auto simp: settle_def Let_def named_entry named_default [symmetric] route_ok_def split_beta
        distinct_removeAll split: if_splits)
qed

text \<open>The number reported in flight is the number of live handles admitted to the alias.\<close>

lemma in_flight_counts_live:
  assumes ok: "concurrency_ok owner s"
  shows "in_flight_of s alias = length (filter (\<lambda>c. owner c = alias) (cc_live s))"
proof (cases "bt_get (cc_routes s) alias")
  case None
  have "False" if "c \<in> set (cc_live s)" "owner c = alias" for c
    using concurrency_okD(3) [OF ok that(1)] that(2) None by (simp add: named_def)
  then have "filter (\<lambda>c. owner c = alias) (cc_live s) = []"
    by (auto simp: filter_empty_conv)
  with None show ?thesis by (simp add: in_flight_of_def)
next
  case (Some r)
  let ?calls = "filter (\<lambda>c. c \<in> set (cc_live s)) (rt_calls r)"
  let ?live = "filter (\<lambda>c. owner c = alias) (cc_live s)"
  have r: "route_ok owner (cc_next s) alias r" by (rule concurrency_okD(1) [OF ok Some])
  have "c \<in> set (rt_calls r)" if "c \<in> set (cc_live s)" "owner c = alias" for c
    using concurrency_okD(3) [OF ok that(1)] that(2) Some by (simp add: named_def)
  then have "set ?calls = set ?live"
    using r by (auto simp: route_ok_def)
  moreover have "distinct ?calls" "distinct ?live"
    using r concurrency_okD(2) [OF ok] by (simp_all add: route_ok_def)
  ultimately have "length ?calls = length ?live" by (metis distinct_card)
  with Some show ?thesis by (simp add: in_flight_of_def)
qed

subsection \<open>Histories of admissions\<close>

text \<open>What any interleaving of requests makes of the shared state, with the alias each handle was admitted to.\<close>

inductive carrying :: "(nat \<Rightarrow> string) \<Rightarrow> concurrency_state \<Rightarrow> bool" where
  Start: "carrying owner \<lparr>cc_routes = [], cc_live = [], cc_next = 0\<rparr>"
| Admit: "carrying owner s \<Longrightarrow> admit alias s = (a, s') \<Longrightarrow> carrying (owner(ad_call a := alias)) s'"
| Abandon: "carrying owner s \<Longrightarrow> carrying owner (abandon a s)"
| Settle: "carrying owner s \<Longrightarrow> carrying owner (settle a how s)"
| Read: "carrying owner s \<Longrightarrow> carrying owner (snd (current_concurrency s))"

lemma bt_get_map_routes:
  "bt_get (map (\<lambda>(alias, r). (alias, f r)) m) alias = map_option f (bt_get m alias)"
  by (induction m "alias" rule: bt_get.induct) auto

lemma concurrency_ok_read: "concurrency_ok owner s \<Longrightarrow> concurrency_ok owner (snd (current_concurrency s))"
proof -
  assume ok: "concurrency_ok owner s"
  let ?pruned = "\<lambda>r. snd (route_in_flight (cc_live s) r)"
  have "route_ok owner (cc_next s) i (?pruned r)" if "bt_get (cc_routes s) i = Some r" for i r
    using concurrency_okD(1) [OF ok that] by (auto simp: route_ok_def)
  moreover have "c \<in> named (map (\<lambda>(i, r). (i, ?pruned r)) (cc_routes s)) (owner c)" if "c \<in> set (cc_live s)" for c
    using concurrency_okD(3) [OF ok that] that
    by (auto simp: named_def bt_get_map_routes split: option.splits)
  ultimately show ?thesis
    using concurrency_okD(2,3) [OF ok]
    by (auto simp: concurrency_ok_def current_concurrency_def bt_get_map_routes)
qed

lemma carrying_ok: "carrying owner s \<Longrightarrow> concurrency_ok owner s"
proof (induction rule: carrying.induct)
  case Start
  then show ?case by (simp add: concurrency_ok_def)
next
  case (Admit owner s "alias" a s')
  then show ?case by (intro concurrency_ok_admit)
qed (auto intro: concurrency_ok_abandon concurrency_ok_settle concurrency_ok_read)

text \<open>
  However requests are admitted, abandoned, settled and read in between, the in-flight count
  reported for an alias is exactly the number of live handles admitted to that alias: a request that
  ended on any path is counted no more, and none is counted for another alias.
\<close>

theorem reported_in_flight_is_live:
  assumes "carrying owner s" and "bt_get (fst (current_concurrency s)) alias = Some c"
  shows "cy_in_flight c = length (filter (\<lambda>call. owner call = alias) (cc_live s))"
proof -
  from assms(2) obtain r where r: "bt_get (cc_routes s) alias = Some r"
    "cy_in_flight c = fst (route_in_flight (cc_live s) r)"
    by (auto simp: current_concurrency_def bt_get_map_routes)
  then have "cy_in_flight c = in_flight_of s alias" by (simp add: in_flight_of_def)
  with in_flight_counts_live [OF carrying_ok [OF assms(1)]] show ?thesis by simp
qed

definition one_admitted :: concurrency_state where
  "one_admitted = snd (admit ''best'' \<lparr>cc_routes = [], cc_live = [], cc_next = 0\<rparr>)"

theorem reported_in_flight_is_live_witness:
  "\<exists>c owner. bt_get (fst (current_concurrency one_admitted)) ''best'' = Some c
     \<and> cy_in_flight c = length (filter (\<lambda>call. owner call = ''best'') (cc_live one_admitted))"
proof -
  let ?start = "\<lparr>cc_routes = [], cc_live = [], cc_next = 0\<rparr>"
  have "carrying ((\<lambda>_. [])(ad_call (fst (admit ''best'' ?start)) := ''best'')) one_admitted"
    unfolding one_admitted_def by (rule carrying.Admit [OF carrying.Start surjective_pairing])
  moreover have "\<exists>c. bt_get (fst (current_concurrency one_admitted)) ''best'' = Some c"
    by (simp add: current_concurrency_def one_admitted_def admit_def Let_def bt_entry_def)
  ultimately show ?thesis using reported_in_flight_is_live by blast
qed

text \<open>What is known after a measurement of \<open>n\<close>: the larger, or the smaller, of it and what was known before.\<close>

fun raised :: "nat option \<Rightarrow> nat \<Rightarrow> nat" where
  "raised None n = n"
| "raised (Some c) n = (if c < n then n else c)"

fun lowered :: "nat option \<Rightarrow> nat \<Rightarrow> nat" where
  "lowered None n = n"
| "lowered (Some c) n = (if n < c then n else c)"

text \<open>
  What an alias is measured to carry: an answer raises it to at least the calls in flight with the
  answered one; a refusal for want of capacity lowers it to at most the calls left in flight beside
  the refused one and records that number; any other refusal leaves it where it was. The other aliases'
  measures do not move.
\<close>

theorem settled_call_measures_capacity:
  "let s' = settle a how s; here = ad_alias a
   in (case how of
         Answered \<Rightarrow> carried_of s' here = Some (raised (carried_of s here) (in_flight_of s here))
       | RefusedForCapacity \<Rightarrow> carried_of s' here = Some (lowered (carried_of s here) (in_flight_of s' here))
           \<and> Option.bind (bt_get (cc_routes s') here) rt_refused_beside = Some (in_flight_of s' here)
       | OtherRefusal \<Rightarrow> carried_of s' here = carried_of s here)
    \<and> (\<forall>other. other = here \<or> carried_of s' other = carried_of s other)"
proof -
  define r where "r = (case bt_get (cc_routes s) (ad_alias a) of None \<Rightarrow> route_default | Some r \<Rightarrow> r)"
  define n where "n = length (filter (\<lambda>c. c \<in> set (cc_live s)) (rt_calls r))"
  define m where "m = length (filter (\<lambda>c. c \<in> set (removeAll (ad_call a) (cc_live s))) (rt_calls r))"
  have n: "in_flight_of s (ad_alias a) = n"
    by (simp add: in_flight_of_def n_def r_def route_default_def split: option.splits)
  have held: "carried_of s (ad_alias a) = rt_carried r"
    by (simp add: carried_of_def r_def route_default_def split: option.splits)
  obtain r' where after: "bt_get (cc_routes (settle a how s)) (ad_alias a) = Some (settled_route how n m r')"
    and r': "rt_carried r' = rt_carried r"
    "length (filter (\<lambda>c. c \<in> set (removeAll (ad_call a) (cc_live s))) (rt_calls r')) = m"
    by (simp add: settle_def Let_def split_beta r_def n_def m_def conj_ac cong: conj_cong)
  have m: "in_flight_of (settle a how s) (ad_alias a) = m"
    using after r'(2) by (simp add: in_flight_of_def settle_def Let_def)
  have other: "i = ad_alias a \<or> carried_of (settle a how s) i = carried_of s i" for i
    by (simp add: carried_of_def settle_def Let_def)
  show ?thesis
    unfolding Let_def n m held carried_of_def [of "settle a how s" "ad_alias a"] after
    using r'(1) other by (cases how) (auto simp: settled_route_def split: option.splits)
qed

end
