(* ===== verification/Journal.thy ===== *)
theory Journal
  imports BTree_Map Model_Types
begin

section \<open>The journal\<close>

text \<open>
  \<open>src/src/journal/mod.rs\<close> and \<open>subscriptions.rs\<close>: an append-only file of one JSON record a line,
  and the readers that take the newest matching record. The file is its text; \<open>serde_json\<close> (a
  crate outside the repository) is the pair of functions of the record \<open>json_codec\<close>, an argument of
  every definition that prints or parses. An append may fail in each of the ways the code handles,
  with the record not written, half written or wholly written.
\<close>

record json_codec =
  show_json :: "json \<Rightarrow> string"
  parse_json :: "string \<Rightarrow> (string, json) result"
  show_duration :: "nat \<Rightarrow> string"

datatype journal_file = JAbsent | JUnreadable string | JText string

record journal =
  jn_path :: "(string, string) result"
  jn_file :: journal_file

text \<open>What the file system answers one append.\<close>

datatype append_answer =
    Written
  | NoDirectory string string
  | NotOpened string
  | Torn nat string
  | NotRestricted string

definition NL :: char where
  "NL = CHR 0x0A"

definition CR :: char where
  "CR = CHR 0x0D"

text \<open>\<open>str::lines\<close>: each line with whether a newline ended it; only then is a carriage return dropped.\<close>

fun raw_lines :: "string \<Rightarrow> (string \<times> bool) list" where
  "raw_lines [] = []"
| "raw_lines (c # cs) =
     (if c = NL then ([], True) # raw_lines cs
      else (case raw_lines cs of [] \<Rightarrow> [([c], False)] | (l, ended) # ls \<Rightarrow> (c # l, ended) # ls))"

definition str_lines :: "string \<Rightarrow> string list" where
  "str_lines text =
     map (\<lambda>(l, ended). if ended \<and> l \<noteq> [] \<and> last l = CR then butlast l else l) (raw_lines text)"

text \<open>\<open>Iterator::collect\<close> into a \<open>Result\<close>: the first error, or every value.\<close>

fun collect_results :: "('e, 'a) result list \<Rightarrow> ('e, 'a list) result" where
  "collect_results [] = Inr []"
| "collect_results (Inl err # rs) = Inl err"
| "collect_results (Inr x # rs) = (case collect_results rs of Inl err \<Rightarrow> Inl err | Inr xs \<Rightarrow> Inr (x # xs))"

subsection \<open>JSON objects\<close>

text \<open>\<open>json!({..})\<close> and \<open>record[key] = value\<close>, with the map's keys in order; the latter panics on a
  value that is neither an object nor null.\<close>

definition json_obj :: "(string \<times> json) list \<Rightarrow> json" where
  "json_obj kvs = JObj (foldl (\<lambda>m (k, v). bt_insert k v m) [] kvs)"

fun json_set :: "json \<Rightarrow> string \<Rightarrow> json \<Rightarrow> json option" where
  "json_set (JObj kvs) k v = Some (JObj (bt_insert k v kvs))"
| "json_set JNull k v = Some (JObj [(k, v)])"
| "json_set _ k v = None"

fun as_i64 :: "json \<Rightarrow> instant option" where
  "as_i64 (JInt i) = (if i64_min \<le> i \<and> i \<le> i64_max then Some i else None)"
| "as_i64 _ = None"

text \<open>\<open>json!(value)\<close> of a double: a NaN or an infinity is null.\<close>

definition json_f64 :: "f64 \<Rightarrow> json" where
  "json_f64 x = (if f64_mag x < 0x7FF0000000000000 then JFloat x else JNull)"

definition field :: "json \<Rightarrow> string \<Rightarrow> string option" where
  "field record key = Option.bind (json_get record key) as_str"

subsection \<open>Appending and reading\<close>

definition append_text :: "string \<Rightarrow> journal_file \<Rightarrow> journal_file" where
  "append_text s file = (case file of
       JAbsent \<Rightarrow> JText s
     | JText t \<Rightarrow> JText (t @ s)
     | JUnreadable cause \<Rightarrow> JUnreadable cause)"

definition append_record ::
  "json_codec \<Rightarrow> append_answer \<Rightarrow> json \<Rightarrow> journal \<Rightarrow> (string, unit) result \<times> journal" where
  "append_record J answer record jn =
     (case jn_path jn of
        Inl cause \<Rightarrow> (Inl cause, jn)
      | Inr path \<Rightarrow>
          (let line = show_json J record @ [NL];
               wrote = (\<lambda>s. jn\<lparr>jn_file := append_text s (jn_file jn)\<rparr>)
           in (case answer of
                 NoDirectory parent err \<Rightarrow>
                   (Inl (''cannot create the journal directory '' @ parent @ '': '' @ err), jn)
               | NotOpened err \<Rightarrow> (Inl (''cannot open the journal '' @ path @ '': '' @ err), jn)
               | Torn n err \<Rightarrow>
                   (Inl (''cannot append to the journal '' @ path @ '': '' @ err), wrote (take n line))
               | NotRestricted err \<Rightarrow>
                   (Inl (''cannot restrict the journal '' @ path @ '' to its owner: '' @ err), wrote line)
               | Written \<Rightarrow> (Inr (), wrote line))))"

definition read_all :: "json_codec \<Rightarrow> journal \<Rightarrow> (string, json list) result" where
  "read_all J jn =
     (case jn_path jn of
        Inl cause \<Rightarrow> Inl cause
      | Inr path \<Rightarrow>
          (case jn_file jn of
             JAbsent \<Rightarrow> Inr []
           | JUnreadable err \<Rightarrow> Inl (''cannot read the journal '' @ path @ '': '' @ err)
           | JText text \<Rightarrow>
               collect_results
                 (map (\<lambda>line. case parse_json J line of
                         Inr r \<Rightarrow> Inr r
                       | Inl err \<Rightarrow> Inl (''the journal '' @ path @ '' holds a line that is not JSON ('' @
                                         line @ ''): '' @ err))
                   (filter (\<lambda>line. trim line \<noteq> []) (str_lines text)))))"

subsection \<open>Membership markers\<close>

definition retire_record :: "string \<Rightarrow> string \<Rightarrow> json" where
  "retire_record item at = json_obj [(''kind'', JStr ''retire''), (''id'', JStr item), (''at'', JStr at)]"

definition retire where
  "retire J answer item at jn = append_record J answer (retire_record item at) jn"

definition membership_removed_record :: "string \<Rightarrow> string \<Rightarrow> json" where
  "membership_removed_record item at =
     json_obj [(''kind'', JStr ''membership_removed''), (''id'', JStr item), (''at'', JStr at)]"

definition remove_membership where
  "remove_membership J answer item at jn = append_record J answer (membership_removed_record item at) jn"

definition forgotten_record :: "string \<Rightarrow> string \<Rightarrow> string \<Rightarrow> json" where
  "forgotten_record item reason at =
     json_obj [(''kind'', JStr ''forgotten''), (''id'', JStr item), (''reason'', JStr reason), (''at'', JStr at)]"

definition forget where
  "forget J answer item reason at jn = append_record J answer (forgotten_record item reason at) jn"

definition reinstate_record :: "string \<Rightarrow> string \<Rightarrow> json" where
  "reinstate_record item at = json_obj [(''kind'', JStr ''reinstate''), (''id'', JStr item), (''at'', JStr at)]"

definition reinstate where
  "reinstate J answer item at jn = append_record J answer (reinstate_record item at) jn"

definition membership_was_removed :: "json_codec \<Rightarrow> journal \<Rightarrow> string \<Rightarrow> (string, bool) result" where
  "membership_was_removed J jn item =
     (case read_all J jn of
        Inl err \<Rightarrow> Inl err
      | Inr records \<Rightarrow>
          Inr (case List.find (\<lambda>r. field r ''kind'' \<in>
                   {Some ''retire'', Some ''reinstate'', Some ''membership_removed'', Some ''forgotten''})
                 (filter (\<lambda>r. field r ''id'' = Some item) (rev records)) of
               None \<Rightarrow> False
             | Some r \<Rightarrow> field r ''kind'' \<in> {Some ''membership_removed'', Some ''forgotten''}))"

definition marker_verdict :: "json \<Rightarrow> bool option" where
  "marker_verdict record =
     (case field record ''kind'' of
        None \<Rightarrow> None
      | Some kind \<Rightarrow>
          (if kind \<in> {''retire'', ''membership_removed'', ''forgotten''} then Some True
           else if kind = ''reinstate'' then Some False else None))"

definition retired_in :: "json list \<Rightarrow> string \<Rightarrow> bool" where
  "retired_in records item =
     (let verdicts = filter_map marker_verdict (filter (\<lambda>r. field r ''id'' = Some item) records)
      in verdicts \<noteq> [] \<and> last verdicts)"

definition is_retired :: "json_codec \<Rightarrow> journal \<Rightarrow> string \<Rightarrow> (string, bool) result" where
  "is_retired J jn item =
     (case read_all J jn of Inl err \<Rightarrow> Inl err | Inr records \<Rightarrow> Inr (retired_in records item))"

subsection \<open>Task-quality observations\<close>

definition check_record ::
  "string \<Rightarrow> string \<Rightarrow> string \<Rightarrow> string \<Rightarrow> string \<Rightarrow> string \<Rightarrow> f64 option \<Rightarrow> string \<Rightarrow> json" where
  "check_record agent provider model task source status score checked_at =
     json_obj ([(''kind'', JStr ''check''), (''agent_id'', JStr agent), (''provider'', JStr provider),
                (''model'', JStr model), (''task'', JStr task), (''source'', JStr source),
                (''status'', JStr status), (''checked_at'', JStr checked_at)] @
               (case score of None \<Rightarrow> [] | Some v \<Rightarrow> [(''score'', json_f64 v)]))"

definition record_check where
  "record_check J answer agent provider model task source status score checked_at jn =
     append_record J answer (check_record agent provider model task source status score checked_at) jn"

definition checks_for_task :: "json_codec \<Rightarrow> journal \<Rightarrow> string \<Rightarrow> string \<Rightarrow> (string, json list) result" where
  "checks_for_task J jn agent task =
     (case read_all J jn of
        Inl err \<Rightarrow> Inl err
      | Inr records \<Rightarrow>
          Inr (filter (\<lambda>r. field r ''kind'' = Some ''check'' \<and> field r ''agent_id'' = Some agent \<and>
                          field r ''task'' = Some task) records))"

definition checks_for_agent :: "json_codec \<Rightarrow> journal \<Rightarrow> string \<Rightarrow> (string, json list) result" where
  "checks_for_agent J jn agent =
     (case read_all J jn of
        Inl err \<Rightarrow> Inl err
      | Inr records \<Rightarrow>
          Inr (filter (\<lambda>r. field r ''kind'' = Some ''check'' \<and> field r ''agent_id'' = Some agent) records))"

subsection \<open>What was done to a subscription\<close>

definition record_subscription_refresh ::
  "json_codec \<Rightarrow> append_answer \<Rightarrow> string \<Rightarrow> string \<Rightarrow> string \<Rightarrow> nat \<Rightarrow> string \<Rightarrow> string \<Rightarrow> journal \<Rightarrow>
   (string, unit) result \<times> journal" where
  "record_subscription_refresh J answer provider reason result attempted detail at jn =
     append_record J answer
       (json_obj [(''kind'', JStr ''subscription_refresh''), (''provider'', JStr provider),
                  (''reason'', JStr reason), (''result'', JStr result),
                  (''attempted'', JInt (int attempted)), (''detail'', JStr detail), (''at'', JStr at)]) jn"

text \<open>An outcome stamped with its kind and the two readings of the clock; \<open>None\<close> is the panic.\<close>

definition stamped :: "string \<Rightarrow> string \<Rightarrow> instant \<Rightarrow> json \<Rightarrow> json option" where
  "stamped kind at at_ms outcome =
     Option.bind (json_set outcome ''kind'' (JStr kind))
       (\<lambda>r. Option.bind (json_set r ''at'' (JStr at)) (\<lambda>r. json_set r ''at_ms'' (JInt at_ms)))"

definition record_subscription_sign_in where
  "record_subscription_sign_in J answer at at_ms outcome jn =
     map_option (\<lambda>r. append_record J answer r jn) (stamped ''subscription_sign_in'' at at_ms outcome)"

definition latest_subscription_sign_in :: "json_codec \<Rightarrow> journal \<Rightarrow> string \<Rightarrow> (string, json option) result" where
  "latest_subscription_sign_in J jn sid =
     (case read_all J jn of
        Inl err \<Rightarrow> Inl err
      | Inr records \<Rightarrow>
          Inr (List.find (\<lambda>r. field r ''kind'' = Some ''subscription_sign_in'' \<and>
                 field r ''subscription_id'' = Some sid) (rev records)))"

definition latest_subscription_sign_in_at_ms ::
  "json_codec \<Rightarrow> journal \<Rightarrow> string \<Rightarrow> (string, instant option) result" where
  "latest_subscription_sign_in_at_ms J jn sid =
     (case latest_subscription_sign_in J jn sid of
        Inl err \<Rightarrow> Inl err
      | Inr None \<Rightarrow> Inr None
      | Inr (Some latest) \<Rightarrow>
          (case Option.bind (json_get latest ''at_ms'') as_i64 of
             Some at \<Rightarrow> Inr (Some at)
           | None \<Rightarrow> Inl (''the journal's newest sign-in for '' @ sid @ '' carries no at_ms: '' @
                        show_json J latest)))"

definition i64_saturating_sub :: "int \<Rightarrow> int \<Rightarrow> int" where
  "i64_saturating_sub a b = max i64_min (min i64_max (a - b))"

definition subscription_sign_in_due ::
  "json_codec \<Rightarrow> journal \<Rightarrow> string \<Rightarrow> nat \<Rightarrow> instant \<Rightarrow> (string, bool) result" where
  "subscription_sign_in_due J jn sid cooldown now =
     (case latest_subscription_sign_in_at_ms J jn sid of
        Inl err \<Rightarrow> Inl err
      | Inr None \<Rightarrow> Inr True
      | Inr (Some at) \<Rightarrow>
          (if int cooldown > i64_max
           then Inl (''the sign-in cooldown '' @ show_duration J cooldown @ '' for '' @ sid @
                  '' is longer than milliseconds since the epoch can be compared with: '' @
                  ''out of range integral type conversion attempted'')
           else Inr (i64_saturating_sub now at \<ge> int cooldown)))"

definition record_subscription_acquisition where
  "record_subscription_acquisition J answer at at_ms outcome jn =
     map_option (\<lambda>r. append_record J answer r jn) (stamped ''subscription_acquisition'' at at_ms outcome)"

definition latest_subscription_acquisition ::
  "json_codec \<Rightarrow> journal \<Rightarrow> string \<Rightarrow> (string, json option) result" where
  "latest_subscription_acquisition J jn provider =
     (case read_all J jn of
        Inl err \<Rightarrow> Inl err
      | Inr records \<Rightarrow>
          Inr (List.find (\<lambda>r. field r ''kind'' = Some ''subscription_acquisition'' \<and>
                 field r ''provider'' = Some provider) (rev records)))"

subsection \<open>Reading back what was appended\<close>

text \<open>
  What the code relies on of \<open>serde_json\<close> for one record: its compact text is one line that parses
  back to the record.
\<close>

definition codec_ok :: "json_codec \<Rightarrow> json \<Rightarrow> bool" where
  "codec_ok J r =
     (parse_json J (show_json J r) = Inr r \<and> NL \<notin> set (show_json J r) \<and>
      trim (show_json J r) \<noteq> [] \<and> last (show_json J r) \<noteq> CR)"

text \<open>A journal whose last line is ended: no append was torn.\<close>

definition terminated :: "journal \<Rightarrow> bool" where
  "terminated jn =
     (\<exists>path. jn_path jn = Inr path \<and>
       (jn_file jn = JAbsent \<or> (\<exists>t. jn_file jn = JText t \<and> (t = [] \<or> last t = NL))))"

lemma raw_lines_one: "NL \<notin> set l \<Longrightarrow> raw_lines (l @ [NL]) = [(l, True)]"
  by (induction l) auto

lemma raw_lines_ended: "l \<noteq> [] \<Longrightarrow> last l = NL \<Longrightarrow> raw_lines (l @ m) = raw_lines l @ raw_lines m"
proof (induction l)
  case (Cons c cs)
  show ?case
  proof (cases "cs = []")
    case True
    with Cons.prems show ?thesis by simp
  next
    case False
    then have "raw_lines cs \<noteq> []"
      by (cases cs) (auto split: list.splits)
    with False Cons show ?thesis by (auto split: list.splits)
  qed
qed simp

lemma collect_results_append:
  "collect_results (rs @ [Inr x]) =
     (case collect_results rs of Inl err \<Rightarrow> Inl err | Inr xs \<Rightarrow> Inr (xs @ [x]))"
  by (induction rs rule: collect_results.induct) (auto split: sum.splits)

lemma str_lines_append:
  assumes "t = [] \<or> last t = NL" "NL \<notin> set l" "l = [] \<or> last l \<noteq> CR"
  shows "str_lines (t @ l @ [NL]) = str_lines t @ [l]"
proof -
  have "raw_lines (t @ l @ [NL]) = raw_lines t @ [(l, True)]"
    using assms raw_lines_ended [of t "l @ [NL]"] by (cases "t = []") (simp_all add: raw_lines_one)
  then show ?thesis using assms(3) by (auto simp: str_lines_def)
qed

lemma read_all_append:
  assumes "terminated jn" "codec_ok J r"
  shows "read_all J (snd (append_record J Written r jn)) =
    (case read_all J jn of Inl err \<Rightarrow> Inl err | Inr rs \<Rightarrow> Inr (rs @ [r]))"
proof -
  have none: "str_lines [] = []" by (simp add: str_lines_def)
  have "show_json J r \<noteq> []" using assms(2) by (auto simp: codec_ok_def trim_def)
  then show ?thesis
    using assms
    by (auto simp: terminated_def codec_ok_def append_record_def append_text_def read_all_def Let_def
        str_lines_append str_lines_append [of "[]", simplified] none collect_results_append
        split: sum.splits)
qed

lemma terminated_append: "terminated jn \<Longrightarrow> terminated (snd (append_record J Written r jn))"
  by (auto simp: terminated_def append_record_def append_text_def Let_def)

subsection \<open>The newest marker decides\<close>

text \<open>
  The contract of a log of records: reading it after an append yields the appended record last. A
  client that takes the newest matching record then reads what was written last.
\<close>

locale record_log =
  fixes rd :: "'j \<Rightarrow> (string, json list) result"
    and app :: "json \<Rightarrow> 'j \<Rightarrow> 'j"
    and good :: "json \<Rightarrow> bool"
    and ok :: "'j \<Rightarrow> bool"
  assumes rd_app: "ok j \<Longrightarrow> good r \<Longrightarrow> rd (app r j) = (case rd j of Inl err \<Rightarrow> Inl err | Inr rs \<Rightarrow> Inr (rs @ [r]))"
    and ok_app: "ok j \<Longrightarrow> good r \<Longrightarrow> ok (app r j)"
begin

lemma ok_run: "ok j \<Longrightarrow> \<forall>r \<in> set rs. good r \<Longrightarrow> ok (fold app rs j)"
  by (induction rs arbitrary: j) (simp_all add: ok_app)

lemma rd_run:
  "ok j \<Longrightarrow> \<forall>r \<in> set rs. good r \<Longrightarrow> rd j = Inr held \<Longrightarrow> rd (fold app rs j) = Inr (held @ rs)"
  by (induction rs arbitrary: j held) (simp_all add: rd_app ok_app)

text \<open>A damaged log stays refused whatever is appended to it.\<close>

lemma rd_damaged: "ok j \<Longrightarrow> \<forall>r \<in> set rs. good r \<Longrightarrow> rd j = Inl err \<Longrightarrow> rd (fold app rs j) = Inl err"
  by (induction rs arbitrary: j) (simp_all add: rd_app ok_app)

end

interpretation jlog: record_log "read_all J" "\<lambda>r jn. snd (append_record J Written r jn)" "codec_ok J" terminated
  for J
  by unfold_locales (rule read_all_append terminated_append; assumption)+

lemma filter_map_append [simp]: "filter_map f (xs @ ys) = filter_map f xs @ filter_map f ys"
  by (induction xs) (auto split: option.splits)

lemma filter_map_none: "(\<And>x. x \<in> set xs \<Longrightarrow> f x = None) \<Longrightarrow> filter_map f xs = []"
  by (induction xs) auto

lemma retired_in_newest:
  assumes "field r ''id'' = Some item" "marker_verdict r = Some v"
    and "\<And>r'. r' \<in> set later \<Longrightarrow> field r' ''id'' = Some item \<Longrightarrow> marker_verdict r' = None"
  shows "retired_in (earlier @ r # later) item = v"
proof -
  have "filter_map marker_verdict (filter (\<lambda>r. field r ''id'' = Some item) later) = []"
    using assms(3) by (intro filter_map_none) auto
  with assms(1,2) show ?thesis by (simp add: retired_in_def)
qed

lemma field_json_obj_markers [simp]:
  "field (retire_record item at) ''id'' = Some item" "field (retire_record item at) ''kind'' = Some ''retire''"
  "field (reinstate_record item at) ''id'' = Some item"
  "field (reinstate_record item at) ''kind'' = Some ''reinstate''"
  "field (forgotten_record item reason at) ''id'' = Some item"
  "field (forgotten_record item reason at) ''kind'' = Some ''forgotten''"
  "field (membership_removed_record item at) ''id'' = Some item"
  "field (membership_removed_record item at) ''kind'' = Some ''membership_removed''"
  by (simp_all add: field_def json_obj_def retire_record_def reinstate_record_def forgotten_record_def
      membership_removed_record_def)

lemma is_retired_append_iff:
  assumes "terminated jn" "codec_ok J r" "read_all J jn = Inr records"
  shows "is_retired J (snd (append_record J Written r jn)) item =
    Inr (retired_in (records @ [r]) item)"
  using assms by (simp add: is_retired_def read_all_append)

subsection \<open>Runs of membership operations\<close>

text \<open>One membership operation whose record reached the journal whole.\<close>

datatype marker =
    MRetire string string
  | MRemove string string
  | MForget string string string
  | MReinstate string string

fun marker_item :: "marker \<Rightarrow> string" where
  "marker_item (MRetire item at) = item"
| "marker_item (MRemove item at) = item"
| "marker_item (MForget item reason at) = item"
| "marker_item (MReinstate item at) = item"

fun ends_membership :: "marker \<Rightarrow> bool" where
  "ends_membership (MReinstate item at) = False"
| "ends_membership _ = True"

fun marker_record :: "marker \<Rightarrow> json" where
  "marker_record (MRetire item at) = retire_record item at"
| "marker_record (MRemove item at) = membership_removed_record item at"
| "marker_record (MForget item reason at) = forgotten_record item reason at"
| "marker_record (MReinstate item at) = reinstate_record item at"

fun mark :: "json_codec \<Rightarrow> marker \<Rightarrow> journal \<Rightarrow> journal" where
  "mark J (MRetire item at) jn = snd (retire J Written item at jn)"
| "mark J (MRemove item at) jn = snd (remove_membership J Written item at jn)"
| "mark J (MForget item reason at) jn = snd (forget J Written item reason at jn)"
| "mark J (MReinstate item at) jn = snd (reinstate J Written item at jn)"

lemma mark_appends: "mark J m jn = snd (append_record J Written (marker_record m) jn)"
  by (cases m) (simp_all add: retire_def remove_membership_def forget_def reinstate_def)

lemma mark_run:
  "fold (mark J) ms jn = fold (\<lambda>r jn. snd (append_record J Written r jn)) (map marker_record ms) jn"
  by (induction ms arbitrary: jn) (simp_all add: mark_appends)

lemma marker_record_reads [simp]:
  "field (marker_record m) ''id'' = Some (marker_item m)"
  "marker_verdict (marker_record m) = Some (ends_membership m)"
  by (cases m; simp add: marker_verdict_def)+

lemma verdicts_of_run:
  "filter_map marker_verdict (filter (\<lambda>r. field r ''id'' = Some item) (map marker_record ms)) =
     map ends_membership (filter (\<lambda>m. marker_item m = item) ms)"
  by (induction ms) auto

text \<open>
  After any run of membership operations on a readable journal a subscription is out of the pool
  exactly when the last operation on it retired, removed or forgot it; a subscription none of them names
  stands as it stood.
\<close>

theorem newest_marker_decides:
  assumes "terminated jn" and "is_retired J jn item = Inr before"
    and "\<forall>m \<in> set ms. codec_ok J (marker_record m)"
  shows "is_retired J (fold (mark J) ms jn) item =
    Inr (case rev (filter (\<lambda>m. marker_item m = item) ms) of [] \<Rightarrow> before | m # _ \<Rightarrow> ends_membership m)"
proof -
  from assms(2) obtain records where records: "read_all J jn = Inr records" "before = retired_in records item"
    by (auto simp: is_retired_def split: sum.splits)
  have "read_all J (fold (mark J) ms jn) = Inr (records @ map marker_record ms)"
    unfolding mark_run using assms records by (intro jlog.rd_run) auto
  then have "is_retired J (fold (mark J) ms jn) item = Inr (retired_in (records @ map marker_record ms) item)"
    by (simp add: is_retired_def)
  also have "retired_in (records @ map marker_record ms) item =
      (case rev (filter (\<lambda>m. marker_item m = item) ms) of [] \<Rightarrow> before | m # _ \<Rightarrow> ends_membership m)"
    by (cases "filter (\<lambda>m. marker_item m = item) ms" rule: rev_cases)
       (simp_all add: retired_in_def verdicts_of_run records(2) Let_def)
  finally show ?thesis .
qed

text \<open>
  A journal that cannot be read as one record a line is refused for good: no membership operation
  appended to it makes any subscription readable as in or out of the pool again.
\<close>

theorem damaged_journal_stays_refused:
  assumes "terminated jn" and "is_retired J jn item = Inl err"
    and "\<forall>m \<in> set ms. codec_ok J (marker_record m)"
  shows "is_retired J (fold (mark J) ms jn) other = Inl err"
proof -
  have "read_all J (fold (mark J) ms jn) = Inl err"
    unfolding mark_run using assms by (intro jlog.rd_damaged) (auto simp: is_retired_def split: sum.splits)
  then show ?thesis by (simp add: is_retired_def)
qed

text \<open>A codec that knows two records, and journals of their lines.\<close>

definition two_records :: json_codec where
  "two_records =
     \<lparr>show_json = (\<lambda>r. if r = retire_record ''s1'' ''t'' then ''R'' else ''U''),
      parse_json = (\<lambda>l. if l = ''R'' then Inr (retire_record ''s1'' ''t'')
                        else if l = ''U'' then Inr (reinstate_record ''s1'' ''t'') else Inl ''no record''),
      show_duration = (\<lambda>n. show_nat n)\<rparr>"

definition line_journal :: "string \<Rightarrow> journal" where
  "line_journal t = \<lparr>jn_path = Inr ''j'', jn_file = JText t\<rparr>"

lemma two_records_distinct: "reinstate_record item at \<noteq> retire_record item at'"
  by (simp add: reinstate_record_def retire_record_def json_obj_def)

lemma two_records_ok:
  "codec_ok two_records (retire_record ''s1'' ''t'')" "codec_ok two_records (reinstate_record ''s1'' ''t'')"
  by (simp_all add: codec_ok_def two_records_def two_records_distinct NL_def CR_def trim_def is_ws_def)

lemma line_journal_reads:
  "terminated (line_journal (''R'' @ [NL]))" "terminated (line_journal (''x'' @ [NL]))"
  "is_retired two_records (line_journal (''R'' @ [NL])) ''s1'' = Inr True"
  "\<exists>err. is_retired two_records (line_journal (''x'' @ [NL])) ''s1'' = Inl err"
  by (simp_all add: terminated_def line_journal_def is_retired_def read_all_def str_lines_def two_records_def
      NL_def CR_def trim_def is_ws_def retired_in_def marker_verdict_def)

theorem newest_marker_decides_witness:
  "is_retired two_records
     (fold (mark two_records) [MReinstate ''s1'' ''t'', MRetire ''s1'' ''t'', MReinstate ''s1'' ''t'']
       (line_journal (''R'' @ [NL]))) ''s1'' = Inr False"
  using newest_marker_decides [of "line_journal (''R'' @ [NL])" two_records "''s1''" True
      "[MReinstate ''s1'' ''t'', MRetire ''s1'' ''t'', MReinstate ''s1'' ''t'']"]
  by (simp only: line_journal_reads two_records_ok marker_record.simps list.set ball_simps simp_thms)
     simp

theorem damaged_journal_stays_refused_witness:
  "\<exists>err. is_retired two_records (fold (mark two_records) [MRetire ''s1'' ''t''] (line_journal (''x'' @ [NL]))) ''s2''
     = Inl err"
proof -
  obtain err where "is_retired two_records (line_journal (''x'' @ [NL])) ''s1'' = Inl err"
    using line_journal_reads(4) by blast
  from damaged_journal_stays_refused [OF line_journal_reads(2) this, of "[MRetire ''s1'' ''t'']" "''s2''"]
  show ?thesis by (simp add: two_records_ok)
qed

end
