(* ===== verification/Ranking.thy ===== *)
theory Ranking
  imports Plan_Windows Journal
begin

section \<open>The order candidates are walked in\<close>

text \<open>
  \<open>src/src/subscription_dispatch/dispatch/ranking/\<close> (\<open>plan_order.rs\<close>, \<open>pin.rs\<close>),
  \<open>dispatch/catalogue/route.rs\<close> and \<open>providers/adapter/registry/route.rs\<close>. The operating system's
  randomness is a list of draws, each a 64-bit word or why none was read, consumed from the front;
  a walk that needs a draw the list no longer holds has not returned yet (\<open>None\<close>). One ordering of
  a list reads the ledger and the clock once.
\<close>

subsection \<open>Routes\<close>

definition is_control :: "char \<Rightarrow> bool" where
  "is_control c = (let n = (of_char c :: nat) in n \<le> 31 \<or> (127 \<le> n \<and> n \<le> 159))"

definition is_ascii_alphanumeric :: "char \<Rightarrow> bool" where
  "is_ascii_alphanumeric c =
     (let n = (of_char c :: nat) in (48 \<le> n \<and> n \<le> 57) \<or> (65 \<le> n \<and> n \<le> 90) \<or> (97 \<le> n \<and> n \<le> 122))"

definition valid_model_id :: "string \<Rightarrow> bool" where
  "valid_model_id v = (v \<noteq> [] \<and> trim v = v \<and> \<not> list_ex is_control v)"

definition valid_provider_id :: "string \<Rightarrow> bool" where
  "valid_provider_id v =
     (v \<noteq> [] \<and> list_all (\<lambda>c. is_ascii_alphanumeric c \<or> c = CHR ''-'' \<or> c = CHR ''_'' \<or> c = CHR ''.'') v)"

text \<open>\<open>str::split_once\<close> at the first separator.\<close>

fun split_once :: "char \<Rightarrow> string \<Rightarrow> (string \<times> string) option" where
  "split_once sep [] = None"
| "split_once sep (c # cs) =
     (if c = sep then Some ([], cs) else map_option (\<lambda>(a, b). (c # a, b)) (split_once sep cs))"

definition provider_id_from_route :: "string \<Rightarrow> string option" where
  "provider_id_from_route value =
     (case split_once (CHR ''/'') value of
        None \<Rightarrow> None
      | Some (provider, model) \<Rightarrow>
          (if valid_provider_id provider \<and> valid_model_id model then Some provider else None))"

definition SUBSCRIPTION_PROVIDERS :: "string list" where
  "SUBSCRIPTION_PROVIDERS = [''claude-code'', ''codex'', ''kimi'']"

definition is_subscription_provider :: "string \<Rightarrow> bool" where
  "is_subscription_provider provider = (provider \<in> set SUBSCRIPTION_PROVIDERS)"

definition provider_for :: "string \<Rightarrow> string option" where
  "provider_for model = provider_id_from_route model"

definition is_subscription_model :: "string \<Rightarrow> bool" where
  "is_subscription_model model = (provider_for model \<noteq> None)"

definition provider_requires_caller_identity :: "string \<Rightarrow> bool" where
  "provider_requires_caller_identity model =
     (case provider_for model of None \<Rightarrow> False | Some p \<Rightarrow> is_subscription_provider p)"

definition provider_matches :: "string \<Rightarrow> string \<Rightarrow> bool" where
  "provider_matches candidate requested = eq_ignore_ascii_case (trim candidate) requested"

subsection \<open>Drawing and shuffling\<close>

type_synonym draws = "(string, 64 word) result list"

text \<open>An answer with the draws left, or \<open>None\<close> while the loop still waits for a draw it accepts.\<close>

type_synonym 'a drawn = "((refusal, 'a) result \<times> draws) option"

definition random_refused :: "string \<Rightarrow> refusal" where
  "random_refused cause =
     gateway GDependencyUnavailable
       (''reading operating system randomness from /dev/urandom: '' @ cause)"

definition draw_threshold :: "64 word \<Rightarrow> 64 word" where
  "draw_threshold bound = (- bound) mod bound"

fun draw_index :: "64 word \<Rightarrow> draws \<Rightarrow> nat drawn" where
  "draw_index bound [] = None"
| "draw_index bound (Inl cause # ds) = Some (Inl (random_refused cause), ds)"
| "draw_index bound (Inr v # ds) =
     (if v \<ge> draw_threshold bound then Some (Inr (unat (v mod bound)), ds) else draw_index bound ds)"

definition swap :: "nat \<Rightarrow> nat \<Rightarrow> 'a list \<Rightarrow> 'a list" where
  "swap i j xs = xs[i := xs ! j, j := xs ! i]"

text \<open>\<open>for i in (1..run.len()).rev()\<close>.\<close>

fun shuffle_down :: "nat \<Rightarrow> 'a list \<Rightarrow> draws \<Rightarrow> 'a list drawn" where
  "shuffle_down 0 run ds = Some (Inr run, ds)"
| "shuffle_down (Suc i) run ds =
     (case draw_index (of_nat (Suc i) + 1) ds of
        None \<Rightarrow> None
      | Some (Inl refused, ds') \<Rightarrow> Some (Inl refused, ds')
      | Some (Inr j, ds') \<Rightarrow> shuffle_down i (swap (Suc i) j run) ds')"

definition shuffle_run :: "'a list \<Rightarrow> draws \<Rightarrow> 'a list drawn" where
  "shuffle_run run ds = shuffle_down (length run - 1) run ds"

text \<open>\<open>slice::chunk_by\<close>: maximal runs of neighbours the predicate joins.\<close>

fun chunk_by :: "('a \<Rightarrow> 'a \<Rightarrow> bool) \<Rightarrow> 'a list \<Rightarrow> 'a list list" where
  "chunk_by P [] = []"
| "chunk_by P [x] = [[x]]"
| "chunk_by P (x # y # xs) =
     (case chunk_by P (y # xs) of
        [] \<Rightarrow> [[x]]
      | c # cs \<Rightarrow> (if P x y then (x # c) # cs else [x] # c # cs))"

fun shuffle_runs :: "'a list list \<Rightarrow> draws \<Rightarrow> 'a list drawn" where
  "shuffle_runs [] ds = Some (Inr [], ds)"
| "shuffle_runs (run # runs) ds =
     (case shuffle_run run ds of
        None \<Rightarrow> None
      | Some (Inl refused, ds') \<Rightarrow> Some (Inl refused, ds')
      | Some (Inr run', ds') \<Rightarrow>
          (case shuffle_runs runs ds' of
             None \<Rightarrow> None
           | Some (Inl refused, ds'') \<Rightarrow> Some (Inl refused, ds'')
           | Some (Inr rest, ds'') \<Rightarrow> Some (Inr (run' @ rest), ds'')))"

text \<open>\<open>same left right\<close>: whether \<open>key(left).partial_cmp(&key(right))\<close> is \<open>Some(Equal)\<close>.\<close>

definition shuffle_within_equal :: "('a \<Rightarrow> 'a \<Rightarrow> bool) \<Rightarrow> 'a list \<Rightarrow> draws \<Rightarrow> 'a list drawn" where
  "shuffle_within_equal same items ds = shuffle_runs (chunk_by same items) ds"

subsection \<open>Headroom\<close>

datatype headroom = Unmeasured | Used f64 | Unservable

fun headroom_cmp :: "headroom \<Rightarrow> headroom \<Rightarrow> ordering" where
  "headroom_cmp (Used l) (Used r) = f64_total_cmp l r"
| "headroom_cmp Unmeasured Unmeasured = Equal"
| "headroom_cmp Unservable Unservable = Equal"
| "headroom_cmp Unmeasured _ = Less"
| "headroom_cmp _ Unservable = Less"
| "headroom_cmp _ Unmeasured = Greater"
| "headroom_cmp Unservable _ = Greater"

definition headroom_of :: "ledger \<Rightarrow> string \<Rightarrow> instant \<Rightarrow> headroom" where
  "headroom_of L sid now =
     (case used_fraction L sid now now of Some f \<Rightarrow> Used f | None \<Rightarrow> Unmeasured)"

instantiation headroom :: linorder
begin

definition less_eq_headroom :: "headroom \<Rightarrow> headroom \<Rightarrow> bool" where
  "less_eq_headroom a b = (headroom_cmp a b \<noteq> Greater)"

definition less_headroom :: "headroom \<Rightarrow> headroom \<Rightarrow> bool" where
  "less_headroom a b = (headroom_cmp a b = Less)"

instance
proof
  fix x y z :: headroom
  show "(x < y) = (x \<le> y \<and> \<not> y \<le> x)"
    by (cases x; cases y) (auto simp: less_eq_headroom_def less_headroom_def f64_total_cmp_def)
  show "x \<le> x" by (cases x) (auto simp: less_eq_headroom_def f64_total_cmp_def)
  show "x \<le> y \<Longrightarrow> y \<le> z \<Longrightarrow> x \<le> z"
    by (cases x; cases y; cases z) (auto simp: less_eq_headroom_def f64_total_cmp_def)
  show "x \<le> y \<Longrightarrow> y \<le> x \<Longrightarrow> x = y"
    by (cases x; cases y) (auto simp: less_eq_headroom_def f64_total_cmp_def f64_total_inject
        intro: antisym)
  show "x \<le> y \<or> y \<le> x"
    by (cases x; cases y) (auto simp: less_eq_headroom_def f64_total_cmp_def)
qed

end

definition route_plan_key :: "ledger \<Rightarrow> instant \<Rightarrow> subscription_entry list \<Rightarrow> string \<Rightarrow> headroom" where
  "route_plan_key L now subscriptions route_id =
     (case provider_for route_id of
        None \<Rightarrow> Unservable
      | Some provider \<Rightarrow>
          (case min_opt (map (\<lambda>e. headroom_of L (se_id e) now)
                  (filter (\<lambda>e. provider_matches (se_provider e) provider \<and> se_status e = ''active'' \<and>
                              \<not> is_blocked L (se_id e) now) subscriptions)) of
             Some h \<Rightarrow> h
           | None \<Rightarrow> Unservable))"

fun unretired ::
  "json_codec \<Rightarrow> journal \<Rightarrow> subscription_entry list \<Rightarrow> (refusal, subscription_entry list) result" where
  "unretired J jn [] = Inr []"
| "unretired J jn (e # es) =
     (case is_retired J jn (se_id e) of
        Inl err \<Rightarrow> Inl (gateway GDependencyUnavailable err)
      | Inr retired \<Rightarrow>
          (case unretired J jn es of
             Inl r \<Rightarrow> Inl r
           | Inr kept \<Rightarrow> Inr (if retired then kept else e # kept)))"

text \<open>\<open>routing\<close>: what \<open>broker::routing_subscriptions\<close> answers for the agent.\<close>

definition order_models_by_plan ::
  "json_codec \<Rightarrow> journal \<Rightarrow> ledger \<Rightarrow> instant \<Rightarrow> (string, subscription_entry list) result \<Rightarrow>
   string list \<Rightarrow> draws \<Rightarrow> string list drawn" where
  "order_models_by_plan J jn L now routing models ds =
     (case routing of
        Inl err \<Rightarrow> Some (Inl (gateway GDependencyUnavailable err), ds)
      | Inr rows \<Rightarrow>
          (case unretired J jn rows of
             Inl r \<Rightarrow> Some (Inl r, ds)
           | Inr subscriptions \<Rightarrow>
               (let key = route_plan_key L now subscriptions
                in shuffle_within_equal (\<lambda>l r. headroom_cmp (key l) (key r) = Equal)
                     (sort_by_key key models) ds)))"

subsection \<open>Pins\<close>

record pin =
  pin_credential_id :: string
  pin_expires_at_ms :: "instant option"

type_synonym pins = "(string \<times> string) \<Rightarrow> pin option"

definition pinned_credential :: "string \<Rightarrow> string \<Rightarrow> instant \<Rightarrow> pins \<Rightarrow> string option \<times> pins" where
  "pinned_credential agent provider now P =
     (case P (agent, provider) of
        None \<Rightarrow> (None, P)
      | Some p \<Rightarrow>
          (case pin_expires_at_ms p of
             Some t \<Rightarrow> (if t \<le> now then (None, P((agent, provider) := None))
                        else (Some (pin_credential_id p), P))
           | None \<Rightarrow> (Some (pin_credential_id p), P)))"

definition pin_credential :: "string \<Rightarrow> string \<Rightarrow> string \<Rightarrow> ledger \<Rightarrow> instant \<Rightarrow> pins \<Rightarrow> pins" where
  "pin_credential agent provider sid L now P =
     P((agent, provider) \<mapsto> \<lparr>pin_credential_id = sid, pin_expires_at_ms = next_reset_ms L sid now now\<rparr>)"

fun position :: "('a \<Rightarrow> bool) \<Rightarrow> 'a list \<Rightarrow> nat option" where
  "position P [] = None"
| "position P (x # xs) = (if P x then Some 0 else map_option Suc (position P xs))"

definition apply_pin ::
  "ledger \<Rightarrow> instant \<Rightarrow> string \<Rightarrow> string \<Rightarrow> subscription_entry list \<Rightarrow> pins \<Rightarrow>
   subscription_entry list \<times> pins" where
  "apply_pin L now agent provider rows P =
     (case pinned_credential agent provider now P of
        (None, P') \<Rightarrow> (rows, P')
      | (Some pinned, P') \<Rightarrow>
          (if (case used_fraction L pinned now now of None \<Rightarrow> False | Some f \<Rightarrow> at_limit f) then (rows, P')
           else (case position (\<lambda>e. se_id e = pinned) rows of
                   None \<Rightarrow> (rows, P')
                 | Some i \<Rightarrow> (swap 0 i rows, P'))))"

subsection \<open>What shuffling keeps\<close>

lemma mset_swap_idx: "i < length xs \<Longrightarrow> j < length xs \<Longrightarrow> mset (swap i j xs) = mset xs"
  unfolding swap_def by (rule mset_swap)

lemma length_swap [simp]: "length (swap i j xs) = length xs"
  by (simp add: swap_def)

lemma draw_index_less:
  "draw_index bound ds = Some (Inr j, ds') \<Longrightarrow> bound \<noteq> 0 \<Longrightarrow> j < unat bound"
  by (induction bound ds rule: draw_index.induct)
     (auto simp: unat_mod unat_gt_0 split: if_splits)

lemma unat_bound: "Suc i < 2 ^ 63 \<Longrightarrow> unat (of_nat (Suc i) + 1 :: 64 word) = i + 2"
proof -
  assume "Suc i < 2 ^ 63"
  then have "unat (of_nat (i + 2) :: 64 word) = i + 2"
    by (subst unat_of_nat) simp
  then show ?thesis by (simp add: add.commute)
qed

lemma shuffle_down_perm:
  "shuffle_down i run ds = Some (Inr run', ds') \<Longrightarrow> i < length run \<or> i = 0 \<Longrightarrow> length run < 2 ^ 63 \<Longrightarrow>
     mset run' = mset run"
proof (induction i run ds rule: shuffle_down.induct)
  case (2 i run ds)
  then obtain j ds1 where d: "draw_index (of_nat (Suc i) + 1) ds = Some (Inr j, ds1)"
    and rest: "shuffle_down i (swap (Suc i) j run) ds1 = Some (Inr run', ds')"
    by (auto split: option.splits sum.splits)
  have b: "unat (of_nat (Suc i) + 1 :: 64 word) = i + 2" using 2(3,4) by (intro unat_bound) auto
  then have "(of_nat (Suc i) + 1 :: 64 word) \<noteq> 0" by (metis add_2_eq_Suc' nat.distinct(1) unsigned_0)
  with draw_index_less [OF d] b have j: "j < i + 2" by simp
  have "mset run' = mset (swap (Suc i) j run)"
    using 2(1) [OF d refl refl rest] 2(3,4) by simp
  with j 2(3) show ?case by (simp add: mset_swap_idx)
qed simp

lemma shuffle_run_perm:
  "shuffle_run run ds = Some (Inr run', ds') \<Longrightarrow> length run < 2 ^ 63 \<Longrightarrow> mset run' = mset run"
  unfolding shuffle_run_def by (erule shuffle_down_perm) auto

lemma concat_chunk_by [simp]: "concat (chunk_by P xs) = xs"
  by (induction P xs rule: chunk_by.induct) (auto split: list.splits)

lemma chunk_by_nonempty: "c \<in> set (chunk_by P xs) \<Longrightarrow> c \<noteq> []"
  by (induction P xs arbitrary: c rule: chunk_by.induct) (auto split: list.splits if_splits)

lemma chunk_by_hd: "chunk_by P (x # xs) = c # cs \<Longrightarrow> hd c = x"
  by (cases xs) (auto split: list.splits if_splits)

lemma chunk_by_key:
  "(\<And>l r. same l r \<Longrightarrow> k l = k r) \<Longrightarrow> c \<in> set (chunk_by same xs) \<Longrightarrow> x \<in> set c \<Longrightarrow> k x = k (hd c)"
proof (induction same xs arbitrary: c x rule: chunk_by.induct)
  case (3 P a b xs)
  obtain c1 cs where split: "chunk_by P (b # xs) = c1 # cs"
    by (cases "chunk_by P (b # xs)") (use concat_chunk_by [of P "b # xs"] in auto)
  then have hd: "hd c1 = b" by (rule chunk_by_hd)
  have IH: "c \<in> set (c1 # cs) \<Longrightarrow> x \<in> set c \<Longrightarrow> k x = k (hd c)" for c x
    using 3(1) [of c x] 3(2) split by simp
  from 3(3) split consider "P a b" "c = a # c1" | "c = [a]" | "c \<in> set (c1 # cs)"
    by (auto split: if_splits)
  then show ?case
  proof cases
    case 1
    with 3(2) [of a b] 3(4) IH [of c1 x] hd show ?thesis by auto
  qed (use 3(4) IH in auto)
qed auto

lemma map_key_perm:
  assumes "mset ys = mset xs" "\<And>x. x \<in> set xs \<Longrightarrow> k x = v"
  shows "map k ys = map k xs"
proof -
  have "set ys = set xs" "length ys = length xs"
    using assms(1) by (auto dest: mset_eq_setD mset_eq_length)
  then have "map k ys = map (\<lambda>_. v) ys" "map k xs = map (\<lambda>_. v) xs"
    using assms(2) by simp_all
  with \<open>length ys = length xs\<close> show ?thesis by (simp add: map_replicate_const)
qed

lemma shuffle_runs_keep:
  "shuffle_runs runs ds = Some (Inr out, ds') \<Longrightarrow>
     (\<And>c x. c \<in> set runs \<Longrightarrow> x \<in> set c \<Longrightarrow> k x = k (hd c)) \<Longrightarrow> length (concat runs) < 2 ^ 63 \<Longrightarrow>
     mset out = mset (concat runs) \<and> map k out = map k (concat runs)"
proof (induction runs ds arbitrary: out ds' rule: shuffle_runs.induct)
  case (2 run runs ds)
  then obtain run' ds1 rest where r: "shuffle_run run ds = Some (Inr run', ds1)"
    and rs: "shuffle_runs runs ds1 = Some (Inr rest, ds')" and out: "out = run' @ rest"
    by (auto split: option.splits sum.splits)
  from r 2(4) have m: "mset run' = mset run" by (auto intro: shuffle_run_perm)
  with 2(3) [of run] have "map k run' = map k run" by (intro map_key_perm [where v = "k (hd run)"]) auto
  moreover have "mset rest = mset (concat runs) \<and> map k rest = map k (concat runs)"
    using 2(1) [OF r refl refl rs] 2(3,4) by auto
  ultimately show ?case using m out by simp
qed simp

text \<open>A shuffle that returns gives back the same items, with the keys in the places they had.\<close>

lemma shuffle_within_equal_keeps:
  assumes "shuffle_within_equal same items ds = Some (Inr out, ds')"
    and "\<And>l r. same l r \<Longrightarrow> k l = k r" and "length items < 2 ^ 63"
  shows "mset out = mset items" and "map k out = map k items"
proof -
  have "mset out = mset (concat (chunk_by same items)) \<and> map k out = map k (concat (chunk_by same items))"
    using assms(1,3) chunk_by_key [of same k, OF assms(2)]
    unfolding shuffle_within_equal_def by (intro shuffle_runs_keep) auto
  then show "mset out = mset items" "map k out = map k items" by simp_all
qed

subsection \<open>Shuffling returns, and no index is favoured\<close>

text \<open>A draw at least as large as the bound is always accepted.\<close>

lemma draw_threshold_less: "bound \<noteq> 0 \<Longrightarrow> draw_threshold bound < bound"
  by (simp add: draw_threshold_def word_less_nat_alt unat_mod unat_gt_0)

definition accepted_draw :: "nat \<Rightarrow> (string, 64 word) result \<Rightarrow> bool" where
  "accepted_draw n d = (case d of Inl _ \<Rightarrow> True | Inr v \<Rightarrow> n \<le> unat v)"

lemma draw_index_returns:
  assumes "bound \<noteq> 0" "unat bound \<le> n" "m < length (filter (accepted_draw n) ds)"
  shows "\<exists>r ds'. draw_index bound ds = Some (r, ds') \<and> m \<le> length (filter (accepted_draw n) ds')"
  using assms(3)
proof (induction ds)
  case (Cons d ds)
  show ?case
  proof (cases d)
    case (Inl cause)
    with Cons show ?thesis by (auto simp: accepted_draw_def)
  next
    case (Inr v)
    have "draw_threshold bound \<le> v" if "n \<le> unat v"
    proof -
      have "unat (draw_threshold bound) < unat bound"
        using draw_threshold_less [OF assms(1)] by (simp add: word_less_nat_alt)
      with assms(2) that show ?thesis by (simp add: word_le_nat_alt)
    qed
    with Inr Cons show ?thesis by (auto simp: accepted_draw_def split: if_splits)
  qed
qed simp

lemma shuffle_down_returns:
  "Suc i \<le> n \<Longrightarrow> n < 2 ^ 63 \<Longrightarrow> m + i \<le> length (filter (accepted_draw n) ds) \<Longrightarrow>
     \<exists>r ds'. shuffle_down i run ds = Some (r, ds') \<and>
       ((\<exists>x. r = Inr x) \<longrightarrow> m \<le> length (filter (accepted_draw n) ds'))"
proof (induction i run ds rule: shuffle_down.induct)
  case (2 i run ds)
  have b: "unat (of_nat (Suc i) + 1 :: 64 word) = i + 2" using 2 by (intro unat_bound) auto
  then have nz: "(of_nat (Suc i) + 1 :: 64 word) \<noteq> 0" by (metis add_2_eq_Suc' nat.distinct(1) unsigned_0)
  have "unat (of_nat (Suc i) + 1 :: 64 word) \<le> n" using b 2(2) by simp
  moreover have "m + i < length (filter (accepted_draw n) ds)" using 2(4) by simp
  ultimately obtain r ds1 where d: "draw_index (of_nat (Suc i) + 1) ds = Some (r, ds1)"
    and left: "m + i \<le> length (filter (accepted_draw n) ds1)"
    using draw_index_returns [OF nz] by blast
  show ?case
  proof (cases r)
    case (Inl refused)
    with d show ?thesis by simp
  next
    case (Inr j)
    with 2(1) [OF d] Inr left 2(2,3) d show ?thesis by simp
  qed
qed simp

lemma shuffle_runs_returns:
  "length (concat runs) \<le> n \<Longrightarrow> n < 2 ^ 63 \<Longrightarrow>
   length (concat runs) \<le> length (filter (accepted_draw n) ds) \<Longrightarrow>
   \<exists>r ds'. shuffle_runs runs ds = Some (r, ds')"
proof (induction runs ds rule: shuffle_runs.induct)
  case (2 run runs ds)
  let ?rest = "length (concat runs)"
  have "\<exists>r ds1. shuffle_run run ds = Some (r, ds1) \<and>
      ((\<exists>x. r = Inr x) \<longrightarrow> ?rest \<le> length (filter (accepted_draw n) ds1))"
  proof (cases run)
    case Nil
    with 2 show ?thesis by (simp add: shuffle_run_def)
  next
    case (Cons x xs)
    with 2(2-4) show ?thesis
      using shuffle_down_returns [of "length xs" n ?rest ds run] by (simp add: shuffle_run_def)
  qed
  then obtain r ds1 where d: "shuffle_run run ds = Some (r, ds1)"
    and left: "(\<exists>x. r = Inr x) \<longrightarrow> ?rest \<le> length (filter (accepted_draw n) ds1)" by blast
  show ?case
  proof (cases r)
    case (Inl refused)
    with d show ?thesis by simp
  next
    case (Inr x)
    with 2(1) [OF d] left 2(2,3) obtain r' ds' where "shuffle_runs runs ds1 = Some (r', ds')" by auto
    with d Inr show ?thesis by (cases r') auto
  qed
qed simp

text \<open>Of the draws a bound accepts, each index is named by the same number.\<close>

lemma draw_threshold_value: "bound \<noteq> 0 \<Longrightarrow> unat (draw_threshold bound) = 2 ^ 64 mod unat bound"
proof -
  assume nz: "bound \<noteq> 0"
  have lt: "unat bound < 2 ^ 64" using unsigned_less [of bound, where ?'a = nat] by simp
  have pos: "0 < unat bound" using nz by (simp add: unat_gt_0)
  have ub: "uint bound = int (unat bound)" by simp
  have "uint (- bound) = (- uint bound) mod 2 ^ 64"
    by (simp add: uint_word_ariths)
  also have "\<dots> = (2 ^ 64 - uint bound) mod 2 ^ 64" by (rule minus_mod_self1 [symmetric])
  also have "\<dots> = 2 ^ 64 - int (unat bound)"
  proof -
    have "int x < 2 ^ 64" if "x < 2 ^ 64" for x :: nat using that by simp
    from this [OF lt] pos
    have "0 \<le> 2 ^ 64 - int (unat bound)" "2 ^ 64 - int (unat bound) < (2 ^ 64 :: int)"
      by linarith+
    then show ?thesis unfolding ub by (rule mod_pos_pos_trivial)
  qed
  finally have "int (unat (- bound)) = 2 ^ 64 - int (unat bound)" by simp
  moreover have "y = 2 ^ 64 - x" if "int y = 2 ^ 64 - int x" for x y :: nat using that by simp
  ultimately have "unat (- bound) = 2 ^ 64 - unat bound" by blast
  then have "unat (draw_threshold bound) = (2 ^ 64 - unat bound) mod unat bound"
    by (simp add: draw_threshold_def unat_mod)
  also have "\<dots> = 2 ^ 64 mod unat bound"
    using lt by (intro le_mod_geq [symmetric]) simp
  finally show ?thesis .
qed

lemma residue_class_card:
  assumes "0 < (b::nat)" "j < b"
  shows "card {n. N mod b \<le> n \<and> n < N \<and> n mod b = j} = N div b"
proof -
  define Q t lo where "Q = N div b" and "t = N mod b" and "lo = (if j < t then 1 else 0 :: nat)"
  have N: "N = Q * b + t" and t: "t < b" using assms by (simp_all add: Q_def t_def)
  have "{n. t \<le> n \<and> n < N \<and> n mod b = j} = (\<lambda>q. j + q * b) ` {lo ..< lo + Q}" (is "?A = ?B")
  proof
    show "?A \<subseteq> ?B"
    proof
      fix n assume "n \<in> ?A"
      then have n: "t \<le> n" "n < N" "n mod b = j" by auto
      then have eq: "n = j + (n div b) * b" by (metis add.commute div_mult_mod_eq)
      have lower: "lo \<le> n div b" using n eq by (cases "n div b") (simp_all add: lo_def)
      have "n div b < lo + Q"
      proof (rule ccontr)
        assume "\<not> n div b < lo + Q"
        then have "(lo + Q) * b \<le> (n div b) * b" by simp
        with eq n(2) N t show False
          by (auto simp: lo_def algebra_simps split: if_splits)
      qed
      with lower eq show "n \<in> ?B" by auto
    qed
  next
    show "?B \<subseteq> ?A"
    proof
      fix n assume "n \<in> ?B"
      then obtain q where q: "lo \<le> q" "q < lo + Q" "n = j + q * b" by auto
      have "n mod b = j" using q(3) assms(2) by simp
      moreover have "t \<le> n" using q t assms by (cases q) (auto simp: lo_def split: if_splits)
      moreover have "n < N"
      proof (cases "j < t")
        case True
        with q have "q \<le> Q" by (simp add: lo_def)
        then have "q * b \<le> Q * b" by simp
        with q(3) N True show ?thesis by linarith
      next
        case False
        with q have "Suc q \<le> Q" by (simp add: lo_def)
        then have "Suc q * b \<le> Q * b" by (rule mult_le_mono1)
        with q(3) N assms(2) show ?thesis by simp
      qed
      ultimately show "n \<in> ?A" by simp
    qed
  qed
  moreover have "inj_on (\<lambda>q. j + q * b) {lo ..< lo + Q}" using assms by (auto intro: inj_onI)
  ultimately show ?thesis by (simp add: card_image Q_def t_def)
qed

lemma card_words: "card {v :: 64 word. P (unat v)} = card {n. n < 2 ^ 64 \<and> P n}"
proof (rule bij_betw_same_card [of unat])
  have "unat (v :: 64 word) < 2 ^ 64" for v
    using unsigned_less [of v, where ?'a = nat] by simp
  then show "bij_betw unat {v :: 64 word. P (unat v)} {n. n < 2 ^ 64 \<and> P n}"
    by (intro bij_betw_byWitness [where f' = of_nat]) (auto simp: unat_of_nat)
qed

lemma draw_accepts_evenly:
  assumes "bound \<noteq> 0" "j < unat bound"
  shows "card {v. draw_threshold bound \<le> v \<and> unat (v mod bound) = j} = 2 ^ 64 div unat bound"
proof -
  have "0 < unat bound" using assms(1) by (simp add: unat_gt_0)
  then have "card {n. 2 ^ 64 mod unat bound \<le> n \<and> n < 2 ^ 64 \<and> n mod unat bound = j} = 2 ^ 64 div unat bound"
    by (rule residue_class_card [OF _ assms(2)])
  moreover have "card {v. draw_threshold bound \<le> v \<and> unat (v mod bound) = j} =
      card {n. n < 2 ^ 64 \<and> (2 ^ 64 mod unat bound \<le> n \<and> n mod unat bound = j)}"
    by (simp only: card_words [symmetric] word_le_nat_alt draw_threshold_value [OF assms(1)] unat_mod)
  ultimately show ?thesis by (simp add: conj_left_commute)
qed

subsection \<open>The order of a list of routes\<close>

lemma order_models_by_plan_out:
  assumes "order_models_by_plan J jn L now (Inr rows) models ds = Some (Inr out, ds')"
    and "length models < 2 ^ 63"
  obtains subs where "unretired J jn rows = Inr subs" and "mset out = mset models"
    and "map (route_plan_key L now subs) out = map (route_plan_key L now subs) (sort_by_key (route_plan_key L now subs) models)"
proof -
  from assms(1) obtain subs where subs: "unretired J jn rows = Inr subs"
    and shuffle: "shuffle_within_equal (\<lambda>l r. headroom_cmp (route_plan_key L now subs l) (route_plan_key L now subs r) = Equal)
      (sort_by_key (route_plan_key L now subs) models) ds = Some (Inr out, ds')"
    by (auto simp: order_models_by_plan_def Let_def split: sum.splits)
  have same: "headroom_cmp a b = Equal \<Longrightarrow> a = b" for a b
    by (cases "(a, b)" rule: headroom_cmp.cases) (auto simp: f64_total_cmp_def f64_total_inject)
  have len: "length (sort_by_key (route_plan_key L now subs) models) < 2 ^ 63" using assms(2) by simp
  note kept = shuffle_within_equal_keeps [where k = "route_plan_key L now subs", OF shuffle same len]
  show thesis by (rule that [OF subs]) (use kept in simp_all)
qed

text \<open>
  Ordering routes by plan loses and invents no route, and puts them in order of the headroom of
  the best account each could be billed to: unmeasured first, then least used, and the routes no
  unblocked, unretired active account serves last. The shuffle moves routes only within one rank.
\<close>

theorem routes_ordered_by_headroom:
  assumes "order_models_by_plan J jn L now (Inr rows) models ds = Some (Inr out, ds')"
    and "length models < 2 ^ 63"
  shows "mset out = mset models
    \<and> (\<exists>subscriptions. unretired J jn rows = Inr subscriptions
         \<and> sorted (map (route_plan_key L now subscriptions) out))"
proof (rule order_models_by_plan_out [OF assms])
  fix subs
  assume "unretired J jn rows = Inr subs" and "mset out = mset models"
    and keys: "map (route_plan_key L now subs) out = map (route_plan_key L now subs) (sort_by_key (route_plan_key L now subs) models)"
  moreover have "sorted (map (route_plan_key L now subs) out)" unfolding keys by simp
  ultimately show ?thesis by auto
qed

definition spare_draws :: draws where
  "spare_draws = [Inr 9, Inr 8]"

theorem routes_ordered_by_headroom_witness:
  "\<exists>out ds'. order_models_by_plan two_records (line_journal []) [] 0 (Inr []) [''codex/a'', ''kimi/b''] spare_draws
       = Some (Inr out, ds')
     \<and> mset out = mset [''codex/a'', ''kimi/b'']
     \<and> (\<exists>subscriptions. unretired two_records (line_journal []) [] = Inr subscriptions
          \<and> sorted (map (route_plan_key [] 0 subscriptions) out))"
proof -
  have key: "route_plan_key [] 0 [] r = Unservable" for r
    by (simp add: route_plan_key_def split: option.splits)
  have "\<exists>out ds'. order_models_by_plan two_records (line_journal []) [] 0 (Inr []) [''codex/a'', ''kimi/b''] spare_draws
      = Some (Inr out, ds')"
    by (simp add: order_models_by_plan_def Let_def key sort_by_key_def shuffle_within_equal_def shuffle_run_def
        spare_draws_def draw_threshold_def cmp_def)
  then show ?thesis using routes_ordered_by_headroom [of two_records "line_journal []" "[]" 0 "[]"] by fastforce
qed

text \<open>
  Each index below the bound is drawn by the same number of 64-bit words, the whole number of
  times the bound fits into their count; the words left over are drawn again.
\<close>

theorem indices_drawn_evenly:
  assumes "bound \<noteq> 0" and "j < unat bound"
  shows "card {v. draw_index bound [Inr v] = Some (Inr j, [])} = 2 ^ 64 div unat bound"
proof -
  have "{v. draw_index bound [Inr v] = Some (Inr j, [])} = {v. draw_threshold bound \<le> v \<and> unat (v mod bound) = j}"
    by auto
  with draw_accepts_evenly [OF assms] show ?thesis by simp
qed

theorem indices_drawn_evenly_witness:
  "card {v. draw_index 3 [Inr v] = Some (Inr 1, [])} = 2 ^ 64 div unat (3 :: 64 word)"
  by (rule indices_drawn_evenly) simp_all

text \<open>
  C33. Ordering returns: with as many draws left as there are routes, not counting draws below the
  number of routes (which the loop may draw again), an answer is given, the list or the refusal that
  randomness could not be read; only a source of endlessly rejected words keeps it waiting.
\<close>

theorem ordering_returns:
  assumes "length models < 2 ^ 63"
    and "length models \<le> length (filter (accepted_draw (length models)) ds)"
  shows "\<exists>r ds'. order_models_by_plan J jn L now routing models ds = Some (r, ds')"
proof -
  have "\<exists>r ds'. shuffle_within_equal same (sort_by_key key models) ds = Some (r, ds')"
    for same and key :: "string \<Rightarrow> headroom"
    using assms shuffle_runs_returns [of "chunk_by same (sort_by_key key models)" "length models" ds]
    by (simp add: shuffle_within_equal_def)
  then show ?thesis by (auto simp: order_models_by_plan_def Let_def split: sum.splits)
qed

theorem ordering_returns_witness:
  "\<exists>r ds'. order_models_by_plan two_records (line_journal []) [] 0 (Inr []) [''codex/a'', ''kimi/b''] spare_draws
     = Some (r, ds')"
  by (rule ordering_returns) (simp_all add: spare_draws_def accepted_draw_def)

end
