(* ===== verification/Leases.thy ===== *)
theory Leases
  imports Ranking Declarations
begin

section \<open>Leases\<close>

text \<open>
  \<open>src/src/subscription_dispatch/leases/\<close>: which live session runs on which subscription
  (\<open>mod.rs\<close>), the register file behind it (\<open>register.rs\<close>) and a holder's report that its member was
  refused (\<open>refused.rs\<close>). The register is kept as what reading its file yields. Each call runs under
  the exclusive lock beside the file, so a history is a sequence of calls; what the lock, the clock
  and the replacement of the file answer a call is its \<open>reg_env\<close>.
\<close>

subsection \<open>The register\<close>

record lease =
  le_id :: string
  le_provider :: string
  le_subscription_id :: string
  le_account :: "string option"
  le_session_id :: string
  le_holder :: string
  le_agent :: "string option"
  le_taken_at_ms :: instant
  le_released_at_ms :: "instant option"

definition is_live :: "lease \<Rightarrow> bool" where
  "is_live l = (le_released_at_ms l = None)"

definition belongs_to :: "lease \<Rightarrow> string option \<Rightarrow> bool" where
  "belongs_to l agent = (case agent of None \<Rightarrow> True | Some a \<Rightarrow> le_agent l = Some a)"

datatype release_refused =
    RelInvalid string
  | RelUnavailable string
  | RelForeign string

datatype register_file =
    RegNoPath string
  | RegAbsent
  | RegUnreadable string
  | RegUndecodable string
  | RegLeases "lease list"

record reg_env =
  re_path :: string
  re_lock :: "string option"
  re_clock :: "(string, instant) result"
  re_fault :: "string option"

text \<open>\<open>held()\<close>, then \<open>load()\<close>; both resolve the path first.\<close>

definition held_register :: "reg_env \<Rightarrow> register_file \<Rightarrow> (string, unit) result" where
  "held_register E file = (case file of
       RegNoPath cause \<Rightarrow> Inl cause
     | _ \<Rightarrow> (case re_lock E of Some err \<Rightarrow> Inl err | None \<Rightarrow> Inr ()))"

definition load_register :: "reg_env \<Rightarrow> register_file \<Rightarrow> (string, lease list) result" where
  "load_register E file = (case file of
       RegNoPath cause \<Rightarrow> Inl cause
     | RegAbsent \<Rightarrow> Inr []
     | RegLeases ls \<Rightarrow> Inr ls
     | RegUndecodable err \<Rightarrow>
         Inl (''the lease register '' @ re_path E @ '' is not readable JSON ('' @ err @
              ''); repair or remove it, nothing is leased until it reads'')
     | RegUnreadable err \<Rightarrow> Inl (''the lease register '' @ re_path E @ '' cannot be read: '' @ err))"

definition persist_register :: "reg_env \<Rightarrow> lease list \<Rightarrow> register_file \<Rightarrow> (string, unit) result \<times> register_file" where
  "persist_register E ls file =
     (case re_fault E of Some err \<Rightarrow> (Inl err, file) | None \<Rightarrow> (Inr (), RegLeases ls))"

definition live_leases :: "reg_env \<Rightarrow> register_file \<Rightarrow> (string, lease list) result" where
  "live_leases E file =
     (case held_register E file of
        Inl err \<Rightarrow> Inl err
      | Inr _ \<Rightarrow> (case load_register E file of Inl err \<Rightarrow> Inl err | Inr ls \<Rightarrow> Inr (filter is_live ls)))"

subsection \<open>Members\<close>

datatype lease_refused =
    Incomplete string
  | LimitUnstated string
  | NoUsableMember string "json list"
  | PoolFull string nat "json list"
  | LeaseUnavailable string

definition json_opt_str :: "string option \<Rightarrow> json" where
  "json_opt_str s = (case s of None \<Rightarrow> JNull | Some t \<Rightarrow> JStr t)"

text \<open>\<open>member[key]\<close>, null when absent.\<close>

definition json_index :: "json \<Rightarrow> string \<Rightarrow> json" where
  "json_index j k = (case json_get j k of None \<Rightarrow> JNull | Some v \<Rightarrow> v)"

fun refused_detail :: "json_codec \<Rightarrow> lease_refused \<Rightarrow> string" where
  "refused_detail J (Incomplete d) = d"
| "refused_detail J (LimitUnstated d) = d @ '', so no lease can be shared out''"
| "refused_detail J (NoUsableMember provider members) =
     ''the pool holds no usable '' @ provider @ '' member: '' @
     join ''; '' (map (\<lambda>m. show_json J (json_index m ''subscription_id'') @ '' ('' @
       show_json J (json_index m ''refusal'') @ '')'') members)"
| "refused_detail J (PoolFull provider limit members) =
     ''every usable '' @ provider @ '' subscription carries '' @ show_nat limit @
     '' sessions, the operator's limit: '' @
     join ''; '' (map (\<lambda>m. show_json J (json_index m ''subscription_id'') @ '' carries '' @
       show_json J (json_index m ''live'')) members)"
| "refused_detail J (LeaseUnavailable d) = d"

record taken =
  tk_lease :: lease
  tk_live_on_subscription :: nat
  tk_limit :: nat
  tk_new :: bool

record lease_request =
  lq_provider :: string
  lq_session_id :: string
  lq_holder :: string

text \<open>The first current window at its whole limit, and the sentence that names it.\<close>

definition window_at_limit :: "'f crates \<Rightarrow> ledger \<Rightarrow> string \<Rightarrow> instant \<Rightarrow> string option" where
  "window_at_limit K L sid now =
     (case List.find (\<lambda>r. window_current now r \<and> at_limit (lr_used_fraction r))
             (pw_limits (plan_windows (usage_for L sid) now)) of
        None \<Rightarrow> None
      | Some r \<Rightarrow>
          (let window = (case lr_window_label r of Some w \<Rightarrow> w | None \<Rightarrow> lr_label r);
               resets = (case Option.bind (lr_resets_at_ms r) (utc_text K) of
                           Some at \<Rightarrow> ''it resets at '' @ at
                         | None \<Rightarrow> ''the provider named no reset'')
           in Some (''plan window '' @ window @ '' is at its whole limit ('' @
                show_f64 K (lr_used_fraction r) @ '' used); '' @ resets)))"

definition member_refusal :: "'f crates \<Rightarrow> ledger \<Rightarrow> string \<Rightarrow> instant \<Rightarrow> string option" where
  "member_refusal K L sid now =
     (case standing_refusal K L sid now of
        Some rf \<Rightarrow> Some (rf_message rf)
      | None \<Rightarrow> window_at_limit K L sid now)"

record members =
  mb_usable :: "(subscription_entry \<times> lease list) list"
  mb_refused :: "json list"

fun members_of ::
  "'f crates \<Rightarrow> json_codec \<Rightarrow> journal \<Rightarrow> ledger \<Rightarrow> instant \<Rightarrow> subscription_entry list \<Rightarrow> string \<Rightarrow>
   lease list \<Rightarrow> (string, members) result" where
  "members_of K J jn L now [] provider live = Inr \<lparr>mb_usable = [], mb_refused = []\<rparr>"
| "members_of K J jn L now (e # es) provider live =
     (if se_provider e = provider \<and> se_status e = ''active''
      then (case is_retired J jn (se_id e) of
              Inl err \<Rightarrow> Inl err
            | Inr retired \<Rightarrow>
                (case members_of K J jn L now es provider live of
                   Inl err \<Rightarrow> Inl err
                 | Inr m \<Rightarrow>
                     (if retired then Inr m
                      else (case member_refusal K L (se_id e) now of
                              Some refusal \<Rightarrow>
                                Inr (m\<lparr>mb_refused :=
                                  json_obj [(''subscription_id'', JStr (se_id e)),
                                            (''account'', json_opt_str (se_account e)),
                                            (''refusal'', JStr refusal)] # mb_refused m\<rparr>)
                            | None \<Rightarrow>
                                Inr (m\<lparr>mb_usable :=
                                  (e, filter (\<lambda>l. le_subscription_id l = se_id e) live) # mb_usable m\<rparr>)))))
      else members_of K J jn L now es provider live)"

definition count_leases :: "lease list \<Rightarrow> nat" where
  "count_leases ls = length ls"

definition member_row :: "subscription_entry \<Rightarrow> lease list \<Rightarrow> json" where
  "member_row e ls =
     json_obj [(''subscription_id'', JStr (se_id e)), (''account'', json_opt_str (se_account e)),
               (''live'', JInt (int (count_leases ls)))]"

text \<open>\<open>Option<f64>::partial_cmp\<close>.\<close>

fun opt_partial_cmp :: "f64 option \<Rightarrow> f64 option \<Rightarrow> ordering option" where
  "opt_partial_cmp None None = Some Equal"
| "opt_partial_cmp None (Some _) = Some Less"
| "opt_partial_cmp (Some _) None = Some Greater"
| "opt_partial_cmp (Some a) (Some b) = f64_partial_cmp a b"

definition fewest_then_freshest ::
  "ledger \<Rightarrow> instant \<Rightarrow> subscription_entry \<times> lease list \<Rightarrow> subscription_entry \<times> lease list \<Rightarrow> ordering" where
  "fewest_then_freshest L now l r =
     then_with (cmp (length (snd l)) (length (snd r)))
       (case opt_partial_cmp (used_fraction L (se_id (fst l)) now now)
               (used_fraction L (se_id (fst r)) now now) of
          Some ord \<Rightarrow> ord
        | None \<Rightarrow> Equal)"

text \<open>The key leases are shuffled within: two members equal in it.\<close>

definition same_lease_key ::
  "ledger \<Rightarrow> instant \<Rightarrow> subscription_entry \<times> lease list \<Rightarrow> subscription_entry \<times> lease list \<Rightarrow> bool" where
  "same_lease_key L now l r =
     (length (snd l) = length (snd r) \<and>
      opt_partial_cmp (used_fraction L (se_id (fst l)) now now)
        (used_fraction L (se_id (fst r)) now now) = Some Equal)"

subsection \<open>Taking a lease\<close>

type_synonym 'a leasing = "((lease_refused, 'a) result \<times> register_file \<times> draws) option"

definition standing_lease :: "string \<Rightarrow> string \<Rightarrow> string option \<Rightarrow> lease list \<Rightarrow> lease option" where
  "standing_lease provider session agent ls =
     List.find (\<lambda>l. le_session_id l = session \<and> le_provider l = provider \<and> belongs_to l agent) ls"

definition on_subscription :: "string \<Rightarrow> lease list \<Rightarrow> nat" where
  "on_subscription sid ls = length (filter (\<lambda>l. le_subscription_id l = sid) ls)"

definition new_lease ::
  "string \<Rightarrow> string \<Rightarrow> string \<Rightarrow> string option \<Rightarrow> subscription_entry \<Rightarrow> instant \<Rightarrow> lease" where
  "new_lease provider session holder agent chosen at =
     \<lparr>le_id = session @ ''@'' @ provider @ ''@'' @ show_int at, le_provider = provider,
      le_subscription_id = se_id chosen, le_account = se_account chosen, le_session_id = session,
      le_holder = holder, le_agent = agent, le_taken_at_ms = at, le_released_at_ms = None\<rparr>"

text \<open>The new lease pushed, counted and persisted.\<close>

definition admit_lease ::
  "reg_env \<Rightarrow> string \<Rightarrow> string \<Rightarrow> string \<Rightarrow> string option \<Rightarrow> nat \<Rightarrow> subscription_entry \<Rightarrow> lease list \<Rightarrow>
   register_file \<Rightarrow> (lease_refused, taken) result \<times> register_file" where
  "admit_lease E provider session holder agent limit chosen ls file =
     (case re_clock E of
        Inl err \<Rightarrow> (Inl (LeaseUnavailable err), file)
      | Inr at \<Rightarrow>
          (let lease = new_lease provider session holder agent chosen at;
               ls' = ls @ [lease]
           in (case persist_register E ls' file of
                 (Inl err, file') \<Rightarrow> (Inl (LeaseUnavailable err), file')
               | (Inr _, file') \<Rightarrow>
                   (Inr \<lparr>tk_lease = lease, tk_live_on_subscription = on_subscription (se_id chosen) ls',
                         tk_limit = limit, tk_new = True\<rparr>, file'))))"

text \<open>The usable members in lease order, the first of those below the limit chosen by chance among equals.\<close>

definition choose_member ::
  "ledger \<Rightarrow> instant \<Rightarrow> nat \<Rightarrow> (subscription_entry \<times> lease list) list \<Rightarrow> draws \<Rightarrow>
   ((refusal, (subscription_entry \<times> lease list) list) result \<times> draws) option" where
  "choose_member L now limit cands ds =
     (let sorted_members = sort_by (fewest_then_freshest L now) cands;
          available = takeWhile (\<lambda>(_, live). count_leases live < limit) sorted_members
      in shuffle_within_equal (same_lease_key L now) available ds)"

definition register_take ::
  "'f crates \<Rightarrow> json_codec \<Rightarrow> journal \<Rightarrow> ledger \<Rightarrow> instant \<Rightarrow> reg_env \<Rightarrow> string \<Rightarrow> string \<Rightarrow> string \<Rightarrow>
   string option \<Rightarrow> subscription_entry list \<Rightarrow> nat \<Rightarrow> register_file \<Rightarrow> draws \<Rightarrow> taken leasing" where
  "register_take K J jn L now E provider session holder agent entries limit file ds =
     (case held_register E file of
        Inl err \<Rightarrow> Some (Inl (LeaseUnavailable err), file, ds)
      | Inr _ \<Rightarrow>
          (case load_register E file of
             Inl err \<Rightarrow> Some (Inl (LeaseUnavailable err), file, ds)
           | Inr all \<Rightarrow>
               (let ls = filter is_live all
                in (case standing_lease provider session agent ls of
                      Some l \<Rightarrow>
                        Some (Inr \<lparr>tk_lease = l,
                                   tk_live_on_subscription = on_subscription (le_subscription_id l) ls,
                                   tk_limit = limit, tk_new = False\<rparr>, file, ds)
                    | None \<Rightarrow>
                        (case members_of K J jn L now entries provider ls of
                           Inl err \<Rightarrow> Some (Inl (LeaseUnavailable err), file, ds)
                         | Inr m \<Rightarrow>
                             (if mb_usable m = []
                              then Some (Inl (NoUsableMember provider (mb_refused m)), file, ds)
                              else (case choose_member L now limit (mb_usable m) ds of
                                      None \<Rightarrow> None
                                    | Some (Inl rf, ds') \<Rightarrow>
                                        Some (Inl (LeaseUnavailable (rf_message rf)), file, ds')
                                    | Some (Inr [], ds') \<Rightarrow>
                                        Some (Inl (PoolFull provider limit
                                          (map (\<lambda>(e, live). member_row e live)
                                            (sort_by (fewest_then_freshest L now) (mb_usable m)))), file, ds')
                                    | Some (Inr ((chosen, _) # _), ds') \<Rightarrow>
                                        (case admit_lease E provider session holder agent limit chosen ls file of
                                           (r, file') \<Rightarrow> Some (r, file', ds')))))))))"

text \<open>\<open>inventory\<close>: what \<open>broker::list_all_subscriptions\<close> answers.\<close>

definition lease_take ::
  "'f crates \<Rightarrow> json_codec \<Rightarrow> journal \<Rightarrow> ledger \<Rightarrow> instant \<Rightarrow> reg_env \<Rightarrow>
   (string, subscription_entry list) result \<Rightarrow> lease_request \<Rightarrow> string option \<Rightarrow> register_file \<Rightarrow> draws \<Rightarrow>
   taken leasing" where
  "lease_take K J jn L now E inventory rq agent file ds =
     (let provider = trim (lq_provider rq); session = trim (lq_session_id rq); holder = trim (lq_holder rq)
      in if provider = [] \<or> session = [] \<or> holder = []
         then Some (Inl (Incomplete (''a lease names its provider, the session_id that will run on it '' @
                ''and the holder (the program that started the session)'')), file, ds)
         else (case sessions_cap provider of
                 Inl detail \<Rightarrow> Some (Inl (LimitUnstated detail), file, ds)
               | Inr limit \<Rightarrow>
                   (case inventory of
                      Inl err \<Rightarrow>
                        Some (Inl (LeaseUnavailable
                          (''the Skarbiec subscription inventory could not be read: '' @ err)), file, ds)
                    | Inr entries \<Rightarrow>
                        register_take K J jn L now E provider session holder agent entries limit file ds)))"

subsection \<open>Releasing\<close>

definition lease_named :: "string option \<Rightarrow> string option \<Rightarrow> lease \<Rightarrow> bool" where
  "lease_named lease_id session l =
     ((case lease_id of None \<Rightarrow> False | Some i \<Rightarrow> i = le_id l) \<or>
      (case session of None \<Rightarrow> False | Some s \<Rightarrow> s = le_session_id l))"

definition named_text :: "string option \<Rightarrow> string option" where
  "named_text s = (case s of None \<Rightarrow> None | Some t \<Rightarrow> (if trim t = [] then None else Some (trim t)))"

definition register_release ::
  "reg_env \<Rightarrow> string option \<Rightarrow> string option \<Rightarrow> string option \<Rightarrow> register_file \<Rightarrow>
   (release_refused, lease list) result \<times> register_file" where
  "register_release E lease_id session_id agent file =
     (let lid = named_text lease_id; ses = named_text session_id
      in if lid = None \<and> ses = None
         then (Inl (RelInvalid ''a release names the lease id or the session_id whose leases end''), file)
         else (case held_register E file of
           Inl err \<Rightarrow> (Inl (RelUnavailable err), file)
         | Inr _ \<Rightarrow>
          (case load_register E file of
             Inl err \<Rightarrow> (Inl (RelUnavailable err), file)
           | Inr all \<Rightarrow>
              (case re_clock E of
                 Inl err \<Rightarrow> (Inl (RelUnavailable err), file)
               | Inr at \<Rightarrow>
                  (let hit = (\<lambda>l. is_live l \<and> lease_named lid ses l);
                       foreign = map le_id (filter (\<lambda>l. hit l \<and> \<not> belongs_to l agent) all);
                       ended = (\<lambda>l. if hit l \<and> belongs_to l agent then l\<lparr>le_released_at_ms := Some at\<rparr> else l);
                       released = map ended (filter (\<lambda>l. hit l \<and> belongs_to l agent) all)
                   in if foreign \<noteq> []
                      then ((case agent of
                               Some caller \<Rightarrow>
                                 Inl (RelForeign (''lease '' @ join '', '' foreign @
                                   '' was taken by another identity; '' @ caller @
                                   '' may end only the leases it took, and nothing was released''))
                             | None \<Rightarrow> Inl (RelUnavailable [])), file)
                      else (case persist_register E (filter is_live (map ended all)) file of
                              (Inl err, file') \<Rightarrow> (Inl (RelUnavailable err), file')
                            | (Inr _, file') \<Rightarrow> (Inr released, file')))))))"

subsection \<open>Counts and shortage\<close>

definition lease_counts :: "reg_env \<Rightarrow> register_file \<Rightarrow> (string, (string, nat) btmap) result" where
  "lease_counts E file =
     (case live_leases E file of
        Inl err \<Rightarrow> Inl err
      | Inr ls \<Rightarrow> Inr (foldl (\<lambda>m l. bt_entry 0 (le_subscription_id l) Suc m) [] ls))"

definition sessions_shortage ::
  "'f crates \<Rightarrow> json_codec \<Rightarrow> journal \<Rightarrow> ledger \<Rightarrow> instant \<Rightarrow> reg_env \<Rightarrow>
   (string, subscription_entry list) result \<Rightarrow> string \<Rightarrow> register_file \<Rightarrow> (string, json option) result" where
  "sessions_shortage K J jn L now E inventory provider file =
     (case sessions_cap provider of
        Inl err \<Rightarrow> Inl err
      | Inr limit \<Rightarrow>
          (case inventory of
             Inl err \<Rightarrow> Inl (''the Skarbiec subscription inventory could not be read: '' @ err)
           | Inr entries \<Rightarrow>
               (case live_leases E file of
                  Inl err \<Rightarrow> Inl err
                | Inr live \<Rightarrow>
                    (case members_of K J jn L now entries provider live of
                       Inl err \<Rightarrow> Inl err
                     | Inr m \<Rightarrow>
                         (let full = filter (\<lambda>(_, ls). count_leases ls \<ge> limit) (mb_usable m)
                          in Inr (if mb_usable m = [] \<or> length full \<noteq> length (mb_usable m) then None
                                  else Some (json_obj [(''provider'', JStr provider), (''limit'', JInt (int limit)),
                                    (''members'', JArr (map (\<lambda>(e, ls). member_row e ls) full))])))))))"

subsection \<open>A holder's report\<close>

datatype report_refused =
    RepInvalid string
  | RepNotHeld string
  | RepUnavailable string
  | RepNotReleased string string release_refused

record reported =
  rp_blocked :: "lease list"
  rp_until_ms :: instant

text \<open>
  \<open>block_now i\<close> and \<open>env i\<close>: what the clock and the register answer the i-th lease of the loop. A
  release the loop cannot make is answered with the member, the lease and the release's refusal,
  which the code puts in one sentence.
\<close>

fun report_each ::
  "'f crates \<Rightarrow> (nat \<Rightarrow> instant) \<Rightarrow> (nat \<Rightarrow> reg_env) \<Rightarrow> nat \<Rightarrow> string \<Rightarrow> string \<Rightarrow> instant \<Rightarrow> string option \<Rightarrow>
   lease list \<Rightarrow> ledger \<Rightarrow> register_file \<Rightarrow> (report_refused, unit) result \<times> ledger \<times> register_file" where
  "report_each K block_now env i provider reason until_ms agent [] L file = (Inr (), L, file)"
| "report_each K block_now env i provider reason until_ms agent (l # ls) L file =
     (let L' = record_reported_block K (le_subscription_id l) provider reason until_ms (block_now i) L
      in (case register_release (env i) (Some (le_id l)) None agent file of
            (Inl rf, file') \<Rightarrow> (Inl (RepNotReleased (le_subscription_id l) (le_id l) rf), L', file')
          | (Inr _, file') \<Rightarrow> report_each K block_now env (Suc i) provider reason until_ms agent ls L' file'))"

definition blank_field :: "(string \<times> string) list \<Rightarrow> string option" where
  "blank_field named = map_option fst (List.find (\<lambda>(_, v). trim v = []) named)"

definition lease_report ::
  "'f crates \<Rightarrow> reg_env \<Rightarrow> (nat \<Rightarrow> instant) \<Rightarrow> (nat \<Rightarrow> reg_env) \<Rightarrow> string \<Rightarrow> string \<Rightarrow> instant \<Rightarrow> string \<Rightarrow>
   string option \<Rightarrow> instant \<Rightarrow> ledger \<Rightarrow> register_file \<Rightarrow>
   (report_refused, reported) result \<times> ledger \<times> register_file" where
  "lease_report K E block_now env session provider until_ms reason agent now L file =
     (case blank_field [(''session_id'', session), (''provider'', provider), (''reason'', reason)] of
        Some name \<Rightarrow> (Inl (RepInvalid (''a refusal report names the '' @ name @ ''; it was empty'')), L, file)
      | None \<Rightarrow>
          (if until_ms \<le> now
           then (Inl (RepInvalid (''the provider's retry instant '' @ show_int until_ms @ '' is not after now ('' @
                  show_int now @ ''); a refusal whose wait is over blocks nothing'')), L, file)
           else (case live_leases E file of
                   Inl err \<Rightarrow> (Inl (RepUnavailable err), L, file)
                 | Inr live \<Rightarrow>
                     (let mine = filter (\<lambda>l. le_session_id l = session \<and> le_provider l = provider \<and>
                                             belongs_to l agent) live
                      in if mine = []
                         then (Inl (RepNotHeld (''session '' @ session @ '' holds no live '' @ provider @
                                '' lease this caller took, so no member is known to be refused'')), L, file)
                         else (case report_each K block_now env 0 provider reason until_ms agent mine L file of
                                 (Inl rf, L', file') \<Rightarrow> (Inl rf, L', file')
                               | (Inr _, L', file') \<Rightarrow>
                                   (Inr \<lparr>rp_blocked = mine, rp_until_ms = until_ms\<rparr>, L', file'))))))"

subsection \<open>The member a lease lands on\<close>

definition lease_usable ::
  "'f crates \<Rightarrow> json_codec \<Rightarrow> journal \<Rightarrow> ledger \<Rightarrow> instant \<Rightarrow> string \<Rightarrow> subscription_entry \<Rightarrow> bool" where
  "lease_usable K J jn L now provider e =
     (se_provider e = provider \<and> se_status e = ''active'' \<and> is_retired J jn (se_id e) = Inr False \<and>
      member_refusal K L (se_id e) now = None)"

lemma members_usable:
  "members_of K J jn L now entries provider live = Inr m \<Longrightarrow>
     set (mb_usable m) = (\<lambda>e. (e, filter (\<lambda>l. le_subscription_id l = se_id e) live)) `
       {e \<in> set entries. lease_usable K J jn L now provider e} \<and>
     length (mb_usable m) \<le> length entries"
proof (induction entries arbitrary: m)
  case (Cons e es)
  show ?case
  proof (cases "se_provider e = provider \<and> se_status e = ''active''")
    case True
    with Cons.prems obtain retired m' where r: "is_retired J jn (se_id e) = Inr retired"
      and m': "members_of K J jn L now es provider live = Inr m'"
      by (auto split: sum.splits)
    have IH: "set (mb_usable m') = (\<lambda>e. (e, filter (\<lambda>l. le_subscription_id l = se_id e) live)) `
       {e \<in> set es. lease_usable K J jn L now provider e}" "length (mb_usable m') \<le> length es"
      using Cons.IH [OF m'] by auto
    from True Cons.prems r m' IH show ?thesis
      by (cases "lease_usable K J jn L now provider e")
         (auto simp: lease_usable_def split: if_splits option.splits)
  next
    case False
    then have "\<not> lease_usable K J jn L now provider e" by (auto simp: lease_usable_def)
    moreover have "members_of K J jn L now es provider live = Inr m" using False Cons.prems by (simp split: if_splits)
    ultimately show ?thesis using Cons.IH [of m] by auto
  qed
qed auto

lemma then_with_Greater: "then_with a b = Greater \<longleftrightarrow> a = Greater \<or> (a = Equal \<and> b = Greater)"
  by (cases a) (auto simp: then_with_def)

lemma insert_by_fewest:
  "sorted (map (\<lambda>m. length (snd m)) xs) \<Longrightarrow> sorted (map (\<lambda>m. length (snd m)) (insert_by (fewest_then_freshest L now) x xs))"
proof (induction xs)
  case (Cons y ys)
  have "length (snd y) \<le> length (snd x)" if "fewest_then_freshest L now x y = Greater"
    using that by (auto simp: fewest_then_freshest_def then_with_Greater)
  moreover have "length (snd x) \<le> length (snd y)" if "fewest_then_freshest L now x y \<noteq> Greater"
    using that by (auto simp: fewest_then_freshest_def then_with_Greater)
  moreover have "set (insert_by (fewest_then_freshest L now) x ys) = insert x (set ys)"
    by (metis mset_insert_by set_mset_add_mset_insert set_mset_mset)
  ultimately show ?case using Cons by force
qed simp

lemma sort_by_fewest: "sorted (map (\<lambda>m. length (snd m)) (sort_by (fewest_then_freshest L now) xs))"
  by (induction xs) (simp_all add: insert_by_fewest)

lemma choose_member_head:
  assumes "choose_member L now limit cands ds = Some (Inr (c # cs), ds')" "length cands < 2 ^ 63"
  shows "c \<in> set cands" "length (snd c) < limit" "\<forall>d \<in> set cands. length (snd c) \<le> length (snd d)"
proof -
  let ?sorted = "sort_by (fewest_then_freshest L now) cands"
  let ?free = "takeWhile (\<lambda>(_, live). count_leases live < limit) ?sorted"
  have "length ?free \<le> length ?sorted" by (rule length_takeWhile_le)
  then have bound: "length ?free < 2 ^ 63" using assms(2) by simp
  have shuffled: "shuffle_within_equal (same_lease_key L now) ?free ds = Some (Inr (c # cs), ds')"
    using assms(1) by (simp add: choose_member_def Let_def)
  have keeps: "mset (c # cs) = mset ?free"
    "map (\<lambda>m. length (snd m)) (c # cs) = map (\<lambda>m. length (snd m)) ?free"
    by (rule shuffle_within_equal_keeps [OF shuffled _ bound], simp add: same_lease_key_def)+
  have "set (c # cs) = set ?free" using keeps(1) by (rule mset_eq_setD)
  then have "c \<in> set ?free" by auto
  from set_takeWhileD [OF this] have "c \<in> set ?sorted \<and> count_leases (snd c) < limit"
    by (simp add: split_beta)
  then show "c \<in> set cands" "length (snd c) < limit" by (simp_all add: count_leases_def)
  obtain y ys where free: "?free = y # ys" "length (snd c) = length (snd y)"
    using keeps(2) by (cases ?free) auto
  then obtain zs where "?sorted = y # zs"
    by (cases ?sorted) (auto split: if_splits)
  with sort_by_fewest [of L now cands] have "\<forall>d \<in> set ?sorted. length (snd y) \<le> length (snd d)" by auto
  with free(2) show "\<forall>d \<in> set cands. length (snd c) \<le> length (snd d)" by simp
qed

text \<open>What a lease call did to the register.\<close>

lemma admit_lease_cases:
  assumes "admit_lease E provider session holder agent limit e ls file = (r, file')"
  obtains (refused) rf where "r = Inl rf" "file' = file"
  | (fresh) at where
      "r = Inr \<lparr>tk_lease = new_lease provider session holder agent e at,
                tk_live_on_subscription =
                  on_subscription (se_id e) (ls @ [new_lease provider session holder agent e at]),
                tk_limit = limit, tk_new = True\<rparr>"
      "file' = RegLeases (ls @ [new_lease provider session holder agent e at])"
  using assms that
  by (fastforce simp: admit_lease_def persist_register_def Let_def split: sum.splits option.splits)

text \<open>
  The call was refused and left the register alone, or found the session's standing lease, or chose
  a usable member below the limit and not more loaded than any other usable one.
\<close>

definition chosen_fairly ::
  "'f crates \<Rightarrow> json_codec \<Rightarrow> journal \<Rightarrow> ledger \<Rightarrow> instant \<Rightarrow> string \<Rightarrow> subscription_entry list \<Rightarrow> nat \<Rightarrow>
   lease list \<Rightarrow> subscription_entry \<Rightarrow> bool" where
  "chosen_fairly K J jn L now provider entries limit ls e =
     (e \<in> set entries \<and> lease_usable K J jn L now provider e \<and> on_subscription (se_id e) ls < limit \<and>
      (\<forall>d \<in> set entries. lease_usable K J jn L now provider d \<longrightarrow>
         on_subscription (se_id e) ls \<le> on_subscription (se_id d) ls))"

lemma choose_member_fair:
  assumes m: "members_of K J jn L now entries provider ls = Inr m"
    and c: "choose_member L now limit (mb_usable m) ds = Some (Inr ((e, live) # cs), ds')"
    and "length entries < 2 ^ 63"
  shows "chosen_fairly K J jn L now provider entries limit ls e"
proof -
  note mem = members_usable [OF m]
  then have "length (mb_usable m) < 2 ^ 63" using assms(3) by linarith
  note head = choose_member_head [OF c this]
  from head(1) mem have "e \<in> set entries" "lease_usable K J jn L now provider e"
    and "live = filter (\<lambda>l. le_subscription_id l = se_id e) ls" by auto
  with head(2,3) mem show ?thesis by (auto simp: chosen_fairly_def on_subscription_def)
qed

lemma register_take_chooses:
  assumes "register_take K J jn L now E provider session holder agent entries limit file ds = Some (r, file', ds')"
    and "held_register E file = Inr ()" "load_register E file = Inr all"
    and "standing_lease provider session agent (filter is_live all) = None"
  obtains (refused) rf where "r = Inl rf" "file' = file"
  | (chosen) m e live cs ds1 where "members_of K J jn L now entries provider (filter is_live all) = Inr m"
      "choose_member L now limit (mb_usable m) ds = Some (Inr ((e, live) # cs), ds1)"
      "admit_lease E provider session holder agent limit e (filter is_live all) file = (r, file')"
proof (cases "members_of K J jn L now entries provider (filter is_live all)")
  case (Inl err)
  with assms refused show ?thesis by (auto simp: register_take_def Let_def)
next
  case (Inr m)
  show ?thesis
  proof (cases "choose_member L now limit (mb_usable m) ds")
    case None
    with assms Inr refused show ?thesis by (auto simp: register_take_def Let_def split: if_splits)
  next
    case (Some out)
    obtain res ds1 where out: "out = (res, ds1)" by (cases out)
    consider "mb_usable m = []" | rf where "res = Inl rf" | "res = Inr []" | e live cs where "res = Inr ((e, live) # cs)"
      by (metis list.exhaust old.sum.exhaust surj_pair)
    then show ?thesis
    proof cases
      case 4
      with Some out have c: "choose_member L now limit (mb_usable m) ds = Some (Inr ((e, live) # cs), ds1)"
        by simp
      show ?thesis
      proof (cases "mb_usable m = []")
        case True
        with assms Inr refused show ?thesis by (auto simp: register_take_def Let_def)
      next
        case False
        with assms Inr c show ?thesis
          by (intro chosen [OF Inr c]) (auto simp: register_take_def Let_def split: prod.splits)
      qed
    qed (use assms Inr Some out refused in \<open>auto simp: register_take_def Let_def split: if_splits\<close>)
  qed
qed

lemma register_take_cases:
  assumes "register_take K J jn L now E provider session holder agent entries limit file ds = Some (r, file', ds')"
    and "length entries < 2 ^ 63"
  obtains (refused) rf where "r = Inl rf" "file' = file"
  | (standing) l all where "load_register E file = Inr all"
      "standing_lease provider session agent (filter is_live all) = Some l"
      "r = Inr \<lparr>tk_lease = l, tk_live_on_subscription = on_subscription (le_subscription_id l) (filter is_live all),
                tk_limit = limit, tk_new = False\<rparr>" "file' = file"
  | (fresh) all e at where "load_register E file = Inr all"
      "standing_lease provider session agent (filter is_live all) = None"
      "chosen_fairly K J jn L now provider entries limit (filter is_live all) e"
      "r = Inr \<lparr>tk_lease = new_lease provider session holder agent e at,
                tk_live_on_subscription = on_subscription (se_id e)
                  (filter is_live all @ [new_lease provider session holder agent e at]),
                tk_limit = limit, tk_new = True\<rparr>"
      "file' = RegLeases (filter is_live all @ [new_lease provider session holder agent e at])"
proof -
  consider err where "held_register E file = Inl err" | err where "load_register E file = Inl err"
    | all where "held_register E file = Inr ()" "load_register E file = Inr all"
    by (metis (full_types) old.sum.exhaust old.unit.exhaust)
  then show ?thesis
  proof cases
    case (3 all)
    show ?thesis
    proof (cases "standing_lease provider session agent (filter is_live all)")
      case (Some l)
      with 3 assms(1) show ?thesis
        by (intro standing [OF 3(2) Some]) (simp_all add: register_take_def Let_def)
    next
      case None
      from assms(1) 3 None show ?thesis
      proof (cases rule: register_take_chooses)
        case (chosen m e live cs ds1)
        note fair = choose_member_fair [OF chosen(1,2) assms(2)]
        from chosen(3) show ?thesis
        proof (cases rule: admit_lease_cases)
          case (fresh at)
          then show ?thesis by (rule that(3) [OF 3(2) None fair])
        qed (rule refused)
      qed (rule refused)
    qed
  qed (use assms(1) refused in \<open>auto simp: register_take_def split: sum.splits\<close>)
qed

subsection \<open>Histories of the register\<close>

definition live_in :: "register_file \<Rightarrow> lease list" where
  "live_in file = (case file of RegLeases ls \<Rightarrow> filter is_live ls | _ \<Rightarrow> [])"

definition within_limit :: "nat \<Rightarrow> register_file \<Rightarrow> bool" where
  "within_limit limit file = (\<forall>sid. on_subscription sid (live_in file) \<le> limit)"

lemma load_live_in: "load_register E file = Inr all \<Longrightarrow> live_in file = filter is_live all"
  by (auto simp: load_register_def live_in_def split: register_file.splits)

lemma new_lease_fields [simp]:
  "is_live (new_lease provider session holder agent e at)"
  "le_subscription_id (new_lease provider session holder agent e at) = se_id e"
  "le_session_id (new_lease provider session holder agent e at) = session"
  "le_provider (new_lease provider session holder agent e at) = provider"
  "le_agent (new_lease provider session holder agent e at) = agent"
  by (simp_all add: new_lease_def is_live_def)

lemma on_subscription_append [simp]:
  "on_subscription sid (ls @ [l]) = on_subscription sid ls + (if le_subscription_id l = sid then 1 else 0)"
  by (simp add: on_subscription_def)

lemma filter_live_append [simp]:
  "filter is_live (filter is_live ls @ [new_lease provider session holder agent e at]) =
     filter is_live ls @ [new_lease provider session holder agent e at]"
  by simp

lemma within_limit_take:
  assumes "register_take K J jn L now E provider session holder agent entries limit file ds = Some (r, file', ds')"
    and "length entries < 2 ^ 63" "within_limit limit file"
  shows "within_limit limit file'"
  using assms(1,2)
proof (cases rule: register_take_cases)
  case (fresh all e at)
  have held: "on_subscription sid (filter is_live all) \<le> limit" for sid
    using assms(3) load_live_in [OF fresh(1)] by (simp add: within_limit_def)
  have room: "on_subscription (se_id e) (filter is_live all) < limit"
    using fresh(3) by (simp add: chosen_fairly_def)
  show ?thesis
    unfolding fresh(5) within_limit_def live_in_def
    using held room by (auto simp: Suc_le_eq simp del: filter_append)
qed (use assms(3) in simp_all)

text \<open>A release ends exactly the live leases it names, all of them the caller's, or changes nothing.\<close>

lemma register_release_cases:
  assumes "register_release E lid ses agent file = (r, file')"
  obtains (refused) rf where "r = Inl rf" "file' = file"
  | (released) all at where "load_register E file = Inr all"
      "\<forall>l \<in> set all. is_live l \<and> lease_named (named_text lid) (named_text ses) l \<longrightarrow> belongs_to l agent"
      "r = Inr (map (\<lambda>l. l\<lparr>le_released_at_ms := Some at\<rparr>)
         (filter (\<lambda>l. is_live l \<and> lease_named (named_text lid) (named_text ses) l) all))"
      "file' = RegLeases (filter (\<lambda>l. is_live l \<and> \<not> lease_named (named_text lid) (named_text ses) l) all)"
proof -
  let ?named = "lease_named (named_text lid) (named_text ses)"
  have ended: "filter is_live (map (\<lambda>l. if (is_live l \<and> ?named l) \<and> belongs_to l agent
        then l\<lparr>le_released_at_ms := Some at\<rparr> else l) all) = filter (\<lambda>l. is_live l \<and> \<not> ?named l) all"
    "map (\<lambda>l. if (is_live l \<and> ?named l) \<and> belongs_to l agent then l\<lparr>le_released_at_ms := Some at\<rparr> else l)
        (filter (\<lambda>l. (is_live l \<and> ?named l) \<and> belongs_to l agent) all) =
      map (\<lambda>l. l\<lparr>le_released_at_ms := Some at\<rparr>) (filter (\<lambda>l. is_live l \<and> ?named l) all)"
    if "\<forall>l \<in> set all. is_live l \<and> ?named l \<longrightarrow> belongs_to l agent" for all at
    using that by (induction all) (auto simp: is_live_def)
  show ?thesis
  proof (cases r)
    case (Inl rf)
    with assms refused show ?thesis
      by (auto simp: register_release_def Let_def persist_register_def
          split: if_splits sum.splits option.splits)
  next
    case (Inr out)
    with assms obtain all at where all: "load_register E file = Inr all"
      and own: "\<forall>l \<in> set all. is_live l \<and> ?named l \<longrightarrow> belongs_to l agent"
      and eqs: "r = Inr (map (\<lambda>l. if (is_live l \<and> ?named l) \<and> belongs_to l agent
            then l\<lparr>le_released_at_ms := Some at\<rparr> else l)
            (filter (\<lambda>l. (is_live l \<and> ?named l) \<and> belongs_to l agent) all))"
        "file' = RegLeases (filter is_live (map (\<lambda>l. if (is_live l \<and> ?named l) \<and> belongs_to l agent
            then l\<lparr>le_released_at_ms := Some at\<rparr> else l) all))"
      by (auto simp: register_release_def Let_def persist_register_def filter_empty_conv
          split: if_splits sum.splits option.splits)
    show ?thesis by (rule released [OF all own, of at]) (use eqs ended [OF own, of at] in simp_all)
  qed
qed

lemma filter_length_mono: "(\<And>x. P x \<Longrightarrow> Q x) \<Longrightarrow> length (filter P xs) \<le> length (filter Q xs)"
  by (induction xs) (auto simp: le_SucI)

lemma within_limit_release:
  assumes "register_release E lid ses agent file = (r, file')" "within_limit limit file"
  shows "within_limit limit file'"
  using assms(1)
proof (cases rule: register_release_cases)
  case (released all at)
  have "on_subscription sid (live_in file') \<le> on_subscription sid (live_in file)" for sid
    unfolding released(4) load_live_in [OF released(1)] on_subscription_def
    by (auto simp: live_in_def intro!: filter_length_mono)
  with assms(2) show ?thesis by (meson order_trans within_limit_def)
qed (use assms(2) in simp)

lemma within_limit_report_each:
  "report_each K block_now env i provider reason until_ms agent ls L file = (r, L', file') \<Longrightarrow>
     within_limit limit file \<Longrightarrow> within_limit limit file'"
  by (induction ls arbitrary: i L "file")
     (auto simp: Let_def dest: within_limit_release split: prod.splits sum.splits)

lemma within_limit_report:
  "lease_report K E block_now env session provider until_ms reason agent now L file = (r, L', file') \<Longrightarrow>
     within_limit limit file \<Longrightarrow> within_limit limit file'"
  by (auto simp: lease_report_def Let_def dest: within_limit_report_each
      split: option.splits if_splits sum.splits prod.splits)

text \<open>The register as any callers drive it.\<close>

inductive lease_step :: "'f crates \<Rightarrow> register_file \<Rightarrow> register_file \<Rightarrow> bool" for K where
  Take: "lease_take K J jn L now E inventory rq agent file ds = Some (r, file', ds') \<Longrightarrow>
     (\<And>entries. inventory = Inr entries \<Longrightarrow> length entries < 2 ^ 63) \<Longrightarrow> lease_step K file file'"
| Release: "register_release E lid ses agent file = (r, file') \<Longrightarrow> lease_step K file file'"
| Report: "lease_report K E block_now env session provider until_ms reason agent now L file = (r, L', file') \<Longrightarrow>
     lease_step K file file'"

lemma within_limit_step: "lease_step K file file' \<Longrightarrow> within_limit 5 file \<Longrightarrow> within_limit 5 file'"
proof (induction rule: lease_step.induct)
  case Take
  then show ?case
    by (auto simp: lease_take_def Let_def dest: sessions_cap_value intro: within_limit_take
        split: if_splits sum.splits)
next
  case Release
  then show ?case by (rule within_limit_release)
next
  case Report
  then show ?case by (rule within_limit_report)
qed

lemma within_limit_steps: "(lease_step K)\<^sup>*\<^sup>* file file' \<Longrightarrow> within_limit 5 file \<Longrightarrow> within_limit 5 file'"
  by (induction rule: rtranclp_induct) (auto intro: within_limit_step)

subsection \<open>What a caller may rely on\<close>

lemma lease_take_register:
  assumes "lease_take K J jn L now E (Inr entries) rq agent file ds = Some (Inr t, file', ds')"
  obtains "sessions_cap (trim (lq_provider rq)) = Inr (5 :: nat)"
    "trim (lq_provider rq) \<noteq> []" "trim (lq_session_id rq) \<noteq> []" "trim (lq_holder rq) \<noteq> []"
    "register_take K J jn L now E (trim (lq_provider rq)) (trim (lq_session_id rq)) (trim (lq_holder rq)) agent
       entries 5 file ds = Some (Inr t, file', ds')"
  using assms
  by (auto simp: lease_take_def Let_def split: if_splits sum.splits) (metis sessions_cap_value)+

definition plain_env :: reg_env where
  "plain_env = \<lparr>re_path = ''leases.json'', re_lock = None, re_clock = Inr 42, re_fault = None\<rparr>"

definition plain_lease_request :: lease_request where
  "plain_lease_request = \<lparr>lq_provider = ''codex'', lq_session_id = ''w1'', lq_holder = ''h''\<rparr>"

definition plain_lease :: lease where
  "plain_lease = new_lease ''codex'' ''w1'' ''h'' None plain_member 42"

lemma plain_member_usable:
  "members_of plain_crates two_records (line_journal []) [] 0 [plain_member] ''codex'' [] =
     Inr \<lparr>mb_usable = [(plain_member, [])], mb_refused = []\<rparr>"
  by (simp add: plain_member_def is_retired_def read_all_def line_journal_def str_lines_def retired_in_def
      member_refusal_def standing_refusal_def awaiting_sign_in_cause_def credential_of_def standing_block_def
      window_at_limit_def usage_for_def plan_windows_def)

lemma plain_take:
  "\<exists>t. lease_take plain_crates two_records (line_journal []) [] 0 plain_env (Inr [plain_member])
     plain_lease_request None RegAbsent [] = Some (Inr t, RegLeases [plain_lease], [])
     \<and> tk_lease t = plain_lease \<and> tk_new t"
proof -
  have trims: "trim ''codex'' = ''codex''" "trim ''w1'' = ''w1''" "trim ''h'' = ''h''"
    by (simp_all add: trim_def is_ws_def)
  have "sessions_cap ''codex'' = Inr 5"
    by (rule sessions_cap_declared) (simp add: declared_providers_def DECLARED_def)
  then show ?thesis
    by (simp add: lease_take_def plain_lease_request_def trims register_take_def held_register_def
        load_register_def plain_env_def standing_lease_def plain_member_usable choose_member_def Let_def
        count_leases_def shuffle_within_equal_def shuffle_run_def admit_lease_def persist_register_def
        plain_lease_def on_subscription_def del: members_of.simps)
qed

text \<open>
  C12. However many callers take leases, release them and report refusals, and however often the
  register cannot be locked, read or written in between, no subscription ever carries more live
  sessions than the operator's limit of five.
\<close>

theorem sessions_never_exceed_limit:
  assumes "(lease_step K)\<^sup>*\<^sup>* RegAbsent file"
  shows "on_subscription sid (live_in file) \<le> 5"
  using within_limit_steps [OF assms] by (simp add: within_limit_def live_in_def on_subscription_def)

theorem sessions_never_exceed_limit_witness:
  "(lease_step plain_crates)\<^sup>*\<^sup>* RegAbsent (RegLeases [plain_lease])
   \<and> on_subscription ''s1'' (live_in (RegLeases [plain_lease])) \<le> 5"
proof -
  obtain t where "lease_take plain_crates two_records (line_journal []) [] 0 plain_env (Inr [plain_member])
      plain_lease_request None RegAbsent [] = Some (Inr t, RegLeases [plain_lease], [])"
    using plain_take by blast
  then have "(lease_step plain_crates)\<^sup>*\<^sup>* RegAbsent (RegLeases [plain_lease])"
    by (intro r_into_rtranclp lease_step.Take) auto
  with sessions_never_exceed_limit [of plain_crates "RegLeases [plain_lease]" "''s1''"] show ?thesis by blast
qed

text \<open>
  A lease newly taken lands on a listed member of the provider that is active, not retired, not
  refused by the ledger and not at a whole plan window, that carries fewer live sessions than the limit and no more
  than any other such member; the register then holds the live leases it held and this one. A
  lease not new is the session's own standing one and leaves the register alone.
\<close>

theorem lease_lands_on_least_loaded:
  assumes "lease_take K J jn L now E (Inr entries) rq agent file ds = Some (Inr t, file', ds')"
    and "length entries < 2 ^ 63"
  shows "if tk_new t
    then \<exists>e at. chosen_fairly K J jn L now (trim (lq_provider rq)) entries 5 (live_in file) e
           \<and> tk_lease t = new_lease (trim (lq_provider rq)) (trim (lq_session_id rq)) (trim (lq_holder rq)) agent e at
           \<and> file' = RegLeases (live_in file @ [tk_lease t])
    else file' = file \<and> tk_lease t \<in> set (live_in file)
           \<and> le_session_id (tk_lease t) = trim (lq_session_id rq) \<and> le_provider (tk_lease t) = trim (lq_provider rq)"
proof -
  from assms(1) obtain "register_take K J jn L now E (trim (lq_provider rq)) (trim (lq_session_id rq))
      (trim (lq_holder rq)) agent entries 5 file ds = Some (Inr t, file', ds')"
    by (rule lease_take_register)
  from this assms(2) show ?thesis
  proof (cases rule: register_take_cases)
    case (standing l all)
    from find_SomeD [OF standing(2) [unfolded standing_lease_def]] standing(3,4) load_live_in [OF standing(1)]
    show ?thesis by simp
  next
    case (fresh all e at)
    with load_live_in [OF fresh(1)] show ?thesis by (auto intro!: exI [of _ e] exI [of _ at])
  qed simp
qed

theorem lease_lands_on_least_loaded_witness:
  "\<exists>(t :: taken) e at. tk_new t \<and> tk_lease t = plain_lease
     \<and> chosen_fairly plain_crates two_records (line_journal []) [] 0 ''codex'' [plain_member] 5 (live_in RegAbsent) e
     \<and> tk_lease t = new_lease ''codex'' ''w1'' ''h'' None e at"
proof -
  obtain t where t: "lease_take plain_crates two_records (line_journal []) [] 0 plain_env (Inr [plain_member])
      plain_lease_request None RegAbsent [] = Some (Inr t, RegLeases [plain_lease], [])" "tk_lease t = plain_lease" "tk_new t"
    using plain_take by blast
  have trims: "trim ''codex'' = ''codex''" "trim ''w1'' = ''w1''" "trim ''h'' = ''h''"
    by (simp_all add: trim_def is_ws_def)
  from lease_lands_on_least_loaded [OF t(1)] t(3) obtain e at where
    "chosen_fairly plain_crates two_records (line_journal []) [] 0 ''codex'' [plain_member] 5 (live_in RegAbsent) e"
    "tk_lease t = new_lease ''codex'' ''w1'' ''h'' None e at"
    by (auto simp: plain_lease_request_def trims)
  with t(2,3) show ?thesis by blast
qed

lemma find_append_None: "List.find P xs = None \<Longrightarrow> P y \<Longrightarrow> List.find P (xs @ [y]) = Some y"
  by (induction xs) (auto split: if_splits)

text \<open>
  A session that asks again gets its own lease back: after a lease was taken, any later call for the
  same provider and session by the same identity, on that register and whatever the pool, the
  ledger and the clock say by then, answers the very same lease, counts nothing new and leaves the
  register as it is.
\<close>

theorem lease_taken_once_per_session:
  assumes "lease_take K J jn L now E (Inr entries) rq agent file ds = Some (Inr t, file', ds')"
    and "length entries < 2 ^ 63" and "re_lock E2 = None"
  shows "\<exists>t2. lease_take K2 J2 jn2 L2 now2 E2 (Inr entries2) rq agent file' ds2 = Some (Inr t2, file', ds2)
    \<and> tk_lease t2 = tk_lease t \<and> \<not> tk_new t2"
proof -
  let ?p = "trim (lq_provider rq)" and ?s = "trim (lq_session_id rq)" and ?h = "trim (lq_holder rq)"
  from assms(1) obtain cap: "sessions_cap ?p = Inr (5 :: nat)"
    and named: "?p \<noteq> []" "?s \<noteq> []" "?h \<noteq> []"
    and take: "register_take K J jn L now E ?p ?s ?h agent entries 5 file ds = Some (Inr t, file', ds')"
    by (rule lease_take_register)
  from take assms(2) obtain all where loaded: "load_register E2 file' = Inr all"
    and stands: "standing_lease ?p ?s agent (filter is_live all) = Some (tk_lease t)"
    and path: "held_register E2 file' = Inr ()"
  proof (cases rule: register_take_cases)
    case (standing l all)
    from standing(1,4) assms(3) have "load_register E2 file' = Inr all" "held_register E2 file' = Inr ()"
      by (auto simp: load_register_def held_register_def split: register_file.splits)
    with standing that show ?thesis by simp
  next
    case (fresh all e at)
    let ?new = "new_lease ?p ?s ?h agent e at"
    have "belongs_to ?new agent" by (simp add: belongs_to_def split: option.splits)
    with fresh(2) have "standing_lease ?p ?s agent (filter is_live all @ [?new]) = Some ?new"
      by (auto simp: standing_lease_def intro: find_append_None)
    with fresh assms(3) that [of "filter is_live all @ [?new]"] show ?thesis
      by (simp add: load_register_def held_register_def)
  qed simp
  with cap named show ?thesis by (simp add: lease_take_def register_take_def Let_def)
qed

theorem lease_taken_once_per_session_witness:
  "\<exists>t2. lease_take plain_crates two_records (line_journal []) [] 99 plain_env (Inr []) plain_lease_request None
     (RegLeases [plain_lease]) [] = Some (Inr t2, RegLeases [plain_lease], []) \<and> tk_lease t2 = plain_lease \<and> \<not> tk_new t2"
proof -
  obtain t where t: "lease_take plain_crates two_records (line_journal []) [] 0 plain_env (Inr [plain_member])
      plain_lease_request None RegAbsent [] = Some (Inr t, RegLeases [plain_lease], [])" "tk_lease t = plain_lease"
    using plain_take by blast
  from lease_taken_once_per_session [OF t(1), of plain_env] t(2) show ?thesis by (simp add: plain_env_def)
qed

text \<open>
  A release either changes nothing, or ends exactly the live leases named by the lease id or by
  the session, every one of them taken by the caller (the console may end any), and keeps every other
  live lease; naming one lease of another identity releases none.
\<close>

theorem release_ends_own_named_leases:
  assumes "register_release E lid ses agent file = (r, file')"
  shows "let hit = lease_named (named_text lid) (named_text ses)
    in (case r of
          Inl rf \<Rightarrow> file' = file
        | Inr ended \<Rightarrow> map le_id ended = map le_id (filter hit (live_in file))
            \<and> live_in file' = filter (\<lambda>l. \<not> hit l) (live_in file)
            \<and> \<not> (\<exists>l. l \<in> set (live_in file) \<and> hit l \<and> \<not> belongs_to l agent))"
  using assms
proof (cases rule: register_release_cases)
  case (released all at)
  have "filter (lease_named (named_text lid) (named_text ses)) (live_in file) =
      filter (\<lambda>l. is_live l \<and> lease_named (named_text lid) (named_text ses) l) all"
    "filter (\<lambda>l. \<not> lease_named (named_text lid) (named_text ses) l) (live_in file) =
      filter (\<lambda>l. is_live l \<and> \<not> lease_named (named_text lid) (named_text ses) l) all"
    unfolding load_live_in [OF released(1)] by (auto simp: conj_commute)
  moreover have "live_in file' = filter (\<lambda>l. is_live l \<and> \<not> lease_named (named_text lid) (named_text ses) l) all"
    unfolding released(4) live_in_def by (simp add: conj_ac)
  moreover have "\<not> (\<exists>l. l \<in> set (live_in file) \<and> lease_named (named_text lid) (named_text ses) l \<and> \<not> belongs_to l agent)"
    using released(2) unfolding load_live_in [OF released(1)] by auto
  ultimately show ?thesis using released(3) by (simp add: Let_def comp_def)
qed (simp add: Let_def)

theorem release_ends_own_named_leases_witness:
  "\<exists>ended. register_release plain_env None (Some ''w1'') None (RegLeases [plain_lease]) = (Inr ended, RegLeases [])
     \<and> map le_id ended = map le_id (filter (lease_named None (Some ''w1'')) (live_in (RegLeases [plain_lease])))"
proof -
  have trims: "trim ''w1'' = ''w1''" by (simp add: trim_def is_ws_def)
  have "\<exists>ended. register_release plain_env None (Some ''w1'') None (RegLeases [plain_lease]) = (Inr ended, RegLeases [])"
    by (simp add: register_release_def held_register_def load_register_def plain_env_def plain_lease_def
        named_text_def trims lease_named_def belongs_to_def persist_register_def Let_def is_live_def)
  then obtain ended where "register_release plain_env None (Some ''w1'') None (RegLeases [plain_lease]) =
      (Inr ended, RegLeases [])" by blast
  with release_ends_own_named_leases [OF this] show ?thesis by (simp add: named_text_def trims Let_def)
qed

end
