(* ===== verification/Provider_Registry.thy ===== *)
theory Provider_Registry
  imports Ranking
begin

section \<open>The providers this build knows\<close>

text \<open>
  \<open>src/src/providers/adapter/registry.rs\<close> and \<open>registry/\<close>: what a provider is, the roster of
  declarations (\<open>roster/\<close>), what a \<open>provider/model\<close> string names and what that route is good for
  (\<open>route.rs\<close>), what a model is (\<open>facets.rs\<close>), one row of a provider's own listing
  (\<open>advertised_model.rs\<close>) and the limits this build carries (\<open>known_limits.rs\<close>). The embedded table
  is an argument: what \<open>serde_json\<close> makes of its text.
\<close>

subsection \<open>Declarations\<close>

datatype wire_protocol = OpenAiChat | AnthropicMessages | OpenAiResponses | TypeSafeSystemOne

definition requires_output_limit :: "wire_protocol \<Rightarrow> bool" where
  "requires_output_limit w = (w = AnthropicMessages)"

datatype auth_kind = AuthNone | Bearer | XApiKey | AnthropicBearer | XiApiKey | GoogleApiKey

datatype media_wire = MediaOpenAi | ElevenLabs | MiniMax | Gemini | MediaOpenRouter

record provider_descriptor =
  pd_id :: string
  pd_display_name :: string
  pd_base_url :: string
  pd_models_path :: string
  pd_chat_path :: string
  pd_decision_path :: string
  pd_image_path :: string
  pd_image_edit_path :: string
  pd_video_path :: string
  pd_video_status_path :: string
  pd_speech_path :: string
  pd_music_path :: string
  pd_voices_path :: string
  pd_media_wire :: media_wire
  pd_wire :: wire_protocol
  pd_auth :: auth_kind
  pd_static_models :: "string list"

record registry_model =
  rm_route_id :: string
  rm_provider_id :: string
  rm_model_id :: string
  rm_display_name :: string
  rm_context_window :: "64 word option"
  rm_max_output_tokens :: "64 word option"
  rm_input_modalities :: "string list"
  rm_output_modalities :: "string list"
  rm_open_weights :: "bool option"
  rm_tools :: "bool option"
  rm_reasoning :: "bool option"
  rm_input_price :: "f64 option"
  rm_output_price :: "f64 option"
  rm_cache_read_price :: "f64 option"
  rm_cache_write_price :: "f64 option"

subsection \<open>The roster\<close>

definition openai_chat ::
  "string \<Rightarrow> string \<Rightarrow> string \<Rightarrow> string \<Rightarrow> string \<Rightarrow> string list \<Rightarrow> provider_descriptor" where
  "openai_chat i display_name base_url models_path chat_path static_models =
    \<lparr>pd_id = i, pd_display_name = display_name, pd_base_url = base_url, pd_models_path = models_path,
     pd_chat_path = chat_path, pd_decision_path = [], pd_image_path = [], pd_image_edit_path = [],
     pd_video_path = [], pd_video_status_path = [], pd_speech_path = [], pd_music_path = [],
     pd_voices_path = [], pd_media_wire = MediaOpenAi, pd_wire = OpenAiChat, pd_auth = Bearer,
     pd_static_models = static_models\<rparr>"

definition ANTHROPIC :: provider_descriptor where
  "ANTHROPIC =
    \<lparr>pd_id = ''anthropic'', pd_display_name = ''Anthropic'',
     pd_base_url = ''https://api.anthropic.com'', pd_models_path = ''/v1/models'',
     pd_chat_path = ''/v1/messages'', pd_decision_path = [], pd_image_path = [],
     pd_image_edit_path = [], pd_video_path = [], pd_video_status_path = [], pd_speech_path = [],
     pd_music_path = [], pd_voices_path = [], pd_media_wire = MediaOpenAi,
     pd_wire = AnthropicMessages, pd_auth = XApiKey,
     pd_static_models = [''claude-haiku-4-5'', ''claude-opus-4-6'', ''claude-sonnet-4-6'']\<rparr>"

definition CLAUDE_CODE :: provider_descriptor where
  "CLAUDE_CODE =
    \<lparr>pd_id = ''claude-code'', pd_display_name = ''Claude Code (subscription)'',
     pd_base_url = ''https://api.anthropic.com'', pd_models_path = ''/v1/models'',
     pd_chat_path = ''/v1/messages'', pd_decision_path = [], pd_image_path = [],
     pd_image_edit_path = [], pd_video_path = [], pd_video_status_path = [], pd_speech_path = [],
     pd_music_path = [], pd_voices_path = [], pd_media_wire = MediaOpenAi,
     pd_wire = AnthropicMessages, pd_auth = AnthropicBearer,
     pd_static_models = [''claude-haiku-4-5'', ''claude-opus-4-6'', ''claude-sonnet-4-6'']\<rparr>"

definition KIMI :: provider_descriptor where
  "KIMI =
    \<lparr>pd_id = ''kimi'', pd_display_name = ''Kimi (subscription)'',
     pd_base_url = ''https://api.kimi.com/coding'', pd_models_path = ''/v1/models'',
     pd_chat_path = ''/v1/chat/completions'', pd_decision_path = [], pd_image_path = [],
     pd_image_edit_path = [], pd_video_path = [], pd_video_status_path = [], pd_speech_path = [],
     pd_music_path = [], pd_voices_path = [], pd_media_wire = MediaOpenAi, pd_wire = OpenAiChat,
     pd_auth = Bearer, pd_static_models = [''kimi-for-coding'']\<rparr>"

definition OPENAI :: provider_descriptor where
  "OPENAI =
    \<lparr>pd_id = ''openai'', pd_display_name = ''OpenAI'',
     pd_base_url = ''https://api.openai.com'', pd_models_path = ''/v1/models'',
     pd_chat_path = ''/v1/chat/completions'', pd_decision_path = [],
     pd_image_path = ''/v1/images/generations'', pd_image_edit_path = ''/v1/images/edits'',
     pd_video_path = ''/v1/videos'', pd_video_status_path = ''/v1/videos/{id}'',
     pd_speech_path = ''/v1/audio/speech'', pd_music_path = [], pd_voices_path = [],
     pd_media_wire = MediaOpenAi, pd_wire = OpenAiChat, pd_auth = Bearer,
     pd_static_models = []\<rparr>"

definition CODEX :: provider_descriptor where
  "CODEX =
    \<lparr>pd_id = ''codex'', pd_display_name = ''Codex (ChatGPT subscription)'',
     pd_base_url = ''https://chatgpt.com/backend-api/codex'', pd_models_path = ''/models'',
     pd_chat_path = ''/responses'', pd_decision_path = [], pd_image_path = [],
     pd_image_edit_path = [], pd_video_path = [], pd_video_status_path = [], pd_speech_path = [],
     pd_music_path = [], pd_voices_path = [], pd_media_wire = MediaOpenAi,
     pd_wire = OpenAiResponses, pd_auth = Bearer,
     pd_static_models = [''gpt-6-astra'', ''gpt-5.6-sol'', ''gpt-5.6-luna'', ''gpt-5.6-terra'', ''gpt-5.5'', ''gpt-5.3-codex-spark'']\<rparr>"

definition OPENROUTER :: provider_descriptor where
  "OPENROUTER =
    (openai_chat ''openrouter'' ''OpenRouter'' ''https://openrouter.ai/api'' ''/v1/models'' ''/v1/chat/completions'' [])
    \<lparr>pd_image_path := ''/v1/images'', pd_media_wire := MediaOpenRouter\<rparr>"

definition GROQ :: provider_descriptor where
  "GROQ =
    \<lparr>pd_id = ''groq'', pd_display_name = ''Groq'',
     pd_base_url = ''https://api.groq.com/openai'', pd_models_path = ''/v1/models'',
     pd_chat_path = ''/v1/chat/completions'', pd_decision_path = [], pd_image_path = [],
     pd_image_edit_path = [], pd_video_path = [], pd_video_status_path = [],
     pd_speech_path = ''/v1/audio/speech'', pd_music_path = [], pd_voices_path = [],
     pd_media_wire = MediaOpenAi, pd_wire = OpenAiChat, pd_auth = Bearer,
     pd_static_models = []\<rparr>"

definition MISTRAL :: provider_descriptor where
  "MISTRAL =
    openai_chat ''mistral'' ''Mistral'' ''https://api.mistral.ai'' ''/v1/models'' ''/v1/chat/completions'' []"

definition XAI :: provider_descriptor where
  "XAI =
    \<lparr>pd_id = ''xai'', pd_display_name = ''xAI'', pd_base_url = ''https://api.x.ai'',
     pd_models_path = ''/v1/models'', pd_chat_path = ''/v1/chat/completions'',
     pd_decision_path = [], pd_image_path = ''/v1/images/generations'', pd_image_edit_path = [],
     pd_video_path = [], pd_video_status_path = [], pd_speech_path = [], pd_music_path = [],
     pd_voices_path = [], pd_media_wire = MediaOpenAi, pd_wire = OpenAiChat, pd_auth = Bearer,
     pd_static_models = []\<rparr>"

definition DEEPSEEK :: provider_descriptor where
  "DEEPSEEK =
    openai_chat ''deepseek'' ''DeepSeek'' ''https://api.deepseek.com'' ''/models'' ''/chat/completions'' [''deepseek-chat'', ''deepseek-reasoner'']"

definition CEREBRAS :: provider_descriptor where
  "CEREBRAS =
    openai_chat ''cerebras'' ''Cerebras'' ''https://api.cerebras.ai'' ''/v1/models'' ''/v1/chat/completions'' []"

definition FIREWORKS :: provider_descriptor where
  "FIREWORKS =
    openai_chat ''fireworks'' ''Fireworks'' ''https://api.fireworks.ai/inference'' ''/v1/models'' ''/v1/chat/completions'' []"

definition TOGETHER :: provider_descriptor where
  "TOGETHER =
    \<lparr>pd_id = ''together'', pd_display_name = ''Together'',
     pd_base_url = ''https://api.together.xyz'', pd_models_path = ''/v1/models'',
     pd_chat_path = ''/v1/chat/completions'', pd_decision_path = [],
     pd_image_path = ''/v1/images/generations'', pd_image_edit_path = [], pd_video_path = [],
     pd_video_status_path = [], pd_speech_path = [], pd_music_path = [], pd_voices_path = [],
     pd_media_wire = MediaOpenAi, pd_wire = OpenAiChat, pd_auth = Bearer,
     pd_static_models = []\<rparr>"

definition NVIDIA :: provider_descriptor where
  "NVIDIA =
    openai_chat ''nvidia'' ''NVIDIA NIM'' ''https://integrate.api.nvidia.com'' ''/v1/models'' ''/v1/chat/completions'' []"

definition MOONSHOT :: provider_descriptor where
  "MOONSHOT =
    openai_chat ''moonshot'' ''Moonshot'' ''https://api.moonshot.ai'' ''/v1/models'' ''/v1/chat/completions'' []"

definition ZAI :: provider_descriptor where
  "ZAI =
    openai_chat ''zai'' ''Z.AI'' ''https://api.z.ai/api/paas'' ''/v4/models'' ''/v4/chat/completions'' []"

definition QWEN :: provider_descriptor where
  "QWEN =
    openai_chat ''qwen'' ''Qwen'' ''https://dashscope-intl.aliyuncs.com/compatible-mode'' ''/v1/models'' ''/v1/chat/completions'' []"

definition HUGGINGFACE :: provider_descriptor where
  "HUGGINGFACE =
    openai_chat ''huggingface'' ''Hugging Face Inference'' ''https://router.huggingface.co'' ''/v1/models'' ''/v1/chat/completions'' []"

definition FEATHERLESS :: provider_descriptor where
  "FEATHERLESS =
    openai_chat ''featherless'' ''Featherless'' ''https://api.featherless.ai'' ''/v1/models'' ''/v1/chat/completions'' [''TheDrummer/Cydonia-24B-v4.3'']"

definition VENICE :: provider_descriptor where
  "VENICE =
    \<lparr>pd_id = ''venice'', pd_display_name = ''Venice'',
     pd_base_url = ''https://api.venice.ai/api'', pd_models_path = ''/v1/models'',
     pd_chat_path = ''/v1/chat/completions'', pd_decision_path = [],
     pd_image_path = ''/v1/images/generations'', pd_image_edit_path = [], pd_video_path = [],
     pd_video_status_path = [], pd_speech_path = ''/v1/audio/speech'', pd_music_path = [],
     pd_voices_path = [], pd_media_wire = MediaOpenAi, pd_wire = OpenAiChat, pd_auth = Bearer,
     pd_static_models = []\<rparr>"

definition NOVITA :: provider_descriptor where
  "NOVITA =
    openai_chat ''novita'' ''Novita'' ''https://api.novita.ai/openai'' ''/v1/models'' ''/v1/chat/completions'' []"

definition SYNTHETIC :: provider_descriptor where
  "SYNTHETIC =
    openai_chat ''synthetic'' ''Synthetic'' ''https://api.synthetic.new'' ''/v1/models'' ''/v1/chat/completions'' []"

definition TYPESAFE :: provider_descriptor where
  "TYPESAFE =
    \<lparr>pd_id = ''typesafe'', pd_display_name = ''TypeSafe AI'',
     pd_base_url = ''https://api.typesafe.ai'', pd_models_path = ''/v1/models'', pd_chat_path = [],
     pd_decision_path = ''/v1/systemone'', pd_image_path = [], pd_image_edit_path = [],
     pd_video_path = [], pd_video_status_path = [], pd_speech_path = [], pd_music_path = [],
     pd_voices_path = [], pd_media_wire = MediaOpenAi, pd_wire = TypeSafeSystemOne,
     pd_auth = Bearer, pd_static_models = [''jev-latest'', ''jev-preview'']\<rparr>"

definition LOCAL_OPENAI :: provider_descriptor where
  "LOCAL_OPENAI =
    \<lparr>pd_id = ''local-openai'', pd_display_name = ''Local OpenAI'',
     pd_base_url = ''http://127.0.0.1'', pd_models_path = ''/v1/models'',
     pd_chat_path = ''/v1/chat/completions'', pd_decision_path = [], pd_image_path = [],
     pd_image_edit_path = [], pd_video_path = [], pd_video_status_path = [], pd_speech_path = [],
     pd_music_path = [], pd_voices_path = [], pd_media_wire = MediaOpenAi, pd_wire = OpenAiChat,
     pd_auth = Bearer, pd_static_models = []\<rparr>"

definition ELEVENLABS :: provider_descriptor where
  "ELEVENLABS =
    \<lparr>pd_id = ''elevenlabs'', pd_display_name = ''ElevenLabs'',
     pd_base_url = ''https://api.elevenlabs.io'', pd_models_path = ''/v1/models'',
     pd_chat_path = [], pd_decision_path = [], pd_image_path = [], pd_image_edit_path = [],
     pd_video_path = [], pd_video_status_path = [],
     pd_speech_path = ''/v1/text-to-speech/{voice}'', pd_music_path = [],
     pd_voices_path = ''/v1/voices'', pd_media_wire = ElevenLabs, pd_wire = OpenAiChat,
     pd_auth = XiApiKey,
     pd_static_models = [''eleven_multilingual_v2'', ''eleven_v3'', ''eleven_flash_v2_5'', ''eleven_turbo_v2_5'']\<rparr>"

definition MINIMAX :: provider_descriptor where
  "MINIMAX =
    \<lparr>pd_id = ''minimax'', pd_display_name = ''MiniMax'',
     pd_base_url = ''https://api.minimax.io'', pd_models_path = ''/v1/models'', pd_chat_path = [],
     pd_decision_path = [], pd_image_path = [], pd_image_edit_path = [], pd_video_path = [],
     pd_video_status_path = [], pd_speech_path = ''/v1/t2a_v2'',
     pd_music_path = ''/v1/music_generation'', pd_voices_path = [], pd_media_wire = MiniMax,
     pd_wire = OpenAiChat, pd_auth = Bearer,
     pd_static_models = [''speech-2.8-hd'', ''speech-2.8-turbo'', ''speech-02-hd'', ''speech-02-turbo'', ''music-3.0'', ''music-2.6'']\<rparr>"

definition GEMINI :: provider_descriptor where
  "GEMINI =
    \<lparr>pd_id = ''gemini'', pd_display_name = ''Gemini (images)'',
     pd_base_url = ''https://generativelanguage.googleapis.com'',
     pd_models_path = ''/v1beta/models'', pd_chat_path = [], pd_decision_path = [],
     pd_image_path = ''/v1beta/models/{model}:generateContent'', pd_image_edit_path = [],
     pd_video_path = [], pd_video_status_path = [], pd_speech_path = [], pd_music_path = [],
     pd_voices_path = [], pd_media_wire = Gemini, pd_wire = OpenAiChat, pd_auth = GoogleApiKey,
     pd_static_models = [''gemini-2.5-flash-image'']\<rparr>"

definition BYTEPLUS :: provider_descriptor where
  "BYTEPLUS =
    \<lparr>pd_id = ''byteplus'', pd_display_name = ''BytePlus ModelArk'',
     pd_base_url = ''https://ark.ap-southeast.bytepluses.com/api/v3'',
     pd_models_path = ''/models'', pd_chat_path = [], pd_decision_path = [],
     pd_image_path = ''/images/generations'', pd_image_edit_path = [], pd_video_path = [],
     pd_video_status_path = [], pd_speech_path = [], pd_music_path = [], pd_voices_path = [],
     pd_media_wire = MediaOpenAi, pd_wire = OpenAiChat, pd_auth = Bearer,
     pd_static_models = [''seedream-4-0-250828'']\<rparr>"

definition PROVIDERS :: "provider_descriptor list" where
  "PROVIDERS =
     [ANTHROPIC, CLAUDE_CODE, KIMI, OPENAI, CODEX, OPENROUTER, GROQ, MISTRAL, XAI, DEEPSEEK,
      CEREBRAS, FIREWORKS, TOGETHER, NVIDIA, MOONSHOT, ZAI, QWEN, HUGGINGFACE, FEATHERLESS,
      VENICE, NOVITA, SYNTHETIC, TYPESAFE, LOCAL_OPENAI, ELEVENLABS, MINIMAX, GEMINI, BYTEPLUS]"

definition registry_provider :: "string \<Rightarrow> provider_descriptor option" where
  "registry_provider i = List.find (\<lambda>p. pd_id p = i) PROVIDERS"

definition provider_requires_credential :: "string \<Rightarrow> bool" where
  "provider_requires_credential i =
     (case registry_provider i of None \<Rightarrow> True | Some d \<Rightarrow> pd_auth d \<noteq> AuthNone)"

subsection \<open>Routes\<close>

definition registry_route :: "string \<Rightarrow> (provider_descriptor \<times> string) option" where
  "registry_route value =
     (case split_once (CHR ''/'') value of
        None \<Rightarrow> None
      | Some (provider_id, model_id) \<Rightarrow>
          (case registry_provider provider_id of
             None \<Rightarrow> None
           | Some descriptor \<Rightarrow> (if valid_model_id model_id then Some (descriptor, model_id) else None)))"

definition route_has :: "(provider_descriptor \<Rightarrow> bool) \<Rightarrow> string \<Rightarrow> bool" where
  "route_has P value = (case registry_route value of None \<Rightarrow> False | Some (d, _) \<Rightarrow> P d)"

definition supports_chat_route :: "string \<Rightarrow> bool" where
  "supports_chat_route value = route_has (\<lambda>d. pd_chat_path d \<noteq> []) value"

definition native_decision_route :: "string \<Rightarrow> bool" where
  "native_decision_route value = route_has (\<lambda>d. pd_decision_path d \<noteq> []) value"

definition supports_decision_route :: "string \<Rightarrow> bool" where
  "supports_decision_route value = (native_decision_route value \<or> supports_chat_route value)"

definition supports_embedding_route :: "string \<Rightarrow> bool" where
  "supports_embedding_route value =
     (provider_id_from_route value = Some ''openai'' \<and> registry_route value \<noteq> None)"

definition supports_moderation_route :: "string \<Rightarrow> bool" where
  "supports_moderation_route value =
     (provider_id_from_route value = Some ''openai'' \<and> registry_route value \<noteq> None)"

definition supports_image_route :: "string \<Rightarrow> bool" where
  "supports_image_route value = route_has (\<lambda>d. pd_image_path d \<noteq> []) value"

definition supports_video_route :: "string \<Rightarrow> bool" where
  "supports_video_route value =
     route_has (\<lambda>d. pd_video_path d \<noteq> [] \<and> pd_video_status_path d \<noteq> []) value"

definition supports_speech_route :: "string \<Rightarrow> bool" where
  "supports_speech_route value = route_has (\<lambda>d. pd_speech_path d \<noteq> []) value"

definition supports_music_route :: "string \<Rightarrow> bool" where
  "supports_music_route value = route_has (\<lambda>d. pd_music_path d \<noteq> []) value"

definition supports_voices_route :: "string \<Rightarrow> bool" where
  "supports_voices_route value = route_has (\<lambda>d. pd_voices_path d \<noteq> []) value"

subsection \<open>What a model is\<close>

datatype model_kind = KText | KImage | KVideo | KAudio

fun kind_as_str :: "model_kind \<Rightarrow> string" where
  "kind_as_str KText = ''text''"
| "kind_as_str KImage = ''image''"
| "kind_as_str KVideo = ''video''"
| "kind_as_str KAudio = ''audio''"

definition kind_parse :: "string \<Rightarrow> model_kind option" where
  "kind_parse value =
     List.find (\<lambda>k. kind_as_str k = map ascii_lower (trim value)) [KText, KImage, KVideo, KAudio]"

datatype weights = Open | Closed

fun weights_as_str :: "weights \<Rightarrow> string" where
  "weights_as_str Open = ''open''"
| "weights_as_str Closed = ''closed''"

definition weights_parse :: "string \<Rightarrow> weights option" where
  "weights_parse value =
     List.find (\<lambda>w. weights_as_str w = map ascii_lower (trim value)) [Open, Closed]"

definition weights_of :: "bool option \<Rightarrow> weights option" where
  "weights_of open_weights = map_option (\<lambda>b. if b then Open else Closed) open_weights"

definition weights_matches :: "weights option \<Rightarrow> bool option \<Rightarrow> bool" where
  "weights_matches flt open_weights =
     (case flt of None \<Rightarrow> True | Some wanted \<Rightarrow> weights_of open_weights = Some wanted)"

definition kind_from_output :: "string list \<Rightarrow> model_kind" where
  "kind_from_output output_modalities =
     (let has = (\<lambda>wanted. list_ex (\<lambda>m. eq_ignore_ascii_case m wanted) output_modalities)
      in if has ''video'' then KVideo
         else if has ''image'' then KImage
         else if has ''audio'' then KAudio
         else KText)"

text \<open>\<open>Value::pointer\<close> with two keys, \<open>as_array\<close>, \<open>as_u64\<close> and \<open>as_bool\<close>.\<close>

definition json_pointer :: "json \<Rightarrow> string \<Rightarrow> string \<Rightarrow> json option" where
  "json_pointer row a b = Option.bind (json_get row a) (\<lambda>v. json_get v b)"

fun as_array :: "json \<Rightarrow> json list option" where
  "as_array (JArr vs) = Some vs"
| "as_array _ = None"

fun as_u64 :: "json \<Rightarrow> 64 word option" where
  "as_u64 (JInt n) = (if 0 \<le> n \<and> n < 2 ^ 64 then Some (of_int n) else None)"
| "as_u64 _ = None"

fun as_bool :: "json \<Rightarrow> bool option" where
  "as_bool (JBool b) = Some b"
| "as_bool _ = None"

text \<open>The first stated array that names a modality.\<close>

fun first_modalities :: "json option list \<Rightarrow> string list" where
  "first_modalities [] = []"
| "first_modalities (v # vs) =
     (case Option.bind v as_array of
        None \<Rightarrow> first_modalities vs
      | Some values \<Rightarrow>
          (let modalities = filter_map as_str values
           in if modalities \<noteq> [] then modalities else first_modalities vs))"

definition listed_output_modalities :: "json \<Rightarrow> string list" where
  "listed_output_modalities row =
     first_modalities
       [json_pointer row ''architecture'' ''output_modalities'', json_pointer row ''modalities'' ''output'',
        json_get row ''output_modalities'']"

subsection \<open>A provider's own listing\<close>

fun find_map :: "('a \<Rightarrow> 'b option) \<Rightarrow> 'a list \<Rightarrow> 'b option" where
  "find_map f [] = None"
| "find_map f (x # xs) = (case f x of Some y \<Rightarrow> Some y | None \<Rightarrow> find_map f xs)"

definition stated_reasoning :: "json \<Rightarrow> bool option" where
  "stated_reasoning row =
     (let capability = Option.bind (json_pointer row ''capabilities'' ''reasoning'') as_bool;
          parameter = map_option (list_ex (\<lambda>item. as_str item = Some ''reasoning''))
            (Option.bind (json_get row ''supported_parameters'') as_array)
      in (case (capability, parameter) of
            (Some c, Some p) \<Rightarrow> Some (c \<or> p)
          | (Some c, None) \<Rightarrow> Some c
          | (None, Some p) \<Rightarrow> Some p
          | (None, None) \<Rightarrow> None))"

definition model_from_value :: "provider_descriptor \<Rightarrow> json \<Rightarrow> registry_model option" where
  "model_from_value d row =
     (case Option.bind (case json_get row ''id'' of Some v \<Rightarrow> Some v | None \<Rightarrow> json_get row ''name'') as_str of
        None \<Rightarrow> None
      | Some i \<Rightarrow>
          (if \<not> valid_model_id i then None
           else Some
             \<lparr>rm_route_id = pd_id d @ ''/'' @ i, rm_provider_id = pd_id d, rm_model_id = i,
              rm_display_name =
                (case Option.bind (json_get row ''name'') as_str of Some name \<Rightarrow> name | None \<Rightarrow> i),
              rm_context_window = find_map (\<lambda>key. Option.bind (json_get row key) as_u64)
                [''context_window'', ''context_length'', ''max_model_len''],
              rm_max_output_tokens = find_map (\<lambda>key. Option.bind (json_get row key) as_u64)
                [''max_output_tokens'', ''max_tokens''],
              rm_input_modalities = [], rm_output_modalities = listed_output_modalities row,
              rm_open_weights = None, rm_tools = None, rm_reasoning = stated_reasoning row,
              rm_input_price = None, rm_output_price = None, rm_cache_read_price = None,
              rm_cache_write_price = None\<rparr>))"

subsection \<open>The limits this build carries\<close>

record omp_metadata =
  om_context_window :: "64 word"
  om_max_output_tokens :: "64 word"
  om_reasoning :: bool
  om_input_modalities :: "string list"

text \<open>\<open>ok_or\<close>, and \<open>collect::<Result<Vec<_>, _>>\<close> over the inputs.\<close>

definition ok_or :: "'e \<Rightarrow> 'a option \<Rightarrow> ('e, 'a) result" where
  "ok_or e v = (case v of None \<Rightarrow> Inl e | Some x \<Rightarrow> Inr x)"

definition bind_result :: "('e, 'a) result \<Rightarrow> ('a \<Rightarrow> ('e, 'b) result) \<Rightarrow> ('e, 'b) result" where
  "bind_result r f = (case r of Inl e \<Rightarrow> Inl e | Inr x \<Rightarrow> f x)"

definition omp_metadata_from_value :: "json \<Rightarrow> (string, string \<times> omp_metadata) result" where
  "omp_metadata_from_value row =
     bind_result (ok_or ''has no text id'' (Option.bind (json_get row ''id'') as_str)) (\<lambda>model_id.
     bind_result (ok_or ''has no whole contextWindow'' (Option.bind (json_get row ''contextWindow'') as_u64)) (\<lambda>context.
     bind_result (ok_or ''has no whole maxTokens'' (Option.bind (json_get row ''maxTokens'') as_u64)) (\<lambda>limit.
     bind_result (ok_or ''has no boolean reasoning'' (Option.bind (json_get row ''reasoning'') as_bool)) (\<lambda>reasoning.
     bind_result (ok_or ''has no input list'' (Option.bind (json_get row ''input'') as_array)) (\<lambda>inputs.
     bind_result (collect_results (map (\<lambda>v. ok_or ''lists an input that is not text'' (as_str v)) inputs)) (\<lambda>modalities.
       if modalities = [] then Inl (''('' @ model_id @ '') lists no input modality'')
       else Inr (model_id, \<lparr>om_context_window = context, om_max_output_tokens = limit,
                            om_reasoning = reasoning, om_input_modalities = modalities\<rparr>)))))))"

fun omp_rows ::
  "string \<Rightarrow> nat \<Rightarrow> json list \<Rightarrow> (string \<rightharpoonup> omp_metadata) \<Rightarrow> (string, string \<rightharpoonup> omp_metadata) result" where
  "omp_rows provider_id n [] table = Inr table"
| "omp_rows provider_id n (row # rows) table =
     (case omp_metadata_from_value row of
        Inl missing \<Rightarrow> Inl (''the embedded model table's '' @ provider_id @ '' row at position '' @
          show_nat n @ '' '' @ missing)
      | Inr (model_id, metadata) \<Rightarrow> omp_rows provider_id (Suc n) rows (table(model_id \<mapsto> metadata)))"

type_synonym omp_table = "string \<rightharpoonup> (string \<rightharpoonup> omp_metadata)"

fun omp_entries :: "(string \<times> json) list \<Rightarrow> omp_table \<Rightarrow> (string, omp_table) result" where
  "omp_entries [] providers = Inr providers"
| "omp_entries ((provider_id, models) # entries) providers =
     (case as_array models of
        None \<Rightarrow> Inl (''the embedded model table's '' @ provider_id @ '' entry is not a list of models'')
      | Some rows \<Rightarrow>
          (case omp_rows provider_id 0 rows (\<lambda>_. None) of
             Inl err \<Rightarrow> Inl err
           | Inr table \<Rightarrow> omp_entries entries (providers(provider_id \<mapsto> table))))"

definition omp_table :: "(string, json) result \<Rightarrow> (string, omp_table) result" where
  "omp_table document =
     (case document of
        Inl err \<Rightarrow> Inl (''the embedded model table does not parse: '' @ err)
      | Inr (JObj entries) \<Rightarrow> omp_entries entries (\<lambda>_. None)
      | Inr _ \<Rightarrow> Inl ''the embedded model table is not an object of providers'')"

definition or_option :: "'a option \<Rightarrow> 'a option \<Rightarrow> 'a option" where
  "or_option a b = (case a of Some _ \<Rightarrow> a | None \<Rightarrow> b)"

definition filled_model :: "(string \<rightharpoonup> omp_metadata) \<Rightarrow> registry_model \<Rightarrow> registry_model" where
  "filled_model table model =
     (case table (rm_model_id model) of
        None \<Rightarrow> model
      | Some md \<Rightarrow>
          model\<lparr>rm_context_window := or_option (rm_context_window model) (Some (om_context_window md)),
                rm_max_output_tokens := or_option (rm_max_output_tokens model) (Some (om_max_output_tokens md)),
                rm_reasoning := or_option (rm_reasoning model) (Some (om_reasoning md)),
                rm_input_modalities := (if rm_input_modalities model = [] then om_input_modalities md
                                        else rm_input_modalities model)\<rparr>)"

definition apply_omp_model_metadata ::
  "(string, json) result \<Rightarrow> string \<Rightarrow> registry_model list \<Rightarrow> (string, registry_model list) result" where
  "apply_omp_model_metadata document provider_id models =
     (case omp_table document of
        Inl err \<Rightarrow> Inl err
      | Inr providers \<Rightarrow>
          (case providers provider_id of
             None \<Rightarrow> Inr models
           | Some table \<Rightarrow> Inr (map (filled_model table) models)))"

definition known_max_output_tokens ::
  "(string, json) result \<Rightarrow> string \<Rightarrow> string \<Rightarrow> (string, 64 word option) result" where
  "known_max_output_tokens document provider_id model_id =
     (case omp_table document of
        Inl err \<Rightarrow> Inl err
      | Inr providers \<Rightarrow>
          Inr (map_option om_max_output_tokens
                 (Option.bind (providers provider_id) (\<lambda>models. models model_id))))"

definition required_output_limit ::
  "(string, json) result \<Rightarrow> string \<Rightarrow> string \<Rightarrow> 32 word option \<Rightarrow> (string, 64 word) result" where
  "required_output_limit document provider_id model_id requested =
     (case requested of
        Some n \<Rightarrow> Inr (ucast n)
      | None \<Rightarrow>
          (case known_max_output_tokens document provider_id model_id of
             Inl err \<Rightarrow> Inl err
           | Inr (Some limit) \<Rightarrow> Inr limit
           | Inr None \<Rightarrow>
               Inl (provider_id @ ''/'' @ model_id @ '': this wire requires max_tokens; the request set none and '' @
                    ''nothing states an output limit for the model, so set max_tokens'')))"

end
