(* ===== verification/Provider_Address.thy ===== *)
theory Provider_Address
  imports Provider_Registry
begin

section \<open>Which URL a request may leave for\<close>

text \<open>
  \<open>src/src/providers/adapter/registry/address.rs\<close> and \<open>provider_endpoint\<close> of \<open>registry.rs\<close>. Parsing a
  URL is \<open>reqwest\<close>'s: the argument \<open>parse_url\<close>, which answers the parts the code reads. What the
  deployment's environment declares under a name and what its route registry answers for a local
  model are arguments too.
\<close>

record url =
  ur_scheme :: string
  ur_cannot_be_a_base :: bool
  ur_username :: string
  ur_password :: "string option"
  ur_query :: "string option"
  ur_fragment :: "string option"
  ur_host :: "string option"
  ur_text :: string

type_synonym url_parser = "string \<Rightarrow> (string, url) result"

text \<open>\<open>str::trim_end_matches(c)\<close>.\<close>

definition trim_end_matches :: "char \<Rightarrow> string \<Rightarrow> string" where
  "trim_end_matches c s = rev (dropWhile (\<lambda>d. d = c) (rev s))"

definition endpoint :: "string \<Rightarrow> string \<Rightarrow> string" where
  "endpoint base_url path = trim_end_matches (CHR ''/'') base_url @ path"

datatype web_scheme = Http | Https

definition web_scheme :: "string \<Rightarrow> url \<Rightarrow> (string, web_scheme) result" where
  "web_scheme provider_id u =
     (if ur_scheme u = ''http'' then Inr Http
      else if ur_scheme u = ''https'' then Inr Https
      else Inl (''provider `'' @ provider_id @ ''` base URL uses the scheme `'' @ ur_scheme u @
        ''`; a provider is reached over https, or http on a loopback override''))"

definition ascii_upper :: "char \<Rightarrow> char" where
  "ascii_upper c = (let n = (of_char c :: nat) in if 97 \<le> n \<and> n \<le> 122 then char_of (n - 32) else c)"

definition override_name :: "string \<Rightarrow> string" where
  "override_name provider_id =
     ''BRAMA_PROVIDER_'' @
     map (\<lambda>c. if is_ascii_alphanumeric c then ascii_upper c else CHR ''_'') provider_id @ ''_BASE_URL''"

type_synonym environment = "string \<Rightarrow> (string, string option) result"

definition provider_base_url_override :: "environment \<Rightarrow> string \<Rightarrow> (string, string option) result" where
  "provider_base_url_override env provider_id =
     (case env (override_name provider_id) of
        Inl err \<Rightarrow> Inl err
      | Inr v \<Rightarrow> Inr (case v of None \<Rightarrow> None | Some t \<Rightarrow> (if trim t = [] then None else Some t)))"

text \<open>
  \<open>host.parse::<IpAddr>().is_ok_and(is_loopback)\<close> on what \<open>host_str\<close> answers. A URL brackets an IPv6
  address, which does not parse as an address, so only dotted IPv4 does: four groups of one to three
  digits without a leading zero, each below 256.
\<close>

fun split_on :: "char \<Rightarrow> string \<Rightarrow> string list" where
  "split_on sep [] = [[]]"
| "split_on sep (c # cs) =
     (if c = sep then [] # split_on sep cs
      else (case split_on sep cs of [] \<Rightarrow> [[c]] | p # ps \<Rightarrow> (c # p) # ps))"

definition digit_value :: "char \<Rightarrow> nat" where
  "digit_value c = of_char c - 48"

definition is_digit :: "char \<Rightarrow> bool" where
  "is_digit c = (let n = (of_char c :: nat) in 48 \<le> n \<and> n \<le> 57)"

definition octet :: "string \<Rightarrow> nat option" where
  "octet s =
     (if s = [] \<or> length s > 3 \<or> \<not> list_all is_digit s \<or> (length s > 1 \<and> hd s = CHR ''0'') then None
      else (let v = foldl (\<lambda>acc c. acc * 10 + digit_value c) 0 s in if v < 256 then Some v else None))"

definition loopback_address :: "string \<Rightarrow> bool" where
  "loopback_address host =
     (case map octet (split_on (CHR ''.'') host) of
        [Some a, Some b, Some c, Some d] \<Rightarrow> a = 127
      | _ \<Rightarrow> False)"

definition loopback_host :: "string \<Rightarrow> bool" where
  "loopback_host host = (eq_ignore_ascii_case host ''localhost'' \<or> loopback_address host)"

definition validated_provider_base_url ::
  "url_parser \<Rightarrow> string \<Rightarrow> string \<Rightarrow> string \<Rightarrow> bool \<Rightarrow> (string, string) result" where
  "validated_provider_base_url parse_url provider_id candidate declared allow_explicit_loopback =
     (if trim candidate \<noteq> candidate
      then Inl (''provider `'' @ provider_id @ ''` base URL must not contain surrounding whitespace'')
      else bind_result
        (case parse_url candidate of
           Inl err \<Rightarrow> Inl (''provider `'' @ provider_id @ ''` has an invalid base URL: '' @ err)
         | Inr u \<Rightarrow> Inr u) (\<lambda>u.
      if ur_cannot_be_a_base u \<or> ur_username u \<noteq> [] \<or> ur_password u \<noteq> None
      then Inl (''provider `'' @ provider_id @ ''` base URL must be an absolute URL without user info'')
      else if ur_query u \<noteq> None \<or> ur_fragment u \<noteq> None
      then Inl (''provider `'' @ provider_id @ ''` base URL must not contain a query or fragment'')
      else bind_result (ok_or (''provider `'' @ provider_id @ ''` base URL has no host'') (ur_host u)) (\<lambda>host.
      bind_result
        (case parse_url declared of
           Inl err \<Rightarrow> Inl (''provider `'' @ provider_id @ ''` is declared with '' @ declared @
             '', which is not a URL: '' @ err)
         | Inr d \<Rightarrow> ok_or (''provider `'' @ provider_id @ ''` is declared with '' @ declared @
             '', which names no host'') (ur_host d)) (\<lambda>trusted.
      bind_result (web_scheme provider_id u) (\<lambda>scheme.
      if loopback_host host
      then (if \<not> allow_explicit_loopback
            then Inl (''provider `'' @ provider_id @ ''` loopback endpoint requires an explicit deployment override'')
            else Inr (trim_end_matches (CHR ''/'') (ur_text u)))
      else if scheme \<noteq> Https
      then Inl (''provider `'' @ provider_id @ ''` base URL must use HTTPS'')
      else if \<not> eq_ignore_ascii_case host trusted
      then Inl (''provider `'' @ provider_id @ ''` host `'' @ host @ ''` is not trusted: it is declared at `'' @
             trusted @ ''`'')
      else Inr (trim_end_matches (CHR ''/'') (ur_text u)))))))"

definition provider_base_url ::
  "url_parser \<Rightarrow> environment \<Rightarrow> provider_descriptor \<Rightarrow> (string, string) result" where
  "provider_base_url parse_url env d =
     (case provider_base_url_override env (pd_id d) of
        Inl err \<Rightarrow> Inl err
      | Inr (Some configured) \<Rightarrow>
          validated_provider_base_url parse_url (pd_id d) configured (pd_base_url d) True
      | Inr None \<Rightarrow>
          validated_provider_base_url parse_url (pd_id d) (pd_base_url d) (pd_base_url d) False)"

text \<open>\<open>routes_path\<close> and \<open>routes_base_url\<close>: \<open>inference_routes::configured_path\<close> and \<open>base_url\<close>.\<close>

definition provider_base_url_for ::
  "url_parser \<Rightarrow> environment \<Rightarrow> string option \<Rightarrow> (string \<Rightarrow> string \<Rightarrow> (string, string) result) \<Rightarrow>
   provider_descriptor \<Rightarrow> string \<Rightarrow> (string, string) result" where
  "provider_base_url_for parse_url env routes_path routes_base_url d model_id =
     (if pd_id d \<noteq> ''local-openai'' then provider_base_url parse_url env d
      else (case provider_base_url_override env (pd_id d) of
              Inl err \<Rightarrow> Inl err
            | Inr (Some configured) \<Rightarrow>
                validated_provider_base_url parse_url (pd_id d) configured (pd_base_url d) True
            | Inr None \<Rightarrow>
                (case routes_path of
                   None \<Rightarrow> Inl ''BRAMA_INFERENCE_ROUTES_FILE is required for local inference''
                 | Some path \<Rightarrow> routes_base_url path model_id)))"

definition LOCAL_MODEL_SERVER :: string where
  "LOCAL_MODEL_SERVER = ''local-openai''"

definition provider_endpoint ::
  "url_parser \<Rightarrow> environment \<Rightarrow> string \<Rightarrow> (string, string option) result" where
  "provider_endpoint parse_url env provider_id =
     (case registry_provider provider_id of
        None \<Rightarrow> Inl (''provider `'' @ provider_id @ ''` is not declared'')
      | Some d \<Rightarrow>
          (case provider_base_url_override env (pd_id d) of
             Inl err \<Rightarrow> Inl err
           | Inr overridden \<Rightarrow>
               (if overridden = None \<and> pd_id d = LOCAL_MODEL_SERVER then Inr None
                else (case provider_base_url parse_url env d of Inl err \<Rightarrow> Inl err | Inr u \<Rightarrow> Inr (Some u)))))"

subsection \<open>Where a request can go\<close>

text \<open>A URL a provider's traffic may use: loopback, or HTTPS on the host the provider is declared at.\<close>

definition trusted_address :: "url_parser \<Rightarrow> bool \<Rightarrow> string \<Rightarrow> url \<Rightarrow> bool" where
  "trusted_address parse_url explicit declared u =
     (ur_username u = [] \<and> ur_password u = None \<and> ur_query u = None \<and> ur_fragment u = None \<and>
      (\<exists>host. ur_host u = Some host \<and>
        (if loopback_host host then explicit
         else ur_scheme u = ''https'' \<and>
           (\<exists>d trusted. parse_url declared = Inr d \<and> ur_host d = Some trusted \<and>
              eq_ignore_ascii_case host trusted))))"

lemma bind_result_Inr: "bind_result r f = Inr y \<longleftrightarrow> (\<exists>x. r = Inr x \<and> f x = Inr y)"
  by (cases r) (simp_all add: bind_result_def)

lemma ok_or_Inr: "ok_or e v = Inr x \<longleftrightarrow> v = Some x"
  by (cases v) (simp_all add: ok_or_def)

lemma validated_trusted:
  assumes "validated_provider_base_url parse_url i candidate declared explicit = Inr out"
  shows "\<exists>u. parse_url candidate = Inr u \<and> trusted_address parse_url explicit declared u \<and>
    out = trim_end_matches (CHR ''/'') (ur_text u)"
  using assms
  by (fastforce simp: validated_provider_base_url_def bind_result_Inr ok_or_Inr trusted_address_def
      web_scheme_def split: if_splits sum.splits)

lemma base_url_trusted:
  assumes "provider_base_url parse_url env d = Inr out"
  shows "\<exists>u candidate. parse_url candidate = Inr u \<and> out = trim_end_matches (CHR ''/'') (ur_text u)
    \<and> trusted_address parse_url (env (override_name (pd_id d)) = Inr (Some candidate)) (pd_base_url d) u"
proof -
  obtain configured where o: "provider_base_url_override env (pd_id d) = Inr configured"
    using assms by (auto simp: provider_base_url_def split: sum.splits)
  show ?thesis
  proof (cases configured)
    case None
    with o assms validated_trusted [of parse_url "pd_id d" "pd_base_url d" "pd_base_url d" False out]
    obtain u where "parse_url (pd_base_url d) = Inr u" "trusted_address parse_url False (pd_base_url d) u"
      "out = trim_end_matches (CHR ''/'') (ur_text u)" by (auto simp: provider_base_url_def)
    then show ?thesis by (fastforce simp: trusted_address_def split: if_splits)
  next
    case (Some t)
    with o have env: "env (override_name (pd_id d)) = Inr (Some t)"
      by (auto simp: provider_base_url_override_def split: sum.splits option.splits if_splits)
    from o Some assms validated_trusted [of parse_url "pd_id d" t "pd_base_url d" True out]
    obtain u where "parse_url t = Inr u" "trusted_address parse_url True (pd_base_url d) u"
      "out = trim_end_matches (CHR ''/'') (ur_text u)" by (auto simp: provider_base_url_def)
    with env show ?thesis by (intro exI [of _ u] exI [of _ t]) simp
  qed
qed

text \<open>
  A provider's traffic never leaves for a host nobody declared: every base URL the policy gives
  out for a provider parses, carries no user info, query or fragment, and is either HTTPS on the host of the
  provider's own declaration or a loopback host that the deployment itself named in that provider's override.
\<close>

theorem base_url_is_trusted:
  assumes "provider_base_url parse_url env d = Inr out"
  shows "\<exists>u candidate. parse_url candidate = Inr u \<and> out = trim_end_matches (CHR ''/'') (ur_text u)
    \<and> trusted_address parse_url (env (override_name (pd_id d)) = Inr (Some candidate)) (pd_base_url d) u"
  using assms by (rule base_url_trusted)

definition plain_url :: "string \<Rightarrow> string \<Rightarrow> url" where
  "plain_url scheme host =
     \<lparr>ur_scheme = scheme, ur_cannot_be_a_base = False, ur_username = [], ur_password = None, ur_query = None,
      ur_fragment = None, ur_host = Some host, ur_text = scheme @ ''://'' @ host @ ''/''\<rparr>"

theorem base_url_is_trusted_witness:
  "\<exists>u candidate. (\<lambda>s. Inr (plain_url ''https'' ''api.mistral.ai'') :: (string, url) result) candidate = Inr u
     \<and> ''https://api.mistral.ai'' = trim_end_matches (CHR ''/'') (ur_text u)
     \<and> trusted_address (\<lambda>s. Inr (plain_url ''https'' ''api.mistral.ai''))
         ((\<lambda>_. Inr None :: (string, string option) result) (override_name (pd_id MISTRAL)) = Inr (Some candidate))
         (pd_base_url MISTRAL) u"
proof (rule base_url_is_trusted)
  have "map octet (split_on (CHR ''.'') ''api.mistral.ai'') = [None, None, None]"
    by (simp add: octet_def is_digit_def)
  then have "\<not> loopback_host ''api.mistral.ai''"
    by (simp add: loopback_host_def loopback_address_def eq_ignore_ascii_case_def ascii_lower_def)
  then show "provider_base_url (\<lambda>s. Inr (plain_url ''https'' ''api.mistral.ai'')) (\<lambda>_. Inr None) MISTRAL =
      Inr ''https://api.mistral.ai''"
    by (simp add: provider_base_url_def provider_base_url_override_def validated_provider_base_url_def
        bind_result_def ok_or_def web_scheme_def plain_url_def trim_end_matches_def MISTRAL_def openai_chat_def
        trim_def is_ws_def eq_ignore_ascii_case_def)
qed

end
