(* ===== verification/Pool_Refusal.thy ===== *)
theory Pool_Refusal
  imports Plan_Windows
begin

section \<open>How an emptied pool is answered\<close>

text \<open>
  \<open>src/src/subscription_dispatch/dispatch/refusal/\<close> (\<open>envelope.rs\<close>, \<open>pool_empty.rs\<close>),
  \<open>rotation/verdict.rs\<close> and \<open>credential/auth_failure.rs\<close>: the class and the sentence one refused
  request is answered with. The envelope of a refusal goes to the log only, so the answer does not
  depend on it. What the sign-in sweep did for a provider is a sentence another component writes; it
  is the argument \<open>sign_in_sentence\<close>.
\<close>

subsection \<open>One refusal\<close>

definition refusal_envelope ::
  "'f crates \<Rightarrow> string \<Rightarrow> string \<Rightarrow> provider_refusal \<Rightarrow> string \<Rightarrow> 'f option \<Rightarrow> 'f" where
  "refusal_envelope K model point c message cause =
     (let e = with_context K
            (envelope K point (code_for (contract_kind c)) IMPACT_MODEL_REQUEST message) ''model'' model
      in (case cause of Some f \<Rightarrow> caused_by K e f | None \<Rightarrow> e))"

definition refuse_as :: "model_request \<Rightarrow> provider_refusal \<Rightarrow> string \<Rightarrow> model_response" where
  "refuse_as request c message = failure_answer (rq_model request) c message"

definition refuse :: "model_request \<Rightarrow> gateway_refusal \<Rightarrow> string \<Rightarrow> model_response" where
  "refuse request c message = refuse_as request (Gateway c) message"

definition credential_refusal_class :: "'f crates \<Rightarrow> 'f \<Rightarrow> gateway_refusal" where
  "credential_refusal_class K f =
     (if failure_outage K f \<and> failure_retryable K f then GDependencyUnavailable else GCredentialUnauthorized)"

definition failure_detail :: "'f crates \<Rightarrow> 'f \<Rightarrow> string" where
  "failure_detail K f = (case failure_detail_of K f of Some d \<Rightarrow> d | None \<Rightarrow> failure_render K f)"

definition remember_failure :: "'f crates \<Rightarrow> 'f option \<Rightarrow> 'f \<Rightarrow> 'f option" where
  "remember_failure K slot f = Some (case slot of Some prior \<Rightarrow> caused_by K f prior | None \<Rightarrow> f)"

subsection \<open>Reading a provider's refusal\<close>

definition refused_credential :: "model_response \<Rightarrow> bool" where
  "refused_credential r = (failure_class r = Some Authentication)"

definition exhausted_credential :: "model_response \<Rightarrow> bool" where
  "exhausted_credential r = (failure_class r = Some RateLimited \<or> failure_class r = Some QuotaExhausted)"

subsection \<open>Why a pool emptied\<close>

record pool_empty_cause =
  pe_auth_rejection :: bool
  pe_reauthorization_block :: bool
  pe_unredeemable_credential :: bool

definition needs_authorization :: "pool_empty_cause \<Rightarrow> bool" where
  "needs_authorization c = (pe_auth_rejection c \<or> pe_reauthorization_block c \<or> pe_unredeemable_credential c)"

definition pool_is_capacity :: "bool \<Rightarrow> bool" where
  "pool_is_capacity rate_limit_block = rate_limit_block"

definition capacity_is_mixed :: "pool_empty_cause \<Rightarrow> bool" where
  "capacity_is_mixed c = needs_authorization c"

definition unredeemable_credential_summary :: "string \<Rightarrow> string" where
  "unredeemable_credential_summary provider =
     ''no '' @ [CHR 0x27] @ provider @ [CHR 0x27] @ '' credential could be redeemed for agent; a capability, '' @
     ''read grant, or this installation'' @ [CHR 0x27] @ ''s trust material is missing''"

definition bounded_unavailable_summary :: "string \<Rightarrow> string" where
  "bounded_unavailable_summary provider =
     ''all bounded '' @ [CHR 0x27] @ provider @ [CHR 0x27] @ '' credentials unavailable for agent''"

definition mixed_unavailable_summary :: "string \<Rightarrow> string" where
  "mixed_unavailable_summary provider =
     bounded_unavailable_summary provider @ '': the usable one is inside a '' @
     ''quota block, and the rest need a sign-in (`brama subscription list` says which)''"

definition capacity_instant :: "'f crates \<Rightarrow> instant \<Rightarrow> string" where
  "capacity_instant K ms =
     (case utc_text K ms of
        Some at \<Rightarrow> at
      | None \<Rightarrow> ''an instant outside the calendar ('' @ show_int ms @
          '' ms after the epoch, as the ledger recorded it)'')"

definition capacity_summary :: "'f crates \<Rightarrow> string \<Rightarrow> bool \<Rightarrow> instant option \<Rightarrow> string" where
  "capacity_summary K provider mixed lifts =
     (let summary = (if mixed then mixed_unavailable_summary provider else bounded_unavailable_summary provider)
      in (case lifts of
            Some until \<Rightarrow> summary @ ''; the block lifts at '' @ capacity_instant K until
          | None \<Rightarrow> summary))"

definition auth_rejected_summary :: "(string \<Rightarrow> string) \<Rightarrow> string \<Rightarrow> string" where
  "auth_rejected_summary sign_in_sentence provider =
     ''all bounded '' @ [CHR 0x27] @ provider @ [CHR 0x27] @
     '' credentials were rejected by the provider; '' @ sign_in_sentence provider"

definition no_active_credential_summary :: "string \<Rightarrow> string" where
  "no_active_credential_summary provider =
     ''no active '' @ [CHR 0x27] @ provider @ [CHR 0x27] @ '' credential for agent''"

definition pool_empty_summary :: "(string \<Rightarrow> string) \<Rightarrow> string \<Rightarrow> pool_empty_cause \<Rightarrow> string" where
  "pool_empty_summary sign_in_sentence provider c =
     (if pe_auth_rejection c \<or> pe_reauthorization_block c then auth_rejected_summary sign_in_sentence provider
      else if pe_unredeemable_credential c then unredeemable_credential_summary provider
      else bounded_unavailable_summary provider)"

definition pool_empty_class :: "pool_empty_cause \<Rightarrow> gateway_refusal" where
  "pool_empty_class c =
     (if pe_auth_rejection c \<or> pe_reauthorization_block c then GSubscriptionReauthorizationRequired
      else if pe_unredeemable_credential c then GCredentialUnauthorized
      else GSubscriptionUnavailable)"

subsection \<open>The verdict\<close>

record pool_observations =
  po_auth_rejection :: bool
  po_reauthorization_block :: bool
  po_unredeemable_credential :: bool
  po_rate_limit_block :: bool
  po_quota_exhausted_block :: bool
  po_block_lifts_at_ms :: "instant option"

definition cause_of :: "pool_observations \<Rightarrow> pool_empty_cause" where
  "cause_of ob =
     \<lparr>pe_auth_rejection = po_auth_rejection ob, pe_reauthorization_block = po_reauthorization_block ob,
      pe_unredeemable_credential = po_unredeemable_credential ob\<rparr>"

definition emptied_pool_refusal ::
  "'f crates \<Rightarrow> (string \<Rightarrow> string) \<Rightarrow> model_request \<Rightarrow> string \<Rightarrow> 32 word \<Rightarrow> 'f option \<Rightarrow>
   pool_observations \<Rightarrow> model_response option \<Rightarrow> model_response" where
  "emptied_pool_refusal K sign_in_sentence request provider attempts credential_refusal ob rate_limit_failure =
     (case rate_limit_failure of
        Some failed \<Rightarrow> failed\<lparr>mr_attempts := attempts\<rparr>
      | None \<Rightarrow>
          (let cause = cause_of ob
           in if pool_is_capacity (po_rate_limit_block ob)
              then (refuse request GSubscriptionUnavailable
                     (capacity_summary K provider (capacity_is_mixed cause) (po_block_lifts_at_ms ob)))
                     \<lparr>mr_attempts := attempts\<rparr>
              else if po_quota_exhausted_block ob \<and> credential_refusal = None \<and> \<not> needs_authorization cause
              then (refuse_as request QuotaExhausted
                     (''every usable '' @ [CHR 0x27] @ provider @ [CHR 0x27] @
                      '' credential has spent its paid balance''))\<lparr>mr_attempts := attempts\<rparr>
              else (case credential_refusal of
                      Some f \<Rightarrow>
                        (refuse request (credential_refusal_class K f)
                          ([CHR 0x27] @ provider @ [CHR 0x27] @ '' subscription credential failed: '' @
                           failure_detail K f))\<lparr>mr_attempts := attempts\<rparr>
                    | None \<Rightarrow>
                        (refuse request (pool_empty_class cause)
                          (pool_empty_summary sign_in_sentence provider cause))\<lparr>mr_attempts := attempts\<rparr>)))"

subsection \<open>Facts\<close>

lemmas refuse_defs = refuse_def refuse_as_def failure_answer_def from_refusal_def

lemma emptied_pool_attempts [simp]:
  "mr_attempts (emptied_pool_refusal K ss request provider attempts cr ob rl) = attempts"
  by (simp add: emptied_pool_refusal_def Let_def split: option.splits)

text \<open>An emptied pool is never an answer: with a provider's refusal kept or without, it is a refusal.\<close>

lemma emptied_pool_refused:
  "(\<And>r. rl = Some r \<Longrightarrow> \<not> success r) \<Longrightarrow>
     \<not> success (emptied_pool_refusal K ss request provider attempts cr ob rl)"
  by (auto simp: emptied_pool_refusal_def Let_def refuse_defs success_def split: option.splits)

lemma emptied_pool_class:
  "failure_class (emptied_pool_refusal K ss request provider attempts cr ob None) =
     Some (if po_rate_limit_block ob then Gateway GSubscriptionUnavailable
           else if po_quota_exhausted_block ob \<and> cr = None \<and> \<not> needs_authorization (cause_of ob)
           then QuotaExhausted
           else Gateway (case cr of Some f \<Rightarrow> credential_refusal_class K f
                         | None \<Rightarrow> pool_empty_class (cause_of ob)))"
  by (auto simp: emptied_pool_refusal_def Let_def refuse_defs failure_class_def pool_is_capacity_def
      split: option.splits)

text \<open>The caller is told to wait only when some member's wait really ends.\<close>

lemma pool_empty_class_unavailable:
  "pool_empty_class c = GSubscriptionUnavailable \<longleftrightarrow> \<not> needs_authorization c"
  by (auto simp: pool_empty_class_def needs_authorization_def)

end
