(* ===== verification/Replay.thy ===== *)
theory Replay
  imports BTree_Map Journal
begin

section \<open>Signed agents, each request once\<close>

text \<open>
  \<open>src/src/crypto/hmac_auth.rs\<close>, \<open>src/src/crypto/replay.rs\<close> and
  \<open>src/src/subscription_dispatch/dispatch/caller_identity.rs\<close>. SHA-256 and HMAC-SHA256 (crates
  outside the repository) are the functions of the record \<open>mac_crates\<close>; the broker that knows an
  agent's secret is an argument. Bodies, header values and secrets are strings of bytes. The replay
  record is kept as what reading its file yields; the lock beside it serialises the calls, so a
  history is a sequence of calls.
\<close>

subsection \<open>Parsing a timestamp\<close>

text \<open>\<open>str::parse::<i64>\<close> with the standard library's sentences.\<close>

fun parse_digits :: "bool \<Rightarrow> int \<Rightarrow> string \<Rightarrow> (string, int) result" where
  "parse_digits neg acc [] = Inr acc"
| "parse_digits neg acc (c # cs) =
     (let d = (of_char c :: int) - 48;
          acc' = (if neg then acc * 10 - d else acc * 10 + d)
      in if d < 0 \<or> d > 9 then Inl ''invalid digit found in string''
         else if acc' > i64_max then Inl ''number too large to fit in target type''
         else if acc' < i64_min then Inl ''number too small to fit in target type''
         else parse_digits neg acc' cs)"

definition parse_i64 :: "string \<Rightarrow> (string, int) result" where
  "parse_i64 s =
     (case s of
        [] \<Rightarrow> Inl ''cannot parse integer from empty string''
      | c # cs \<Rightarrow>
          (if (c = CHR ''+'' \<or> c = CHR ''-'') \<and> cs = [] then Inl ''invalid digit found in string''
           else if c = CHR ''-'' then parse_digits True 0 cs
           else if c = CHR ''+'' then parse_digits False 0 cs
           else parse_digits False 0 s))"

subsection \<open>The signature\<close>

record mac_crates =
  sha256_hex :: "string \<Rightarrow> string"
  hmac_sha256_hex :: "string \<Rightarrow> string \<Rightarrow> (string, string) result"

definition AGENT_ID :: string where
  "AGENT_ID = ''x-agent-id''"
definition AGENT_TIMESTAMP :: string where
  "AGENT_TIMESTAMP = ''x-agent-timestamp''"
definition AGENT_SIGNATURE :: string where
  "AGENT_SIGNATURE = ''x-agent-signature''"

datatype hmac_auth_error =
    MissingHeader string
  | InvalidTimestamp string
  | BadSignature
  | HmacInit string
  | Clock string

fun hmac_error_text :: "hmac_auth_error \<Rightarrow> string" where
  "hmac_error_text (MissingHeader h) = ''missing auth headers: '' @ h"
| "hmac_error_text (InvalidTimestamp e) = ''invalid timestamp: '' @ e"
| "hmac_error_text BadSignature = ''invalid signature''"
| "hmac_error_text (HmacInit e) = ''hmac init: '' @ e"
| "hmac_error_text (Clock e) = ''the clock cannot stamp a signed request: '' @ e"

record hmac_headers =
  hh_agent_id :: string
  hh_timestamp :: string
  hh_signature :: string

definition body_hash :: "mac_crates \<Rightarrow> string \<Rightarrow> string" where
  "body_hash M body = (if body = [] then [] else sha256_hex M body)"

definition signed_message :: "mac_crates \<Rightarrow> string \<Rightarrow> int \<Rightarrow> string \<Rightarrow> string" where
  "signed_message M agent ts body = agent @ '':'' @ show_int ts @ '':'' @ body_hash M body"

definition compute_signature ::
  "mac_crates \<Rightarrow> string \<Rightarrow> int \<Rightarrow> string \<Rightarrow> string \<Rightarrow> (hmac_auth_error, string) result" where
  "compute_signature M agent ts body secret =
     (case hmac_sha256_hex M secret (signed_message M agent ts body) of
        Inl err \<Rightarrow> Inl (HmacInit err)
      | Inr sig \<Rightarrow> Inr sig)"

definition verify_agent_hmac ::
  "mac_crates \<Rightarrow> hmac_headers \<Rightarrow> string \<Rightarrow> string \<Rightarrow> (hmac_auth_error, unit) result" where
  "verify_agent_hmac M h body secret =
     (if hh_agent_id h = [] then Inl (MissingHeader AGENT_ID)
      else if hh_timestamp h = [] then Inl (MissingHeader AGENT_TIMESTAMP)
      else if hh_signature h = [] then Inl (MissingHeader AGENT_SIGNATURE)
      else (case parse_i64 (hh_timestamp h) of
              Inl err \<Rightarrow> Inl (InvalidTimestamp err)
            | Inr ts \<Rightarrow>
                (case compute_signature M (hh_agent_id h) ts body secret of
                   Inl err \<Rightarrow> Inl err
                 | Inr expected \<Rightarrow>
                     (if length (hh_signature h) \<noteq> length expected \<or> hh_signature h \<noteq> expected
                      then Inl BadSignature else Inr ()))))"

text \<open>\<open>agent_headers\<close>; \<open>clock\<close> is the seconds since the epoch, or why the clock cannot say.\<close>

definition agent_headers ::
  "mac_crates \<Rightarrow> (string, nat) result \<Rightarrow> string \<Rightarrow> string \<Rightarrow> string \<Rightarrow>
   (hmac_auth_error, (string \<times> string) list) result" where
  "agent_headers M clock agent body secret =
     (case clock of
        Inl err \<Rightarrow> Inl (Clock (''it reads before the Unix epoch: '' @ err))
      | Inr secs \<Rightarrow>
          (if int secs > i64_max
           then Inl (Clock (''its seconds exceed a timestamp: '' @
                  ''out of range integral type conversion attempted''))
           else (case compute_signature M agent (int secs) body secret of
                   Inl err \<Rightarrow> Inl err
                 | Inr sig \<Rightarrow> Inr [(AGENT_ID, agent), (AGENT_TIMESTAMP, show_int (int secs)),
                                   (AGENT_SIGNATURE, sig)])))"

subsection \<open>The replay record\<close>

record accepted =
  ac_timestamp :: int
  ac_signatures :: "string list"

definition accepted_default :: accepted where
  "accepted_default = \<lparr>ac_timestamp = 0, ac_signatures = []\<rparr>"

text \<open>\<open>BTreeSet::insert\<close>.\<close>

definition bs_insert :: "'a::linorder \<Rightarrow> 'a list \<Rightarrow> 'a list" where
  "bs_insert x xs = (if x \<in> set xs then xs else insort x xs)"

definition accept_into :: "int \<Rightarrow> string \<Rightarrow> accepted \<Rightarrow> accepted" where
  "accept_into ts sig a =
     (let a1 = (if ts > ac_timestamp a then \<lparr>ac_timestamp = ts, ac_signatures = []\<rparr> else a)
      in a1\<lparr>ac_signatures := bs_insert sig (ac_signatures a1)\<rparr>)"

datatype replay_file =
    RAbsent
  | RUnreadable string
  | RUndecodable string
  | RRecord "(string, accepted) btmap"

text \<open>\<open>path\<close>: where the record is, or why there is no state directory; \<open>lock\<close> and \<open>fault\<close>: the
  sentences of a lock or a replacement the file system refuses.\<close>

definition accept_once ::
  "(string, string) result \<Rightarrow> string option \<Rightarrow> string option \<Rightarrow> string \<Rightarrow> int \<Rightarrow> string \<Rightarrow>
   replay_file \<Rightarrow> (string, unit) result \<times> replay_file" where
  "accept_once path lock fault agent ts sig file =
     (case path of
        Inl cause \<Rightarrow> (Inl cause, file)
      | Inr p \<Rightarrow>
          (case lock of
             Some err \<Rightarrow> (Inl err, file)
           | None \<Rightarrow>
               (case file of
                  RUndecodable err \<Rightarrow> (Inl (''the replay record '' @ p @ '' is unreadable: '' @ err), file)
                | RUnreadable err \<Rightarrow> (Inl (''the replay record '' @ p @ '' could not be read: '' @ err), file)
                | _ \<Rightarrow>
                    (let record = (case file of RRecord m \<Rightarrow> m | _ \<Rightarrow> []);
                         a = (case bt_get record agent of Some a \<Rightarrow> a | None \<Rightarrow> accepted_default)
                     in if ts < ac_timestamp a \<or> (ts = ac_timestamp a \<and> sig \<in> set (ac_signatures a))
                        then (Inl (''replayed or out-of-order request: agent '' @ agent @
                                '' already had a request accepted signed at '' @
                                show_int (ac_timestamp a)), file)
                        else (case fault of
                                Some err \<Rightarrow> (Inl err, file)
                              | None \<Rightarrow> (Inr (), RRecord (bt_insert agent (accept_into ts sig a) record)))))))"

subsection \<open>Who is calling\<close>

definition visible_ascii :: "char \<Rightarrow> bool" where
  "visible_ascii c = (let n = (of_char c :: nat) in (32 \<le> n \<and> n < 127) \<or> n = 9)"

definition header_text :: "(string \<times> string) list \<Rightarrow> string \<Rightarrow> (string, string) result" where
  "header_text headers name =
     (case map_of headers name of
        None \<Rightarrow> Inl (''missing '' @ name @ '' header'')
      | Some v \<Rightarrow>
          (if \<not> list_all visible_ascii v
           then Inl (''the '' @ name @ '' header is not visible ASCII: failed to convert header to a str'')
           else if v = [] then Inl (''missing '' @ name @ '' header'') else Inr v))"

definition authenticate_agent ::
  "mac_crates \<Rightarrow> (string \<Rightarrow> (string, string) result) \<Rightarrow> (string, string) result \<Rightarrow> string option \<Rightarrow>
   string option \<Rightarrow> (string \<times> string) list \<Rightarrow> string \<Rightarrow> replay_file \<Rightarrow>
   (string, string) result \<times> replay_file" where
  "authenticate_agent M get_agent_auth_secret path lock fault headers raw_body file =
     (case header_text headers AGENT_ID of
        Inl err \<Rightarrow> (Inl err, file)
      | Inr agent \<Rightarrow>
          (case header_text headers AGENT_TIMESTAMP of
             Inl err \<Rightarrow> (Inl err, file)
           | Inr ts \<Rightarrow>
               (case header_text headers AGENT_SIGNATURE of
                  Inl err \<Rightarrow> (Inl err, file)
                | Inr sig \<Rightarrow>
                    (case get_agent_auth_secret agent of
                       Inl err \<Rightarrow> (Inl err, file)
                     | Inr secret \<Rightarrow>
                         (case verify_agent_hmac M
                             \<lparr>hh_agent_id = agent, hh_timestamp = ts, hh_signature = sig\<rparr> raw_body secret of
                            Inl e \<Rightarrow> (Inl (''auth: '' @ hmac_error_text e), file)
                          | Inr _ \<Rightarrow>
                              (case parse_i64 ts of
                                 Inl e \<Rightarrow> (Inl (''auth: invalid timestamp: '' @ e), file)
                               | Inr timestamp \<Rightarrow>
                                   (case accept_once path lock fault agent timestamp sig file of
                                      (Inl e, file') \<Rightarrow> (Inl (''auth: '' @ e), file')
                                    | (Inr _, file') \<Rightarrow> (Inr agent, file'))))))))"

subsection \<open>What the record remembers\<close>

text \<open>The record holds a request against every later copy of it.\<close>

definition remembers :: "replay_file \<Rightarrow> string \<Rightarrow> int \<Rightarrow> string \<Rightarrow> bool" where
  "remembers file agent ts sig =
     (case file of
        RRecord m \<Rightarrow>
          (case bt_get m agent of
             Some a \<Rightarrow> ts < ac_timestamp a \<or> (ts = ac_timestamp a \<and> sig \<in> set (ac_signatures a))
           | None \<Rightarrow> False)
      | _ \<Rightarrow> False)"

lemma set_bs_insert [simp]: "set (bs_insert x xs) = insert x (set xs)"
  by (auto simp: bs_insert_def set_insort_key)

lemma accept_once_cases:
  assumes "accept_once path lock fault agent ts sig file = (r, file')"
  obtains (refused) err where "r = Inl err" "file' = file"
  | (accepted) m a where "r = Inr ()" "file = RRecord m \<or> file = RAbsent \<and> m = []"
      "a = (case bt_get m agent of Some a \<Rightarrow> a | None \<Rightarrow> accepted_default)"
      "\<not> (ts < ac_timestamp a \<or> (ts = ac_timestamp a \<and> sig \<in> set (ac_signatures a)))"
      "file' = RRecord (bt_insert agent (accept_into ts sig a) m)"
proof (cases "file")
  case (RRecord m)
  with assms refused accepted [of m] show ?thesis
    by (auto simp: accept_once_def Let_def split: sum.splits option.splits if_splits)
next
  case RAbsent
  with assms refused accepted [of "[]"] show ?thesis
    by (auto simp: accept_once_def Let_def split: sum.splits option.splits if_splits)
qed (use assms refused in \<open>auto simp: accept_once_def split: sum.splits option.splits\<close>)

lemma accept_into_fields:
  "\<not> ts < ac_timestamp a \<Longrightarrow> ac_timestamp (accept_into ts sig a) = ts"
  "sig \<in> set (ac_signatures (accept_into ts sig a))"
  "ts = ac_timestamp a \<Longrightarrow> set (ac_signatures a) \<subseteq> set (ac_signatures (accept_into ts sig a))"
  by (auto simp: accept_into_def Let_def)

lemma accept_once_remembers:
  assumes "accept_once path lock fault agent ts sig file = (Inr (), file')"
  shows "remembers file' agent ts sig"
  using assms
proof (cases rule: accept_once_cases)
  case (accepted m a)
  then show ?thesis by (simp add: remembers_def bt_get_insert accept_into_fields)
qed simp

lemma accept_once_keeps:
  assumes "remembers file a0 ts0 sig0"
  shows "remembers (snd (accept_once path lock fault agent ts sig file)) a0 ts0 sig0"
proof -
  obtain r file' where step: "accept_once path lock fault agent ts sig file = (r, file')" by fastforce
  then show ?thesis
  proof (cases rule: accept_once_cases)
    case (refused err)
    with step assms show ?thesis by simp
  next
    case (accepted m a)
    then have ts: "ac_timestamp (accept_into ts sig a) = ts" "ac_timestamp a \<le> ts"
      by (simp_all add: accept_into_fields)
    from accepted assms have "file = RRecord m" by (auto simp: remembers_def)
    with step accepted assms ts accept_into_fields(3) [of ts a sig] show ?thesis
      by (auto simp: remembers_def bt_get_insert split: option.splits)
  qed
qed

lemma accept_once_refuses:
  assumes "remembers file agent ts sig"
  shows "fst (accept_once path lock fault agent ts sig file) \<noteq> Inr ()"
proof -
  obtain r file' where step: "accept_once path lock fault agent ts sig file = (r, file')" by fastforce
  then show ?thesis
  proof (cases rule: accept_once_cases)
    case (accepted m a)
    with assms show ?thesis by (auto simp: remembers_def split: option.splits)
  qed (simp add: step)
qed

text \<open>A sequence of calls on one record, and the answers it gives.\<close>

record signed_call =
  sc_path :: "(string, string) result"
  sc_lock :: "string option"
  sc_fault :: "string option"
  sc_agent :: string
  sc_timestamp :: int
  sc_signature :: string

definition accept_call :: "signed_call \<Rightarrow> replay_file \<Rightarrow> (string, unit) result \<times> replay_file" where
  "accept_call c file =
     accept_once (sc_path c) (sc_lock c) (sc_fault c) (sc_agent c) (sc_timestamp c) (sc_signature c) file"

fun accept_all :: "signed_call list \<Rightarrow> replay_file \<Rightarrow> (string, unit) result list \<times> replay_file" where
  "accept_all [] file = ([], file)"
| "accept_all (c # cs) file =
     (case accept_call c file of (r, file') \<Rightarrow>
       (case accept_all cs file' of (rs, file'') \<Rightarrow> (r # rs, file'')))"

text \<open>The contract of a guard, and that it accepts each request at most once.\<close>

locale once_guard =
  fixes ask :: "'c \<Rightarrow> 's \<Rightarrow> (string, unit) result \<times> 's"
    and what :: "'c \<Rightarrow> 'k"
    and seen :: "'s \<Rightarrow> 'k \<Rightarrow> bool"
  assumes accepts_seen: "ask c s = (Inr (), s') \<Longrightarrow> seen s' (what c)"
    and keeps_seen: "seen s k \<Longrightarrow> seen (snd (ask c s)) k"
    and refuses_seen: "seen s (what c) \<Longrightarrow> fst (ask c s) \<noteq> Inr ()"
begin

fun ask_all :: "'c list \<Rightarrow> 's \<Rightarrow> (string, unit) result list \<times> 's" where
  "ask_all [] s = ([], s)"
| "ask_all (c # cs) s =
     (case ask c s of (r, s') \<Rightarrow> (case ask_all cs s' of (rs, s'') \<Rightarrow> (r # rs, s'')))"

lemma length_ask_all: "length (fst (ask_all cs s)) = length cs"
  by (induction cs arbitrary: s) (auto split: prod.splits, metis fst_conv)

lemma seen_never_accepted:
  "seen s k \<Longrightarrow> j < length cs \<Longrightarrow> what (cs ! j) = k \<Longrightarrow> fst (ask_all cs s) ! j \<noteq> Inr ()"
proof (induction cs arbitrary: s j)
  case (Cons c cs)
  obtain r s' where ask: "ask c s = (r, s')" by fastforce
  obtain rs s'' where rest: "ask_all cs s' = (rs, s'')" by fastforce
  have "seen s' k" using keeps_seen [OF Cons.prems(1), of c] ask by simp
  with Cons.IH [of s' "j - 1"] Cons.prems ask rest refuses_seen [of s c] show ?case
    by (cases j) auto
qed simp

lemma accepted_once:
  "i < j \<Longrightarrow> j < length cs \<Longrightarrow> what (cs ! i) = what (cs ! j) \<Longrightarrow>
     fst (ask_all cs s) ! i = Inr () \<Longrightarrow> fst (ask_all cs s) ! j \<noteq> Inr ()"
proof (induction cs arbitrary: s i j)
  case (Cons c cs)
  obtain r s' where ask: "ask c s = (r, s')" by fastforce
  obtain rs s'' where rest: "ask_all cs s' = (rs, s'')" by fastforce
  show ?case
  proof (cases i)
    case 0
    with Cons.prems ask rest have "ask c s = (Inr (), s')" by simp
    then have "seen s' (what c)" by (rule accepts_seen)
    with seen_never_accepted [of s' "what c" "j - 1" cs] Cons.prems 0 ask rest show ?thesis by auto
  next
    case (Suc i')
    with Cons.IH [of i' "j - 1" s'] Cons.prems ask rest show ?thesis by auto
  qed
qed simp

end

interpretation replay: once_guard accept_call "\<lambda>c. (sc_agent c, sc_timestamp c, sc_signature c)"
  "\<lambda>file (agent, ts, sig). remembers file agent ts sig"
  rewrites "once_guard.ask_all accept_call = accept_all"
proof -
  show guard: "once_guard accept_call (\<lambda>c. (sc_agent c, sc_timestamp c, sc_signature c))
    (\<lambda>file (agent, ts, sig). remembers file agent ts sig)"
    by unfold_locales
       (auto simp: accept_call_def accept_once_remembers accept_once_keeps accept_once_refuses)
  have "once_guard.ask_all accept_call cs st = accept_all cs st" for cs st
    by (induction cs arbitrary: st) (simp_all add: once_guard.ask_all.simps [OF guard])
  then show "once_guard.ask_all accept_call = accept_all" by blast
qed

subsection \<open>What is signed is accepted\<close>

lemma parse_digits_append:
  "parse_digits neg acc (xs @ ys) =
     (case parse_digits neg acc xs of Inl err \<Rightarrow> Inl err | Inr a \<Rightarrow> parse_digits neg a ys)"
  by (induction xs arbitrary: acc) (simp_all add: Let_def)

lemma of_char_digit: "d < 10 \<Longrightarrow> (of_char (char_of (48 + d) :: char) :: int) = 48 + int d"
proof -
  assume "d < 10"
  then have "(of_char (char_of (48 + d) :: char) :: nat) = 48 + d" by simp
  then show ?thesis by (metis of_char_of of_nat_add of_nat_numeral of_nat_of_char)
qed

lemma parse_digits_show_nat: "int n \<le> i64_max \<Longrightarrow> parse_digits False 0 (show_nat n) = Inr (int n)"
proof (induction n rule: show_nat.induct)
  case (1 n)
  have digit: "parse_digits False acc [char_of (48 + d)] = Inr (acc * 10 + int d)"
    if "d < 10" "0 \<le> acc" "acc * 10 + int d \<le> i64_max" for acc d
    using that by (simp add: Let_def of_char_digit i64_min_def)
  show ?case
  proof (cases "n < 10")
    case True
    with 1 digit [of n 0] show ?thesis by (simp add: show_nat.simps [of n])
  next
    case False
    have "int (n div 10) \<le> i64_max" "int (n div 10) * 10 + int (n mod 10) = int n"
      using 1(2) by (simp add: i64_max_def) (simp add: zdiv_int zmod_int)
    with False 1 digit [of "n mod 10" "int (n div 10)"] show ?thesis
      by (simp add: show_nat.simps [of n] parse_digits_append)
  qed
qed

lemma hd_show_nat: "\<exists>(d::nat) cs. d < 10 \<and> show_nat n = char_of (48 + d) # cs"
proof (induction n rule: show_nat.induct)
  case (1 n)
  show ?case
  proof (cases "n < 10")
    case True
    then show ?thesis by (auto simp: show_nat.simps [of n])
  next
    case False
    with 1 obtain d :: nat and cs where "d < 10" "show_nat (n div 10) = char_of (48 + d) # cs" by blast
    with False show ?thesis by (auto simp: show_nat.simps [of n])
  qed
qed

lemma digit_not_sign: "d < 10 \<Longrightarrow> char_of (48 + d) \<noteq> CHR ''+'' \<and> char_of (48 + d) \<noteq> CHR ''-''"
  for d :: nat
proof -
  assume "d < 10"
  then have "(of_char (char_of (48 + d) :: char) :: nat) = 48 + d" by simp
  moreover have "(of_char CHR ''+'' :: nat) = 43" "(of_char CHR ''-'' :: nat) = 45" by simp_all
  ultimately have "(of_char (char_of (48 + d) :: char) :: nat) \<noteq> of_char CHR ''+''"
    "(of_char (char_of (48 + d) :: char) :: nat) \<noteq> of_char CHR ''-''" by linarith+
  then show ?thesis by metis
qed

lemma parse_show_timestamp: "int n \<le> i64_max \<Longrightarrow> parse_i64 (show_int (int n)) = Inr (int n)"
proof -
  assume n: "int n \<le> i64_max"
  obtain d :: nat and cs where d: "d < 10" "show_nat n = char_of (48 + d) # cs" using hd_show_nat by blast
  from digit_not_sign [OF d(1)] d(2) parse_digits_show_nat [OF n] show ?thesis
    by (simp add: parse_i64_def show_int_def)
qed

subsection \<open>A request is authenticated at most once\<close>

text \<open>One authentication: what the caller sent and what the process could reach when it did.\<close>

record auth_call =
  av_mac :: mac_crates
  av_secret :: "string \<Rightarrow> (string, string) result"
  av_path :: "(string, string) result"
  av_lock :: "string option"
  av_fault :: "string option"
  av_headers :: "(string \<times> string) list"
  av_body :: string

definition authenticate_call :: "auth_call \<Rightarrow> replay_file \<Rightarrow> (string, string) result \<times> replay_file" where
  "authenticate_call c file =
     authenticate_agent (av_mac c) (av_secret c) (av_path c) (av_lock c) (av_fault c) (av_headers c)
       (av_body c) file"

fun authenticate_all :: "auth_call list \<Rightarrow> replay_file \<Rightarrow> (string, string) result list \<times> replay_file" where
  "authenticate_all [] file = ([], file)"
| "authenticate_all (c # cs) file =
     (case authenticate_call c file of (r, file') \<Rightarrow>
       (case authenticate_all cs file' of (rs, file'') \<Rightarrow> (r # rs, file'')))"

text \<open>The signed request a call carries: its agent, the instant its timestamp reads as, its signature.\<close>

definition signed_request ::
  "auth_call \<Rightarrow> (string, string) result \<times> (string, int) result \<times> (string, string) result" where
  "signed_request c =
     (header_text (av_headers c) AGENT_ID,
      case header_text (av_headers c) AGENT_TIMESTAMP of Inl err \<Rightarrow> Inl err | Inr ts \<Rightarrow> parse_i64 ts,
      header_text (av_headers c) AGENT_SIGNATURE)"

fun seen_request ::
  "replay_file \<Rightarrow> (string, string) result \<times> (string, int) result \<times> (string, string) result \<Rightarrow> bool" where
  "seen_request file (Inr agent, Inr ts, Inr sig) = remembers file agent ts sig"
| "seen_request file _ = False"

lemma authenticate_cases:
  assumes "authenticate_call c file = (r, file')"
  obtains (refused) err where "r = Inl err" "file' = file"
  | (recorded) agent ts sig answer where "signed_request c = (Inr agent, Inr ts, Inr sig)"
      "accept_once (av_path c) (av_lock c) (av_fault c) agent ts sig file = (answer, file')"
      "(\<exists>err. answer = Inl err \<and> r = Inl (''auth: '' @ err)) \<or> (answer = Inr () \<and> r = Inr agent)"
proof (cases "header_text (av_headers c) AGENT_ID")
  case agent: (Inr agent)
  show thesis
  proof (cases "header_text (av_headers c) AGENT_TIMESTAMP")
    case ts: (Inr ts)
    show thesis
    proof (cases "header_text (av_headers c) AGENT_SIGNATURE")
      case sig: (Inr sig)
      have sr: "parse_i64 ts = Inr t \<Longrightarrow> signed_request c = (Inr agent, Inr t, Inr sig)" for t
        by (simp add: signed_request_def agent ts sig)
      from assms agent ts sig show thesis
        by (auto simp: authenticate_call_def authenticate_agent_def split: sum.splits prod.splits
            intro: refused [OF sym] refused recorded [OF sr])
    qed (use assms agent ts in \<open>auto simp: authenticate_call_def authenticate_agent_def intro: refused [OF sym]\<close>)
  qed (use assms agent in \<open>auto simp: authenticate_call_def authenticate_agent_def intro: refused [OF sym]\<close>)
qed (use assms in \<open>auto simp: authenticate_call_def authenticate_agent_def intro: refused [OF sym]\<close>)

definition admitted :: "auth_call \<Rightarrow> replay_file \<Rightarrow> (string, unit) result \<times> replay_file" where
  "admitted c file = map_prod (map_sum (\<lambda>e. e) (\<lambda>_. ())) (\<lambda>f. f) (authenticate_call c file)"

lemma admitted_guard: "once_guard admitted signed_request seen_request"
proof (unfold_locales, goal_cases)
  case (1 c s s')
  then obtain agent where "authenticate_call c s = (Inr agent, s')"
    by (auto simp: admitted_def map_prod_def map_sum.simps split: prod.splits sum.splits) (metis Inl_Inr_False map_sum.simps(1) obj_sumE)
  then show ?case
    by (cases rule: authenticate_cases) (auto dest: accept_once_remembers)
next
  case (2 s k c)
  obtain r s' where step: "authenticate_call c s = (r, s')" by fastforce
  then have "snd (admitted c s) = s'" by (simp add: admitted_def)
  from step show ?case
  proof (cases rule: authenticate_cases)
    case (recorded agent ts sig answer)
    have "seen_request s' k" if "seen_request s k"
      using that accept_once_keeps [of s _ _ _ "av_path c" "av_lock c" "av_fault c" agent ts sig] recorded(2)
      by (cases "(s, k)" rule: seen_request.cases) auto
    with 2 \<open>snd (admitted c s) = s'\<close> show ?thesis by simp
  qed (use 2 \<open>snd (admitted c s) = s'\<close> in simp)
next
  case (3 s c)
  obtain r s' where step: "authenticate_call c s = (r, s')" by fastforce
  then show ?case
  proof (cases rule: authenticate_cases)
    case (recorded agent ts sig answer)
    with 3 accept_once_refuses [of s agent ts sig] step show ?thesis
      by (auto simp: admitted_def) (metis fst_conv)
  qed (simp add: admitted_def step)
qed

interpretation admit: once_guard admitted signed_request seen_request
  by (rule admitted_guard)

lemma authenticate_all_admitted:
  "fst (admit.ask_all cs file) = map (map_sum (\<lambda>e. e) (\<lambda>_. ())) (fst (authenticate_all cs file))"
  by (induction cs arbitrary: "file")
     (auto simp: admitted_def split: prod.splits, metis fst_conv)

lemma length_authenticate_all [simp]: "length (fst (authenticate_all cs file)) = length cs"
  using admit.length_ask_all [of cs "file"] by (simp add: authenticate_all_admitted)

text \<open>
  C4. In any sequence of authentications against one replay record, through lock failures, failed
  writes and forgeries between them, a signed request (its agent, the instant its timestamp reads as, its
  signature) is admitted at most once: a second copy is refused, whatever body it carries and however its
  timestamp is spelled.
\<close>

theorem authenticated_at_most_once:
  assumes "i < j" and "j < length calls" and "signed_request (calls ! i) = signed_request (calls ! j)"
    and "fst (authenticate_all calls file) ! i = Inr agent"
  shows "\<exists>err. fst (authenticate_all calls file) ! j = Inl err"
proof -
  have nth: "fst (admit.ask_all calls file) ! n = map_sum (\<lambda>e. e) (\<lambda>_. ()) (fst (authenticate_all calls file) ! n)"
    if "n < length calls" for n
    using that by (simp add: authenticate_all_admitted)
  from admit.accepted_once [OF assms(1-3), of "file"] assms nth [of i] nth [of j]
  show ?thesis by (cases "fst (authenticate_all calls file) ! j") simp_all
qed

definition plain_mac :: mac_crates where
  "plain_mac = \<lparr>sha256_hex = (\<lambda>b. ''00''), hmac_sha256_hex = (\<lambda>k m. Inr ''c0de'')\<rparr>"

definition plain_call :: auth_call where
  "plain_call =
     \<lparr>av_mac = plain_mac, av_secret = (\<lambda>_. Inr ''k''), av_path = Inr ''replay.json'', av_lock = None,
      av_fault = None,
      av_headers = [(AGENT_ID, ''a''), (AGENT_TIMESTAMP, ''7''), (AGENT_SIGNATURE, ''c0de'')], av_body = []\<rparr>"

lemmas plain_call_evaluates = plain_call_def plain_mac_def authenticate_call_def authenticate_agent_def
  header_text_def visible_ascii_def AGENT_ID_def AGENT_TIMESTAMP_def AGENT_SIGNATURE_def
  verify_agent_hmac_def parse_i64_def compute_signature_def accept_once_def accepted_default_def
  i64_max_def i64_min_def

theorem authenticated_at_most_once_witness:
  "fst (authenticate_all [plain_call, plain_call] RAbsent) ! 0 = Inr ''a''
   \<and> (\<exists>err. fst (authenticate_all [plain_call, plain_call] RAbsent) ! 1 = Inl err)"
proof -
  obtain file' where "authenticate_call plain_call RAbsent = (Inr ''a'', file')"
    by (simp add: plain_call_evaluates Let_def)
  then have first: "fst (authenticate_all [plain_call, plain_call] RAbsent) ! 0 = Inr ''a''"
    by (simp split: prod.splits)
  from authenticated_at_most_once [of 0 1 "[plain_call, plain_call]" RAbsent "''a''"] first
  show ?thesis by simp
qed

lemma visible_show_nat: "list_all visible_ascii (show_nat n)"
proof (induction n rule: show_nat.induct)
  case (1 n)
  have digit: "visible_ascii (char_of (48 + d))" if "d < 10" for d :: nat
    using that by (simp add: visible_ascii_def)
  show ?case
  proof (cases "n < 10")
    case True
    then show ?thesis by (simp add: show_nat.simps [of n] digit)
  next
    case False
    with 1 show ?thesis by (simp add: show_nat.simps [of n] digit)
  qed
qed

definition accepts_after :: "replay_file \<Rightarrow> string \<Rightarrow> int \<Rightarrow> bool" where
  "accepts_after file agent ts =
     (case file of
        RAbsent \<Rightarrow> True
      | RRecord m \<Rightarrow> (case bt_get m agent of None \<Rightarrow> True | Some a \<Rightarrow> ac_timestamp a < ts)
      | _ \<Rightarrow> False)"

text \<open>
  What \<open>agent_headers\<close> signs the gateway admits: for a clock within a timestamp's range, an agent
  id a header can carry, a keyed hash that answers visible text, the agent's own secret, a reachable
  replay record and no request of that agent accepted at this instant or later, the three headers
  authenticate exactly the agent that signed, on the body that was signed, and are remembered.
\<close>

theorem signed_headers_authenticate:
  assumes "agent_headers M (Inr secs) agent body secret = Inr headers"
    and "agent \<noteq> []" and "list_all visible_ascii agent"
    and "\<And>k m sig. hmac_sha256_hex M k m = Inr sig \<Longrightarrow> sig \<noteq> [] \<and> list_all visible_ascii sig"
    and "secret_of agent = Inr secret" and "accepts_after file agent (int secs)"
  shows "\<exists>file'. authenticate_agent M secret_of (Inr path) None None headers body file = (Inr agent, file')
    \<and> \<not> accepts_after file' agent (int secs)"
proof -
  from assms(1) obtain sig where secs: "int secs \<le> i64_max"
    and sig: "compute_signature M agent (int secs) body secret = Inr sig"
    and headers: "headers = [(AGENT_ID, agent), (AGENT_TIMESTAMP, show_int (int secs)), (AGENT_SIGNATURE, sig)]"
    by (auto simp: agent_headers_def split: if_splits sum.splits)
  have sig_text: "sig \<noteq> []" "list_all visible_ascii sig"
    using sig assms(4) by (auto simp: compute_signature_def split: sum.splits)
  have ts: "show_int (int secs) \<noteq> []" "list_all visible_ascii (show_int (int secs))"
    by (simp_all add: show_int_def visible_show_nat)
  have read: "header_text headers AGENT_ID = Inr agent"
    "header_text headers AGENT_TIMESTAMP = Inr (show_int (int secs))" "header_text headers AGENT_SIGNATURE = Inr sig"
    using assms(2,3) sig_text ts
    by (simp_all add: headers header_text_def AGENT_ID_def AGENT_TIMESTAMP_def AGENT_SIGNATURE_def)
  have verified: "verify_agent_hmac M \<lparr>hh_agent_id = agent, hh_timestamp = show_int (int secs), hh_signature = sig\<rparr>
      body secret = Inr ()"
    using assms(2) sig_text(1) ts(1) sig by (simp add: verify_agent_hmac_def parse_show_timestamp [OF secs])
  obtain file' where accepted: "accept_once (Inr path) None None agent (int secs) sig file = (Inr (), file')"
    using assms(6)
    by (auto simp: accepts_after_def accept_once_def accepted_default_def Let_def
        split: replay_file.splits option.splits)
  have "\<not> accepts_after file' agent (int secs)"
    using accept_once_remembers [OF accepted]
    by (auto simp: remembers_def accepts_after_def split: replay_file.splits option.splits)
  moreover have "authenticate_agent M secret_of (Inr path) None None headers body file = (Inr agent, file')"
    by (simp add: authenticate_agent_def read assms(5) verified parse_show_timestamp [OF secs] accepted)
  ultimately show ?thesis by blast
qed

theorem signed_headers_authenticate_witness:
  "\<exists>file'. authenticate_agent plain_mac (\<lambda>_. Inr ''k'') (Inr ''replay.json'') None None
       [(AGENT_ID, ''a''), (AGENT_TIMESTAMP, show_int (int 7)), (AGENT_SIGNATURE, ''c0de'')] ''body'' RAbsent
     = (Inr ''a'', file') \<and> \<not> accepts_after file' ''a'' (int 7)"
  by (rule signed_headers_authenticate [where secret = "''k''"])
     (simp_all add: agent_headers_def compute_signature_def plain_mac_def visible_ascii_def accepts_after_def
       i64_max_def)

end
