(* ===== verification/Request_Sizing.thy ===== *)
theory Request_Sizing
  imports Provider_Registry Samples
begin

section \<open>The published snapshot and the size of a request\<close>

text \<open>
  \<open>src/src/subscription_dispatch/dispatch/catalogue/cache/routing.rs\<close>: routing reads the last published
  discovery, never joins one, and sizes a request from it. The discovery a refresh publishes is its
  argument here; the walk that makes it is in another theory.
\<close>

subsection \<open>The snapshot\<close>

type_synonym output_limits = "string \<rightharpoonup> (string \<rightharpoonup> 64 word option)"

record published =
  pub_result :: "(refusal, registry_model list) result"
  pub_output_limits :: output_limits

record snapshot =
  sn_published :: "published option"
  sn_refreshing :: bool

text \<open>\<open>output_limits.entry(provider).or_default().entry(model).or_insert(limit)\<close>: the first row wins.\<close>

definition add_limit :: "output_limits \<Rightarrow> registry_model \<Rightarrow> output_limits" where
  "add_limit limits m =
     (let models = (case limits (rm_provider_id m) of None \<Rightarrow> (\<lambda>_. None) | Some ms \<Rightarrow> ms)
      in limits(rm_provider_id m \<mapsto>
           (case models (rm_model_id m) of
              Some _ \<Rightarrow> models
            | None \<Rightarrow> models(rm_model_id m \<mapsto> rm_max_output_tokens m))))"

definition publish :: "(refusal, registry_model list) result \<Rightarrow> snapshot \<Rightarrow> snapshot" where
  "publish discovered sn =
     sn\<lparr>sn_published := Some
          \<lparr>pub_result = discovered,
           pub_output_limits =
             (case discovered of Inl _ \<Rightarrow> (\<lambda>_. None) | Inr models \<Rightarrow> foldl add_limit (\<lambda>_. None) models)\<rparr>,
        sn_refreshing := False\<rparr>"

text \<open>\<open>models\<close>: the answer, whether a background refresh was started, and the snapshot left.\<close>

definition snapshot_models ::
  "subscription_entry list \<Rightarrow> snapshot \<Rightarrow> (refusal, registry_model list) result \<times> bool \<times> snapshot" where
  "snapshot_models entries sn =
     (if entries = []
      then (Inl (gateway GSubscriptionUnavailable ''the subscription inventory contains no active member''), False, sn)
      else ((case sn_published sn of
               Some p \<Rightarrow> pub_result p
             | None \<Rightarrow> Inl (gateway GDependencyUnavailable
                 (''subscription model discovery has not completed; operation: '' @
                  ''discover native provider models''))),
            \<not> sn_refreshing sn, sn\<lparr>sn_refreshing := True\<rparr>))"

subsection \<open>Sizing\<close>

text \<open>The derived \<open>Debug\<close> of a class.\<close>

fun debug_gateway :: "gateway_refusal \<Rightarrow> string" where
  "debug_gateway GUnauthenticated = ''Unauthenticated''"
| "debug_gateway GInvalidRequest = ''InvalidRequest''"
| "debug_gateway GDependencyUnavailable = ''DependencyUnavailable''"
| "debug_gateway GProviderFailure = ''ProviderFailure''"
| "debug_gateway GCredentialUnauthorized = ''CredentialUnauthorized''"
| "debug_gateway GSubscriptionReauthorizationRequired = ''SubscriptionReauthorizationRequired''"
| "debug_gateway GSubscriptionUnavailable = ''SubscriptionUnavailable''"

fun debug_class :: "provider_refusal \<Rightarrow> string" where
  "debug_class RateLimited = ''RateLimited''"
| "debug_class QuotaExhausted = ''QuotaExhausted''"
| "debug_class Authentication = ''Authentication''"
| "debug_class DependencyUnavailable = ''DependencyUnavailable''"
| "debug_class ContextLengthExceeded = ''ContextLengthExceeded''"
| "debug_class ProviderFailure = ''ProviderFailure''"
| "debug_class (Gateway g) = ''Gateway('' @ debug_gateway g @ '')''"

definition discovered_max_output_tokens ::
  "snapshot \<Rightarrow> string \<Rightarrow> string \<Rightarrow> (string, 64 word option) result" where
  "discovered_max_output_tokens sn provider_id model_id =
     (case sn_published sn of
        None \<Rightarrow> Inl (''cannot size '' @ provider_id @ ''/'' @ model_id @
          '': subscription model discovery has not completed; operation: discover native provider models'')
      | Some p \<Rightarrow>
          (case pub_result p of
             Inl rf \<Rightarrow> Inl (''cannot size '' @ provider_id @ ''/'' @ model_id @ '': model discovery failed ('' @
               debug_class (rf_class rf) @ ''): '' @ rf_message rf)
           | Inr _ \<Rightarrow>
               Inr (Option.bind (Option.bind (pub_output_limits p provider_id) (\<lambda>models. models model_id))
                      (\<lambda>limit. limit))))"

definition u32_max :: nat where
  "u32_max = 2 ^ 32 - 1"

text \<open>The request with the limit written in, or the refusal that no request can carry it.\<close>

definition carry_limit :: "model_request \<Rightarrow> string \<Rightarrow> 64 word \<Rightarrow> (model_response, model_request) result" where
  "carry_limit request route_name limit =
     (if unat limit \<le> u32_max then Inr (request\<lparr>rq_max_tokens := Some (ucast limit)\<rparr>)
      else Inl (refused_answer (rq_model request) GDependencyUnavailable
        (route_name @ '': the stated output limit of '' @ show_nat (unat limit) @
         '' tokens is more than a request can carry: out of range integral type conversion attempted'')))"

definition sized_request ::
  "(string, json) result \<Rightarrow> snapshot \<Rightarrow> model_request \<Rightarrow> (model_response, model_request) result" where
  "sized_request document sn request =
     (if rq_max_tokens request \<noteq> None then Inr request
      else (case registry_route (rq_model request) of
              None \<Rightarrow> Inr request
            | Some (d, model_id) \<Rightarrow>
                (if \<not> requires_output_limit (pd_wire d) then Inr request
                 else (let name = pd_id d @ ''/'' @ model_id;
                           listed = discovered_max_output_tokens sn (pd_id d) model_id
                       in (case listed of
                             Inr (Some limit) \<Rightarrow> carry_limit request name limit
                           | _ \<Rightarrow>
                               (case known_max_output_tokens document (pd_id d) model_id of
                                  Inr (Some limit) \<Rightarrow> carry_limit request name limit
                                | Inr None \<Rightarrow>
                                    Inl (refused_answer (rq_model request) GInvalidRequest
                                      (name @ '': this wire requires max_tokens and the request set none; '' @
                                       (case listed of
                                          Inr _ \<Rightarrow> ''the provider's listing states no output limit for it''
                                        | Inl cause \<Rightarrow> cause) @
                                       '', and this build's model table holds no limit for it, so set max_tokens''))
                                | Inl table \<Rightarrow>
                                    Inl (refused_answer (rq_model request) GDependencyUnavailable
                                      (''cannot size '' @ name @ '': '' @ table))))))))"

subsection \<open>What sizing promises\<close>

lemma carry_limit_Inl: "carry_limit request name limit = Inl refused \<Longrightarrow> \<not> success refused"
  by (auto simp: carry_limit_def response_defs split: if_splits)

lemma carry_limit_Inr:
  "carry_limit request name limit = Inr r \<Longrightarrow>
     \<exists>n. r = request\<lparr>rq_max_tokens := Some n\<rparr> \<and> unat n = unat limit"
  by (auto simp: carry_limit_def u32_max_def unsigned_ucast_eq take_bit_nat_eq_self split: if_splits)

lemma sized_request_refusal: "sized_request document sn request = Inl refused \<Longrightarrow> \<not> success refused"
  by (auto simp: sized_request_def Let_def refused_answer_def failure_answer_def from_refusal_def success_def
      dest: carry_limit_Inl [unfolded success_def] split: if_splits option.splits sum.splits prod.splits)

lemma sized_request_target:
  assumes "sized_request document sn request = Inr r"
  shows "rq_billing_target r = rq_billing_target request" and "rq_model r = rq_model request"
proof -
  have "r = request \<or> (\<exists>n. r = request\<lparr>rq_max_tokens := Some n\<rparr>)"
    using assms
    by (auto simp: sized_request_def carry_limit_def Let_def split: if_splits option.splits sum.splits prod.splits)
  then show "rq_billing_target r = rq_billing_target request" and "rq_model r = rq_model request" by auto
qed

text \<open>
  A request on a wire that requires an answer length is either sent with one or refused, never sent
  without: the caller's own length is kept as it is; otherwise the length the provider's published listing
  states decides, and only without one the length this build's table states; nothing else of the
  request changes; a length above 32 bits is refused, not truncated. On other wires the request
  is sent as it came.
\<close>

theorem sized_or_refused:
  "case sized_request document sn request of
     Inl refused \<Rightarrow> \<not> success refused \<and> rq_max_tokens request = None
   | Inr r \<Rightarrow>
       (if rq_max_tokens request \<noteq> None then r = request
        else (case registry_route (rq_model request) of
                None \<Rightarrow> r = request
              | Some (d, m) \<Rightarrow>
                  (if pd_wire d \<noteq> AnthropicMessages then r = request
                   else (\<exists>limit n. r = request\<lparr>rq_max_tokens := Some n\<rparr> \<and> unat n = unat limit \<and>
                          (case discovered_max_output_tokens sn (pd_id d) m of
                             Inr (Some listed) \<Rightarrow> limit = listed
                           | _ \<Rightarrow> known_max_output_tokens document (pd_id d) m = Inr (Some limit))))))"
proof (cases "rq_max_tokens request")
  case (Some n)
  then show ?thesis by (simp add: sized_request_def)
next
  case no_limit: None
  show ?thesis
  proof (cases "registry_route (rq_model request)")
    case None
    with no_limit show ?thesis by (simp add: sized_request_def)
  next
    case (Some dm)
    obtain d m where dm: "dm = (d, m)" by (cases dm)
    show ?thesis
    proof (cases "pd_wire d = AnthropicMessages")
      case False
      with no_limit Some dm show ?thesis by (simp add: sized_request_def requires_output_limit_def)
    next
      case True
      note setting = no_limit Some dm True
      show ?thesis
      proof (cases "\<exists>listed. discovered_max_output_tokens sn (pd_id d) m = Inr (Some listed)")
        case True
        then obtain listed where "discovered_max_output_tokens sn (pd_id d) m = Inr (Some listed)" by blast
        with setting show ?thesis
          by (auto simp: sized_request_def requires_output_limit_def Let_def
              dest: carry_limit_Inl carry_limit_Inr split: sum.splits)
      next
        case False
        with setting show ?thesis
          by (auto simp: sized_request_def requires_output_limit_def Let_def refused_answer_def
              failure_answer_def from_refusal_def success_def dest: carry_limit_Inl [unfolded success_def] carry_limit_Inr
              split: sum.splits option.splits)
      qed
    qed
  qed
qed

end
