(* ===== verification/Reset_Settings.thy ===== *)
theory Reset_Settings
  imports Declarations
begin

section \<open>The operator's saved-reset policy\<close>

text \<open>
  \<open>src/src/subscription_dispatch/acquire/resets/settings.rs\<close>: when a saved reset of a provider may be spent
  without the operator. The file is what reading it yields; what the lock beside it and the replacement
  answer one call is its \<open>policy_env\<close>.
\<close>

record reset_policy =
  pl_keep_credits :: "64 word"
  pl_min_blocked_minutes :: "64 word"
  pl_salvage_horizon_hours :: "64 word"
  pl_reason :: string
  pl_stated_at :: string

datatype policy_file =
    PolicyNoPath string
  | PolicyAbsent
  | PolicyUnreadable string
  | PolicyUndecodable string
  | Policies "(string, reset_policy) btmap"

datatype lock_answer = Locked | NoLockDirectory string string | LockNotOpened string | LockTaken string

datatype replace_answer = Replaced | NotStaged string | NotRenamed string

record policy_env =
  pe_path :: string
  pe_staged :: string
  pe_lock_path :: string
  pe_lock :: lock_answer
  pe_replace :: replace_answer

definition policy_lock :: "policy_env \<Rightarrow> string \<Rightarrow> policy_file \<Rightarrow> (string, unit) result" where
  "policy_lock E provider file = (case file of
       PolicyNoPath cause \<Rightarrow> Inl cause
     | _ \<Rightarrow> (case pe_lock E of
               Locked \<Rightarrow> Inr ()
             | NoLockDirectory parent err \<Rightarrow>
                 Inl (''create saved-reset policy directory '' @ parent @ '': '' @ err)
             | LockNotOpened err \<Rightarrow>
                 Inl (''open saved-reset policy lock '' @ pe_lock_path E @ '' for '' @ provider @ '': '' @ err)
             | LockTaken err \<Rightarrow>
                 Inl (''saved-reset policy mutation for '' @ provider @ '' cannot acquire exclusive lock '' @
                      pe_lock_path E @ '': '' @ err)))"

definition all_policies :: "policy_env \<Rightarrow> policy_file \<Rightarrow> (string, (string, reset_policy) btmap) result" where
  "all_policies E file = (case file of
       PolicyNoPath cause \<Rightarrow> Inl cause
     | Policies ps \<Rightarrow> Inr ps
     | PolicyUndecodable err \<Rightarrow>
         Inl (''decode saved-reset policy '' @ pe_path E @ '': '' @ err @
              ''; the existing policy was not replaced'')
     | PolicyAbsent \<Rightarrow> Inr []
     | PolicyUnreadable err \<Rightarrow>
         Inl (''the saved-reset policy in '' @ pe_path E @ '' cannot be read: '' @ err))"

definition policy_for_provider :: "policy_env \<Rightarrow> string \<Rightarrow> policy_file \<Rightarrow> (string, reset_policy) result" where
  "policy_for_provider E provider file =
     (case all_policies E file of
        Inl err \<Rightarrow> Inl err
      | Inr ps \<Rightarrow>
          (case bt_get ps provider of
             Some p \<Rightarrow> Inr p
           | None \<Rightarrow> Inl (''the operator has stated no saved-reset policy for '' @ provider @
               '', so no reset is redeemed automatically; `brama subscription policy set '' @ provider @
               '' --keep-credits N --min-blocked-minutes N --salvage-horizon-hours N --reason TEXT` '' @
               ''records his settings on the gateway that holds the pool (Brama Desktop: Saved resets)'')))"

definition write_policies ::
  "policy_env \<Rightarrow> (string, reset_policy) btmap \<Rightarrow> policy_file \<Rightarrow> (string, unit) result \<times> policy_file" where
  "write_policies E ps file = (case file of
       PolicyNoPath cause \<Rightarrow> (Inl cause, file)
     | _ \<Rightarrow> (case pe_replace E of
               NotStaged err \<Rightarrow>
                 (Inl (''the saved-reset policy cannot be written: '' @ pe_staged E @ '': '' @ err), file)
             | NotRenamed err \<Rightarrow>
                 (Inl (''the saved-reset policy cannot be written: rename '' @ pe_staged E @ '' to '' @
                       pe_path E @ '': '' @ err), file)
             | Replaced \<Rightarrow> (Inr (), Policies ps)))"

definition set_policy ::
  "policy_env \<Rightarrow> string \<Rightarrow> reset_policy \<Rightarrow> policy_file \<Rightarrow> (string, reset_policy) result \<times> policy_file" where
  "set_policy E provider policy file =
     (case declared_provider provider of
        Inl err \<Rightarrow> (Inl err, file)
      | Inr d \<Rightarrow>
          (if pd_resets d = None
           then (Inl (''provider '' @ provider @
                   '' declares no saved-reset report, so it has no reset policy to state''), file)
           else if trim (pl_reason policy) = []
           then (Inl ''--reason must say why this saved-reset policy is stated'', file)
           else (case policy_lock E provider file of
                   Inl err \<Rightarrow> (Inl err, file)
                 | Inr _ \<Rightarrow>
                     (case all_policies E file of
                        Inl err \<Rightarrow> (Inl err, file)
                      | Inr ps \<Rightarrow>
                          (case write_policies E (bt_insert provider policy ps) file of
                             (Inl err, file') \<Rightarrow> (Inl err, file')
                           | (Inr _, file') \<Rightarrow> (Inr policy, file'))))))"

definition clear_policy ::
  "policy_env \<Rightarrow> string \<Rightarrow> policy_file \<Rightarrow> (string, reset_policy) result \<times> policy_file" where
  "clear_policy E provider file =
     (case policy_lock E provider file of
        Inl err \<Rightarrow> (Inl err, file)
      | Inr _ \<Rightarrow>
          (case all_policies E file of
             Inl err \<Rightarrow> (Inl err, file)
           | Inr ps \<Rightarrow>
               (case bt_get ps provider of
                  None \<Rightarrow> (Inl (''no saved-reset policy is stated for '' @ provider @
                            ''; `brama subscription policy show` lists every stated one''), file)
                | Some removed \<Rightarrow>
                    (case write_policies E (bt_remove provider ps) file of
                       (Inl err, file') \<Rightarrow> (Inl err, file')
                     | (Inr _, file') \<Rightarrow> (Inr removed, file')))))"

subsection \<open>What was stated is what is read\<close>

definition stated_policy :: "policy_file \<Rightarrow> string \<Rightarrow> reset_policy option" where
  "stated_policy file provider = (case file of Policies ps \<Rightarrow> bt_get ps provider | _ \<Rightarrow> None)"

lemma write_policies_cases:
  "write_policies E ps file = (Inr u, file') \<Longrightarrow> file' = Policies ps"
  "write_policies E ps file = (Inl err, file') \<Longrightarrow> file' = file"
  by (auto simp: write_policies_def split: policy_file.splits replace_answer.splits)

lemma all_policies_stated: "all_policies E file = Inr ps \<Longrightarrow> stated_policy file provider = bt_get ps provider"
  by (auto simp: all_policies_def stated_policy_def split: policy_file.splits)

text \<open>
  A policy the operator states is the one every later reading answers, and one he clears is refused by name;
  neither touches another provider's, and a call that fails leaves the file as it was, an unreadable or
  undecodable one included.
\<close>

lemma set_policy_cases:
  assumes "set_policy E provider policy file = (r, file')"
  obtains (stated) ps where "r = Inr policy" "all_policies E file = Inr ps"
      "file' = Policies (bt_insert provider policy ps)"
  | (refused) err where "r = Inl err" "file' = file"
  using assms
  by (auto simp: set_policy_def split: sum.splits if_splits prod.splits dest: write_policies_cases)

lemma clear_policy_cases:
  assumes "clear_policy E provider file = (r, file')"
  obtains (cleared) ps p where "r = Inr p" "all_policies E file = Inr ps" "bt_get ps provider = Some p"
      "file' = Policies (bt_remove provider ps)"
  | (refused) err where "r = Inl err" "file' = file"
  using assms
  by (auto simp: clear_policy_def split: sum.splits option.splits prod.splits dest: write_policies_cases)

theorem stated_policy_is_read_back:
  assumes "set_policy E provider policy file = (r, file')"
  shows "(r = Inr policy \<and> policy_for_provider E' provider file' = Inr policy
            \<and> (\<forall>other. other \<noteq> provider \<longrightarrow> stated_policy file' other = stated_policy file other))
         \<or> ((\<exists>err. r = Inl err) \<and> file' = file)"
  using assms
proof (cases rule: set_policy_cases)
  case (stated ps)
  then show ?thesis
    using all_policies_stated [OF stated(2)]
    by (simp add: policy_for_provider_def all_policies_def stated_policy_def bt_get_insert)
qed simp

end
