(* ===== verification/Rotation.thy ===== *)
theory Rotation
  imports Ranking Pool_Refusal Replay Request_Sizing Leases Reset_Settings
begin

section \<open>Rotation across the bounded credential pool\<close>

text \<open>
  \<open>src/src/subscription_dispatch/dispatch/rotation/\<close> (\<open>mod.rs\<close>, \<open>roster.rs\<close>, \<open>buffered.rs\<close>,
  \<open>streaming.rs\<close>), \<open>credential/eligibility.rs\<close>, \<open>credential/auth_failure.rs\<close> and \<open>routed_stream.rs\<close>:
  one route walked across the accounts an agent may be billed to. What the walk reads and writes in
  this process is the record \<open>world\<close>; everything beyond it (the vault, the provider, the inventory
  refresh, other requests that run while this one waits) is an operation of the record \<open>api\<close>, a
  transformer of the world. The clock is a stream of readings, consumed one per \<open>now_ms()\<close>, so two
  readings of one walk may differ; the monotonic clock is a second stream. \<open>wk_asked\<close> is a history variable: the credentials presented to
  the provider, in order.
\<close>

subsection \<open>The world a walk runs in\<close>

record world =
  w_ledger :: ledger
  w_journal :: journal
  w_pins :: pins
  w_draws :: draws
  w_clock :: "nat \<Rightarrow> instant"
  w_tick :: nat
  w_appends :: "nat \<Rightarrow> append_answer \<times> string"
  w_append_tick :: nat
  w_served :: "(string \<times> string) list"
  w_replay :: replay_file
  w_snapshot :: snapshot
  w_models_cache :: "string \<rightharpoonup> (nat \<times> registry_model list)"
  w_failures_cache :: "string \<rightharpoonup> (nat \<times> refusal)"
  w_instants :: "nat \<Rightarrow> nat"
  w_instant_tick :: nat
  w_register :: register_file
  w_policies :: policy_file

record provider_stream =
  ps_limits :: "limit_reading list"
  ps_stream_id :: nat

record 'f api =
  api_routing :: "string \<Rightarrow> world \<Rightarrow> (string, subscription_entry list) result \<times> world"
  api_redeem :: "string \<Rightarrow> string \<Rightarrow> world \<Rightarrow> ('f, string) result \<times> world"
  api_refresh :: "string \<Rightarrow> string \<Rightarrow> world \<Rightarrow> ('f, string) result \<times> world"
  api_dispatch :: "model_request \<Rightarrow> string \<Rightarrow> string \<Rightarrow> world \<Rightarrow> model_response \<times> world"
  api_dispatch_stream ::
    "model_request \<Rightarrow> string \<Rightarrow> string \<Rightarrow> world \<Rightarrow> (model_response, provider_stream) result \<times> world"
  api_utf8 :: "string \<Rightarrow> (string, string) result"
  api_model_table :: "(string, json) result"
  api_sign_in_sentence :: "world \<Rightarrow> string \<Rightarrow> string"
  api_codec :: json_codec
  api_discover :: "string \<Rightarrow> string \<Rightarrow> string \<Rightarrow> world \<Rightarrow> (string, registry_model list) result \<times> world"
  api_model_age :: "(string, nat option) result"
  api_failure_age :: "(string, nat option) result"
  api_observed_failure :: "world \<Rightarrow> string \<Rightarrow> (string \<times> string) option"
  api_lock_wait :: "string \<Rightarrow> world \<Rightarrow> world"
  api_refresh_routing :: "string \<Rightarrow> world \<Rightarrow> (string, subscription_entry list) result \<times> world"

definition now_ms :: "world \<Rightarrow> instant \<times> world" where
  "now_ms w = (w_clock w (w_tick w), w\<lparr>w_tick := Suc (w_tick w)\<rparr>)"

text \<open>A write of the ledger that reads the clock once.\<close>

definition ledger_write :: "(instant \<Rightarrow> ledger \<Rightarrow> ledger) \<Rightarrow> world \<Rightarrow> world" where
  "ledger_write f w = (case now_ms w of (now, w1) \<Rightarrow> w1\<lparr>w_ledger := f now (w_ledger w1)\<rparr>)"

definition note_call :: "string \<Rightarrow> string \<Rightarrow> model_response \<Rightarrow> world \<Rightarrow> world" where
  "note_call sid provider response w =
     (case now_ms w of (now, w1) \<Rightarrow>
       (case record_call sid provider response now (w_ledger w1) of (L, served) \<Rightarrow>
         w1\<lparr>w_ledger := L,
            w_served := w_served w1 @ (case served of Some s \<Rightarrow> [s] | None \<Rightarrow> [])\<rparr>))"

text \<open>\<open>broker::slug\<close> and \<open>broker::subscription_resource\<close>.\<close>

definition slug :: "string \<Rightarrow> string" where
  "slug v = map (\<lambda>c. if is_ascii_alphanumeric c then c else CHR ''-'') (map ascii_lower (trim v))"

definition subscription_resource :: "string \<Rightarrow> string \<Rightarrow> string" where
  "subscription_resource provider sid = ''provider:'' @ slug provider @ '':'' @ slug sid"

subsection \<open>The roster\<close>

definition target_misfit :: "billing_target \<Rightarrow> string \<Rightarrow> string option" where
  "target_misfit t provider =
     (if trim (bt_account_id t) = [] \<or> trim (bt_subscription_id t) = []
      then Some ''billingTarget accountId and subscriptionId are required''
      else if \<not> provider_matches (bt_provider_id t) provider
      then Some (''billingTarget provider '' @ [CHR 0x27] @ bt_provider_id t @ [CHR 0x27] @
             '' does not match model provider '' @ [CHR 0x27] @ provider @ [CHR 0x27])
      else None)"

fun eligible_rows ::
  "json_codec \<Rightarrow> journal \<Rightarrow> string \<Rightarrow> billing_target option \<Rightarrow> subscription_entry list \<Rightarrow>
   (string, subscription_entry list) result" where
  "eligible_rows J jn provider target [] = Inr []"
| "eligible_rows J jn provider target (e # es) =
     (if provider_matches (se_provider e) provider \<and> se_status e = ''active'' \<and>
         (case target of None \<Rightarrow> True | Some t \<Rightarrow> se_id e = bt_subscription_id t)
      then (case is_retired J jn (se_id e) of
              Inl err \<Rightarrow> Inl err
            | Inr retired \<Rightarrow>
                (case eligible_rows J jn provider target es of
                   Inl err \<Rightarrow> Inl err
                 | Inr rows \<Rightarrow> Inr (if retired then rows else e # rows)))
      else eligible_rows J jn provider target es)"

definition eligible_subscription_entries ::
  "json_codec \<Rightarrow> journal \<Rightarrow> subscription_entry list \<Rightarrow> string \<Rightarrow> billing_target option \<Rightarrow>
   (string, subscription_entry list) result" where
  "eligible_subscription_entries J jn entries provider target =
     (case Option.bind target (\<lambda>t. target_misfit t provider) of
        Some err \<Rightarrow> Inl err
      | None \<Rightarrow> eligible_rows J jn provider target entries)"

definition no_row_refusal :: "model_request \<Rightarrow> string \<Rightarrow> model_response" where
  "no_row_refusal request provider =
     refuse request GCredentialUnauthorized
       (case rq_billing_target request of
          Some t \<Rightarrow> ''selected credential '' @ [CHR 0x27] @ bt_subscription_id t @ [CHR 0x27] @
            '' is not active for provider '' @ [CHR 0x27] @ provider @ [CHR 0x27] @ '' and agent''
        | None \<Rightarrow> ''route '' @ rq_model request @ '': no live subscription; '' @
            no_active_credential_summary provider)"

text \<open>The eligible rows shuffled whole, sorted by headroom, the pin first, the blocked last.\<close>

definition arrange_rows ::
  "string \<Rightarrow> string \<Rightarrow> subscription_entry list \<Rightarrow> world \<Rightarrow> subscription_entry list \<times> world" where
  "arrange_rows provider agent shuffled w =
     (case now_ms w of (t1, w1) \<Rightarrow>
      (case now_ms w1 of (t2, w2) \<Rightarrow>
        (let sorted_rows = sort_by_key (\<lambda>e. headroom_of (w_ledger w2) (se_id e) t1) shuffled;
             (pinned, P) = apply_pin (w_ledger w2) t2 agent provider sorted_rows (w_pins w2)
         in (case now_ms (w2\<lparr>w_pins := P\<rparr>) of (t3, w3) \<Rightarrow>
               (filter (\<lambda>e. \<not> is_blocked (w_ledger w3) (se_id e) t3) pinned @
                filter (\<lambda>e. is_blocked (w_ledger w3) (se_id e) t3) pinned, w3)))))"

definition ordered_candidate_rows ::
  "'f api \<Rightarrow> string \<Rightarrow> string \<Rightarrow> model_request \<Rightarrow> world \<Rightarrow>
   ((model_response, subscription_entry list) result \<times> world) option" where
  "ordered_candidate_rows A provider agent request w =
     (case api_routing A agent w of
        (Inl err, w1) \<Rightarrow>
          Some (Inl (refuse request GDependencyUnavailable
            (''route '' @ rq_model request @ '': no live subscription; discovery failed: '' @ err)), w1)
      | (Inr entries, w1) \<Rightarrow>
          (case eligible_subscription_entries (api_codec A) (w_journal w1) entries provider
                  (rq_billing_target request) of
             Inl err \<Rightarrow> Some (Inl (refused_answer (rq_model request) GInvalidRequest err), w1)
           | Inr rows \<Rightarrow>
               (if rows = [] then Some (Inl (no_row_refusal request provider), w1)
                else (case shuffle_within_equal (\<lambda>_ _. True) rows (w_draws w1) of
                        None \<Rightarrow> None
                      | Some (Inl rf, ds) \<Rightarrow>
                          Some (Inl (refuse_as request (rf_class rf) (rf_message rf)), w1\<lparr>w_draws := ds\<rparr>)
                      | Some (Inr shuffled, ds) \<Rightarrow>
                          (case arrange_rows provider agent shuffled (w1\<lparr>w_draws := ds\<rparr>) of
                             (ordered, w2) \<Rightarrow> Some (Inr ordered, w2))))))"

subsection \<open>What one walk remembers\<close>

record 'f walk =
  wk_attempts :: "32 word"
  wk_credential_refusal :: "'f option"
  wk_seen :: pool_observations
  wk_rate_limit_failure :: "model_response option"
  wk_asked :: "string list"

definition walk_start :: "'f walk" where
  "walk_start =
     \<lparr>wk_attempts = 0, wk_credential_refusal = None,
      wk_seen = \<lparr>po_auth_rejection = False, po_reauthorization_block = False,
                 po_unredeemable_credential = False, po_rate_limit_block = False,
                 po_quota_exhausted_block = False, po_block_lifts_at_ms = None\<rparr>,
      wk_rate_limit_failure = None, wk_asked = []\<rparr>"

text \<open>\<open>earliest.into_iter().chain([until]).min()\<close>.\<close>

definition earlier :: "instant option \<Rightarrow> instant \<Rightarrow> instant option" where
  "earlier held until = Some (case held of None \<Rightarrow> until | Some t \<Rightarrow> min t until)"

definition note_block :: "string \<Rightarrow> 'f walk \<Rightarrow> world \<Rightarrow> 'f walk \<times> world" where
  "note_block sid wk w =
     (let reauthorization = needs_reauthorization (w_ledger w) sid;
          (spent, w1) =
            (if reauthorization then (False, w)
             else (case now_ms w of (now, w1) \<Rightarrow> (is_quota_exhausted (w_ledger w1) sid now, w1)));
          ob = wk_seen wk;
          ob1 = ob\<lparr>po_reauthorization_block := po_reauthorization_block ob \<or> reauthorization,
                   po_quota_exhausted_block := po_quota_exhausted_block ob \<or> spent,
                   po_rate_limit_block := po_rate_limit_block ob \<or> (\<not> reauthorization \<and> \<not> spent)\<rparr>
      in if \<not> reauthorization \<and> \<not> spent
         then (case now_ms w1 of (now, w2) \<Rightarrow>
                (case blocked_until_ms (w_ledger w2) sid now of
                   Some until \<Rightarrow>
                     (wk\<lparr>wk_seen := ob1\<lparr>po_block_lifts_at_ms := earlier (po_block_lifts_at_ms ob1) until\<rparr>\<rparr>, w2)
                 | None \<Rightarrow> (wk\<lparr>wk_seen := ob1\<rparr>, w2)))
         else (wk\<lparr>wk_seen := ob1\<rparr>, w1))"

definition credential_envelope :: "'f crates \<Rightarrow> string \<Rightarrow> string \<Rightarrow> string \<Rightarrow> 'f" where
  "credential_envelope K sid provider detail =
     with_context K
       (with_context K
         (envelope K POINT_CREDENTIAL_SELECTION (code_for ''credential_unauthorized'')
            IMPACT_MODEL_REQUEST detail) ''subscription'' sid) ''provider'' provider"

definition remember_refusal :: "'f crates \<Rightarrow> 'f \<Rightarrow> 'f walk \<Rightarrow> 'f walk" where
  "remember_refusal K f wk =
     wk\<lparr>wk_credential_refusal := remember_failure K (wk_credential_refusal wk) f\<rparr>"

definition unredeemable :: "'f walk \<Rightarrow> 'f walk" where
  "unredeemable wk = wk\<lparr>wk_seen := (wk_seen wk)\<lparr>po_unredeemable_credential := True\<rparr>\<rparr>"

text \<open>The vault's token for one row, or the walk that goes on without it.\<close>

definition redeem_row ::
  "'f crates \<Rightarrow> 'f api \<Rightarrow> string \<Rightarrow> string \<Rightarrow> 'f walk \<Rightarrow> world \<Rightarrow> ('f walk, string) result \<times> world" where
  "redeem_row K A provider sid wk w =
     (case api_redeem A sid provider w of
        (Inl f, w1) \<Rightarrow> (Inl (remember_refusal K f (unredeemable wk)), w1)
      | (Inr secret, w1) \<Rightarrow>
          (case api_utf8 A secret of
             Inr token \<Rightarrow> (Inr token, w1)
           | Inl err \<Rightarrow>
               (Inl (remember_refusal K
                  (credential_envelope K sid provider
                    (''subscription credential is not valid UTF-8: '' @ err)) (unredeemable wk)), w1)))"

definition asked :: "string \<Rightarrow> 'f walk \<Rightarrow> 'f walk" where
  "asked sid wk =
     wk\<lparr>wk_attempts := saturating_add (wk_attempts wk) 1, wk_asked := wk_asked wk @ [sid]\<rparr>"

text \<open>\<open>mark_credential_revoked\<close>: the journal first, then the ledger; its error is only logged.\<close>

definition mark_credential_revoked :: "'f api \<Rightarrow> string \<Rightarrow> string \<Rightarrow> string \<Rightarrow> world \<Rightarrow> world" where
  "mark_credential_revoked A sid provider cause w =
     (let (answer, at) = w_appends w (w_append_tick w);
          (recorded, jn) = retire (api_codec A) answer sid at (w_journal w);
          w1 = w\<lparr>w_append_tick := Suc (w_append_tick w), w_journal := jn\<rparr>
      in (case recorded of
            Inl _ \<Rightarrow> w1
          | Inr _ \<Rightarrow> ledger_write (record_credential_disabled sid provider cause) w1))"

definition pin_served :: "string \<Rightarrow> string \<Rightarrow> string \<Rightarrow> world \<Rightarrow> world" where
  "pin_served agent provider sid w =
     (case now_ms w of (t, w1) \<Rightarrow> w1\<lparr>w_pins := pin_credential agent provider sid (w_ledger w1) t (w_pins w1)\<rparr>)"

record 'a route_attempt =
  ra_opened :: "(model_response, 'a) result"
  ra_pool_emptied :: bool

datatype ('f, 'a) row_outcome =
    Continue "'f walk"
  | Return "(model_response, 'a) result"

definition FRESH_TOKEN_REFUSED :: string where
  "FRESH_TOKEN_REFUSED = ''the provider refused a token it had just issued''"

subsection \<open>One buffered row\<close>

definition buffered_call ::
  "'f api \<Rightarrow> string \<Rightarrow> string \<Rightarrow> model_request \<Rightarrow> string \<Rightarrow> 'f walk \<Rightarrow> world \<Rightarrow>
   model_response \<times> 'f walk \<times> world" where
  "buffered_call A provider sid request token wk w =
     (let wk1 = asked sid wk;
          (r, w1) = api_dispatch A request (subscription_resource provider sid) token w;
          result = r\<lparr>mr_attempts := wk_attempts wk1\<rparr>
      in (result, wk1, note_call sid provider result w1))"

text \<open>The one forced refresh after a credential refusal; the flag says a fresh token was refused too.\<close>

definition buffered_refresh ::
  "'f crates \<Rightarrow> 'f api \<Rightarrow> string \<Rightarrow> string \<Rightarrow> model_request \<Rightarrow> model_response \<Rightarrow> 'f walk \<Rightarrow> world \<Rightarrow>
   model_response \<times> bool \<times> 'f walk \<times> world" where
  "buffered_refresh K A provider sid request result wk w =
     (if \<not> refused_credential result then (result, False, wk, w)
      else (case api_refresh A sid provider w of
              (Inl f, w1) \<Rightarrow> (result, False, remember_refusal K f wk, w1)
            | (Inr fresh, w1) \<Rightarrow>
                (case api_utf8 A fresh of
                   Inl err \<Rightarrow>
                     (result, False,
                      remember_refusal K (credential_envelope K sid provider
                        (''refreshed credential is not valid UTF-8: '' @ err)) wk, w1)
                 | Inr token \<Rightarrow>
                     (case buffered_call A provider sid request token wk w1 of
                        (result2, wk2, w2) \<Rightarrow> (result2, refused_credential result2, wk2, w2)))))"

text \<open>What the answer of a row means for the walk; a success pins the account and ends it.\<close>

definition settle_row ::
  "'f crates \<Rightarrow> 'f api \<Rightarrow> string \<Rightarrow> string \<Rightarrow> refusal \<Rightarrow> model_response \<Rightarrow> bool \<Rightarrow> 'f walk \<Rightarrow> world \<Rightarrow>
   ('f, 'a) row_outcome \<times> world" where
  "settle_row K A provider sid rf result fresh_refused wk w =
     (let w1 = (if fresh_refused then mark_credential_revoked A sid provider FRESH_TOKEN_REFUSED w else w)
      in if refused_credential result
         then (Continue (wk\<lparr>wk_seen := (wk_seen wk)\<lparr>po_auth_rejection := True\<rparr>\<rparr>), w1)
         else if \<not> exhausted_credential result then (Return (Inl result), w1)
         else (Continue (wk\<lparr>wk_rate_limit_failure := Some result\<rparr>),
               ledger_write (record_block K sid provider rf (mr_limits result)) w1))"

definition buffered_row ::
  "'f crates \<Rightarrow> 'f api \<Rightarrow> string \<Rightarrow> string \<Rightarrow> model_request \<Rightarrow> string \<Rightarrow> 'f walk \<Rightarrow> world \<Rightarrow>
   ('f, model_response) row_outcome \<times> 'f walk \<times> world" where
  "buffered_row K A provider agent request sid wk w =
     (case now_ms w of (now, w1) \<Rightarrow>
       (if is_blocked (w_ledger w1) sid now
        then (case note_block sid wk w1 of (wk', w2) \<Rightarrow> (Continue wk', wk', w2))
        else (case redeem_row K A provider sid wk w1 of
                (Inl wk', w2) \<Rightarrow> (Continue wk', wk', w2)
              | (Inr token, w2) \<Rightarrow>
                  (case buffered_call A provider sid request token wk w2 of
                     (result1, wk1, w3) \<Rightarrow>
                       (case buffered_refresh K A provider sid request result1 wk1 w3 of
                          (result, fresh_refused, wk2, w4) \<Rightarrow>
                            (case mr_refusal result of
                               None \<Rightarrow> (Return (Inr result), wk2, pin_served agent provider sid w4)
                             | Some rf \<Rightarrow>
                                 (case settle_row K A provider sid rf result fresh_refused wk2 w4 of
                                    (out, w5) \<Rightarrow> (out, wk2, w5))))))))"

subsection \<open>The buffered walk\<close>

fun buffered_walk ::
  "'f crates \<Rightarrow> 'f api \<Rightarrow> string \<Rightarrow> string \<Rightarrow> model_request \<Rightarrow> subscription_entry list \<Rightarrow> 'f walk \<Rightarrow> world \<Rightarrow>
   (model_response, model_response) result option \<times> 'f walk \<times> world" where
  "buffered_walk K A provider agent request [] wk w = (None, wk, w)"
| "buffered_walk K A provider agent request (e # es) wk w =
     (case buffered_row K A provider agent request (se_id e) wk w of
        (Return r, wk', w') \<Rightarrow> (Some r, wk', w')
      | (Continue wk', _, w') \<Rightarrow> buffered_walk K A provider agent request es wk' w')"

definition walk_verdict ::
  "'f crates \<Rightarrow> 'f api \<Rightarrow> model_request \<Rightarrow> string \<Rightarrow> 'f walk \<Rightarrow> world \<Rightarrow> model_response" where
  "walk_verdict K A request provider wk w =
     emptied_pool_refusal K (api_sign_in_sentence A w) request provider (wk_attempts wk)
       (wk_credential_refusal wk) (wk_seen wk) (wk_rate_limit_failure wk)"

text \<open>The attempt with the credentials it asked; \<open>None\<close> while a draw is still awaited.\<close>

definition attempt_subscription ::
  "'f crates \<Rightarrow> 'f api \<Rightarrow> string \<Rightarrow> string \<Rightarrow> model_request \<Rightarrow> world \<Rightarrow>
   (model_response route_attempt \<times> string list \<times> world) option" where
  "attempt_subscription K A provider agent request0 w =
     (case sized_request (api_model_table A) (w_snapshot w) request0 of
        Inl refusal \<Rightarrow> Some (\<lparr>ra_opened = Inl refusal, ra_pool_emptied = False\<rparr>, [], w)
      | Inr request \<Rightarrow>
          (case ordered_candidate_rows A provider agent request w of
             None \<Rightarrow> None
           | Some (Inl refusal, w1) \<Rightarrow> Some (\<lparr>ra_opened = Inl refusal, ra_pool_emptied = True\<rparr>, [], w1)
           | Some (Inr rows, w1) \<Rightarrow>
               (case buffered_walk K A provider agent request rows walk_start w1 of
                  (Some r, wk, w2) \<Rightarrow> Some (\<lparr>ra_opened = r, ra_pool_emptied = False\<rparr>, wk_asked wk, w2)
                | (None, wk, w2) \<Rightarrow>
                    Some (\<lparr>ra_opened = Inl (walk_verdict K A request provider wk w2), ra_pool_emptied = True\<rparr>,
                          wk_asked wk, w2))))"

definition dispatch_subscription_attempt ::
  "'f crates \<Rightarrow> 'f api \<Rightarrow> string \<Rightarrow> string \<Rightarrow> model_request \<Rightarrow> world \<Rightarrow> (model_response \<times> world) option" where
  "dispatch_subscription_attempt K A provider agent request w =
     (case attempt_subscription K A provider agent request w of
        None \<Rightarrow> None
      | Some (attempt, _, w') \<Rightarrow>
          Some (case ra_opened attempt of Inr served \<Rightarrow> served | Inl failed \<Rightarrow> failed, w'))"

subsection \<open>The streaming walk\<close>

record stream_task =
  st_subscription :: string
  st_provider :: string
  st_model :: string
  st_attempts :: "32 word"
  st_stream :: provider_stream

record routed_stream =
  rst_model :: string
  rst_attempts :: "32 word"
  rst_task :: stream_task

definition stream_refused :: "(model_response, provider_stream) result \<Rightarrow> bool" where
  "stream_refused r = (case r of Inl failed \<Rightarrow> refused_credential failed | Inr _ \<Rightarrow> False)"

definition stream_call ::
  "'f api \<Rightarrow> string \<Rightarrow> string \<Rightarrow> model_request \<Rightarrow> string \<Rightarrow> 'f walk \<Rightarrow> world \<Rightarrow>
   (model_response, provider_stream) result \<times> 'f walk \<times> world" where
  "stream_call A provider sid request token wk w =
     (case api_dispatch_stream A request (subscription_resource provider sid) token w of
        (r, w1) \<Rightarrow> (r, asked sid wk, w1))"

definition stream_refresh ::
  "'f crates \<Rightarrow> 'f api \<Rightarrow> string \<Rightarrow> string \<Rightarrow> model_request \<Rightarrow> (model_response, provider_stream) result \<Rightarrow>
   'f walk \<Rightarrow> world \<Rightarrow> (model_response, provider_stream) result \<times> bool \<times> 'f walk \<times> world" where
  "stream_refresh K A provider sid request result wk w =
     (if \<not> stream_refused result then (result, False, wk, w)
      else (case api_refresh A sid provider w of
              (Inl f, w1) \<Rightarrow> (result, False, remember_refusal K f wk, w1)
            | (Inr fresh, w1) \<Rightarrow>
                (case api_utf8 A fresh of
                   Inl err \<Rightarrow>
                     (result, False,
                      remember_refusal K (credential_envelope K sid provider
                        (''refreshed credential is not valid UTF-8: '' @ err)) wk, w1)
                 | Inr token \<Rightarrow>
                     (case stream_call A provider sid request token wk w1 of
                        (result2, wk2, w2) \<Rightarrow> (result2, stream_refused result2, wk2, w2)))))"

definition streaming_row ::
  "'f crates \<Rightarrow> 'f api \<Rightarrow> string \<Rightarrow> string \<Rightarrow> model_request \<Rightarrow> string \<Rightarrow> 'f walk \<Rightarrow> world \<Rightarrow>
   ('f, routed_stream) row_outcome \<times> 'f walk \<times> world" where
  "streaming_row K A provider agent request sid wk w =
     (case now_ms w of (now, w1) \<Rightarrow>
       (if is_blocked (w_ledger w1) sid now
        then (case note_block sid wk w1 of (wk', w2) \<Rightarrow> (Continue wk', wk', w2))
        else (case redeem_row K A provider sid wk w1 of
                (Inl wk', w2) \<Rightarrow> (Continue wk', wk', w2)
              | (Inr token, w2) \<Rightarrow>
                  (case stream_call A provider sid request token wk w2 of
                     (result1, wk1, w3) \<Rightarrow>
                       (case stream_refresh K A provider sid request result1 wk1 w3 of
                          (Inr stream, _, wk2, w4) \<Rightarrow>
                            (Return (Inr \<lparr>rst_model = rq_model request, rst_attempts = wk_attempts wk2,
                               rst_task = \<lparr>st_subscription = sid, st_provider = provider,
                                 st_model = rq_model request, st_attempts = wk_attempts wk2,
                                 st_stream = stream\<rparr>\<rparr>),
                             wk2, pin_served agent provider sid w4)
                        | (Inl failed, fresh_refused, wk2, w4) \<Rightarrow>
                            (let w5 = note_call sid provider failed w4
                             in (case mr_refusal failed of
                                   None \<Rightarrow> (Return (Inl failed), wk2, w5)
                                 | Some rf \<Rightarrow>
                                     (case settle_row K A provider sid rf failed fresh_refused wk2 w5 of
                                        (out, w6) \<Rightarrow> (out, wk2, w6)))))))))"

fun streaming_walk ::
  "'f crates \<Rightarrow> 'f api \<Rightarrow> string \<Rightarrow> string \<Rightarrow> model_request \<Rightarrow> subscription_entry list \<Rightarrow> 'f walk \<Rightarrow> world \<Rightarrow>
   (model_response, routed_stream) result option \<times> 'f walk \<times> world" where
  "streaming_walk K A provider agent request [] wk w = (None, wk, w)"
| "streaming_walk K A provider agent request (e # es) wk w =
     (case streaming_row K A provider agent request (se_id e) wk w of
        (Return r, wk', w') \<Rightarrow> (Some r, wk', w')
      | (Continue wk', _, w') \<Rightarrow> streaming_walk K A provider agent request es wk' w')"

definition attempt_subscription_stream ::
  "'f crates \<Rightarrow> 'f api \<Rightarrow> string \<Rightarrow> string \<Rightarrow> model_request \<Rightarrow> world \<Rightarrow>
   (routed_stream route_attempt \<times> string list \<times> world) option" where
  "attempt_subscription_stream K A provider agent request0 w =
     (case sized_request (api_model_table A) (w_snapshot w) request0 of
        Inl refusal \<Rightarrow> Some (\<lparr>ra_opened = Inl refusal, ra_pool_emptied = False\<rparr>, [], w)
      | Inr request \<Rightarrow>
          (case ordered_candidate_rows A provider agent request w of
             None \<Rightarrow> None
           | Some (Inl refusal, w1) \<Rightarrow> Some (\<lparr>ra_opened = Inl refusal, ra_pool_emptied = True\<rparr>, [], w1)
           | Some (Inr rows, w1) \<Rightarrow>
               (case streaming_walk K A provider agent request rows walk_start w1 of
                  (Some r, wk, w2) \<Rightarrow> Some (\<lparr>ra_opened = r, ra_pool_emptied = False\<rparr>, wk_asked wk, w2)
                | (None, wk, w2) \<Rightarrow>
                    Some (\<lparr>ra_opened = Inl (walk_verdict K A request provider wk w2), ra_pool_emptied = True\<rparr>,
                          wk_asked wk, w2))))"

subsection \<open>The stream recorder\<close>

datatype stop_reason =
    EndTurn
  | StopSequence
  | MaxTokens
  | ToolUse
  | ContentFilter
  | IncompleteAnswer "string option"
  | OtherReason string

datatype stream_delta =
    Text string
  | ToolCallStart "32 word" string string
  | ToolCallArguments "32 word" string
  | Finish stop_reason
  | Usage "32 word" "32 word"

datatype stream_item =
    Delta stream_delta
  | Failed string
  | Done

record recording =
  rg_content :: string
  rg_usage :: "(32 word \<times> 32 word) option"
  rg_error :: "string option"
  rg_finished :: bool
  rg_forwarded :: "stream_item list"

definition recording_start :: recording where
  "recording_start =
     \<lparr>rg_content = [], rg_usage = None, rg_error = None, rg_finished = False, rg_forwarded = []\<rparr>"

definition take_item :: "stream_item \<Rightarrow> recording \<Rightarrow> recording" where
  "take_item item g =
     (let g1 = (case item of
          Delta (Text t) \<Rightarrow> g\<lparr>rg_content := rg_content g @ t\<rparr>
        | Delta (Usage i out) \<Rightarrow> g\<lparr>rg_usage := Some (i, out)\<rparr>
        | Failed message \<Rightarrow> g\<lparr>rg_error := Some message\<rparr>
        | _ \<Rightarrow> g)
      in g1\<lparr>rg_finished := rg_finished g1 \<or> item = Done\<rparr>)"

fun terminal_item :: "stream_item \<Rightarrow> bool" where
  "terminal_item (Failed _) = True"
| "terminal_item Done = True"
| "terminal_item _ = False"

text \<open>\<open>hung_up i\<close>: whether sending the i-th item to the caller fails.\<close>

fun record_items :: "(nat \<Rightarrow> bool) \<Rightarrow> nat \<Rightarrow> stream_item list \<Rightarrow> recording \<Rightarrow> recording" where
  "record_items hung_up i [] g = g"
| "record_items hung_up i (item # items) g =
     (let g1 = take_item item g
      in if hung_up i
         then g1\<lparr>rg_error := (case rg_error g1 of Some e \<Rightarrow> Some e
                             | None \<Rightarrow> Some ''caller disconnected mid-stream'')\<rparr>
         else (let g2 = g1\<lparr>rg_forwarded := rg_forwarded g1 @ [item]\<rparr>
               in if terminal_item item then g2 else record_items hung_up (Suc i) items g2))"

definition recorded_response :: "string \<Rightarrow> 32 word \<Rightarrow> limit_reading list \<Rightarrow> f64 \<Rightarrow> recording \<Rightarrow> model_response" where
  "recorded_response model attempts limits latency g =
     (let refusal = (case rg_error g of
            Some message \<Rightarrow> Some message
          | None \<Rightarrow> (if rg_finished g then None else Some ''provider stream ended without a verdict''));
          stated = map_option (\<lambda>(i, out). \<lparr>tu_input_tokens = i, tu_output_tokens = out\<rparr>) (rg_usage g)
      in (answered model (rg_content g) stated latency None)
           \<lparr>mr_refusal := map_option (\<lambda>m. \<lparr>rf_class = ProviderFailure, rf_message = m\<rparr>) refusal,
            mr_attempts := attempts, mr_limits := limits\<rparr>)"

definition run_stream_recorder ::
  "(nat \<Rightarrow> bool) \<Rightarrow> f64 \<Rightarrow> stream_item list \<Rightarrow> stream_task \<Rightarrow> world \<Rightarrow> stream_item list \<times> world" where
  "run_stream_recorder hung_up latency items task w =
     (let g = record_items hung_up 0 items recording_start
      in (rg_forwarded g,
          note_call (st_subscription task) (st_provider task)
            (recorded_response (st_model task) (st_attempts task) (ps_limits (st_stream task)) latency g) w))"

end
