(* ===== verification/Rotation_Walks.thy ===== *)
theory Rotation_Walks
  imports Rotation
begin

section \<open>What a walk across the pool promises\<close>

text \<open>
  The facts of the rotation: what one row presents, the walk proved once for the buffered and the
  streaming row, the roster a walk starts from, what it answers, and the stream recorder.
\<close>

subsection \<open>What one row does to the walk\<close>

text \<open>\<open>n\<close> more presentations of one credential, counted as the code counts them.\<close>

definition presented :: "nat \<Rightarrow> string \<Rightarrow> 'f walk \<Rightarrow> 'f walk \<Rightarrow> bool" where
  "presented n sid wk wk' =
     (wk_asked wk' = wk_asked wk @ replicate n sid \<and>
      unat (wk_attempts wk') = min (unat (wk_attempts wk) + n) (2 ^ 32 - 1))"

lemma attempts_bound: "unat (wk_attempts wk) \<le> 2 ^ 32 - 1"
  using unsigned_less [of "wk_attempts wk", where ?'a = nat] by simp

lemma presented_refl [simp]: "presented 0 sid wk wk"
  using attempts_bound [of wk] by (simp add: presented_def)

lemma presented_asked: "presented (Suc 0) sid wk (asked sid wk)"
  by (simp add: presented_def asked_def unat_saturating_add)

lemma presented_trans: "presented m sid wk wk1 \<Longrightarrow> presented n sid wk1 wk2 \<Longrightarrow> presented (m + n) sid wk wk2"
  by (auto simp: presented_def replicate_add)

lemma presented_same:
  "presented n sid wk wk1 \<Longrightarrow> wk_asked wk2 = wk_asked wk1 \<Longrightarrow> wk_attempts wk2 = wk_attempts wk1 \<Longrightarrow>
     presented n sid wk wk2"
  by (simp add: presented_def)

lemma remember_refusal_keeps [simp]:
  "wk_asked (remember_refusal K f wk) = wk_asked wk" "wk_attempts (remember_refusal K f wk) = wk_attempts wk"
  "wk_rate_limit_failure (remember_refusal K f wk) = wk_rate_limit_failure wk"
  by (simp_all add: remember_refusal_def)

lemma unredeemable_keeps [simp]:
  "wk_asked (unredeemable wk) = wk_asked wk" "wk_attempts (unredeemable wk) = wk_attempts wk"
  "wk_rate_limit_failure (unredeemable wk) = wk_rate_limit_failure wk"
  by (simp_all add: unredeemable_def)

lemma note_block_keeps:
  "note_block sid wk w = (wk', w') \<Longrightarrow>
     wk_asked wk' = wk_asked wk \<and> wk_attempts wk' = wk_attempts wk \<and>
     wk_rate_limit_failure wk' = wk_rate_limit_failure wk"
  by (auto simp: note_block_def Let_def split: prod.splits if_splits option.splits)

lemma redeem_row_keeps:
  "redeem_row K A provider sid wk w = (Inl wk', w') \<Longrightarrow>
     wk_asked wk' = wk_asked wk \<and> wk_attempts wk' = wk_attempts wk \<and>
     wk_rate_limit_failure wk' = wk_rate_limit_failure wk"
  by (auto simp: redeem_row_def split: prod.splits sum.splits)

lemma buffered_call_presents:
  "buffered_call A provider sid request token wk w = (result, wk', w') \<Longrightarrow>
     wk' = asked sid wk \<and> mr_attempts result = wk_attempts wk'"
  by (auto simp: buffered_call_def Let_def split: prod.splits)

lemma buffered_refresh_presents:
  assumes "buffered_refresh K A provider sid request result wk w = (result', fr, wk', w')"
  shows "(\<exists>n \<le> 1. presented n sid wk wk') \<and> wk_rate_limit_failure wk' = wk_rate_limit_failure wk \<and>
    (mr_attempts result = wk_attempts wk \<longrightarrow> mr_attempts result' = wk_attempts wk') \<and>
    (fr \<longrightarrow> refused_credential result')"
proof -
  have one: "presented (Suc 0) sid wk (asked sid wk)" by (rule presented_asked)
  have zero: "presented 0 sid wk (remember_refusal K f wk)" for f
    by (rule presented_same [OF presented_refl]) simp_all
  show ?thesis
    using assms one zero
    by (auto simp: buffered_refresh_def asked_def dest!: buffered_call_presents
        split: if_splits prod.splits sum.splits)
qed

lemma settle_row_keeps:
  assumes "settle_row K A provider sid rf result fr wk w = (out, w')" "\<not> success result"
  shows "(\<exists>r. out = Return (Inl r) \<and> r = result) \<or>
    (\<exists>wk'. out = Continue wk' \<and> wk_asked wk' = wk_asked wk \<and> wk_attempts wk' = wk_attempts wk \<and>
      (wk_rate_limit_failure wk' = wk_rate_limit_failure wk \<or> wk_rate_limit_failure wk' = Some result))"
  using assms by (auto simp: settle_row_def Let_def split: if_splits)

text \<open>
  What a walk relies on of one row, buffered or streaming: it presents its credential at most
  twice, not at all while the ledger blocks it, and hands on the counts it made. The loop is proved
  once for both.
\<close>

locale row_walk =
  fixes row :: "string \<Rightarrow> 'f walk \<Rightarrow> world \<Rightarrow> ('f, 'a) row_outcome \<times> 'f walk \<times> world"
  assumes row_presents: "row sid wk w = (out, wk', w') \<Longrightarrow> \<exists>n \<le> 2. presented n sid wk wk'"
    and row_blocked: "row sid wk w = (out, wk', w') \<Longrightarrow> is_blocked (w_ledger w) sid (w_clock w (w_tick w)) \<Longrightarrow>
      wk_asked wk' = wk_asked wk \<and> (\<exists>c. out = Continue c)"
    and row_continues: "row sid wk w = (Continue c, wk', w') \<Longrightarrow>
      wk_asked c = wk_asked wk' \<and> wk_attempts c = wk_attempts wk'"
begin

fun walk_rows :: "subscription_entry list \<Rightarrow> 'f walk \<Rightarrow> world \<Rightarrow> (model_response, 'a) result option \<times> 'f walk \<times> world" where
  "walk_rows [] wk w = (None, wk, w)"
| "walk_rows (e # es) wk w =
     (case row (se_id e) wk w of
        (Return r, wk', w') \<Rightarrow> (Some r, wk', w')
      | (Continue wk', _, w') \<Rightarrow> walk_rows es wk' w')"

lemma walk_rows_presents:
  "walk_rows rows wk w = (r, wk', w') \<Longrightarrow>
     \<exists>ns. length ns \<le> length rows \<and> (\<forall>n \<in> set ns. n \<le> 2) \<and>
       wk_asked wk' = wk_asked wk @ concat (map2 (\<lambda>e n. replicate n (se_id e)) rows ns) \<and>
       unat (wk_attempts wk') = min (unat (wk_attempts wk) + sum_list ns) (2 ^ 32 - 1)"
proof (induction rows arbitrary: wk w)
  case Nil
  then show ?case using attempts_bound [of wk] by (intro exI [of _ "[]"]) auto
next
  case (Cons e es)
  obtain out wk1 w1 where row: "row (se_id e) wk w = (out, wk1, w1)" by (metis prod_cases3)
  from row_presents [OF row] obtain n where n: "n \<le> 2" "presented n (se_id e) wk wk1" by blast
  show ?case
  proof (cases out)
    case (Return r')
    with Cons.prems row n show ?thesis by (intro exI [of _ "[n]"]) (auto simp: presented_def)
  next
    case (Continue c)
    with row_continues row have c: "wk_asked c = wk_asked wk1" "wk_attempts c = wk_attempts wk1" by auto
    from Continue Cons.prems row have "walk_rows es c w1 = (r, wk', w')" by simp
    from Cons.IH [OF this] obtain ns where ns: "length ns \<le> length es" "\<forall>n \<in> set ns. n \<le> 2"
      "wk_asked wk' = wk_asked c @ concat (map2 (\<lambda>e n. replicate n (se_id e)) es ns)"
      "unat (wk_attempts wk') = min (unat (wk_attempts c) + sum_list ns) (2 ^ 32 - 1)" by blast
    with n c show ?thesis by (intro exI [of _ "n # ns"]) (auto simp: presented_def)
  qed
qed

lemma walk_rows_returned:
  "walk_rows rows wk w = (Some r, wk', w') \<Longrightarrow>
     \<exists>e \<in> set rows. \<exists>c w1. row (se_id e) c w1 = (Return r, wk', w')"
proof (induction rows arbitrary: wk w)
  case (Cons e es)
  obtain out wk1 w1 where row: "row (se_id e) wk w = (out, wk1, w1)" by (metis prod_cases3)
  with Cons show ?case by (cases out) (simp_all, blast+)
qed simp

lemma walk_rows_counts:
  assumes "walk_rows rows walk_start w = (r, wk', w')"
  shows "unat (wk_attempts wk') = min (length (wk_asked wk')) (2 ^ 32 - 1)"
proof -
  have total: "length (concat (map2 (\<lambda>e n. replicate n (se_id e)) es ns)) = sum_list ns"
    if "length ns \<le> length es" for es :: "subscription_entry list" and ns
    using that
  proof (induction es arbitrary: ns)
    case (Cons e es)
    then show ?case by (cases ns) auto
  qed simp
  from walk_rows_presents [OF assms] total show ?thesis by (auto simp: walk_start_def)
qed

lemma asked_bounds:
  assumes "walk_rows rows wk w = (r, wk', w')" "wk_asked wk = []"
  shows "length (wk_asked wk') \<le> 2 * length rows \<and> set (wk_asked wk') \<subseteq> se_id ` set rows"
proof -
  from walk_rows_presents [OF assms(1)] assms(2) obtain ns where ns: "length ns \<le> length rows"
    "\<forall>n \<in> set ns. n \<le> 2" "wk_asked wk' = concat (map2 (\<lambda>e n. replicate n (se_id e)) rows ns)" by auto
  have "length (concat (map2 (\<lambda>e n. replicate n (se_id e)) rows ns)) \<le> 2 * length rows"
    using ns(2)
  proof (induction rows arbitrary: ns)
    case (Cons e es)
    then show ?case by (cases ns) (fastforce, fastforce)
  qed simp
  moreover have "set (concat (map2 (\<lambda>e n. replicate n (se_id e)) rows ns)) \<subseteq> se_id ` set rows"
    by (auto simp: set_replicate_conv_if dest!: set_zip_leftD split: if_splits)
  ultimately show ?thesis using ns(3) by simp
qed

end

lemma presented_call_refresh:
  "presented (Suc 0) sid wk wk1 \<Longrightarrow> \<exists>n \<le> 1. presented n sid wk1 wk2 \<Longrightarrow>
     \<exists>n. 1 \<le> n \<and> n \<le> 2 \<and> presented n sid wk wk2"
proof (elim exE conjE)
  fix n assume "presented (Suc 0) sid wk wk1" "n \<le> 1" "presented n sid wk1 wk2"
  then show ?thesis
    using presented_trans [of "Suc 0" sid wk wk1 n wk2] by (intro exI [of _ "Suc n"]) auto
qed

abbreviation blocked_now :: "string \<Rightarrow> world \<Rightarrow> bool" where
  "blocked_now sid w \<equiv> is_blocked (w_ledger w) sid (w_clock w (w_tick w))"

lemma buffered_row_cases:
  assumes "buffered_row K A provider agent request sid wk w = (out, wk', w')"
  obtains (skipped) "out = Continue wk'" "wk_asked wk' = wk_asked wk" "wk_attempts wk' = wk_attempts wk"
      "wk_rate_limit_failure wk' = wk_rate_limit_failure wk"
  | (called) n result fr w4 where "\<not> blocked_now sid w" "1 \<le> n" "n \<le> 2" "presented n sid wk wk'"
      "mr_attempts result = wk_attempts wk'" "wk_rate_limit_failure wk' = wk_rate_limit_failure wk"
      "fr \<longrightarrow> refused_credential result"
      "mr_refusal result = None \<and> out = Return (Inr result) \<and> w' = pin_served agent provider sid w4 \<or>
       (\<exists>rf. mr_refusal result = Some rf \<and> settle_row K A provider sid rf result fr wk' w4 = (out, w'))"
proof (cases "blocked_now sid w")
  case True
  with assms skipped show ?thesis
    by (auto simp: buffered_row_def now_ms_def dest: note_block_keeps split: prod.splits)
next
  case False
  obtain token w2 where redeem: "redeem_row K A provider sid wk (snd (now_ms w)) = (token, w2)" by fastforce
  show ?thesis
  proof (cases token)
    case (Inl wk1)
    with assms False redeem redeem_row_keeps [of K A provider sid wk "snd (now_ms w)" wk1 w2] skipped
    show ?thesis by (auto simp: buffered_row_def now_ms_def split: prod.splits)
  next
    case (Inr tok)
    obtain r1 wk1 w3 where call: "buffered_call A provider sid request tok wk w2 = (r1, wk1, w3)"
      by (metis prod_cases3)
    obtain r2 fr wk2 w4 where refresh: "buffered_refresh K A provider sid request r1 wk1 w3 = (r2, fr, wk2, w4)"
      by (metis prod_cases4)
    note first = buffered_call_presents [OF call] and second = buffered_refresh_presents [OF refresh]
    have out: "mr_refusal r2 = None \<and> out = Return (Inr r2) \<and> wk' = wk2 \<and> w' = pin_served agent provider sid w4 \<or>
       (\<exists>rf. mr_refusal r2 = Some rf \<and> wk' = wk2 \<and> settle_row K A provider sid rf r2 fr wk2 w4 = (out, w'))"
      using assms False redeem Inr call refresh
      by (auto simp: buffered_row_def now_ms_def split: option.splits prod.splits)
    have "presented (Suc 0) sid wk wk1" using first presented_asked by simp
    from presented_call_refresh [OF this, of wk2] second obtain n where
      n: "1 \<le> n" "n \<le> 2" "presented n sid wk wk2" by blast
    have wk: "wk' = wk2" using out by auto
    have "wk_rate_limit_failure wk2 = wk_rate_limit_failure wk"
      using first second by (simp add: asked_def)
    with called [OF False n(1,2)] n(3) out wk first second show ?thesis by auto
  qed
qed

lemma buffered_row_walk: "row_walk (buffered_row K A provider agent request)"
proof (unfold_locales, goal_cases)
  case (1 sid wk w out wk' w')
  then show ?case
  proof (cases rule: buffered_row_cases)
    case skipped
    then show ?thesis by (intro exI [of _ 0]) (auto intro: presented_same [OF presented_refl])
  qed blast
next
  case (2 sid wk w out wk' w')
  then show ?case by (cases rule: buffered_row_cases) auto
next
  case (3 sid wk w c wk' w')
  then show ?case
  proof (cases rule: buffered_row_cases)
    case (called n result fr w4)
    from called(8) show ?thesis by (auto simp: success_def dest!: settle_row_keeps)
  qed simp
qed

interpretation bw: row_walk "buffered_row K A provider agent request"
  rewrites "row_walk.walk_rows (buffered_row K A provider agent request) = buffered_walk K A provider agent request"
  for K A provider agent request
proof -
  show walk: "row_walk (buffered_row K A provider agent request)" by (rule buffered_row_walk)
  have "row_walk.walk_rows (buffered_row K A provider agent request) rows wk w =
      buffered_walk K A provider agent request rows wk w" for rows wk w
    by (induction rows arbitrary: wk w)
       (simp_all add: row_walk.walk_rows.simps [OF walk] split: prod.splits row_outcome.splits)
  then show "row_walk.walk_rows (buffered_row K A provider agent request) =
      buffered_walk K A provider agent request" by blast
qed

text \<open>The streaming row, with its own calls.\<close>

lemma stream_refresh_presents:
  assumes "stream_refresh K A provider sid request result wk w = (result', fr, wk', w')"
  shows "(\<exists>n \<le> 1. presented n sid wk wk') \<and> wk_rate_limit_failure wk' = wk_rate_limit_failure wk"
proof -
  have one: "presented (Suc 0) sid wk (asked sid wk)" by (rule presented_asked)
  have zero: "presented 0 sid wk (remember_refusal K f wk)" for f
    by (rule presented_same [OF presented_refl]) simp_all
  show ?thesis
    using assms one zero
    by (auto simp: stream_refresh_def stream_call_def asked_def split: if_splits prod.splits sum.splits)
qed

lemma streaming_row_cases:
  assumes "streaming_row K A provider agent request sid wk w = (out, wk', w')"
  obtains (skipped) "out = Continue wk'" "wk_asked wk' = wk_asked wk" "wk_attempts wk' = wk_attempts wk"
  | (opened) n routed where "\<not> blocked_now sid w" "1 \<le> n" "n \<le> 2" "presented n sid wk wk'"
      "out = Return (Inr routed)" "rst_attempts routed = wk_attempts wk'"
      "st_subscription (rst_task routed) = sid"
  | (failed) n failed fr w5 where "\<not> blocked_now sid w" "1 \<le> n" "n \<le> 2" "presented n sid wk wk'"
      "mr_refusal failed = None \<and> out = Return (Inl failed) \<or>
       (\<exists>rf. mr_refusal failed = Some rf \<and> settle_row K A provider sid rf failed fr wk' w5 = (out, w'))"
proof (cases "blocked_now sid w")
  case True
  with assms skipped show ?thesis
    by (auto simp: streaming_row_def now_ms_def dest: note_block_keeps split: prod.splits)
next
  case False
  obtain token w2 where redeem: "redeem_row K A provider sid wk (snd (now_ms w)) = (token, w2)" by fastforce
  show ?thesis
  proof (cases token)
    case (Inl wk1)
    with assms False redeem redeem_row_keeps [of K A provider sid wk "snd (now_ms w)" wk1 w2] skipped
    show ?thesis by (auto simp: streaming_row_def now_ms_def split: prod.splits)
  next
    case (Inr tok)
    obtain r1 wk1 w3 where call: "stream_call A provider sid request tok wk w2 = (r1, wk1, w3)"
      by (metis prod_cases3)
    obtain r2 fr wk2 w4 where refresh: "stream_refresh K A provider sid request r1 wk1 w3 = (r2, fr, wk2, w4)"
      by (metis prod_cases4)
    have "presented (Suc 0) sid wk wk1"
      using call presented_asked by (auto simp: stream_call_def split: prod.splits)
    from presented_call_refresh [OF this, of wk2] stream_refresh_presents [OF refresh] obtain n where
      n: "1 \<le> n" "n \<le> 2" "presented n sid wk wk2" by blast
    show ?thesis
    proof (cases r2)
      case (Inr stream)
      with assms False redeem \<open>token = Inr tok\<close> call refresh n opened [OF False n(1,2)] show ?thesis
        by (auto simp: streaming_row_def now_ms_def split: prod.splits)
    next
      case (Inl fl)
      with assms False redeem \<open>token = Inr tok\<close> call refresh n failed [OF False n(1,2)] show ?thesis
        by (auto simp: streaming_row_def now_ms_def Let_def split: prod.splits option.splits)
    qed
  qed
qed

lemma streaming_row_walk: "row_walk (streaming_row K A provider agent request)"
proof (unfold_locales, goal_cases)
  case (1 sid wk w out wk' w')
  then show ?case
  proof (cases rule: streaming_row_cases)
    case skipped
    then show ?thesis by (intro exI [of _ 0]) (auto intro: presented_same [OF presented_refl])
  qed blast+
next
  case (2 sid wk w out wk' w')
  then show ?case by (cases rule: streaming_row_cases) auto
next
  case (3 sid wk w c wk' w')
  then show ?case
  proof (cases rule: streaming_row_cases)
    case (failed n fl fr w5)
    from failed(5) show ?thesis by (auto simp: success_def dest!: settle_row_keeps)
  qed simp_all
qed

interpretation sw: row_walk "streaming_row K A provider agent request"
  rewrites "row_walk.walk_rows (streaming_row K A provider agent request) = streaming_walk K A provider agent request"
  for K A provider agent request
proof -
  show walk: "row_walk (streaming_row K A provider agent request)" by (rule streaming_row_walk)
  have "row_walk.walk_rows (streaming_row K A provider agent request) rows wk w =
      streaming_walk K A provider agent request rows wk w" for rows wk w
    by (induction rows arbitrary: wk w)
       (simp_all add: row_walk.walk_rows.simps [OF walk] split: prod.splits row_outcome.splits)
  then show "row_walk.walk_rows (streaming_row K A provider agent request) =
      streaming_walk K A provider agent request" by blast
qed

subsection \<open>The roster is the eligible rows, ordered\<close>

definition eligible :: "json_codec \<Rightarrow> journal \<Rightarrow> string \<Rightarrow> billing_target option \<Rightarrow> subscription_entry \<Rightarrow> bool" where
  "eligible J jn provider target e =
     (provider_matches (se_provider e) provider \<and> se_status e = ''active'' \<and>
      (case target of None \<Rightarrow> True | Some t \<Rightarrow> se_id e = bt_subscription_id t) \<and>
      is_retired J jn (se_id e) = Inr False)"

lemma eligible_rows_eq:
  "eligible_rows J jn provider target es = Inr rows \<Longrightarrow> rows = filter (eligible J jn provider target) es"
proof (induction es arbitrary: rows)
  case (Cons e es)
  then show ?case
    by (cases "is_retired J jn (se_id e)")
       (auto simp: eligible_def split: if_splits sum.splits)
qed simp

lemma position_Some: "position P xs = Some i \<Longrightarrow> i < length xs \<and> P (xs ! i)"
  by (induction xs arbitrary: i) (auto split: if_splits)

lemma position_swap: "position Q rows = Some i \<Longrightarrow> mset (swap 0 i rows) = mset rows"
  by (rule mset_swap_idx) (auto dest: position_Some)

lemma apply_pin_mset [simp]: "mset (fst (apply_pin L now agent provider rows P)) = mset rows"
  by (auto simp: apply_pin_def position_swap split: prod.splits option.splits)

lemma mset_partition: "mset (filter (\<lambda>x. \<not> Q x) xs @ filter Q xs) = mset xs"
  by (induction xs) auto

lemma arrange_rows_mset: "arrange_rows provider agent shuffled w = (rows, w') \<Longrightarrow> mset rows = mset shuffled"
  using apply_pin_mset
  by (auto simp: arrange_rows_def now_ms_def Let_def mset_partition [unfolded mset_append] mset_append
      split: prod.splits) (metis apply_pin_mset fst_conv sort_by_key_props(1))

lemma ordered_rows_eligible:
  assumes "ordered_candidate_rows A provider agent request w = Some (Inr rows, w')"
    and "\<And>entries w1. api_routing A agent w = (Inr entries, w1) \<Longrightarrow> length entries < 2 ^ 63"
  shows "\<exists>entries w1. api_routing A agent w = (Inr entries, w1) \<and> rows \<noteq> [] \<and>
    mset rows = mset (filter (eligible (api_codec A) (w_journal w1) provider (rq_billing_target request)) entries)"
proof -
  obtain entries w1 elig shuffled ds where routing: "api_routing A agent w = (Inr entries, w1)"
    and elig: "eligible_subscription_entries (api_codec A) (w_journal w1) entries provider
      (rq_billing_target request) = Inr elig" "elig \<noteq> []"
    and shuffle: "shuffle_within_equal (\<lambda>_ _. True) elig (w_draws w1) = Some (Inr shuffled, ds)"
    and arrange: "arrange_rows provider agent shuffled (w1\<lparr>w_draws := ds\<rparr>) = (rows, w')"
    using assms(1) unfolding ordered_candidate_rows_def
    by (auto split: prod.splits sum.splits option.splits if_splits)
  have eq: "elig = filter (eligible (api_codec A) (w_journal w1) provider (rq_billing_target request)) entries"
    using elig(1) by (auto simp: eligible_subscription_entries_def dest: eligible_rows_eq split: option.splits)
  have "length elig \<le> length entries" unfolding eq by (rule length_filter_le)
  then have "length elig < 2 ^ 63" using assms(2) [OF routing] by linarith
  then have "mset shuffled = mset elig"
    using shuffle_within_equal_keeps(1) [OF shuffle, of "\<lambda>_. ()"] by simp
  with arrange_rows_mset [OF arrange] routing elig(2) eq show ?thesis by (metis mset_zero_iff)
qed

subsection \<open>What a walk answers\<close>

definition rate_failures_refused :: "'f walk \<Rightarrow> bool" where
  "rate_failures_refused wk = (\<forall>r. wk_rate_limit_failure wk = Some r \<longrightarrow> \<not> success r)"

lemma buffered_walk_answers:
  "buffered_walk K A provider agent request rows wk w = (res, wk', w') \<Longrightarrow> rate_failures_refused wk \<Longrightarrow>
     (\<forall>r. res = Some (Inr r) \<longrightarrow> success r \<and> mr_attempts r = wk_attempts wk') \<and>
     (\<forall>r. res = Some (Inl r) \<longrightarrow> \<not> success r) \<and> rate_failures_refused wk'"
proof (induction rows arbitrary: wk w)
  case (Cons e es)
  obtain out wk1 w1 where row: "buffered_row K A provider agent request (se_id e) wk w = (out, wk1, w1)"
    by (metis prod_cases3)
  have step: "buffered_walk K A provider agent request (e # es) wk w =
      (case out of Return r \<Rightarrow> (Some r, wk1, w1) | Continue c \<Rightarrow> buffered_walk K A provider agent request es c w1)"
    by (simp add: row split: row_outcome.splits)
  from row show ?case
  proof (cases rule: buffered_row_cases)
    case skipped
    then have "rate_failures_refused wk1" using Cons.prems(2) by (simp add: rate_failures_refused_def)
    with skipped(1) step Cons.IH [of wk1 w1] Cons.prems(1) show ?thesis by simp
  next
    case (called n result fr w4)
    from called(8) show ?thesis
    proof (elim disjE exE conjE)
      assume "mr_refusal result = None" "out = Return (Inr result)"
      with Cons.prems step called(5,6) show ?thesis by (auto simp: success_def rate_failures_refused_def)
    next
      fix rf assume rf: "mr_refusal result = Some rf"
        and settle: "settle_row K A provider (se_id e) rf result fr wk1 w4 = (out, w1)"
      have no: "\<not> success result" using rf by (simp add: success_def)
      have kept: "rate_failures_refused wk1" using called(6) Cons.prems(2) by (simp add: rate_failures_refused_def)
      from settle_row_keeps [OF settle no] consider "out = Return (Inl result)"
        | c where "out = Continue c"
          "wk_rate_limit_failure c = wk_rate_limit_failure wk1 \<or> wk_rate_limit_failure c = Some result"
        by blast
      then show ?thesis
      proof cases
        case 1
        with Cons.prems(1) step no kept show ?thesis by auto
      next
        case c: (2 c)
        with kept no have "rate_failures_refused c" by (auto simp: rate_failures_refused_def)
        with Cons.IH [of c w1] Cons.prems(1) step c(1) show ?thesis by simp
      qed
    qed
  qed
qed simp

lemma walk_start_simps [simp]:
  "wk_asked walk_start = []" "wk_attempts walk_start = 0" "rate_failures_refused walk_start"
  by (simp_all add: walk_start_def rate_failures_refused_def)

lemma walk_verdict_refused: "rate_failures_refused wk \<Longrightarrow> \<not> success (walk_verdict K A request provider wk w)"
  unfolding walk_verdict_def by (rule emptied_pool_refused) (simp add: rate_failures_refused_def)

subsection \<open>A concrete pool\<close>

text \<open>One member, a provider that always answers, and clocks that stand still: what the witnesses run.\<close>

definition plain_api :: "string api" where
  "plain_api =
     \<lparr>api_routing = (\<lambda>_ w. (Inr [plain_member], w)), api_redeem = (\<lambda>_ _ w. (Inr ''tok'', w)),
      api_refresh = (\<lambda>_ _ w. (Inr ''tok2'', w)), api_dispatch = (\<lambda>_ _ _ w. (plain_answer, w)),
      api_dispatch_stream = (\<lambda>_ _ _ w. (Inr \<lparr>ps_limits = [], ps_stream_id = 0\<rparr>, w)),
      api_utf8 = (\<lambda>t. Inr t), api_model_table = Inr (JObj []), api_sign_in_sentence = (\<lambda>_ _. []),
      api_codec = two_records, api_discover = (\<lambda>_ _ _ w. (Inr [], w)), api_model_age = Inr None,
      api_failure_age = Inr None, api_observed_failure = (\<lambda>_ _. None), api_lock_wait = (\<lambda>_ w. w),
      api_refresh_routing = (\<lambda>_ w. (Inr [plain_member], w))\<rparr>"

definition plain_world :: world where
  "plain_world =
     \<lparr>w_ledger = [], w_journal = line_journal [], w_pins = (\<lambda>_. None), w_draws = [], w_clock = (\<lambda>_. 0),
      w_tick = 0, w_appends = (\<lambda>_. (Written, ''t'')), w_append_tick = 0, w_served = [], w_replay = RAbsent,
      w_snapshot = \<lparr>sn_published = None, sn_refreshing = False\<rparr>, w_models_cache = (\<lambda>_. None),
      w_failures_cache = (\<lambda>_. None), w_instants = (\<lambda>_. 0), w_instant_tick = 0,
      w_register = RegAbsent, w_policies = PolicyAbsent\<rparr>"

definition limited_request :: model_request where
  "limited_request = plain_request\<lparr>rq_max_tokens := Some 9\<rparr>"

lemma plain_row_eligible:
  "eligible_subscription_entries two_records (line_journal []) [plain_member] ''codex'' None = Inr [plain_member]"
  by (simp add: eligible_subscription_entries_def plain_member_def provider_matches_def eq_ignore_ascii_case_def
      trim_def is_ws_def is_retired_def read_all_def line_journal_def str_lines_def retired_in_def)

lemma plain_roster:
  "\<exists>w'. ordered_candidate_rows plain_api ''codex'' ''a'' limited_request plain_world = Some (Inr [plain_member], w')
     \<and> w_ledger w' = [] \<and> w_clock w' = (\<lambda>_. 0)"
  by (simp add: ordered_candidate_rows_def plain_api_def plain_world_def limited_request_def plain_request_def
      plain_row_eligible shuffle_within_equal_def shuffle_run_def arrange_rows_def now_ms_def sort_by_key_def
      apply_pin_def pinned_credential_def is_blocked_def standing_block_def)

lemma plain_buffered:
  assumes "w_ledger w = []" "w_clock w = (\<lambda>_. 0)"
  shows "\<exists>r wk w'. buffered_walk plain_crates plain_api ''codex'' ''a'' limited_request [plain_member] walk_start w
    = (Some (Inr r), wk, w') \<and> wk_asked wk = [''s1'']"
  using assms
  by (simp add: buffered_row_def now_ms_def is_blocked_def standing_block_def redeem_row_def plain_api_def
      buffered_call_def buffered_refresh_def refused_credential_def failure_class_def plain_answer_def
      answered_def asked_def walk_start_def plain_member_def Let_def)

lemma plain_attempt:
  "\<exists>at w'. attempt_subscription plain_crates plain_api ''codex'' ''a'' limited_request plain_world
     = Some (at, [''s1''], w')"
proof -
  obtain w1 where roster: "ordered_candidate_rows plain_api ''codex'' ''a'' limited_request plain_world =
      Some (Inr [plain_member], w1)" "w_ledger w1 = []" "w_clock w1 = (\<lambda>_. 0)"
    using plain_roster by blast
  have sized: "sized_request t sn limited_request = Inr limited_request" for t sn
    by (simp add: sized_request_def limited_request_def)
  obtain r wk w' where "buffered_walk plain_crates plain_api ''codex'' ''a'' limited_request [plain_member] walk_start w1
      = (Some (Inr r), wk, w')" "wk_asked wk = [''s1'']"
    using plain_buffered [OF roster(2,3)] by blast
  with roster(1) show ?thesis by (simp add: attempt_subscription_def sized)
qed

subsection \<open>What one attempt presents\<close>

text \<open>
  \<open>presents A provider agent request w ids\<close>: \<open>ids\<close> are presentations of a roster of the eligible rows, in
  its order, each row at most twice.
\<close>

definition presents ::
  "'f api \<Rightarrow> string \<Rightarrow> string \<Rightarrow> model_request \<Rightarrow> world \<Rightarrow> string list \<Rightarrow> bool" where
  "presents A provider agent request w ids =
     (ids = [] \<or> (\<exists>entries w1 rows ns. api_routing A agent w = (Inr entries, w1) \<and>
        mset rows = mset (filter (eligible (api_codec A) (w_journal w1) provider (rq_billing_target request)) entries) \<and>
        ids = concat (map2 (\<lambda>e n. replicate n (se_id e)) rows ns) \<and>
        length ns \<le> length rows \<and> list_all (\<lambda>n. n \<le> 2) ns))"

text \<open>A \<open>Vec\<close> holds fewer than \<open>2 ^ 63\<close> entries.\<close>

definition small_inventory :: "'f api \<Rightarrow> string \<Rightarrow> world \<Rightarrow> bool" where
  "small_inventory A agent w =
     (case api_routing A agent w of (Inr entries, _) \<Rightarrow> length entries < 2 ^ 63 | _ \<Rightarrow> True)"

lemma plain_inventory: "small_inventory plain_api agent w"
  by (simp add: small_inventory_def plain_api_def)

lemma presents_rows:
  assumes "ordered_candidate_rows A provider agent sized w = Some (Inr rows, w1)"
    and "small_inventory A agent w"
    and "rq_billing_target sized = rq_billing_target request"
    and "\<exists>ns. length ns \<le> length rows \<and> (\<forall>n \<in> set ns. n \<le> 2) \<and>
       wk_asked wk = wk_asked walk_start @ concat (map2 (\<lambda>e n. replicate n (se_id e)) rows ns) \<and>
       unat (wk_attempts wk) = min (unat (wk_attempts walk_start) + sum_list ns) (2 ^ 32 - 1)"
  shows "presents A provider agent request w (wk_asked wk)"
proof -
  have "\<exists>entries w1. api_routing A agent w = (Inr entries, w1) \<and> rows \<noteq> [] \<and>
      mset rows = mset (filter (eligible (api_codec A) (w_journal w1) provider (rq_billing_target sized)) entries)"
    by (rule ordered_rows_eligible [OF assms(1)]) (use assms(2) in \<open>simp add: small_inventory_def\<close>)
  with assms(3) obtain entries w2 where
    "api_routing A agent w = (Inr entries, w2)"
    "mset rows = mset (filter (eligible (api_codec A) (w_journal w2) provider (rq_billing_target request)) entries)"
    by auto
  with assms(4) show ?thesis by (auto simp: presents_def list_all_iff)
qed

text \<open>The two attempts are one shape over the walk they make.\<close>

definition attempt_with ::
  "'f crates \<Rightarrow> 'f api \<Rightarrow>
   (model_request \<Rightarrow> subscription_entry list \<Rightarrow> 'f walk \<Rightarrow> world \<Rightarrow>
    (model_response, 'a) result option \<times> 'f walk \<times> world) \<Rightarrow>
   string \<Rightarrow> string \<Rightarrow> model_request \<Rightarrow> world \<Rightarrow> ('a route_attempt \<times> string list \<times> world) option" where
  "attempt_with K A walk_over provider agent request0 w =
     (case sized_request (api_model_table A) (w_snapshot w) request0 of
        Inl refusal \<Rightarrow> Some (\<lparr>ra_opened = Inl refusal, ra_pool_emptied = False\<rparr>, [], w)
      | Inr request \<Rightarrow>
          (case ordered_candidate_rows A provider agent request w of
             None \<Rightarrow> None
           | Some (Inl refusal, w1) \<Rightarrow> Some (\<lparr>ra_opened = Inl refusal, ra_pool_emptied = True\<rparr>, [], w1)
           | Some (Inr rows, w1) \<Rightarrow>
               (case walk_over request rows walk_start w1 of
                  (r, wk, w2) \<Rightarrow>
                    Some (\<lparr>ra_opened = (case r of Some opened \<Rightarrow> opened
                                       | None \<Rightarrow> Inl (walk_verdict K A request provider wk w2)),
                           ra_pool_emptied = (r = None)\<rparr>, wk_asked wk, w2))))"

lemma attempts_with:
  "attempt_subscription K A provider agent request w =
     attempt_with K A (buffered_walk K A provider agent) provider agent request w"
  "attempt_subscription_stream K A provider agent request w =
     attempt_with K A (streaming_walk K A provider agent) provider agent request w"
  by (simp_all add: attempt_subscription_def attempt_subscription_stream_def attempt_with_def
      split: sum.splits option.splits prod.splits)

lemma attempt_cases:
  assumes "attempt_with K A walk_over provider agent request w = Some (at, ids, w')"
  obtains (unsized) refused where "sized_request (api_model_table A) (w_snapshot w) request = Inl refused"
      "at = \<lparr>ra_opened = Inl refused, ra_pool_emptied = False\<rparr>" "ids = []" "w' = w"
  | (no_roster) sized refused where "sized_request (api_model_table A) (w_snapshot w) request = Inr sized"
      "ordered_candidate_rows A provider agent sized w = Some (Inl refused, w')"
      "at = \<lparr>ra_opened = Inl refused, ra_pool_emptied = True\<rparr>" "ids = []"
  | (walked) sized rows w1 r wk where "sized_request (api_model_table A) (w_snapshot w) request = Inr sized"
      "ordered_candidate_rows A provider agent sized w = Some (Inr rows, w1)"
      "walk_over sized rows walk_start w1 = (r, wk, w')" "ids = wk_asked wk"
      "at = \<lparr>ra_opened = (case r of Some opened \<Rightarrow> opened
                         | None \<Rightarrow> Inl (walk_verdict K A sized provider wk w')), ra_pool_emptied = (r = None)\<rparr>"
proof (cases "sized_request (api_model_table A) (w_snapshot w) request")
  case (Inl refused)
  with assms show thesis by (intro unsized) (auto simp: attempt_with_def)
next
  case sized: (Inr sized)
  with assms obtain res w1 where roster: "ordered_candidate_rows A provider agent sized w = Some (res, w1)"
    by (auto simp: attempt_with_def split: option.splits)
  show thesis
  proof (cases res)
    case (Inl refused)
    with assms sized roster show thesis by (intro no_roster [OF sized]) (auto simp: attempt_with_def)
  next
    case (Inr rows)
    obtain r wk w2 where walk: "walk_over sized rows walk_start w1 = (r, wk, w2)" by (metis prod_cases3)
    with assms sized roster Inr show thesis by (intro walked [OF sized]) (auto simp: attempt_with_def)
  qed
qed

text \<open>
  C1. A buffered attempt presents only credentials of accounts the agent may be billed to for this
  request: active rows of the inventory, of the route's provider, not retired in the journal, and the row
  the billing target names when it names one. It presents them in the order of one roster of all the
  eligible rows, each at most twice (once more after one forced refresh), so it ends after at most
  twice as many calls as there are rows.
\<close>

theorem attempt_presents_eligible_rows:
  assumes "attempt_subscription K A provider agent request w = Some (at, ids, w')"
    and "small_inventory A agent w"
  shows "presents A provider agent request w ids"
  using assms(1) unfolding attempts_with
proof (cases rule: attempt_cases)
  case (walked sized rows w1 r wk)
  show ?thesis
    unfolding walked(4)
    by (rule presents_rows [OF walked(2) assms(2) sized_request_target(1) [OF walked(1)]
          bw.walk_rows_presents [OF walked(3)]])
qed (simp_all add: presents_def)

theorem attempt_presents_eligible_rows_witness:
  "\<exists>at w'. attempt_subscription plain_crates plain_api ''codex'' ''a'' limited_request plain_world
       = Some (at, [''s1''], w') \<and> presents plain_api ''codex'' ''a'' limited_request plain_world [''s1'']"
proof -
  obtain at w' where run: "attempt_subscription plain_crates plain_api ''codex'' ''a'' limited_request plain_world
      = Some (at, [''s1''], w')" using plain_attempt by blast
  have "presents plain_api ''codex'' ''a'' limited_request plain_world [''s1'']"
    by (rule attempt_presents_eligible_rows [OF run plain_inventory])
  with run show ?thesis by blast
qed

text \<open>
  A streaming attempt presents the same way, and the stream it opens is billed to the account whose
  credential it presented last, with the calls it took to open it counted.
\<close>

theorem stream_attempt_bills_last_presented:
  assumes "attempt_subscription_stream K A provider agent request w = Some (at, ids, w')"
    and "small_inventory A agent w"
  shows "presents A provider agent request w ids
    \<and> (case ra_opened at of
         Inl failed \<Rightarrow> True
       | Inr routed \<Rightarrow> ids \<noteq> [] \<and> st_subscription (rst_task routed) = last ids
           \<and> unat (rst_attempts routed) = min (length ids) (2 ^ 32 - 1))"
  using assms(1) unfolding attempts_with
proof (cases rule: attempt_cases)
  case (unsized refused)
  then show ?thesis by (simp add: presents_def)
next
  case (no_roster sized refused)
  then show ?thesis by (simp add: presents_def)
next
  case (walked sized rows w1 r wk)
  have presented: "presents A provider agent request w (wk_asked wk)"
    by (rule presents_rows [OF walked(2) assms(2) sized_request_target(1) [OF walked(1)]
          sw.walk_rows_presents [OF walked(3)]])
  have bills: "wk_asked wk \<noteq> [] \<and> st_subscription (rst_task routed) = last (wk_asked wk)
      \<and> rst_attempts routed = wk_attempts wk" if "r = Some (Inr routed)" for routed
  proof -
    from sw.walk_rows_returned [OF walked(3) [unfolded that]] obtain e :: subscription_entry and c w2 where
      "streaming_row K A provider agent sized (se_id e) c w2 = (Return (Inr routed), wk, w')" by blast
    then show ?thesis
      by (cases rule: streaming_row_cases) (auto simp: presented_def success_def dest!: settle_row_keeps)
  qed
  with presented walked(4,5) sw.walk_rows_counts [OF walked(3)] show ?thesis
    by (auto split: option.splits sum.splits)
qed

lemma plain_stream_attempt:
  "\<exists>at w'. attempt_subscription_stream plain_crates plain_api ''codex'' ''a'' limited_request plain_world
     = Some (at, [''s1''], w')"
proof -
  obtain w1 where roster: "ordered_candidate_rows plain_api ''codex'' ''a'' limited_request plain_world =
      Some (Inr [plain_member], w1)" "w_ledger w1 = []" "w_clock w1 = (\<lambda>_. 0)"
    using plain_roster by blast
  have sized: "sized_request t sn limited_request = Inr limited_request" for t sn
    by (simp add: sized_request_def limited_request_def)
  have "\<exists>r wk w'. streaming_walk plain_crates plain_api ''codex'' ''a'' limited_request [plain_member] walk_start w1
      = (Some (Inr r), wk, w') \<and> wk_asked wk = [''s1'']"
    using roster(2,3)
    by (simp add: streaming_row_def now_ms_def is_blocked_def standing_block_def redeem_row_def plain_api_def
        stream_call_def stream_refresh_def stream_refused_def asked_def walk_start_def plain_member_def)
  with roster(1) show ?thesis by (auto simp: attempt_subscription_stream_def sized)
qed

theorem stream_attempt_bills_last_presented_witness:
  "\<exists>(at :: routed_stream route_attempt). presents plain_api ''codex'' ''a'' limited_request plain_world [''s1'']
    \<and> (case ra_opened at of
         Inl failed \<Rightarrow> True
       | Inr routed \<Rightarrow> [''s1''] \<noteq> [] \<and> st_subscription (rst_task routed) = last [''s1'']
           \<and> unat (rst_attempts routed) = min (length [''s1'']) (2 ^ 32 - 1))"
proof -
  obtain at w' where run: "attempt_subscription_stream plain_crates plain_api ''codex'' ''a'' limited_request plain_world
      = Some (at, [''s1''], w')" using plain_stream_attempt by blast
  from stream_attempt_bills_last_presented [OF run plain_inventory] show ?thesis by blast
qed

subsection \<open>What one attempt answers\<close>

lemma ordered_rows_refusal:
  "ordered_candidate_rows A provider agent request w = Some (Inl refused, w') \<Longrightarrow> \<not> success refused"
  by (auto simp: ordered_candidate_rows_def no_row_refusal_def refuse_defs refused_answer_def success_def
      split: prod.splits sum.splits option.splits if_splits)

lemma buffered_walk_pins:
  assumes "buffered_walk K A provider agent request rows wk w = (Some (Inr r), wk', w')"
  shows "wk_asked wk' \<noteq> [] \<and>
    (\<exists>pin. w_pins w' (agent, provider) = Some pin \<and> pin_credential_id pin = last (wk_asked wk'))"
proof -
  from bw.walk_rows_returned [OF assms] obtain e :: subscription_entry and c w1 where
    "buffered_row K A provider agent request (se_id e) c w1 = (Return (Inr r), wk', w')" by blast
  then show ?thesis
  proof (cases rule: buffered_row_cases)
    case (called n result fr w4)
    have "w' = pin_served agent provider (se_id e) w4"
      using called(8) by (auto simp: success_def dest!: settle_row_keeps)
    with called(2,4) show ?thesis
      by (auto simp: presented_def pin_served_def pin_credential_def now_ms_def)
  qed simp
qed

lemma attempt_answers:
  assumes "attempt_subscription K A provider agent request w = Some (at, ids, w')"
  shows "case ra_opened at of Inr r \<Rightarrow> success r \<and> \<not> ra_pool_emptied at | Inl r \<Rightarrow> \<not> success r"
  using assms unfolding attempts_with
proof (cases rule: attempt_cases)
  case (walked sized rows w1 r wk)
  from walked(5) buffered_walk_answers [OF walked(3) walk_start_simps(3)] show ?thesis
    by (auto simp: walk_verdict_refused split: option.splits sum.splits)
qed (simp_all add: sized_request_refusal ordered_rows_refusal)

text \<open>
  C2. What a buffered attempt answers: an answer when it opened one, counted as the credentials it
  presented, the account that gave it being the one presented last and pinned for this agent and
  provider; otherwise a refusal, never an empty answer; and a pool reported exhausted is always a refusal.
\<close>

theorem attempt_serves_or_refuses:
  assumes "attempt_subscription K A provider agent request w = Some (at, ids, w')"
  shows "case ra_opened at of
      Inr r \<Rightarrow> success r \<and> \<not> ra_pool_emptied at \<and> ids \<noteq> []
        \<and> unat (mr_attempts r) = min (length ids) (2 ^ 32 - 1)
        \<and> (\<exists>pin. w_pins w' (agent, provider) = Some pin \<and> pin_credential_id pin = last ids)
    | Inl r \<Rightarrow> \<not> success r"
proof (cases "ra_opened at")
  case (Inl failed)
  with attempt_answers [OF assms] show ?thesis by simp
next
  case (Inr served)
  from assms [unfolded attempts_with] show ?thesis
  proof (cases rule: attempt_cases)
    case (walked sized rows w1 r wk)
    with Inr have r: "r = Some (Inr served)" by (cases r) auto
    from walked(4) Inr attempt_answers [OF assms] bw.walk_rows_counts [OF walked(3)]
      buffered_walk_answers [OF walked(3) walk_start_simps(3)] buffered_walk_pins [OF walked(3) [unfolded r]] r
    show ?thesis by auto
  qed (use Inr in auto)
qed

theorem attempt_serves_or_refuses_witness:
  "\<exists>(at :: model_response route_attempt) (w' :: world). case ra_opened at of
      Inr r \<Rightarrow> success r \<and> \<not> ra_pool_emptied at \<and> [''s1''] \<noteq> []
        \<and> unat (mr_attempts r) = min (length [''s1'']) (2 ^ 32 - 1)
        \<and> (\<exists>pin. w_pins w' (''a'', ''codex'') = Some pin \<and> pin_credential_id pin = last [''s1''])
    | Inl r \<Rightarrow> \<not> success r"
proof -
  obtain at w' where run: "attempt_subscription plain_crates plain_api ''codex'' ''a'' limited_request plain_world
      = Some (at, [''s1''], w')" using plain_attempt by blast
  from attempt_serves_or_refuses [OF run] show ?thesis by blast
qed

subsection \<open>Blocked accounts\<close>

lemma note_block_world: "note_block sid wk w = (wk', w') \<Longrightarrow> \<exists>t. w' = w\<lparr>w_tick := t\<rparr>"
  by (auto simp: note_block_def now_ms_def Let_def split: if_splits option.splits prod.splits)
     (metis (mono_tags) world.surjective world.update_convs(6))+

text \<open>
  An account inside a recorded block is passed over by both walks without touching anything: no
  credential is redeemed, no provider asked, nothing recorded; only the clock was read, and the walk
  goes on.
\<close>

theorem blocked_rows_are_passed_over:
  assumes "is_blocked (w_ledger w) sid (w_clock w (w_tick w))"
  shows "(\<exists>wk' t. buffered_row K A provider agent request sid wk w = (Continue wk', wk', w\<lparr>w_tick := t\<rparr>)
            \<and> wk_asked wk' = wk_asked wk \<and> wk_attempts wk' = wk_attempts wk)
    \<and> (\<exists>wk' t. streaming_row K A provider agent request sid wk w = (Continue wk', wk', w\<lparr>w_tick := t\<rparr>)
            \<and> wk_asked wk' = wk_asked wk \<and> wk_attempts wk' = wk_attempts wk)"
proof -
  obtain wk' w' where nb: "note_block sid wk (w\<lparr>w_tick := Suc (w_tick w)\<rparr>) = (wk', w')" by fastforce
  from note_block_world [OF nb] obtain t where "w' = w\<lparr>w_tick := t\<rparr>" by auto
  with nb note_block_keeps [OF nb] assms show ?thesis
    by (auto simp: buffered_row_def streaming_row_def now_ms_def)
qed

definition blocked_world :: world where
  "blocked_world = plain_world\<lparr>w_ledger := record_reported_block plain_crates ''s1'' ''codex'' ''full'' 9 0 []\<rparr>"

theorem blocked_rows_are_passed_over_witness:
  "\<exists>wk' t. buffered_row plain_crates plain_api ''codex'' ''a'' limited_request ''s1'' walk_start blocked_world
     = (Continue wk', wk', blocked_world\<lparr>w_tick := t\<rparr>)"
proof -
  have "is_blocked (w_ledger blocked_world) ''s1'' (w_clock blocked_world (w_tick blocked_world))"
    by (simp add: blocked_world_def plain_world_def record_reported_block_def is_blocked_def standing_block_record)
  from blocked_rows_are_passed_over [OF this, of plain_crates plain_api "''codex''" "''a''" limited_request walk_start]
  show ?thesis by blast
qed

end
