(* ===== verification/Rotation_Outcomes.thy ===== *)
theory Rotation_Outcomes
  imports Rotation_Walks
begin

section \<open>What a rotation leaves behind\<close>

text \<open>
  The order of a roster (\<open>rotation/roster.rs\<close>), the retirement of an account whose fresh token was
  refused (\<open>credential/auth_failure.rs\<close>) and the one record a committed stream leaves in the ledger
  (\<open>routed_stream.rs\<close>), over the definitions of \<open>Rotation\<close>.
\<close>

subsection \<open>The record of a committed stream\<close>

text \<open>What the recorder takes off the provider's stream: up to the first terminal item, or the first the caller did not take.\<close>

fun consumed :: "(nat \<Rightarrow> bool) \<Rightarrow> nat \<Rightarrow> stream_item list \<Rightarrow> stream_item list" where
  "consumed hung_up i [] = []"
| "consumed hung_up i (item # items) =
     item # (if hung_up i \<or> terminal_item item then [] else consumed hung_up (Suc i) items)"

definition text_of :: "stream_item list \<Rightarrow> string" where
  "text_of items = concat (map (\<lambda>item. case item of Delta (Text t) \<Rightarrow> t | _ \<Rightarrow> []) items)"

definition usages_of :: "stream_item list \<Rightarrow> (32 word \<times> 32 word) list" where
  "usages_of items = List.map_filter (\<lambda>item. case item of Delta (Usage i out) \<Rightarrow> Some (i, out) | _ \<Rightarrow> None) items"

definition ends_done :: "(nat \<Rightarrow> bool) \<Rightarrow> nat \<Rightarrow> stream_item list \<Rightarrow> bool" where
  "ends_done hung_up i items =
     (\<exists>pre rest. items = pre @ Done # rest \<and> list_all (\<lambda>x. \<not> terminal_item x) pre
        \<and> list_all (\<lambda>k. \<not> hung_up (i + k)) [0..<Suc (length pre)])"

lemma ends_done_simps [simp]:
  "\<not> ends_done hung_up i []"
  "ends_done hung_up i (item # items) \<longleftrightarrow>
     \<not> hung_up i \<and> (item = Done \<or> \<not> terminal_item item \<and> ends_done hung_up (Suc i) items)"
proof -
  have shift: "list_all (\<lambda>k. \<not> hung_up (i + k)) [0..<Suc (Suc n)] \<longleftrightarrow>
      \<not> hung_up i \<and> list_all (\<lambda>k. \<not> hung_up (Suc i + k)) [0..<Suc n]" for n
    by (subst upt_conv_Cons) (simp_all add: map_Suc_upt [symmetric] list.pred_map comp_def del: upt_Suc)
  show "ends_done hung_up i (item # items) \<longleftrightarrow>
     \<not> hung_up i \<and> (item = Done \<or> \<not> terminal_item item \<and> ends_done hung_up (Suc i) items)"
  proof
    assume "ends_done hung_up i (item # items)"
    then obtain pre rest where p: "item # items = pre @ Done # rest" "list_all (\<lambda>x. \<not> terminal_item x) pre"
      "list_all (\<lambda>k. \<not> hung_up (i + k)) [0..<Suc (length pre)]" unfolding ends_done_def by blast
    show "\<not> hung_up i \<and> (item = Done \<or> \<not> terminal_item item \<and> ends_done hung_up (Suc i) items)"
    proof (cases pre)
      case Nil with p show ?thesis by simp
    next
      case (Cons x xs)
      with p shift [of "length xs"] show ?thesis unfolding ends_done_def by auto
    qed
  next
    assume a: "\<not> hung_up i \<and> (item = Done \<or> \<not> terminal_item item \<and> ends_done hung_up (Suc i) items)"
    show "ends_done hung_up i (item # items)"
    proof (cases "item = Done")
      case True with a show ?thesis unfolding ends_done_def by (intro exI [of _ "[]"] exI [of _ items]) auto
    next
      case False
      with a obtain pre rest where "items = pre @ Done # rest" "list_all (\<lambda>x. \<not> terminal_item x) pre"
        "list_all (\<lambda>k. \<not> hung_up (Suc i + k)) [0..<Suc (length pre)]" unfolding ends_done_def by blast
      with a False shift [of "length pre"] show ?thesis
        unfolding ends_done_def by (intro exI [of _ "item # pre"] exI [of _ rest]) auto
    qed
  qed
qed (simp add: ends_done_def)

lemma recording_start_simps [simp]:
  "rg_content recording_start = []" "rg_usage recording_start = None" "rg_error recording_start = None"
  "\<not> rg_finished recording_start" "rg_forwarded recording_start = []"
  by (simp_all add: recording_start_def)

lemma record_items_content:
  "rg_content (record_items hung_up i items g) = rg_content g @ text_of (consumed hung_up i items)"
  by (induction items arbitrary: i g)
     (auto simp: text_of_def take_item_def Let_def split: stream_item.split stream_delta.split)

lemma record_items_usage:
  "rg_usage (record_items hung_up i items g) =
     (case usages_of (consumed hung_up i items) of [] \<Rightarrow> rg_usage g | us \<Rightarrow> Some (last us))"
  by (induction items arbitrary: i g)
     (auto simp: usages_of_def take_item_def Let_def split: stream_item.split stream_delta.split list.split)

lemma record_items_forwarded:
  "\<exists>sent. rg_forwarded (record_items hung_up i items g) = rg_forwarded g @ sent
     \<and> (consumed hung_up i items = sent \<or> (\<exists>item. consumed hung_up i items = sent @ [item]))"
proof (induction items arbitrary: i g)
  case (Cons item items)
  have kept: "rg_forwarded (take_item item g) = rg_forwarded g"
    by (simp add: take_item_def Let_def split: stream_item.split stream_delta.split)
  show ?case
  proof (cases "hung_up i \<or> terminal_item item")
    case True
    with kept show ?thesis by (auto simp: Let_def)
  next
    case False
    with kept Cons.IH [of "Suc i" "(take_item item g)\<lparr>rg_forwarded := rg_forwarded g @ [item]\<rparr>"] show ?thesis
      by (auto simp: Let_def)
  qed
qed simp

lemma record_items_verdict:
  assumes "rg_error g = None" and "\<not> rg_finished g"
  shows "rg_error (record_items hung_up i items g) = None \<and> rg_finished (record_items hung_up i items g)
    \<longleftrightarrow> ends_done hung_up i items"
  using assms
proof (induction items arbitrary: i g)
  case (Cons item items)
  let ?g = "(take_item item g)\<lparr>rg_forwarded := rg_forwarded (take_item item g) @ [item]\<rparr>"
  show ?case
  proof (cases "terminal_item item")
    case True
    with Cons.prems show ?thesis by (cases item) (auto simp: take_item_def Let_def split: option.split)
  next
    case False
    with Cons.prems have "rg_error ?g = None" "\<not> rg_finished ?g"
      by (cases item; auto simp: take_item_def Let_def split: stream_delta.split)+
    from Cons.IH [OF this, of "Suc i"] False Cons.prems show ?thesis
      by (cases item) (auto simp: Let_def split: option.split)
  qed
qed simp

lemma recorded_verdict:
  fixes hung_up items model attempts limits latency
  defines "r \<equiv> recorded_response model attempts limits latency (record_items hung_up 0 items recording_start)"
  shows "success r \<longleftrightarrow> ends_done hung_up 0 items"
    and "failure_class r = (if ends_done hung_up 0 items then None else Some ProviderFailure)"
  using record_items_verdict [of recording_start hung_up 0 items]
  by (cases "rg_error (record_items hung_up 0 items recording_start)";
      auto simp: r_def recorded_response_def success_def failure_class_def Let_def)+

text \<open>
  C29. However a committed stream ends, exactly one call is recorded for it, against the account that opened it and
  with the attempts it took. It is recorded as answered exactly when the provider said \<open>Done\<close> before any
  failure and the caller took every item up to it; otherwise as the provider's failure. What was
  generated is what the stream's text deltas said up to its end, the tokens are the last the stream stated, and
  the caller was sent the items in order, missing at most the one it did not take.
\<close>

theorem stream_is_recorded_once:
  "case run_stream_recorder hung_up latency items task w of (sent, w') \<Rightarrow>
     \<exists>r. w' = note_call (st_subscription task) (st_provider task) r w
       \<and> mr_attempts r = st_attempts task \<and> mr_limits r = ps_limits (st_stream task)
       \<and> (success r \<longleftrightarrow> ends_done hung_up 0 items)
       \<and> failure_class r = (if ends_done hung_up 0 items then None else Some ProviderFailure)
       \<and> mr_content r = text_of (consumed hung_up 0 items)
       \<and> map_option (\<lambda>u. (tu_input_tokens u, tu_output_tokens u)) (mr_usage r) =
           (case usages_of (consumed hung_up 0 items) of [] \<Rightarrow> None | us \<Rightarrow> Some (last us))
       \<and> (consumed hung_up 0 items = sent \<or> (\<exists>item. consumed hung_up 0 items = sent @ [item]))"
proof -
  define g where "g = record_items hung_up 0 items recording_start"
  have content: "rg_content g = text_of (consumed hung_up 0 items)"
    by (simp add: g_def record_items_content)
  have usage: "rg_usage g = (case usages_of (consumed hung_up 0 items) of [] \<Rightarrow> None | us \<Rightarrow> Some (last us))"
    by (simp add: g_def record_items_usage split: list.split)
  have sent: "consumed hung_up 0 items = rg_forwarded g \<or> (\<exists>item. consumed hung_up 0 items = rg_forwarded g @ [item])"
    using record_items_forwarded [of hung_up 0 items recording_start] by (auto simp: g_def)
  let ?r = "recorded_response (st_model task) (st_attempts task) (ps_limits (st_stream task)) latency g"
  have run: "run_stream_recorder hung_up latency items task w =
      (rg_forwarded g, note_call (st_subscription task) (st_provider task) ?r w)"
    by (simp add: run_stream_recorder_def g_def Let_def)
  have verdicts: "(success ?r \<longleftrightarrow> ends_done hung_up 0 items)
      \<and> failure_class ?r = (if ends_done hung_up 0 items then None else Some ProviderFailure)"
    unfolding g_def using recorded_verdict by blast
  have stated: "map_option (\<lambda>u. (tu_input_tokens u, tu_output_tokens u)) (mr_usage ?r) = rg_usage g"
    by (simp add: recorded_response_def answered_def Let_def option.map_comp comp_def case_prod_unfold option.map_ident)
  have kept: "mr_attempts ?r = st_attempts task" "mr_limits ?r = ps_limits (st_stream task)" "mr_content ?r = rg_content g"
    by (simp_all add: recorded_response_def answered_def Let_def)
  show ?thesis unfolding run prod.case
    by (intro exI [of _ ?r] conjI) (use verdicts stated kept content usage sent in simp_all)
qed

subsection \<open>A credential the provider disowned\<close>

lemma mark_revoked_written:
  assumes "terminated (w_journal w)" and "read_all (api_codec A) (w_journal w) = Inr records"
    and "w_appends w (w_append_tick w) = (Written, at)" and "codec_ok (api_codec A) (retire_record sid at)"
  shows "read_all (api_codec A) (w_journal (mark_credential_revoked A sid provider cause w)) =
      Inr (records @ [retire_record sid at])"
    and "standing_refusal K (w_ledger (mark_credential_revoked A sid provider cause w)) sid t \<noteq> None"
proof -
  obtain u jn where "append_record (api_codec A) Written (retire_record sid at) (w_journal w) = (Inr u, jn)"
    using assms(1) by (auto simp: append_record_def terminated_def)
  with read_all_append [OF assms(1,4)] assms(2)
  have world: "mark_credential_revoked A sid provider cause w =
      ledger_write (record_credential_disabled sid provider cause)
        (w\<lparr>w_append_tick := Suc (w_append_tick w), w_journal := jn\<rparr>)"
    and held: "read_all (api_codec A) jn = Inr (records @ [retire_record sid at])"
    using assms(3) by (simp_all add: mark_credential_revoked_def retire_def)
  show "read_all (api_codec A) (w_journal (mark_credential_revoked A sid provider cause w)) =
      Inr (records @ [retire_record sid at])"
    unfolding world using held by (simp add: ledger_write_def now_ms_def)
  show "standing_refusal K (w_ledger (mark_credential_revoked A sid provider cause w)) sid t \<noteq> None"
    unfolding world standing_refusal_entry
    by (auto simp: ledger_write_def now_ms_def record_credential_disabled_def disabled_entry_def entry_of_def bt_get_on_entry Let_def)
qed

lemma mark_revoked_failed:
  assumes "w_appends w (w_append_tick w) = (answer, at)" and "answer \<noteq> Written"
  shows "w_ledger (mark_credential_revoked A sid provider cause w) = w_ledger w"
  using assms
  by (cases answer) (simp_all add: mark_credential_revoked_def retire_def append_record_def Let_def split: sum.split)

text \<open>
  The credential of a row was refused, its token was forced to refresh, and the fresh token was refused
  as well, in a buffered walk or in a streaming one; the last argument is the world once both calls are
  recorded.
\<close>

inductive refused_twice ::
  "'f crates \<Rightarrow> 'f api \<Rightarrow> string \<Rightarrow> model_request \<Rightarrow> string \<Rightarrow> 'f walk \<Rightarrow> world \<Rightarrow> bool \<Rightarrow> world \<Rightarrow> bool"
  for K A provider request sid wk w where
  buffered: "refused_twice K A provider request sid wk w False w5"
  if "redeem_row K A provider sid wk (snd (now_ms w)) = (Inr token, w2)"
    "buffered_call A provider sid request token wk w2 = (refused1, wk1, w3)" "refused_credential refused1"
    "api_refresh A sid provider w3 = (Inr fresh, w4)" "api_utf8 A fresh = Inr fresh_token"
    "buffered_call A provider sid request fresh_token wk1 w4 = (refused2, wk2, w5)" "refused_credential refused2"
| streamed: "refused_twice K A provider request sid wk w True (note_call sid provider refused2 w5)"
  if "redeem_row K A provider sid wk (snd (now_ms w)) = (Inr token, w2)"
    "stream_call A provider sid request token wk w2 = (Inl refused1, wk1, w3)" "refused_credential refused1"
    "api_refresh A sid provider w3 = (Inr fresh, w4)" "api_utf8 A fresh = Inr fresh_token"
    "stream_call A provider sid request fresh_token wk1 w4 = (Inl refused2, wk2, w5)" "refused_credential refused2"

lemma refused_credential_refusal: "refused_credential r \<Longrightarrow> \<exists>rf. mr_refusal r = Some rf"
  by (auto simp: refused_credential_def failure_class_def split: option.splits)

text \<open>How either walk goes on from a row: what it remembers, and the world it leaves.\<close>

definition row_goes_on ::
  "'f crates \<Rightarrow> 'f api \<Rightarrow> string \<Rightarrow> string \<Rightarrow> model_request \<Rightarrow> string \<Rightarrow> 'f walk \<Rightarrow> world \<Rightarrow> bool \<Rightarrow> 'f walk \<Rightarrow> world \<Rightarrow> bool" where
  "row_goes_on K A provider agent request sid wk w streaming wk' w' =
     (if streaming then \<exists>wk2. streaming_row K A provider agent request sid wk w = (Continue wk', wk2, w')
      else \<exists>wk2. buffered_row K A provider agent request sid wk w = (Continue wk', wk2, w'))"

lemma refused_twice_row:
  assumes "refused_twice K A provider request sid wk w streaming v"
    and "\<not> is_blocked (w_ledger w) sid (w_clock w (w_tick w))"
  shows "\<exists>wk'. row_goes_on K A provider agent request sid wk w streaming wk'
      (mark_credential_revoked A sid provider FRESH_TOKEN_REFUSED v) \<and> po_auth_rejection (wk_seen wk')"
  using assms(1)
proof (cases rule: refused_twice.cases)
  case (buffered token w2 refused1 wk1 w3 fresh w4 fresh_token refused2 wk2)
  then obtain rf where rf: "mr_refusal refused2 = Some rf" using refused_credential_refusal by blast
  have refresh: "buffered_refresh K A provider sid request refused1 wk1 w3 = (refused2, True, wk2, v)"
    using buffered(4-8) by (simp add: buffered_refresh_def)
  have "buffered_row K A provider agent request sid wk w =
      (Continue (wk2\<lparr>wk_seen := (wk_seen wk2)\<lparr>po_auth_rejection := True\<rparr>\<rparr>), wk2,
       mark_credential_revoked A sid provider FRESH_TOKEN_REFUSED v)"
    unfolding buffered_row_def now_ms_def prod.case
    using buffered(2,3,8) refresh rf assms(2) by (simp add: now_ms_def settle_row_def)
  with buffered(1) show ?thesis
    unfolding row_goes_on_def by (intro exI [of _ "wk2\<lparr>wk_seen := (wk_seen wk2)\<lparr>po_auth_rejection := True\<rparr>\<rparr>"]) simp
next
  case (streamed token w2 refused1 wk1 w3 fresh w4 fresh_token refused2 wk2 w5)
  then obtain rf where rf: "mr_refusal refused2 = Some rf" using refused_credential_refusal by blast
  have refresh: "stream_refresh K A provider sid request (Inl refused1) wk1 w3 = (Inl refused2, True, wk2, w5)"
    using streamed(5-9) by (simp add: stream_refresh_def stream_refused_def)
  have "streaming_row K A provider agent request sid wk w =
      (Continue (wk2\<lparr>wk_seen := (wk_seen wk2)\<lparr>po_auth_rejection := True\<rparr>\<rparr>), wk2,
       mark_credential_revoked A sid provider FRESH_TOKEN_REFUSED v)"
    unfolding streaming_row_def now_ms_def prod.case
    using streamed(2-4,9) refresh rf assms(2) by (simp add: now_ms_def settle_row_def)
  with streamed(1) show ?thesis
    unfolding row_goes_on_def by (intro exI [of _ "wk2\<lparr>wk_seen := (wk_seen wk2)\<lparr>po_auth_rejection := True\<rparr>\<rparr>"]) simp
qed

lemma retired_while_not_reinstated:
  assumes "list_all (\<lambda>r. field r ''id'' = Some sid \<longrightarrow> field r ''kind'' \<noteq> Some ''reinstate'') since"
  shows "retired_in (records @ retire_record sid at # since) sid"
  using assms
proof (induction since rule: rev_induct)
  case Nil
  show ?case by (rule retired_in_newest [THEN iffD2]) (simp_all add: marker_verdict_def)
next
  case (snoc r since)
  let ?v = "filter_map marker_verdict (filter (\<lambda>r. field r ''id'' = Some sid) (records @ retire_record sid at # since))"
  from snoc have "?v \<noteq> [] \<and> last ?v" by (simp add: retired_in_def Let_def)
  moreover from snoc.prems have "marker_verdict r \<noteq> Some False" if "field r ''id'' = Some sid"
    using that by (auto simp: marker_verdict_def split: option.splits)
  ultimately show ?case
    by (auto simp: retired_in_def Let_def split: option.splits)
qed

text \<open>
  C30. When a provider refuses the token it had just issued, the row of the buffered or of the streaming
  walk goes on to the next account and remembers an authorization failure. If the journal takes the
  retirement, it stands there as the newest record, the ledger refuses to present the account, and no
  roster of any provider and any billing target holds the account while the journal keeps that record and
  nothing reinstates the account after it. If the journal does not take it, the ledger is left as it
  stood after the refusals, so the account may be selected again.
\<close>

theorem refused_fresh_token_retires:
  assumes "refused_twice K A provider request sid wk w streaming v"
    and "\<not> is_blocked (w_ledger w) sid (w_clock w (w_tick w))"
    and "terminated (w_journal v)" and "read_all (api_codec A) (w_journal v) = Inr records"
    and "w_appends v (w_append_tick v) = (answer, at)" and "codec_ok (api_codec A) (retire_record sid at)"
  shows "\<exists>wk' w'. row_goes_on K A provider agent request sid wk w streaming wk' w' \<and> po_auth_rejection (wk_seen wk') \<and>
    (if answer = Written
     then read_all (api_codec A) (w_journal w') = Inr (records @ [retire_record sid at])
        \<and> (\<forall>t. standing_refusal K (w_ledger w') sid t \<noteq> None)
        \<and> (\<forall>later since p target. read_all (api_codec A) later = Inr (records @ retire_record sid at # since)
             \<and> list_all (\<lambda>r. field r ''id'' = Some sid \<longrightarrow> field r ''kind'' \<noteq> Some ''reinstate'') since
             \<longrightarrow> sid \<notin> se_id ` {e. eligible (api_codec A) later p target e})
     else w_ledger w' = w_ledger v)"
proof -
  let ?w = "mark_credential_revoked A sid provider FRESH_TOKEN_REFUSED v"
  obtain wk' where row: "row_goes_on K A provider agent request sid wk w streaming wk' ?w" "po_auth_rejection (wk_seen wk')"
    using refused_twice_row [OF assms(1,2)] by blast
  have never: "sid \<notin> se_id ` {e. eligible (api_codec A) later p target e}"
    if "read_all (api_codec A) later = Inr (records @ retire_record sid at # since)"
      "list_all (\<lambda>r. field r ''id'' = Some sid \<longrightarrow> field r ''kind'' \<noteq> Some ''reinstate'') since"
    for later since p target
    using that(1) retired_while_not_reinstated [OF that(2)] by (auto simp: eligible_def is_retired_def)
  have "if answer = Written
     then read_all (api_codec A) (w_journal ?w) = Inr (records @ [retire_record sid at])
        \<and> (\<forall>t. standing_refusal K (w_ledger ?w) sid t \<noteq> None)
     else w_ledger ?w = w_ledger v"
    using mark_revoked_written [OF assms(3,4) _ assms(6)] mark_revoked_failed [OF assms(5)] assms(5) by auto
  with row never show ?thesis by (intro exI [of _ wk'] exI [of _ ?w]) (simp split: if_splits)
qed

text \<open>A provider that refuses every token.\<close>

definition refusing_api :: "string api" where
  "refusing_api = plain_api\<lparr>api_dispatch := (\<lambda>_ _ _ w. (failure_answer ''m'' Authentication ''no'', w))\<rparr>"

lemma note_call_journal:
  "w_journal (note_call sid provider r w) = w_journal w" "w_appends (note_call sid provider r w) = w_appends w"
  "w_append_tick (note_call sid provider r w) = w_append_tick w"
  by (simp_all add: note_call_def now_ms_def split: prod.split)

lemma refusing_twice:
  "\<exists>v. refused_twice plain_crates refusing_api ''codex'' limited_request ''s1'' walk_start plain_world False v
     \<and> w_journal v = w_journal plain_world \<and> w_appends v (w_append_tick v) = (Written, ''t'')"
proof -
  define no where "no = (\<lambda>wk :: string walk. (failure_answer ''m'' Authentication ''no'')\<lparr>mr_attempts := wk_attempts (asked ''s1'' wk)\<rparr>)"
  define v where "v = (\<lambda>wk. note_call ''s1'' ''codex'' (no wk))"
  have refused: "refused_credential (no wk)" for wk :: "string walk"
    by (simp add: no_def refused_credential_def refuse_defs failure_class_def)
  have call: "buffered_call refusing_api ''codex'' ''s1'' limited_request token wk w = (no wk, asked ''s1'' wk, v wk w)"
    for token w and wk :: "string walk"
    by (simp add: buffered_call_def refusing_api_def no_def v_def Let_def)
  let ?first = "v walk_start (snd (now_ms plain_world))"
  have "refused_twice plain_crates refusing_api ''codex'' limited_request ''s1'' walk_start plain_world False
      (v (asked ''s1'' walk_start) ?first)"
    by (rule refused_twice.buffered [OF _ call refused _ _ call refused])
       (simp_all add: redeem_row_def refusing_api_def plain_api_def)
  moreover have "w_journal (v (asked ''s1'' walk_start) ?first) = w_journal plain_world"
    "w_appends (v (asked ''s1'' walk_start) ?first) (w_append_tick (v (asked ''s1'' walk_start) ?first)) = (Written, ''t'')"
    by (simp_all add: v_def note_call_journal now_ms_def plain_world_def)
  ultimately show ?thesis by blast
qed

theorem refused_fresh_token_retires_witness:
  "\<exists>wk' w'. row_goes_on plain_crates refusing_api ''codex'' ''a'' limited_request ''s1'' walk_start plain_world False wk' w'
     \<and> po_auth_rejection (wk_seen wk')
     \<and> read_all two_records (w_journal w') = Inr [retire_record ''s1'' ''t'']
     \<and> standing_refusal plain_crates (w_ledger w') ''s1'' 0 \<noteq> None
     \<and> ''s1'' \<notin> se_id ` {e. eligible two_records (w_journal w') ''codex'' None e}"
proof -
  obtain v where v: "refused_twice plain_crates refusing_api ''codex'' limited_request ''s1'' walk_start plain_world False v"
    "w_journal v = w_journal plain_world" "w_appends v (w_append_tick v) = (Written, ''t'')"
    using refusing_twice by blast
  have open_row: "\<not> is_blocked (w_ledger plain_world) ''s1'' (w_clock plain_world (w_tick plain_world))"
    by (simp add: plain_world_def is_blocked_def standing_block_def)
  have codec: "api_codec refusing_api = two_records" by (simp add: refusing_api_def plain_api_def)
  have journal: "terminated (w_journal v)" "read_all (api_codec refusing_api) (w_journal v) = Inr []"
    by (simp_all add: v(2) codec plain_world_def terminated_def line_journal_def read_all_def str_lines_def)
  from refused_fresh_token_retires [OF v(1) open_row journal v(3), of "''a''"] two_records_ok(1) obtain wk' w' where
    "row_goes_on plain_crates refusing_api ''codex'' ''a'' limited_request ''s1'' walk_start plain_world False wk' w'"
    "po_auth_rejection (wk_seen wk')"
    and held: "read_all two_records (w_journal w') = Inr ([] @ [retire_record ''s1'' ''t''])"
    and "\<forall>t. standing_refusal plain_crates (w_ledger w') ''s1'' t \<noteq> None"
    and never: "\<forall>later since p target. read_all two_records later = Inr ([] @ retire_record ''s1'' ''t'' # since)
             \<and> list_all (\<lambda>r. field r ''id'' = Some ''s1'' \<longrightarrow> field r ''kind'' \<noteq> Some ''reinstate'') since
             \<longrightarrow> ''s1'' \<notin> se_id ` {e. eligible two_records later p target e}"
    unfolding codec by auto
  moreover have "''s1'' \<notin> se_id ` {e. eligible two_records (w_journal w') ''codex'' None e}"
    using never [rule_format, of "w_journal w'" "[]"] held by simp
  ultimately show ?thesis by (intro exI [of _ wk'] exI [of _ w'] conjI) simp_all
qed

subsection \<open>The roster's order\<close>

lemma apply_pin_pins:
  assumes "apply_pin L now agent provider rows P = (pinned, P')"
  shows "pinned_credential agent provider now P = (map_option pin_credential_id (P' (agent, provider)), P')"
proof -
  obtain x P2 where held: "pinned_credential agent provider now P = (x, P2)" by fastforce
  then have "x = map_option pin_credential_id (P2 (agent, provider))"
    by (auto simp: pinned_credential_def split: option.splits if_splits)
  with held assms show ?thesis by (auto simp: apply_pin_def split: option.splits if_splits)
qed

lemma position_found: "x \<in> set xs \<Longrightarrow> Q x \<Longrightarrow> \<exists>i. position Q xs = Some i"
  by (induction xs) auto

lemma hd_swap: "i < length xs \<Longrightarrow> swap 0 i xs \<noteq> [] \<and> hd (swap 0 i xs) = xs ! i"
  by (cases xs; cases i) (auto simp: swap_def)

lemma arrange_rows_readings:
  assumes "arrange_rows provider agent shuffled w = (rows, w')"
  obtains t1 t2 t3 P pinned where
    "apply_pin (w_ledger w') t2 agent provider
      (sort_by_key (\<lambda>e. headroom_of (w_ledger w') (se_id e) t1) shuffled) P = (pinned, w_pins w')"
    "rows = filter (\<lambda>e. \<not> is_blocked (w_ledger w') (se_id e) t3) pinned
      @ filter (\<lambda>e. is_blocked (w_ledger w') (se_id e) t3) pinned"
    "3 \<le> w_tick w'" "t1 = w_clock w' (w_tick w' - 3)" "t2 = w_clock w' (w_tick w' - 2)"
    "t3 = w_clock w' (w_tick w' - 1)"
  using assms by (auto simp: arrange_rows_def now_ms_def Let_def numeral_3_eq_3 split: prod.splits)

text \<open>
  C31. A roster lists the accounts outside a block before those inside one, as the ledger stands at the
  last reading of the clock. Without a live pin each of the two groups comes in the order of its headroom
  at the first reading, unmeasured accounts first; with one, the pinned account leads when it is on the
  roster, outside a block and shows no full window at the second.
\<close>

theorem roster_order:
  assumes "ordered_candidate_rows A provider agent request w = Some (Inr rows, w')"
  shows "let t1 = w_clock w' (w_tick w' - 3); t2 = w_clock w' (w_tick w' - 2); t3 = w_clock w' (w_tick w' - 1);
      blocked = (\<lambda>e. is_blocked (w_ledger w') (se_id e) t3); open_rows = filter (\<lambda>e. \<not> blocked e) rows in
    3 \<le> w_tick w' \<and> rows = open_rows @ filter blocked rows \<and>
    (case w_pins w' (agent, provider) of
       None \<Rightarrow> sorted (map (\<lambda>e. headroom_of (w_ledger w') (se_id e) t1) open_rows)
          \<and> sorted (map (\<lambda>e. headroom_of (w_ledger w') (se_id e) t1) (filter blocked rows))
     | Some pin \<Rightarrow>
         if pin_credential_id pin \<in> se_id ` set open_rows
            \<and> (case used_fraction (w_ledger w') (pin_credential_id pin) t2 t2 of None \<Rightarrow> True | Some f \<Rightarrow> \<not> at_limit f)
         then se_id (hd rows) = pin_credential_id pin else True)"
proof -
  from assms obtain shuffled w1 where "arrange_rows provider agent shuffled w1 = (rows, w')"
    by (auto simp: ordered_candidate_rows_def split: prod.splits sum.splits option.splits if_splits)
  then obtain t1 t2 t3 P pinned where
    pinned: "apply_pin (w_ledger w') t2 agent provider
      (sort_by_key (\<lambda>e. headroom_of (w_ledger w') (se_id e) t1) shuffled) P = (pinned, w_pins w')"
    and rows: "rows = filter (\<lambda>e. \<not> is_blocked (w_ledger w') (se_id e) t3) pinned
      @ filter (\<lambda>e. is_blocked (w_ledger w') (se_id e) t3) pinned"
    and ticks: "3 \<le> w_tick w'" "t1 = w_clock w' (w_tick w' - 3)" "t2 = w_clock w' (w_tick w' - 2)"
      "t3 = w_clock w' (w_tick w' - 1)"
    by (rule arrange_rows_readings)
  let ?b = "\<lambda>e. is_blocked (w_ledger w') (se_id e) t3"
  have live: "filter (\<lambda>e. \<not> ?b e) rows = filter (\<lambda>e. \<not> ?b e) pinned" "filter ?b rows = filter ?b pinned"
    unfolding rows by (simp_all add: filter_empty_conv)
  show ?thesis
  proof (cases "w_pins w' (agent, provider)")
    case None
    with apply_pin_pins [OF pinned] pinned
    have "pinned = sort_by_key (\<lambda>e. headroom_of (w_ledger w') (se_id e) t1) shuffled" by (simp add: apply_pin_def)
    then have "sorted (map (\<lambda>e. headroom_of (w_ledger w') (se_id e) t1) (filter Q pinned))" for Q
      by (simp add: sorted_filter)
    from this [of "\<lambda>e. \<not> ?b e"] this [of ?b] None live rows show ?thesis
      unfolding ticks(2-4) [symmetric] by (simp add: Let_def ticks(1))
  next
    case (Some pin)
    have "se_id (hd rows) = pin_credential_id pin"
      if here: "pin_credential_id pin \<in> se_id ` set (filter (\<lambda>e. \<not> ?b e) rows)"
        and room: "case used_fraction (w_ledger w') (pin_credential_id pin) t2 t2 of None \<Rightarrow> True | Some f \<Rightarrow> \<not> at_limit f"
    proof -
      let ?sorted = "sort_by_key (\<lambda>e. headroom_of (w_ledger w') (se_id e) t1) shuffled"
      from apply_pin_pins [OF pinned] Some
      have at: "pinned_credential agent provider t2 P = (Some (pin_credential_id pin), w_pins w')" by simp
      have "mset pinned = mset ?sorted" using apply_pin_mset [of "w_ledger w'" t2 agent provider ?sorted P] pinned by simp
      then have "set pinned = set ?sorted" by (rule mset_eq_setD)
      with here obtain e where "e \<in> set ?sorted" "se_id e = pin_credential_id pin" unfolding live(1) by auto
      then obtain i where i: "position (\<lambda>e. se_id e = pin_credential_id pin) ?sorted = Some i"
        by (meson position_found)
      with at room pinned have "pinned = swap 0 i ?sorted" by (auto simp: apply_pin_def split: option.splits)
      with position_Some [OF i] have "pinned \<noteq> [] \<and> se_id (hd pinned) = pin_credential_id pin"
        by (auto simp: hd_swap)
      moreover from here have "\<not> is_blocked (w_ledger w') (pin_credential_id pin) t3" by auto
      ultimately show ?thesis unfolding rows by (cases pinned) auto
    qed
    with Some live rows show ?thesis unfolding ticks(2-4) [symmetric] by (auto simp: Let_def ticks(1))
  qed
qed

text \<open>Two accounts, of which the first is inside a block.\<close>

definition second_member :: subscription_entry where
  "second_member = plain_member\<lparr>se_id := ''s2''\<rparr>"

definition pair_api :: "string api" where
  "pair_api = plain_api\<lparr>api_routing := (\<lambda>_ w. (Inr [plain_member, second_member], w))\<rparr>"

definition blocked_world :: world where
  "blocked_world = plain_world\<lparr>w_draws := [Inr 1],
     w_ledger := [(''s1'', usage_default\<lparr>su_block := Some \<lparr>bk_blocked_until_ms = 5, bk_reason = ''x'',
       bk_recorded_at_ms = 0, bk_envelope = None, bk_quota_exhausted = False\<rparr>\<rparr>)]\<rparr>"

lemma pair_eligible:
  "eligible_subscription_entries two_records (line_journal []) [plain_member, second_member] ''codex'' None =
     Inr [plain_member, second_member]"
  by (simp add: eligible_subscription_entries_def plain_member_def second_member_def provider_matches_def
      eq_ignore_ascii_case_def trim_def is_ws_def is_retired_def read_all_def line_journal_def str_lines_def retired_in_def)

lemma pair_draw: "draw_threshold 2 \<le> 1"
  by (simp add: draw_threshold_def)

lemma pair_ledger:
  "headroom_of (w_ledger blocked_world) ''s1'' 0 = Unmeasured" "headroom_of (w_ledger blocked_world) ''s2'' 0 = Unmeasured"
  "is_blocked (w_ledger blocked_world) ''s1'' 0" "\<not> is_blocked (w_ledger blocked_world) ''s2'' 0"
  by (simp_all add: headroom_of_def used_fraction_def usage_for_def blocked_world_def usage_default_def bt_values_def
      f64_reduce_max_def is_blocked_def standing_block_def)

lemma pair_arranged:
  "\<exists>w'. arrange_rows ''codex'' ''a'' [plain_member, second_member] (blocked_world\<lparr>w_draws := ds\<rparr>) =
       ([second_member, plain_member], w') \<and> w_ledger w' = w_ledger blocked_world
       \<and> w_clock w' = (\<lambda>_. 0) \<and> w_pins w' = (\<lambda>_. None)"
proof -
  have "w_clock blocked_world = (\<lambda>_. 0)" "w_pins blocked_world = (\<lambda>_. None)" "se_id plain_member = ''s1''" "se_id second_member = ''s2''"
    by (simp_all add: blocked_world_def plain_world_def plain_member_def second_member_def)
  then show ?thesis
    by (simp add: arrange_rows_def now_ms_def sort_by_key_def pair_ledger apply_pin_def pinned_credential_def)
qed

lemma pair_roster:
  "\<exists>w'. ordered_candidate_rows pair_api ''codex'' ''a'' limited_request blocked_world =
       Some (Inr [second_member, plain_member], w') \<and> w_ledger w' = w_ledger blocked_world
       \<and> w_clock w' = (\<lambda>_. 0) \<and> w_pins w' = (\<lambda>_. None)"
proof -
  obtain w' where arranged: "arrange_rows ''codex'' ''a'' [plain_member, second_member] (blocked_world\<lparr>w_draws := []\<rparr>) =
      ([second_member, plain_member], w')" "w_ledger w' = w_ledger blocked_world"
    "w_clock w' = (\<lambda>_. 0)" "w_pins w' = (\<lambda>_. None)"
    using pair_arranged by blast
  have world: "w_journal blocked_world = line_journal []" "w_draws blocked_world = [Inr 1]"
    by (simp_all add: blocked_world_def plain_world_def)
  have "shuffle_within_equal (\<lambda>_ _. True) [plain_member, second_member] [Inr 1] = Some (Inr [plain_member, second_member], [])"
    by (simp add: shuffle_within_equal_def shuffle_run_def pair_draw swap_def)
  with arranged world show ?thesis
    by (simp add: ordered_candidate_rows_def pair_api_def plain_api_def limited_request_def plain_request_def pair_eligible)
qed

theorem roster_order_witness:
  "\<exists>w' :: world. let t1 = w_clock w' (w_tick w' - 3); t3 = w_clock w' (w_tick w' - 1);
      blocked = (\<lambda>e. is_blocked (w_ledger w') (se_id e) t3);
      rows = [second_member, plain_member]; open_rows = filter (\<lambda>e. \<not> blocked e) rows in
    3 \<le> w_tick w' \<and> rows = open_rows @ filter blocked rows \<and> open_rows = [second_member]
    \<and> sorted (map (\<lambda>e. headroom_of (w_ledger w') (se_id e) t1) open_rows)"
proof -
  obtain w' where roster: "ordered_candidate_rows pair_api ''codex'' ''a'' limited_request blocked_world =
      Some (Inr [second_member, plain_member], w')"
    and w': "w_ledger w' = w_ledger blocked_world" "w_clock w' = (\<lambda>_. 0)" "w_pins w' = (\<lambda>_. None)"
    using pair_roster by blast
  have "\<not> is_blocked (w_ledger w') (se_id second_member) 0" "is_blocked (w_ledger w') (se_id plain_member) 0"
    by (simp_all add: w'(1) blocked_world_def is_blocked_def standing_block_def second_member_def plain_member_def)
  with roster_order [OF roster] show ?thesis
    by (intro exI [of _ w']) (simp add: w'(2,3) Let_def)
qed

end
