(* ===== verification/Event_Streams.thy ===== *)
theory Event_Streams
  imports Rotation
begin

section \<open>Provider event streams\<close>

text \<open>
  \<open>src/src/providers/stream.rs\<close> and \<open>providers/stream/\<close>: the framing of a \<open>text/event-stream\<close> body
  (\<open>frame.rs\<close>), what a framed event means on each provider's wire (\<open>openai_chat.rs\<close>,
  \<open>anthropic_messages.rs\<close>, \<open>openai_responses.rs\<close>, over the helpers of \<open>event.rs\<close>), and the pump that
  reads one committed body to its end (\<open>stream.rs\<close>). A string is here its UTF-8 bytes, as the code's
  \<open>String\<close> is. A body is the list of chunks the connection delivers, each the bytes or the read error
  that ended it; whether the caller's channel takes the n-th item is the argument \<open>hung_up\<close>.
\<close>

subsection \<open>Lossy decoding\<close>

text \<open>
  \<open>String::from_utf8_lossy\<close>: every maximal part of a sequence that is not UTF-8 becomes one U+FFFD. The
  continuation bytes a lead byte asks for are given as ranges.
\<close>

definition REPLACEMENT :: string where
  "REPLACEMENT = [char_of (0xEF :: nat), char_of (0xBF :: nat), char_of (0xBD :: nat)]"

definition continuations :: "nat \<Rightarrow> (nat \<times> nat) list option" where
  "continuations b =
     (if b < 0x80 then Some []
      else if 0xC2 \<le> b \<and> b \<le> 0xDF then Some [(0x80, 0xBF)]
      else if b = 0xE0 then Some [(0xA0, 0xBF), (0x80, 0xBF)]
      else if b = 0xED then Some [(0x80, 0x9F), (0x80, 0xBF)]
      else if 0xE1 \<le> b \<and> b \<le> 0xEF then Some [(0x80, 0xBF), (0x80, 0xBF)]
      else if b = 0xF0 then Some [(0x90, 0xBF), (0x80, 0xBF), (0x80, 0xBF)]
      else if 0xF1 \<le> b \<and> b \<le> 0xF3 then Some [(0x80, 0xBF), (0x80, 0xBF), (0x80, 0xBF)]
      else if b = 0xF4 then Some [(0x80, 0x8F), (0x80, 0xBF), (0x80, 0xBF)]
      else None)"

text \<open>How many bytes continue a sequence, and whether it is complete.\<close>

fun continued :: "(nat \<times> nat) list \<Rightarrow> string \<Rightarrow> nat \<times> bool" where
  "continued [] bs = (0, True)"
| "continued (r # rs) [] = (0, False)"
| "continued ((lo, hi) # rs) (b # bs) =
     (if lo \<le> of_char b \<and> of_char b \<le> hi
      then (case continued rs bs of (n, whole) \<Rightarrow> (Suc n, whole))
      else (0, False))"

function from_utf8_lossy :: "string \<Rightarrow> string" where
  "from_utf8_lossy [] = []"
| "from_utf8_lossy (b # bs) =
     (case continuations (of_char b) of
        None \<Rightarrow> REPLACEMENT @ from_utf8_lossy bs
      | Some rs \<Rightarrow>
          (case continued rs bs of (n, whole) \<Rightarrow>
             (if whole then b # take n bs else REPLACEMENT) @ from_utf8_lossy (drop n bs)))"
  by pat_completeness auto
termination
  by (relation "measure length") auto

subsection \<open>Framing\<close>

record framer =
  fr_buffer :: string
  fr_event :: "string option"
  fr_data :: "string list"

definition framer_new :: framer where
  "framer_new = \<lparr>fr_buffer = [], fr_event = None, fr_data = []\<rparr>"

type_synonym sse_event = "string option \<times> string"

text \<open>\<open>line.split_once(':')\<close>, one space stripped from the value.\<close>

definition split_field :: "string \<Rightarrow> string \<times> string" where
  "split_field line =
     (case split_once (CHR '':'') line of
        Some (name, value) \<Rightarrow> (name, case value of CHR '' '' # spaced \<Rightarrow> spaced | _ \<Rightarrow> value)
      | None \<Rightarrow> (line, []))"

definition take_line :: "string \<Rightarrow> framer \<Rightarrow> sse_event list \<times> framer" where
  "take_line line f =
     (if line = []
      then (if fr_data f \<noteq> []
            then ([(fr_event f, join [NL] (fr_data f))], f\<lparr>fr_event := None, fr_data := []\<rparr>)
            else ([], f\<lparr>fr_event := None\<rparr>))
      else if hd line = CHR '':'' then ([], f)
      else (case split_field line of (name, value) \<Rightarrow>
              ([], if name = ''event'' then f\<lparr>fr_event := Some value\<rparr>
                   else if name = ''data'' then f\<lparr>fr_data := fr_data f @ [value]\<rparr>
                   else f)))"

text \<open>\<open>self.buffer.find('\n')\<close>: the text before it and after it.\<close>

fun split_line :: "string \<Rightarrow> (string \<times> string) option" where
  "split_line [] = None"
| "split_line (c # cs) =
     (if c = NL then Some ([], cs) else map_option (\<lambda>(line, rest). (c # line, rest)) (split_line cs))"

definition trim_end_cr :: "string \<Rightarrow> string" where
  "trim_end_cr s = rev (dropWhile (\<lambda>c. c = CR) (rev s))"

lemma split_line_shorter: "split_line s = Some (line, rest) \<Longrightarrow> length rest < length s"
  by (induction s arbitrary: line) (auto split: if_splits)

lemma take_line_buffer: "take_line line f = (events, f1) \<Longrightarrow> fr_buffer f1 = fr_buffer f"
  by (auto simp: take_line_def split: if_splits prod.splits)

function drain_lines :: "framer \<Rightarrow> sse_event list \<times> framer" where
  "drain_lines f =
     (case split_line (fr_buffer f) of
        None \<Rightarrow> ([], f)
      | Some (line, rest) \<Rightarrow>
          (case take_line (trim_end_cr line) (f\<lparr>fr_buffer := rest\<rparr>) of
             (events, f1) \<Rightarrow> (case drain_lines f1 of (later, f2) \<Rightarrow> (events @ later, f2))))"
  by pat_completeness auto

termination
  by (relation "measure (\<lambda>f. length (fr_buffer f))") (auto dest!: take_line_buffer [OF sym] split_line_shorter)

declare drain_lines.simps [simp del]

definition feed :: "string \<Rightarrow> framer \<Rightarrow> sse_event list \<times> framer" where
  "feed chunk f = drain_lines (f\<lparr>fr_buffer := fr_buffer f @ from_utf8_lossy chunk\<rparr>)"

subsection \<open>Reading a wire's JSON\<close>

text \<open>\<open>Value::pointer\<close>: a key of an object, or a position of an array.\<close>

definition array_index :: "string \<Rightarrow> nat option" where
  "array_index token =
     (if token \<noteq> [] \<and> list_all (\<lambda>c. CHR ''0'' \<le> c \<and> c \<le> CHR ''9'') token \<and> (hd token = CHR ''0'' \<longrightarrow> length token = 1)
      then Some (foldl (\<lambda>n c. 10 * n + (of_char c - 48)) 0 token) else None)"

fun json_step :: "json \<Rightarrow> string \<Rightarrow> json option" where
  "json_step (JObj kvs) token = map_of kvs token"
| "json_step (JArr vs) token =
     (case array_index token of Some i \<Rightarrow> (if i < length vs then Some (vs ! i) else None) | None \<Rightarrow> None)"
| "json_step _ token = None"

fun json_at :: "json \<Rightarrow> string list \<Rightarrow> json option" where
  "json_at v [] = Some v"
| "json_at v (token # tokens) = (case json_step v token of None \<Rightarrow> None | Some v1 \<Rightarrow> json_at v1 tokens)"

declare json_at.simps [simp del]

definition json_str_at :: "json \<Rightarrow> string list \<Rightarrow> string option" where
  "json_str_at v path = Option.bind (json_at v path) as_str"

definition json_u32 :: "json_codec \<Rightarrow> json option \<Rightarrow> string \<Rightarrow> (string, 32 word option) result" where
  "json_u32 J value name =
     (case value of
        None \<Rightarrow> Inr None
      | Some v \<Rightarrow>
          (case as_u64 v of
             None \<Rightarrow> Inl (''provider stream field `'' @ name @ ''` is not a nonnegative integer: '' @ show_json J v)
           | Some n \<Rightarrow>
               (if unat n < 2 ^ 32 then Inr (Some (ucast n))
                else Inl (''provider stream field `'' @ name @ ''` does not fit a token count or index ('' @
                       show_nat (unat n) @ ''): out of range integral type conversion attempted''))))"

definition tool_call_text :: "string \<Rightarrow> 32 word \<Rightarrow> json option \<Rightarrow> string \<Rightarrow> (string, string) result" where
  "tool_call_text event index value name =
     (case Option.bind value as_str of
        Some s \<Rightarrow> Inr s
      | None \<Rightarrow> Inl (''provider stream event `'' @ event @ ''` starts tool call '' @ show_nat (unat index) @
                    '' with no '' @ name))"

definition tool_call_start ::
  "json_codec \<Rightarrow> string \<Rightarrow> json option \<Rightarrow> json option \<Rightarrow> json option \<Rightarrow> (string, stream_delta) result" where
  "tool_call_start J event index i name =
     (case json_u32 J index ''index'' of
        Inl err \<Rightarrow> Inl err
      | Inr None \<Rightarrow> Inl (''provider stream event `'' @ event @ ''` starts a tool call with no index'')
      | Inr (Some n) \<Rightarrow>
          (case tool_call_text event n i ''id'' of
             Inl err \<Rightarrow> Inl err
           | Inr call_id \<Rightarrow>
               (case tool_call_text event n name ''name'' of
                  Inl err \<Rightarrow> Inl err
                | Inr call_name \<Rightarrow> Inr (ToolCallStart n call_id call_name))))"

definition tool_call_index :: "json_codec \<Rightarrow> string \<Rightarrow> json option \<Rightarrow> (string, 32 word) result" where
  "tool_call_index J event index =
     (case json_u32 J index ''index'' of
        Inl err \<Rightarrow> Inl err
      | Inr None \<Rightarrow> Inl (''provider stream event `'' @ event @ ''` carries tool call arguments with no index'')
      | Inr (Some n) \<Rightarrow> Inr n)"

definition stream_error :: "json_codec \<Rightarrow> json option \<Rightarrow> json \<Rightarrow> string" where
  "stream_error J message event =
     (case Option.bind message as_str of
        Some m \<Rightarrow> m
      | None \<Rightarrow> ''provider reported a stream error without a message: '' @ show_json J event)"

text \<open>The usage a pair of meters states: the delta when both are stated, the failure of a malformed one.\<close>

definition stated_usage ::
  "(string, 32 word option) result \<Rightarrow> (string, 32 word option) result \<Rightarrow> (string, stream_item list) result" where
  "stated_usage input out =
     (case (input, out) of
        (Inr (Some i), Inr (Some n)) \<Rightarrow> Inr [Delta (Usage i n)]
      | (Inl cause, _) \<Rightarrow> Inl cause
      | (_, Inl cause) \<Rightarrow> Inl cause
      | _ \<Rightarrow> Inr [])"

definition text_delta :: "(string \<Rightarrow> stream_delta) \<Rightarrow> string option \<Rightarrow> stream_item list" where
  "text_delta kind_of text = (case text of Some (c # cs) \<Rightarrow> [Delta (kind_of (c # cs))] | _ \<Rightarrow> [])"

subsection \<open>The chat-completions wire\<close>

definition OPENAI_DONE :: string where
  "OPENAI_DONE = ''[DONE]''"

definition CHUNK_EVENT :: string where
  "CHUNK_EVENT = ''chat.completion.chunk''"

text \<open>\<open>str::trim\<close> on UTF-8 text: the encodings of the white-space characters, stripped from both ends.\<close>

definition WHITE_SPACE :: "string list" where
  "WHITE_SPACE =
     map (\<lambda>b. [char_of b]) [0x09 :: nat, 0x0A, 0x0B, 0x0C, 0x0D, 0x20] @
     map (map char_of)
       ([[0xC2 :: nat, 0x85], [0xC2, 0xA0], [0xE1, 0x9A, 0x80], [0xE2, 0x80, 0xA8], [0xE2, 0x80, 0xA9],
         [0xE2, 0x80, 0xAF], [0xE2, 0x81, 0x9F], [0xE3, 0x80, 0x80]] @
        map (\<lambda>b. [0xE2, 0x80, b]) [0x80..<0x8B])"

function strip_start :: "string list \<Rightarrow> string \<Rightarrow> string" where
  "strip_start ws s =
     (case List.find (\<lambda>w. w \<noteq> [] \<and> take (length w) s = w) ws of
        None \<Rightarrow> s
      | Some w \<Rightarrow> strip_start ws (drop (length w) s))"
  by pat_completeness auto
termination
proof (relation "measure (\<lambda>(ws, s). length s)")
  fix ws s w
  assume "List.find (\<lambda>w. w \<noteq> [] \<and> take (length w) s = w) ws = Some w"
  then have "w \<noteq> []" and "take (length w) s = w" by (auto simp: find_Some_iff)
  then show "((ws, drop (length w) s), (ws, s)) \<in> measure (\<lambda>(ws, s). length s)"
    by (cases s) auto
qed simp

declare strip_start.simps [simp del]

definition trim_text :: "string \<Rightarrow> string" where
  "trim_text s = rev (strip_start (map rev WHITE_SPACE) (rev (strip_start WHITE_SPACE s)))"

definition chat_stop_reason :: "string \<Rightarrow> stop_reason" where
  "chat_stop_reason reason =
     (if reason = ''stop'' then EndTurn
      else if reason = ''length'' then MaxTokens
      else if reason = ''tool_calls'' \<or> reason = ''function_call'' then ToolUse
      else if reason = ''content_filter'' then ContentFilter
      else OtherReason reason)"

text \<open>The tool calls of one delta: the items, whether one ended the stream, and the indices started.\<close>

fun chat_tool_calls ::
  "json_codec \<Rightarrow> json list \<Rightarrow> 32 word list \<Rightarrow> (string, unit) result \<times> stream_item list \<times> 32 word list" where
  "chat_tool_calls J [] seen = (Inr (), [], seen)"
| "chat_tool_calls J (call # calls) seen =
     (case tool_call_index J CHUNK_EVENT (json_get call ''index'') of
        Inl cause \<Rightarrow> (Inl cause, [], seen)
      | Inr index \<Rightarrow>
          (case (if index \<in> set seen then Inr []
                 else map_sum id (\<lambda>start. [Delta start])
                   (tool_call_start J CHUNK_EVENT (json_get call ''index'') (json_get call ''id'')
                     (json_at call [''function'', ''name'']))) of
             Inl cause \<Rightarrow> (Inl cause, [], List.insert index seen)
           | Inr started \<Rightarrow>
               (case chat_tool_calls J calls (List.insert index seen) of
                  (r, later, seen') \<Rightarrow>
                    (r, started @ text_delta (ToolCallArguments index) (json_str_at call [''function'', ''arguments'']) @ later,
                     seen'))))"

definition chat_choice ::
  "json_codec \<Rightarrow> json \<Rightarrow> 32 word list \<Rightarrow> stream_item list \<times> bool \<times> 32 word list" where
  "chat_choice J choice seen =
     (case json_get choice ''delta'' of
        None \<Rightarrow> ([Failed (''provider chat stream choice carries no delta: '' @ show_json J choice)], True, seen)
      | Some delta \<Rightarrow>
          (let text = text_delta Text (Option.bind (json_get delta ''content'') as_str);
               calls = (case Option.bind (json_get delta ''tool_calls'') as_array of Some cs \<Rightarrow> cs | None \<Rightarrow> []);
               (r, called, seen') = chat_tool_calls J calls seen
           in (case r of
                 Inl cause \<Rightarrow> (text @ called @ [Failed cause], True, seen')
               | Inr _ \<Rightarrow>
                   (text @ called @
                    (case Option.bind (json_get choice ''finish_reason'') as_str of
                       Some reason \<Rightarrow> [Delta (Finish (chat_stop_reason reason))]
                     | None \<Rightarrow> []), False, seen'))))"

definition openai_chat_items ::
  "json_codec \<Rightarrow> string \<Rightarrow> 32 word list \<Rightarrow> stream_item list \<times> bool \<times> 32 word list" where
  "openai_chat_items J data seen =
     (if trim_text data = OPENAI_DONE then ([], True, seen)
      else (case parse_json J data of
              Inl err \<Rightarrow> ([Failed (''provider stream chunk is not JSON ('' @ err @ ''): '' @ data)], True, seen)
            | Inr body \<Rightarrow>
                (case json_get body ''error'' of
                   Some err \<Rightarrow> ([Failed (stream_error J (json_get err ''message'') body)], True, seen)
                 | None \<Rightarrow>
                     (case stated_usage
                         (json_u32 J (json_at body [''usage'', ''prompt_tokens'']) ''usage.prompt_tokens'')
                         (json_u32 J (json_at body [''usage'', ''completion_tokens'']) ''usage.completion_tokens'') of
                        Inl cause \<Rightarrow> ([Failed cause], True, seen)
                      | Inr usage \<Rightarrow>
                          (case json_at body [''choices'', ''0''] of
                             None \<Rightarrow> (usage, False, seen)
                           | Some choice \<Rightarrow>
                               (case chat_choice J choice seen of
                                  (items, ended, seen') \<Rightarrow> (usage @ items, ended, seen')))))))"

subsection \<open>The messages wire\<close>

definition messages_stop_reason :: "string \<Rightarrow> stop_reason" where
  "messages_stop_reason reason =
     (if reason = ''end_turn'' then EndTurn
      else if reason = ''stop_sequence'' then StopSequence
      else if reason = ''max_tokens'' then MaxTokens
      else if reason = ''tool_use'' then ToolUse
      else if reason = ''refusal'' then ContentFilter
      else OtherReason reason)"

text \<open>\<open>AnthropicState\<close>: the input meter the stream stated, if it did.\<close>

type_synonym anthropic_state = "32 word option"

definition messages_block_start :: "json_codec \<Rightarrow> json \<Rightarrow> stream_item list \<times> bool" where
  "messages_block_start J body =
     (if json_str_at body [''content_block'', ''type''] = Some ''tool_use''
      then (case tool_call_start J ''content_block_start'' (json_get body ''index'')
                   (json_at body [''content_block'', ''id'']) (json_at body [''content_block'', ''name'']) of
              Inr start \<Rightarrow> ([Delta start], False)
            | Inl cause \<Rightarrow> ([Failed cause], True))
      else ([], False))"

definition messages_block_delta :: "json_codec \<Rightarrow> json \<Rightarrow> stream_item list \<times> bool" where
  "messages_block_delta J body =
     (let kind = json_str_at body [''delta'', ''type'']
      in if kind = Some ''text_delta'' then (text_delta Text (json_str_at body [''delta'', ''text'']), False)
         else if kind = Some ''input_json_delta''
         then (case json_str_at body [''delta'', ''partial_json''] of
                 Some (c # cs) \<Rightarrow>
                   (case tool_call_index J ''content_block_delta'' (json_get body ''index'') of
                      Inl cause \<Rightarrow> ([Failed cause], True)
                    | Inr index \<Rightarrow> ([Delta (ToolCallArguments index (c # cs))], False))
               | _ \<Rightarrow> ([], False))
         else ([], False))"

definition messages_delta :: "json_codec \<Rightarrow> json \<Rightarrow> anthropic_state \<Rightarrow> stream_item list \<times> bool" where
  "messages_delta J body input =
     (case json_u32 J (json_at body [''usage'', ''output_tokens'']) ''usage.output_tokens'' of
        Inl cause \<Rightarrow> ([Failed cause], True)
      | Inr out \<Rightarrow>
          ((case (input, out) of (Some i, Some n) \<Rightarrow> [Delta (Usage i n)] | _ \<Rightarrow> []) @
           (case json_str_at body [''delta'', ''stop_reason''] of
              Some reason \<Rightarrow> [Delta (Finish (messages_stop_reason reason))]
            | None \<Rightarrow> []), False))"

definition messages_event :: "json_codec \<Rightarrow> string \<Rightarrow> json \<Rightarrow> anthropic_state \<Rightarrow> stream_item list \<times> bool \<times> anthropic_state" where
  "messages_event J kind body state =
     (if kind = ''message_start''
      then (case json_u32 J (json_at body [''message'', ''usage'', ''input_tokens'']) ''message.usage.input_tokens'' of
              Inr reading \<Rightarrow> ([], False, reading)
            | Inl cause \<Rightarrow> ([Failed cause], True, state))
      else if kind = ''content_block_start''
      then (case messages_block_start J body of (items, ended) \<Rightarrow> (items, ended, state))
      else if kind = ''content_block_delta''
      then (case messages_block_delta J body of (items, ended) \<Rightarrow> (items, ended, state))
      else if kind = ''message_delta''
      then (case messages_delta J body state of (items, ended) \<Rightarrow> (items, ended, state))
      else if kind = ''message_stop'' then ([], True, state)
      else if kind = ''error''
      then ([Failed (stream_error J (json_at body [''error'', ''message'']) body)], True, state)
      else ([], False, state))"

definition anthropic_items ::
  "json_codec \<Rightarrow> string option \<Rightarrow> string \<Rightarrow> anthropic_state \<Rightarrow> stream_item list \<times> bool \<times> anthropic_state" where
  "anthropic_items J event data state =
     (case parse_json J data of
        Inl err \<Rightarrow> ([Failed (''provider stream event is not JSON ('' @ err @ ''): '' @ data)], True, state)
      | Inr body \<Rightarrow>
          (case (event, Option.bind (json_get body ''type'') as_str) of
             (Some kind, _) \<Rightarrow> messages_event J kind body state
           | (None, Some kind) \<Rightarrow> messages_event J kind body state
           | (None, None) \<Rightarrow> ([Failed (''provider stream event names no type: '' @ data)], True, state)))"

subsection \<open>The Responses wire\<close>

definition incomplete_reason :: "string option \<Rightarrow> stop_reason" where
  "incomplete_reason reason =
     (if reason = Some ''max_output_tokens'' then MaxTokens
      else if reason = Some ''content_filter'' then ContentFilter
      else IncompleteAnswer reason)"

definition responses_item_added :: "json_codec \<Rightarrow> json \<Rightarrow> stream_item list \<times> bool" where
  "responses_item_added J body =
     (if json_str_at body [''item'', ''type''] = Some ''function_call''
      then (case tool_call_start J ''response.output_item.added'' (json_get body ''output_index'')
                   (case json_at body [''item'', ''call_id''] of
                      Some call_id \<Rightarrow> Some call_id
                    | None \<Rightarrow> json_at body [''item'', ''id''])
                   (json_at body [''item'', ''name'']) of
              Inr start \<Rightarrow> ([Delta start], False)
            | Inl cause \<Rightarrow> ([Failed cause], True))
      else ([], False))"

definition responses_arguments :: "json_codec \<Rightarrow> json \<Rightarrow> stream_item list \<times> bool" where
  "responses_arguments J body =
     (case Option.bind (json_get body ''delta'') as_str of
        Some (c # cs) \<Rightarrow>
          (case tool_call_index J ''response.function_call_arguments.delta'' (json_get body ''output_index'') of
             Inl cause \<Rightarrow> ([Failed cause], True)
           | Inr index \<Rightarrow> ([Delta (ToolCallArguments index (c # cs))], False))
      | _ \<Rightarrow> ([], False))"

definition responses_ended :: "json_codec \<Rightarrow> string \<Rightarrow> json \<Rightarrow> stream_item list \<times> bool" where
  "responses_ended J kind body =
     (case stated_usage
         (json_u32 J (json_at body [''response'', ''usage'', ''input_tokens'']) ''response.usage.input_tokens'')
         (json_u32 J (json_at body [''response'', ''usage'', ''output_tokens'']) ''response.usage.output_tokens'') of
        Inl cause \<Rightarrow> ([Failed cause], True)
      | Inr usage \<Rightarrow>
          (let reason =
             (if kind = ''response.incomplete''
              then incomplete_reason (json_str_at body [''response'', ''incomplete_details'', ''reason''])
              else if (case Option.bind (json_at body [''response'', ''output'']) as_array of
                         Some out \<Rightarrow> list_ex (\<lambda>item. Option.bind (json_get item ''type'') as_str = Some ''function_call'') out
                       | None \<Rightarrow> False)
              then ToolUse else EndTurn)
           in (usage @ [Delta (Finish reason)], True)))"

definition responses_items :: "json_codec \<Rightarrow> string option \<Rightarrow> string \<Rightarrow> stream_item list \<times> bool" where
  "responses_items J event data =
     (case parse_json J data of
        Inl err \<Rightarrow> ([Failed (''provider stream event is not JSON ('' @ err @ ''): '' @ data)], True)
      | Inr body \<Rightarrow>
          (case (case event of Some e \<Rightarrow> Some e | None \<Rightarrow> Option.bind (json_get body ''type'') as_str) of
             None \<Rightarrow> ([], False)
           | Some kind \<Rightarrow>
               (if kind = ''response.output_text.delta''
                then (text_delta Text (Option.bind (json_get body ''delta'') as_str), False)
                else if kind = ''response.output_item.added'' then responses_item_added J body
                else if kind = ''response.function_call_arguments.delta'' then responses_arguments J body
                else if kind = ''response.completed'' \<or> kind = ''response.incomplete'' then responses_ended J kind body
                else if kind = ''response.failed'' \<or> kind = ''error''
                then ([Failed (stream_error J
                        (case json_at body [''response'', ''error'', ''message''] of
                           Some m \<Rightarrow> Some m
                         | None \<Rightarrow> (case json_at body [''error'', ''message''] of
                                     Some m \<Rightarrow> Some m
                                   | None \<Rightarrow> json_get body ''message'')) body)], True)
                else ([], False))))"

subsection \<open>The pump\<close>

record pump =
  pm_framer :: framer
  pm_anthropic :: anthropic_state
  pm_seen :: "32 word list"
  pm_terminal :: bool
  pm_sent :: "stream_item list"

definition pump_start :: pump where
  "pump_start =
     \<lparr>pm_framer = framer_new, pm_anthropic = None, pm_seen = [], pm_terminal = False, pm_sent = []\<rparr>"

definition wire_items :: "json_codec \<Rightarrow> wire_protocol \<Rightarrow> sse_event \<Rightarrow> pump \<Rightarrow> stream_item list \<times> bool \<times> pump" where
  "wire_items J wire ev p =
     (case wire of
        OpenAiChat \<Rightarrow>
          (case openai_chat_items J (snd ev) (pm_seen p) of (items, ended, seen) \<Rightarrow> (items, ended, p\<lparr>pm_seen := seen\<rparr>))
      | AnthropicMessages \<Rightarrow>
          (case anthropic_items J (fst ev) (snd ev) (pm_anthropic p) of
             (items, ended, state) \<Rightarrow> (items, ended, p\<lparr>pm_anthropic := state\<rparr>))
      | OpenAiResponses \<Rightarrow> (case responses_items J (fst ev) (snd ev) of (items, ended) \<Rightarrow> (items, ended, p))
      | TypeSafeSystemOne \<Rightarrow> ([Failed ''provider serves typed decisions only''], True, p))"

text \<open>Sending items until the caller hangs up or one failed; whether the task goes on.\<close>

fun send_items :: "(nat \<Rightarrow> bool) \<Rightarrow> stream_item list \<Rightarrow> pump \<Rightarrow> bool \<times> pump" where
  "send_items hung_up [] p = (True, p)"
| "send_items hung_up (item # items) p =
     (if hung_up (length (pm_sent p)) then (False, p)
      else (let p1 = p\<lparr>pm_sent := pm_sent p @ [item]\<rparr>
            in (case item of Failed _ \<Rightarrow> (False, p1) | _ \<Rightarrow> send_items hung_up items p1)))"

fun pump_events ::
  "json_codec \<Rightarrow> wire_protocol \<Rightarrow> (nat \<Rightarrow> bool) \<Rightarrow> sse_event list \<Rightarrow> pump \<Rightarrow> bool \<times> pump" where
  "pump_events J wire hung_up [] p = (True, p)"
| "pump_events J wire hung_up (ev # evs) p =
     (case wire_items J wire ev p of (items, ended, p1) \<Rightarrow>
       (case send_items hung_up items p1 of
          (False, p2) \<Rightarrow> (False, p2)
        | (True, p2) \<Rightarrow> pump_events J wire hung_up evs (if ended then p2\<lparr>pm_terminal := True\<rparr> else p2)))"

definition send_last :: "(nat \<Rightarrow> bool) \<Rightarrow> stream_item \<Rightarrow> pump \<Rightarrow> pump" where
  "send_last hung_up item p = snd (send_items hung_up [item] p)"

text \<open>\<open>spawn\<close>: the chunks of one body, each the bytes or the read error; the items the caller was sent.\<close>

fun pump_body ::
  "json_codec \<Rightarrow> wire_protocol \<Rightarrow> (nat \<Rightarrow> bool) \<Rightarrow> (string, string) result list \<Rightarrow> pump \<Rightarrow> pump" where
  "pump_body J wire hung_up [] p =
     send_last hung_up
       (if pm_terminal p then Done else Failed ''provider stream ended before a terminal event'') p"
| "pump_body J wire hung_up (Inl err # chunks) p =
     send_last hung_up (Failed (''provider stream read failed: '' @ err)) p"
| "pump_body J wire hung_up (Inr chunk # chunks) p =
     (case feed chunk (pm_framer p) of (events, f) \<Rightarrow>
       (case pump_events J wire hung_up events (p\<lparr>pm_framer := f\<rparr>) of
          (False, p1) \<Rightarrow> p1
        | (True, p1) \<Rightarrow> pump_body J wire hung_up chunks p1))"

definition spawn :: "json_codec \<Rightarrow> wire_protocol \<Rightarrow> (nat \<Rightarrow> bool) \<Rightarrow> (string, string) result list \<Rightarrow> stream_item list" where
  "spawn J wire hung_up chunks = pm_sent (pump_body J wire hung_up chunks pump_start)"

subsection \<open>Framing does not see chunk boundaries\<close>

function valid_utf8 :: "string \<Rightarrow> bool" where
  "valid_utf8 [] = True"
| "valid_utf8 (b # bs) =
     (case continuations (of_char b) of
        None \<Rightarrow> False
      | Some rs \<Rightarrow> (case continued rs bs of (n, whole) \<Rightarrow> whole \<and> valid_utf8 (drop n bs)))"
  by pat_completeness auto
termination
  by (relation "measure length") auto

lemma continued_append:
  "continued rs bs = (n, True) \<Longrightarrow> continued rs (bs @ cs) = (n, True) \<and> n \<le> length bs"
  by (induction rs bs arbitrary: n rule: continued.induct) (auto split: if_splits prod.splits)

lemma lossy_append: "valid_utf8 a \<Longrightarrow> from_utf8_lossy (a @ b) = a @ from_utf8_lossy b"
proof (induction a rule: valid_utf8.induct)
  case (2 c cs)
  then obtain rs n where lead: "continuations (of_char c) = Some rs" "continued rs cs = (n, True)"
    and rest: "valid_utf8 (drop n cs)"
    by (auto split: option.splits prod.splits)
  from continued_append [OF lead(2)] have more: "continued rs (cs @ b) = (n, True)" "n \<le> length cs" by auto
  have "from_utf8_lossy (drop n cs @ b) = drop n cs @ from_utf8_lossy b"
    using 2 lead rest by auto
  with lead more show ?case by simp
qed simp

lemma lossy_concat:
  "list_all valid_utf8 chunks \<Longrightarrow> from_utf8_lossy (concat chunks) = concat (map from_utf8_lossy chunks)"
proof (induction chunks)
  case (Cons c cs)
  then show ?case using lossy_append [of c "[]"] by (simp add: lossy_append)
qed simp

lemma split_line_append:
  "split_line (a @ b) = (case split_line a of
     Some (line, rest) \<Rightarrow> Some (line, rest @ b)
   | None \<Rightarrow> map_option (\<lambda>(line, rest). (a @ line, rest)) (split_line b))"
  by (induction a) (auto simp: option.map_comp comp_def case_prod_unfold option.map_ident split: option.splits)

lemma take_line_push:
  "take_line line (f\<lparr>fr_buffer := b\<rparr>) = apsnd (\<lambda>g. g\<lparr>fr_buffer := b\<rparr>) (take_line line f)"
  by (simp add: take_line_def split: prod.split)

text \<open>Draining one text and then another is draining both.\<close>

lemma drain_append:
  "drain_lines (f\<lparr>fr_buffer := fr_buffer f @ b\<rparr>) =
     (case drain_lines f of (events, g) \<Rightarrow> apfst ((@) events) (drain_lines (g\<lparr>fr_buffer := fr_buffer g @ b\<rparr>)))"
proof (induction f rule: drain_lines.induct)
  case (1 f)
  show ?case
  proof (cases "split_line (fr_buffer f)")
    case None
    then show ?thesis by (simp add: drain_lines.simps [of f] apfst_def map_prod_def split: prod.split)
  next
    case (Some lr)
    then obtain line rest where split: "split_line (fr_buffer f) = Some (line, rest)" by (cases lr) auto
    obtain events f1 where taken: "take_line (trim_end_cr line) (f\<lparr>fr_buffer := rest\<rparr>) = (events, f1)" by fastforce
    then have pushed: "take_line (trim_end_cr line) (f\<lparr>fr_buffer := rest @ b\<rparr>) = (events, f1\<lparr>fr_buffer := rest @ b\<rparr>)"
      by (cases "take_line (trim_end_cr line) f") (auto simp: take_line_push)
    have buffer: "fr_buffer f1 = rest" using take_line_buffer [OF taken] by simp
    have IH: "drain_lines (f1\<lparr>fr_buffer := fr_buffer f1 @ b\<rparr>) =
      (case drain_lines f1 of (events, g) \<Rightarrow> apfst ((@) events) (drain_lines (g\<lparr>fr_buffer := fr_buffer g @ b\<rparr>)))"
      by (rule "1.IH" [OF split refl taken [symmetric]])
    show ?thesis
      unfolding drain_lines.simps [of f] drain_lines.simps [of "f\<lparr>fr_buffer := fr_buffer f @ b\<rparr>"]
      using split taken pushed IH buffer
      by (simp add: split_line_append split: prod.splits) (auto simp: apfst_def map_prod_def split: prod.splits)
  qed
qed

fun feed_all :: "string list \<Rightarrow> framer \<Rightarrow> sse_event list \<times> framer" where
  "feed_all [] f = ([], f)"
| "feed_all (chunk # chunks) f = (case feed chunk f of (events, g) \<Rightarrow> apfst ((@) events) (feed_all chunks g))"

lemma drain_drained: "drain_lines f = (events, g) \<Longrightarrow> split_line (fr_buffer g) = None"
proof (induction f arbitrary: events rule: drain_lines.induct)
  case (1 f)
  show ?case
  proof (cases "split_line (fr_buffer f)")
    case None
    with 1 show ?thesis by (simp add: drain_lines.simps)
  next
    case (Some lr)
    then obtain line rest where split: "split_line (fr_buffer f) = Some (line, rest)" by (cases lr) auto
    obtain taken f1 where taken: "take_line (trim_end_cr line) (f\<lparr>fr_buffer := rest\<rparr>) = (taken, f1)" by fastforce
    with split "1.prems" obtain later where "drain_lines f1 = (later, g)"
      by (auto simp: drain_lines.simps [of f] split: prod.splits)
    then show ?thesis by (rule "1.IH" [OF split refl taken [symmetric]])
  qed
qed

lemma feed_all_drain:
  "split_line (fr_buffer f) = None \<Longrightarrow>
   feed_all chunks f = drain_lines (f\<lparr>fr_buffer := fr_buffer f @ concat (map from_utf8_lossy chunks)\<rparr>)"
proof (induction chunks arbitrary: f)
  case Nil
  then show ?case by (simp add: drain_lines.simps)
next
  case (Cons c cs)
  obtain events g where fed: "feed c f = (events, g)" by fastforce
  then have g: "split_line (fr_buffer g) = None" by (auto simp: feed_def dest: drain_drained)
  show ?case
    using Cons.IH [OF g] fed drain_append [of "f\<lparr>fr_buffer := fr_buffer f @ from_utf8_lossy c\<rparr>" "concat (map from_utf8_lossy cs)"]
    by (simp add: feed_def)
qed

lemma feed_all_concat:
  assumes "list_all valid_utf8 chunks" and "split_line (fr_buffer f) = None"
  shows "feed_all chunks f = feed_all [concat chunks] f"
  using feed_all_drain [OF assms(2)] lossy_concat [OF assms(1)] by simp

subsection \<open>The pump is a fold over the framed events\<close>

lemma pump_events_append:
  "pump_events J wire hung_up (a @ b) p =
     (case pump_events J wire hung_up a p of (False, q) \<Rightarrow> (False, q) | (True, q) \<Rightarrow> pump_events J wire hung_up b q)"
  by (induction a arbitrary: p) (auto split: prod.splits bool.splits)

lemma framer_first:
  "(p :: pump)\<lparr>pm_framer := f, pm_sent := s\<rparr> = p\<lparr>pm_sent := s, pm_framer := f\<rparr>"
  "p\<lparr>pm_framer := f, pm_terminal := t\<rparr> = p\<lparr>pm_terminal := t, pm_framer := f\<rparr>"
  by simp_all

lemma wire_items_framer:
  "wire_items J wire ev (p\<lparr>pm_framer := f\<rparr>) = apsnd (apsnd (\<lambda>q. q\<lparr>pm_framer := f\<rparr>)) (wire_items J wire ev p)"
  by (simp add: wire_items_def split: wire_protocol.split prod.split)

lemma send_items_framer:
  "send_items hung_up items (p\<lparr>pm_framer := f\<rparr>) = apsnd (\<lambda>q. q\<lparr>pm_framer := f\<rparr>) (send_items hung_up items p)"
  by (induction items arbitrary: p) (auto simp: Let_def framer_first split: stream_item.split)

lemma pump_events_framer:
  "pump_events J wire hung_up evs (p\<lparr>pm_framer := f\<rparr>) = apsnd (\<lambda>q. q\<lparr>pm_framer := f\<rparr>) (pump_events J wire hung_up evs p)"
proof (induction evs arbitrary: p)
  case (Cons ev evs)
  obtain items ended p1 where wire: "wire_items J wire ev p = (items, ended, p1)" by (metis prod_cases3)
  obtain go p2 where sent: "send_items hung_up items p1 = (go, p2)" by fastforce
  show ?case
    using Cons.IH [of "p2\<lparr>pm_terminal := True\<rparr>"] Cons.IH [of p2]
    by (cases go) (simp_all add: wire wire_items_framer sent send_items_framer framer_first)
qed simp

text \<open>What the caller is sent for a body that arrives whole, over all the events framed from it.\<close>

definition sent_for :: "json_codec \<Rightarrow> wire_protocol \<Rightarrow> (nat \<Rightarrow> bool) \<Rightarrow> sse_event list \<Rightarrow> pump \<Rightarrow> stream_item list" where
  "sent_for J wire hung_up events p =
     (case pump_events J wire hung_up events p of
        (False, q) \<Rightarrow> pm_sent q
      | (True, q) \<Rightarrow> pm_sent (pump_body J wire hung_up [] q))"

lemma pump_body_events:
  "pm_sent (pump_body J wire hung_up (map Inr chunks) p) =
     sent_for J wire hung_up (fst (feed_all chunks (pm_framer p))) p"
proof (induction chunks arbitrary: p)
  case (Cons c cs)
  obtain events f where fed: "feed c (pm_framer p) = (events, f)" by fastforce
  obtain go q where run: "pump_events J wire hung_up events p = (go, q)" by fastforce
  obtain later g where rest: "feed_all cs f = (later, g)" by fastforce
  have last: "pm_sent (send_last hung_up item (p\<lparr>pm_framer := f\<rparr>)) = pm_sent (send_last hung_up item p)" for item p
    by (simp add: send_last_def send_items_framer del: send_items.simps)
  have "sent_for J wire hung_up later (q\<lparr>pm_framer := f\<rparr>) = sent_for J wire hung_up later q"
    by (cases "pump_events J wire hung_up later q") (simp add: sent_for_def pump_events_framer last split: bool.split)
  with Cons.IH [of "q\<lparr>pm_framer := f\<rparr>"] show ?case
    by (cases go) (simp_all add: fed run rest pump_events_framer, simp_all add: sent_for_def run pump_events_append)
qed (simp add: sent_for_def)


text \<open>
  C39. What a caller of a stream is sent depends on the bytes of the body, not on how the network cut
  them: a body whose chunks end between characters yields, on every wire and for every caller, the items it yields when
  it arrives whole.
\<close>

theorem items_ignore_chunk_boundaries:
  assumes "list_all valid_utf8 chunks"
  shows "spawn J wire hung_up (map Inr chunks) = spawn J wire hung_up [Inr (concat chunks)]"
proof -
  have "feed_all chunks framer_new = feed_all [concat chunks] framer_new"
    by (rule feed_all_concat [OF assms]) (simp add: framer_new_def)
  then show ?thesis
    using pump_body_events [of J wire hung_up chunks pump_start] pump_body_events [of J wire hung_up "[concat chunks]" pump_start]
    by (simp add: spawn_def pump_start_def)
qed

definition event_bytes :: "string list" where
  "event_bytes = [''data: {}'', [NL], [NL]]"

theorem items_ignore_chunk_boundaries_witness:
  "spawn two_records OpenAiResponses (\<lambda>_. False) (map Inr event_bytes) =
     spawn two_records OpenAiResponses (\<lambda>_. False) [Inr (concat event_bytes)]"
proof -
  have "list_all valid_utf8 event_bytes" by (simp add: event_bytes_def continuations_def NL_def)
  then show ?thesis by (rule items_ignore_chunk_boundaries)
qed

definition E_ACUTE :: string where
  "E_ACUTE = [char_of (0xC3 :: nat), char_of (0xA9 :: nat)]"

text \<open>
  A character cut by a chunk boundary is lost: each chunk is decoded on its own, so the two halves
  become two replacement characters in the event's data, where the whole body yields the character.
\<close>

theorem cut_character_is_replaced:
  "fst (feed_all [''data: '' @ take 1 E_ACUTE, drop 1 E_ACUTE @ [NL, NL]] framer_new) = [(None, REPLACEMENT @ REPLACEMENT)]
   \<and> fst (feed_all [''data: '' @ E_ACUTE @ [NL, NL]] framer_new) = [(None, E_ACUTE)]"
  by code_simp

subsection \<open>The terminal item\<close>

text \<open>No wire says \<open>Done\<close>; only the pump does.\<close>

lemma not_done_parts:
  "stated_usage a b = Inr items \<Longrightarrow> Done \<notin> set items"
  "Done \<notin> set (text_delta k t)"
  by (auto simp: stated_usage_def text_delta_def split: sum.splits option.splits list.splits)

lemma chat_tool_calls_not_done: "chat_tool_calls J calls seen = (r, items, seen') \<Longrightarrow> Done \<notin> set items"
proof (induction calls arbitrary: r items seen seen')
  case (Cons call calls)
  then show ?case by (auto split: sum.splits prod.splits if_splits simp: map_sum_def not_done_parts(2))
qed simp

lemma chat_choice_not_done:
  assumes "chat_choice J choice seen = (items, ended, seen')"
  shows "Done \<notin> set items"
proof (cases "json_get choice ''delta''")
  case None
  with assms show ?thesis by (auto simp: chat_choice_def)
next
  case (Some delta)
  define calls where "calls = (case Option.bind (json_get delta ''tool_calls'') as_array of Some cs \<Rightarrow> cs | None \<Rightarrow> [])"
  obtain r called seen1 where called: "chat_tool_calls J calls seen = (r, called, seen1)" by (metis prod_cases3)
  from chat_tool_calls_not_done [OF called] assms Some show ?thesis
    by (cases r) (auto simp: chat_choice_def Let_def calls_def [symmetric] called not_done_parts(2) split: option.splits)
qed

lemma openai_chat_not_done: "Done \<notin> set (fst (openai_chat_items J data seen))"
proof -
  have "Done \<notin> set (fst (case chat_choice J choice seen of (items, ended, seen') \<Rightarrow> (usage @ items, ended, seen')))"
    if "Done \<notin> set usage" for usage choice
    using that chat_choice_not_done [of J choice seen] by (cases "chat_choice J choice seen") auto
  then show ?thesis
    by (simp add: openai_chat_items_def not_done_parts(1) split: sum.split option.split)
qed

lemma messages_not_done:
  "Done \<notin> set (fst (messages_block_start J body))" "Done \<notin> set (fst (messages_block_delta J body))"
  "Done \<notin> set (fst (messages_delta J body state))"
  by (simp_all add: messages_block_start_def messages_block_delta_def messages_delta_def Let_def not_done_parts(2)
      split: sum.split option.split list.split)

lemma anthropic_not_done: "Done \<notin> set (fst (anthropic_items J event data state))"
proof -
  have "Done \<notin> set (fst (messages_event J kind body state))" for kind body
    using messages_not_done [of J body] messages_not_done(3) [of J body state]
    by (simp add: messages_event_def case_prod_unfold split: sum.split)
  then show ?thesis by (simp add: anthropic_items_def split: sum.split option.split)
qed

lemma responses_not_done: "Done \<notin> set (fst (responses_items J event data))"
proof -
  have "Done \<notin> set (fst (responses_item_added J body))" "Done \<notin> set (fst (responses_arguments J body))"
    "Done \<notin> set (fst (responses_ended J kind body))" for body kind
    by (simp_all add: responses_item_added_def responses_arguments_def responses_ended_def Let_def not_done_parts(1)
        split: sum.split option.split list.split)
  then show ?thesis
    by (simp add: responses_items_def not_done_parts(2) split: sum.split option.split)
qed

lemma wire_items_keeps:
  "wire_items J wire ev p = (items, ended, p') \<Longrightarrow>
     Done \<notin> set items \<and> pm_sent p' = pm_sent p"
  using openai_chat_not_done [of J "snd ev" "pm_seen p"] anthropic_not_done [of J "fst ev" "snd ev" "pm_anthropic p"]
    responses_not_done [of J "fst ev" "snd ev"]
  by (cases wire) (auto simp: wire_items_def case_prod_unfold)

text \<open>
  A task that goes on has sent no terminal item; one that stopped sent its only one last, or its caller hung up.
\<close>

definition settled_stream :: "(nat \<Rightarrow> bool) \<Rightarrow> stream_item list \<Rightarrow> bool" where
  "settled_stream hung_up sent =
     (list_all (\<lambda>i. \<not> terminal_item i) (butlast sent) \<and>
      (hung_up (length sent) \<and> list_all (\<lambda>i. \<not> terminal_item i) sent \<or> sent \<noteq> [] \<and> terminal_item (last sent)))"

lemma send_items_settles:
  assumes "send_items hung_up items p = (go, p')" and "Done \<notin> set items"
    and "list_all (\<lambda>i. \<not> terminal_item i) (pm_sent p)"
  shows "if go then list_all (\<lambda>i. \<not> terminal_item i) (pm_sent p') else settled_stream hung_up (pm_sent p')"
  using assms
proof (induction items arbitrary: p)
  case (Cons item items)
  let ?p = "p\<lparr>pm_sent := pm_sent p @ [item]\<rparr>"
  show ?case
  proof (cases "hung_up (length (pm_sent p))")
    case True
    with Cons.prems show ?thesis by (auto simp: settled_stream_def list.pred_set dest: in_set_butlastD)
  next
    case go_on: False
    show ?thesis
    proof (cases item)
      case (Failed m)
      with Cons.prems go_on show ?thesis by (auto simp: settled_stream_def)
    next
      case (Delta d)
      with go_on Cons.prems(1) have "send_items hung_up items ?p = (go, p')" by simp
      then show ?thesis by (rule Cons.IH) (use Cons.prems Delta in simp_all)
    next
      case Done
      with Cons.prems(2) show ?thesis by simp
    qed
  qed
qed simp

lemma pump_events_settles:
  assumes "pump_events J wire hung_up evs p = (go, p')" and "list_all (\<lambda>i. \<not> terminal_item i) (pm_sent p)"
  shows "if go then list_all (\<lambda>i. \<not> terminal_item i) (pm_sent p') else settled_stream hung_up (pm_sent p')"
  using assms
proof (induction evs arbitrary: p)
  case (Cons ev evs)
  obtain items ended p1 where wire: "wire_items J wire ev p = (items, ended, p1)" by (metis prod_cases3)
  obtain go1 p2 where sent: "send_items hung_up items p1 = (go1, p2)" by fastforce
  note step = send_items_settles [OF sent] wire_items_keeps [OF wire]
  show ?case
  proof (cases go1)
    case True
    with step Cons.prems(2) have "list_all (\<lambda>i. \<not> terminal_item i) (pm_sent p2)" by simp
    with Cons.IH [of p2] Cons.IH [of "p2\<lparr>pm_terminal := True\<rparr>"] Cons.prems(1) True wire sent show ?thesis
      by (auto split: if_splits)
  next
    case False
    with Cons.prems step wire sent show ?thesis by auto
  qed
qed simp

lemma send_last_settles:
  assumes "list_all (\<lambda>i. \<not> terminal_item i) (pm_sent p)" and "terminal_item item"
  shows "settled_stream hung_up (pm_sent (send_last hung_up item p))"
  using assms by (cases item) (auto simp: send_last_def settled_stream_def list.pred_set dest: in_set_butlastD)

lemma pump_body_settles:
  "list_all (\<lambda>i. \<not> terminal_item i) (pm_sent p) \<Longrightarrow> settled_stream hung_up (pm_sent (pump_body J wire hung_up chunks p))"
proof (induction J wire hung_up chunks p rule: pump_body.induct)
  case (3 J wire hung_up chunk chunks p)
  obtain events f where fed: "feed chunk (pm_framer p) = (events, f)" by fastforce
  obtain go p1 where run: "pump_events J wire hung_up events (p\<lparr>pm_framer := f\<rparr>) = (go, p1)" by fastforce
  from pump_events_settles [OF run] "3.prems" have "if go then list_all (\<lambda>i. \<not> terminal_item i) (pm_sent p1) else settled_stream hung_up (pm_sent p1)"
    by simp
  with 3 fed run show ?case by (cases go) auto
qed (simp_all add: send_last_settles)

lemma pump_settles: "settled_stream hung_up (spawn J wire hung_up chunks)"
  unfolding spawn_def by (rule pump_body_settles) (simp add: pump_start_def)

text \<open>
  A stream owes its caller exactly one terminal item: whatever the body holds and on whichever wire, what
  is sent before the last item is not terminal, and the last item is, unless the caller hung up
  before it.
\<close>

theorem one_terminal_item:
  "let sent = spawn J wire hung_up chunks
   in list_all (\<lambda>i. \<not> terminal_item i) (butlast sent)
    \<and> (hung_up (length sent) \<or> (\<exists>before last_item. sent = before @ [last_item] \<and> terminal_item last_item))"
  using pump_settles [of hung_up J wire chunks]
  by (cases "spawn J wire hung_up chunks" rule: rev_cases) (auto simp: settled_stream_def list.pred_set)

end
