(* ===== verification/Discovery.thy ===== *)
theory Discovery
  imports Rotation_Walks "HOL-Library.Sublist"
begin

section \<open>Which models the pool publishes\<close>

text \<open>
  \<open>src/src/subscription_dispatch/dispatch/catalogue/\<close> (\<open>cache.rs\<close>, \<open>subscription_models.rs\<close>, the refresh
  of \<open>cache/routing.rs\<close>), \<open>src/src/types/declared_age.rs\<close> and the pool's standing
  (\<open>pool/account/standing.rs\<close>): each subscription's provider asked for its models once, what it
  answered or refused remembered, and the pool that can serve nothing refused before anything is read.
  Instants of the monotonic clock are nanoseconds. While a walk waits for a subscription's discovery lock
  other tasks run: \<open>api_lock_wait\<close>.
\<close>

subsection \<open>The caches\<close>

definition now_instant :: "world \<Rightarrow> nat \<times> world" where
  "now_instant w = (w_instants w (w_instant_tick w), w\<lparr>w_instant_tick := Suc (w_instant_tick w)\<rparr>)"

text \<open>\<open>read_at.elapsed() < age\<close>; an undeclared or refused age serves nothing.\<close>

definition still_fresh :: "(string, nat option) result \<Rightarrow> nat \<Rightarrow> world \<Rightarrow> bool \<times> world" where
  "still_fresh age read_at w =
     (case age of
        Inr (Some seconds) \<Rightarrow>
          (case now_instant w of (now, w1) \<Rightarrow> (now - read_at < seconds * 10 ^ 9, w1))
      | _ \<Rightarrow> (False, w))"

definition cache_key :: "string \<Rightarrow> string \<Rightarrow> string" where
  "cache_key provider sid = provider @ '':'' @ sid"

definition cached_subscription_models_since ::
  "'f api \<Rightarrow> string \<Rightarrow> nat \<Rightarrow> world \<Rightarrow> registry_model list option \<times> world" where
  "cached_subscription_models_since A key since w =
     (case w_models_cache w key of
        None \<Rightarrow> (None, w)
      | Some (fetched, models) \<Rightarrow>
          (case still_fresh (api_model_age A) fetched w of
             (fresh, w1) \<Rightarrow> (if fresh \<or> fetched \<ge> since then Some models else None, w1)))"

definition cached_discovery_refusal_since ::
  "'f api \<Rightarrow> string \<Rightarrow> nat \<Rightarrow> world \<Rightarrow> refusal option \<times> world" where
  "cached_discovery_refusal_since A key since w =
     (case w_failures_cache w key of
        None \<Rightarrow> (None, w)
      | Some (fetched, refused) \<Rightarrow>
          (case still_fresh (api_failure_age A) fetched w of
             (fresh, w1) \<Rightarrow> (if fresh \<or> fetched \<ge> since then Some refused else None, w1)))"

definition discovery_failure :: "'f api \<Rightarrow> string \<Rightarrow> string \<Rightarrow> world \<Rightarrow> string option \<times> world" where
  "discovery_failure A provider sid w =
     (case w_failures_cache w (cache_key (trim provider) sid) of
        None \<Rightarrow> (None, w)
      | Some (fetched, refused) \<Rightarrow>
          (case still_fresh (api_failure_age A) fetched w of
             (fresh, w1) \<Rightarrow> (if fresh then Some (rf_message refused) else None, w1)))"

definition remember_models :: "string \<Rightarrow> registry_model list \<Rightarrow> world \<Rightarrow> world" where
  "remember_models key models w =
     (case now_instant w of (now, w1) \<Rightarrow> w1\<lparr>w_models_cache := (w_models_cache w1)(key \<mapsto> (now, models))\<rparr>)"

definition remember_discovery_refusal :: "string \<Rightarrow> refusal \<Rightarrow> world \<Rightarrow> world" where
  "remember_discovery_refusal key refused w =
     (case now_instant w of (now, w1) \<Rightarrow> w1\<lparr>w_failures_cache := (w_failures_cache w1)(key \<mapsto> (now, refused))\<rparr>)"

subsection \<open>One discovery\<close>

record discovery =
  dc_refused_by_ledger :: "string list"
  dc_awaiting_sign_in :: "string list"
  dc_read :: "string list"
  dc_models :: "(string, registry_model) btmap"
  dc_failures :: "refusal list"

definition discovery_start :: discovery where
  "discovery_start =
     \<lparr>dc_refused_by_ledger = [], dc_awaiting_sign_in = [], dc_read = [], dc_models = [], dc_failures = []\<rparr>"

definition named_refusal :: "string \<Rightarrow> refusal \<Rightarrow> refusal" where
  "named_refusal sid refused =
     \<lparr>rf_class = rf_class refused, rf_message = sid @ '': '' @ rf_message refused\<rparr>"

definition fail_discovery :: "string \<Rightarrow> refusal \<Rightarrow> discovery \<Rightarrow> discovery" where
  "fail_discovery sid refused d = d\<lparr>dc_failures := dc_failures d @ [named_refusal sid refused]\<rparr>"

text \<open>\<open>models_by_route.entry(route_id).or_insert(model)\<close>.\<close>

definition add_route ::
  "(string, registry_model) btmap \<Rightarrow> registry_model \<Rightarrow> (string, registry_model) btmap" where
  "add_route m model =
     (case bt_get m (rm_route_id model) of
        Some _ \<Rightarrow> m
      | None \<Rightarrow> bt_insert (rm_route_id model) model m)"

definition add_models :: "registry_model list \<Rightarrow> discovery \<Rightarrow> discovery" where
  "add_models models d = d\<lparr>dc_models := foldl add_route (dc_models d) models\<rparr>"

text \<open>The read of one subscription: its credential redeemed, its provider asked.\<close>

definition read_models ::
  "'f crates \<Rightarrow> 'f api \<Rightarrow> string \<Rightarrow> string \<Rightarrow> discovery \<Rightarrow> world \<Rightarrow> discovery \<times> world" where
  "read_models K A provider sid d0 w =
     (let d = d0\<lparr>dc_read := dc_read d0 @ [sid]\<rparr>; key = cache_key provider sid
      in (case api_redeem A sid provider w of
            (Inl f, w1) \<Rightarrow>
              (let refused = gateway (credential_refusal_class K f) (failure_detail K f)
               in (fail_discovery sid refused d, remember_discovery_refusal key refused w1))
          | (Inr secret, w1) \<Rightarrow>
              (case api_utf8 A secret of
                 Inl err \<Rightarrow>
                   (fail_discovery sid (gateway GProviderFailure (''credential is not UTF-8: '' @ err)) d, w1)
               | Inr token \<Rightarrow>
                   (case api_discover A provider (subscription_resource provider sid) token w1 of
                      (Inl err, w2) \<Rightarrow>
                        (let refused = gateway GDependencyUnavailable err
                         in (fail_discovery sid refused d, remember_discovery_refusal key refused w2))
                    | (Inr models, w2) \<Rightarrow> (add_models models d, remember_models key models w2)))))"

definition discover_entry ::
  "'f crates \<Rightarrow> 'f api \<Rightarrow> nat \<Rightarrow> subscription_entry \<Rightarrow> discovery \<Rightarrow> world \<Rightarrow> discovery \<times> world" where
  "discover_entry K A started e d w =
     (let provider = trim (se_provider e); sid = se_id e; key = cache_key provider sid
      in (case now_ms w of (now, w1) \<Rightarrow>
        (case standing_refusal K (w_ledger w1) sid now of
           Some refused \<Rightarrow>
             (let d1 = d\<lparr>dc_refused_by_ledger := dc_refused_by_ledger d @ [sid]\<rparr>;
                  d2 = (if rf_class refused = Gateway GSubscriptionReauthorizationRequired
                        then d1\<lparr>dc_awaiting_sign_in := dc_awaiting_sign_in d1 @ [sid]\<rparr> else d1)
              in (fail_discovery sid refused d2, w1))
         | None \<Rightarrow>
             (case cached_subscription_models_since A key started w1 of
                (Some models, w2) \<Rightarrow> (add_models models d, w2)
              | (None, w2) \<Rightarrow>
                  (case cached_subscription_models_since A key started (api_lock_wait A key w2) of
                     (Some models, w3) \<Rightarrow> (add_models models d, w3)
                   | (None, w3) \<Rightarrow>
                       (case cached_discovery_refusal_since A key started w3 of
                          (Some refused, w4) \<Rightarrow> (fail_discovery sid refused d, w4)
                        | (None, w4) \<Rightarrow> read_models K A provider sid d w4))))))"

fun discover_entries ::
  "'f crates \<Rightarrow> 'f api \<Rightarrow> nat \<Rightarrow> subscription_entry list \<Rightarrow> discovery \<Rightarrow> world \<Rightarrow> discovery \<times> world" where
  "discover_entries K A started [] d w = (d, w)"
| "discover_entries K A started (e # es) d w =
     (case discover_entry K A started e d w of (d1, w1) \<Rightarrow> discover_entries K A started es d1 w1)"

definition sign_in_failures :: "'f api \<Rightarrow> string list \<Rightarrow> world \<Rightarrow> string" where
  "sign_in_failures A awaiting w =
     (let failed = filter_map (\<lambda>sid. map_option (\<lambda>(code, detail). sid @ '': '' @ code @ '': '' @ detail)
            (api_observed_failure A w sid)) awaiting
      in if failed = [] then []
         else ''; the automatic sign-in that renews them failed: '' @ join ''; '' failed)"

definition TELLING :: "provider_refusal list" where
  "TELLING = [Gateway GDependencyUnavailable, QuotaExhausted, RateLimited, Gateway GCredentialUnauthorized,
              Gateway GSubscriptionReauthorizationRequired]"

definition discovery_class :: "refusal \<Rightarrow> refusal list \<Rightarrow> provider_refusal" where
  "discovery_class first failures =
     (case List.find (\<lambda>c. list_ex (\<lambda>rf. rf_class rf = c) failures) TELLING of
        Some c \<Rightarrow> c
      | None \<Rightarrow> rf_class first)"

definition discovery_verdict ::
  "'f api \<Rightarrow> nat \<Rightarrow> discovery \<Rightarrow> world \<Rightarrow> (refusal, registry_model list) result" where
  "discovery_verdict A subscriptions d w =
     (case (dc_models d, dc_failures d) of
        ([], first # _) \<Rightarrow>
          (let refused = join ''; '' (map rf_message (dc_failures d));
               sign_in = sign_in_failures A (dc_awaiting_sign_in d) w
           in Inl \<lparr>rf_class = discovery_class first (dc_failures d),
                   rf_message =
                     (if length (dc_refused_by_ledger d) = subscriptions
                      then ''every subscription is refused by the ledger before any is read: '' @ refused @ sign_in
                      else ''could not discover native provider models: '' @ refused @ sign_in)\<rparr>)
      | _ \<Rightarrow> Inr (sort_by_key rm_route_id (bt_values (dc_models d))))"

text \<open>The answer, what the walk did, and the world it left.\<close>

definition discover_subscription_models ::
  "'f crates \<Rightarrow> 'f api \<Rightarrow> subscription_entry list \<Rightarrow> world \<Rightarrow>
   (refusal, registry_model list) result \<times> discovery \<times> world" where
  "discover_subscription_models K A entries w =
     (if entries = [] then (Inr [], discovery_start, w)
      else (case now_instant w of (started, w1) \<Rightarrow>
        (case discover_entries K A started entries discovery_start w1 of
           (d, w2) \<Rightarrow> (discovery_verdict A (length entries) d w2, d, w2))))"

definition refresh_snapshot ::
  "'f crates \<Rightarrow> 'f api \<Rightarrow> subscription_entry list \<Rightarrow> world \<Rightarrow> (refusal, registry_model list) result \<times> world" where
  "refresh_snapshot K A entries w =
     (case discover_subscription_models K A entries w of
        (r, _, w1) \<Rightarrow> (r, w1\<lparr>w_snapshot := publish r (w_snapshot w1)\<rparr>))"

subsection \<open>The pool's standing\<close>

definition grant_state :: "subscription_usage option \<Rightarrow> instant \<Rightarrow> string" where
  "grant_state recorded now =
     (case Option.bind recorded su_credential of
        None \<Rightarrow> ''unknown''
      | Some c \<Rightarrow>
          (case cr_state c of
             Active \<Rightarrow>
               (case cr_expires_at_ms c of
                  Some expires \<Rightarrow> (if expires \<le> now then ''expired'' else ''live'')
                | None \<Rightarrow> ''live'')
           | _ \<Rightarrow> ''burnt''))"

text \<open>A failed usage report, else a failed probe.\<close>

definition last_check_error :: "subscription_usage \<Rightarrow> string option" where
  "last_check_error u =
     (case plan_usage_check (Some u) of
        Some check \<Rightarrow>
          (case (if \<not> pb_ok check then pb_detail check else None) of
             Some detail \<Rightarrow> Some detail
           | None \<Rightarrow> (case su_probe u of Some p \<Rightarrow> (if \<not> pb_ok p then pb_detail p else None) | None \<Rightarrow> None))
      | None \<Rightarrow> (case su_probe u of Some p \<Rightarrow> (if \<not> pb_ok p then pb_detail p else None) | None \<Rightarrow> None))"

definition last_redeem_error :: "subscription_usage option \<Rightarrow> instant \<Rightarrow> string option" where
  "last_redeem_error recorded now =
     (case recorded of
        None \<Rightarrow> None
      | Some u \<Rightarrow>
          (case Option.bind (su_credential u) cr_cause of
             Some cause \<Rightarrow> Some cause
           | None \<Rightarrow>
               (case su_block u of
                  Some b \<Rightarrow> (if bk_blocked_until_ms b > now then Some (bk_reason b)
                             else last_check_error u)
                | None \<Rightarrow> last_check_error u)))"

definition burnt_member :: "'f api \<Rightarrow> instant \<Rightarrow> world \<Rightarrow> subscription_entry \<Rightarrow> string" where
  "burnt_member A now w e =
     (let provider = trim (se_provider e);
          cause = (case last_redeem_error (usage_for (w_ledger w) (se_id e)) now of
                     Some c \<Rightarrow> '': '' @ c | None \<Rightarrow> []);
          renewal = (case api_observed_failure A w (se_id e) of
                       Some (code, detail) \<Rightarrow>
                         ''the automatic Weles sign-in that renews it failed: '' @ code @ '': '' @ detail
                     | None \<Rightarrow> ''renewed by the automatic Weles sign-in'')
      in se_id e @ '' ('' @ provider @ '') burnt'' @ cause @ '' -- '' @ renewal @
         '' (brama subscription login '' @ provider @ '' --by weles --subscription-id '' @ se_id e @ '')'')"

definition pool_without_servable_member ::
  "'f api \<Rightarrow> subscription_entry list \<Rightarrow> instant \<Rightarrow> world \<Rightarrow> string option" where
  "pool_without_servable_member A members now w =
     (if members = [] \<or>
         list_ex (\<lambda>e. grant_state (usage_for (w_ledger w) (se_id e)) now \<noteq> ''burnt'') members
      then None
      else Some (''no model: every member of the subscription pool needs a new sign-in, so no request was sent: '' @
             join ''; '' (map (burnt_member A now w) members)))"

subsection \<open>What a request is routed from\<close>

fun active_unretired ::
  "json_codec \<Rightarrow> journal \<Rightarrow> subscription_entry list \<Rightarrow> (string, subscription_entry list) result" where
  "active_unretired J jn [] = Inr []"
| "active_unretired J jn (e # es) =
     (if se_status e = ''active''
      then (case is_retired J jn (se_id e) of
              Inl err \<Rightarrow> Inl err
            | Inr retired \<Rightarrow>
                (case active_unretired J jn es of
                   Inl err \<Rightarrow> Inl err
                 | Inr kept \<Rightarrow> Inr (if retired then kept else e # kept)))
      else active_unretired J jn es)"

definition routable_entries ::
  "'f api \<Rightarrow> string \<Rightarrow> world \<Rightarrow> (refusal, subscription_entry list) result \<times> world" where
  "routable_entries A agent w =
     (case api_routing A agent w of
        (Inl err, w1) \<Rightarrow> (Inl (gateway GDependencyUnavailable err), w1)
      | (Inr listed, w1) \<Rightarrow>
          (case active_unretired (api_codec A) (w_journal w1) listed of
             Inl err \<Rightarrow> (Inl (gateway GDependencyUnavailable err), w1)
           | Inr entries \<Rightarrow>
               (case now_ms w1 of (now, w2) \<Rightarrow>
                 (case pool_without_servable_member A entries now w2 of
                    Some refusal \<Rightarrow> (Inl (gateway GSubscriptionReauthorizationRequired refusal), w2)
                  | None \<Rightarrow> (Inr entries, w2)))))"

definition live_pool_refusal :: "'f api \<Rightarrow> string \<Rightarrow> world \<Rightarrow> (refusal, string option) result \<times> world" where
  "live_pool_refusal A agent w =
     (case routable_entries A agent w of
        (Inr _, w1) \<Rightarrow> (Inr None, w1)
      | (Inl refused, w1) \<Rightarrow>
          (if rf_class refused = Gateway GSubscriptionReauthorizationRequired
           then (Inr (Some (rf_message refused)), w1) else (Inl refused, w1)))"

text \<open>
  The published models, and the entries of the background refresh the call starts when none is under
  way: that refresh is a task of its own, which runs \<open>refresh_snapshot\<close> later.
\<close>

definition registry_models_for_agent ::
  "'f api \<Rightarrow> string \<Rightarrow> world \<Rightarrow>
   (refusal, registry_model list) result \<times> subscription_entry list option \<times> world" where
  "registry_models_for_agent A agent w =
     (case routable_entries A agent w of
        (Inl refused, w1) \<Rightarrow> (Inl refused, None, w1)
      | (Inr entries, w1) \<Rightarrow>
          (case snapshot_models entries (w_snapshot w1) of
             (r, started, sn) \<Rightarrow> (r, if started then Some entries else None, w1\<lparr>w_snapshot := sn\<rparr>)))"

definition prepare_routing ::
  "'f crates \<Rightarrow> 'f api \<Rightarrow> string \<Rightarrow> bool \<Rightarrow> world \<Rightarrow> (refusal, unit) result \<times> world" where
  "prepare_routing K A agent discover_models w =
     (case api_refresh_routing A agent w of
        (Inl err, w1) \<Rightarrow> (Inl (gateway GDependencyUnavailable err), w1)
      | (Inr entries, w1) \<Rightarrow>
          (if \<not> discover_models then (Inr (), w1)
           else (case active_unretired (api_codec A) (w_journal w1) entries of
                   Inl err \<Rightarrow> (Inl (gateway GDependencyUnavailable err), w1)
                 | Inr kept \<Rightarrow>
                     (case refresh_snapshot K A kept w1 of
                        (Inl refused, w2) \<Rightarrow> (Inl refused, w2)
                      | (Inr _, w2) \<Rightarrow> (Inr (), w2)))))"

subsection \<open>What a discovery promises\<close>

lemma read_models_walks:
  "read_models K A provider sid d w = (d', w') \<Longrightarrow>
     dc_read d' = dc_read d @ [sid] \<and> dc_refused_by_ledger d' = dc_refused_by_ledger d"
  by (auto simp: read_models_def Let_def fail_discovery_def add_models_def split: prod.splits sum.splits)

text \<open>One entry is read only when the ledger held nothing against it, and at most once.\<close>

lemma discover_entry_walks:
  assumes "discover_entry K A started e d w = (d', w')"
  obtains (held) refused where "standing_refusal K (w_ledger w) (se_id e) (w_clock w (w_tick w)) = Some refused"
      "dc_read d' = dc_read d" "dc_refused_by_ledger d' = dc_refused_by_ledger d @ [se_id e]"
  | (asked) "standing_refusal K (w_ledger w) (se_id e) (w_clock w (w_tick w)) = None"
      "dc_read d' = dc_read d \<or> dc_read d' = dc_read d @ [se_id e]"
      "dc_refused_by_ledger d' = dc_refused_by_ledger d"
proof (cases "standing_refusal K (w_ledger w) (se_id e) (w_clock w (w_tick w))")
  case None
  with assms show thesis
    by (intro asked)
       (auto simp: discover_entry_def now_ms_def Let_def fail_discovery_def add_models_def
         dest: read_models_walks split: prod.splits option.splits)
next
  case (Some refused)
  with assms show thesis
    by (intro held) (auto simp: discover_entry_def now_ms_def Let_def fail_discovery_def split: if_splits)
qed

definition routes_ok :: "(string, registry_model) btmap \<Rightarrow> bool" where
  "routes_ok m = (bt_wf m \<and> (\<forall>(k, r) \<in> set m. rm_route_id r = k))"

lemma routes_ok_add: "routes_ok m \<Longrightarrow> routes_ok (add_route m model)"
  using set_bt_insert [of "rm_route_id model" model m]
  by (auto simp: routes_ok_def add_route_def bt_wf_insert split: option.splits)

lemma routes_ok_foldl: "routes_ok m \<Longrightarrow> routes_ok (foldl add_route m models)"
  by (induction models arbitrary: m) (auto intro: routes_ok_add)

lemma discover_entry_routes:
  "discover_entry K A started e d w = (d', w') \<Longrightarrow> routes_ok (dc_models d) \<Longrightarrow> routes_ok (dc_models d')"
  by (auto simp: discover_entry_def read_models_def Let_def fail_discovery_def add_models_def
      routes_ok_foldl split: prod.splits option.splits sum.splits if_splits)

lemma discover_entries_routes:
  "discover_entries K A started es d w = (d', w') \<Longrightarrow> routes_ok (dc_models d) \<Longrightarrow> routes_ok (dc_models d')"
  by (induction es arbitrary: d w) (auto dest: discover_entry_routes split: prod.splits)

lemma discover_entries_walks:
  "discover_entries K A started es d w = (d', w') \<Longrightarrow>
     \<exists>rd hl. dc_read d' = dc_read d @ rd \<and> dc_refused_by_ledger d' = dc_refused_by_ledger d @ hl \<and>
       subseq rd (map se_id es) \<and> subseq hl (map se_id es) \<and> length rd + length hl \<le> length es"
proof (induction es arbitrary: d w)
  case (Cons e es)
  obtain d1 w1 where step: "discover_entry K A started e d w = (d1, w1)" by fastforce
  with Cons.prems have rest: "discover_entries K A started es d1 w1 = (d', w')" by simp
  from Cons.IH [OF rest] obtain rd hl where
    IH: "dc_read d' = dc_read d1 @ rd" "dc_refused_by_ledger d' = dc_refused_by_ledger d1 @ hl"
      "subseq rd (map se_id es)" "subseq hl (map se_id es)" "length rd + length hl \<le> length es" by blast
  from step show ?case
  proof (cases rule: discover_entry_walks)
    case (held refused)
    with IH show ?thesis by (intro exI [of _ rd] exI [of _ "se_id e # hl"]) auto
  next
    case asked
    from asked(2) show ?thesis
    proof
      assume "dc_read d1 = dc_read d"
      with IH asked(3) show ?thesis by (intro exI [of _ rd] exI [of _ hl]) auto
    next
      assume "dc_read d1 = dc_read d @ [se_id e]"
      with IH asked(3) show ?thesis by (intro exI [of _ "se_id e # rd"] exI [of _ hl]) auto
    qed
  qed
qed simp

text \<open>
  A discovery answers with each route once, in the order of the route ids; it reads each
  subscription at most once, in the order listed, and none the ledger was found to hold a refusal against: read
  and refused ones together are no more than the subscriptions.
\<close>

theorem discovery_lists_each_route_once:
  assumes "discover_subscription_models K A entries w = (answer, d, w')"
  shows "(case answer of
            Inr models \<Rightarrow> sorted_wrt (<) (map rm_route_id models)
          | Inl refused \<Rightarrow> dc_models d = [] \<and> rf_class refused \<in> rf_class ` set (dc_failures d))
    \<and> subseq (dc_read d) (map se_id entries)
    \<and> subseq (dc_refused_by_ledger d) (map se_id entries)
    \<and> length (dc_read d) + length (dc_refused_by_ledger d) \<le> length entries"
proof (cases "entries = []")
  case True
  with assms show ?thesis by (auto simp: discover_subscription_models_def discovery_start_def)
next
  case False
  obtain started w1 where clock: "now_instant w = (started, w1)" by fastforce
  with assms False have walk: "discover_entries K A started entries discovery_start w1 = (d, w')"
    and answer: "answer = discovery_verdict A (length entries) d w'"
    by (auto simp: discover_subscription_models_def split: prod.splits)
  have routes: "routes_ok (dc_models d)"
    by (rule discover_entries_routes [OF walk]) (simp add: discovery_start_def routes_ok_def)
  have ids: "map rm_route_id (bt_values (dc_models d)) = map fst (dc_models d)"
    using routes by (auto simp: routes_ok_def bt_values_def)
  have sorted: "sorted_wrt (<) (map rm_route_id (bt_values (dc_models d)))"
    unfolding ids using routes by (simp add: routes_ok_def bt_wf_def)
  then have "sorted (map rm_route_id (bt_values (dc_models d)))"
    by (simp add: strict_sorted_iff)
  then have same: "sort_by_key rm_route_id (bt_values (dc_models d)) = bt_values (dc_models d)"
    by (simp add: sort_by_key_eq sort_key_id_if_sorted)
  have told: "discovery_class first failures \<in> rf_class ` set failures" if "first \<in> set failures" for first failures
    using that by (auto simp: discovery_class_def list_ex_iff dest!: find_SomeD split: option.splits)
  have verdict: "case answer of
            Inr models \<Rightarrow> sorted_wrt (<) (map rm_route_id models)
          | Inl refused \<Rightarrow> dc_models d = [] \<and> rf_class refused \<in> rf_class ` set (dc_failures d)"
    unfolding answer discovery_verdict_def Let_def same
    using sorted told [of "hd (dc_failures d)" "dc_failures d"]
    by (cases "dc_models d"; cases "dc_failures d") simp_all
  from discover_entries_walks [OF walk] verdict show ?thesis by (auto simp: discovery_start_def)
qed

theorem discovery_lists_each_route_once_witness:
  "\<exists>(answer :: (refusal, registry_model list) result) (d :: discovery).
     (case answer of
        Inr models \<Rightarrow> sorted_wrt (<) (map rm_route_id models)
      | Inl refused \<Rightarrow> dc_models d = [] \<and> rf_class refused \<in> rf_class ` set (dc_failures d))
    \<and> subseq (dc_read d) (map se_id [plain_member])
    \<and> subseq (dc_refused_by_ledger d) (map se_id [plain_member])
    \<and> length (dc_read d) + length (dc_refused_by_ledger d) \<le> length [plain_member]"
proof -
  obtain answer d w' where "discover_subscription_models plain_crates plain_api [plain_member] plain_world = (answer, d, w')"
    by (metis prod_cases3)
  from discovery_lists_each_route_once [OF this] show ?thesis by blast
qed

end
