(* ===== verification/Selection.thy ===== *)
theory Selection
  imports Discovery
begin

section \<open>Selectors and the ranked walk\<close>

text \<open>
  \<open>src/src/subscription_dispatch/dispatch/selection/\<close> (\<open>ranked_walk.rs\<close>, \<open>buffered.rs\<close>,
  \<open>streaming.rs\<close>), \<open>ranking/candidates.rs\<close> and the credential of \<open>direct_route.rs\<close>: a list of routes
  walked until one serves, and the one refusal an exhausted list is answered with. The walk's result
  carries the routes it asked, a history variable.
\<close>

subsection \<open>The ranked walk\<close>

definition ANY_SUBSCRIPTION_CONTEXT :: string where
  "ANY_SUBSCRIPTION_CONTEXT = ''no working subscription model for signed agent''"

definition ANY_VISION_CONTEXT :: string where
  "ANY_VISION_CONTEXT = ''no working vision-capable subscription model for signed agent''"

record ranked_walk =
  rk_attempts :: "32 word"
  rk_refusals :: "string list"
  rk_classes :: "provider_refusal list"
  rk_emptied :: "string list"
  rk_candidates :: "string list"

definition ranked_start :: ranked_walk where
  "ranked_start = \<lparr>rk_attempts = 0, rk_refusals = [], rk_classes = [], rk_emptied = [], rk_candidates = []\<rparr>"

definition already_emptied :: "ranked_walk \<Rightarrow> string \<Rightarrow> bool" where
  "already_emptied rk provider = (provider \<in> set (rk_emptied rk))"

definition note_candidate :: "string \<Rightarrow> ranked_walk \<Rightarrow> ranked_walk" where
  "note_candidate provider rk =
     (if provider \<in> set (rk_candidates rk) then rk
      else rk\<lparr>rk_candidates := rk_candidates rk @ [provider]\<rparr>)"

definition note_refused :: "string \<Rightarrow> string \<Rightarrow> refusal \<Rightarrow> 32 word \<Rightarrow> bool \<Rightarrow> ranked_walk \<Rightarrow> ranked_walk" where
  "note_refused model provider rf attempts emptied rk =
     (let rk1 = rk\<lparr>rk_attempts := saturating_add (rk_attempts rk) attempts,
                   rk_classes := rk_classes rk @ [rf_class rf]\<rparr>
      in if emptied
         then (if already_emptied rk1 provider then rk1
               else rk1\<lparr>rk_emptied := rk_emptied rk1 @ [provider],
                        rk_refusals := rk_refusals rk1 @ [provider @ '' refused ('' @ rf_message rf @ '')'']\<rparr>)
         else rk1\<lparr>rk_refusals := rk_refusals rk1 @ [model @ '' refused ('' @ rf_message rf @ '')'']\<rparr>)"

definition unreached_cause :: "'f crates \<Rightarrow> 'f api \<Rightarrow> subscription_entry \<Rightarrow> world \<Rightarrow> string \<times> world" where
  "unreached_cause K A e w =
     (if se_status e \<noteq> ''active'' then (''its status is '' @ se_status e, w)
      else (case is_retired (api_codec A) (w_journal w) (se_id e) of
              Inl unread \<Rightarrow> (''whether its owner retired it could not be read: '' @ unread, w)
            | Inr True \<Rightarrow> (''it is retired'', w)
            | Inr False \<Rightarrow>
                (case now_ms w of (now, w1) \<Rightarrow>
                  (case standing_refusal K (w_ledger w1) (se_id e) now of
                     Some rf \<Rightarrow> (''the ledger refuses it: '' @ rf_message rf, w1)
                   | None \<Rightarrow>
                       (case discovery_failure A (trim (se_provider e)) (se_id e) w1 of
                          (Some err, w2) \<Rightarrow> (''its model discovery was refused: '' @ err, w2)
                        | (None, w2) \<Rightarrow> (''its model discovery published no model'', w2))))))"

fun unreached_members ::
  "'f crates \<Rightarrow> 'f api \<Rightarrow> string list \<Rightarrow> subscription_entry list \<Rightarrow> world \<Rightarrow> string list \<times> world" where
  "unreached_members K A walked [] w = ([], w)"
| "unreached_members K A walked (e # es) w =
     (if trim (se_provider e) \<in> set walked then unreached_members K A walked es w
      else (case unreached_cause K A e w of (cause, w1) \<Rightarrow>
        (case unreached_members K A walked es w1 of (rest, w2) \<Rightarrow>
          ((se_id e @ '' ('' @ trim (se_provider e) @ '') not tried: '' @ cause) # rest, w2))))"

definition unreached :: "'f crates \<Rightarrow> 'f api \<Rightarrow> string \<Rightarrow> string list \<Rightarrow> world \<Rightarrow> string list \<times> world" where
  "unreached K A agent walked w =
     (case api_routing A agent w of
        (Inl err, w1) \<Rightarrow>
          ([''the subscription inventory could not be read to name the members not tried: '' @ err], w1)
      | (Inr entries, w1) \<Rightarrow> unreached_members K A walked entries w1)"

definition walked_class :: "provider_refusal list \<Rightarrow> provider_refusal" where
  "walked_class classes =
     (let saw = (\<lambda>c. c \<in> set classes);
          unavailable = Gateway GSubscriptionUnavailable;
          unauthorized = Gateway GCredentialUnauthorized;
          reauthorize = Gateway GSubscriptionReauthorizationRequired
      in if saw QuotaExhausted then QuotaExhausted
         else if saw RateLimited then RateLimited
         else if saw unavailable \<or> \<not> (saw unauthorized \<or> saw reauthorize) then unavailable
         else if saw unauthorized then unauthorized
         else reauthorize)"

definition into_failure ::
  "'f crates \<Rightarrow> 'f api \<Rightarrow> string \<Rightarrow> model_request \<Rightarrow> string \<Rightarrow> ranked_walk \<Rightarrow> world \<Rightarrow> model_response \<times> world" where
  "into_failure K A agent request context rk w =
     (case unreached K A agent (rk_candidates rk) w of (missed, w1) \<Rightarrow>
       (let named = rk_refusals rk @ missed;
            message = (if named = [] then context else context @ ''; '' @ join '', '' named)
        in ((refuse_as request (walked_class (rk_classes rk)) message)\<lparr>mr_attempts := rk_attempts rk\<rparr>, w1)))"

text \<open>
  The loop, over the attempt it makes at each route: \<open>Some (Inl rk)\<close> when the list is exhausted,
  \<open>Some (Inr r)\<close> when an attempt ended it. The list of routes asked, each with its provider and whether the
  attempt emptied the provider's pool, is a history variable.
\<close>

type_synonym 'a attempt = "string \<Rightarrow> string \<Rightarrow> model_request \<Rightarrow> world \<Rightarrow> ('a route_attempt \<times> string list \<times> world) option"

type_synonym asked_route = "string \<times> string \<times> bool"

fun walk_models ::
  "'a attempt \<Rightarrow> string \<Rightarrow> model_request \<Rightarrow> string list \<Rightarrow> ranked_walk \<Rightarrow> world \<Rightarrow>
   ((ranked_walk + (32 word \<times> (model_response, 'a) result)) \<times> asked_route list \<times> world) option" where
  "walk_models attempt agent request [] rk w = Some (Inl rk, [], w)"
| "walk_models attempt agent request (model # models) rk w =
     (case provider_for model of
        None \<Rightarrow>
          walk_models attempt agent request models
            (rk\<lparr>rk_refusals := rk_refusals rk @ [model @ '' refused (unknown provider/model route)'']\<rparr>) w
      | Some provider \<Rightarrow>
          (let rk1 = note_candidate provider rk
           in if already_emptied rk1 provider then walk_models attempt agent request models rk1 w
              else (case attempt provider agent (request\<lparr>rq_model := model\<rparr>) w of
                      None \<Rightarrow> None
                    | Some (at, _, w1) \<Rightarrow>
                        (case ra_opened at of
                           Inr served \<Rightarrow> Some (Inr (rk_attempts rk1, Inr served), [(provider, model, ra_pool_emptied at)], w1)
                         | Inl response \<Rightarrow>
                             (case mr_refusal response of
                                None \<Rightarrow> Some (Inr (rk_attempts rk1, Inl response), [(provider, model, ra_pool_emptied at)], w1)
                              | Some rf \<Rightarrow>
                                  (case walk_models attempt agent request models
                                      (note_refused model provider rf (mr_attempts response)
                                         (ra_pool_emptied at) rk1) w1 of
                                     None \<Rightarrow> None
                                   | Some (r, tried, w2) \<Rightarrow> Some (r, (provider, model, ra_pool_emptied at) # tried, w2)))))))"

definition dispatch_ranked_models ::
  "'f crates \<Rightarrow> 'f api \<Rightarrow> string \<Rightarrow> model_request \<Rightarrow> string list \<Rightarrow> string \<Rightarrow> world \<Rightarrow>
   (model_response \<times> asked_route list \<times> world) option" where
  "dispatch_ranked_models K A agent request models context w =
     (case walk_models (attempt_subscription K A) agent request models ranked_start w of
        None \<Rightarrow> None
      | Some (Inr (spent, Inr served), tried, w1) \<Rightarrow>
          Some (served\<lparr>mr_attempts := saturating_add spent (mr_attempts served)\<rparr>, tried, w1)
      | Some (Inr (spent, Inl response), tried, w1) \<Rightarrow> Some (response, tried, w1)
      | Some (Inl rk, tried, w1) \<Rightarrow>
          (case into_failure K A agent request context rk w1 of (failed, w2) \<Rightarrow> Some (failed, tried, w2)))"

definition dispatch_ranked_models_stream ::
  "'f crates \<Rightarrow> 'f api \<Rightarrow> string \<Rightarrow> model_request \<Rightarrow> string list \<Rightarrow> string \<Rightarrow> world \<Rightarrow>
   ((model_response, routed_stream) result \<times> asked_route list \<times> world) option" where
  "dispatch_ranked_models_stream K A agent request models context w =
     (case walk_models (attempt_subscription_stream K A) agent request models ranked_start w of
        None \<Rightarrow> None
      | Some (Inr (spent, Inr routed), tried, w1) \<Rightarrow>
          Some (Inr (routed\<lparr>rst_attempts := saturating_add (rst_attempts routed) spent\<rparr>), tried, w1)
      | Some (Inr (spent, Inl response), tried, w1) \<Rightarrow> Some (Inl response, tried, w1)
      | Some (Inl rk, tried, w1) \<Rightarrow>
          (case into_failure K A agent request context rk w1 of (failed, w2) \<Rightarrow> Some (Inl failed, tried, w2)))"

subsection \<open>Candidate lists\<close>

definition order_for_agent ::
  "'f api \<Rightarrow> string \<Rightarrow> string list \<Rightarrow> world \<Rightarrow> ((refusal, string list) result \<times> world) option" where
  "order_for_agent A agent models w =
     (case api_routing A agent w of (routing, w1) \<Rightarrow>
       (case now_ms w1 of (now, w2) \<Rightarrow>
         (case order_models_by_plan (api_codec A) (w_journal w2) (w_ledger w2) now routing models (w_draws w2) of
            None \<Rightarrow> None
          | Some (r, ds) \<Rightarrow> Some (r, w2\<lparr>w_draws := ds\<rparr>))))"

definition active_supported_models_for_agent ::
  "'f api \<Rightarrow> string \<Rightarrow> world \<Rightarrow> ((refusal, string list) result \<times> world) option" where
  "active_supported_models_for_agent A agent w =
     (case registry_models_for_agent A agent w of
        (Inl rf, _, w1) \<Rightarrow> Some (Inl rf, w1)
      | (Inr models, _, w1) \<Rightarrow>
          (if models = []
           then Some (Inl (gateway GSubscriptionUnavailable
                  ''no active stateless provider models for signed agent''), w1)
           else order_for_agent A agent (map rm_route_id models) w1))"

definition active_vision_capable_models_for_agent ::
  "'f api \<Rightarrow> string \<Rightarrow> world \<Rightarrow> ((refusal, string list) result \<times> world) option" where
  "active_vision_capable_models_for_agent A agent w =
     (case registry_models_for_agent A agent w of
        (Inl rf, _, w1) \<Rightarrow> Some (Inl rf, w1)
      | (Inr models, _, w1) \<Rightarrow>
          (let seeing = filter (\<lambda>m. ''image'' \<in> set (rm_input_modalities m)) models
           in if seeing = []
              then Some (Inl (gateway GSubscriptionUnavailable
                     ''no active vision-capable stateless provider model for signed agent''), w1)
              else order_for_agent A agent (map rm_route_id seeing) w1))"

definition needs_image :: "model_request \<Rightarrow> bool" where
  "needs_image request =
     list_ex (\<lambda>m. case msg_content m of
         JArr parts \<Rightarrow> list_ex (\<lambda>p. Option.bind (json_get p ''type'') as_str = Some ''image_url'') parts
       | _ \<Rightarrow> False) (rq_messages request)"

text \<open>\<open>models[..=position].rotate_right(1)\<close>.\<close>

definition promote :: "string option \<Rightarrow> string list \<Rightarrow> string list" where
  "promote preferred models =
     (case Option.bind preferred (\<lambda>p. position (\<lambda>m. m = p) models) of
        None \<Rightarrow> models
      | Some i \<Rightarrow> models ! i # take i models @ drop (Suc i) models)"

definition best_subscription_models ::
  "'f api \<Rightarrow> string \<Rightarrow> string option \<Rightarrow> model_request \<Rightarrow> world \<Rightarrow> ((refusal, string list) result \<times> world) option" where
  "best_subscription_models A agent preferred request w =
     (case (if needs_image request then active_vision_capable_models_for_agent A agent w
            else active_supported_models_for_agent A agent w) of
        None \<Rightarrow> None
      | Some (Inl rf, w1) \<Rightarrow>
          Some (Inl \<lparr>rf_class = rf_class rf,
                     rf_message = ''route '' @ rq_model request @
                       '': no live subscription; discovery failed: '' @ rf_message rf\<rparr>, w1)
      | Some (Inr models, w1) \<Rightarrow> Some (Inr (promote preferred models), w1))"

subsection \<open>Entry points\<close>

record auth_env =
  au_mac :: mac_crates
  au_secret :: "string \<Rightarrow> (string, string) result"
  au_path :: "(string, string) result"
  au_lock :: "string option"
  au_fault :: "string option"

definition authenticated :: "auth_env \<Rightarrow> (string \<times> string) list \<Rightarrow> string \<Rightarrow> world \<Rightarrow> (string, string) result \<times> world" where
  "authenticated U headers raw_body w =
     (case authenticate_agent (au_mac U) (au_secret U) (au_path U) (au_lock U) (au_fault U)
             headers raw_body (w_replay w) of
        (r, file) \<Rightarrow> (r, w\<lparr>w_replay := file\<rparr>))"

definition unauthenticated :: "model_request \<Rightarrow> string \<Rightarrow> model_response" where
  "unauthenticated request err = refused_answer (rq_model request) GUnauthenticated err"

definition unknown_route :: "model_request \<Rightarrow> model_response" where
  "unknown_route request = refused_answer (rq_model request) GInvalidRequest ''unknown provider/model route''"

text \<open>A selector: the list it walks, or the refusal that there is none.\<close>

definition select_buffered ::
  "'f crates \<Rightarrow> 'f api \<Rightarrow> string \<Rightarrow> model_request \<Rightarrow> string \<Rightarrow>
   ((refusal, string list) result \<times> world) option \<Rightarrow> (model_response \<times> world) option" where
  "select_buffered K A agent request context models =
     (case models of
        None \<Rightarrow> None
      | Some (Inl rf, w) \<Rightarrow> Some (from_refusal (rq_model request) rf, w)
      | Some (Inr ms, w) \<Rightarrow>
          map_option (\<lambda>(r, _, w'). (r, w')) (dispatch_ranked_models K A agent request ms context w))"

definition select_stream ::
  "'f crates \<Rightarrow> 'f api \<Rightarrow> string \<Rightarrow> model_request \<Rightarrow> string \<Rightarrow>
   ((refusal, string list) result \<times> world) option \<Rightarrow> ((model_response, routed_stream) result \<times> world) option" where
  "select_stream K A agent request context models =
     (case models of
        None \<Rightarrow> None
      | Some (Inl rf, w) \<Rightarrow> Some (Inl (from_refusal (rq_model request) rf), w)
      | Some (Inr ms, w) \<Rightarrow>
          map_option (\<lambda>(r, _, w'). (r, w')) (dispatch_ranked_models_stream K A agent request ms context w))"

definition dispatch_any_subscription where
  "dispatch_any_subscription K A U headers request raw_body w =
     (case authenticated U headers raw_body w of
        (Inl err, w1) \<Rightarrow> Some (unauthenticated request err, w1)
      | (Inr agent, w1) \<Rightarrow>
          select_buffered K A agent request ANY_SUBSCRIPTION_CONTEXT
            (active_supported_models_for_agent A agent w1))"

definition dispatch_best_subscription_for_agent where
  "dispatch_best_subscription_for_agent K A agent request preferred w =
     select_buffered K A agent request ANY_SUBSCRIPTION_CONTEXT
       (best_subscription_models A agent preferred request w)"

definition dispatch_best_subscription where
  "dispatch_best_subscription K A U headers request raw_body preferred w =
     (case authenticated U headers raw_body w of
        (Inl err, w1) \<Rightarrow> Some (unauthenticated request err, w1)
      | (Inr agent, w1) \<Rightarrow> dispatch_best_subscription_for_agent K A agent request preferred w1)"

definition dispatch_any_vision_capable_subscription where
  "dispatch_any_vision_capable_subscription K A U headers request raw_body w =
     (case authenticated U headers raw_body w of
        (Inl err, w1) \<Rightarrow> Some (unauthenticated request err, w1)
      | (Inr agent, w1) \<Rightarrow>
          select_buffered K A agent request ANY_VISION_CONTEXT
            (active_vision_capable_models_for_agent A agent w1))"

definition dispatch_subscription_for_agent where
  "dispatch_subscription_for_agent K A agent request w =
     (case provider_for (rq_model request) of
        None \<Rightarrow> Some (unknown_route request, w)
      | Some provider \<Rightarrow> dispatch_subscription_attempt K A provider agent request w)"

definition dispatch_subscription where
  "dispatch_subscription K A U headers request raw_body w =
     (case provider_for (rq_model request) of
        None \<Rightarrow> Some (unknown_route request, w)
      | Some provider \<Rightarrow>
          (case authenticated U headers raw_body w of
             (Inl err, w1) \<Rightarrow> Some (unauthenticated request err, w1)
           | (Inr agent, w1) \<Rightarrow> dispatch_subscription_attempt K A provider agent request w1))"

definition opened_stream ::
  "(routed_stream route_attempt \<times> string list \<times> world) option \<Rightarrow>
   ((model_response, routed_stream) result \<times> world) option" where
  "opened_stream = map_option (\<lambda>(at, _, w). (ra_opened at, w))"

definition dispatch_subscription_stream_for_agent where
  "dispatch_subscription_stream_for_agent K A agent request w =
     (case provider_for (rq_model request) of
        None \<Rightarrow> Some (Inl (unknown_route request), w)
      | Some provider \<Rightarrow> opened_stream (attempt_subscription_stream K A provider agent request w))"

definition dispatch_subscription_stream where
  "dispatch_subscription_stream K A U headers request raw_body w =
     (case provider_for (rq_model request) of
        None \<Rightarrow> Some (Inl (unknown_route request), w)
      | Some provider \<Rightarrow>
          (case authenticated U headers raw_body w of
             (Inl err, w1) \<Rightarrow> Some (Inl (unauthenticated request err), w1)
           | (Inr agent, w1) \<Rightarrow> opened_stream (attempt_subscription_stream K A provider agent request w1)))"

definition dispatch_any_subscription_stream where
  "dispatch_any_subscription_stream K A U headers request raw_body w =
     (case authenticated U headers raw_body w of
        (Inl err, w1) \<Rightarrow> Some (Inl (unauthenticated request err), w1)
      | (Inr agent, w1) \<Rightarrow>
          select_stream K A agent request ANY_SUBSCRIPTION_CONTEXT
            (active_supported_models_for_agent A agent w1))"

definition dispatch_best_subscription_stream_for_agent where
  "dispatch_best_subscription_stream_for_agent K A agent request preferred w =
     select_stream K A agent request ANY_SUBSCRIPTION_CONTEXT
       (best_subscription_models A agent preferred request w)"

definition dispatch_best_subscription_stream where
  "dispatch_best_subscription_stream K A U headers request raw_body preferred w =
     (case authenticated U headers raw_body w of
        (Inl err, w1) \<Rightarrow> Some (Inl (unauthenticated request err), w1)
      | (Inr agent, w1) \<Rightarrow> dispatch_best_subscription_stream_for_agent K A agent request preferred w1)"

definition dispatch_any_vision_capable_subscription_stream where
  "dispatch_any_vision_capable_subscription_stream K A U headers request raw_body w =
     (case authenticated U headers raw_body w of
        (Inl err, w1) \<Rightarrow> Some (Inl (unauthenticated request err), w1)
      | (Inr agent, w1) \<Rightarrow>
          select_stream K A agent request ANY_VISION_CONTEXT
            (active_vision_capable_models_for_agent A agent w1))"

text \<open>
  The deployment's own credential for a route; \<open>provider_credential\<close> is the broker's answer, with an
  envelope rendered when it refuses.
\<close>

definition direct_credential ::
  "'f crates \<Rightarrow> (string \<Rightarrow> ('f, string) result) \<Rightarrow> (string \<Rightarrow> (string, string) result) \<Rightarrow> string \<Rightarrow>
   (refusal, string \<times> string) result" where
  "direct_credential K provider_credential utf8 route_id =
     (case provider_for route_id of
        None \<Rightarrow> Inl (gateway GInvalidRequest ''unknown provider/model route'')
      | Some provider \<Rightarrow>
          (if provider_requires_caller_identity route_id
           then Inl (gateway GUnauthenticated ''auth: caller identity is required for subscription providers'')
           else (case provider_credential provider of
                   Inl f \<Rightarrow> Inl (gateway GDependencyUnavailable (failure_render K f))
                 | Inr secret \<Rightarrow>
                     (case utf8 secret of
                        Inl err \<Rightarrow> Inl (gateway GProviderFailure
                          (''direct '' @ [CHR 0x27] @ provider @ [CHR 0x27] @
                           '' credential is not valid UTF-8: '' @ err))
                      | Inr key \<Rightarrow> Inr (provider, key)))))"

subsection \<open>What the walk asks and what it reports\<close>

text \<open>
  \<open>routable models\<close> are the candidates that name a provider, in order, as the pairs the walk may ask.
\<close>

definition routable :: "string list \<Rightarrow> (string \<times> string) list" where
  "routable models = List.map_filter (\<lambda>m. map_option (\<lambda>p. (p, m)) (provider_for m)) models"

lemma routable_simps [simp]:
  "routable [] = []"
  "routable (m # ms) = (case provider_for m of None \<Rightarrow> routable ms | Some p \<Rightarrow> (p, m) # routable ms)"
  by (auto simp: routable_def split: option.splits)





text \<open>
  \<open>asked_in_turn models tried\<close>: the routes asked are candidates in their order, and once an attempt emptied a
  provider's pool no other route of that provider is asked.
\<close>

definition route_of :: "asked_route \<Rightarrow> string \<times> string" where
  "route_of = (\<lambda>(provider, model, emptied). (provider, model))"


definition emptied_by :: "asked_route list \<Rightarrow> string set" where
  "emptied_by tried = {p. \<exists>m. (p, m, True) \<in> set tried}"

lemma route_of_simps [simp]: "route_of (p, m, e) = (p, m)"
  by (simp add: route_of_def)

lemma emptied_by_simps [simp]:
  "emptied_by [] = {}"
  "emptied_by ((p, m, e) # tried) = (if e then insert p (emptied_by tried) else emptied_by tried)"
  by (auto simp: emptied_by_def)












subsection \<open>The preferred route\<close>

lemma position_eq:
  "position (\<lambda>m. m = p) ms = None \<longleftrightarrow> p \<notin> set ms"
  "position (\<lambda>m. m = p) ms = Some i \<Longrightarrow> p \<in> set ms \<and> ms ! i = p \<and> take i ms @ drop (Suc i) ms = remove1 p ms"
  by (induction ms arbitrary: i) (auto split: if_splits)

text \<open>Rotating the preferred route to the front leaves the others in their order.\<close>

lemma promote_eq:
  "promote preferred models = (case preferred of
       Some p \<Rightarrow> if p \<in> set models then p # remove1 p models else models
     | None \<Rightarrow> models)"
  by (auto simp: promote_def position_eq(1) dest: position_eq(2) split: option.split)

lemma promote_mset [simp]: "mset (promote preferred models) = mset models"
  by (auto simp: promote_eq split: option.split)

lemma order_for_agent_keeps:
  assumes "order_for_agent A agent models w = Some (Inr out, w')" "length models < 2 ^ 63"
  shows "mset out = mset models"
proof -
  obtain routing w1 where routing: "api_routing A agent w = (routing, w1)" by fastforce
  from assms routing obtain rows where rows: "routing = Inr rows"
    by (auto simp: order_for_agent_def order_models_by_plan_def now_ms_def split: sum.splits option.splits)
  with assms(1) routing obtain ds' where
    "order_models_by_plan (api_codec A) (w_journal w1) (w_ledger w1) (w_clock w1 (w_tick w1)) (Inr rows) models
       (w_draws w1) = Some (Inr out, ds')"
    by (auto simp: order_for_agent_def now_ms_def split: option.splits)
  from order_models_by_plan_out [OF this assms(2)] show ?thesis by blast
qed

text \<open>
  The routes a \<open>best\<close> request walks are the published routes, each once for every time it is published, less
  those that take no images when the request holds one; a preferred route on that list leads it, and one
  that is not on it is not added.
\<close>

theorem best_routes_fit_the_request:
  assumes "best_subscription_models A agent preferred request w = Some (Inr routes, w')"
    and "fst (registry_models_for_agent A agent w) = Inr models" and "length models < 2 ^ 63"
  shows "mset routes = mset (map rm_route_id (filter (\<lambda>m. if needs_image request then ''image'' \<in> set (rm_input_modalities m) else True) models))
    \<and> (case preferred of
         None \<Rightarrow> True
       | Some p \<Rightarrow> p \<notin> set routes \<or> hd routes = p)"
proof -
  let ?fits = "filter (\<lambda>m. if needs_image request then ''image'' \<in> set (rm_input_modalities m) else True) models"
  have few: "length (map rm_route_id ?fits) < 2 ^ 63"
    using le_less_trans [OF length_filter_le assms(3)] by simp
  from assms(1,2) obtain w1 out w2 where out: "order_for_agent A agent (map rm_route_id ?fits) w1 = Some (Inr out, w2)"
    and routes: "routes = promote preferred out"
    by (auto simp: best_subscription_models_def active_vision_capable_models_for_agent_def
        active_supported_models_for_agent_def Let_def split: option.splits sum.splits if_splits prod.splits)
  have "case preferred of None \<Rightarrow> True | Some p \<Rightarrow> p \<notin> set routes \<or> hd routes = p"
    unfolding routes by (auto simp: promote_eq split: option.split)
  with order_for_agent_keeps [OF out few] routes show ?thesis by simp
qed

definition plain_model :: registry_model where
  "plain_model =
     \<lparr>rm_route_id = ''codex/m'', rm_provider_id = ''codex'', rm_model_id = ''m'', rm_display_name = ''m'',
      rm_context_window = None, rm_max_output_tokens = None, rm_input_modalities = [''text''],
      rm_output_modalities = [], rm_open_weights = None, rm_tools = None, rm_reasoning = None,
      rm_input_price = None, rm_output_price = None, rm_cache_read_price = None, rm_cache_write_price = None\<rparr>"

definition listed_world :: world where
  "listed_world = plain_world\<lparr>w_snapshot := publish (Inr [plain_model]) (w_snapshot plain_world)\<rparr>"

lemma listed_models: "\<exists>b w'. registry_models_for_agent plain_api ''a'' listed_world = (Inr [plain_model], b, w')
  \<and> w_journal w' = line_journal [] \<and> w_draws w' = []"
  by (simp add: registry_models_for_agent_def routable_entries_def plain_api_def plain_member_def listed_world_def
      plain_world_def is_retired_def read_all_def line_journal_def str_lines_def retired_in_def now_ms_def
      pool_without_servable_member_def usage_for_def grant_state_def snapshot_models_def publish_def Let_def)

theorem best_routes_fit_the_request_witness:
  "\<exists>routes. mset routes = mset [''codex/m''] \<and> hd routes = ''codex/m''"
proof -
  obtain b w1 where models: "registry_models_for_agent plain_api ''a'' listed_world = (Inr [plain_model], b, w1)"
    "w_journal w1 = line_journal []" "w_draws w1 = []" using listed_models by blast
  have no_image: "\<not> needs_image plain_request" by (simp add: needs_image_def plain_request_def)
  have "\<exists>routes w'. best_subscription_models plain_api ''a'' (Some ''codex/m'') plain_request listed_world = Some (Inr routes, w')"
    using models no_image
    by (simp add: best_subscription_models_def active_supported_models_for_agent_def order_for_agent_def
        plain_api_def now_ms_def order_models_by_plan_def Let_def shuffle_within_equal_def
        sort_by_key_def shuffle_run_def plain_member_def is_retired_def read_all_def line_journal_def str_lines_def
        retired_in_def)
  then obtain routes w' where best:
    "best_subscription_models plain_api ''a'' (Some ''codex/m'') plain_request listed_world = Some (Inr routes, w')" by blast
  from best_routes_fit_the_request [OF best, of "[plain_model]"] models no_image show ?thesis
    by (auto simp: plain_model_def)
qed

end
