(* ===== verification/Fallible_Steps.thy ===== *)
theory Fallible_Steps
  imports Prelude
begin

section \<open>Fallible steps\<close>

text \<open>
  Rust code that threads state through calls joined by \<open>?\<close>: a step takes the state and answers a result and
  the state it leaves, also when it fails. \<open>bind_step\<close> is \<open>let x = m?; k(x)\<close>, \<open>map_error\<close> is \<open>map_err\<close>,
  \<open>attempt_step\<close> is a result taken without \<open>?\<close>. \<open>holds\<close> is the triple the components reason with: every run
  from a state in the precondition ends in \<open>Q\<close> with its value or in \<open>E\<close> with its error.
\<close>

type_synonym ('s, 'e, 'a) step = "'s \<Rightarrow> ('e, 'a) result \<times> 's"

named_theorems step_rules \<open>triples of the ways steps are composed\<close>
named_theorems keeps_rules \<open>steps and compositions that keep an invariant\<close>

definition ok_step :: "'a \<Rightarrow> ('s, 'e, 'a) step" where
  "ok_step x s = (Inr x, s)"

definition fail_step :: "'e \<Rightarrow> ('s, 'e, 'a) step" where
  "fail_step err s = (Inl err, s)"

definition lift_step :: "('e, 'a) result \<Rightarrow> ('s, 'e, 'a) step" where
  "lift_step r s = (r, s)"

definition read_step :: "('s \<Rightarrow> ('e, 'a) result) \<Rightarrow> ('s, 'e, 'a) step" where
  "read_step f s = (f s, s)"

definition bind_step :: "('s, 'e, 'a) step \<Rightarrow> ('a \<Rightarrow> ('s, 'e, 'b) step) \<Rightarrow> ('s, 'e, 'b) step" where
  "bind_step m k s = (case m s of (Inl err, s') \<Rightarrow> (Inl err, s') | (Inr x, s') \<Rightarrow> k x s')"

definition map_error :: "('e \<Rightarrow> 'd) \<Rightarrow> ('s, 'e, 'a) step \<Rightarrow> ('s, 'd, 'a) step" where
  "map_error f m s = (case m s of (Inl err, s') \<Rightarrow> (Inl (f err), s') | (Inr x, s') \<Rightarrow> (Inr x, s'))"

definition attempt_step :: "('s, 'e, 'a) step \<Rightarrow> ('s, 'd, ('e, 'a) result) step" where
  "attempt_step m s = (case m s of (r, s') \<Rightarrow> (Inr r, s'))"

fun each_step :: "('a \<Rightarrow> ('s, 'e, 'b) step) \<Rightarrow> 'a list \<Rightarrow> ('s, 'e, 'b list) step" where
  "each_step f [] = ok_step []"
| "each_step f (x # xs) = bind_step (f x) (\<lambda>y. bind_step (each_step f xs) (\<lambda>ys. ok_step (y # ys)))"

subsection \<open>Triples\<close>

definition holds ::
  "('s \<Rightarrow> bool) \<Rightarrow> ('s, 'e, 'a) step \<Rightarrow> ('a \<Rightarrow> 's \<Rightarrow> bool) \<Rightarrow> ('e \<Rightarrow> 's \<Rightarrow> bool) \<Rightarrow> bool" where
  "holds P m Q E =
     (\<forall>s. P s \<longrightarrow> (case m s of (Inl err, s') \<Rightarrow> E err s' | (Inr x, s') \<Rightarrow> Q x s'))"

lemma holdsD:
  "holds P m Q E \<Longrightarrow> P s \<Longrightarrow> m s = (Inr x, s') \<Longrightarrow> Q x s'"
  "holds P m Q E \<Longrightarrow> P s \<Longrightarrow> m s = (Inl err, s') \<Longrightarrow> E err s'"
  by (force simp: holds_def)+

lemma holdsI:
  assumes "\<And>s x s'. P s \<Longrightarrow> m s = (Inr x, s') \<Longrightarrow> Q x s'"
    and "\<And>s err s'. P s \<Longrightarrow> m s = (Inl err, s') \<Longrightarrow> E err s'"
  shows "holds P m Q E"
  using assms by (auto simp: holds_def split: prod.splits sum.splits)

lemma holds_weaken:
  assumes "holds P m Q E" and "\<And>s. P' s \<Longrightarrow> P s"
    and "\<And>x s. Q x s \<Longrightarrow> Q' x s" and "\<And>err s. E err s \<Longrightarrow> E' err s"
  shows "holds P' m Q' E'"
  using assms by (fastforce simp: holds_def split: prod.splits sum.splits)

lemma holds_ok [step_rules]: "(\<And>s. P s \<Longrightarrow> Q x s) \<Longrightarrow> holds P (ok_step x) Q E"
  by (simp add: holds_def ok_step_def)

lemma holds_fail [step_rules]: "(\<And>s. P s \<Longrightarrow> E err s) \<Longrightarrow> holds P (fail_step err) Q E"
  by (simp add: holds_def fail_step_def)

lemma holds_lift [step_rules]:
  "(\<And>s x. P s \<Longrightarrow> r = Inr x \<Longrightarrow> Q x s) \<Longrightarrow> (\<And>s err. P s \<Longrightarrow> r = Inl err \<Longrightarrow> E err s) \<Longrightarrow>
    holds P (lift_step r) Q E"
  by (cases r) (simp_all add: holds_def lift_step_def)

lemma holds_read [step_rules]:
  "(\<And>s x. P s \<Longrightarrow> f s = Inr x \<Longrightarrow> Q x s) \<Longrightarrow> (\<And>s err. P s \<Longrightarrow> f s = Inl err \<Longrightarrow> E err s) \<Longrightarrow>
    holds P (read_step f) Q E"
  by (simp add: holds_def read_step_def split: sum.splits)

lemma holds_bind [step_rules]:
  "holds P m R E \<Longrightarrow> (\<And>x. holds (R x) (k x) Q E) \<Longrightarrow> holds P (bind_step m k) Q E"
  by (fastforce simp: holds_def bind_step_def split: prod.splits sum.splits)

lemma holds_map_error [step_rules]:
  "holds P m Q (\<lambda>err. E (f err)) \<Longrightarrow> holds P (map_error f m) Q E"
  by (fastforce simp: holds_def map_error_def split: prod.splits sum.splits)

lemma holds_attempt [step_rules]:
  "holds P m (\<lambda>x. Q (Inr x)) (\<lambda>err. Q (Inl err)) \<Longrightarrow> holds P (attempt_step m) Q E"
proof (rule holdsI)
  fix s r s'
  assume *: "holds P m (\<lambda>x. Q (Inr x)) (\<lambda>err. Q (Inl err))" "P s" "attempt_step m s = (Inr r, s')"
  then have "m s = (r, s')" by (simp add: attempt_step_def split: prod.splits)
  with * show "Q r s'" by (cases r) (auto dest: holdsD)
qed (simp add: attempt_step_def split: prod.splits)

lemma holds_if [step_rules]:
  "(b \<Longrightarrow> holds P m Q E) \<Longrightarrow> (\<not> b \<Longrightarrow> holds P n Q E) \<Longrightarrow> holds P (if b then m else n) Q E"
  by simp

lemma holds_case_option [step_rules]:
  "(v = None \<Longrightarrow> holds P m Q E) \<Longrightarrow> (\<And>x. v = Some x \<Longrightarrow> holds P (k x) Q E) \<Longrightarrow>
    holds P (case v of None \<Rightarrow> m | Some x \<Rightarrow> k x) Q E"
  by (cases v) auto

lemma holds_case_sum [step_rules]:
  "(\<And>e. v = Inl e \<Longrightarrow> holds P (m e) Q E) \<Longrightarrow> (\<And>x. v = Inr x \<Longrightarrow> holds P (k x) Q E) \<Longrightarrow>
    holds P (case v of Inl e \<Rightarrow> m e | Inr x \<Rightarrow> k x) Q E"
  by (cases v) auto

lemma holds_true [simp]: "holds P m (\<lambda>_ _. True) (\<lambda>_ _. True)"
  by (auto simp: holds_def split: prod.splits sum.splits)

lemma holds_fact: "(c \<Longrightarrow> holds P m Q E) \<Longrightarrow> holds (\<lambda>s. P s \<and> c) m Q E"
  by (auto simp: holds_def)

lemma holds_pre: "(c \<Longrightarrow> holds (\<lambda>_. True) m Q E) \<Longrightarrow> holds (\<lambda>_. c) m Q E"
  by (auto simp: holds_def)

lemma holds_each:
  assumes "\<And>x. x \<in> set xs \<Longrightarrow> holds I (f x) (\<lambda>_. I) (\<lambda>_. I)"
  shows "holds I (each_step f xs) (\<lambda>_. I) (\<lambda>_. I)"
  using assms
proof (induction xs)
  case (Cons x xs)
  then show ?case by (auto intro!: step_rules)
qed (auto intro!: step_rules)

text \<open>A step that keeps an invariant whatever it answers.\<close>

definition keeps :: "('s \<Rightarrow> bool) \<Rightarrow> ('s, 'e, 'a) step \<Rightarrow> bool" where
  "keeps I m = (\<forall>s. I s \<longrightarrow> I (snd (m s)))"

lemma keeps_holds: "keeps I m \<longleftrightarrow> holds I m (\<lambda>_. I) (\<lambda>_. I)"
proof -
  have "(case m s of (Inl err, s') \<Rightarrow> I s' | (Inr x, s') \<Rightarrow> I s') = I (snd (m s))" for s
    by (auto split: prod.splits sum.splits)
  then show ?thesis by (simp add: keeps_def holds_def)
qed

lemma keeps_steps [keeps_rules]:
  "keeps I (ok_step x)" "keeps I (fail_step err)" "keeps I (lift_step r)" "keeps I (read_step f)"
  by (simp_all add: keeps_def ok_step_def fail_step_def lift_step_def read_step_def)

lemma keeps_bind [keeps_rules]: "keeps I m \<Longrightarrow> (\<And>x. keeps I (k x)) \<Longrightarrow> keeps I (bind_step m k)"
  by (auto simp: keeps_holds intro!: step_rules)

lemma keeps_map_error [keeps_rules]: "keeps I m \<Longrightarrow> keeps I (map_error f m)"
  by (auto simp: keeps_holds intro!: step_rules)

lemma keeps_attempt [keeps_rules]: "keeps I m \<Longrightarrow> keeps I (attempt_step m)"
  by (auto simp: keeps_holds intro!: step_rules)

lemma keeps_if [keeps_rules]: "(b \<Longrightarrow> keeps I m) \<Longrightarrow> (\<not> b \<Longrightarrow> keeps I n) \<Longrightarrow> keeps I (if b then m else n)"
  by simp

lemma keeps_each [keeps_rules]: "(\<And>x. x \<in> set xs \<Longrightarrow> keeps I (f x)) \<Longrightarrow> keeps I (each_step f xs)"
  unfolding keeps_holds by (rule holds_each)

lemma keeps_case_option [keeps_rules]:
  "(v = None \<Longrightarrow> keeps I m) \<Longrightarrow> (\<And>x. v = Some x \<Longrightarrow> keeps I (k x)) \<Longrightarrow>
    keeps I (case v of None \<Rightarrow> m | Some x \<Rightarrow> k x)"
  by (cases v) auto

lemma keeps_case_sum [keeps_rules]:
  "(\<And>e. v = Inl e \<Longrightarrow> keeps I (m e)) \<Longrightarrow> (\<And>x. v = Inr x \<Longrightarrow> keeps I (k x)) \<Longrightarrow>
    keeps I (case v of Inl e \<Rightarrow> m e | Inr x \<Rightarrow> k x)"
  by (cases v) auto

lemma keeps_case_prod [keeps_rules]: "(\<And>x y. v = (x, y) \<Longrightarrow> keeps I (k x y)) \<Longrightarrow> keeps I (case v of (x, y) \<Rightarrow> k x y)"
  by (cases v) auto

lemma keeps_case_list [keeps_rules]:
  "(v = [] \<Longrightarrow> keeps I m) \<Longrightarrow> (\<And>x xs. v = x # xs \<Longrightarrow> keeps I (k x xs)) \<Longrightarrow>
    keeps I (case v of [] \<Rightarrow> m | x # xs \<Rightarrow> k x xs)"
  by (cases v) auto

subsection \<open>Runs that answered\<close>

named_theorems run_simps \<open>what a run that ended with a value went through\<close>

lemma run_basic [run_simps]:
  "ok_step x s = (Inr y, s') \<longleftrightarrow> y = x \<and> s' = s" "fail_step err s \<noteq> (Inr y, s')"
  "lift_step r s = (Inr y, s') \<longleftrightarrow> r = Inr y \<and> s' = s" "read_step f s = (Inr y, s') \<longleftrightarrow> f s = Inr y \<and> s' = s"
  by (auto simp: ok_step_def fail_step_def lift_step_def read_step_def)

lemma run_bind [run_simps]:
  "bind_step m k s = (Inr y, s') \<longleftrightarrow> (\<exists>x s1. m s = (Inr x, s1) \<and> k x s1 = (Inr y, s'))"
  by (auto simp: bind_step_def split: prod.splits sum.splits)

lemma run_map_error [run_simps]: "map_error f m s = (Inr y, s') \<longleftrightarrow> m s = (Inr y, s')"
  by (auto simp: map_error_def split: prod.splits sum.splits)

lemma run_attempt [run_simps]: "attempt_step m s = (Inr r, s') \<longleftrightarrow> m s = (r, s')"
  by (auto simp: attempt_step_def split: prod.splits)

lemma run_if [run_simps]: "(if b then m else n) s = (Inr y, s') \<longleftrightarrow> (if b then m s = (Inr y, s') else n s = (Inr y, s'))"
  by simp

lemma run_each:
  "each_step f xs s = (Inr ys, s') \<Longrightarrow> list_all2 (\<lambda>x y. \<exists>s s'. f x s = (Inr y, s')) xs ys"
  by (induction xs arbitrary: s ys) (auto simp: run_simps)

end
