(* ===== verification/Reset_Redemption.thy ===== *)
theory Reset_Redemption
  imports Rotation Fallible_Steps "HOL-Library.Option_ord" "HOL-Library.Product_Lexorder"
begin

section \<open>Saved resets\<close>

text \<open>
  \<open>src/src/subscription_dispatch/acquire/resets/\<close> (\<open>mod.rs\<close>, \<open>model.rs\<close>, \<open>policy.rs\<close>, \<open>redeem/mod.rs\<close>,
  \<open>maintenance/mod.rs\<close>) and \<open>src/src/journal/resets.rs\<close>: a reset a provider grants once is capacity the
  account owns; redeeming it spends it. The request is journaled before it is sent and an outcome that
  was never confirmed keeps another from being sent.

  A run is a fallible step over \<open>shop\<close>: the world of \<open>Rotation\<close> and two history variables, the resets
  and the purchases that were sent, each with the journal as it stood when it was sent. What runs outside the process is an operation of the record
  \<open>market\<close>, a transformer of the world.
\<close>

subsection \<open>The state and what is outside it\<close>

record shop =
  sp_world :: world
  sp_resets :: "(reset_redemption \<times> journal) list"
  sp_purchases :: "(json \<times> journal) list"

record weles_exchange =
  wx_answer :: "json option"
  wx_observed :: json
  wx_http_status :: "nat option"
  wx_transport_failure :: "string option"

text \<open>
  \<open>mk_minutes\<close> and \<open>mk_hours\<close> are \<open>TimeDelta::try_minutes\<close> and \<open>try_hours\<close> read in milliseconds,
  \<open>mk_decode_error\<close> the words of \<open>serde_json\<close> for a record that is no redemption; \<open>mk_stored\<close> is what the
  write of the ledger's file answered.
\<close>

record 'f market =
  mk_api :: "'f api"
  mk_inventory :: "world \<Rightarrow> (string, subscription_entry list) result \<times> world"
  mk_plan_refresh :: "string \<Rightarrow> string \<Rightarrow> world \<Rightarrow> ('f, unit) result \<times> world"
  mk_read_offers ::
    "string \<Rightarrow> string \<Rightarrow> string \<Rightarrow> reset_declaration \<Rightarrow> world \<Rightarrow> (string, reset_offer) result \<times> world"
  mk_prepare ::
    "string \<Rightarrow> string \<Rightarrow> string \<Rightarrow> reset_declaration \<Rightarrow> reset_credit \<Rightarrow> string \<Rightarrow> world \<Rightarrow>
     (string, nat) result \<times> world"
  mk_exchange :: "nat \<Rightarrow> world \<Rightarrow> (string, json) result \<times> world"
  mk_reset_lock :: "string \<Rightarrow> world \<Rightarrow> (string, unit) result \<times> world"
  mk_uuid :: "world \<Rightarrow> string \<times> world"
  mk_stored :: "world \<Rightarrow> string option"
  mk_policy_env :: "world \<Rightarrow> policy_env"
  mk_reg_env :: "world \<Rightarrow> reg_env"
  mk_tier :: "string \<Rightarrow> string \<Rightarrow> string \<Rightarrow> world \<Rightarrow> (string, string) result \<times> world"
  mk_weles :: "string \<Rightarrow> json \<Rightarrow> world \<Rightarrow> (string, weles_exchange) result \<times> world"
  mk_refresh_subscription :: "string \<Rightarrow> string \<Rightarrow> string \<Rightarrow> world \<Rightarrow> (string, json) result \<times> world"
  mk_minutes :: "int \<Rightarrow> int option"
  mk_hours :: "int \<Rightarrow> int option"
  mk_decode_error :: "json \<Rightarrow> string"

abbreviation mk_codec :: "'f market \<Rightarrow> json_codec" where
  "mk_codec M \<equiv> api_codec (mk_api M)"

abbreviation sp_journal :: "shop \<Rightarrow> journal" where
  "sp_journal s \<equiv> w_journal (sp_world s)"

text \<open>An operation of the world run as a step, and one that always answers.\<close>

definition outside :: "(world \<Rightarrow> ('e, 'a) result \<times> world) \<Rightarrow> (shop, 'e, 'a) step" where
  "outside f s = (case f (sp_world s) of (r, w) \<Rightarrow> (r, s\<lparr>sp_world := w\<rparr>))"

definition within :: "(world \<Rightarrow> 'a \<times> world) \<Rightarrow> (shop, 'e, 'a) step" where
  "within f s = (case f (sp_world s) of (x, w) \<Rightarrow> (Inr x, s\<lparr>sp_world := w\<rparr>))"

abbreviation clock_step :: "(shop, 'e, instant) step" where
  "clock_step \<equiv> within now_ms"

text \<open>A write of the ledger whose storing is answered.\<close>

definition stored_write :: "'f market \<Rightarrow> (world \<Rightarrow> world) \<Rightarrow> (shop, string, unit) step" where
  "stored_write M f =
     outside (\<lambda>w. let w1 = f w in (case mk_stored M w1 of None \<Rightarrow> Inr () | Some err \<Rightarrow> Inl err, w1))"

definition retired_step :: "'f market \<Rightarrow> string \<Rightarrow> (shop, string, bool) step" where
  "retired_step M member = read_step (\<lambda>s. is_retired (mk_codec M) (sp_journal s) member)"

text \<open>\<open>subscription_credential\<close> and \<open>expose_utf8\<close>, with the words each caller gives their failures.\<close>

definition token_step ::
  "'f market \<Rightarrow> string \<Rightarrow> string \<Rightarrow> ('f \<Rightarrow> 'e) \<Rightarrow> (string \<Rightarrow> 'e) \<Rightarrow> (shop, 'e, string) step" where
  "token_step M member provider unread misread =
     bind_step (map_error unread (outside (api_redeem (mk_api M) member provider))) (\<lambda>secret.
       map_error misread (lift_step (api_utf8 (mk_api M) secret)))"

subsection \<open>Redemptions in the journal\<close>

fun state_name :: "reset_state \<Rightarrow> string" where
  "state_name Requested = ''requested''"
| "state_name Unconfirmed = ''unconfirmed''"
| "state_name ConsumptionObserved = ''consumption_observed''"
| "state_name Redeemed = ''redeemed''"
| "state_name ResetRefused = ''refused''"

fun state_debug :: "reset_state \<Rightarrow> string" where
  "state_debug Requested = ''Requested''"
| "state_debug Unconfirmed = ''Unconfirmed''"
| "state_debug ConsumptionObserved = ''ConsumptionObserved''"
| "state_debug Redeemed = ''Redeemed''"
| "state_debug ResetRefused = ''Refused''"

definition state_named :: "string \<Rightarrow> reset_state option" where
  "state_named s =
     List.find (\<lambda>st. state_name st = s) [Requested, Unconfirmed, ConsumptionObserved, Redeemed, ResetRefused]"

definition json_u64 :: "64 word \<Rightarrow> json" where
  "json_u64 n = JInt (uint n)"

definition json_opt :: "('a \<Rightarrow> json) \<Rightarrow> 'a option \<Rightarrow> json" where
  "json_opt f v = (case v of None \<Rightarrow> JNull | Some x \<Rightarrow> f x)"

definition redemption_fields :: "reset_redemption \<Rightarrow> (string \<times> json) list" where
  "redemption_fields r =
     [(''provider'', JStr (rd_provider r)), (''member'', JStr (rd_member r)),
      (''credit_id'', JStr (rd_credit_id r)), (''remaining_before'', json_u64 (rd_remaining_before r)),
      (''request_id'', JStr (rd_request_id r)), (''reason'', JStr (rd_reason r)),
      (''state'', JStr (state_name (rd_state r))), (''detail'', json_opt JStr (rd_detail r)),
      (''at_ms'', JInt (rd_at_ms r))]"

definition reset_record :: "reset_redemption \<Rightarrow> string \<Rightarrow> json" where
  "reset_record r at =
     json_obj (redemption_fields r @ [(''kind'', JStr ''subscription_reset''), (''at'', JStr at)])"

fun as_u64 :: "json \<Rightarrow> 64 word option" where
  "as_u64 (JInt i) = (if 0 \<le> i \<and> i < 2 ^ 64 then Some (word_of_int i) else None)"
| "as_u64 _ = None"

text \<open>\<open>serde_json::from_value::<ResetRedemption>\<close>: \<open>detail\<close> may be missing or null, unknown keys are passed over.\<close>

definition optional_text :: "json \<Rightarrow> string \<Rightarrow> string option option" where
  "optional_text j key = (case json_get j key of
       None \<Rightarrow> Some None
     | Some JNull \<Rightarrow> Some None
     | Some (JStr s) \<Rightarrow> Some (Some s)
     | Some _ \<Rightarrow> None)"

definition decode_redemption :: "json \<Rightarrow> reset_redemption option" where
  "decode_redemption j =
     (case (field j ''provider'', field j ''member'', field j ''credit_id'',
            Option.bind (json_get j ''remaining_before'') as_u64, field j ''request_id'', field j ''reason'',
            Option.bind (field j ''state'') state_named, optional_text j ''detail'',
            Option.bind (json_get j ''at_ms'') as_i64) of
        (Some p, Some m, Some c, Some n, Some q, Some why, Some st, Some d, Some at) \<Rightarrow>
          Some \<lparr>rd_provider = p, rd_member = m, rd_credit_id = c, rd_remaining_before = n,
                rd_request_id = q, rd_reason = why, rd_state = st, rd_detail = d, rd_at_ms = at\<rparr>
      | _ \<Rightarrow> None)"

text \<open>
  \<open>journal::resets::record\<close>: the answers of an append are the ones of the journal, where \<open>NotRestricted\<close> is
  here a line written whole whose \<open>sync_all\<close> failed.
\<close>

definition append_reset ::
  "json_codec \<Rightarrow> append_answer \<Rightarrow> string \<Rightarrow> reset_redemption \<Rightarrow> journal \<Rightarrow> (string, unit) result \<times> journal" where
  "append_reset J answer at outcome jn =
     (case jn_path jn of
        Inl cause \<Rightarrow> (Inl cause, jn)
      | Inr path \<Rightarrow>
          (let line = show_json J (reset_record outcome at) @ [NL];
               wrote = (\<lambda>s. jn\<lparr>jn_file := append_text s (jn_file jn)\<rparr>)
           in (case answer of
                 NoDirectory parent err \<Rightarrow> (Inl (''create journal directory '' @ parent @ '': '' @ err), jn)
               | NotOpened err \<Rightarrow> (Inl (''open reset journal '' @ path @ '': '' @ err), jn)
               | Torn n err \<Rightarrow>
                   (Inl (''persist reset journal '' @ path @ '': '' @ err), wrote (take n line))
               | NotRestricted err \<Rightarrow> (Inl (''persist reset journal '' @ path @ '': '' @ err), wrote line)
               | Written \<Rightarrow> (Inr (), wrote line))))"

fun latest_in ::
  "json_codec \<Rightarrow> (json \<Rightarrow> string) \<Rightarrow> string \<Rightarrow> string \<Rightarrow> reset_redemption option \<Rightarrow> string list \<Rightarrow>
   (string, reset_redemption option) result" where
  "latest_in J words path member found [] = Inr found"
| "latest_in J words path member found (line # lines) =
     (case parse_json J line of
        Inl err \<Rightarrow> Inl (''decode reset journal '' @ path @ '': '' @ err)
      | Inr entry \<Rightarrow>
          (if field entry ''kind'' = Some ''subscription_reset'' \<and> field entry ''member'' = Some member
           then (case decode_redemption entry of
                   None \<Rightarrow> Inl (''decode reset history for '' @ member @ '': '' @ words entry)
                 | Some r \<Rightarrow> latest_in J words path member (Some r) lines)
           else latest_in J words path member found lines))"

definition latest_reset ::
  "json_codec \<Rightarrow> (json \<Rightarrow> string) \<Rightarrow> journal \<Rightarrow> string \<Rightarrow> (string, reset_redemption option) result" where
  "latest_reset J words jn member =
     (case jn_path jn of
        Inl cause \<Rightarrow> Inl cause
      | Inr path \<Rightarrow>
          (case jn_file jn of
             JAbsent \<Rightarrow> Inr None
           | JUnreadable err \<Rightarrow> Inl (''read reset journal '' @ path @ '': '' @ err)
           | JText t \<Rightarrow> latest_in J words path member None (filter (\<lambda>l. trim l \<noteq> []) (str_lines t))))"

abbreviation newest_reset :: "'f market \<Rightarrow> journal \<Rightarrow> string \<Rightarrow> (string, reset_redemption option) result" where
  "newest_reset M jn member \<equiv> latest_reset (mk_codec M) (mk_decode_error M) jn member"

text \<open>\<open>redeem::persist\<close>: the journal first, then the ledger.\<close>

definition journal_reset :: "'f market \<Rightarrow> reset_redemption \<Rightarrow> (shop, string, unit) step" where
  "journal_reset M outcome =
     outside (\<lambda>w. case w_appends w (w_append_tick w) of (answer, at) \<Rightarrow>
       (case append_reset (mk_codec M) answer at outcome (w_journal w) of
          (r, jn) \<Rightarrow> (r, w\<lparr>w_append_tick := Suc (w_append_tick w), w_journal := jn\<rparr>)))"

definition persist_reset :: "'f market \<Rightarrow> reset_redemption \<Rightarrow> (shop, string, unit) step" where
  "persist_reset M outcome =
     bind_step (journal_reset M outcome) (\<lambda>_. stored_write M (ledger_write (record_reset_redemption outcome)))"

subsection \<open>Reading a member's offer\<close>

definition declared_resets :: "string \<Rightarrow> string \<Rightarrow> (string, reset_declaration) result" where
  "declared_resets provider undeclared =
     (case declared_provider provider of
        Inl err \<Rightarrow> Inl err
      | Inr d \<Rightarrow> (case pd_resets d of Some r \<Rightarrow> Inr r | None \<Rightarrow> Inl undeclared))"

definition read_offer :: "'f crates \<Rightarrow> 'f market \<Rightarrow> string \<Rightarrow> string \<Rightarrow> (shop, string, reset_offer) step" where
  "read_offer K M member provider =
     bind_step (lift_step (declared_resets provider
       (''provider '' @ provider @ '' declares no saved-reset report''))) (\<lambda>declared.
     bind_step (retired_step M member) (\<lambda>retired.
       if retired then fail_step (''subscription '' @ member @ '' is retired; its grant is not used'')
       else
     bind_step (read_step (\<lambda>s. Inr (Option.bind (Option.bind (usage_for (w_ledger (sp_world s)) member)
       su_credential) cr_borrowed_from))) (\<lambda>borrowed.
       if borrowed \<noteq> None
       then fail_step (''subscription '' @ member @ '' carries a harness-owned grant; reset operations '' @
              ''require Brama's own sign-in'')
       else
     bind_step (token_step M member provider (failure_json K) (\<lambda>err. ''subscription credential: '' @ err)) (\<lambda>token.
       outside (mk_read_offers M provider (subscription_resource provider member) token declared)))))"

definition refresh_offer :: "'f crates \<Rightarrow> 'f market \<Rightarrow> string \<Rightarrow> string \<Rightarrow> (shop, string, reset_offer) step" where
  "refresh_offer K M member provider =
     bind_step (attempt_step (read_offer K M member provider)) (\<lambda>outcome.
     bind_step (stored_write M (\<lambda>w. case now_ms w of (t, w1) \<Rightarrow>
       ledger_write (record_reset_offer member provider outcome t) w1)) (\<lambda>_.
     lift_step outcome))"

subsection \<open>Which credit is spent\<close>

text \<open>The latest reset of the windows given, or the refusal of one that names none.\<close>

fun latest_until :: "string \<Rightarrow> instant option \<Rightarrow> limit_reading list \<Rightarrow> (string, instant option) result" where
  "latest_until member latest [] = Inr latest"
| "latest_until member latest (r # rs) =
     (case lr_resets_at_ms r of
        None \<Rightarrow> Inl (''subscription '' @ member @ '': exhausted window '' @ lr_limit_id r @
                   '' has no natural reset time'')
      | Some until \<Rightarrow>
          latest_until member (Some (case latest of Some previous \<Rightarrow> max previous until | None \<Rightarrow> until)) rs)"

definition windows_blocked_until ::
  "string \<Rightarrow> subscription_usage option \<Rightarrow> instant \<Rightarrow> instant \<Rightarrow> (string, instant option) result" where
  "windows_blocked_until member entry now1 now =
     (if Option.bind (Option.bind (Option.bind entry su_resets) rb_offer) ro_limit_reached = Some False
      then Inr None
      else (let windows = plan_windows entry now1
            in if pw_stale windows \<or> pw_limits windows = []
               then Inl (''subscription '' @ member @
                      '': no fresh provider windows to decide reset eligibility'')
               else latest_until member None
                      (filter (\<lambda>r. window_current now r \<and> at_limit (lr_used_fraction r)) (pw_limits windows))))"

definition reset_blocked_until ::
  "'f crates \<Rightarrow> 'f market \<Rightarrow> string \<Rightarrow> string \<Rightarrow> (shop, string, instant option) step" where
  "reset_blocked_until K M member provider =
     bind_step (map_error (failure_json K) (outside (mk_plan_refresh M member provider))) (\<lambda>_.
     bind_step clock_step (\<lambda>now1.
     bind_step clock_step (\<lambda>now.
       read_step (\<lambda>s. windows_blocked_until member (usage_for (w_ledger (sp_world s)) member) now1 now))))"

definition credit_usable :: "instant \<Rightarrow> instant option \<Rightarrow> reset_credit \<Rightarrow> bool" where
  "credit_usable now blocked_until c =
     (rc_usable c \<and> rc_remaining_count c \<noteq> 0 \<and>
      (case rc_expires_at_ms c of None \<Rightarrow> True | Some expiry \<Rightarrow> expiry > now) \<and>
      (rc_requires_limit c \<longrightarrow> blocked_until \<noteq> None))"

definition usable_credits :: "instant \<Rightarrow> instant option \<Rightarrow> reset_offer \<Rightarrow> reset_credit list" where
  "usable_credits now blocked_until offer =
     sort_by_key (\<lambda>c. (rc_expires_at_ms c = None, rc_expires_at_ms c))
       (filter (credit_usable now blocked_until) (ro_credits offer))"

definition stated_i64 :: "string \<Rightarrow> string \<Rightarrow> 64 word \<Rightarrow> (string, int) result" where
  "stated_i64 provider span n =
     (if uint n > i64_max
      then Inl (provider @ [CHR 0x27] @ ''s stated '' @ span @ '': out of range integral type conversion attempted'')
      else Inr (uint n))"

definition stated_span :: "string \<Rightarrow> string \<Rightarrow> int option \<Rightarrow> (string, int) result" where
  "stated_span provider span ms =
     (case ms of
        Some ms \<Rightarrow> Inr ms
      | None \<Rightarrow> Inl (provider @ [CHR 0x27] @ ''s stated '' @ span @ '' exceed a supported duration''))"

text \<open>The two spans of a policy in milliseconds: how long a block must last, how near an expiry must be.\<close>

definition policy_spans :: "'f market \<Rightarrow> string \<Rightarrow> reset_policy \<Rightarrow> (string, int \<times> int) result" where
  "policy_spans M provider p =
     (case stated_i64 provider ''blocked minutes'' (pl_min_blocked_minutes p) of
        Inl err \<Rightarrow> Inl err
      | Inr minutes \<Rightarrow>
     (case stated_i64 provider ''salvage hours'' (pl_salvage_horizon_hours p) of
        Inl err \<Rightarrow> Inl err
      | Inr hours \<Rightarrow>
     (case stated_span provider ''blocked minutes'' (mk_minutes M minutes) of
        Inl err \<Rightarrow> Inl err
      | Inr minimum \<Rightarrow>
     (case stated_span provider ''salvage hours'' (mk_hours M hours) of
        Inl err \<Rightarrow> Inl err
      | Inr salvage \<Rightarrow> Inr (minimum, salvage)))))"

definition expires_within :: "instant \<Rightarrow> int \<Rightarrow> reset_credit \<Rightarrow> bool" where
  "expires_within now salvage c =
     (case rc_expires_at_ms c of None \<Rightarrow> False | Some expiry \<Rightarrow> i64_saturating_sub expiry now \<le> salvage)"

definition blocked_longer :: "instant \<Rightarrow> int \<Rightarrow> instant option \<Rightarrow> bool" where
  "blocked_longer now minimum blocked_until =
     (case blocked_until of None \<Rightarrow> False | Some until \<Rightarrow> i64_saturating_sub until now > minimum)"

fun pick_credit ::
  "instant \<Rightarrow> int \<Rightarrow> bool \<Rightarrow> reset_credit list \<Rightarrow> (reset_credit \<times> string) option" where
  "pick_credit now salvage spend [] = None"
| "pick_credit now salvage spend (c # cs) =
     (if expires_within now salvage c then Some (c, ''expiring_credit'')
      else if spend then Some (c, ''exhausted_window'')
      else pick_credit now salvage spend cs)"

definition choose_credit ::
  "'f market \<Rightarrow> policy_env \<Rightarrow> policy_file \<Rightarrow> instant \<Rightarrow> string \<Rightarrow> reset_offer \<Rightarrow> instant option \<Rightarrow> bool \<Rightarrow>
   (string, (reset_credit \<times> string) option) result" where
  "choose_credit M E policies now provider offer blocked_until automatic =
     (let credits = usable_credits now blocked_until offer
      in if \<not> automatic then Inr (case credits of [] \<Rightarrow> None | c # _ \<Rightarrow> Some (c, ''operator''))
         else (case policy_for_provider E provider policies of
                 Inl err \<Rightarrow> Inl err
               | Inr policy \<Rightarrow>
                   (case policy_spans M provider policy of
                      Inl err \<Rightarrow> Inl err
                    | Inr (minimum, salvage) \<Rightarrow>
                        Inr (pick_credit now salvage
                          (ro_available_count offer > pl_keep_credits policy \<and>
                           blocked_longer now minimum blocked_until) credits))))"

subsection \<open>Redeeming one credit\<close>

definition credit_json :: "reset_credit \<Rightarrow> json" where
  "credit_json c =
     json_obj [(''id'', JStr (rc_id c)), (''program'', JStr (rc_program c)),
               (''remaining_count'', json_u64 (rc_remaining_count c)),
               (''consumption_observable'', JBool (rc_consumption_observable c)),
               (''usable'', JBool (rc_usable c)), (''requires_limit'', JBool (rc_requires_limit c)),
               (''expires_at_ms'', json_opt JInt (rc_expires_at_ms c)),
               (''clears'', JArr (map JStr (rc_clears c)))]"

definition offer_json :: "reset_offer \<Rightarrow> json" where
  "offer_json f =
     json_obj [(''available_count'', json_u64 (ro_available_count f)),
               (''redeemable_count'', json_opt json_u64 (ro_redeemable_count f)),
               (''eligible'', json_opt JBool (ro_eligible f)),
               (''limit_reached'', json_opt JBool (ro_limit_reached f)),
               (''reason'', json_opt JStr (ro_reason f)), (''next_credit_id'', json_opt JStr (ro_next_credit_id f)),
               (''credits'', JArr (map credit_json (ro_credits f))),
               (''observed_at_ms'', JInt (ro_observed_at_ms f))]"

definition redemption_json :: "reset_redemption \<Rightarrow> json" where
  "redemption_json r = json_obj (redemption_fields r)"

text \<open>\<open>value[key].as_bool() == Some(true)\<close>.\<close>

definition says_true :: "json \<Rightarrow> string \<Rightarrow> bool" where
  "says_true j key = (json_get j key = Some (JBool True))"

definition err_text :: "('e, 'a) result \<Rightarrow> 'e option" where
  "err_text r = (case r of Inl err \<Rightarrow> Some err | Inr _ \<Rightarrow> None)"

definition ok_value :: "('e, 'a) result \<Rightarrow> 'a option" where
  "ok_value r = (case r of Inl _ \<Rightarrow> None | Inr x \<Rightarrow> Some x)"

text \<open>The member of the inventory a run is asked for.\<close>

definition selected_member ::
  "subscription_entry list \<Rightarrow> string \<Rightarrow> string \<Rightarrow> (string, unit) result" where
  "selected_member members member provider =
     (case List.find (\<lambda>e. se_id e = member) members of
        None \<Rightarrow> Inl (''subscription '' @ member @ '' does not exist in the serving vault'')
      | Some e \<Rightarrow>
          (if se_provider e \<noteq> provider
           then Inl (''subscription '' @ member @ '' belongs to '' @ se_provider e @ '', not '' @ provider)
           else Inr ()))"

definition credit_consumed :: "reset_offer \<Rightarrow> reset_redemption \<Rightarrow> bool" where
  "credit_consumed offer previous =
     (case List.find (\<lambda>c. rc_id c = rd_credit_id previous) (ro_credits offer) of
        None \<Rightarrow> False
      | Some c \<Rightarrow> rc_consumption_observable c \<and> rc_remaining_count c < rd_remaining_before previous)"

text \<open>An earlier request whose outcome is unknown: only a fresh report of its consumption resolves it.\<close>

definition reconcile ::
  "'f market \<Rightarrow> string \<Rightarrow> reset_offer \<Rightarrow> reset_redemption \<Rightarrow> (shop, string, json) step" where
  "reconcile M member offer previous =
     (if \<not> credit_consumed offer previous
      then fail_step (''subscription '' @ member @ '': reset request '' @ rd_request_id previous @
             '' remains '' @ state_debug (rd_state previous) @
             ''; the provider report has not confirmed consumption, so no other reset is sent'')
      else bind_step clock_step (\<lambda>now.
        let settled = previous\<lparr>rd_state := ConsumptionObserved,
              rd_detail := Some (''a fresh provider report shows fewer uses of the selected credit; '' @
                ''quota restoration is not inferred''),
              rd_at_ms := now\<rparr>
        in bind_step (persist_reset M settled) (\<lambda>_.
             ok_step (json_obj [(''ok'', JBool True), (''result'', JStr ''reconciled''),
                                (''redemption'', redemption_json settled), (''offer'', offer_json offer)]))))"

text \<open>The request is sent: the history variable keeps it with the journal of that moment.\<close>

definition send_reset :: "'f market \<Rightarrow> nat \<Rightarrow> reset_redemption \<Rightarrow> (shop, string, json) step" where
  "send_reset M prepared outcome s =
     outside (mk_exchange M prepared) (s\<lparr>sp_resets := sp_resets s @ [(outcome, sp_journal s)]\<rparr>)"

definition settled_state :: "json \<Rightarrow> reset_state" where
  "settled_state response =
     (if says_true response ''ok'' then Redeemed
      else if says_true response ''not_applied'' then ResetRefused else Unconfirmed)"

text \<open>What a sent request's answer leaves: its settled record, fresh reports, and the block lifted by them.\<close>

definition settle_reset ::
  "'f crates \<Rightarrow> 'f market \<Rightarrow> string \<Rightarrow> string \<Rightarrow> reset_redemption \<Rightarrow> (string, json) result \<Rightarrow>
   (shop, string, json) step" where
  "settle_reset K M provider member outcome answer =
     (case answer of
        Inl err \<Rightarrow>
          bind_step clock_step (\<lambda>now.
          bind_step (persist_reset M (outcome\<lparr>rd_state := Unconfirmed, rd_detail := Some err, rd_at_ms := now\<rparr>)) (\<lambda>_.
            fail_step (''subscription '' @ member @ '': reset '' @ rd_request_id outcome @
              '' is unconfirmed: '' @ err @ ''; no mutation retry was sent'')))
      | Inr response \<Rightarrow>
          bind_step clock_step (\<lambda>now.
          let confirmed = says_true response ''ok'';
              settled = outcome\<lparr>rd_state := settled_state response,
                          rd_detail := Some (show_json (mk_codec M) response), rd_at_ms := now\<rparr>
          in bind_step (persist_reset M settled) (\<lambda>_.
             bind_step (attempt_step (refresh_offer K M member provider)) (\<lambda>fresh_offer.
             bind_step (attempt_step (reset_blocked_until K M member provider)) (\<lambda>quota.
             bind_step (if confirmed \<and> quota = Inr None
                        then stored_write M (ledger_write (record_reset_unblocked member provider))
                        else ok_step ()) (\<lambda>_.
               ok_step (json_obj
                 [(''ok'', JBool (confirmed \<and> ok_value fresh_offer \<noteq> None \<and> ok_value quota \<noteq> None)),
                  (''result'', JStr (state_name (rd_state settled))),
                  (''redemption'', redemption_json settled),
                  (''offer'', json_opt offer_json (ok_value fresh_offer)),
                  (''offer_error'', json_opt JStr (err_text fresh_offer)),
                  (''blocked_until_ms'', json_opt (json_opt JInt) (ok_value quota)),
                  (''quota_error'', json_opt JStr (err_text quota))])))))))"

text \<open>One credit redeemed: the request is prepared, journaled and only then sent.\<close>

definition redeem_credit ::
  "'f crates \<Rightarrow> 'f market \<Rightarrow> string \<Rightarrow> string \<Rightarrow> string \<Rightarrow> reset_declaration \<Rightarrow> reset_credit \<Rightarrow> string \<Rightarrow>
   (shop, string, json) step" where
  "redeem_credit K M provider member reason declared credit trigger =
     bind_step (token_step M member provider (failure_json K) (\<lambda>err. ''subscription credential: '' @ err)) (\<lambda>token.
     bind_step (within (mk_uuid M)) (\<lambda>request_id.
     bind_step clock_step (\<lambda>now.
     let outcome = \<lparr>rd_provider = provider, rd_member = member, rd_credit_id = rc_id credit,
           rd_remaining_before = rc_remaining_count credit, rd_request_id = request_id, rd_reason = reason,
           rd_state = Requested, rd_detail = Some trigger, rd_at_ms = now\<rparr>
     in bind_step (attempt_step (outside (mk_prepare M provider (subscription_resource provider member) token
          declared credit request_id))) (\<lambda>prepared.
        case prepared of
          Inl err \<Rightarrow>
            bind_step clock_step (\<lambda>later.
            bind_step (persist_reset M (outcome\<lparr>rd_state := ResetRefused,
              rd_detail := Some (''reset was not sent: '' @ err), rd_at_ms := later\<rparr>)) (\<lambda>_.
              fail_step (''subscription '' @ member @ '': reset was not sent: '' @ err)))
        | Inr request \<Rightarrow>
            bind_step (persist_reset M outcome) (\<lambda>_.
            bind_step (attempt_step (send_reset M request outcome)) (\<lambda>answer.
              settle_reset K M provider member outcome answer))))))"

definition redeem_chosen ::
  "'f crates \<Rightarrow> 'f market \<Rightarrow> string \<Rightarrow> string \<Rightarrow> string \<Rightarrow> bool \<Rightarrow> reset_declaration \<Rightarrow> reset_offer \<Rightarrow>
   (shop, string, json) step" where
  "redeem_chosen K M provider member reason automatic declared offer =
     bind_step (reset_blocked_until K M member provider) (\<lambda>blocked_until.
     bind_step clock_step (\<lambda>now.
     bind_step (read_step (\<lambda>s. choose_credit M (mk_policy_env M (sp_world s)) (w_policies (sp_world s)) now
       provider offer blocked_until automatic)) (\<lambda>chosen.
       case chosen of
         None \<Rightarrow>
           ok_step (json_obj [(''ok'', JBool automatic), (''result'', JStr ''refused''),
             (''provider'', JStr provider), (''member'', JStr member),
             (''detail'', JStr (''no usable reset meets this member's provider eligibility and reset policy'')),
             (''offer'', offer_json offer)])
       | Some (credit, trigger) \<Rightarrow>
           redeem_credit K M provider member reason declared credit trigger)))"

definition redeem_run ::
  "'f crates \<Rightarrow> 'f market \<Rightarrow> string \<Rightarrow> string \<Rightarrow> string \<Rightarrow> bool \<Rightarrow> (shop, string, json) step" where
  "redeem_run K M provider member reason automatic =
     (if trim reason = [] then fail_step ''--reason must state why this subscription reset is requested''
      else
        bind_step (retired_step M member) (\<lambda>retired.
        if retired then fail_step (''subscription '' @ member @ '': retired by its owner; no reset was sent'')
        else
        bind_step (outside (mk_reset_lock M member)) (\<lambda>_.
        bind_step (outside (mk_inventory M)) (\<lambda>members.
        bind_step (lift_step (selected_member members member provider)) (\<lambda>_.
        bind_step (lift_step (declared_resets provider
          (''provider '' @ provider @ '' declares no reset operation''))) (\<lambda>declared.
        bind_step (refresh_offer K M member provider) (\<lambda>offer.
        bind_step (read_step (\<lambda>s. newest_reset M (sp_journal s) member)) (\<lambda>newest.
          case newest of
            Some previous \<Rightarrow>
              (if unresolved (rd_state previous) then reconcile M member offer previous
               else redeem_chosen K M provider member reason automatic declared offer)
          | None \<Rightarrow> redeem_chosen K M provider member reason automatic declared offer))))))))"

subsection \<open>The maintenance pass\<close>

definition MAINTENANCE_REASON :: string where
  "MAINTENANCE_REASON = ''maintenance: restore exhausted or expiring saved capacity before purchase''"

definition member_result :: "subscription_entry \<Rightarrow> (string \<times> json) list \<Rightarrow> json" where
  "member_result e rest =
     json_obj ([(''member'', JStr (se_id e)), (''provider'', JStr (se_provider e))] @ rest)"

definition maintain_one ::
  "'f crates \<Rightarrow> 'f market \<Rightarrow> (string, reset_policy) btmap \<Rightarrow> subscription_entry \<Rightarrow> (shop, string, json) step" where
  "maintain_one K M ps e =
     (if bt_get ps (se_provider e) \<noteq> None
      then redeem_run K M (se_provider e) (se_id e) MAINTENANCE_REASON True
      else bind_step (refresh_offer K M (se_id e) (se_provider e)) (\<lambda>offer.
        ok_step (json_obj [(''ok'', JBool True), (''result'', JStr ''observed''), (''offer'', offer_json offer)])))"

fun maintain_members ::
  "'f crates \<Rightarrow> 'f market \<Rightarrow> (string, reset_policy) btmap \<Rightarrow> subscription_entry list \<Rightarrow> json list \<Rightarrow> bool \<Rightarrow>
   (shop, string, json) step" where
  "maintain_members K M ps [] results ok =
     ok_step (json_obj [(''ok'', JBool ok), (''members'', JArr results)])"
| "maintain_members K M ps (e # es) results ok =
     bind_step (attempt_step (retired_step M (se_id e))) (\<lambda>retired.
       case retired of
         Inl err \<Rightarrow> ok_step (json_obj [(''ok'', JBool False), (''error'', JStr err), (''members'', JArr results)])
       | Inr True \<Rightarrow> maintain_members K M ps es results ok
       | Inr False \<Rightarrow>
           (case declared_provider (se_provider e) of
              Inl err \<Rightarrow>
                maintain_members K M ps es (results @ [member_result e [(''error'', JStr err)]]) False
            | Inr d \<Rightarrow>
                (if pd_resets d = None then maintain_members K M ps es results ok
                 else bind_step (attempt_step (maintain_one K M ps e)) (\<lambda>result.
                   case result of
                     Inr report \<Rightarrow>
                       maintain_members K M ps es (results @ [member_result e [(''report'', report)]])
                         (ok \<and> says_true report ''ok'')
                   | Inl err \<Rightarrow>
                       maintain_members K M ps es (results @ [member_result e [(''error'', JStr err)]]) False))))"

definition maintenance_run :: "'f crates \<Rightarrow> 'f market \<Rightarrow> (shop, string, json) step" where
  "maintenance_run K M =
     (let stopped = (\<lambda>err. json_obj [(''ok'', JBool False), (''error'', JStr err), (''members'', JArr [])])
      in bind_step (attempt_step (outside (mk_inventory M))) (\<lambda>listed.
           case listed of
             Inl err \<Rightarrow> ok_step (stopped err)
           | Inr members \<Rightarrow>
               bind_step (attempt_step (read_step (\<lambda>s.
                 all_policies (mk_policy_env M (sp_world s)) (w_policies (sp_world s))))) (\<lambda>policies.
                 case policies of
                   Inl err \<Rightarrow> ok_step (stopped err)
                 | Inr ps \<Rightarrow> maintain_members K M ps members [] True)))"

end
