(* ===== verification/Acquisition.thy ===== *)
theory Acquisition
  imports Reset_Redemption
begin

section \<open>Buying an account\<close>

text \<open>
  \<open>src/src/subscription_dispatch/acquire/\<close> (\<open>mod.rs\<close>, \<open>decide/\<close>, \<open>purchase/mod.rs\<close>, \<open>purchase\<close> of
  \<open>weles.rs\<close>): whether the pool of a provider is short of accounts, and the purchase of one. Steps run over the
  \<open>shop\<close> of \<open>Reset_Redemption\<close>; \<open>sp_purchases\<close> keeps what Weles was asked with the journal of that moment.
  Whether the process's one acquisition slot was free is an argument.
\<close>

subsection \<open>Options and verdicts\<close>

datatype trigger = Operator | Maintenance | SessionsFull | NoUsable

fun trigger_name :: "trigger \<Rightarrow> string" where
  "trigger_name Operator = ''operator''"
| "trigger_name Maintenance = ''maintenance''"
| "trigger_name SessionsFull = ''sessions_full''"
| "trigger_name NoUsable = ''no_usable_member''"

record acquire_options =
  aq_provider :: string
  aq_reason :: string
  aq_trigger :: trigger

definition ACQUIRED :: string where "ACQUIRED = ''acquired''"
definition REFUSED :: string where "REFUSED = ''refused''"
definition FAILED :: string where "FAILED = ''failed''"
definition REQUESTED :: string where "REQUESTED = ''requested''"

text \<open>A verdict under construction is the sorted map of its object; \<open>put\<close> is \<open>verdict[key] = value\<close>.\<close>

type_synonym verdict = "(string \<times> json) list"

abbreviation put :: "string \<Rightarrow> json \<Rightarrow> verdict \<Rightarrow> verdict" where
  "put k v kvs \<equiv> bt_insert k v kvs"

definition put_all :: "(string \<times> json) list \<Rightarrow> verdict \<Rightarrow> verdict" where
  "put_all rows kvs = foldl (\<lambda>m (k, v). put k v m) kvs rows"

text \<open>A decision not to buy, with the facts it rests on.\<close>

definition acquisition_refusal :: "acquire_options \<Rightarrow> string \<Rightarrow> string \<Rightarrow> (string \<times> json) list \<Rightarrow> json" where
  "acquisition_refusal opts code detail facts =
     JObj (put_all facts (put_all
       [(''provider'', JStr (aq_provider opts)), (''reason'', JStr (aq_reason opts)),
        (''trigger'', JStr (trigger_name (aq_trigger opts))), (''result'', JStr REFUSED),
        (''code'', JStr code), (''detail'', JStr detail)] []))"

subsection \<open>The pool at the moment of the decision\<close>

record pool_member =
  pm_id :: string
  pm_account :: "string option"

datatype account_key = Declared string | Undeclared string

text \<open>The derived order: every declared account before every undeclared one.\<close>

fun account_rank :: "account_key \<Rightarrow> bool \<times> string" where
  "account_rank (Declared account) = (False, account)"
| "account_rank (Undeclared member) = (True, member)"

lemma account_rank_inject: "account_rank a = account_rank b \<longleftrightarrow> a = b"
  by (cases a; cases b) auto

instantiation account_key :: linorder
begin

definition less_eq_account_key :: "account_key \<Rightarrow> account_key \<Rightarrow> bool" where
  "less_eq_account_key a b = (account_rank a \<le> account_rank b)"

definition less_account_key :: "account_key \<Rightarrow> account_key \<Rightarrow> bool" where
  "less_account_key a b = (account_rank a < account_rank b)"

instance
  by standard (auto simp: less_eq_account_key_def less_account_key_def less_le_not_le account_rank_inject
      dest: order.antisym [of "account_rank _" "account_rank _"])

end

fun account_text :: "account_key \<Rightarrow> string" where
  "account_text (Declared account) = account"
| "account_text (Undeclared member) = member @ '' (declares no account)''"

datatype standing = Spent "instant option" | Available "f64 option" | Unread string

text \<open>\<open>str::to_lowercase\<close> on the code points below 256.\<close>

definition lower_char :: "char \<Rightarrow> char" where
  "lower_char c =
     (let n = (of_char c :: nat)
      in if 65 \<le> n \<and> n \<le> 90 \<or> 192 \<le> n \<and> n \<le> 222 \<and> n \<noteq> 215 then char_of (n + 32) else c)"

definition to_lowercase :: "string \<Rightarrow> string" where
  "to_lowercase s = map lower_char s"

definition member_account :: "subscription_entry \<Rightarrow> string option" where
  "member_account e =
     (case se_account e of
        None \<Rightarrow> None
      | Some account \<Rightarrow> (if trim account = [] then None else Some (to_lowercase (trim account))))"

fun pool_members ::
  "json_codec \<Rightarrow> journal \<Rightarrow> string \<Rightarrow> subscription_entry list \<Rightarrow> (string, pool_member list) result" where
  "pool_members J jn provider [] = Inr []"
| "pool_members J jn provider (e # es) =
     (if se_provider e \<noteq> provider then pool_members J jn provider es
      else (case is_retired J jn (se_id e) of
              Inl err \<Rightarrow> Inl err
            | Inr retired \<Rightarrow>
                (case pool_members J jn provider es of
                   Inl err \<Rightarrow> Inl err
                 | Inr ms \<Rightarrow>
                     Inr (if retired then ms else \<lparr>pm_id = se_id e, pm_account = member_account e\<rparr> # ms))))"

definition members_step :: "'f market \<Rightarrow> string \<Rightarrow> (shop, string, pool_member list) step" where
  "members_step M provider =
     bind_step (map_error (\<lambda>err. ''the Skarbiec subscription inventory could not be read: '' @ err)
       (outside (mk_inventory M))) (\<lambda>entries.
     read_step (\<lambda>s. pool_members (mk_codec M) (sp_journal s) provider entries))"

definition member_key :: "pool_member \<Rightarrow> account_key" where
  "member_key m = (case pm_account m of Some account \<Rightarrow> Declared account | None \<Rightarrow> Undeclared (pm_id m))"

definition pool_accounts :: "pool_member list \<Rightarrow> account_key list" where
  "pool_accounts ms = foldl (\<lambda>held m. bs_insert (member_key m) held) [] ms"

definition from_windows :: "plan_windows \<Rightarrow> instant \<Rightarrow> standing" where
  "from_windows windows now =
     (if pw_limits windows = [] then Unread ''the provider's usage report named no plan window''
      else (let live = filter (window_current now) (pw_limits windows);
                full = filter (\<lambda>r. at_limit (lr_used_fraction r)) live
            in if full \<noteq> []
               then Spent (max_opt (filter_map lr_resets_at_ms full))
               else Available (f64_reduce_max (map lr_used_fraction live))))"

definition windows_step :: "string \<Rightarrow> (shop, 'e, plan_windows) step" where
  "windows_step sid =
     bind_step clock_step (\<lambda>now.
       read_step (\<lambda>s. Inr (plan_windows (usage_for (w_ledger (sp_world s)) sid) now)))"

definition member_standing :: "'f crates \<Rightarrow> 'f market \<Rightarrow> string \<Rightarrow> pool_member \<Rightarrow> (shop, 'e, standing) step" where
  "member_standing K M provider m =
     bind_step clock_step (\<lambda>now.
     bind_step (read_step (\<lambda>s. Inr (blocked_until_ms (w_ledger (sp_world s)) (pm_id m) now))) (\<lambda>blocked.
       case blocked of
         Some until \<Rightarrow> ok_step (Spent (Some until))
       | None \<Rightarrow>
     bind_step (read_step (\<lambda>s. Inr (awaiting_sign_in_cause (w_ledger (sp_world s)) (pm_id m)))) (\<lambda>awaiting.
       case awaiting of
         Some cause \<Rightarrow>
           bind_step (windows_step (pm_id m)) (\<lambda>relayed.
             if pw_source relayed = Some UsageHarness
             then bind_step clock_step (\<lambda>now. ok_step (from_windows relayed now))
             else ok_step (Unread (''its grant awaits a sign-in: '' @ cause)))
       | None \<Rightarrow>
           bind_step (attempt_step (outside (mk_plan_refresh M (pm_id m) provider))) (\<lambda>refreshed.
             case refreshed of
               Inl failure \<Rightarrow>
                 ok_step (Unread (''its usage report could not be read: '' @ failure_render K failure))
             | Inr _ \<Rightarrow>
                 bind_step (windows_step (pm_id m)) (\<lambda>windows.
                 bind_step clock_step (\<lambda>now. ok_step (from_windows windows now)))))))"

subsection \<open>The plan to buy\<close>

definition member_tier :: "'f crates \<Rightarrow> 'f market \<Rightarrow> string \<Rightarrow> string \<Rightarrow> (shop, string, string) step" where
  "member_tier K M provider sid =
     (let item = subscription_resource provider sid
      in bind_step (token_step M sid provider
           (\<lambda>failure. ''its grant could not be read: '' @ failure_render K failure)
           (\<lambda>err. ''read the grant in `'' @ item @ ''` as UTF-8: '' @ err)) (\<lambda>token.
         outside (mk_tier M provider item token)))"

text \<open>The tiers the members state, each with who states it, and the refusals of the others.\<close>

fun read_tiers ::
  "'f crates \<Rightarrow> 'f market \<Rightarrow> string \<Rightarrow> pool_member list \<Rightarrow> (string, string list) btmap \<Rightarrow> string list \<Rightarrow>
   (shop, 'e, (string, string list) btmap \<times> string list) step" where
  "read_tiers K M provider [] tiers refusals = ok_step (tiers, refusals)"
| "read_tiers K M provider (m # ms) tiers refusals =
     bind_step (attempt_step (member_tier K M provider (pm_id m))) (\<lambda>answer.
       case answer of
         Inr tier \<Rightarrow> read_tiers K M provider ms (bt_entry [] tier (\<lambda>ids. ids @ [pm_id m]) tiers) refusals
       | Inl detail \<Rightarrow> read_tiers K M provider ms tiers (refusals @ [pm_id m @ '': '' @ detail]))"

definition pool_tier ::
  "'f crates \<Rightarrow> 'f market \<Rightarrow> string \<Rightarrow> pool_member list \<Rightarrow> (shop, string, string) step" where
  "pool_tier K M provider ms =
     bind_step (read_tiers K M provider ms [] []) (\<lambda>(tiers, refusals).
       case tiers of
         [(tier, _)] \<Rightarrow> ok_step tier
       | [] \<Rightarrow>
           fail_step (''no '' @ provider @ '' member's grant states its plan tier, so the plan to buy cannot be read: '' @
             join ''; '' refusals)
       | _ \<Rightarrow>
           fail_step (''the '' @ provider @ '' pool holds more than one plan tier, so which one to buy is not '' @
             ''stated by the pool: '' @
             join ''; '' (map (\<lambda>(tier, ids). tier @ '' ('' @ join '', '' ids @ '')'') tiers)))"

subsection \<open>The decision\<close>

record shortage =
  sg_kind :: string
  sg_why :: string
  sg_cap :: nat
  sg_accounts :: "string list"
  sg_standings :: "json list"
  sg_plan_tier :: string

definition unresolved_attempt :: "json_codec \<Rightarrow> journal \<Rightarrow> string \<Rightarrow> (string, json option) result" where
  "unresolved_attempt J jn provider =
     (case latest_subscription_acquisition J jn provider of
        Inl err \<Rightarrow> Inl err
      | Inr newest \<Rightarrow>
          Inr (case newest of
                 None \<Rightarrow> None
               | Some previous \<Rightarrow>
                   (if field previous ''result'' \<in> {Some FAILED, Some REQUESTED} then Some previous else None)))"

definition standing_row :: "pool_member \<Rightarrow> standing \<Rightarrow> json" where
  "standing_row m st =
     JObj (put_all ([(''id'', JStr (pm_id m)), (''account'', json_opt JStr (pm_account m))] @
       (case st of
          Spent until \<Rightarrow> [(''standing'', JStr ''spent''), (''until_ms'', json_opt JInt until)]
        | Available used \<Rightarrow> [(''standing'', JStr ''available''), (''used_fraction'', json_opt json_f64 used)]
        | Unread detail \<Rightarrow> [(''standing'', JStr ''unread''), (''detail'', JStr detail)])) [])"

definition plan_left :: "pool_member \<Rightarrow> standing \<Rightarrow> string option" where
  "plan_left m st = (case st of
       Available (Some fraction) \<Rightarrow>
         Some (pm_id m @ '' still has plan left (its most spent window is '' @ show_f64_two fraction @ '' used)'')
     | Available None \<Rightarrow> Some (pm_id m @ '' still has plan left'')
     | _ \<Rightarrow> None)"

definition SAVED_CAPACITY_REASON :: string where
  "SAVED_CAPACITY_REASON = ''use eligible saved capacity before buying another account''"

text \<open>Saved capacity is used before a member is judged, where its provider declares any.\<close>

definition use_saved_capacity ::
  "'f crates \<Rightarrow> 'f market \<Rightarrow> acquire_options \<Rightarrow> pool_member \<Rightarrow> (shop, json, unit) step" where
  "use_saved_capacity K M opts m =
     (let provider = aq_provider opts;
          unconfirmed = (\<lambda>detail facts. acquisition_refusal opts ''saved_capacity_unconfirmed'' detail
            ([(''member'', JStr (pm_id m))] @ facts))
      in case declared_provider provider of
           Inr d \<Rightarrow>
             (if pd_resets d = None then ok_step ()
              else bind_step (map_error (\<lambda>detail. unconfirmed (pm_id m @ '': '' @ detail @
                       ''; no account is bought while saved capacity is unconfirmed'') [])
                     (redeem_run K M provider (pm_id m) SAVED_CAPACITY_REASON True)) (\<lambda>reset.
                   if says_true reset ''ok'' then ok_step ()
                   else fail_step (unconfirmed (pm_id m @ '': saved-capacity maintenance did not confirm its '' @
                     ''outcome; no account is bought'') [(''reset'', reset)])))
         | Inl _ \<Rightarrow> ok_step ())"

definition judge_member ::
  "'f crates \<Rightarrow> 'f market \<Rightarrow> acquire_options \<Rightarrow> pool_member \<Rightarrow> (shop, json, pool_member \<times> standing) step" where
  "judge_member K M opts m =
     bind_step (use_saved_capacity K M opts m) (\<lambda>_.
     bind_step (member_standing K M (aq_provider opts) m) (\<lambda>st. ok_step (m, st)))"

definition pool_facts :: "nat \<Rightarrow> string list \<Rightarrow> json list \<Rightarrow> (string \<times> json) list" where
  "pool_facts cap accounts rows =
     [(''cap'', JInt (int cap)), (''accounts'', JArr (map JStr accounts)), (''standings'', JArr rows)]"

definition shortage_of_sessions ::
  "'f crates \<Rightarrow> 'f market \<Rightarrow> string \<Rightarrow> (shop, string, json option) step" where
  "shortage_of_sessions K M provider =
     bind_step (lift_step (sessions_cap provider)) (\<lambda>_.
     bind_step (attempt_step (outside (mk_inventory M))) (\<lambda>inventory.
     bind_step clock_step (\<lambda>now.
       read_step (\<lambda>s. let w = sp_world s in
         sessions_shortage K (mk_codec M) (w_journal w) (w_ledger w) now (mk_reg_env M w) inventory provider
           (w_register w)))))"

text \<open>Which shortage it is, or the refusal that there is none.\<close>

definition shortage_kind ::
  "'f crates \<Rightarrow> 'f market \<Rightarrow> acquire_options \<Rightarrow> (string \<times> json) list \<Rightarrow> (pool_member \<times> standing) list \<Rightarrow>
   (shop, json, string \<times> string) step" where
  "shortage_kind K M opts facts judged =
     (let provider = aq_provider opts;
          stops = filter_map (\<lambda>(m, st). plan_left m st) judged;
          spent = length (filter (\<lambda>(_, st). case st of Spent _ \<Rightarrow> True | _ \<Rightarrow> False) judged);
          total = length judged
      in if aq_trigger opts = SessionsFull
         then bind_step (map_error (\<lambda>detail. acquisition_refusal opts ''leases_unreadable'' detail [])
                (shortage_of_sessions K M provider)) (\<lambda>found.
              case found of
                Some full \<Rightarrow>
                  ok_step (''sessions_full'', ''every usable '' @ provider @ '' subscription carries '' @
                    show_json (mk_codec M) (json_index full ''limit'') @ '' sessions, the operator's limit'')
              | None \<Rightarrow>
                  fail_step (acquisition_refusal opts ''sessions_not_full''
                    (''not every usable '' @ provider @ '' subscription carries the operator's limit of sessions, '' @
                     ''so none is bought'') facts))
         else if stops \<noteq> []
         then fail_step (acquisition_refusal opts ''pool_not_spent''
                (''not every '' @ provider @ '' account has spent its plan, so none is bought: '' @ join ''; '' stops) facts)
         else if judged \<noteq> [] \<and> spent = total
         then ok_step (''spent'', ''every one of the '' @ show_nat total @ '' '' @ provider @ '' accounts has spent its plan'')
         else ok_step (''unusable'', ''no '' @ provider @ '' account can serve: of '' @ show_nat total @ '' accounts, '' @
                show_nat spent @ '' spent and the rest cannot be read''))"

text \<open>An automatic acquisition stops on an attempt that failed or never ended.\<close>

definition previous_attempt :: "'f market \<Rightarrow> acquire_options \<Rightarrow> (shop, json, unit) step" where
  "previous_attempt M opts =
     (if aq_trigger opts = Operator then ok_step ()
      else bind_step (map_error (\<lambda>detail. acquisition_refusal opts ''journal_unreadable'' detail [])
             (read_step (\<lambda>s. unresolved_attempt (mk_codec M) (sp_journal s) (aq_provider opts)))) (\<lambda>previous.
           case previous of
             None \<Rightarrow> ok_step ()
           | Some p \<Rightarrow>
               (let shown = (\<lambda>key. show_json (mk_codec M) (json_index p key)); provider = aq_provider opts
                in fail_step (acquisition_refusal opts ''previous_acquisition_unresolved''
                     (''the last acquisition of a '' @ provider @ '' account (at '' @ shown ''at'' @ '') ended '' @
                      shown ''result'' @ '': '' @ shown ''detail'' @ ''; a maintenance pass or a full pool of '' @
                      ''sessions buys nothing until `brama subscription acquire '' @ provider @
                      '' --reason <why>` is run again'')
                     [(''previous'', p)]))))"

definition decide :: "'f crates \<Rightarrow> 'f market \<Rightarrow> acquire_options \<Rightarrow> (shop, json, shortage) step" where
  "decide K M opts =
     (let provider = aq_provider opts
      in bind_step (map_error (\<lambda>detail. acquisition_refusal opts ''account_cap_undeclared''
             (detail @ '', so none is bought'') []) (lift_step (accounts_cap provider))) (\<lambda>cap.
         bind_step (previous_attempt M opts) (\<lambda>_.
         bind_step (map_error (\<lambda>detail. acquisition_refusal opts ''inventory_unreadable'' detail [])
             (members_step M provider)) (\<lambda>ms.
         let accounts = map account_text (pool_accounts ms); count = length accounts
         in if count \<ge> cap
            then fail_step (acquisition_refusal opts ''account_cap_reached''
                   (''the pool already holds '' @ show_nat count @ '' '' @ provider @
                    '' accounts and the operator allows at most '' @ show_nat cap @ '': '' @ join '', '' accounts)
                   [(''cap'', JInt (int cap)), (''accounts'', JArr (map JStr accounts))])
            else
              bind_step (each_step (judge_member K M opts) ms) (\<lambda>judged.
              let rows = map (\<lambda>(m, st). standing_row m st) judged; facts = pool_facts cap accounts rows
              in bind_step (shortage_kind K M opts facts judged) (\<lambda>(kind, why).
                 bind_step (map_error (\<lambda>detail. acquisition_refusal opts ''plan_unstated'' detail facts)
                     (pool_tier K M provider ms)) (\<lambda>tier.
                 ok_step \<lparr>sg_kind = kind, sg_why = why, sg_cap = cap, sg_accounts = accounts,
                           sg_standings = rows, sg_plan_tier = tier\<rparr>)))))))"

subsection \<open>The purchase\<close>

text \<open>\<open>record_subscription_acquisition\<close>, for an outcome that is an object.\<close>

definition acquisition_record :: "string \<Rightarrow> instant \<Rightarrow> verdict \<Rightarrow> json" where
  "acquisition_record at at_ms kvs =
     JObj (put_all [(''kind'', JStr ''subscription_acquisition''), (''at'', JStr at), (''at_ms'', JInt at_ms)] kvs)"

lemma acquisition_record_stamps:
  "record_subscription_acquisition J answer at at_ms (JObj kvs) jn =
     Some (append_record J answer (acquisition_record at at_ms kvs) jn)"
  by (simp add: record_subscription_acquisition_def stamped_def acquisition_record_def put_all_def)

definition journal_acquisition :: "'f market \<Rightarrow> verdict \<Rightarrow> (shop, string, unit) step" where
  "journal_acquisition M kvs =
     outside (\<lambda>w. case w_appends w (w_append_tick w) of (answer, at) \<Rightarrow>
       (case now_ms (w\<lparr>w_append_tick := Suc (w_append_tick w)\<rparr>) of (at_ms, w1) \<Rightarrow>
         (case append_record (mk_codec M) answer (acquisition_record at at_ms kvs) (w_journal w1) of
            (r, jn) \<Rightarrow> (r, w1\<lparr>w_journal := jn\<rparr>))))"

definition finish ::
  "'f market \<Rightarrow> verdict \<Rightarrow> string \<Rightarrow> string \<Rightarrow> string \<Rightarrow> json \<Rightarrow> (shop, 'e, json) step" where
  "finish M kvs result code detail refreshed =
     (let ended = put_all [(''result'', JStr result), (''code'', JStr code), (''detail'', JStr detail),
            (''refresh'', refreshed)] kvs
      in bind_step (attempt_step (journal_acquisition M ended)) (\<lambda>written.
           case written of
             Inr _ \<Rightarrow> ok_step (JObj ended)
           | Inl err \<Rightarrow> ok_step (JObj (put ''journal_failure'' (JStr err) ended))))"

text \<open>\<open>weles::purchase\<close>: Weles is asked; the history variable keeps the request with the journal of that moment.\<close>

definition weles_purchase ::
  "'f market \<Rightarrow> string \<Rightarrow> string \<Rightarrow> string \<Rightarrow> string \<Rightarrow> (shop, string, weles_exchange) step" where
  "weles_purchase M provider request_id plan_tier reason =
     bind_step (lift_step (weles_provider provider)) (\<lambda>weles.
       (\<lambda>s. let body = json_obj [(''provider'', JStr weles), (''subscription_id'', JStr request_id),
                       (''plan_tier'', JStr plan_tier), (''reason'', JStr reason)]
            in outside (mk_weles M ''/subscriptions/acquire'' body)
                 (s\<lparr>sp_purchases := sp_purchases s @ [(body, sp_journal s)]\<rparr>)))"

text \<open>\<open>discovery::provider_account\<close>.\<close>

definition account_address :: "string \<Rightarrow> bool" where
  "account_address account =
     ((case dropWhile (\<lambda>c. c \<noteq> CHR ''@'') account of
        [] \<Rightarrow> False
      | _ # domain \<Rightarrow>
          takeWhile (\<lambda>c. c \<noteq> CHR ''@'') account \<noteq> [] \<and> domain \<noteq> [] \<and> CHR ''@'' \<notin> set domain) \<and>
     \<not> list_ex is_ws account)"

definition provider_account :: "string \<Rightarrow> string \<Rightarrow> (string, unit) result" where
  "provider_account provider account =
     (case declared_provider provider of
        Inl err \<Rightarrow> Inl err
      | Inr _ \<Rightarrow>
          (if account_address account then Inr ()
           else Inl (''provider '' @ provider @ '': discovery requires an account email address'')))"

definition purchased_member :: "string \<Rightarrow> string \<Rightarrow> string" where
  "purchased_member provider account = provider @ ''-'' @ slug account"

definition answered_fields :: "json \<Rightarrow> verdict \<Rightarrow> verdict" where
  "answered_fields answer kvs =
     put_all (map (\<lambda>key. (key, json_index answer key))
       [''account'', ''subscription_id'', ''subscription_item'', ''login_item'', ''paid'', ''run_id'']) kvs"

text \<open>The end of a purchase Weles refused.\<close>

definition purchase_refused ::
  "'f market \<Rightarrow> verdict \<Rightarrow> nat option \<Rightarrow> json \<Rightarrow> (shop, 'e, json) step" where
  "purchase_refused M kvs status answer =
     (let failure = json_index answer ''failure''; absent = (status = Some 404); shown = show_json (mk_codec M) answer;
          code = (case (field failure ''code'', absent) of
                    (Some code, _) \<Rightarrow> code
                  | (None, True) \<Rightarrow> ''weles_purchase_route_absent''
                  | (None, False) \<Rightarrow> ''purchase_failed'');
          detail = (case (field failure ''message'', absent) of
                      (Some message, _) \<Rightarrow> message
                    | (None, True) \<Rightarrow>
                        ''the Weles serving this gateway answered HTTP 404 for its purchase route, so it '' @
                        ''predates account purchase; release weles-worker with POST /subscriptions/acquire '' @
                        ''to that host ('' @ shown @ '')''
                    | (None, False) \<Rightarrow> ''Weles refused the purchase: '' @ shown)
      in finish M (put ''failure'' failure kvs) FAILED code detail JNull)"

text \<open>The bought grant is proved with a refresh of the member the answer names.\<close>

definition prove_purchase ::
  "'f market \<Rightarrow> acquire_options \<Rightarrow> shortage \<Rightarrow> verdict \<Rightarrow> string \<Rightarrow> (shop, 'e, json) step" where
  "prove_purchase M opts sg kvs sid =
     bind_step (attempt_step (outside (mk_refresh_subscription M (aq_provider opts) sid (aq_reason opts)))) (\<lambda>proof.
       case proof of
         Inl detail \<Rightarrow>
           finish M kvs FAILED ''acquired_grant_unproven''
             (''Weles bought the account and stored its grant, but Brama could not refresh it: '' @ detail) JNull
       | Inr refreshed \<Rightarrow>
           (if field refreshed ''result'' \<noteq> Some ''refreshed''
            then finish M kvs FAILED ''acquired_grant_unproven''
                   (''Weles bought the account and stored its grant, but Brama's refresh did not prove it: '' @
                    show_json (mk_codec M) (json_index refreshed ''detail'')) refreshed
            else finish M kvs ACQUIRED ''acquired''
                   (''bought '' @ show_json (mk_codec M) (json_index (JObj kvs) ''account'') @ '' on plan '' @
                    sg_plan_tier sg @ '' as '' @ sid @ '', and Brama refreshed its grant'') refreshed))"

definition settle_purchase ::
  "'f market \<Rightarrow> acquire_options \<Rightarrow> shortage \<Rightarrow> string \<Rightarrow> verdict \<Rightarrow> nat option \<Rightarrow> json \<Rightarrow> (shop, 'e, json) step" where
  "settle_purchase M opts sg request_id base status answer =
     (let provider = aq_provider opts; kvs = answered_fields answer base
      in if \<not> says_true answer ''ok'' then purchase_refused M kvs status answer
         else if field answer ''request_id'' \<noteq> Some request_id
         then finish M (put ''weles_answer'' answer kvs) FAILED ''purchase_uncorrelated''
                (''Weles's purchase answer does not carry this request's id '' @ request_id @ '' as request_id, so '' @
                 ''the member it banked is unknown; the Weles serving this gateway predates naming the bought '' @
                 ''member in its answer: '' @ show_json (mk_codec M) answer) JNull
         else (case field answer ''account'' of
                 None \<Rightarrow>
                   finish M kvs FAILED ''acquired_account_unidentified''
                     ''Weles reported a purchase without its account address'' JNull
               | Some account \<Rightarrow>
                   (case provider_account provider account of
                      Inl detail \<Rightarrow> finish M kvs FAILED ''acquired_account_unidentified'' detail JNull
                    | Inr _ \<Rightarrow>
                        (let sid = purchased_member provider account
                         in if field answer ''subscription_id'' \<noteq> Some sid
                            then finish M kvs FAILED ''acquired_member_mismatch''
                                   (''Weles did not bank the purchased account under its provider-and-address '' @
                                    ''member '' @ sid) JNull
                            else prove_purchase M opts sg kvs sid))))"

definition purchase_verdict :: "acquire_options \<Rightarrow> shortage \<Rightarrow> string \<Rightarrow> verdict" where
  "purchase_verdict opts sg request_id =
     put_all [(''provider'', JStr (aq_provider opts)), (''reason'', JStr (aq_reason opts)),
       (''trigger'', JStr (trigger_name (aq_trigger opts))), (''shortage'', JStr (sg_kind sg)),
       (''why'', JStr (sg_why sg)), (''cap'', JInt (int (sg_cap sg))),
       (''accounts'', JArr (map JStr (sg_accounts sg))), (''standings'', JArr (sg_standings sg)),
       (''plan_tier'', JStr (sg_plan_tier sg)), (''request_id'', JStr request_id)] []"

definition requested_verdict :: "acquire_options \<Rightarrow> shortage \<Rightarrow> string \<Rightarrow> verdict" where
  "requested_verdict opts sg request_id =
     put_all [(''result'', JStr REQUESTED), (''detail'', JStr ''Weles was asked to buy the account'')]
       (purchase_verdict opts sg request_id)"

text \<open>What the exchange with Weles came back with.\<close>

definition settle_exchange ::
  "'f market \<Rightarrow> acquire_options \<Rightarrow> shortage \<Rightarrow> string \<Rightarrow> (string, weles_exchange) result \<Rightarrow> (shop, 'e, json) step" where
  "settle_exchange M opts sg request_id exchanged =
     (let kvs = purchase_verdict opts sg request_id
      in case exchanged of
           Inl detail \<Rightarrow> finish M kvs FAILED ''weles_unreachable'' detail JNull
         | Inr ex \<Rightarrow>
             (let base = put_all [(''weles'', wx_observed ex),
                    (''weles_http_status'', json_opt (\<lambda>n. JInt (int n)) (wx_http_status ex))] kvs
              in case wx_transport_failure ex of
                   Some detail \<Rightarrow> finish M base FAILED ''weles_execution_unconfirmed'' detail JNull
                 | None \<Rightarrow>
                     (case wx_answer ex of
                        None \<Rightarrow>
                          finish M base FAILED ''weles_execution_unconfirmed''
                            ''Weles answered the purchase without a result'' JNull
                      | Some answer \<Rightarrow> settle_purchase M opts sg request_id base (wx_http_status ex) answer)))"

definition buy :: "'f market \<Rightarrow> acquire_options \<Rightarrow> shortage \<Rightarrow> (shop, 'e, json) step" where
  "buy M opts sg =
     bind_step (within (mk_uuid M)) (\<lambda>request_id.
     bind_step (attempt_step (journal_acquisition M (requested_verdict opts sg request_id))) (\<lambda>written.
       case written of
         Inl detail \<Rightarrow>
           ok_step (acquisition_refusal opts ''journal_unwritable''
             (''the purchase request could not be journaled, so no account is bought: '' @ detail) [])
       | Inr _ \<Rightarrow>
           bind_step (attempt_step (weles_purchase M (aq_provider opts) request_id (sg_plan_tier sg) (aq_reason opts)))
             (settle_exchange M opts sg request_id)))"

subsection \<open>An acquisition\<close>

definition validate_acquire :: "acquire_options \<Rightarrow> (string, unit) result" where
  "validate_acquire opts =
     (case declared_provider (aq_provider opts) of
        Inl err \<Rightarrow> Inl err
      | Inr _ \<Rightarrow>
          (if trim (aq_reason opts) = [] then Inl ''--reason must say why an account is being bought'' else Inr ()))"

definition acquire_account ::
  "'f crates \<Rightarrow> 'f market \<Rightarrow> bool \<Rightarrow> acquire_options \<Rightarrow> (shop, string, json) step" where
  "acquire_account K M free opts =
     bind_step (lift_step (validate_acquire opts)) (\<lambda>_.
       if \<not> free
       then ok_step (acquisition_refusal opts ''acquisition_running''
              (''an acquisition of a '' @ aq_provider opts @ '' account is already running in this process; its '' @
               ''verdict is journaled when it ends'') [])
       else bind_step (attempt_step (decide K M opts)) (\<lambda>decided.
              case decided of Inr sg \<Rightarrow> buy M opts sg | Inl verdict \<Rightarrow> ok_step verdict))"

text \<open>
  The decisions of one maintenance pass, in name order. \<open>free\<close> is what \<open>try_lock_owned\<close> answers each provider;
  the purchases it starts are returned, to be run (by \<open>buy\<close>) as tasks of their own.
\<close>

definition maintenance_options :: "string \<Rightarrow> acquire_options" where
  "maintenance_options provider =
     \<lparr>aq_provider = provider,
      aq_reason = ''no '' @ provider @ '' account in the pool can serve: each has spent its plan or cannot be used'',
      aq_trigger = Maintenance\<rparr>"

definition started_verdict :: "acquire_options \<Rightarrow> shortage \<Rightarrow> json" where
  "started_verdict opts sg =
     json_obj [(''provider'', JStr (aq_provider opts)), (''result'', JStr ''started''), (''code'', JStr ''purchase_started''),
       (''detail'', JStr (sg_why sg @ '', and the operator allows '' @ show_nat (sg_cap sg) @
          ''; Weles is buying one on plan '' @ sg_plan_tier sg @
          '', and the verdict is journaled and logged when it ends'')),
       (''trigger'', JStr (trigger_name (aq_trigger opts))), (''shortage'', JStr (sg_kind sg)),
       (''cap'', JInt (int (sg_cap sg))), (''accounts'', JArr (map JStr (sg_accounts sg))),
       (''standings'', JArr (sg_standings sg)), (''plan_tier'', JStr (sg_plan_tier sg))]"

fun maintenance_pass ::
  "'f crates \<Rightarrow> 'f market \<Rightarrow> (string \<Rightarrow> bool) \<Rightarrow> string list \<Rightarrow> json list \<Rightarrow> (acquire_options \<times> shortage) list \<Rightarrow>
   (shop, 'e, json list \<times> (acquire_options \<times> shortage) list) step" where
  "maintenance_pass K M free [] verdicts started = ok_step (verdicts, started)"
| "maintenance_pass K M free (provider # providers) verdicts started =
     (let opts = maintenance_options provider
      in if \<not> free provider
         then maintenance_pass K M free providers
                (verdicts @ [acquisition_refusal opts ''acquisition_running''
                   ''an acquisition started by an earlier pass is still running'' []]) started
         else bind_step (attempt_step (decide K M opts)) (\<lambda>decided.
                case decided of
                  Inl verdict \<Rightarrow> maintenance_pass K M free providers (verdicts @ [verdict]) started
                | Inr sg \<Rightarrow>
                    maintenance_pass K M free providers (verdicts @ [started_verdict opts sg])
                      (started @ [(opts, sg)])))"

end
