(* ===== verification/Reset_Safety.thy ===== *)
theory Reset_Safety
  imports Reset_Redemption Rotation_Walks "HOL-Library.Countable"
begin

section \<open>A saved reset is spent once\<close>

text \<open>
  What makes redeeming safe: the record of a request reads back before the request is sent, a request of
  unknown outcome keeps another from being sent, and an automatic one obeys the operator's policy.
\<close>

subsection \<open>A recorded request reads back\<close>

lemma state_named_name [simp]: "state_named (state_name st) = Some st"
  by (cases st) (simp_all add: state_named_def)

lemma redemption_reads [simp]:
  "field (reset_record r at) ''kind'' = Some ''subscription_reset''"
  "field (reset_record r at) ''member'' = Some (rd_member r)"
  by (simp_all add: field_def reset_record_def redemption_fields_def json_obj_def)

definition reads_back :: "'f market \<Rightarrow> reset_redemption \<Rightarrow> bool" where
  "reads_back M r =
     (i64_min \<le> rd_at_ms r \<and> rd_at_ms r \<le> i64_max \<and> (\<forall>at. codec_ok (mk_codec M) (reset_record r at)))"

lemma decode_recorded:
  assumes "i64_min \<le> rd_at_ms r" "rd_at_ms r \<le> i64_max"
  shows "decode_redemption (reset_record r at) = Some r"
  using assms unsigned_less [of "rd_remaining_before r"]
  by (cases "rd_detail r")
     (simp_all add: decode_redemption_def field_def reset_record_def redemption_fields_def json_obj_def
       json_u64_def json_opt_def optional_text_def)

lemma latest_in_append:
  "latest_in J words path member found (ls @ ms) =
     (case latest_in J words path member found ls of
        Inl err \<Rightarrow> Inl err | Inr found \<Rightarrow> latest_in J words path member found ms)"
  by (induction J words path member found ls rule: latest_in.induct) (auto split: sum.splits option.splits)

lemma latest_reset_append:
  assumes "terminated jn" "reads_back M r" "newest_reset M jn (rd_member r) = Inr before"
    and "append_reset (mk_codec M) answer at r jn = (Inr u, jn')"
  shows "newest_reset M jn' (rd_member r) = Inr (Some r) \<and> terminated jn'"
proof -
  let ?J = "mk_codec M"
  have ok: "codec_ok ?J (reset_record r at)" "decode_redemption (reset_record r at) = Some r"
    using assms(2) by (auto simp: reads_back_def decode_recorded)
  then have ne: "show_json ?J (reset_record r at) \<noteq> []" by (auto simp: codec_ok_def trim_def)
  obtain path where path: "jn_path jn = Inr path" using assms(1) by (auto simp: terminated_def)
  with assms(4) have jn': "jn' = jn\<lparr>jn_file := append_text (show_json ?J (reset_record r at) @ [NL]) (jn_file jn)\<rparr>"
    by (auto simp: append_reset_def Let_def split: append_answer.splits)
  consider "jn_file jn = JAbsent" | t where "jn_file jn = JText t" "t = [] \<or> last t = NL"
    using assms(1) by (auto simp: terminated_def)
  then show ?thesis
  proof cases
    case 1
    with ok ne path jn' show ?thesis
      using str_lines_append [of "[]" "show_json ?J (reset_record r at)"]
      by (simp add: append_text_def latest_reset_def codec_ok_def terminated_def str_lines_def)
  next
    case 2
    with ok ne path jn' assms(3) show ?thesis
      by (auto simp: append_text_def latest_reset_def codec_ok_def terminated_def str_lines_append
          latest_in_append split: sum.splits)
  qed
qed

subsection \<open>What the member's lock excludes\<close>

text \<open>
  While a run holds the member's lock no other process records a reset of that member, and what others
  append are whole lines. Everything else the outside may do to the world.
\<close>

definition spares_history :: "'f market \<Rightarrow> string \<Rightarrow> (world \<Rightarrow> 'a \<times> world) \<Rightarrow> bool" where
  "spares_history M member f =
     (\<forall>w. newest_reset M (w_journal (snd (f w))) member = newest_reset M (w_journal w) member \<and>
          (terminated (w_journal w) \<longrightarrow> terminated (w_journal (snd (f w)))))"

definition exclusive :: "'f market \<Rightarrow> string \<Rightarrow> bool" where
  "exclusive M member =
     (spares_history M member (mk_inventory M) \<and> spares_history M member (mk_uuid M) \<and>
      (\<forall>m. spares_history M member (mk_reset_lock M m)) \<and>
      (\<forall>m p. spares_history M member (mk_plan_refresh M m p)) \<and>
      (\<forall>m p. spares_history M member (api_redeem (mk_api M) m p)) \<and>
      (\<forall>p i t d. spares_history M member (mk_read_offers M p i t d)) \<and>
      (\<forall>p i t d c q. spares_history M member (mk_prepare M p i t d c q)))"

definition at_rest ::
  "'f market \<Rightarrow> string \<Rightarrow> (string, reset_redemption option) result \<Rightarrow> (reset_redemption \<times> journal) list \<Rightarrow>
   shop \<Rightarrow> bool" where
  "at_rest M member h R s =
     (newest_reset M (sp_journal s) member = h \<and> terminated (sp_journal s) \<and> sp_resets s = R)"

lemma keeps_outside: "spares_history M member f \<Longrightarrow> keeps (at_rest M member h R) (outside f)"
  by (simp add: keeps_def outside_def at_rest_def spares_history_def split_beta)

lemma keeps_within: "spares_history M member f \<Longrightarrow> keeps (at_rest M member h R) (within f)"
  by (simp add: keeps_def within_def at_rest_def spares_history_def split_beta)

lemma spares_clock [simp]: "spares_history M member now_ms"
  by (simp add: spares_history_def now_ms_def)

lemma w_journal_ledger_write [simp]: "w_journal (ledger_write f w) = w_journal w"
  by (simp add: ledger_write_def now_ms_def)

lemma keeps_stored: "(\<And>w. w_journal (f w) = w_journal w) \<Longrightarrow> keeps (at_rest M member h R) (stored_write M f)"
  unfolding stored_write_def by (intro keeps_outside) (simp add: spares_history_def Let_def)

lemma keeps_token: "exclusive M member \<Longrightarrow> keeps (at_rest M member h R) (token_step M m p unread misread)"
  unfolding token_step_def exclusive_def by (intro keeps_rules keeps_outside) auto

lemma keeps_refresh_offer: "exclusive M member \<Longrightarrow> keeps (at_rest M member h R) (refresh_offer K M m p)"
  unfolding refresh_offer_def read_offer_def retired_step_def
  by (intro keeps_rules keeps_token keeps_outside keeps_stored)
     (auto simp: exclusive_def now_ms_def)

lemma keeps_blocked_until: "exclusive M member \<Longrightarrow> keeps (at_rest M member h R) (reset_blocked_until K M m p)"
  unfolding reset_blocked_until_def
  by (intro keeps_rules keeps_outside keeps_within) (auto simp: exclusive_def)

text \<open>Every step but the sending keeps what was sent.\<close>

abbreviation sent_is :: "(reset_redemption \<times> journal) list \<Rightarrow> shop \<Rightarrow> bool" where
  "sent_is R s \<equiv> sp_resets s = R"

lemma sent_outside [keeps_rules]: "keeps (sent_is R) (outside f)" "keeps (sent_is R) (within g)"
  by (simp_all add: keeps_def outside_def within_def split_beta)

lemma sent_stored [keeps_rules]: "keeps (sent_is R) (stored_write M f)"
  unfolding stored_write_def by (rule sent_outside)

lemma sent_persist [keeps_rules]: "keeps (sent_is R) (persist_reset M r)"
  unfolding persist_reset_def journal_reset_def by (intro keeps_rules)

lemma sent_reading [keeps_rules]:
  "keeps (sent_is R) (token_step M m p unread misread)" "keeps (sent_is R) (retired_step M m)"
  "keeps (sent_is R) (reset_blocked_until K M m p)"
  unfolding token_step_def reset_blocked_until_def retired_step_def by (intro keeps_rules)+

lemma sent_offer [keeps_rules]: "keeps (sent_is R) (refresh_offer K M m p)"
  unfolding refresh_offer_def read_offer_def by (intro keeps_rules)

lemma sent_reconcile [keeps_rules]: "keeps (sent_is R) (reconcile M m offer previous)"
  unfolding reconcile_def Let_def by (intro keeps_rules)

lemma sent_settle [keeps_rules]: "keeps (sent_is R) (settle_reset K M p m r answer)"
  unfolding settle_reset_def Let_def by (intro keeps_rules)

subsection \<open>A request is on record before it is sent\<close>

definition sent_once :: "'f market \<Rightarrow> string \<Rightarrow> (reset_redemption \<times> journal) list \<Rightarrow> shop \<Rightarrow> bool" where
  "sent_once M member R s =
     (sp_resets s = R \<or>
      (\<exists>r jn. sp_resets s = R @ [(r, jn)] \<and> rd_member r = member \<and> rd_state r = Requested \<and>
        (reads_back M r \<longrightarrow> newest_reset M jn member = Inr (Some r))))"

lemma keeps_sent_once: "(\<And>X. keeps (sent_is X) m) \<Longrightarrow> keeps (sent_once M member R) m"
  by (auto simp: keeps_def sent_once_def)

lemma sent_once_start: "sp_resets s = R \<Longrightarrow> sent_once M member R s"
  by (simp add: sent_once_def)

lemma at_rest_sent: "at_rest M member h R s \<Longrightarrow> sent_once M member R s"
  by (simp add: at_rest_def sent_once_def)

lemma holds_keeps:
  "keeps I m \<Longrightarrow> (\<And>s. I s \<Longrightarrow> E s) \<Longrightarrow> holds I m (\<lambda>_. I) (\<lambda>_. E)"
  by (auto simp: keeps_holds intro: holds_weaken)

lemma persist_records:
  "holds (at_rest M (rd_member r) (Inr before) R) (persist_reset M r)
     (\<lambda>_ s. sp_resets s = R \<and> (reads_back M r \<longrightarrow> newest_reset M (sp_journal s) (rd_member r) = Inr (Some r)))
     (\<lambda>_. sent_is R)"
proof -
  let ?Q = "\<lambda>s. sp_resets s = R \<and> (reads_back M r \<longrightarrow> newest_reset M (sp_journal s) (rd_member r) = Inr (Some r))"
  have "holds (at_rest M (rd_member r) (Inr before) R) (journal_reset M r) (\<lambda>_. ?Q) (\<lambda>_. sent_is R)"
  proof (rule holdsI)
    fix s u s'
    assume rest: "at_rest M (rd_member r) (Inr before) R s" and run: "journal_reset M r s = (Inr u, s')"
    then obtain answer at jn' where
      wrote: "append_reset (mk_codec M) answer at r (sp_journal s) = (Inr u, jn')" "sp_journal s' = jn'"
        "sp_resets s' = sp_resets s"
      by (auto simp: journal_reset_def outside_def split: prod.splits)
    with rest latest_reset_append [of "sp_journal s" M r before] show "?Q s'" by (auto simp: at_rest_def)
  qed (auto simp: journal_reset_def outside_def at_rest_def split: prod.splits)
  moreover have "holds ?Q (stored_write M (ledger_write f)) (\<lambda>_. ?Q) (\<lambda>_. sent_is R)" for f
    by (auto simp: holds_def stored_write_def outside_def Let_def split: option.splits)
  ultimately show ?thesis unfolding persist_reset_def by (rule holds_bind)
qed

lemma redeem_credit_sends:
  assumes "exclusive M member"
  shows "holds (at_rest M member (Inr before) R)
     (redeem_credit K M provider member reason declared credit trigger)
     (\<lambda>_. sent_once M member R) (\<lambda>_. sent_once M member R)"
proof -
  let ?I = "at_rest M member (Inr before) R" and ?S = "\<lambda>_. sent_once M member R"
  have ext: "spares_history M member (mk_uuid M)"
      "spares_history M member (mk_prepare M p i t d c q)" for p i t d c q
    using assms by (auto simp: exclusive_def)
  have send: "holds (\<lambda>s. sp_resets s = R \<and> (reads_back M r \<longrightarrow> newest_reset M (sp_journal s) member = Inr (Some r)))
      (attempt_step (send_reset M q r)) ?S ?S" if "rd_member r = member" "rd_state r = Requested" for q r
    using that by (auto simp: holds_def attempt_step_def send_reset_def outside_def sent_once_def split: prod.splits)
  have persist: "holds ?I (persist_reset M r)
      (\<lambda>_ s. sp_resets s = R \<and> (reads_back M r \<longrightarrow> newest_reset M (sp_journal s) member = Inr (Some r))) ?S"
      if "rd_member r = member" for r
    using persist_records [of M r before R] that by (auto intro: holds_weaken sent_once_start)
  have rest: "holds ?I m ?S ?S" if "\<And>X. keeps (sent_is X) m" for m :: "(shop, string, json) step"
    using keeps_sent_once [OF that, of M member R] by (auto simp: keeps_holds intro: holds_weaken at_rest_sent)
  show ?thesis
    unfolding redeem_credit_def Let_def
    apply (rule holds_bind, rule holds_keeps, rule keeps_token [OF assms], erule at_rest_sent)
    apply (rule holds_bind, rule holds_keeps, rule keeps_within [OF ext(1)], erule at_rest_sent)
    apply (rule holds_bind, rule holds_keeps, rule keeps_within, simp, erule at_rest_sent)
    apply (rule holds_bind, rule holds_keeps, rule keeps_attempt, rule keeps_outside, rule ext(2), erule at_rest_sent)
    subgoal for token request_id now prepared
      apply (cases prepared; simp only: sum.case)
       apply (rule rest, intro keeps_rules)
      apply (rule holds_bind, rule persist, simp)
      apply (rule holds_bind, rule send, simp, simp)
      apply (rule keeps_holds [THEN iffD1], rule keeps_sent_once, rule sent_settle)
      done
    done
qed

lemma redeem_chosen_sends:
  assumes "exclusive M member"
  shows "holds (at_rest M member (Inr before) R)
     (redeem_chosen K M provider member reason automatic declared offer)
     (\<lambda>_. sent_once M member R) (\<lambda>_. sent_once M member R)"
  unfolding redeem_chosen_def
  apply (rule holds_bind, rule holds_keeps, rule keeps_blocked_until [OF assms], erule at_rest_sent)
  apply (rule holds_bind, rule holds_keeps, rule keeps_within, simp, erule at_rest_sent)
  apply (rule holds_bind, rule holds_keeps, rule keeps_steps, erule at_rest_sent)
  subgoal for blocked now chosen
    by (cases chosen) (auto intro: redeem_credit_sends [OF assms] holds_ok at_rest_sent)
  done

definition history_resolved :: "(string, reset_redemption option) result \<Rightarrow> bool" where
  "history_resolved h = (\<exists>n. h = Inr n \<and> (\<forall>p. n = Some p \<longrightarrow> \<not> unresolved (rd_state p)))"

text \<open>An unresolved request sends nothing; with none the run sends at most one, on record before it is sent.\<close>

lemma redeem_run_sends:
  assumes "exclusive M member"
  shows "holds (at_rest M member h R) (redeem_run K M provider member reason automatic)
     (\<lambda>_ s. sp_resets s = R \<or> history_resolved h \<and> sent_once M member R s)
     (\<lambda>_ s. sp_resets s = R \<or> history_resolved h \<and> sent_once M member R s)"
    (is "holds ?I _ (\<lambda>_. ?S) _")
proof -
  have ext: "spares_history M member (mk_inventory M)" "spares_history M member (mk_reset_lock M m)" for m
    using assms by (auto simp: exclusive_def)
  have rest: "?S s" if "?I s" for s using that by (simp add: at_rest_def)
  have chosen: "holds ?I (redeem_chosen K M provider member reason automatic declared offer) (\<lambda>_. ?S) (\<lambda>_. ?S)"
      if "h = Inr n" "\<And>p. n = Some p \<Longrightarrow> \<not> unresolved (rd_state p)" for declared offer n
    using redeem_chosen_sends [OF assms, of n R K provider reason automatic declared offer] that
    by (auto simp: history_resolved_def elim!: holds_weaken)
  have reconciled: "holds ?I (reconcile M member offer p) (\<lambda>_. ?S) (\<lambda>_. ?S)" for offer p
    using sent_reconcile [of R M member offer p]
    by (auto simp: keeps_holds at_rest_def elim!: holds_weaken)
  show ?thesis
    unfolding redeem_run_def retired_step_def
    apply (rule holds_if, rule holds_fail, erule rest)
    apply (rule holds_bind, rule holds_keeps, rule keeps_steps, erule rest)
    apply (rule holds_if, rule holds_fail, erule rest)
    apply (rule holds_bind, rule holds_keeps, rule keeps_outside [OF ext(2)], erule rest)
    apply (rule holds_bind, rule holds_keeps, rule keeps_outside [OF ext(1)], erule rest)
    apply (rule holds_bind, rule holds_keeps, rule keeps_steps, erule rest)
    apply (rule holds_bind, rule holds_keeps, rule keeps_steps, erule rest)
    apply (rule holds_bind, rule holds_keeps, rule keeps_refresh_offer [OF assms], erule rest)
    apply (rule holds_bind [where R = "\<lambda>n s. ?I s \<and> h = Inr n"], rule holds_read)
      apply (simp add: at_rest_def)
     apply (erule rest)
    subgoal for retired u members u2 declared offer newest
      apply (cases newest; simp only: option.case)
       apply (rule holds_fact, rule chosen, assumption, simp)
      apply (rule holds_fact, rule holds_if, rule reconciled, rule chosen, assumption, simp)
      done
    done
qed


text \<open>
  C15. Whatever a provider, the vault and other requests do while a member's lock is held: a run sends at most one
  reset, only when the member's newest recorded request is settled, and only once its own request
  reads back from the journal as the newest; so after a crash at any later moment, or an answer
  that never came, no later run sends another on that record.
\<close>

theorem reset_is_sent_once:
  assumes "exclusive M member" and "terminated (sp_journal s)"
    and "redeem_run K M provider member reason automatic s = (answer, s')"
    and "sp_resets s' \<noteq> sp_resets s"
  shows "history_resolved (newest_reset M (sp_journal s) member)
    \<and> (\<exists>r jn. sp_resets s' = sp_resets s @ [(r, jn)] \<and> rd_member r = member
        \<and> (reads_back M r \<longrightarrow> newest_reset M jn member = Inr (Some r)
            \<and> (\<forall>p why auto t. newest_reset M (sp_journal t) member = newest_reset M jn member
                \<longrightarrow> terminated (sp_journal t)
                \<longrightarrow> sp_resets (snd (redeem_run K M p member why auto t)) = sp_resets t)))"
proof -
  let ?h = "newest_reset M (sp_journal s) member"
  have sends: "sp_resets (snd (redeem_run K M p member why auto t)) = sp_resets t
      \<or> history_resolved (newest_reset M (sp_journal t) member)
        \<and> sent_once M member (sp_resets t) (snd (redeem_run K M p member why auto t))"
    if "terminated (sp_journal t)" for p why auto t
    using redeem_run_sends [OF assms(1), of "newest_reset M (sp_journal t) member" "sp_resets t" K p why auto]
      that holdsD [of "at_rest M member (newest_reset M (sp_journal t) member) (sp_resets t)"
        "redeem_run K M p member why auto" _ _ t]
    by (cases "redeem_run K M p member why auto t"; cases "fst (redeem_run K M p member why auto t)")
       (fastforce simp: at_rest_def)+
  from sends [OF assms(2), of provider reason automatic] assms(3,4) obtain r jn
    where h: "history_resolved ?h" and sent: "sp_resets s' = sp_resets s @ [(r, jn)]" "rd_member r = member"
      "rd_state r = Requested" "reads_back M r \<Longrightarrow> newest_reset M jn member = Inr (Some r)"
    by (auto simp: sent_once_def)
  have "sp_resets (snd (redeem_run K M p member why auto t)) = sp_resets t"
    if "reads_back M r" "newest_reset M (sp_journal t) member = newest_reset M jn member" "terminated (sp_journal t)"
    for p why auto t
    using sends [OF that(3), of p why auto] sent that by (auto simp: history_resolved_def)
  with h sent show ?thesis by blast
qed

subsection \<open>A concrete market\<close>

text \<open>A codec that writes every value as its number in an enumeration of all of them, one stroke a unit.\<close>

instance json :: countable
  by countable_datatype

definition tally_codec :: json_codec where
  "tally_codec =
     \<lparr>show_json = (\<lambda>j. replicate (Suc (to_nat j)) (CHR ''1'')),
      parse_json = (\<lambda>line. Inr (from_nat (length line - 1))), show_duration = (\<lambda>n. show_nat n)\<rparr>"

lemma tally_codec_ok: "codec_ok tally_codec j"
  by (simp add: codec_ok_def tally_codec_def NL_def CR_def trim_def is_ws_def)

definition plain_credit :: reset_credit where
  "plain_credit =
     \<lparr>rc_id = ''c'', rc_program = ''p'', rc_remaining_count = 1, rc_consumption_observable = True,
      rc_usable = True, rc_requires_limit = False, rc_expires_at_ms = Some 9, rc_clears = []\<rparr>"

definition plain_offer :: reset_offer where
  "plain_offer =
     \<lparr>ro_available_count = 1, ro_redeemable_count = None, ro_eligible = None, ro_limit_reached = Some False,
      ro_reason = None, ro_next_credit_id = None, ro_credits = [plain_credit], ro_observed_at_ms = 0\<rparr>"

definition plain_market :: "string market" where
  "plain_market =
     \<lparr>mk_api = plain_api\<lparr>api_codec := tally_codec\<rparr>, mk_inventory = (\<lambda>w. (Inr [plain_member], w)),
      mk_plan_refresh = (\<lambda>_ _ w. (Inr (), w)), mk_read_offers = (\<lambda>_ _ _ _ w. (Inr plain_offer, w)),
      mk_prepare = (\<lambda>_ _ _ _ _ _ w. (Inr 0, w)), mk_exchange = (\<lambda>_ w. (Inl ''no answer'', w)),
      mk_reset_lock = (\<lambda>_ w. (Inr (), w)), mk_uuid = (\<lambda>w. (''u'', w)), mk_stored = (\<lambda>_. None),
      mk_policy_env = (\<lambda>_. \<lparr>pe_path = ''p'', pe_staged = ''q'', pe_lock_path = ''l'', pe_lock = Locked,
        pe_replace = Replaced\<rparr>),
      mk_reg_env = (\<lambda>_. \<lparr>re_path = ''r'', re_lock = None, re_clock = Inr 0, re_fault = None\<rparr>),
      mk_tier = (\<lambda>_ _ _ w. (Inr ''max'', w)),
      mk_weles = (\<lambda>_ _ w. (Inl ''no worker'', w)), mk_refresh_subscription = (\<lambda>_ _ _ w. (Inl ''no grant'', w)),
      mk_minutes = (\<lambda>m. Some (m * 60000)), mk_hours = (\<lambda>h. Some (h * 3600000)), mk_decode_error = (\<lambda>_. ''x'')\<rparr>"

definition plain_shop :: shop where
  "plain_shop = \<lparr>sp_world = plain_world, sp_resets = [], sp_purchases = []\<rparr>"

lemma plain_market_simps [simp]:
  "mk_codec plain_market = tally_codec" "api_redeem (mk_api plain_market) m p w = (Inr ''tok'', w)"
  "api_utf8 (mk_api plain_market) t = Inr t" "mk_inventory plain_market w = (Inr [plain_member], w)"
  "mk_plan_refresh plain_market m p w = (Inr (), w)" "mk_read_offers plain_market p i t d w = (Inr plain_offer, w)"
  "mk_prepare plain_market p i t d c q w = (Inr 0, w)" "mk_exchange plain_market n w = (Inl ''no answer'', w)"
  "mk_reset_lock plain_market m w = (Inr (), w)" "mk_uuid plain_market w = (''u'', w)"
  "mk_minutes plain_market k = Some (k * 60000)" "mk_hours plain_market k = Some (k * 3600000)"
  "mk_stored plain_market w = None" "mk_tier plain_market p i t w = (Inr ''max'', w)"
  by (simp_all add: plain_market_def plain_api_def)

lemma plain_market_exclusive: "exclusive plain_market member"
  by (simp add: exclusive_def spares_history_def)

lemma plain_market_reads_back: "i64_min \<le> rd_at_ms r \<Longrightarrow> rd_at_ms r \<le> i64_max \<Longrightarrow> reads_back plain_market r"
  by (simp add: reads_back_def tally_codec_ok)

lemmas step_defs = bind_step_def read_step_def lift_step_def ok_step_def fail_step_def attempt_step_def map_error_def
  outside_def within_def stored_write_def now_ms_def ledger_write_def retired_step_def token_step_def Let_def

lemma plain_shop_journal: "is_retired J (line_journal []) m = Inr False" "latest_reset J words (line_journal []) m = Inr None"
  "terminated (line_journal [])" "jn_path (line_journal t) = Inr ''j''" "jn_file (line_journal t) = JText t"
  by (simp_all add: is_retired_def read_all_def line_journal_def str_lines_def retired_in_def latest_reset_def terminated_def)

lemma plain_run:
  "\<exists>r jn answer s'. redeem_run plain_crates plain_market ''codex'' ''s1'' ''spent'' False plain_shop = (answer, s')
     \<and> sp_resets s' = [(r, jn)] \<and> rd_at_ms r = 0"
  by (simp add: redeem_run_def refresh_offer_def read_offer_def redeem_chosen_def redeem_credit_def reset_blocked_until_def
      step_defs plain_shop_def plain_world_def trim_def is_ws_def plain_shop_journal selected_member_def plain_member_def
      declared_resets_def declared_provider_def DECLARED_def usage_for_def record_reset_offer_def reset_offer_entry_def
      usage_default_def windows_blocked_until_def plain_offer_def choose_credit_def usable_credits_def
      credit_usable_def plain_credit_def sort_by_key_def
      persist_reset_def journal_reset_def append_reset_def send_reset_def settle_reset_def)

theorem reset_is_sent_once_witness:
  "\<exists>r jn answer s'. redeem_run plain_crates plain_market ''codex'' ''s1'' ''spent'' False plain_shop = (answer, s')
     \<and> sp_resets s' = [(r, jn)] \<and> newest_reset plain_market jn ''s1'' = Inr (Some r)"
proof -
  obtain r jn answer s' where run:
      "redeem_run plain_crates plain_market ''codex'' ''s1'' ''spent'' False plain_shop = (answer, s')"
      "sp_resets s' = [(r, jn)]" "rd_at_ms r = 0"
    using plain_run by blast
  then have "reads_back plain_market r"
    by (intro plain_market_reads_back) (simp_all add: i64_min_def i64_max_def)
  with run reset_is_sent_once [OF plain_market_exclusive _ run(1)] show ?thesis
    by (simp add: plain_shop_def plain_world_def plain_shop_journal)
qed

subsection \<open>Which credit is spent\<close>

definition spans_ok :: "'f market \<Rightarrow> bool" where
  "spans_ok M = (\<forall>n ms. (mk_minutes M n = Some ms \<longrightarrow> ms = n * 60000) \<and> (mk_hours M n = Some ms \<longrightarrow> ms = n * 3600000))"

definition expires_no_later :: "reset_credit \<Rightarrow> reset_credit \<Rightarrow> bool" where
  "expires_no_later c d = (case (rc_expires_at_ms c, rc_expires_at_ms d) of
       (None, Some _) \<Rightarrow> False | (Some e, Some f) \<Rightarrow> e \<le> f | _ \<Rightarrow> True)"

lemma expiry_key:
  "(rc_expires_at_ms c = None, rc_expires_at_ms c) \<le> (rc_expires_at_ms d = None, rc_expires_at_ms d)
     \<longleftrightarrow> expires_no_later c d"
  by (cases "rc_expires_at_ms c"; cases "rc_expires_at_ms d") (simp_all add: expires_no_later_def less_eq_prod_def)

lemma expires_within_mono: "expires_no_later c d \<Longrightarrow> expires_within now span d \<Longrightarrow> expires_within now span c"
  by (auto simp: expires_no_later_def expires_within_def i64_saturating_sub_def split: option.splits)

text \<open>In expiry order only the first credit is ever picked.\<close>

lemma pick_credit_first:
  assumes "list_all (expires_no_later c) cs" and "pick_credit now span spend (c # cs) = Some (d, why)"
  shows "d = c \<and> (expires_within now span c \<or> spend)"
proof -
  have "pick_credit now span False cs = None" if "\<not> expires_within now span c"
    using assms(1) that
  proof (induction cs)
    case (Cons e cs)
    then have "\<not> expires_within now span e" by (auto dest: expires_within_mono)
    with Cons show ?case by simp
  qed simp
  with assms(2) show ?thesis by (auto split: if_splits)
qed

lemma usable_credits_first:
  assumes "usable_credits now blocked offer = c # cs"
  shows "c \<in> set (ro_credits offer)" "credit_usable now blocked c" "list_all (expires_no_later c) cs"
    "d \<in> set (ro_credits offer) \<Longrightarrow> credit_usable now blocked d \<Longrightarrow> expires_no_later c d"
proof -
  let ?k = "\<lambda>c. (rc_expires_at_ms c = None, rc_expires_at_ms c)"
  have members: "set (c # cs) = {d \<in> set (ro_credits offer). credit_usable now blocked d}"
    using assms by (metis (no_types) usable_credits_def sort_by_key_props(2) set_filter)
  have "sorted (map ?k (c # cs))"
    using assms sort_by_key_props(4) [of ?k "filter (credit_usable now blocked) (ro_credits offer)"]
    by (simp only: usable_credits_def)
  then have first: "\<forall>d \<in> set cs. ?k c \<le> ?k d" by simp
  show "c \<in> set (ro_credits offer)" "credit_usable now blocked c" using members by auto
  show "list_all (expires_no_later c) cs" using first by (simp only: expiry_key list.pred_set)
  show "expires_no_later c d" if "d \<in> set (ro_credits offer)" "credit_usable now blocked d"
  proof -
    from that members have "d = c \<or> d \<in> set cs" by auto
    with first show ?thesis by (auto simp: expiry_key [symmetric])
  qed
qed

text \<open>
  The credit a reset spends is a usable one of the offer with uses left, not expired, and expiring no later
  than any other usable one; without the operator asking it is spent only under the policy he stated: because it
  expires within his salvage horizon, or because more credits are left than he keeps and the member's windows stay
  full for longer than his minimum.
\<close>

theorem reset_spends_first_expiring_credit:
  assumes "spans_ok M"
    and "choose_credit M E policies now provider offer blocked automatic = Inr (Some (c, why))"
  shows "c \<in> set (ro_credits offer) \<and> credit_usable now blocked c
    \<and> (\<forall>d \<in> set (ro_credits offer). credit_usable now blocked d \<longrightarrow> expires_no_later c d)
    \<and> (automatic \<longrightarrow> (\<exists>policy. policy_for_provider E provider policies = Inr policy
          \<and> (expires_within now (uint (pl_salvage_horizon_hours policy) * 3600000) c
             \<or> pl_keep_credits policy < ro_available_count offer
                \<and> blocked_longer now (uint (pl_min_blocked_minutes policy) * 60000) blocked)))"
proof -
  obtain c0 cs where credits: "usable_credits now blocked offer = c0 # cs"
    using assms(2) by (cases "usable_credits now blocked offer")
      (auto simp: choose_credit_def Let_def split: if_splits sum.splits prod.splits)
  note first = usable_credits_first [OF credits]
  show ?thesis
  proof (cases automatic)
    case False
    with assms(2) credits have "c = c0" by (simp add: choose_credit_def)
    with first False show ?thesis by blast
  next
    case True
    then obtain policy minimum salvage where chosen:
        "policy_for_provider E provider policies = Inr policy" "policy_spans M provider policy = Inr (minimum, salvage)"
        "pick_credit now salvage (pl_keep_credits policy < ro_available_count offer \<and> blocked_longer now minimum blocked)
           (c0 # cs) = Some (c, why)"
      using assms(2) credits by (auto simp: choose_credit_def Let_def split: sum.splits)
    have spans: "salvage = uint (pl_salvage_horizon_hours policy) * 3600000"
        "minimum = uint (pl_min_blocked_minutes policy) * 60000"
      using assms(1) chosen(2)
      by (auto simp: policy_spans_def stated_i64_def stated_span_def spans_ok_def split: if_splits sum.splits option.splits)
    from pick_credit_first [OF first(3) chosen(3)] first chosen(1) spans show ?thesis by blast
  qed
qed

definition plain_policy :: reset_policy where
  "plain_policy =
     \<lparr>pl_keep_credits = 0, pl_min_blocked_minutes = 5, pl_salvage_horizon_hours = 1, pl_reason = ''r'',
      pl_stated_at = ''t''\<rparr>"

theorem reset_spends_first_expiring_credit_witness:
  "\<exists>why. choose_credit plain_market (mk_policy_env plain_market plain_world) (Policies [(''codex'', plain_policy)]) 0 ''codex'' plain_offer None True
      = Inr (Some (plain_credit, why))
    \<and> expires_within 0 3600000 plain_credit"
proof -
  let ?E = "mk_policy_env plain_market plain_world"
  let ?file = "Policies [(''codex'', plain_policy)]"
  have spans: "spans_ok plain_market" by (simp add: spans_ok_def)
  have stated: "policy_for_provider ?E ''codex'' ?file = Inr plain_policy"
    by (simp add: policy_for_provider_def all_policies_def)
  have "policy_spans plain_market ''codex'' plain_policy = Inr (300000, 3600000)"
    by (simp add: policy_spans_def stated_i64_def stated_span_def plain_policy_def i64_max_def)
  moreover have credits: "usable_credits 0 None plain_offer = [plain_credit]" "expires_within 0 3600000 plain_credit"
    by (simp_all add: usable_credits_def plain_offer_def plain_credit_def credit_usable_def sort_by_key_def
        expires_within_def i64_saturating_sub_def i64_min_def i64_max_def)
  ultimately have chosen: "choose_credit plain_market ?E ?file 0 ''codex'' plain_offer None True
      = Inr (Some (plain_credit, ''expiring_credit''))"
    by (simp add: choose_credit_def stated)
  from reset_spends_first_expiring_credit [OF spans chosen] chosen stated show ?thesis
    by (simp add: plain_policy_def blocked_longer_def)
qed

end
