(* ===== verification/Acquisition_Safety.thy ===== *)
theory Acquisition_Safety
  imports Acquisition Reset_Safety
begin

section \<open>What an acquisition promises\<close>

text \<open>
  An account is bought only for a shortage that was read, below the operator's cap, on record
  before Weles is asked, and by an automatic trigger never again before the attempt ended well.
\<close>

subsection \<open>What the steps leave alone\<close>

abbreviation bought_is :: "(json \<times> journal) list \<Rightarrow> shop \<Rightarrow> bool" where
  "bought_is P s \<equiv> sp_purchases s = P"

named_theorems bought_rules \<open>steps that ask Weles for nothing\<close>

lemma bought_outside [bought_rules]: "keeps (bought_is P) (outside f)" "keeps (bought_is P) (within g)"
  by (simp_all add: keeps_def outside_def within_def split_beta)

lemma bought_stored [bought_rules]: "keeps (bought_is P) (stored_write M f)"
  unfolding stored_write_def by (rule bought_outside)

lemma bought_basic [bought_rules]:
  "keeps (bought_is P) (token_step M m p unread misread)" "keeps (bought_is P) (retired_step M m)"
  "keeps (bought_is P) (reset_blocked_until K M m p)" "keeps (bought_is P) (persist_reset M r)"
  "keeps (bought_is P) (windows_step sid)"
  unfolding token_step_def reset_blocked_until_def retired_step_def persist_reset_def journal_reset_def windows_step_def
  by (intro keeps_rules bought_rules)+

lemma bought_offer [bought_rules]: "keeps (bought_is P) (refresh_offer K M m p)"
  unfolding refresh_offer_def read_offer_def by (intro keeps_rules bought_rules)

lemma bought_send [bought_rules]: "keeps (bought_is P) (send_reset M q r)"
  using bought_outside(1) [of P "mk_exchange M q"] by (simp add: keeps_def send_reset_def)

lemma bought_settle [bought_rules]: "keeps (bought_is P) (settle_reset K M p m r answer)"
  unfolding settle_reset_def Let_def by (intro keeps_rules bought_rules)

lemma bought_redeem [bought_rules]: "keeps (bought_is P) (redeem_run K M p m why automatic)"
  unfolding redeem_run_def redeem_chosen_def redeem_credit_def reconcile_def Let_def
  by (intro keeps_rules bought_rules)

lemma bought_standing [bought_rules]: "keeps (bought_is P) (member_standing K M p m)"
  unfolding member_standing_def by (intro keeps_rules bought_rules)

lemma bought_judge [bought_rules]: "keeps (bought_is P) (judge_member K M opts m)"
  unfolding judge_member_def use_saved_capacity_def Let_def by (intro keeps_rules bought_rules)

lemma bought_tiers [bought_rules]: "keeps (bought_is P) (read_tiers K M p ms tiers refusals)"
proof (induction ms arbitrary: tiers refusals)
  case (Cons m ms)
  show ?case unfolding read_tiers.simps member_tier_def Let_def
    by (intro keeps_rules bought_rules Cons.IH)
qed (simp only: read_tiers.simps keeps_rules)

lemma bought_decide [bought_rules]: "keeps (bought_is P) (decide K M opts)"
  unfolding decide_def previous_attempt_def members_step_def shortage_kind_def shortage_of_sessions_def pool_tier_def Let_def
  by (intro keeps_rules bought_rules)

lemma bought_finish [bought_rules]: "keeps (bought_is P) (finish M kvs result code detail refreshed)"
  unfolding finish_def journal_acquisition_def Let_def by (intro keeps_rules bought_rules)

lemma bought_settle_purchase [bought_rules]:
  "keeps (bought_is P) (settle_purchase M opts sg request_id base status answer)"
  unfolding settle_purchase_def purchase_refused_def prove_purchase_def Let_def
  by (intro keeps_rules bought_rules)

lemma bought_settle_exchange [bought_rules]: "keeps (bought_is P) (settle_exchange M opts sg rid exchanged)"
  unfolding settle_exchange_def Let_def by (intro keeps_rules bought_rules)

subsection \<open>When the decision is to buy\<close>

lemma accounts_cap_declared:
  assumes "accounts_cap provider = Inr cap"
  shows "provider = ''claude-code'' \<and> cap = 5"
proof -
  from assms obtain d where d: "bt_get DECLARED provider = Some d"
    by (auto simp: accounts_cap_def declared_provider_def split: option.splits sum.splits)
  then have "provider \<in> {''claude-code'', ''codex'', ''kimi'', ''zai''}"
    by (auto simp: DECLARED_def split: if_splits)
  with assms show ?thesis
    by (auto simp: accounts_cap_def declared_provider_def DECLARED_def stated_def STATED_def)
qed

lemma set_pool_accounts: "set (pool_accounts ms) = member_key ` set ms" "distinct (pool_accounts ms)"
proof -
  have "set (foldl (\<lambda>held m. bs_insert (member_key m) held) held ms) = set held \<union> member_key ` set ms
      \<and> (distinct held \<longrightarrow> distinct (foldl (\<lambda>held m. bs_insert (member_key m) held) held ms))" for held
    by (induction ms arbitrary: held) (auto simp: bs_insert_def distinct_insort set_insort_key)
  from this [of "[]"] show "set (pool_accounts ms) = member_key ` set ms" "distinct (pool_accounts ms)"
    by (simp_all add: pool_accounts_def)
qed

lemma length_pool_accounts: "length (pool_accounts ms) = card (member_key ` set ms)"
  by (metis distinct_card set_pool_accounts)

lemma judge_member_names: "judge_member K M opts m s = (Inr (m', st), s') \<Longrightarrow> m' = m"
  by (auto simp: judge_member_def run_simps)

lemma judged_members:
  assumes "each_step (judge_member K M opts) ms s = (Inr judged, s')"
  shows "map fst judged = ms"
proof -
  have "list_all2 (\<lambda>m j. fst j = m) ms judged"
    using run_each [OF assms] by (rule list_all2_mono) (auto dest: judge_member_names)
  then show ?thesis by (induction rule: list_all2_induct) auto
qed

lemma pool_tier_states: "pool_tier K M provider ms s = (Inr tier, s') \<Longrightarrow> ms \<noteq> []"
  by (auto simp: pool_tier_def run_simps)

lemma plan_left_None: "plan_left m st = None \<longleftrightarrow> (\<forall>u. st \<noteq> Available u)"
  by (auto simp: plan_left_def split: standing.splits option.splits)

lemma no_plan_left:
  "filter_map (\<lambda>(m, st). plan_left m st) judged = [] \<longleftrightarrow> (\<forall>j \<in> set judged. \<forall>u. snd j \<noteq> Available u)"
proof (induction judged)
  case (Cons j judged)
  then show ?case
    using plan_left_None [of "fst j" "snd j"] by (cases "plan_left (fst j) (snd j)") (auto simp: case_prod_beta)
qed simp

lemma shortage_kind_plan:
  assumes "shortage_kind K M opts facts judged s = (Inr kind, s')" "aq_trigger opts \<noteq> SessionsFull"
  shows "\<forall>j \<in> set judged. \<forall>u. snd j \<noteq> Available u"
  using assms no_plan_left [of judged] by (auto simp: shortage_kind_def Let_def run_simps split: if_splits)

text \<open>
  Every member of the pool that could be used carries the operator's limit of sessions, as the inventory, the journal, the
  ledger and the lease register read then say.
\<close>

definition full_of_sessions :: "'f crates \<Rightarrow> 'f market \<Rightarrow> string \<Rightarrow> world \<Rightarrow> bool" where
  "full_of_sessions K M provider w =
     (\<exists>entries w1 now w2 limit live m.
        mk_inventory M w = (Inr entries, w1) \<and> now_ms w1 = (now, w2) \<and> sessions_cap provider = Inr limit
        \<and> live_leases (mk_reg_env M w2) (w_register w2) = Inr live
        \<and> members_of K (mk_codec M) (w_journal w2) (w_ledger w2) now entries provider live = Inr m
        \<and> mb_usable m \<noteq> [] \<and> list_all (\<lambda>(_, ls). limit \<le> count_leases ls) (mb_usable m))"

lemma sessions_shortage_full:
  assumes "sessions_shortage K J jn L now E inventory provider regfile = Inr (Some full)"
  obtains entries limit live m where "inventory = Inr entries" and "sessions_cap provider = Inr limit"
    and "live_leases E regfile = Inr live" and "members_of K J jn L now entries provider live = Inr m"
    and "mb_usable m \<noteq> []" and "list_all (\<lambda>(_, ls). limit \<le> count_leases ls) (mb_usable m)"
proof -
  have all: "list_all P xs" if "length (filter P xs) = length xs" for P and xs :: "(subscription_entry \<times> lease list) list"
    using that by (metis filter_id_conv length_filter_less list.pred_set less_irrefl)
  show thesis
    using assms that all [of "\<lambda>(_, ls). limit \<le> count_leases ls" for limit]
    by (auto simp: sessions_shortage_def Let_def split: sum.splits if_splits)
qed

lemma shortage_kind_full:
  assumes "shortage_kind K M opts facts judged s = (Inr kind, s')" "aq_trigger opts = SessionsFull"
  shows "full_of_sessions K M (aq_provider opts) (sp_world s)"
proof -
  obtain full t where found: "shortage_of_sessions K M (aq_provider opts) s = (Inr (Some full), t)"
    using assms by (auto simp: shortage_kind_def Let_def run_simps split: option.splits)
  obtain inv w1 now w2 where "mk_inventory M (sp_world s) = (inv, w1)" and "now_ms w1 = (now, w2)"
    and "sessions_shortage K (mk_codec M) (w_journal w2) (w_ledger w2) now (mk_reg_env M w2) inv (aq_provider opts)
      (w_register w2) = Inr (Some full)"
    using found
    by (auto simp: shortage_of_sessions_def run_simps outside_def within_def attempt_step_def Let_def split: prod.splits)
  then show ?thesis unfolding full_of_sessions_def by (elim sessions_shortage_full) blast
qed

lemma decide_buys:
  assumes "decide K M opts s = (Inr sg, s')"
  shows "accounts_cap (aq_provider opts) = Inr (sg_cap sg)
    \<and> (aq_trigger opts \<noteq> Operator \<longrightarrow> unresolved_attempt (mk_codec M) (sp_journal s) (aq_provider opts) = Inr None)
    \<and> (\<exists>entries w ms judged s1. mk_inventory M (sp_world s) = (Inr entries, w)
        \<and> pool_members (mk_codec M) (w_journal w) (aq_provider opts) entries = Inr ms \<and> ms \<noteq> []
        \<and> card (member_key ` set ms) < sg_cap sg \<and> map fst judged = ms
        \<and> each_step (judge_member K M opts) ms (s\<lparr>sp_world := w\<rparr>) = (Inr judged, s1)
        \<and> sg_standings sg = map (\<lambda>(m, st). standing_row m st) judged
        \<and> (if aq_trigger opts = SessionsFull then full_of_sessions K M (aq_provider opts) (sp_world s1)
           else \<forall>j \<in> set judged. \<forall>u. snd j \<noteq> Available u))"
proof -
  let ?p = "aq_provider opts"
  from assms obtain cap s1 s2 ms judged s3 kind why s4 tier s5 where
      cap: "accounts_cap ?p = Inr cap" and prev: "previous_attempt M opts s = (Inr (), s1)"
      and ms: "members_step M ?p s1 = (Inr ms, s2)" and below: "\<not> cap \<le> length (pool_accounts ms)"
      and judged: "each_step (judge_member K M opts) ms s2 = (Inr judged, s3)"
      and kind: "shortage_kind K M opts (pool_facts cap (map account_text (pool_accounts ms))
          (map (\<lambda>(m, st). standing_row m st) judged)) judged s3 = (Inr (kind, why), s4)"
      and tier: "pool_tier K M ?p ms s4 = (Inr tier, s5)"
      and sg: "sg_cap sg = cap" "sg_standings sg = map (\<lambda>(m, st). standing_row m st) judged"
    by (auto simp: decide_def Let_def run_simps split: if_splits prod.splits)
  have s1: "s1 = s"
    using prev by (auto simp: previous_attempt_def run_simps Let_def split: if_splits option.splits)
  have attempt: "unresolved_attempt (mk_codec M) (sp_journal s) ?p = Inr None" if "aq_trigger opts \<noteq> Operator"
    using prev that by (auto simp: previous_attempt_def run_simps Let_def split: option.splits)
  obtain entries w where "mk_inventory M (sp_world s) = (Inr entries, w)"
      "pool_members (mk_codec M) (w_journal w) ?p entries = Inr ms" "s2 = s\<lparr>sp_world := w\<rparr>"
    using ms s1 by (auto simp: members_step_def run_simps outside_def split: prod.splits)
  moreover have "ms \<noteq> []" using tier by (rule pool_tier_states)
  moreover have "map fst judged = ms" using judged by (rule judged_members)
  moreover have "card (member_key ` set ms) < cap" using below by (simp add: length_pool_accounts)
  ultimately show ?thesis
    using cap attempt sg judged shortage_kind_plan [OF kind] shortage_kind_full [OF kind] by auto
qed

subsection \<open>The request is on record before Weles is asked\<close>

lemma map_of_put: "map_of (put k v kvs) k' = (if k' = k then Some v else map_of kvs k')"
  by (induction k v kvs rule: bt_insert.induct) auto

lemma map_of_put_all: "map_of (put_all rows kvs) k = (case map_of (rev rows) k of Some v \<Rightarrow> Some v | None \<Rightarrow> map_of kvs k)"
  by (induction rows arbitrary: kvs) (auto simp: put_all_def map_of_put map_add_def split: option.splits)


definition sound_journal :: "json_codec \<Rightarrow> journal \<Rightarrow> bool" where
  "sound_journal J jn = (terminated jn \<and> (\<exists>records. read_all J jn = Inr records))"










lemma acquire_buys:
  assumes "acquire_account K M free opts s = (r, s')" "sp_purchases s' \<noteq> sp_purchases s"
  obtains sg s1 where "decide K M opts s = (Inr sg, s1)" "sp_purchases s1 = sp_purchases s" "buy M opts sg s1 = (r, s')"
proof -
  have free: "free" "validate_acquire opts = Inr ()"
    using assms
    by (cases "validate_acquire opts"; cases free; simp add: acquire_account_def bind_step_def lift_step_def ok_step_def)+
  obtain d s1 where d: "decide K M opts s = (d, s1)" by (cases "decide K M opts s")
  have "sp_purchases (snd (decide K M opts s)) = sp_purchases s"
    using bought_decide [of "sp_purchases s" K M opts] by (simp add: keeps_def)
  with d free assms that show ?thesis
    by (cases d) (simp_all add: acquire_account_def bind_step_def lift_step_def ok_step_def attempt_step_def)
qed

text \<open>
  C16. Weles is asked to buy an account only for a provider the operator declared a cap for (Claude Code,
  five accounts), while the vault's inventory read at that moment holds members of it under fewer distinct accounts than
  the cap, and for a shortage that was read: the standing of every member is judged, one after the other, and none
  was judged to have plan left; or, when the trigger is that the pool is full of sessions, every member that
  could be used carries the operator's limit of sessions. A member whose plan could not be read does not stop a
  purchase. An automatic trigger buys only when the newest attempt on record neither failed nor is still open.
\<close>

theorem purchase_needs_a_shortage:
  assumes "acquire_account K M free opts s = (r, s')" and "sp_purchases s' \<noteq> sp_purchases s"
  shows "aq_provider opts = ''claude-code''
    \<and> (aq_trigger opts \<noteq> Operator \<longrightarrow> unresolved_attempt (mk_codec M) (sp_journal s) (aq_provider opts) = Inr None)
    \<and> (\<exists>entries w ms judged s1. mk_inventory M (sp_world s) = (Inr entries, w)
        \<and> pool_members (mk_codec M) (w_journal w) (aq_provider opts) entries = Inr ms \<and> ms \<noteq> []
        \<and> card (member_key ` set ms) < 5
        \<and> each_step (judge_member K M opts) ms (s\<lparr>sp_world := w\<rparr>) = (Inr judged, s1) \<and> map fst judged = ms
        \<and> (if aq_trigger opts = SessionsFull then full_of_sessions K M (aq_provider opts) (sp_world s1)
           else \<forall>j \<in> set judged. \<forall>u. snd j \<noteq> Available u))"
proof -
  from assms obtain sg s1 where decided: "decide K M opts s = (Inr sg, s1)" by (rule acquire_buys)
  note facts = decide_buys [OF decided]
  with accounts_cap_declared [of "aq_provider opts" "sg_cap sg"] have provider: "aq_provider opts = ''claude-code''"
    and cap: "sg_cap sg = 5" by blast+
  show ?thesis using facts unfolding cap by (intro conjI provider) blast+
qed

subsection \<open>No automatic purchase on an open attempt\<close>



abbreviation journal_sound :: "'f market \<Rightarrow> shop \<Rightarrow> bool" where
  "journal_sound M s \<equiv> sound_journal (mk_codec M) (sp_journal s)"


lemma sound_clock [keeps_rules]: "keeps (journal_sound M) clock_step"
  by (simp add: keeps_def within_def now_ms_def)




subsection \<open>What counts as acquired\<close>

lemma verdict_distinct: "FAILED \<noteq> ACQUIRED" "REFUSED \<noteq> ACQUIRED"
  by (simp_all add: FAILED_def ACQUIRED_def REFUSED_def)

lemma finish_reads:
  "holds P (finish M kvs result code detail refreshed)
     (\<lambda>v _. field v ''result'' = Some result \<and> json_get v ''refresh'' = Some refreshed
       \<and> field v ''account'' = Option.bind (map_of kvs ''account'') as_str
       \<and> field v ''subscription_id'' = Option.bind (map_of kvs ''subscription_id'') as_str) E"
  unfolding finish_def Let_def
  by (rule holds_bind [where R = "\<lambda>_ _. True"], rule holds_attempt, rule holds_true, rule holds_case_sum; rule holds_ok)
     (simp_all add: field_def map_of_put_all map_of_put)

text \<open>A verdict that is not an acquisition satisfies every claim about acquisitions.\<close>

lemma finish_not_acquired:
  "result \<noteq> ACQUIRED \<Longrightarrow>
    holds P (finish M kvs result code detail refreshed) (\<lambda>v _. field v ''result'' = Some ACQUIRED \<longrightarrow> X v) (\<lambda>_ _. True)"
  by (rule holds_weaken [OF finish_reads]) auto

lemma answered_fields_reads:
  "map_of (answered_fields answer kvs) ''account'' = Some (json_index answer ''account'')"
  "map_of (answered_fields answer kvs) ''subscription_id'' = Some (json_index answer ''subscription_id'')"
  by (simp_all add: answered_fields_def map_of_put_all)

lemma as_str_json_index: "as_str (json_index j k) = field j k"
  by (auto simp: json_index_def field_def split: option.splits)

definition proved_purchase :: "'f market \<Rightarrow> acquire_options \<Rightarrow> string \<Rightarrow> json \<Rightarrow> json \<Rightarrow> bool" where
  "proved_purchase M opts rid answer v =
     (field answer ''request_id'' = Some rid \<and>
      (\<exists>account refreshed w w'. field answer ''account'' = Some account \<and> account_address account
        \<and> field v ''account'' = Some account
        \<and> field v ''subscription_id'' = Some (purchased_member (aq_provider opts) account)
        \<and> mk_refresh_subscription M (aq_provider opts) (purchased_member (aq_provider opts) account) (aq_reason opts) w
            = (Inr refreshed, w')
        \<and> field refreshed ''result'' = Some ''refreshed'' \<and> json_get v ''refresh'' = Some refreshed))"

lemma prove_purchase_proves:
  assumes "field answer ''request_id'' = Some rid" "field answer ''account'' = Some account" "account_address account"
    and "field answer ''subscription_id'' = Some (purchased_member (aq_provider opts) account)"
  shows "holds P (prove_purchase M opts sg (answered_fields answer base) (purchased_member (aq_provider opts) account))
    (\<lambda>v _. field v ''result'' = Some ACQUIRED \<longrightarrow> proved_purchase M opts rid answer v) (\<lambda>_ _. True)"
proof -
  let ?sid = "purchased_member (aq_provider opts) account"
  let ?ran = "\<lambda>r. \<exists>w w'. mk_refresh_subscription M (aq_provider opts) ?sid (aq_reason opts) w = (r, w')"
  have ran: "holds P (attempt_step (outside (mk_refresh_subscription M (aq_provider opts) ?sid (aq_reason opts))))
      (\<lambda>r _. ?ran r) E" for E :: "'e \<Rightarrow> shop \<Rightarrow> bool"
    by (auto simp: holds_def attempt_step_def outside_def split: prod.splits)
  show ?thesis
    unfolding prove_purchase_def
    apply (rule holds_bind, rule ran, rule holds_case_sum)
     apply (rule finish_not_acquired, rule verdict_distinct)
    apply (rule holds_if)
     apply (rule finish_not_acquired, rule verdict_distinct)
    apply (rule holds_pre, rule holds_weaken [OF finish_reads], simp)
     apply (use assms in \<open>auto simp: proved_purchase_def answered_fields_reads as_str_json_index\<close>)
    done
qed

lemma settle_purchase_proves:
  "holds P (settle_purchase M opts sg rid base status answer)
    (\<lambda>v _. field v ''result'' = Some ACQUIRED \<longrightarrow> proved_purchase M opts rid answer v) (\<lambda>_ _. True)"
  unfolding settle_purchase_def purchase_refused_def Let_def
  apply (rule holds_if, rule finish_not_acquired, rule verdict_distinct)
  apply (rule holds_if, rule finish_not_acquired, rule verdict_distinct)
  apply (rule holds_case_option, rule finish_not_acquired, rule verdict_distinct)
  apply (rule holds_case_sum, rule finish_not_acquired, rule verdict_distinct)
  apply (rule holds_if, rule finish_not_acquired, rule verdict_distinct)
  apply (rule prove_purchase_proves)
  apply (auto simp: provider_account_def split: sum.splits if_splits)
  done

text \<open>
  C18. A purchase is reported as acquired only when Weles's own answer carries this request's id and names an account
  address, the member banked for it is the one that provider and address give, and a refresh of that member's grant answered
  refreshed; the verdict carries all of it.
\<close>

theorem acquired_account_is_proved:
  assumes "buy M opts sg s = (Inr v, s')" and "field v ''result'' = Some ACQUIRED"
  shows "\<exists>rid body w0 w1 ex answer. mk_weles M ''/subscriptions/acquire'' body w0 = (Inr ex, w1)
    \<and> field body ''subscription_id'' = Some rid \<and> wx_answer ex = Some answer \<and> proved_purchase M opts rid answer v"
proof -
  let ?asked = "\<lambda>rid ex. \<exists>body w0 w1. mk_weles M ''/subscriptions/acquire'' body w0 = (Inr ex, w1)
    \<and> field body ''subscription_id'' = Some rid"
  let ?Q = "\<lambda>v (_ :: shop). field v ''result'' = Some ACQUIRED \<longrightarrow>
    (\<exists>rid ex answer. ?asked rid ex \<and> wx_answer ex = Some answer \<and> proved_purchase M opts rid answer v)"
  have body: "field (json_obj [(''provider'', JStr p), (''subscription_id'', JStr rid), (''plan_tier'', JStr tier),
      (''reason'', JStr why)]) ''subscription_id'' = Some rid" for p rid tier why
    by (simp add: field_def json_obj_def)
  have asked: "holds (\<lambda>_. True) (attempt_step (weles_purchase M (aq_provider opts) rid tier why))
      (\<lambda>r _. \<forall>ex. r = Inr ex \<longrightarrow> ?asked rid ex) (\<lambda>(_ :: 'e) _. True)" for rid tier why
    using body
    by (fastforce simp: holds_def attempt_step_def weles_purchase_def bind_step_def lift_step_def outside_def Let_def
        split: prod.splits sum.splits)
  have settled: "holds (\<lambda>_. True) (settle_exchange M opts sg rid r) ?Q (\<lambda>(_ :: 'e) _. True)"
      if "\<forall>ex. r = Inr ex \<longrightarrow> ?asked rid ex" for rid r
    unfolding settle_exchange_def Let_def
    apply (rule holds_case_sum, rule finish_not_acquired, rule verdict_distinct)
    apply (rule holds_case_option)
     apply (rule holds_case_option, rule finish_not_acquired, rule verdict_distinct)
     apply (rule holds_weaken [OF settle_purchase_proves], assumption)
      apply (use that in blast)
     apply simp
    apply (rule finish_not_acquired, rule verdict_distinct)
    done
  have "holds (\<lambda>_. True) (buy M opts sg) ?Q (\<lambda>(_ :: 'e) _. True)"
    unfolding buy_def
    apply (rule holds_bind [where R = "\<lambda>_ _. True"], rule holds_true)
    apply (rule holds_bind [where R = "\<lambda>_ _. True"], rule holds_true)
    apply (rule holds_case_sum)
     apply (rule holds_ok)
     apply (simp add: acquisition_refusal_def field_def map_of_put_all verdict_distinct)
    apply (rule holds_bind, rule asked, rule holds_pre, rule settled, assumption)
    done
  from holdsD(1) [OF this _ assms(1)] assms(2) show ?thesis by blast
qed

text \<open>An account whose plan cannot be read is no reason not to buy: only one read as available is.\<close>

lemma shortage_kind_iff:
  assumes "aq_trigger opts \<noteq> SessionsFull"
  shows "(\<exists>kind why. shortage_kind K M opts facts judged s = (Inr (kind, why), s))
    \<longleftrightarrow> (\<forall>j \<in> set judged. \<forall>u. snd j \<noteq> Available u)"
  using assms no_plan_left [of judged] by (auto simp: shortage_kind_def Let_def run_simps)

subsection \<open>A concrete purchase\<close>

text \<open>One Claude Code member whose usage report cannot be read, and a Weles that buys what it is asked for.\<close>

definition claude_member :: subscription_entry where
  "claude_member = plain_member\<lparr>se_id := ''c1'', se_provider := ''claude-code''\<rparr>"

definition claude_options :: acquire_options where
  "claude_options = \<lparr>aq_provider = ''claude-code'', aq_reason = ''spent'', aq_trigger = Maintenance\<rparr>"

definition bought_answer :: json where
  "bought_answer =
     json_obj [(''ok'', JBool True), (''request_id'', JStr ''u''), (''account'', JStr ''a@b''),
               (''subscription_id'', JStr ''claude-code-a-b'')]"

definition claude_market :: "string market" where
  "claude_market =
     plain_market\<lparr>mk_inventory := (\<lambda>w. (Inr [claude_member], w)), mk_plan_refresh := (\<lambda>_ _ w. (Inl ''down'', w)),
       mk_weles := (\<lambda>_ _ w. (Inr \<lparr>wx_answer = Some bought_answer, wx_observed = JNull, wx_http_status = Some 200,
         wx_transport_failure = None\<rparr>, w)),
       mk_refresh_subscription := (\<lambda>_ _ _ w. (Inr (JObj [(''result'', JStr ''refreshed'')]), w))\<rparr>"

lemma claude_market_simps [simp]:
  "mk_codec claude_market = tally_codec" "api_redeem (mk_api claude_market) m p w = (Inr ''tok'', w)"
  "api_utf8 (mk_api claude_market) t = Inr t" "mk_inventory claude_market w = (Inr [claude_member], w)"
  "mk_plan_refresh claude_market m p w = (Inl ''down'', w)" "mk_uuid claude_market w = (''u'', w)"
  "mk_tier claude_market p i t w = (Inr ''max'', w)"
  "mk_weles claude_market path body w = (Inr \<lparr>wx_answer = Some bought_answer, wx_observed = JNull,
     wx_http_status = Some 200, wx_transport_failure = None\<rparr>, w)"
  "mk_refresh_subscription claude_market p m why w = (Inr (JObj [(''result'', JStr ''refreshed'')]), w)"
  by (simp_all add: claude_market_def)

lemma claude_journal: "unresolved_attempt J (line_journal []) p = Inr None" "sound_journal J (line_journal [])"
  by (simp_all add: unresolved_attempt_def latest_subscription_acquisition_def read_all_def line_journal_def str_lines_def
      sound_journal_def terminated_def)

lemma claude_decides:
  "\<exists>sg s1. decide plain_crates claude_market claude_options plain_shop = (Inr sg, s1) \<and> sg_kind sg = ''unusable''
     \<and> sp_purchases s1 = [] \<and> sp_journal s1 = line_journal [] \<and> w_appends (sp_world s1) = (\<lambda>_. (Written, ''t''))"
  by (simp add: decide_def accounts_cap_def declared_provider_def DECLARED_def stated_def STATED_def previous_attempt_def
      claude_options_def step_defs plain_shop_def plain_world_def claude_journal members_step_def claude_member_def
      plain_member_def plain_shop_journal member_account_def pool_accounts_def bs_insert_def judge_member_def
      use_saved_capacity_def member_standing_def blocked_until_ms_def standing_block_def awaiting_sign_in_cause_def
      credential_of_def usage_for_def shortage_kind_def plan_left_def pool_tier_def member_tier_def bt_entry_def)

lemma claude_buys:
  assumes "sp_journal s = line_journal []" "w_appends (sp_world s) = (\<lambda>_. (Written, ''t''))"
  shows "\<exists>v s'. buy claude_market claude_options sg s = (Inr v, s') \<and> sp_purchases s' \<noteq> sp_purchases s
    \<and> field v ''result'' = Some ACQUIRED"
proof -
  have answer: "says_true bought_answer ''ok''" "field bought_answer ''request_id'' = Some ''u''"
      "field bought_answer ''account'' = Some ''a@b''" "field bought_answer ''subscription_id'' = Some ''claude-code-a-b''"
    by (simp_all add: bought_answer_def json_obj_def says_true_def field_def)
  have account: "provider_account ''claude-code'' ''a@b'' = Inr ()" "purchased_member ''claude-code'' ''a@b'' = ''claude-code-a-b''"
    by (simp_all add: provider_account_def declared_provider_def DECLARED_def account_address_def is_ws_def
        purchased_member_def slug_def trim_def ascii_lower_def is_ascii_alphanumeric_def)
  have refreshed: "field (JObj [(''result'', JStr ''refreshed'')]) ''result'' = Some ''refreshed''"
    by (simp add: field_def)
  have weles: "weles_provider ''claude-code'' = Inr ''claude''"
    by (simp add: weles_provider_def declared_provider_def DECLARED_def trim_def is_ws_def)
  have ended: "field (JObj (put_all [(''result'', JStr r), (''code'', c), (''detail'', d), (''refresh'', f)] kvs)) ''result''
      = Some r" for r c d f kvs
    by (simp add: field_def map_of_put_all)
  show ?thesis
    using assms
    by (simp add: buy_def step_defs journal_acquisition_def append_record_def plain_shop_journal weles_purchase_def
        claude_options_def weles settle_exchange_def settle_purchase_def answer account prove_purchase_def refreshed
        finish_def ended)
qed

lemma claude_acquires:
  "\<exists>r s'. acquire_account plain_crates claude_market True claude_options plain_shop = (r, s') \<and> sp_purchases s' \<noteq> []"
proof -
  obtain sg s1 where d: "decide plain_crates claude_market claude_options plain_shop = (Inr sg, s1)"
      "sp_purchases s1 = []" "sp_journal s1 = line_journal []" "w_appends (sp_world s1) = (\<lambda>_. (Written, ''t''))"
    using claude_decides by blast
  obtain v s' where "buy claude_market claude_options sg s1 = (Inr v :: string + json, s')" "sp_purchases s' \<noteq> sp_purchases s1"
    using claude_buys [OF d(3,4)] by blast
  moreover have "validate_acquire claude_options = Inr ()"
    by (simp add: validate_acquire_def claude_options_def declared_provider_def DECLARED_def trim_def is_ws_def)
  ultimately show ?thesis
    using d by (simp add: acquire_account_def bind_step_def lift_step_def attempt_step_def)
qed


theorem purchase_needs_a_shortage_witness:
  "\<exists>r s'. acquire_account plain_crates claude_market True claude_options plain_shop = (r, s') \<and> sp_purchases s' \<noteq> []
    \<and> aq_provider claude_options = ''claude-code''"
  using claude_acquires purchase_needs_a_shortage [of plain_crates claude_market True claude_options plain_shop]
  by (fastforce simp: plain_shop_def)


theorem acquired_account_is_proved_witness:
  "\<exists>v s' rid answer sg. buy claude_market claude_options sg plain_shop = (Inr v :: string + json, s')
    \<and> proved_purchase claude_market claude_options rid answer v"
proof -
  fix sg :: shortage
  have "sp_journal plain_shop = line_journal []" "w_appends (sp_world plain_shop) = (\<lambda>_. (Written, ''t''))"
    by (simp_all add: plain_shop_def plain_world_def)
  from claude_buys [OF this] obtain v s' where
    "buy claude_market claude_options sg plain_shop = (Inr v :: string + json, s')" "field v ''result'' = Some ACQUIRED"
    by blast
  with acquired_account_is_proved [OF this] show ?thesis by blast
qed

end
