(* ===== verification/Wire_Events.thy ===== *)
theory Wire_Events
  imports Event_Streams
begin

section \<open>What a caller is streamed\<close>

text \<open>
  The three encoders that turn neutral provider items into the events of the format the caller speaks:
  chat chunks (\<open>src/src/core/server/streaming/\<close>), Anthropic messages
  (\<open>src/src/core/wire/anthropic_events.rs\<close>) and OpenAI Responses (\<open>src/src/core/wire/responses_events.rs\<close>
  and \<open>responses_events/pump.rs\<close>). Each is a state the runtime polls: what the state holds in every format is the
  record \<open>caller_stream\<close>, which each format extends, and \<open>poll_next\<close> is the loop all three write. The
  channel the recorder sends through is the list of items sent and not yet read, and whether its sender is
  gone. An event is kept as the JSON value whose text is its data. The locale \<open>caller_encoder\<close> states what the
  loop relies on of a format's step; it is interpreted for each of the three.
\<close>

datatype caller_frame =
    Named string json
  | Unnamed json
  | Literal string

record caller_stream =
  cs_pending :: "caller_frame list"
  cs_usage :: "(32 word \<times> 32 word) option"
  cs_terminated :: bool
  cs_failed :: bool
  cs_on_end :: bool
  cs_reports :: "((32 word \<times> 32 word) option \<times> bool) list"

definition sse :: "string \<Rightarrow> json \<Rightarrow> caller_frame" where
  "sse event data = Named event data"

definition push_frame :: "caller_frame \<Rightarrow> ('z caller_stream_scheme) \<Rightarrow> 'z caller_stream_scheme" where
  "push_frame f s = s\<lparr>cs_pending := cs_pending s @ [f]\<rparr>"

text \<open>\<open>self.on_end.take()\<close>, and the call of what it held.\<close>

definition account_end :: "bool \<Rightarrow> 'z caller_stream_scheme \<Rightarrow> 'z caller_stream_scheme" where
  "account_end failed s =
     (if cs_on_end s then s\<lparr>cs_on_end := False, cs_reports := cs_reports s @ [(cs_usage s, failed)]\<rparr> else s)"

datatype polled = PollPending | PollReady "caller_frame option"

text \<open>
  \<open>poll_next\<close>: a waiting event, the end of a terminated stream, or the next item taken. A channel whose
  sender is gone ends the stream as failed.
\<close>

fun poll_next ::
  "(stream_item \<Rightarrow> 'z caller_stream_scheme \<Rightarrow> 'z caller_stream_scheme) \<Rightarrow> bool \<Rightarrow> stream_item list \<Rightarrow>
     'z caller_stream_scheme \<Rightarrow> polled \<times> stream_item list \<times> 'z caller_stream_scheme" where
  "poll_next take_next closed [] s =
     (case cs_pending s of
        e # es \<Rightarrow> (PollReady (Some e), [], s\<lparr>cs_pending := es\<rparr>)
      | [] \<Rightarrow>
          (if cs_terminated s then (PollReady None, [], account_end (cs_failed s) s)
           else if closed
           then (PollReady None, [], account_end True (s\<lparr>cs_terminated := True, cs_failed := True\<rparr>))
           else (PollPending, [], s)))"
| "poll_next take_next closed (item # items) s =
     (case cs_pending s of
        e # es \<Rightarrow> (PollReady (Some e), item # items, s\<lparr>cs_pending := es\<rparr>)
      | [] \<Rightarrow>
          (if cs_terminated s then (PollReady None, item # items, account_end (cs_failed s) s)
           else poll_next take_next closed items (take_next item s)))"

subsection \<open>Chat chunks\<close>

definition ONLY_CHOICE :: int where
  "ONLY_CHOICE = 0"

record chat_stream = caller_stream +
  ch_request_id :: string
  ch_model :: string
  ch_created :: "64 word"
  ch_sent_role :: bool
  ch_finish_reason :: "string option"

definition chat_new :: "string \<Rightarrow> string \<Rightarrow> 64 word \<Rightarrow> chat_stream" where
  "chat_new request_id model created =
     \<lparr>cs_pending = [], cs_usage = None, cs_terminated = False, cs_failed = False, cs_on_end = True,
      cs_reports = [], ch_request_id = request_id, ch_model = model, ch_created = created,
      ch_sent_role = False, ch_finish_reason = None\<rparr>"

definition json_text :: "string option \<Rightarrow> json" where
  "json_text t = (case t of Some s \<Rightarrow> JStr s | None \<Rightarrow> JNull)"

definition chat_chunk :: "chat_stream \<Rightarrow> json \<Rightarrow> string option \<Rightarrow> caller_frame" where
  "chat_chunk s delta finish_reason =
     Unnamed (json_obj
       [(''id'', JStr (ch_request_id s)), (''object'', JStr ''chat.completion.chunk''),
        (''created'', JInt (uint (ch_created s))), (''model'', JStr (ch_model s)),
        (''choices'', JArr [json_obj [(''index'', JInt ONLY_CHOICE), (''delta'', delta),
                                      (''finish_reason'', json_text finish_reason)]])])"

definition role_chunk :: "chat_stream \<Rightarrow> caller_frame" where
  "role_chunk s = chat_chunk s (json_obj [(''role'', JStr ''assistant'')]) None"

definition usage_chunk :: "chat_stream \<Rightarrow> 32 word \<Rightarrow> 32 word \<Rightarrow> caller_frame" where
  "usage_chunk s input_tokens output_tokens =
     Unnamed (json_obj
       [(''id'', JStr (ch_request_id s)), (''object'', JStr ''chat.completion.chunk''),
        (''created'', JInt (uint (ch_created s))), (''model'', JStr (ch_model s)), (''choices'', JArr []),
        (''usage'', json_obj [(''prompt_tokens'', JInt (uint input_tokens)),
                              (''completion_tokens'', JInt (uint output_tokens)),
                              (''total_tokens'', JInt (uint input_tokens + uint output_tokens))])])"

fun openai_finish_reason :: "stop_reason \<Rightarrow> string" where
  "openai_finish_reason EndTurn = ''stop''"
| "openai_finish_reason StopSequence = ''stop''"
| "openai_finish_reason MaxTokens = ''length''"
| "openai_finish_reason ToolUse = ''tool_calls''"
| "openai_finish_reason ContentFilter = ''content_filter''"
| "openai_finish_reason (IncompleteAnswer (Some told)) = told"
| "openai_finish_reason (OtherReason told) = told"
| "openai_finish_reason (IncompleteAnswer None) = ''incomplete''"

definition send_role :: "chat_stream \<Rightarrow> chat_stream" where
  "send_role s = (if ch_sent_role s then s else push_frame (role_chunk s) (s\<lparr>ch_sent_role := True\<rparr>))"

fun chat_take :: "stream_item \<Rightarrow> chat_stream \<Rightarrow> chat_stream" where
  "chat_take (Delta (Text text)) s =
     (let s1 = send_role s in push_frame (chat_chunk s1 (json_obj [(''content'', JStr text)]) None) s1)"
| "chat_take (Delta (ToolCallStart index i name)) s =
     (let s1 = send_role s
      in push_frame (chat_chunk s1
           (json_obj [(''tool_calls'', JArr [json_obj
              [(''index'', JInt (uint index)), (''id'', JStr i), (''type'', JStr ''function''),
               (''function'', json_obj [(''name'', JStr name), (''arguments'', JStr [])])]])]) None) s1)"
| "chat_take (Delta (ToolCallArguments index delta)) s =
     push_frame (chat_chunk s
       (json_obj [(''tool_calls'', JArr [json_obj
          [(''index'', JInt (uint index)), (''function'', json_obj [(''arguments'', JStr delta)])]])]) None) s"
| "chat_take (Delta (Finish reason)) s = s\<lparr>ch_finish_reason := Some (openai_finish_reason reason)\<rparr>"
| "chat_take (Delta (Usage input_tokens output_tokens)) s = s\<lparr>cs_usage := Some (input_tokens, output_tokens)\<rparr>"
| "chat_take Done s =
     (let s1 = push_frame (chat_chunk s (json_obj []) (ch_finish_reason s)) s;
          s2 = (case cs_usage s1 of
                  Some (i, out) \<Rightarrow> push_frame (usage_chunk s1 i out) s1
                | None \<Rightarrow> s1)
      in (push_frame (Literal ''[DONE]'') s2)\<lparr>cs_terminated := True\<rparr>)"
| "chat_take (Failed message) s = s\<lparr>cs_terminated := True, cs_failed := True\<rparr>"

subsection \<open>Anthropic messages\<close>

definition NOTHING_COUNTED_YET :: int where
  "NOTHING_COUNTED_YET = 0"

fun anthropic_stop_reason :: "stop_reason \<Rightarrow> string" where
  "anthropic_stop_reason EndTurn = ''end_turn''"
| "anthropic_stop_reason StopSequence = ''stop_sequence''"
| "anthropic_stop_reason MaxTokens = ''max_tokens''"
| "anthropic_stop_reason ToolUse = ''tool_use''"
| "anthropic_stop_reason ContentFilter = ''refusal''"
| "anthropic_stop_reason (IncompleteAnswer (Some told)) = told"
| "anthropic_stop_reason (OtherReason told) = told"
| "anthropic_stop_reason (IncompleteAnswer None) = ''incomplete''"

datatype anthropic_block = TextBlock | ToolUseBlock

record messages_stream = caller_stream +
  ms_message_id :: string
  ms_model :: string
  ms_started_message :: bool
  ms_blocks :: "anthropic_block list"
  ms_open_block :: "nat option"
  ms_tool_blocks :: "32 word \<rightharpoonup> nat"
  ms_stop_reason :: "string option"

definition messages_new :: "string \<Rightarrow> string \<Rightarrow> messages_stream" where
  "messages_new message_id model =
     \<lparr>cs_pending = [], cs_usage = None, cs_terminated = False, cs_failed = False, cs_on_end = True,
      cs_reports = [], ms_message_id = message_id, ms_model = model, ms_started_message = False,
      ms_blocks = [], ms_open_block = None, ms_tool_blocks = Map.empty, ms_stop_reason = None\<rparr>"

definition message_start :: "messages_stream \<Rightarrow> caller_frame" where
  "message_start s =
     sse ''message_start'' (json_obj
       [(''type'', JStr ''message_start''),
        (''message'', json_obj
          [(''id'', JStr (ms_message_id s)), (''type'', JStr ''message''), (''role'', JStr ''assistant''),
           (''model'', JStr (ms_model s)), (''content'', JArr []), (''stop_reason'', JNull),
           (''stop_sequence'', JNull),
           (''usage'', json_obj [(''input_tokens'', JInt NOTHING_COUNTED_YET),
                                 (''output_tokens'', JInt NOTHING_COUNTED_YET)])])])"

definition close_open_block :: "messages_stream \<Rightarrow> messages_stream" where
  "close_open_block s =
     (case ms_open_block s of
        Some index \<Rightarrow>
          push_frame (sse ''content_block_stop'' (json_obj
            [(''type'', JStr ''content_block_stop''), (''index'', JInt (int index))]))
            (s\<lparr>ms_open_block := None\<rparr>)
      | None \<Rightarrow> s)"

definition open_block_of :: "anthropic_block \<Rightarrow> messages_stream \<Rightarrow> nat \<times> messages_stream" where
  "open_block_of kind s =
     (let s1 = close_open_block s; index = length (ms_blocks s1)
      in (index, s1\<lparr>ms_blocks := ms_blocks s1 @ [kind], ms_open_block := Some index\<rparr>))"

definition block_start :: "nat \<Rightarrow> json \<Rightarrow> caller_frame" where
  "block_start index content_block =
     sse ''content_block_start'' (json_obj
       [(''type'', JStr ''content_block_start''), (''index'', JInt (int index)),
        (''content_block'', content_block)])"

definition block_delta :: "nat \<Rightarrow> json \<Rightarrow> caller_frame" where
  "block_delta index delta =
     sse ''content_block_delta'' (json_obj
       [(''type'', JStr ''content_block_delta''), (''index'', JInt (int index)), (''delta'', delta)])"

text \<open>\<open>self.blocks.get(index) == Some(&Text)\<close> on the open block.\<close>

definition open_text :: "messages_stream \<Rightarrow> nat option" where
  "open_text s =
     (case ms_open_block s of
        Some index \<Rightarrow> (if index < length (ms_blocks s) \<and> ms_blocks s ! index = TextBlock then Some index else None)
      | None \<Rightarrow> None)"

definition open_text_block :: "messages_stream \<Rightarrow> nat \<times> messages_stream" where
  "open_text_block s =
     (case open_text s of
        Some index \<Rightarrow> (index, s)
      | None \<Rightarrow>
          (case open_block_of TextBlock s of (index, s1) \<Rightarrow>
             (index, push_frame (block_start index (json_obj [(''type'', JStr ''text''), (''text'', JStr [])])) s1)))"

definition start_message :: "messages_stream \<Rightarrow> messages_stream" where
  "start_message s =
     (if ms_started_message s then s else push_frame (message_start s) (s\<lparr>ms_started_message := True\<rparr>))"

definition messages_done :: "messages_stream \<Rightarrow> messages_stream" where
  "messages_done s =
     (let s1 = close_open_block s;
          delta = [(''type'', JStr ''message_delta''),
                   (''delta'', json_obj [(''stop_reason'', json_text (ms_stop_reason s1)), (''stop_sequence'', JNull)])];
          usage = (case cs_usage s1 of
                     Some (i, out) \<Rightarrow> [(''usage'', json_obj [(''input_tokens'', JInt (uint i)),
                                                           (''output_tokens'', JInt (uint out))])]
                   | None \<Rightarrow> []);
          s2 = push_frame (sse ''message_delta'' (json_obj (delta @ usage))) s1
      in (push_frame (sse ''message_stop'' (json_obj [(''type'', JStr ''message_stop'')])) s2)
           \<lparr>cs_terminated := True\<rparr>)"

fun messages_item :: "stream_item \<Rightarrow> messages_stream \<Rightarrow> messages_stream" where
  "messages_item (Delta (Text text)) s =
     (case open_text_block s of (index, s1) \<Rightarrow>
        push_frame (block_delta index (json_obj [(''type'', JStr ''text_delta''), (''text'', JStr text)])) s1)"
| "messages_item (Delta (ToolCallStart index i name)) s =
     (case open_block_of ToolUseBlock s of (block_index, s1) \<Rightarrow>
        push_frame (block_start block_index (json_obj
            [(''type'', JStr ''tool_use''), (''id'', JStr i), (''name'', JStr name), (''input'', json_obj [])]))
          (s1\<lparr>ms_tool_blocks := (ms_tool_blocks s1)(index \<mapsto> block_index)\<rparr>))"
| "messages_item (Delta (ToolCallArguments index delta)) s =
     (case ms_tool_blocks s index of
        None \<Rightarrow> s\<lparr>cs_terminated := True, cs_failed := True\<rparr>
      | Some block_index \<Rightarrow>
          push_frame (block_delta block_index (json_obj
            [(''type'', JStr ''input_json_delta''), (''partial_json'', JStr delta)])) s)"
| "messages_item (Delta (Finish reason)) s = s\<lparr>ms_stop_reason := Some (anthropic_stop_reason reason)\<rparr>"
| "messages_item (Delta (Usage input_tokens output_tokens)) s = s\<lparr>cs_usage := Some (input_tokens, output_tokens)\<rparr>"
| "messages_item Done s = messages_done s"
| "messages_item (Failed message) s = s\<lparr>cs_terminated := True, cs_failed := True\<rparr>"

definition messages_take :: "stream_item \<Rightarrow> messages_stream \<Rightarrow> messages_stream" where
  "messages_take item s = messages_item item (start_message s)"

subsection \<open>OpenAI Responses\<close>

definition ONLY_PART :: int where
  "ONLY_PART = 0"

datatype responses_item =
    MessageItem string string
  | FunctionCallItem string string string string

definition output_text :: "string \<Rightarrow> json" where
  "output_text text =
     json_obj [(''type'', JStr ''output_text''), (''text'', JStr text), (''annotations'', JArr [])]"

fun completed_item :: "responses_item \<Rightarrow> json" where
  "completed_item (MessageItem i text) =
     json_obj [(''type'', JStr ''message''), (''id'', JStr i), (''status'', JStr ''completed''),
       (''role'', JStr ''assistant''), (''content'', JArr [output_text text])]"
| "completed_item (FunctionCallItem i call_id name arguments) =
     json_obj [(''type'', JStr ''function_call''), (''id'', JStr i), (''call_id'', JStr call_id),
       (''name'', JStr name), (''arguments'', JStr arguments), (''status'', JStr ''completed'')]"

text \<open>\<open>rs_drawn\<close> counts the identifiers drawn; the n-th is the argument \<open>uuid n\<close> of the operations that draw one.\<close>

record responses_stream = caller_stream +
  rs_response_id :: string
  rs_model :: string
  rs_created :: "64 word"
  rs_started :: bool
  rs_open_item :: "nat option"
  rs_items :: "responses_item list"
  rs_tool_items :: "32 word \<rightharpoonup> nat"
  rs_stop :: "stop_reason option"
  rs_drawn :: nat

definition responses_new :: "string \<Rightarrow> string \<Rightarrow> 64 word \<Rightarrow> responses_stream" where
  "responses_new response_id model created =
     \<lparr>cs_pending = [], cs_usage = None, cs_terminated = False, cs_failed = False, cs_on_end = True,
      cs_reports = [], rs_response_id = response_id, rs_model = model, rs_created = created,
      rs_started = False, rs_open_item = None, rs_items = [], rs_tool_items = Map.empty, rs_stop = None,
      rs_drawn = 0\<rparr>"

text \<open>\<open>response_shell\<close>, as the fields of the object later keys are written over.\<close>

definition response_shell :: "responses_stream \<Rightarrow> string \<Rightarrow> (string \<times> json) list" where
  "response_shell s status =
     [(''id'', JStr (rs_response_id s)), (''object'', JStr ''response''),
      (''created_at'', JInt (uint (rs_created s))), (''status'', JStr status), (''model'', JStr (rs_model s)),
      (''output'', JArr [])]"

definition stopped_short :: "stop_reason option \<Rightarrow> string option option" where
  "stopped_short stop =
     (case stop of
        Some MaxTokens \<Rightarrow> Some (Some ''max_output_tokens'')
      | Some ContentFilter \<Rightarrow> Some (Some ''content_filter'')
      | Some (IncompleteAnswer reason) \<Rightarrow> Some reason
      | _ \<Rightarrow> None)"

definition terminal_response :: "responses_stream \<Rightarrow> string \<times> json" where
  "terminal_response s =
     (let incomplete = stopped_short (rs_stop s);
          status = (case incomplete of Some _ \<Rightarrow> ''incomplete'' | None \<Rightarrow> ''completed'');
          details = (case incomplete of
                       Some reason \<Rightarrow> [(''incomplete_details'', json_obj [(''reason'', json_text reason)])]
                     | None \<Rightarrow> []);
          usage = (case cs_usage s of
                     Some (i, out) \<Rightarrow> [(''usage'', json_obj [(''input_tokens'', JInt (uint i)),
                          (''output_tokens'', JInt (uint out)), (''total_tokens'', JInt (uint i + uint out))])]
                   | None \<Rightarrow> [])
      in (if status = ''incomplete'' then ''response.incomplete'' else ''response.completed'',
          json_obj (response_shell s status @ [(''output'', JArr (map completed_item (rs_items s)))] @
            details @ usage)))"

definition item_done :: "nat \<Rightarrow> responses_item \<Rightarrow> caller_frame" where
  "item_done index item =
     sse ''response.output_item.done'' (json_obj
       [(''type'', JStr ''response.output_item.done''), (''output_index'', JInt (int index)),
        (''item'', completed_item item)])"

text \<open>\<open>Vec::get\<close>.\<close>

definition nth_item :: "'a list \<Rightarrow> nat \<Rightarrow> 'a option" where
  "nth_item xs i = (if i < length xs then Some (xs ! i) else None)"

definition close_open_item :: "responses_stream \<Rightarrow> responses_stream" where
  "close_open_item s =
     (case rs_open_item s of
        None \<Rightarrow> s
      | Some index \<Rightarrow>
          (let s1 = s\<lparr>rs_open_item := None\<rparr>
           in (case nth_item (rs_items s1) index of
                 Some (MessageItem i text) \<Rightarrow>
                   push_frame (item_done index (MessageItem i text))
                   (push_frame (sse ''response.content_part.done'' (json_obj
                     [(''type'', JStr ''response.content_part.done''), (''item_id'', JStr i),
                      (''output_index'', JInt (int index)), (''content_index'', JInt ONLY_PART),
                      (''part'', output_text text)]))
                   (push_frame (sse ''response.output_text.done'' (json_obj
                     [(''type'', JStr ''response.output_text.done''), (''item_id'', JStr i),
                      (''output_index'', JInt (int index)), (''content_index'', JInt ONLY_PART),
                      (''text'', JStr text)])) s1))
               | Some (FunctionCallItem i call_id name arguments) \<Rightarrow>
                   push_frame (item_done index (FunctionCallItem i call_id name arguments))
                   (push_frame (sse ''response.function_call_arguments.done'' (json_obj
                     [(''type'', JStr ''response.function_call_arguments.done''), (''item_id'', JStr i),
                      (''output_index'', JInt (int index)), (''arguments'', JStr arguments)])) s1)
               | None \<Rightarrow> s1)))"

definition item_added :: "nat \<Rightarrow> json \<Rightarrow> caller_frame" where
  "item_added index item =
     sse ''response.output_item.added'' (json_obj
       [(''type'', JStr ''response.output_item.added''), (''output_index'', JInt (int index)), (''item'', item)])"

definition open_message :: "(nat \<Rightarrow> string) \<Rightarrow> responses_stream \<Rightarrow> nat \<times> responses_stream" where
  "open_message uuid s =
     (case Option.bind (rs_open_item s) (\<lambda>index. map_option (Pair index) (nth_item (rs_items s) index)) of
        Some (index, MessageItem _ _) \<Rightarrow> (index, s)
      | _ \<Rightarrow>
          (let s1 = close_open_item s; i = ''msg_'' @ uuid (rs_drawn s1); index = length (rs_items s1);
               s2 = s1\<lparr>rs_drawn := Suc (rs_drawn s1), rs_open_item := Some index,
                      rs_items := rs_items s1 @ [MessageItem i []]\<rparr>;
               s3 = push_frame (item_added index (json_obj
                 [(''type'', JStr ''message''), (''id'', JStr i), (''status'', JStr ''in_progress''),
                  (''role'', JStr ''assistant''), (''content'', JArr [])])) s2
           in (index, push_frame (sse ''response.content_part.added'' (json_obj
                 [(''type'', JStr ''response.content_part.added''), (''item_id'', JStr i),
                  (''output_index'', JInt (int index)), (''content_index'', JInt ONLY_PART),
                  (''part'', output_text [])])) s3)))"

definition responses_fail :: "string \<Rightarrow> responses_stream \<Rightarrow> responses_stream" where
  "responses_fail message s =
     (push_frame (sse ''response.failed'' (json_obj
        [(''type'', JStr ''response.failed''),
         (''response'', json_obj (response_shell s ''failed'' @ [(''error'', json_obj [(''message'', JStr message)])]))])) s)
      \<lparr>cs_terminated := True, cs_failed := True\<rparr>"

definition start_response :: "responses_stream \<Rightarrow> responses_stream" where
  "start_response s =
     (if rs_started s then s
      else push_frame (sse ''response.created'' (json_obj
             [(''type'', JStr ''response.created''), (''response'', json_obj (response_shell s ''in_progress''))]))
           (s\<lparr>rs_started := True\<rparr>))"

definition responses_text :: "(nat \<Rightarrow> string) \<Rightarrow> string \<Rightarrow> responses_stream \<Rightarrow> responses_stream" where
  "responses_text uuid text s =
     (case open_message uuid s of (index, s1) \<Rightarrow>
       (case nth_item (rs_items s1) index of
          Some (MessageItem i full) \<Rightarrow>
            push_frame (sse ''response.output_text.delta'' (json_obj
              [(''type'', JStr ''response.output_text.delta''), (''item_id'', JStr i),
               (''output_index'', JInt (int index)), (''content_index'', JInt ONLY_PART), (''delta'', JStr text)]))
              (s1\<lparr>rs_items := (rs_items s1)[index := MessageItem i (full @ text)]\<rparr>)
        | _ \<Rightarrow> responses_fail ''a text delta found no open message item to belong to'' s1))"

definition responses_call ::
  "(nat \<Rightarrow> string) \<Rightarrow> 32 word \<Rightarrow> string \<Rightarrow> string \<Rightarrow> responses_stream \<Rightarrow> responses_stream" where
  "responses_call uuid index i name s =
     (let s1 = close_open_item s; item_id = ''fc_'' @ uuid (rs_drawn s1); out_index = length (rs_items s1)
      in push_frame (item_added out_index (json_obj
           [(''type'', JStr ''function_call''), (''id'', JStr item_id), (''call_id'', JStr i),
            (''name'', JStr name), (''arguments'', JStr []), (''status'', JStr ''in_progress'')]))
         (s1\<lparr>rs_drawn := Suc (rs_drawn s1), rs_open_item := Some out_index,
             rs_tool_items := (rs_tool_items s1)(index \<mapsto> out_index),
             rs_items := rs_items s1 @ [FunctionCallItem item_id i name []]\<rparr>))"

definition responses_call_arguments :: "32 word \<Rightarrow> string \<Rightarrow> responses_stream \<Rightarrow> responses_stream" where
  "responses_call_arguments index delta s =
     (case rs_tool_items s index of
        None \<Rightarrow> responses_fail (''the provider sent arguments for tool call '' @ show_nat (unat index) @
                  '', which it never started'') s
      | Some out_index \<Rightarrow>
          (case nth_item (rs_items s) out_index of
             Some (FunctionCallItem i call_id name arguments) \<Rightarrow>
               push_frame (sse ''response.function_call_arguments.delta'' (json_obj
                 [(''type'', JStr ''response.function_call_arguments.delta''), (''item_id'', JStr i),
                  (''output_index'', JInt (int out_index)), (''delta'', JStr delta)]))
                 (s\<lparr>rs_items := (rs_items s)[out_index := FunctionCallItem i call_id name (arguments @ delta)]\<rparr>)
           | _ \<Rightarrow> responses_fail (''tool call '' @ show_nat (unat index) @ '' names output item '' @
                   show_nat out_index @ '', which is not a function call'') s))"

definition responses_done :: "responses_stream \<Rightarrow> responses_stream" where
  "responses_done s =
     (let s1 = close_open_item s; (event, response) = terminal_response s1
      in (push_frame (sse event (json_obj [(''type'', JStr event), (''response'', response)])) s1)
           \<lparr>cs_terminated := True\<rparr>)"

fun responses_item_taken :: "(nat \<Rightarrow> string) \<Rightarrow> stream_item \<Rightarrow> responses_stream \<Rightarrow> responses_stream" where
  "responses_item_taken uuid (Delta (Text text)) s = responses_text uuid text s"
| "responses_item_taken uuid (Delta (ToolCallStart index i name)) s = responses_call uuid index i name s"
| "responses_item_taken uuid (Delta (ToolCallArguments index delta)) s = responses_call_arguments index delta s"
| "responses_item_taken uuid (Delta (Finish reason)) s = s\<lparr>rs_stop := Some reason\<rparr>"
| "responses_item_taken uuid (Delta (Usage input_tokens output_tokens)) s =
     s\<lparr>cs_usage := Some (input_tokens, output_tokens)\<rparr>"
| "responses_item_taken uuid Done s = responses_done s"
| "responses_item_taken uuid (Failed message) s = responses_fail message s"

definition responses_take :: "(nat \<Rightarrow> string) \<Rightarrow> stream_item \<Rightarrow> responses_stream \<Rightarrow> responses_stream" where
  "responses_take uuid item s = responses_item_taken uuid item (start_response s)"

end
