(* ===== verification/Caller_Wires.thy ===== *)
theory Caller_Wires
  imports Wire_Events
begin

section \<open>What a caller asks, and one buffered answer\<close>

text \<open>
  \<open>src/src/core/wire/mod.rs\<close>, \<open>anthropic_call.rs\<close> and \<open>responses_call.rs\<close>: the reading of an Anthropic
  Messages and of an OpenAI Responses request into the one call Brama routes, the bounds every format is held to,
  and the two buffered answers. \<open>src/src/core/server/chat/\<close> adds what the chat format checks of its own request.
  \<open>serde_json\<close> is the \<open>json_codec\<close> argument; the identifiers a Responses answer draws are the argument
  \<open>uuid\<close>.
\<close>

record inbound_call =
  ic_model :: string
  ic_request :: model_request
  ic_stream :: bool

definition MIN_TEMPERATURE :: f64 where
  "MIN_TEMPERATURE = 0"

definition MAX_TEMPERATURE :: f64 where
  "MAX_TEMPERATURE = 0x4000000000000000"

definition f64_is_finite :: "f64 \<Rightarrow> bool" where
  "f64_is_finite x = (f64_mag x < 0x7FF0000000000000)"

definition validate :: "string \<Rightarrow> 32 word option \<Rightarrow> f64 option \<Rightarrow> (string, unit) result" where
  "validate model max_tokens temperature =
     (if trim model = [] then Inl ''missing field `model`''
      else if (case max_tokens of Some tokens \<Rightarrow> tokens = 0 | None \<Rightarrow> False)
      then Inl ''max_tokens must be at least one when it is set''
      else if (case temperature of
                 Some t \<Rightarrow> \<not> f64_is_finite t \<or> \<not> (f64_ge t MIN_TEMPERATURE \<and> f64_ge MAX_TEMPERATURE t)
               | None \<Rightarrow> False)
      then Inl ''temperature must be finite and between 0 and 2''
      else Inr ())"

subsection \<open>The tool calls of a history\<close>

text \<open>One call: its id when it carries an id, a name and arguments that are JSON text.\<close>

definition history_call :: "json_codec \<Rightarrow> nat \<Rightarrow> json \<Rightarrow> (string, string) result" where
  "history_call J pos call =
     (let refused = (\<lambda>what. Inl (''message '' @ show_nat pos @ '': a tool call '' @ what @ '': '' @ show_json J call))
      in (case json_str_at call [''id''] of
            None \<Rightarrow> refused ''carries no `id` text''
          | Some i \<Rightarrow>
              (if json_str_at call [''function'', ''name''] = None then refused ''carries no `function.name` text''
               else (case json_str_at call [''function'', ''arguments''] of
                       None \<Rightarrow> refused ''carries no `function.arguments` text''
                     | Some arguments \<Rightarrow>
                         (case parse_json J arguments of
                            Inl err \<Rightarrow> Inl (''message '' @ show_nat pos @
                              '': a tool call's `function.arguments` are not JSON ('' @ err @ ''): '' @ show_json J call)
                          | Inr _ \<Rightarrow> Inr i)))))"

fun history_calls :: "json_codec \<Rightarrow> nat \<Rightarrow> json list \<Rightarrow> string set \<Rightarrow> (string, string set) result" where
  "history_calls J pos [] called = Inr called"
| "history_calls J pos (call # calls) called =
     (case history_call J pos call of
        Inl err \<Rightarrow> Inl err
      | Inr i \<Rightarrow> history_calls J pos calls (insert i called))"

definition history_result :: "nat \<Rightarrow> message \<Rightarrow> string set \<Rightarrow> (string, unit) result" where
  "history_result pos message called =
     (if msg_role message = ''tool''
      then (case msg_tool_call_id message of
              None \<Rightarrow> Inl (''message '' @ show_nat pos @ '': a tool result carries no `tool_call_id`'')
            | Some i \<Rightarrow>
                (if i \<notin> called
                 then Inl (''message '' @ show_nat pos @ '': a tool result answers `'' @ i @
                        ''`, which no earlier tool call carries'')
                 else Inr ()))
      else Inr ())"

definition calls_of :: "message \<Rightarrow> json list" where
  "calls_of message = (case msg_tool_calls message of Some calls \<Rightarrow> calls | None \<Rightarrow> [])"

fun history_from :: "json_codec \<Rightarrow> nat \<Rightarrow> string set \<Rightarrow> message list \<Rightarrow> (string, unit) result" where
  "history_from J pos called [] = Inr ()"
| "history_from J pos called (message # messages) =
     (case history_result pos message called of
        Inl err \<Rightarrow> Inl err
      | Inr _ \<Rightarrow>
          (case history_calls J pos (calls_of message) called of
             Inl err \<Rightarrow> Inl err
           | Inr called' \<Rightarrow> history_from J (Suc pos) called' messages))"

definition validate_history_tool_calls :: "json_codec \<Rightarrow> message list \<Rightarrow> (string, unit) result" where
  "validate_history_tool_calls J messages = history_from J 0 {} messages"

subsection \<open>Buffered answers\<close>

definition tool_calls_from_response :: "model_response \<Rightarrow> tool_call list" where
  "tool_calls_from_response response = (case mr_tool_calls response of Some calls \<Rightarrow> calls | None \<Rightarrow> [])"

definition anthropic_tool_use :: "json_codec \<Rightarrow> tool_call \<Rightarrow> (string, json) result" where
  "anthropic_tool_use J call =
     (let arguments = trim (tc_arguments call)
      in (case (if arguments = [] then Inr (json_obj []) else parse_json J arguments) of
            Inl err \<Rightarrow> Inl (''the model called '' @ tc_name call @ '' with arguments that are not JSON ('' @ err @
                          ''): '' @ arguments)
          | Inr input \<Rightarrow> Inr (json_obj [(''type'', JStr ''tool_use''), (''id'', JStr (tc_id call)),
                                     (''name'', JStr (tc_name call)), (''input'', input)])))"

definition anthropic_response :: "json_codec \<Rightarrow> string \<Rightarrow> string \<Rightarrow> model_response \<Rightarrow> (string, json) result" where
  "anthropic_response J i model response =
     (let tool_calls = tool_calls_from_response response;
          text = (if mr_content response \<noteq> []
                  then [json_obj [(''type'', JStr ''text''), (''text'', JStr (mr_content response))]] else [])
      in bind_result (collect_results (map (anthropic_tool_use J) tool_calls)) (\<lambda>uses.
           Inr (json_obj (
             [(''id'', JStr i), (''type'', JStr ''message''), (''role'', JStr ''assistant''), (''model'', JStr model),
              (''content'', JArr (text @ uses)),
              (''stop_reason'', JStr (if tool_calls = [] then ''end_turn'' else ''tool_use'')),
              (''stop_sequence'', JNull)] @
             (case mr_usage response of
                Some usage \<Rightarrow> [(''usage'', json_obj [(''input_tokens'', JInt (uint (tu_input_tokens usage))),
                                                   (''output_tokens'', JInt (uint (tu_output_tokens usage)))])]
              | None \<Rightarrow> [])))))"

fun responses_outputs :: "(nat \<Rightarrow> string) \<Rightarrow> nat \<Rightarrow> tool_call list \<Rightarrow> json list" where
  "responses_outputs uuid n [] = []"
| "responses_outputs uuid n (call # calls) =
     json_obj [(''type'', JStr ''function_call''), (''id'', JStr (''fc_'' @ uuid n)), (''call_id'', JStr (tc_id call)),
       (''name'', JStr (tc_name call)), (''arguments'', JStr (tc_arguments call)), (''status'', JStr ''completed'')]
       # responses_outputs uuid (Suc n) calls"

definition responses_response ::
  "(nat \<Rightarrow> string) \<Rightarrow> string \<Rightarrow> string \<Rightarrow> 64 word \<Rightarrow> model_response \<Rightarrow> json" where
  "responses_response uuid i model created response =
     (let spoke = mr_content response \<noteq> [];
          text = (if spoke
                  then [json_obj [(''type'', JStr ''message''), (''id'', JStr (''msg_'' @ uuid 0)),
                          (''status'', JStr ''completed''), (''role'', JStr ''assistant''),
                          (''content'', JArr [output_text (mr_content response)])]] else []);
          out = text @ responses_outputs uuid (if spoke then 1 else 0) (tool_calls_from_response response)
      in json_obj (
           [(''id'', JStr i), (''object'', JStr ''response''), (''created_at'', JInt (uint created)),
            (''status'', JStr ''completed''), (''model'', JStr model), (''output'', JArr out)] @
           (case mr_usage response of
              Some usage \<Rightarrow> [(''usage'', json_obj [(''input_tokens'', JInt (uint (tu_input_tokens usage))),
                                                 (''output_tokens'', JInt (uint (tu_output_tokens usage))),
                                                 (''total_tokens'', JInt (uint (total_tokens usage)))])]
            | None \<Rightarrow> [])))"

subsection \<open>Numbers a request states\<close>

text \<open>\<open>Value::as_f64\<close>: a whole number becomes the nearest double, ties to the even one.\<close>

fun bit_length :: "nat \<Rightarrow> nat" where
  "bit_length n = (if n = 0 then 0 else Suc (bit_length (n div 2)))"

declare bit_length.simps [simp del]

definition f64_of_nat :: "nat \<Rightarrow> f64" where
  "f64_of_nat n =
     (if n = 0 then 0
      else (let e = bit_length n - 1;
                q = (if e \<le> 52 then n * 2 ^ (52 - e)
                     else (let d = 2 ^ (e - 52); q = n div d; r = n mod d
                           in if 2 * r > d \<or> 2 * r = d \<and> odd q then q + 1 else q))
            in of_nat ((e + 1023) * 2 ^ 52 + q - 2 ^ 52)))"

fun as_f64 :: "json \<Rightarrow> f64 option" where
  "as_f64 (JInt i) = Some (if i < 0 then f64_of_nat (nat (- i)) + 2 ^ 63 else f64_of_nat (nat i))"
| "as_f64 (JFloat x) = Some x"
| "as_f64 _ = None"

text \<open>\<open>u32::try_from\<close>.\<close>

definition to_u32 :: "64 word \<Rightarrow> (string, 32 word) result" where
  "to_u32 n = (if unat n < 2 ^ 32 then Inr (ucast n) else Inl ''out of range integral type conversion attempted'')"

subsection \<open>The Anthropic Messages request\<close>

definition block_text :: "json \<Rightarrow> string \<Rightarrow> string \<Rightarrow> (string, string) result" where
  "block_text block kind field_name =
     ok_or (''a `'' @ kind @ ''` content block carries no `'' @ field_name @ ''` text'')
       (Option.bind (json_get block field_name) as_str)"

definition type_of_block :: "json \<Rightarrow> string option" where
  "type_of_block block = Option.bind (json_get block ''type'') as_str"

definition text_blocks :: "json_codec \<Rightarrow> json list \<Rightarrow> string \<Rightarrow> (string, string list) result" where
  "text_blocks J blocks place =
     collect_results (map (\<lambda>block.
       if type_of_block block = Some ''text'' then block_text block ''text'' ''text''
       else Inl (place @ '' may hold only text blocks, not '' @ show_json J block)) blocks)"

record content_in =
  ci_text :: string
  ci_parts :: "json list"
  ci_tool_calls :: "json list"
  ci_tool_messages :: "message list"

definition json_text_part :: "string \<Rightarrow> json" where
  "json_text_part text = json_obj [(''type'', JStr ''text''), (''text'', JStr text)]"

definition json_image_part :: "string \<Rightarrow> json" where
  "json_image_part url =
     json_obj [(''type'', JStr ''image_url''), (''image_url'', json_obj [(''url'', JStr url)])]"

definition json_function_call :: "string \<Rightarrow> string \<Rightarrow> string \<Rightarrow> json" where
  "json_function_call i name arguments =
     json_obj [(''id'', JStr i), (''type'', JStr ''function''),
               (''function'', json_obj [(''name'', JStr name), (''arguments'', JStr arguments)])]"

definition tool_message :: "string \<Rightarrow> string \<Rightarrow> message" where
  "tool_message text i =
     \<lparr>msg_role = ''tool'', msg_content = JStr text, msg_tool_call_id = Some i, msg_name = None,
      msg_tool_calls = None\<rparr>"

definition image_url :: "json_codec \<Rightarrow> json \<Rightarrow> (string, string) result" where
  "image_url J block =
     bind_result (ok_or ''an `image` content block carries no `source`'' (json_get block ''source'')) (\<lambda>source.
       if type_of_block source = Some ''base64''
       then bind_result (block_text source ''base64 image source'' ''media_type'') (\<lambda>media.
            bind_result (block_text source ''base64 image source'' ''data'') (\<lambda>data.
            Inr (''data:'' @ media @ '';base64,'' @ data)))
       else if type_of_block source = Some ''url'' then block_text source ''url image source'' ''url''
       else Inl (''an `image` content block's source must be base64 data or a url, not '' @ show_json J source))"

definition result_text :: "json_codec \<Rightarrow> json \<Rightarrow> (string, string) result" where
  "result_text J block =
     (case json_get block ''content'' of
        None \<Rightarrow> Inr []
      | Some (JStr plain) \<Rightarrow> Inr plain
      | Some (JArr blocks) \<Rightarrow>
          map_sum id (join []) (text_blocks J blocks ''a `tool_result` content block's content'')
      | Some other \<Rightarrow> Inl (''a `tool_result` content block's content must be text or blocks, not '' @ show_json J other))"

definition content_block :: "json_codec \<Rightarrow> json \<Rightarrow> content_in \<Rightarrow> (string, content_in) result" where
  "content_block J block c =
     (let kind = type_of_block block
      in if kind = Some ''text''
         then bind_result (block_text block ''text'' ''text'') (\<lambda>text.
              Inr (c\<lparr>ci_text := ci_text c @ text, ci_parts := ci_parts c @ [json_text_part text]\<rparr>))
         else if kind = Some ''image''
         then bind_result (image_url J block) (\<lambda>url.
              Inr (c\<lparr>ci_parts := ci_parts c @ [json_image_part url]\<rparr>))
         else if kind = Some ''tool_use''
         then bind_result (block_text block ''tool_use'' ''id'') (\<lambda>i.
              bind_result (block_text block ''tool_use'' ''name'') (\<lambda>name.
              bind_result (ok_or ''a `tool_use` content block carries no `input`'' (json_get block ''input'')) (\<lambda>input.
              Inr (c\<lparr>ci_tool_calls := ci_tool_calls c @ [json_function_call i name (show_json J input)]\<rparr>))))
         else if kind = Some ''tool_result''
         then bind_result (result_text J block) (\<lambda>text.
              bind_result (block_text block ''tool_result'' ''tool_use_id'') (\<lambda>i.
              Inr (c\<lparr>ci_tool_messages := ci_tool_messages c @ [tool_message text i]\<rparr>)))
         else if kind = Some ''thinking'' \<or> kind = Some ''redacted_thinking'' then Inr c
         else Inl (''a content block this gateway cannot hold: '' @ show_json J block))"

fun content_blocks :: "json_codec \<Rightarrow> json list \<Rightarrow> content_in \<Rightarrow> (string, content_in) result" where
  "content_blocks J [] c = Inr c"
| "content_blocks J (block # blocks) c =
     (case content_block J block c of Inl err \<Rightarrow> Inl err | Inr c1 \<Rightarrow> content_blocks J blocks c1)"

definition content_empty :: content_in where
  "content_empty = \<lparr>ci_text = [], ci_parts = [], ci_tool_calls = [], ci_tool_messages = []\<rparr>"

definition has_images :: "json list \<Rightarrow> bool" where
  "has_images parts = list_ex (\<lambda>part. type_of_block part = Some ''image_url'') parts"

definition anthropic_content_in ::
  "json_codec \<Rightarrow> json \<Rightarrow> (string, json \<times> json list option \<times> message list) result" where
  "anthropic_content_in J content =
     (case content of
        JStr plain \<Rightarrow> Inr (JStr plain, None, [])
      | JArr blocks \<Rightarrow>
          bind_result (content_blocks J blocks content_empty) (\<lambda>c.
            Inr (if has_images (ci_parts c) then JArr (ci_parts c) else JStr (ci_text c),
                 if ci_tool_calls c = [] then None else Some (ci_tool_calls c),
                 ci_tool_messages c))
      | other \<Rightarrow> Inl (''a message's content must be text or a list of content blocks, not '' @ show_json J other))"

fun anthropic_messages_in :: "json_codec \<Rightarrow> nat \<Rightarrow> json list \<Rightarrow> (string, message list) result" where
  "anthropic_messages_in J index [] = Inr []"
| "anthropic_messages_in J index (raw # raws) =
     (case Option.bind (json_get raw ''role'') as_str of
        None \<Rightarrow> Inl (''message '' @ show_nat index @ '' names no `role`'')
      | Some role \<Rightarrow>
          (case json_get raw ''content'' of
             None \<Rightarrow> Inl (''message '' @ show_nat index @ '' carries no `content`'')
           | Some content \<Rightarrow>
               (case anthropic_content_in J content of
                  Inl err \<Rightarrow> Inl (''message '' @ show_nat index @ '': '' @ err)
                | Inr (read, calls, results) \<Rightarrow>
                    (case anthropic_messages_in J (Suc index) raws of
                       Inl err \<Rightarrow> Inl err
                     | Inr later \<Rightarrow>
                         Inr (\<lparr>msg_role = role, msg_content = read, msg_tool_call_id = None, msg_name = None,
                               msg_tool_calls = calls\<rparr> # results @ later)))))"

definition anthropic_system :: "json_codec \<Rightarrow> json \<Rightarrow> (string, string option) result" where
  "anthropic_system J raw =
     (case json_get raw ''system'' of
        None \<Rightarrow> Inr None
      | Some JNull \<Rightarrow> Inr None
      | Some (JStr text) \<Rightarrow> Inr (Some text)
      | Some (JArr blocks) \<Rightarrow>
          bind_result (text_blocks J blocks ''`system`'') (\<lambda>texts.
            Inr (if join [NL] texts = [] then None else Some (join [NL] texts)))
      | Some other \<Rightarrow> Inl (''`system` must be text or text blocks, not '' @ show_json J other))"

definition stated_description :: "json \<Rightarrow> string" where
  "stated_description t =
     (case Option.bind (json_get t ''description'') as_str of Some description \<Rightarrow> description | None \<Rightarrow> [])"

fun anthropic_tools_in :: "nat \<Rightarrow> json list \<Rightarrow> (string, tool list) result" where
  "anthropic_tools_in index [] = Inr []"
| "anthropic_tools_in index (t # ts) =
     (case Option.bind (json_get t ''name'') as_str of
        None \<Rightarrow> Inl (''tool '' @ show_nat index @ '' names no `name`'')
      | Some name \<Rightarrow>
          map_sum id (\<lambda>tools. \<lparr>tool_type = ''function'', tool_name = name, tool_description = stated_description t,
                              tool_parameters = json_get t ''input_schema''\<rparr> # tools)
            (anthropic_tools_in (Suc index) ts))"

definition nonempty :: "'a list \<Rightarrow> 'a list option" where
  "nonempty xs = (if xs = [] then None else Some xs)"

definition anthropic_tools :: "json_codec \<Rightarrow> json \<Rightarrow> (string, tool list option) result" where
  "anthropic_tools J raw =
     (case json_get raw ''tools'' of
        None \<Rightarrow> Inr None
      | Some JNull \<Rightarrow> Inr None
      | Some (JArr declared) \<Rightarrow> map_sum id nonempty (anthropic_tools_in 0 declared)
      | Some other \<Rightarrow> Inl (''`tools` must be a list of tools, not '' @ show_json J other))"

definition json_function_choice :: "string \<Rightarrow> json" where
  "json_function_choice name =
     json_obj [(''type'', JStr ''function''), (''function'', json_obj [(''name'', JStr name)])]"

definition anthropic_tool_choice :: "json_codec \<Rightarrow> json \<Rightarrow> (string, json option) result" where
  "anthropic_tool_choice J raw =
     (case json_get raw ''tool_choice'' of
        None \<Rightarrow> Inr None
      | Some choice \<Rightarrow>
          (let kind = type_of_block choice
           in if kind = Some ''auto'' then Inr (Some (JStr ''auto''))
              else if kind = Some ''any'' then Inr (Some (JStr ''required''))
              else if kind = Some ''none'' then Inr (Some (JStr ''none''))
              else if kind = Some ''tool''
              then map_sum id (\<lambda>name. Some (json_function_choice name))
                     (ok_or ''a `tool` tool_choice names no `name`'' (Option.bind (json_get choice ''name'') as_str))
              else Inl (''tool_choice '' @ show_json J choice @ '' is not auto, any, none or tool'')))"

definition stated_stream :: "json_codec \<Rightarrow> json \<Rightarrow> (string, bool) result" where
  "stated_stream J raw =
     (case json_get raw ''stream'' of
        None \<Rightarrow> Inr False
      | Some JNull \<Rightarrow> Inr False
      | Some (JBool b) \<Rightarrow> Inr b
      | Some other \<Rightarrow> Inl (''`stream` must be true or false, not '' @ show_json J other))"

definition stated_model :: "json \<Rightarrow> (string, string) result" where
  "stated_model raw =
     (case Option.bind (json_get raw ''model'') as_str of
        Some model \<Rightarrow> Inr (trim model)
      | None \<Rightarrow> Inl ''missing field `model`: the request names no model'')"

definition parse_body :: "json_codec \<Rightarrow> string \<Rightarrow> (string, json) result" where
  "parse_body J body = map_sum (\<lambda>err. ''invalid JSON: '' @ err) id (parse_json J body)"

definition inbound ::
  "string \<Rightarrow> message list \<Rightarrow> 32 word option \<Rightarrow> f64 option \<Rightarrow> string option \<Rightarrow> tool list option \<Rightarrow> json option \<Rightarrow>
     bool \<Rightarrow> inbound_call" where
  "inbound model messages max_tokens temperature system tools tool_choice stream =
     \<lparr>ic_model = model,
      ic_request = \<lparr>rq_messages = messages, rq_model = [], rq_max_tokens = max_tokens, rq_temperature = temperature,
        rq_system = system, rq_tools = tools, rq_tool_choice = tool_choice, rq_billing_target = None,
        rq_response_schema = None\<rparr>,
      ic_stream = stream\<rparr>"

definition anthropic_request :: "json_codec \<Rightarrow> string \<Rightarrow> (string, inbound_call) result" where
  "anthropic_request J body =
     bind_result (parse_body J body) (\<lambda>raw.
     bind_result (stated_model raw) (\<lambda>model.
     bind_result (ok_or ''missing field `max_tokens`: the Anthropic Messages format requires it''
       (Option.bind (json_get raw ''max_tokens'') as_u64)) (\<lambda>tokens.
     bind_result (map_sum (\<lambda>err. ''`max_tokens` '' @ show_nat (unat tokens) @ '' does not fit: '' @ err) id (to_u32 tokens))
       (\<lambda>max_tokens.
     bind_result (validate model (Some max_tokens) (Option.bind (json_get raw ''temperature'') as_f64)) (\<lambda>_.
     bind_result (anthropic_system J raw) (\<lambda>system.
     bind_result (ok_or ''missing field `messages`: the Anthropic Messages format requires a list''
       (Option.bind (json_get raw ''messages'') as_array)) (\<lambda>raws.
     bind_result (anthropic_messages_in J 0 raws) (\<lambda>messages.
     if messages = [] then Inl ''messages must not be empty''
     else
     bind_result (anthropic_tools J raw) (\<lambda>tools.
     bind_result (anthropic_tool_choice J raw) (\<lambda>tool_choice.
     bind_result (stated_stream J raw) (\<lambda>stream.
     bind_result (validate_history_tool_calls J messages) (\<lambda>_.
     Inr (inbound model messages (Some max_tokens) (Option.bind (json_get raw ''temperature'') as_f64) system tools
       tool_choice stream)))))))))))))"

subsection \<open>The Responses request\<close>

definition item_text :: "json \<Rightarrow> string \<Rightarrow> string \<Rightarrow> (string, string) result" where
  "item_text item kind field_name =
     ok_or (''a `'' @ kind @ ''` item carries no `'' @ field_name @ ''` text'')
       (Option.bind (json_get item field_name) as_str)"

definition message_part :: "json_codec \<Rightarrow> json \<Rightarrow> (string, json) result" where
  "message_part J part =
     (let kind = type_of_block part
      in if kind = Some ''input_text'' \<or> kind = Some ''output_text''
         then map_sum id json_text_part (item_text part ''text part'' ''text'')
         else if kind = Some ''input_image''
         then map_sum id json_image_part (item_text part ''input_image'' ''image_url'')
         else Inl (''a content part this gateway cannot carry: '' @ show_json J part))"

definition message_content :: "json_codec \<Rightarrow> json \<Rightarrow> (string, json) result" where
  "message_content J content =
     (case content of
        JStr text \<Rightarrow> Inr (JStr text)
      | JArr parts \<Rightarrow>
          bind_result (collect_results (map (message_part J) parts)) (\<lambda>mapped.
            Inr (if has_images mapped then JArr mapped
                 else JStr (join [] (filter_map (\<lambda>part. Option.bind (json_get part ''text'') as_str) mapped))))
      | other \<Rightarrow> Inl (''a `message` item's content must be text or a list of parts, not '' @ show_json J other))"

definition call_message :: "string \<Rightarrow> string \<Rightarrow> string \<Rightarrow> message" where
  "call_message i name arguments =
     \<lparr>msg_role = ''assistant'', msg_content = JStr [], msg_tool_call_id = None, msg_name = None,
      msg_tool_calls = Some [json_function_call i name arguments]\<rparr>"

definition input_item :: "json_codec \<Rightarrow> json \<Rightarrow> (string, message option) result" where
  "input_item J item =
     (let kind = (case type_of_block item of Some kind \<Rightarrow> kind | None \<Rightarrow> ''message'')
      in if kind = ''message''
         then bind_result (item_text item ''message'' ''role'') (\<lambda>role.
              bind_result (ok_or ''a `message` item carries no `content`'' (json_get item ''content'')) (\<lambda>raw.
              bind_result (message_content J raw) (\<lambda>content.
              Inr (Some \<lparr>msg_role = role, msg_content = content, msg_tool_call_id = None, msg_name = None,
                         msg_tool_calls = None\<rparr>))))
         else if kind = ''function_call''
         then bind_result (ok_or ''a `function_call` item carries no `call_id` text''
                (Option.bind (case json_get item ''call_id'' of Some v \<Rightarrow> Some v | None \<Rightarrow> json_get item ''id'') as_str))
                (\<lambda>i.
              bind_result (item_text item ''function_call'' ''name'') (\<lambda>name.
              bind_result (item_text item ''function_call'' ''arguments'') (\<lambda>arguments.
              Inr (Some (call_message i name arguments)))))
         else if kind = ''function_call_output''
         then bind_result (item_text item ''function_call_output'' ''output'') (\<lambda>out.
              bind_result (item_text item ''function_call_output'' ''call_id'') (\<lambda>i.
              Inr (Some (tool_message out i))))
         else Inr None)"

fun input_items :: "json_codec \<Rightarrow> nat \<Rightarrow> json list \<Rightarrow> (string, message list) result" where
  "input_items J index [] = Inr []"
| "input_items J index (item # items) =
     (case input_item J item of
        Inl err \<Rightarrow> Inl (''input item '' @ show_nat index @ '': '' @ err)
      | Inr message \<Rightarrow>
          map_sum id (\<lambda>later. (case message of Some m \<Rightarrow> [m] | None \<Rightarrow> []) @ later) (input_items J (Suc index) items))"

definition user_message :: "string \<Rightarrow> message" where
  "user_message text =
     \<lparr>msg_role = ''user'', msg_content = JStr text, msg_tool_call_id = None, msg_name = None, msg_tool_calls = None\<rparr>"

definition responses_messages :: "json_codec \<Rightarrow> json \<Rightarrow> (string, message list) result" where
  "responses_messages J raw =
     (case json_get raw ''input'' of
        Some (JStr text) \<Rightarrow> Inr [user_message text]
      | Some (JArr items) \<Rightarrow> input_items J 0 items
      | Some other \<Rightarrow> Inl (''input must be text or a list of items, not '' @ show_json J other)
      | None \<Rightarrow> Inl ''missing field `input`'')"

fun responses_functions :: "nat \<Rightarrow> json list \<Rightarrow> (string, tool list) result" where
  "responses_functions index [] = Inr []"
| "responses_functions index (t # ts) =
     (if type_of_block t = Some ''function''
      then (case item_text t ''function tool'' ''name'' of
              Inl err \<Rightarrow> Inl (''tool '' @ show_nat index @ '': '' @ err)
            | Inr name \<Rightarrow>
                map_sum id (\<lambda>tools. \<lparr>tool_type = ''function'', tool_name = name,
                    tool_description = stated_description t, tool_parameters = json_get t ''parameters''\<rparr> # tools)
                  (responses_functions (Suc index) ts))
      else responses_functions (Suc index) ts)"

definition responses_tool_choice :: "json_codec \<Rightarrow> json \<Rightarrow> (string, json option) result" where
  "responses_tool_choice J raw =
     (case json_get raw ''tool_choice'' of
        None \<Rightarrow> Inr None
      | Some (JStr v) \<Rightarrow> Inr (Some (JStr v))
      | Some choice \<Rightarrow>
          (if type_of_block choice = Some ''function''
           then map_sum id (\<lambda>name. Some (json_function_choice name)) (item_text choice ''function tool_choice'' ''name'')
           else Inl (''tool_choice '' @ show_json J choice @ '' is not a mode or a function this gateway carries'')))"

definition responses_max_tokens :: "json_codec \<Rightarrow> json \<Rightarrow> (string, 32 word option) result" where
  "responses_max_tokens J raw =
     (case json_get raw ''max_output_tokens'' of
        None \<Rightarrow> Inr None
      | Some JNull \<Rightarrow> Inr None
      | Some v \<Rightarrow>
          bind_result (ok_or (''`max_output_tokens` must be a whole number, not '' @ show_json J v) (as_u64 v)) (\<lambda>count.
          map_sum (\<lambda>err. ''`max_output_tokens` '' @ show_nat (unat count) @ '' does not fit: '' @ err) Some (to_u32 count)))"

definition responses_request :: "json_codec \<Rightarrow> string \<Rightarrow> (string, inbound_call) result" where
  "responses_request J body =
     bind_result (parse_body J body) (\<lambda>raw.
     bind_result (stated_model raw) (\<lambda>model.
     bind_result (responses_max_tokens J raw) (\<lambda>max_tokens.
     bind_result (validate model max_tokens (Option.bind (json_get raw ''temperature'') as_f64)) (\<lambda>_.
     bind_result (responses_messages J raw) (\<lambda>messages.
     if messages = [] then Inl ''input must not be empty''
     else
     bind_result (responses_functions 0
         (case Option.bind (json_get raw ''tools'') as_array of Some ts \<Rightarrow> ts | None \<Rightarrow> [])) (\<lambda>functions.
     bind_result (responses_tool_choice J raw) (\<lambda>tool_choice.
     bind_result (validate_history_tool_calls J messages) (\<lambda>_.
     bind_result (stated_stream J raw) (\<lambda>stream.
     Inr (inbound model messages max_tokens (Option.bind (json_get raw ''temperature'') as_f64)
       (case Option.bind (json_get raw ''instructions'') as_str of
          Some t \<Rightarrow> (if t = [] then None else Some t) | None \<Rightarrow> None)
       (nonempty functions) tool_choice stream))))))))))"

subsection \<open>The chat request\<close>

text \<open>
  \<open>chat/request.rs\<close> and the checks \<open>chat_completions\<close> makes before it routes: a request whose JSON
  \<open>serde\<close> already read into its fields.
\<close>

record response_format =
  rfmt_kind :: string
  rfmt_json_schema :: "(string \<times> json \<times> bool option) option"

definition response_format_schema :: "response_format \<Rightarrow> (string, response_schema) result" where
  "response_format_schema f =
     (if rfmt_kind f \<noteq> ''json_schema''
      then Inl (''response_format type `'' @ rfmt_kind f @
        ''` is not taken: only `json_schema`, which names the schema the answer is held to'')
      else (case rfmt_json_schema f of
              None \<Rightarrow> Inl ''response_format `json_schema` carries no `json_schema` object''
            | Some (name, schema, strict) \<Rightarrow>
                (if strict = Some False
                 then Inl (''response_format `json_schema` with `strict: false` is not taken: '' @
                        ''Brama holds an answer to its schema strictly or not at all'')
                 else Inr \<lparr>rs_name = name, rs_schema = schema\<rparr>)))"

record chat_message =
  cm_role :: string
  cm_content :: "json option"
  cm_tool_call_id :: "string option"
  cm_name :: "string option"
  cm_tool_calls :: "json list option"

record chat_request =
  cr_model :: "string option"
  cr_messages :: "chat_message list"
  cr_max_tokens :: "32 word option"
  cr_temperature :: "f64 option"
  cr_tools :: "tool list option"
  cr_tool_choice :: "json option"
  cr_billing_target :: "billing_target option"
  cr_stream :: bool
  cr_response_format :: "response_format option"

fun chat_messages_in :: "nat \<Rightarrow> chat_message list \<Rightarrow> (string, message list) result" where
  "chat_messages_in pos [] = Inr []"
| "chat_messages_in pos (m # ms) =
     (let calls_tools = (case cm_tool_calls m of Some calls \<Rightarrow> calls \<noteq> [] | None \<Rightarrow> False)
      in (case (case cm_content m of
                  Some content \<Rightarrow> Some content
                | None \<Rightarrow> (if calls_tools then Some (JStr []) else None)) of
            None \<Rightarrow> Inl (''message '' @ show_nat pos @ '' ('' @ cm_role m @ '') has no content and calls no tool'')
          | Some content \<Rightarrow>
              map_sum id (\<lambda>later. \<lparr>msg_role = cm_role m, msg_content = content, msg_tool_call_id = cm_tool_call_id m,
                  msg_name = cm_name m, msg_tool_calls = cm_tool_calls m\<rparr> # later) (chat_messages_in (Suc pos) ms)))"

text \<open>\<open>split_system_message\<close>: \<open>system.is_none()\<close> holds again after a system message whose content is not text.\<close>

fun split_system_from :: "string option \<Rightarrow> message list \<Rightarrow> string option \<times> message list" where
  "split_system_from system [] = (system, [])"
| "split_system_from system (m # ms) =
     (if msg_role m = ''system'' \<and> system = None
      then split_system_from (as_str (msg_content m)) ms
      else (case split_system_from system ms of (found, rest) \<Rightarrow> (found, m # rest)))"

definition split_system_message :: "message list \<Rightarrow> string option \<times> message list" where
  "split_system_message messages = split_system_from None messages"

definition chat_call :: "json_codec \<Rightarrow> chat_request \<Rightarrow> (string, inbound_call) result" where
  "chat_call J req =
     (if cr_messages req = [] then Inl ''messages must not be empty''
      else
      bind_result (ok_or ''missing field `model`'' (map_option trim (cr_model req))) (\<lambda>model.
      bind_result (validate model (cr_max_tokens req) (cr_temperature req)) (\<lambda>_.
      bind_result (case cr_response_format req of
          None \<Rightarrow> Inr None | Some f \<Rightarrow> map_sum id Some (response_format_schema f)) (\<lambda>schema.
      if schema \<noteq> None \<and> cr_stream req
      then Inl (''response_format is answered buffered only: a streamed answer is sent before it can be held to '' @
             ''its schema'')
      else
      bind_result (chat_messages_in 0 (cr_messages req)) (\<lambda>messages.
      bind_result (validate_history_tool_calls J messages) (\<lambda>_.
      let (system, rest) = split_system_message messages
      in Inr \<lparr>ic_model = model,
           ic_request = \<lparr>rq_messages = rest, rq_model = [], rq_max_tokens = cr_max_tokens req,
             rq_temperature = cr_temperature req, rq_system = system, rq_tools = cr_tools req,
             rq_tool_choice = cr_tool_choice req, rq_billing_target = cr_billing_target req,
             rq_response_schema = schema\<rparr>,
           ic_stream = cr_stream req\<rparr>))))))"

end
