(* ===== verification/Wire_Delivery.thy ===== *)
theory Wire_Delivery
  imports Wire_Events "HOL-Library.Sublist"
begin

section \<open>How the events reach the caller\<close>

text \<open>
  An encoder is polled while the recorder is still sending: items arrive, the sender goes away and the caller's
  connection asks for the next event in any order. \<open>caller_run\<close> is such a history. The locale
  \<open>caller_encoder\<close> holds the laws a format's step keeps (it only appends events, leaves the accounting to the
  loop, ends on a terminal item), and its lemmas say what the caller then receives: the events of the items
  sent, in order and whatever the timing, the end once they are all out, and one report of the end.
\<close>

datatype caller_move = Arrive stream_item | SenderGone | Ask

type_synonym 's link = "bool \<times> stream_item list \<times> 's"

fun caller_step ::
  "(stream_item \<Rightarrow> 'z caller_stream_scheme \<Rightarrow> 'z caller_stream_scheme) \<Rightarrow> caller_move \<Rightarrow>
     'z caller_stream_scheme link \<Rightarrow> polled list \<times> 'z caller_stream_scheme link" where
  "caller_step take_next (Arrive item) (closed, queue, s) =
     ([], closed, if closed then queue else queue @ [item], s)"
| "caller_step take_next SenderGone (closed, queue, s) = ([], True, queue, s)"
| "caller_step take_next Ask (closed, queue, s) =
     (case poll_next take_next closed queue s of (answer, queue', s') \<Rightarrow> ([answer], closed, queue', s'))"

fun caller_run ::
  "(stream_item \<Rightarrow> 'z caller_stream_scheme \<Rightarrow> 'z caller_stream_scheme) \<Rightarrow> caller_move list \<Rightarrow>
     'z caller_stream_scheme link \<Rightarrow> polled list \<times> 'z caller_stream_scheme link" where
  "caller_run take_next [] link = ([], link)"
| "caller_run take_next (move # moves) link =
     (case caller_step take_next move link of (answers, link1) \<Rightarrow>
       (case caller_run take_next moves link1 of (later, link2) \<Rightarrow> (answers @ later, link2)))"

text \<open>What the sender got into the channel, and what the caller was given.\<close>

fun sent_items :: "bool \<Rightarrow> caller_move list \<Rightarrow> stream_item list" where
  "sent_items closed [] = []"
| "sent_items closed (Arrive item # moves) =
     (if closed then sent_items closed moves else item # sent_items closed moves)"
| "sent_items closed (SenderGone # moves) = sent_items True moves"
| "sent_items closed (Ask # moves) = sent_items closed moves"

fun frames_of :: "polled list \<Rightarrow> caller_frame list" where
  "frames_of [] = []"
| "frames_of (PollReady (Some f) # answers) = f # frames_of answers"
| "frames_of (_ # answers) = frames_of answers"

text \<open>The reference: every item taken in turn until the format's end, nothing handed out yet.\<close>

fun encode_all ::
  "(stream_item \<Rightarrow> 'z caller_stream_scheme \<Rightarrow> 'z caller_stream_scheme) \<Rightarrow> stream_item list \<Rightarrow>
     'z caller_stream_scheme \<Rightarrow> 'z caller_stream_scheme" where
  "encode_all take_next [] s = s"
| "encode_all take_next (item # items) s =
     (if cs_terminated s then s else encode_all take_next items (take_next item s))"

text \<open>The report a stream of these items owes: the meter stated, and whether it ended short of its end.\<close>

definition owed_report ::
  "(stream_item \<Rightarrow> 'z caller_stream_scheme \<Rightarrow> 'z caller_stream_scheme) \<Rightarrow> stream_item list \<Rightarrow>
     'z caller_stream_scheme \<Rightarrow> (32 word \<times> 32 word) option \<times> bool" where
  "owed_report take_next items s =
     (let s' = encode_all take_next items s in (cs_usage s', cs_failed s' \<or> \<not> cs_terminated s'))"

definition fresh_stream :: "'z caller_stream_scheme \<Rightarrow> bool" where
  "fresh_stream s =
     (cs_pending s = [] \<and> \<not> cs_terminated s \<and> \<not> cs_failed s \<and> cs_on_end s \<and> cs_reports s = [])"

lemma frames_of_append [simp]: "frames_of (xs @ ys) = frames_of xs @ frames_of ys"
  by (induction xs rule: frames_of.induct) auto

lemma encode_all_terminated [simp]: "cs_terminated s \<Longrightarrow> encode_all f items s = s"
  by (cases items) auto

lemma encode_all_append:
  "encode_all f (xs @ ys) s = encode_all f ys (encode_all f xs s)"
  by (induction xs arbitrary: s) auto

lemma caller_run_append:
  "caller_run f (ms @ ns) link =
     (case caller_run f ms link of (answers, link1) \<Rightarrow>
       (case caller_run f ns link1 of (later, link2) \<Rightarrow> (answers @ later, link2)))"
  by (induction ms arbitrary: link) (auto split: prod.splits)

lemma account_end_simps [simp]:
  "cs_pending (account_end b s) = cs_pending s" "cs_terminated (account_end b s) = cs_terminated s"
  "cs_failed (account_end b s) = cs_failed s" "cs_usage (account_end b s) = cs_usage s"
  "\<not> cs_on_end (account_end b s)"
  "cs_reports (account_end b s) = cs_reports s @ (if cs_on_end s then [(cs_usage s, b)] else [])"
  by (simp_all add: account_end_def)

locale caller_encoder =
  fixes take_next :: "stream_item \<Rightarrow> 'z caller_stream_scheme \<Rightarrow> 'z caller_stream_scheme"
  assumes only_appends:
      "take_next item (s\<lparr>cs_pending := ps\<rparr>) =
         (let s' = take_next item (s\<lparr>cs_pending := []\<rparr>) in s'\<lparr>cs_pending := ps @ cs_pending s'\<rparr>)"
    and leaves_report: "cs_on_end (take_next item s) = cs_on_end s"
      "cs_reports (take_next item s) = cs_reports s"
    and ends_on_terminal: "terminal_item item \<Longrightarrow> cs_terminated (take_next item s)"
    and fails_by_ending: "cs_failed (take_next item s) \<Longrightarrow> \<not> cs_failed s \<Longrightarrow> cs_terminated (take_next item s)"
begin

lemma encode_appends:
  "encode_all take_next items (s\<lparr>cs_pending := ps\<rparr>) =
     (let s' = encode_all take_next items (s\<lparr>cs_pending := []\<rparr>) in s'\<lparr>cs_pending := ps @ cs_pending s'\<rparr>)"
proof (induction items arbitrary: s ps)
  case (Cons item items)
  let ?t = "take_next item (s\<lparr>cs_pending := []\<rparr>)"
  show ?case
  proof (cases "cs_terminated s")
    case False
    have "encode_all take_next items (?t\<lparr>cs_pending := ps @ cs_pending ?t\<rparr>) =
        (let s' = encode_all take_next items (?t\<lparr>cs_pending := []\<rparr>)
         in s'\<lparr>cs_pending := ps @ cs_pending ?t @ cs_pending s'\<rparr>)"
      using Cons.IH [where s = ?t and ps = "ps @ cs_pending ?t"] by simp
    moreover have "encode_all take_next items ?t =
        (let s' = encode_all take_next items (?t\<lparr>cs_pending := []\<rparr>) in s'\<lparr>cs_pending := cs_pending ?t @ cs_pending s'\<rparr>)"
      using Cons.IH [where s = ?t and ps = "cs_pending ?t"] by simp
    ultimately show ?thesis
      using False only_appends [where item = item and s = s and ps = ps] by (simp add: Let_def)
  qed simp
qed simp

lemma encode_keeps_report:
  "cs_on_end (encode_all take_next items s) = cs_on_end s"
  "cs_reports (encode_all take_next items s) = cs_reports s"
  by (induction items arbitrary: s) (auto simp: leaves_report)

lemma encode_fails_by_ending:
  "cs_failed s \<longrightarrow> cs_terminated s \<Longrightarrow>
     cs_failed (encode_all take_next items s) \<longrightarrow> cs_terminated (encode_all take_next items s)"
proof (induction items arbitrary: s)
  case (Cons item items)
  show ?case
  proof (cases "cs_terminated s")
    case False
    with Cons.prems have "cs_failed (take_next item s) \<longrightarrow> cs_terminated (take_next item s)"
      using fails_by_ending by blast
    with False show ?thesis using Cons.IH by simp
  qed (use Cons.prems in simp)
qed simp

text \<open>One poll hands out the next event of the reference, or nothing when there is none left.\<close>

lemma encode_pending:
  "cs_pending s = e # es \<Longrightarrow>
     cs_pending (encode_all take_next items s) = e # cs_pending (encode_all take_next items (s\<lparr>cs_pending := es\<rparr>))"
proof -
  assume "cs_pending s = e # es"
  then have "s\<lparr>cs_pending := e # es\<rparr> = s" by (cases s) simp
  then show ?thesis
    using encode_appends [where s = s and ps = "e # es" and items = items]
      encode_appends [where s = s and ps = es and items = items]
    by (simp add: Let_def)
qed

lemma owed_ignores_pending: "owed_report take_next items (s\<lparr>cs_pending := ps\<rparr>) = owed_report take_next items s"
proof -
  have "s\<lparr>cs_pending := cs_pending s\<rparr> = s" by (cases s) simp
  then show ?thesis
    using encode_appends [where s = s and ps = ps and items = items]
      encode_appends [where s = s and ps = "cs_pending s" and items = items]
    by (simp add: owed_report_def Let_def)
qed

lemma poll_hands_out:
  assumes "poll_next take_next closed queue s = (answer, queue', s')" and "closed \<Longrightarrow> later = []"
  shows "cs_pending (encode_all take_next (queue @ later) s) =
           frames_of [answer] @ cs_pending (encode_all take_next (queue' @ later) s')"
  using assms
proof (induction queue arbitrary: s)
  case Nil
  then show ?case
    by (cases "cs_pending s") (auto simp: encode_pending split: if_splits)
next
  case (Cons item queue)
  show ?case
  proof (cases "cs_pending s")
    case (Cons e es)
    then show ?thesis using Cons.prems by (auto simp: encode_pending [OF Cons])
  next
    case Nil
    then show ?thesis using Cons.prems Cons.IH by (auto split: if_splits)
  qed
qed

lemma owed_simps:
  "cs_terminated s \<Longrightarrow> owed_report take_next items s = (cs_usage s, cs_failed s)"
  "\<not> cs_terminated s \<Longrightarrow> owed_report take_next [] s = (cs_usage s, True)"
  "\<not> cs_terminated s \<Longrightarrow> owed_report take_next (item # items) s = owed_report take_next items (take_next item s)"
  by (simp_all add: owed_report_def)

lemma poll_end:
  "poll_next take_next closed queue s = (PollReady None, queue', s') \<Longrightarrow>
     cs_terminated s' \<and> cs_pending s' = [] \<and> \<not> cs_on_end s'"
  by (induction queue arbitrary: s) (auto split: list.splits if_splits)

lemma poll_accounts:
  assumes "poll_next take_next closed queue s = (answer, queue', s')" and "closed \<Longrightarrow> later = []"
    and "cs_on_end s" and "cs_reports s = []"
  shows "if answer = PollReady None then cs_reports s' = [owed_report take_next (queue @ later) s]
         else cs_on_end s' \<and> cs_reports s' = [] \<and>
           owed_report take_next (queue' @ later) s' = owed_report take_next (queue @ later) s"
  using assms
proof (induction queue arbitrary: s)
  case Nil
  then show ?case
    by (auto simp: owed_ignores_pending owed_simps split: if_splits list.splits)
next
  case (Cons item queue)
  show ?case
  proof (cases "cs_pending s = [] \<and> \<not> cs_terminated s")
    case True
    with Cons.prems have "poll_next take_next closed queue (take_next item s) = (answer, queue', s')" by simp
    from Cons.IH [OF this] Cons.prems True show ?thesis
      by (simp add: leaves_report owed_simps)
  next
    case False
    with Cons.prems show ?thesis
      by (auto simp: owed_ignores_pending owed_simps split: if_splits list.splits)
  qed
qed

text \<open>Whole histories.\<close>

lemma sent_items_closed [simp]: "sent_items True moves = []"
  by (induction moves) (metis sent_items.simps caller_move.exhaust)+

lemma quiet_move:
  assumes "move \<noteq> Ask" and "caller_run take_next (move # moves) (closed, queue, s) = result"
  obtains closed1 queue1 where "caller_run take_next moves (closed1, queue1, s) = result"
    and "queue1 @ sent_items closed1 moves = queue @ sent_items closed (move # moves)"
proof (cases move)
  case (Arrive item)
  with assms show ?thesis by (auto intro!: that split: prod.splits)
next
  case SenderGone
  with assms show ?thesis by (auto intro!: that split: prod.splits)
qed (use assms in simp)

lemma run_hands_out:
  "caller_run take_next moves (closed, queue, s) = (answers, closed', queue', s') \<Longrightarrow>
     cs_pending (encode_all take_next (queue @ sent_items closed moves) s) =
       frames_of answers @ cs_pending (encode_all take_next queue' s')"
proof (induction moves arbitrary: closed queue s answers)
  case (Cons move moves)
  show ?case
  proof (cases "move = Ask")
    case Ask: True
    obtain answer queue1 s1 where p: "poll_next take_next closed queue s = (answer, queue1, s1)"
      by (metis prod_cases3)
    with Ask Cons.prems obtain later where
      r: "caller_run take_next moves (closed, queue1, s1) = (later, closed', queue', s')"
        and a: "answers = answer # later"
      by (auto split: prod.splits)
    have "closed \<Longrightarrow> sent_items closed moves = []" by simp
    from poll_hands_out [OF p this] Cons.IH [OF r] Ask a show ?thesis
      by (simp add: frames_of_append [of "[answer]" later, simplified])
  next
    case False
    from quiet_move [OF this Cons.prems] obtain closed1 queue1 where
      "caller_run take_next moves (closed1, queue1, s) = (answers, closed', queue', s')"
      and "queue1 @ sent_items closed1 moves = queue @ sent_items closed (move # moves)" .
    with Cons.IH Cons.prems show ?thesis by metis
  qed
qed auto

lemma run_settled:
  "caller_run take_next moves (closed, queue, s) = (answers, closed', queue', s') \<Longrightarrow>
     cs_terminated s \<and> cs_pending s = [] \<and> \<not> cs_on_end s \<Longrightarrow> s' = s"
proof (induction moves arbitrary: closed queue s answers)
  case (Cons move moves)
  have "poll_next take_next closed queue s = (PollReady None, queue, s)"
    using Cons.prems(2) by (cases queue) (simp_all add: account_end_def)
  with Cons show ?case by (cases move) (auto split: prod.splits)
qed simp

lemma run_reports:
  assumes "caller_run take_next moves (closed, queue, s) = (answers, closed', queue', s')"
    and "cs_on_end s" and "cs_reports s = []"
  shows "if PollReady None \<in> set answers
         then cs_terminated s' \<and> cs_pending s' = [] \<and>
           cs_reports s' = [owed_report take_next (queue @ sent_items closed moves) s]
         else cs_on_end s' \<and> cs_reports s' = []"
  using assms
proof (induction moves arbitrary: closed queue s answers)
  case (Cons move moves)
  show ?case
  proof (cases "move = Ask")
    case Ask: True
    obtain answer queue1 s1 where p: "poll_next take_next closed queue s = (answer, queue1, s1)"
      by (metis prod_cases3)
    with Ask Cons.prems obtain later where
      r: "caller_run take_next moves (closed, queue1, s1) = (later, closed', queue', s')"
        and a: "answers = answer # later"
      by (auto split: prod.splits)
    have late: "closed \<Longrightarrow> sent_items closed moves = []" by simp
    note acc = poll_accounts [OF p late Cons.prems(2,3)]
    show ?thesis
    proof (cases "answer = PollReady None")
      case True
      with p have "cs_terminated s1 \<and> cs_pending s1 = [] \<and> \<not> cs_on_end s1" using poll_end by blast
      with run_settled [OF r] acc True a Ask show ?thesis by simp
    next
      case False
      with Cons.IH [OF r] acc a Ask show ?thesis by simp
    qed
  next
    case False
    from quiet_move [OF this Cons.prems(1)] obtain closed1 queue1 where
      "caller_run take_next moves (closed1, queue1, s) = (answers, closed', queue', s')"
      and "queue1 @ sent_items closed1 moves = queue @ sent_items closed (move # moves)" .
    with Cons.IH Cons.prems show ?thesis by metis
  qed
qed simp

lemma delivers:
  assumes "fresh_stream s" and "caller_run take_next moves (False, [], s) = (answers, closed, queue, s')"
  shows "prefix (frames_of answers) (cs_pending (encode_all take_next (sent_items False moves) s))"
    and "PollReady None \<in> set answers \<Longrightarrow>
      frames_of answers = cs_pending (encode_all take_next (sent_items False moves) s)"
    and "cs_reports s' =
      (if PollReady None \<in> set answers then [owed_report take_next (sent_items False moves) s] else [])"
proof -
  have on_end: "cs_on_end s" "cs_reports s = []" using assms(1) by (simp_all add: fresh_stream_def)
  note out = run_hands_out [OF assms(2)] and reports = run_reports [OF assms(2) on_end]
  from out show "prefix (frames_of answers) (cs_pending (encode_all take_next (sent_items False moves) s))"
    by simp
  from out reports show "PollReady None \<in> set answers \<Longrightarrow>
      frames_of answers = cs_pending (encode_all take_next (sent_items False moves) s)"
    by simp
  from reports show "cs_reports s' =
      (if PollReady None \<in> set answers then [owed_report take_next (sent_items False moves) s] else [])"
    by (simp split: if_splits)
qed

text \<open>A stream that was ended, or whose sender is gone, ends for a caller that keeps asking.\<close>

lemma encode_ends: "\<exists>item \<in> set items. terminal_item item \<Longrightarrow> cs_terminated (encode_all take_next items s)"
proof (induction items arbitrary: s)
  case (Cons item items)
  then show ?case by (cases "terminal_item item") (auto simp: ends_on_terminal)
qed simp

lemma encode_terminated_pending:
  "cs_terminated (encode_all take_next items (s\<lparr>cs_pending := ps\<rparr>)) = cs_terminated (encode_all take_next items s)"
proof -
  have "s\<lparr>cs_pending := cs_pending s\<rparr> = s" by (cases s) simp
  then show ?thesis
    using encode_appends [where s = s and ps = ps and items = items]
      encode_appends [where s = s and ps = "cs_pending s" and items = items]
    by (simp add: Let_def)
qed

lemma poll_keeps_end:
  "poll_next take_next closed queue s = (answer, queue', s') \<Longrightarrow>
     cs_terminated (encode_all take_next (queue @ later) s) \<Longrightarrow> cs_terminated (encode_all take_next (queue' @ later) s')"
proof (induction queue arbitrary: s)
  case (Cons item queue)
  show ?case
  proof (cases "cs_pending s")
    case Nil
    with Cons show ?thesis by (auto split: if_splits)
  next
    case (Cons e es)
    with Cons.prems have "queue' = item # queue" "s' = s\<lparr>cs_pending := es\<rparr>" by simp_all
    with Cons.prems(2) show ?thesis
      using encode_terminated_pending [where s = s and ps = es and items = "item # queue @ later"] by simp
  qed
qed (auto simp: encode_terminated_pending split: list.splits if_splits)

lemma poll_answers:
  "poll_next take_next closed queue s = (answer, queue', s') \<Longrightarrow>
     closed \<or> cs_terminated (encode_all take_next queue s) \<Longrightarrow> answer \<noteq> PollPending"
  by (induction queue arbitrary: s) (auto split: list.splits if_splits)

lemma run_keeps_end:
  "caller_run take_next moves (closed, queue, s) = (answers, closed', queue', s') \<Longrightarrow>
     closed' = (closed \<or> SenderGone \<in> set moves) \<and>
     (cs_terminated (encode_all take_next (queue @ sent_items closed moves) s) \<longrightarrow>
       cs_terminated (encode_all take_next queue' s'))"
proof (induction moves arbitrary: closed queue s answers)
  case (Cons move moves)
  show ?case
  proof (cases "move = Ask")
    case True
    obtain answer queue1 s1 where p: "poll_next take_next closed queue s = (answer, queue1, s1)"
      by (metis prod_cases3)
    with True Cons.prems obtain later where
      "caller_run take_next moves (closed, queue1, s1) = (later, closed', queue', s')"
      by (auto split: prod.splits)
    from Cons.IH [OF this] poll_keeps_end [OF p] True show ?thesis by auto
  next
    case False
    then show ?thesis using Cons.prems Cons.IH by (cases move) (fastforce split: prod.splits if_splits)+
  qed
qed simp

lemma asking_ends:
  assumes "closed \<or> cs_terminated (encode_all take_next queue s)"
    and "length (cs_pending (encode_all take_next queue s)) < n"
  shows "PollReady None \<in> set (fst (caller_run take_next (replicate n Ask) (closed, queue, s)))"
  using assms
proof (induction n arbitrary: queue s)
  case (Suc n)
  obtain answer queue1 s1 where p: "poll_next take_next closed queue s = (answer, queue1, s1)"
    by (metis prod_cases3)
  from poll_answers [OF p Suc.prems(1)] consider "answer = PollReady None" | f where "answer = PollReady (Some f)"
    by (metis option.exhaust polled.exhaust)
  then show ?case
  proof cases
    case 1
    with p show ?thesis by (auto split: prod.splits)
  next
    case 2
    have "closed \<or> cs_terminated (encode_all take_next queue1 s1)"
      using Suc.prems(1) poll_keeps_end [OF p, of "[]"] by auto
    moreover have "length (cs_pending (encode_all take_next queue1 s1)) < n"
      using Suc.prems(2) poll_hands_out [OF p, of "[]"] 2 by simp
    ultimately have "PollReady None \<in> set (fst (caller_run take_next (replicate n Ask) (closed, queue1, s1)))"
      by (rule Suc.IH)
    with p show ?thesis by (auto split: prod.splits)
  qed
qed simp

lemma ends:
  assumes "(\<exists>item \<in> set (sent_items False moves). terminal_item item) \<or> SenderGone \<in> set moves"
    and "n = length (cs_pending (encode_all take_next (sent_items False moves) s))"
  shows "PollReady None \<in> set (fst (caller_run take_next (moves @ replicate (Suc n) Ask) (False, [], s)))"
proof -
  obtain answers closed queue s1 where r: "caller_run take_next moves (False, [], s) = (answers, closed, queue, s1)"
    by (metis prod_cases4)
  have "closed \<or> cs_terminated (encode_all take_next queue s1)"
    using assms(1) run_keeps_end [OF r] encode_ends by auto
  moreover have "length (cs_pending (encode_all take_next queue s1)) < Suc n"
    using run_hands_out [OF r] assms(2) by simp
  ultimately have "PollReady None \<in> set (fst (caller_run take_next (replicate (Suc n) Ask) (closed, queue, s1)))"
    by (rule asking_ends)
  then show ?thesis by (simp only: caller_run_append r) (auto split: prod.splits)
qed

end

subsection \<open>The three formats\<close>

lemma item_cases [case_names Text Start Arguments Finish Usage Done Failed]:
  assumes "\<And>text. item = Delta (Text text) \<Longrightarrow> P" "\<And>n i name. item = Delta (ToolCallStart n i name) \<Longrightarrow> P"
    "\<And>n delta. item = Delta (ToolCallArguments n delta) \<Longrightarrow> P" "\<And>reason. item = Delta (Finish reason) \<Longrightarrow> P"
    "\<And>i out. item = Delta (Usage i out) \<Longrightarrow> P" "item = Done \<Longrightarrow> P" "\<And>message. item = Failed message \<Longrightarrow> P"
  shows P
  using assms by (metis stream_delta.exhaust stream_item.exhaust)

text \<open>
  A step that only appends: what it adds and what it leaves do not depend on the events still waiting. The
  accounting it leaves alone.
\<close>

definition appends :: "('z caller_stream_scheme \<Rightarrow> 'z caller_stream_scheme) \<Rightarrow> bool" where
  "appends f =
     (\<forall>s. (\<forall>ps. f (s\<lparr>cs_pending := ps\<rparr>) =
             (f (s\<lparr>cs_pending := []\<rparr>))\<lparr>cs_pending := ps @ cs_pending (f (s\<lparr>cs_pending := []\<rparr>))\<rparr>) \<and>
          cs_on_end (f s) = cs_on_end s \<and> cs_reports (f s) = cs_reports s)"

lemma push_frame_simps [simp]:
  "cs_pending (push_frame f s) = cs_pending s @ [f]" "cs_usage (push_frame f s) = cs_usage s"
  "cs_terminated (push_frame f s) = cs_terminated s" "cs_failed (push_frame f s) = cs_failed s"
  "cs_on_end (push_frame f s) = cs_on_end s" "cs_reports (push_frame f s) = cs_reports s"
  by (simp_all add: push_frame_def)

lemma appendsD:
  "appends f \<Longrightarrow>
     f (s\<lparr>cs_pending := ps\<rparr>) = (f (s\<lparr>cs_pending := []\<rparr>))\<lparr>cs_pending := ps @ cs_pending (f (s\<lparr>cs_pending := []\<rparr>))\<rparr>"
  "appends f \<Longrightarrow> cs_on_end (f s) = cs_on_end s" "appends f \<Longrightarrow> cs_reports (f s) = cs_reports s"
  unfolding appends_def by blast+

lemma appends_comp:
  assumes f: "appends f" and g: "appends g"
  shows "appends (\<lambda>s. g (f s))"
  unfolding appends_def
proof (intro allI conjI)
  fix s ps
  let ?t = "f (s\<lparr>cs_pending := []\<rparr>)"
  let ?u = "g (?t\<lparr>cs_pending := []\<rparr>)"
  have "?t\<lparr>cs_pending := cs_pending ?t\<rparr> = ?t" by simp
  then have u: "g ?t = ?u\<lparr>cs_pending := cs_pending ?t @ cs_pending ?u\<rparr>"
    using appendsD(1) [OF g, where s = ?t and ps = "cs_pending ?t"] by (simp only:)
  have "g (f (s\<lparr>cs_pending := ps\<rparr>)) = ?u\<lparr>cs_pending := (ps @ cs_pending ?t) @ cs_pending ?u\<rparr>"
    by (simp only: appendsD(1) [OF f, where s = s and ps = ps] appendsD(1) [OF g, where s = ?t and ps = "ps @ cs_pending ?t"])
  also have "\<dots> = (g ?t)\<lparr>cs_pending := ps @ cs_pending (g ?t)\<rparr>" unfolding u by simp
  finally show "g (f (s\<lparr>cs_pending := ps\<rparr>)) = (g ?t)\<lparr>cs_pending := ps @ cs_pending (g ?t)\<rparr>" .
qed (simp_all only: appendsD(2,3) [OF f] appendsD(2,3) [OF g])

lemma appends_id [simp]: "appends (\<lambda>s. s)"
  by (simp add: appends_def)

text \<open>A choice by a value that does not read the events still waiting.\<close>

lemma appends_by:
  assumes v: "\<And>s ps. v (s\<lparr>cs_pending := ps\<rparr>) = v s" and g: "\<And>x. appends (g x)"
  shows "appends (\<lambda>s. g (v s) s)"
  unfolding appends_def
proof (intro allI conjI)
  fix s ps
  show "g (v (s\<lparr>cs_pending := ps\<rparr>)) (s\<lparr>cs_pending := ps\<rparr>) = (g (v (s\<lparr>cs_pending := []\<rparr>)) (s\<lparr>cs_pending := []\<rparr>))
      \<lparr>cs_pending := ps @ cs_pending (g (v (s\<lparr>cs_pending := []\<rparr>)) (s\<lparr>cs_pending := []\<rparr>))\<rparr>"
    by (simp only: v appendsD(1) [OF g, where s = s and ps = ps])
qed (simp_all only: appendsD(2,3) [OF g])

lemma appends_law:
  "(\<And>item. appends (f item)) \<Longrightarrow>
     f item (s\<lparr>cs_pending := ps\<rparr>) =
       (let s' = f item (s\<lparr>cs_pending := []\<rparr>) in s'\<lparr>cs_pending := ps @ cs_pending s'\<rparr>)"
  unfolding Let_def by (rule appendsD(1))

paragraph \<open>Chat chunks\<close>

lemma chat_appends: "appends (chat_take item)"
  by (cases item rule: item_cases)
     (auto simp: appends_def Let_def push_frame_def send_role_def chat_chunk_def role_chunk_def usage_chunk_def
       split: option.splits)

lemma chat_ends:
  "terminal_item item \<Longrightarrow> cs_terminated (chat_take item s)"
  "cs_failed (chat_take item s) \<Longrightarrow> \<not> cs_failed s \<Longrightarrow> cs_terminated (chat_take item s)"
  by (cases item rule: item_cases; simp add: Let_def send_role_def split: if_splits)+

interpretation chat: caller_encoder chat_take
  by unfold_locales (rule appends_law chat_ends appendsD(2,3) chat_appends; assumption?)+

paragraph \<open>Anthropic messages\<close>

lemmas messages_defs = messages_take_def start_message_def message_start_def open_text_block_def open_text_def
  open_block_of_def close_open_block_def messages_done_def

lemma messages_appends: "appends (messages_take item)"
  by (cases item rule: item_cases)
     (auto simp: appends_def Let_def push_frame_def messages_defs split: option.splits)

lemma messages_ends:
  "terminal_item item \<Longrightarrow> cs_terminated (messages_take item s)"
  "cs_failed (messages_take item s) \<Longrightarrow> \<not> cs_failed s \<Longrightarrow> cs_terminated (messages_take item s)"
  by (cases item rule: item_cases; auto simp: Let_def messages_defs split: option.splits if_splits prod.splits)+

interpretation messages: caller_encoder messages_take
  by unfold_locales (rule appends_law messages_ends appendsD(2,3) messages_appends; assumption?)+

paragraph \<open>OpenAI Responses\<close>

lemma ignores_pending [simp]:
  "response_shell (s\<lparr>cs_pending := ps\<rparr>) status = response_shell s status"
  "terminal_response (s\<lparr>cs_pending := ps\<rparr>) = terminal_response s"
  by (simp_all add: response_shell_def terminal_response_def)

lemma close_open_item_appends: "appends close_open_item"
  by (auto simp: appends_def close_open_item_def Let_def push_frame_def split: option.splits responses_item.splits)

lemma start_response_appends: "appends start_response"
  by (simp add: appends_def start_response_def push_frame_def)

lemma responses_fail_appends: "appends (responses_fail message)"
  by (simp add: appends_def responses_fail_def push_frame_def)

lemma responses_call_appends: "appends (responses_call uuid index i name)"
  unfolding responses_call_def Let_def
  by (rule appends_comp [OF close_open_item_appends]) (simp add: appends_def push_frame_def del: fun_upd_apply)

lemma responses_done_appends: "appends responses_done"
  unfolding responses_done_def Let_def
  by (rule appends_comp [OF close_open_item_appends]) (simp add: appends_def push_frame_def split: prod.splits)

lemma responses_arguments_appends: "appends (responses_call_arguments index delta)"
  by (auto simp: appends_def responses_call_arguments_def responses_fail_def push_frame_def
      split: option.splits responses_item.splits)

text \<open>\<open>open_message\<close>: the open item when it is a message, a new one after the open item is closed otherwise.\<close>

definition message_open :: "responses_stream \<Rightarrow> bool" where
  "message_open s =
     (\<exists>index i text. rs_open_item s = Some index \<and> nth_item (rs_items s) index = Some (MessageItem i text))"

definition new_message :: "(nat \<Rightarrow> string) \<Rightarrow> responses_stream \<Rightarrow> responses_stream" where
  "new_message uuid s = snd (open_message uuid (s\<lparr>rs_open_item := None\<rparr>))"

lemma close_open_item_fields [simp]:
  "rs_open_item (close_open_item s) = None" "rs_items (close_open_item s) = rs_items s"
  "rs_drawn (close_open_item s) = rs_drawn s" "rs_tool_items (close_open_item s) = rs_tool_items s"
  "rs_stop (close_open_item s) = rs_stop s" "cs_usage (close_open_item s) = cs_usage s"
  "cs_terminated (close_open_item s) = cs_terminated s" "cs_failed (close_open_item s) = cs_failed s"
  "rs_started (close_open_item s) = rs_started s" "rs_response_id (close_open_item s) = rs_response_id s"
  "rs_created (close_open_item s) = rs_created s" "rs_model (close_open_item s) = rs_model s"
  by (auto simp: close_open_item_def Let_def push_frame_def split: option.splits responses_item.splits)

lemma close_open_item_closed [simp]: "rs_open_item s = None \<Longrightarrow> close_open_item s = s"
  by (simp add: close_open_item_def)

lemma open_message_eq:
  "open_message uuid s =
     (if message_open s then (the (rs_open_item s), s)
      else (length (rs_items s), new_message uuid (close_open_item s)))"
proof (cases "message_open s")
  case True
  then show ?thesis by (auto simp: message_open_def open_message_def)
next
  case False
  have "(close_open_item s)\<lparr>rs_open_item := None\<rparr> = close_open_item s"
    by (metis close_open_item_fields(1) responses_stream.surjective responses_stream.update_convs(5))
  with False show ?thesis
    by (auto simp: message_open_def open_message_def new_message_def Let_def
        split: option.splits responses_item.splits bind_splits)
qed

lemma new_message_appends: "appends (new_message uuid)"
  by (simp add: appends_def new_message_def open_message_def Let_def push_frame_def)

lemma new_message_flags [simp]:
  "cs_failed (new_message uuid s) = cs_failed s" "cs_terminated (new_message uuid s) = cs_terminated s"
  by (simp_all add: new_message_def open_message_def Let_def)

lemma message_open_ignores [simp]: "message_open (s\<lparr>cs_pending := ps\<rparr>) = message_open s"
  by (simp add: message_open_def)

lemma open_message_appends: "appends (\<lambda>s. snd (open_message uuid s))"
proof -
  let ?g = "\<lambda>b s. if b then s else new_message uuid (close_open_item s)"
  have "appends (?g b)" for b
    using appends_comp [OF close_open_item_appends new_message_appends] by (cases b) simp_all
  then have "appends (\<lambda>s. ?g (message_open s) s)"
    by (rule appends_by [where v = message_open and g = ?g, rotated]) simp
  then show ?thesis by (simp add: open_message_eq if_distrib [of snd] cong: if_cong)
qed

definition add_text :: "string \<Rightarrow> nat \<Rightarrow> responses_stream \<Rightarrow> responses_stream" where
  "add_text text index s1 =
     (case nth_item (rs_items s1) index of
        Some (MessageItem i full) \<Rightarrow>
          push_frame (sse ''response.output_text.delta'' (json_obj
            [(''type'', JStr ''response.output_text.delta''), (''item_id'', JStr i),
             (''output_index'', JInt (int index)), (''content_index'', JInt ONLY_PART), (''delta'', JStr text)]))
            (s1\<lparr>rs_items := (rs_items s1)[index := MessageItem i (full @ text)]\<rparr>)
      | _ \<Rightarrow> responses_fail ''a text delta found no open message item to belong to'' s1)"

lemma responses_text_eq:
  "responses_text uuid text s = add_text text (fst (open_message uuid s)) (snd (open_message uuid s))"
  by (simp add: responses_text_def add_text_def case_prod_unfold)

lemma responses_text_appends: "appends (responses_text uuid text)"
proof -
  have "appends (add_text text index)" for index
    by (auto simp: appends_def add_text_def responses_fail_def push_frame_def
        split: option.splits responses_item.splits)
  then have "appends (\<lambda>s. add_text text index (snd (open_message uuid s)))" for index
    by (rule appends_comp [OF open_message_appends])
  then have "appends (\<lambda>s. (\<lambda>index s. add_text text index (snd (open_message uuid s))) (fst (open_message uuid s)) s)"
    by (rule appends_by [rotated]) (simp add: open_message_eq)
  then show ?thesis by (simp add: responses_text_eq [abs_def])
qed

lemma responses_appends: "appends (responses_take uuid item)"
  unfolding responses_take_def
proof (rule appends_comp [OF start_response_appends])
  show "appends (responses_item_taken uuid item)"
    by (cases item rule: item_cases)
       (simp_all add: responses_item_taken.simps [abs_def] responses_text_appends responses_call_appends
         responses_arguments_appends responses_done_appends responses_fail_appends, simp_all add: appends_def)
qed

lemma start_response_flags [simp]:
  "cs_failed (start_response s) = cs_failed s" "cs_terminated (start_response s) = cs_terminated s"
  by (simp_all add: start_response_def)

lemma responses_fail_flags [simp]:
  "cs_failed (responses_fail message s)" "cs_terminated (responses_fail message s)"
  by (simp_all add: responses_fail_def)

lemma responses_text_flags:
  "cs_failed (responses_text uuid text s) \<Longrightarrow> \<not> cs_failed s \<Longrightarrow> cs_terminated (responses_text uuid text s)"
  by (auto simp: responses_text_eq add_text_def open_message_eq split: option.splits responses_item.splits if_splits)

lemma responses_arguments_flags:
  "cs_failed (responses_call_arguments index delta s) \<Longrightarrow> \<not> cs_failed s \<Longrightarrow>
     cs_terminated (responses_call_arguments index delta s)"
  by (auto simp: responses_call_arguments_def split: option.splits responses_item.splits)

lemma responses_ends:
  "terminal_item item \<Longrightarrow> cs_terminated (responses_take uuid item s)"
  "cs_failed (responses_take uuid item s) \<Longrightarrow> \<not> cs_failed s \<Longrightarrow> cs_terminated (responses_take uuid item s)"
  by (cases item rule: item_cases;
      simp add: responses_take_def responses_text_flags responses_arguments_flags responses_call_def
        responses_done_def Let_def split: prod.splits)+

interpretation responses: caller_encoder "responses_take uuid" for uuid
  by unfold_locales (rule appends_law responses_ends appendsD(2,3) responses_appends; assumption?)+

subsection \<open>The event that says the generation is whole\<close>

text \<open>
  A format's closing event: its step emits one for \<open>Done\<close> alone, last, and then has not failed. A stream that
  ended any other way then carries none.
\<close>

locale closing_encoder = caller_encoder take_next
  for take_next :: "stream_item \<Rightarrow> 'z caller_stream_scheme \<Rightarrow> 'z caller_stream_scheme" +
  fixes closing :: "caller_frame \<Rightarrow> bool"
  assumes quiet_step:
      "item \<noteq> Done \<Longrightarrow> \<not> cs_terminated s \<Longrightarrow> cs_pending s = [] \<Longrightarrow>
         filter closing (cs_pending (take_next item s)) = [] \<and>
         (cs_terminated (take_next item s) \<longrightarrow> cs_failed (take_next item s))"
    and done_step:
      "cs_pending s = [] \<Longrightarrow> \<exists>fs f. cs_pending (take_next Done s) = fs @ [f] \<and> filter closing fs = [] \<and> closing f"
      "cs_failed (take_next Done s) = cs_failed s"
begin

lemma closing_once:
  assumes "\<not> cs_terminated s" and "\<not> cs_failed s" and "filter closing (cs_pending s) = []"
    and "s' = encode_all take_next items s"
  shows "if cs_terminated s' \<and> \<not> cs_failed s'
         then (\<exists>fs f. cs_pending s' = fs @ [f] \<and> filter closing fs = [] \<and> closing f)
         else filter closing (cs_pending s') = []"
  using assms
proof (induction items arbitrary: s)
  case (Cons item items)
  let ?t = "take_next item (s\<lparr>cs_pending := []\<rparr>)"
  have "s\<lparr>cs_pending := cs_pending s\<rparr> = s" by simp
  then have step: "take_next item s = ?t\<lparr>cs_pending := cs_pending s @ cs_pending ?t\<rparr>"
    using only_appends [where item = item and s = s and ps = "cs_pending s"] by (simp add: Let_def)
  show ?case
  proof (cases "item = Done")
    case True
    from done_step(1) [of "s\<lparr>cs_pending := []\<rparr>"] True obtain fs f where
      "cs_pending ?t = fs @ [f]" "filter closing fs = []" "closing f" by auto
    moreover have "\<not> cs_failed ?t" using done_step(2) [of "s\<lparr>cs_pending := []\<rparr>"] True Cons.prems(2) by simp
    moreover have "cs_terminated ?t" using ends_on_terminal True by simp
    ultimately show ?thesis using Cons.prems step by auto
  next
    case False
    with quiet_step [of item "s\<lparr>cs_pending := []\<rparr>"] Cons.prems(1)
    have quiet: "filter closing (cs_pending ?t) = []" "cs_terminated ?t \<longrightarrow> cs_failed ?t" by simp_all
    show ?thesis
    proof (cases "cs_terminated ?t")
      case True
      then show ?thesis using quiet Cons.prems step by simp
    next
      case False
      with fails_by_ending [of item "s\<lparr>cs_pending := []\<rparr>"] Cons.prems(2) have "\<not> cs_failed ?t" by auto
      then show ?thesis using Cons.IH [of "take_next item s"] Cons.prems step quiet False by simp
    qed
  qed
qed simp

end

fun chat_closing :: "caller_frame \<Rightarrow> bool" where
  "chat_closing (Literal text) = (text = ''[DONE]'')"
| "chat_closing _ = False"

fun messages_closing :: "caller_frame \<Rightarrow> bool" where
  "messages_closing (Named event _) = (event = ''message_stop'')"
| "messages_closing _ = False"

fun responses_closing :: "caller_frame \<Rightarrow> bool" where
  "responses_closing (Named event _) = (event \<in> {''response.completed'', ''response.incomplete''})"
| "responses_closing _ = False"

interpretation chat: closing_encoder chat_take chat_closing
proof unfold_locales
  fix item and s :: chat_stream
  show "item \<noteq> Done \<Longrightarrow> \<not> cs_terminated s \<Longrightarrow> cs_pending s = [] \<Longrightarrow>
      filter chat_closing (cs_pending (chat_take item s)) = [] \<and>
      (cs_terminated (chat_take item s) \<longrightarrow> cs_failed (chat_take item s))"
    by (cases item rule: item_cases) (simp_all add: Let_def send_role_def role_chunk_def chat_chunk_def)
qed (auto simp: Let_def chat_chunk_def usage_chunk_def split: option.splits)

interpretation messages: closing_encoder messages_take messages_closing
proof unfold_locales
  fix item and s :: messages_stream
  show "item \<noteq> Done \<Longrightarrow> \<not> cs_terminated s \<Longrightarrow> cs_pending s = [] \<Longrightarrow>
      filter messages_closing (cs_pending (messages_take item s)) = [] \<and>
      (cs_terminated (messages_take item s) \<longrightarrow> cs_failed (messages_take item s))"
    by (cases item rule: item_cases)
       (auto simp: Let_def messages_defs block_start_def block_delta_def sse_def split: option.splits if_splits)
qed (auto simp: Let_def messages_defs sse_def split: option.splits)

lemma responses_quiet [simp]:
  "filter responses_closing (cs_pending (close_open_item s)) = filter responses_closing (cs_pending s)"
  "filter responses_closing (cs_pending (start_response s)) = filter responses_closing (cs_pending s)"
  "filter responses_closing (cs_pending (new_message uuid s)) = filter responses_closing (cs_pending s)"
  "filter responses_closing (cs_pending (responses_fail message s)) = filter responses_closing (cs_pending s)"
  by (auto simp: close_open_item_def start_response_def new_message_def open_message_def responses_fail_def
      item_done_def item_added_def sse_def Let_def split: option.splits responses_item.splits)

lemma add_text_quiet:
  "filter responses_closing (cs_pending (add_text text index s)) = filter responses_closing (cs_pending s)"
  "cs_terminated (add_text text index s) \<Longrightarrow> cs_terminated s \<or> cs_failed (add_text text index s)"
  by (auto simp: add_text_def sse_def split: option.splits responses_item.splits)

lemma responses_arguments_quiet:
  "filter responses_closing (cs_pending (responses_call_arguments index delta s)) = filter responses_closing (cs_pending s)"
  "cs_terminated (responses_call_arguments index delta s) \<Longrightarrow>
     cs_terminated s \<or> cs_failed (responses_call_arguments index delta s)"
  by (auto simp: responses_call_arguments_def sse_def split: option.splits responses_item.splits)

lemma responses_call_quiet:
  "filter responses_closing (cs_pending (responses_call uuid index i name s)) = filter responses_closing (cs_pending s)"
  "cs_terminated (responses_call uuid index i name s) = cs_terminated s"
  by (simp_all add: responses_call_def item_added_def sse_def Let_def)

interpretation responses: closing_encoder "responses_take uuid" responses_closing for uuid
proof unfold_locales
  fix item and s :: responses_stream
  show "item \<noteq> Done \<Longrightarrow> \<not> cs_terminated s \<Longrightarrow> cs_pending s = [] \<Longrightarrow>
      filter responses_closing (cs_pending (responses_take uuid item s)) = [] \<and>
      (cs_terminated (responses_take uuid item s) \<longrightarrow> cs_failed (responses_take uuid item s))"
    by (cases item rule: item_cases)
       (auto simp: responses_take_def responses_text_eq open_message_eq add_text_quiet
         responses_arguments_quiet responses_call_quiet dest: add_text_quiet(2) responses_arguments_quiet(2))
  show "cs_failed (responses_take uuid Done s) = cs_failed s"
    by (simp add: responses_take_def responses_done_def Let_def split: prod.splits)
  assume empty: "cs_pending s = []"
  let ?t = "close_open_item (start_response s)"
  have "cs_pending (responses_take uuid Done s) = cs_pending ?t @ [Named (fst (terminal_response ?t))
      (json_obj [(''type'', JStr (fst (terminal_response ?t))), (''response'', snd (terminal_response ?t))])]"
    by (simp add: responses_take_def responses_done_def Let_def sse_def case_prod_unfold)
  moreover have "fst (terminal_response ?t) \<in> {''response.completed'', ''response.incomplete''}"
    by (simp add: terminal_response_def Let_def)
  ultimately show "\<exists>fs f. cs_pending (responses_take uuid Done s) = fs @ [f] \<and>
      filter responses_closing fs = [] \<and> responses_closing f"
    using empty by simp
qed

end
