(* ===== verification/Wire_Promises.thy ===== *)
theory Wire_Promises
  imports Wire_Delivery
begin

section \<open>What every caller is promised\<close>

text \<open>
  The promises the three caller formats share, from the laws of \<open>Wire_Delivery\<close>: the events arrive in order and
  the statistics once, the stream ends, and the event that says the generation is whole is sent exactly for a whole
  generation (\<open>src/src/core/wire/mod.rs\<close>: no later event may pretend otherwise).
\<close>

text \<open>
  Whatever the order in which items arrive, the sender goes away and the connection asks: the caller has
  always received the first events of the items sent; once told the end it has received all of them, and the
  statistics were reported exactly then, once, with the stream's own meter and whether it fell short.
\<close>

definition in_order_once ::
  "(stream_item \<Rightarrow> 'z caller_stream_scheme \<Rightarrow> 'z caller_stream_scheme) \<Rightarrow> 'z caller_stream_scheme \<Rightarrow> bool" where
  "in_order_once take_next s =
     (\<forall>moves. let (answers, closed, queue, s') = caller_run take_next moves (False, [], s);
                  sent = sent_items False moves;
                  ended = (PollReady None \<in> set answers)
              in prefix (frames_of answers) (cs_pending (encode_all take_next sent s)) \<and>
                 (ended \<longrightarrow> frames_of answers = cs_pending (encode_all take_next sent s)) \<and>
                 cs_reports s' = (if ended then [owed_report take_next sent s] else []))"


definition ends_when_asked ::
  "(stream_item \<Rightarrow> 'z caller_stream_scheme \<Rightarrow> 'z caller_stream_scheme) \<Rightarrow> 'z caller_stream_scheme \<Rightarrow> bool" where
  "ends_when_asked take_next s =
     (\<forall>moves. (\<exists>item \<in> set (sent_items False moves). terminal_item item) \<or> SenderGone \<in> set moves \<longrightarrow>
        (let n = length (cs_pending (encode_all take_next (sent_items False moves) s))
         in PollReady None \<in> set (fst (caller_run take_next (moves @ replicate (Suc n) Ask) (False, [], s)))))"

context caller_encoder
begin

lemma in_order_onceI: "fresh_stream s \<Longrightarrow> in_order_once take_next s"
  unfolding in_order_once_def Let_def using delivers [of s] by (auto split: prod.splits)

lemma ends_when_askedI: "ends_when_asked take_next s"
  unfolding ends_when_asked_def Let_def using ends by blast

end

lemma fresh_new:
  "fresh_stream (chat_new request_id model created)" "fresh_stream (messages_new message_id model)"
  "fresh_stream (responses_new response_id model created)"
  by (simp_all add: fresh_stream_def chat_new_def messages_new_def responses_new_def)

text \<open>
  Which items are a whole answer: deltas to \<open>Done\<close>. The two formats that number a call's place also need every
  argument fragment to follow the start of its call; the chat format hands the provider's index on.
\<close>

fun whole_answer :: "bool \<Rightarrow> 32 word set \<Rightarrow> stream_item list \<Rightarrow> bool" where
  "whole_answer numbered seen [] = False"
| "whole_answer numbered seen (Done # items) = True"
| "whole_answer numbered seen (Failed _ # items) = False"
| "whole_answer numbered seen (Delta (ToolCallStart index _ _) # items) =
     whole_answer numbered (insert index seen) items"
| "whole_answer numbered seen (Delta (ToolCallArguments index _) # items) =
     ((numbered \<longrightarrow> index \<in> seen) \<and> whole_answer numbered seen items)"
| "whole_answer numbered seen (Delta _ # items) = whole_answer numbered seen items"

definition ended_well :: "'z caller_stream_scheme \<Rightarrow> bool" where
  "ended_well s = (cs_terminated s \<and> \<not> cs_failed s)"

lemma chat_ended_well:
  "\<not> cs_terminated s \<Longrightarrow> \<not> cs_failed s \<Longrightarrow>
     ended_well (encode_all chat_take items s) \<longleftrightarrow> whole_answer False seen items"
proof (induction items arbitrary: s seen)
  case (Cons item items)
  show ?case
  proof (cases item)
    case (Delta d)
    have "\<not> cs_terminated (chat_take item s)" "\<not> cs_failed (chat_take item s)"
      using Cons.prems Delta by (cases d; simp add: Let_def send_role_def)+
    note IH = Cons.IH [OF this]
    show ?thesis
      using Cons.prems IH Delta by (cases d) (simp_all del: chat_take.simps)
  qed (use Cons.prems in \<open>simp_all add: ended_well_def Let_def split: option.splits\<close>)
qed (simp add: ended_well_def)

lemma messages_flags:
  assumes "\<not> cs_terminated s" and "\<not> cs_failed s" and "t = messages_take (Delta d) s"
  shows "(cs_terminated t \<longleftrightarrow> (\<exists>i a. d = ToolCallArguments i a \<and> ms_tool_blocks s i = None)) \<and>
    (cs_failed t \<longleftrightarrow> cs_terminated t) \<and>
    dom (ms_tool_blocks t) = (case d of ToolCallStart i _ _ \<Rightarrow> insert i (dom (ms_tool_blocks s)) | _ \<Rightarrow> dom (ms_tool_blocks s))"
  using assms
  by (cases d) (auto simp: messages_defs Let_def push_frame_def split: option.splits if_splits)

lemma messages_ended_well:
  "\<not> cs_terminated s \<Longrightarrow> \<not> cs_failed s \<Longrightarrow>
     ended_well (encode_all messages_take items s) \<longleftrightarrow> whole_answer True (dom (ms_tool_blocks s)) items"
proof (induction items arbitrary: s)
  case (Cons item items)
  show ?case
  proof (cases item)
    case (Delta d)
    note flags = messages_flags [OF Cons.prems refl, of d]
    show ?thesis
    proof (cases "\<exists>i a. d = ToolCallArguments i a \<and> ms_tool_blocks s i = None")
      case True
      with flags Delta Cons.prems show ?thesis by (auto simp: ended_well_def)
    next
      case False
      with flags have "\<not> cs_terminated (messages_take item s)" "\<not> cs_failed (messages_take item s)"
        using Delta by auto
      from Cons.IH [OF this] False flags Delta Cons.prems show ?thesis
        by (cases d) (auto simp: insert_absorb)
    qed
  qed (use Cons.prems in \<open>auto simp: ended_well_def messages_take_def start_message_def messages_done_def Let_def
      close_open_block_def split: option.splits\<close>)
qed (simp add: ended_well_def)

text \<open>
  In the Responses encoder a tool call's place always holds a function call, and an opened message a message,
  so two of its three ways to fail never happen.
\<close>

definition calls_placed :: "responses_stream \<Rightarrow> bool" where
  "calls_placed s =
     (\<forall>i out. rs_tool_items s i = Some out \<longrightarrow>
        (\<exists>item_id call_id name arguments.
           nth_item (rs_items s) out = Some (FunctionCallItem item_id call_id name arguments)))"

lemma nth_item_simps [simp]:
  "nth_item (xs @ [x]) i = (if i = length xs then Some x else nth_item xs i)"
  "nth_item (xs[j := x]) i = (if i = j \<and> j < length xs then Some x else nth_item xs i)"
  "nth_item xs (length xs) = None"
  by (auto simp: nth_item_def nth_append)

lemma nth_item_SomeD: "nth_item xs i = Some x \<Longrightarrow> i < length xs"
  by (auto simp: nth_item_def split: if_splits)

lemma calls_placed_cong:
  "rs_tool_items t = rs_tool_items s \<Longrightarrow> rs_items t = rs_items s \<Longrightarrow> calls_placed t = calls_placed s"
  by (simp add: calls_placed_def)

lemma start_response_fields [simp]:
  "rs_tool_items (start_response s) = rs_tool_items s" "rs_items (start_response s) = rs_items s"
  "rs_open_item (start_response s) = rs_open_item s" "cs_usage (start_response s) = cs_usage s"
  "rs_stop (start_response s) = rs_stop s" "rs_drawn (start_response s) = rs_drawn s"
  by (simp_all add: start_response_def push_frame_def)

lemma new_message_fields [simp]:
  "rs_items (new_message uuid s) = rs_items s @ [MessageItem (''msg_'' @ uuid (rs_drawn s)) []]"
  "rs_tool_items (new_message uuid s) = rs_tool_items s"
  "rs_open_item (new_message uuid s) = Some (length (rs_items s))"
  "cs_usage (new_message uuid s) = cs_usage s" "rs_stop (new_message uuid s) = rs_stop s"
  by (simp_all add: new_message_def open_message_def Let_def push_frame_def)

text \<open>The message a text delta belongs to is there once opened.\<close>

lemma open_message_there:
  "\<exists>i full. nth_item (rs_items (snd (open_message uuid s))) (fst (open_message uuid s)) = Some (MessageItem i full)"
  by (auto simp: open_message_eq message_open_def)

lemma responses_text_step:
  assumes "calls_placed s" and "t = responses_text uuid text s"
  shows "cs_terminated t = cs_terminated s" "cs_failed t = cs_failed s" "rs_tool_items t = rs_tool_items s"
    "calls_placed t"
proof -
  obtain i full where there:
    "nth_item (rs_items (snd (open_message uuid s))) (fst (open_message uuid s)) = Some (MessageItem i full)"
    using open_message_there by blast
  show "cs_terminated t = cs_terminated s" "cs_failed t = cs_failed s" "rs_tool_items t = rs_tool_items s"
    using there by (simp_all add: assms(2) responses_text_eq add_text_def)
      (simp_all add: open_message_eq push_frame_def)
  have "calls_placed (snd (open_message uuid s))"
    using assms(1) by (auto simp: open_message_eq calls_placed_def dest: nth_item_SomeD)
  then show "calls_placed t"
    using there nth_item_SomeD [OF there]
    by (fastforce simp: assms(2) responses_text_eq add_text_def calls_placed_def push_frame_def)
qed

lemma responses_flags:
  assumes "\<not> cs_terminated s" and "\<not> cs_failed s" and "calls_placed s" and "t = responses_take uuid (Delta d) s"
  shows "(cs_terminated t \<longleftrightarrow> (\<exists>i a. d = ToolCallArguments i a \<and> rs_tool_items s i = None)) \<and>
    (cs_failed t \<longleftrightarrow> cs_terminated t) \<and> (\<not> cs_terminated t \<longrightarrow> calls_placed t) \<and>
    dom (rs_tool_items t) = (case d of ToolCallStart i _ _ \<Rightarrow> insert i (dom (rs_tool_items s)) | _ \<Rightarrow> dom (rs_tool_items s))"
proof -
  have placed: "calls_placed (start_response s)" using assms(3) by (simp add: calls_placed_def)
  show ?thesis
  proof (cases d)
    case (Text told)
    with responses_text_step [OF placed refl] assms show ?thesis by (simp add: responses_take_def)
  next
    case (ToolCallStart i c n)
    with assms placed show ?thesis
      by (auto simp: responses_take_def responses_call_def Let_def push_frame_def calls_placed_def dest: nth_item_SomeD)
  next
    case (ToolCallArguments i a)
    show ?thesis
    proof (cases "rs_tool_items s i")
      case None
      with ToolCallArguments assms show ?thesis
        by (simp add: responses_take_def responses_call_arguments_def responses_fail_def push_frame_def)
    next
      case (Some out)
      with assms(3) obtain item_id c n args where
        "nth_item (rs_items s) out = Some (FunctionCallItem item_id c n args)"
        unfolding calls_placed_def by blast
      with Some ToolCallArguments assms show ?thesis
        by (auto simp: responses_take_def responses_call_arguments_def push_frame_def calls_placed_def)
    qed
  qed (use assms placed in \<open>auto simp: responses_take_def calls_placed_def\<close>)
qed

lemma responses_ended_well:
  "\<not> cs_terminated s \<Longrightarrow> \<not> cs_failed s \<Longrightarrow> calls_placed s \<Longrightarrow>
     ended_well (encode_all (responses_take uuid) items s) \<longleftrightarrow> whole_answer True (dom (rs_tool_items s)) items"
proof (induction items arbitrary: s)
  case (Cons item items)
  show ?case
  proof (cases item)
    case (Delta d)
    note flags = responses_flags [OF Cons.prems refl, of uuid d]
    show ?thesis
    proof (cases "\<exists>i a. d = ToolCallArguments i a \<and> rs_tool_items s i = None")
      case True
      with flags Delta Cons.prems show ?thesis by (auto simp: ended_well_def)
    next
      case False
      with flags have "\<not> cs_terminated (responses_take uuid item s)" "\<not> cs_failed (responses_take uuid item s)"
        "calls_placed (responses_take uuid item s)"
        using Delta by auto
      from Cons.IH [OF this] False flags Delta Cons.prems show ?thesis
        by (cases d) (auto simp: insert_absorb)
    qed
  qed (use Cons.prems in \<open>auto simp: ended_well_def responses_take_def responses_done_def responses_fail_def Let_def
      split: prod.splits\<close>)
qed (simp add: ended_well_def)

subsection \<open>The promises\<close>

definition closes_exactly ::
  "(stream_item \<Rightarrow> 'z caller_stream_scheme \<Rightarrow> 'z caller_stream_scheme) \<Rightarrow> 'z caller_stream_scheme \<Rightarrow>
     (caller_frame \<Rightarrow> bool) \<Rightarrow> (stream_item list \<Rightarrow> bool) \<Rightarrow> bool" where
  "closes_exactly take_next s closing whole =
     (\<forall>items. let frames = cs_pending (encode_all take_next items s)
              in if whole items then frames \<noteq> [] \<and> closing (last frames) \<and> filter closing (butlast frames) = []
                 else filter closing frames = [])"

context closing_encoder
begin

lemma closes_exactlyI:
  assumes "fresh_stream s" and "\<And>items. ended_well (encode_all take_next items s) \<longleftrightarrow> whole items"
  shows "closes_exactly take_next s closing whole"
  unfolding closes_exactly_def Let_def
proof
  fix items
  show "if whole items
        then cs_pending (encode_all take_next items s) \<noteq> [] \<and> closing (last (cs_pending (encode_all take_next items s))) \<and>
          filter closing (butlast (cs_pending (encode_all take_next items s))) = []
        else filter closing (cs_pending (encode_all take_next items s)) = []"
    using closing_once [of s "encode_all take_next items s" items] assms(1) assms(2) [of items]
    by (auto simp: fresh_stream_def ended_well_def)
qed

end

text \<open>
  C24. Whatever the interleaving of items arriving, the sender going away and the connection asking, in each of
  the three formats the caller has always received exactly the first events of what was sent; when it is told
  the end it has received every one of them, and the end was reported to the statistics once, at that
  moment, with the stream's own meter and whether it ended short.
\<close>

theorem caller_hears_in_order:
  "in_order_once chat_take (chat_new request_id model created) \<and>
   in_order_once messages_take (messages_new request_id model) \<and>
   in_order_once (responses_take uuid) (responses_new request_id model created)"
  using chat.in_order_onceI messages.in_order_onceI responses.in_order_onceI fresh_new by blast

text \<open>
  C25. A caller is not left waiting: once a terminal item was sent or the sender is gone, a connection that asks
  once for every event still owed and once more is told the end, in each of the three formats.
\<close>

theorem caller_is_told_the_end:
  "ends_when_asked chat_take (chat_new request_id model created) \<and>
   ends_when_asked messages_take (messages_new request_id model) \<and>
   ends_when_asked (responses_take uuid) (responses_new request_id model created)"
  using chat.ends_when_askedI messages.ends_when_askedI responses.ends_when_askedI by blast

text \<open>
  C23. The event that says a generation is whole (\<open>[DONE]\<close>, \<open>message_stop\<close>, \<open>response.completed\<close> or
  \<open>response.incomplete\<close>) is sent exactly for a whole answer, once and last: a stream that failed or was cut has none in it. The
  Messages and Responses formats place each call, so for them a stream that carried arguments of a call never started is no
  whole answer either; the chat format passes such arguments on under the index they came with and closes the stream.
\<close>

theorem whole_answers_are_closed:
  "closes_exactly chat_take (chat_new request_id model created) chat_closing (whole_answer False {}) \<and>
   closes_exactly messages_take (messages_new request_id model) messages_closing (whole_answer True {}) \<and>
   closes_exactly (responses_take uuid) (responses_new request_id model created) responses_closing (whole_answer True {})"
proof (intro conjI)
  show "closes_exactly chat_take (chat_new request_id model created) chat_closing (whole_answer False {})"
    by (rule chat.closes_exactlyI [OF fresh_new(1)], rule chat_ended_well) (simp_all add: chat_new_def)
  show "closes_exactly messages_take (messages_new request_id model) messages_closing (whole_answer True {})"
    using messages_ended_well [of "messages_new request_id model"]
    by (intro messages.closes_exactlyI [OF fresh_new(2)]) (simp add: messages_new_def)
  show "closes_exactly (responses_take uuid) (responses_new request_id model created) responses_closing (whole_answer True {})"
    using responses_ended_well [of "responses_new request_id model created" uuid]
    by (intro responses.closes_exactlyI [OF fresh_new(3)]) (simp add: responses_new_def calls_placed_def)
qed

end
