(* ===== verification/Wire_Relay.thy ===== *)
theory Wire_Relay
  imports Wire_Promises
begin

section \<open>A generation heard through another gateway\<close>

text \<open>
  The repository both writes and reads each of the three event streams: the encoders of \<open>Wire_Events\<close> on
  the caller's side, the decoders of \<open>Event_Streams\<close> on the provider's. Composed, they are one Brama behind
  another. \<open>heard\<close> is what a listener keeps of a generation: its text, its tool calls with their arguments, its
  meter and why it stopped; the theorems say what of it survives each format. The JSON printer and parser are the
  \<open>json_codec\<close> argument, relied on to read back the events that were written.
\<close>

record heard =
  hd_text :: string
  hd_calls :: "(32 word \<times> string \<times> string \<times> string) list"
  hd_usage :: "(32 word \<times> 32 word) option"
  hd_stop :: "stop_reason option"

definition heard_nothing :: heard where
  "heard_nothing = \<lparr>hd_text = [], hd_calls = [], hd_usage = None, hd_stop = None\<rparr>"

text \<open>The calls are kept newest first, so a fragment goes to the last call its index started.\<close>

fun add_arguments ::
  "32 word \<Rightarrow> string \<Rightarrow> (32 word \<times> string \<times> string \<times> string) list \<Rightarrow> (32 word \<times> string \<times> string \<times> string) list" where
  "add_arguments index delta [] = []"
| "add_arguments index delta ((j, i, name, arguments) # calls) =
     (if j = index then (j, i, name, arguments @ delta) # calls
      else (j, i, name, arguments) # add_arguments index delta calls)"

fun hear :: "stream_item \<Rightarrow> heard \<Rightarrow> heard" where
  "hear (Delta (Text text)) h = h\<lparr>hd_text := hd_text h @ text\<rparr>"
| "hear (Delta (ToolCallStart index i name)) h = h\<lparr>hd_calls := (index, i, name, []) # hd_calls h\<rparr>"
| "hear (Delta (ToolCallArguments index delta)) h = h\<lparr>hd_calls := add_arguments index delta (hd_calls h)\<rparr>"
| "hear (Delta (Finish reason)) h = h\<lparr>hd_stop := Some reason\<rparr>"
| "hear (Delta (Usage i out)) h = h\<lparr>hd_usage := Some (i, out)\<rparr>"
| "hear _ h = h"

definition hear_all :: "stream_item list \<Rightarrow> heard" where
  "hear_all items = fold hear items heard_nothing"

text \<open>An event as the other side's framing hands it over, and the items the other side reads of a stream.\<close>

fun frame_event :: "json_codec \<Rightarrow> caller_frame \<Rightarrow> sse_event" where
  "frame_event J (Named event v) = (Some event, show_json J v)"
| "frame_event J (Unnamed v) = (None, show_json J v)"
| "frame_event J (Literal text) = (None, text)"

definition read_frames :: "json_codec \<Rightarrow> wire_protocol \<Rightarrow> caller_frame list \<Rightarrow> bool \<times> pump" where
  "read_frames J wire frames = pump_events J wire (\<lambda>_. False) (map (frame_event J) frames) pump_start"

text \<open>What is relied on of the codec for one event: its text is read back, and is not the chat end mark.\<close>

fun reads_back :: "json_codec \<Rightarrow> caller_frame \<Rightarrow> bool" where
  "reads_back J (Literal text) = True"
| "reads_back J (Unnamed v) = (parse_json J (show_json J v) = Inr v \<and> trim_text (show_json J v) \<noteq> OPENAI_DONE)"
| "reads_back J (Named _ v) = (parse_json J (show_json J v) = Inr v)"

lemma send_items_open:
  "(\<And>m. Failed m \<notin> set items) \<Longrightarrow> send_items (\<lambda>_. False) items p = (True, p\<lparr>pm_sent := pm_sent p @ items\<rparr>)"
proof (induction items arbitrary: p)
  case (Cons item items)
  then have "send_items (\<lambda>_. False) items q = (True, q\<lparr>pm_sent := pm_sent q @ items\<rparr>)" for q
    by (metis list.set_intros(2))
  moreover have "\<forall>m. item \<noteq> Failed m" using Cons.prems by (metis list.set_intros(1))
  ultimately show ?case by (cases item) (simp_all add: Let_def)
qed simp

text \<open>Reading one more event that the wire understands.\<close>

lemma read_frames_snoc:
  assumes "read_frames J wire frames = (True, p)" and "wire_items J wire (frame_event J f) p = (items, ended, p1)"
    and "\<And>m. Failed m \<notin> set items"
  shows "read_frames J wire (frames @ [f]) =
    (True, p1\<lparr>pm_sent := pm_sent p1 @ items, pm_terminal := ended \<or> pm_terminal p1\<rparr>)"
  using assms by (simp add: read_frames_def pump_events_append send_items_open)

lemma json_u32_nat:
  assumes "n < 2 ^ 32"
  shows "json_u32 J (Some (JInt (int n))) name = Inr (Some (of_nat n))"
proof -
  have n: "n < 2 ^ 64" using assms by simp
  then have "unat (of_nat n :: 64 word) = n" by (simp add: unsigned_of_nat take_bit_nat_eq_self)
  moreover have "ucast (of_nat n :: 64 word) = (of_nat n :: 32 word)"
    using n by (simp add: unsigned_of_nat take_bit_nat_eq_self)
  moreover have "int n < int (2 ^ 64)" using n by (simp only: of_nat_less_iff)
  ultimately show ?thesis using assms by (simp add: json_u32_def)
qed

lemma json_u32_word [simp]: "json_u32 J (Some (JInt (uint w))) name = Inr (Some w)" for w :: "32 word"
  using json_u32_nat [of "unat w" J name] unsigned_less [of w, where ?'a = nat] by simp

lemma json_u32_none [simp]: "json_u32 J None name = Inr None"
  by (simp add: json_u32_def)

text \<open>Reading an object that was written: the last value of a key.\<close>

lemma map_of_bt_insert [simp]: "map_of (bt_insert k v m) = (map_of m)(k \<mapsto> v)"
  by (induction m) (auto simp: fun_eq_iff)

lemma json_get_obj [simp]: "json_get (json_obj kvs) k = map_of (rev kvs) k"
proof -
  have "map_of (foldl (\<lambda>m (k, v). bt_insert k v m) m kvs) = map_of (rev kvs @ m)" for m
    by (induction kvs arbitrary: m) (auto simp: map_add_def fun_eq_iff split: option.splits)
  then show ?thesis by (simp add: json_obj_def)
qed

lemma json_step_obj [simp]: "json_step (json_obj kvs) k = map_of (rev kvs) k"
  using json_get_obj [of kvs k] by (simp add: json_obj_def)

subsection \<open>Following a format\<close>

text \<open>
  Deltas a relay can follow: a call's fragments come after its start and, in a format that hands the
  provider's index on (\<open>once\<close>), no index starts two calls.
\<close>

fun started_by :: "stream_delta \<Rightarrow> 32 word set \<Rightarrow> 32 word set" where
  "started_by (ToolCallStart index _ _) seen = insert index seen"
| "started_by _ seen = seen"

fun follows :: "bool \<Rightarrow> 32 word set \<Rightarrow> stream_delta \<Rightarrow> bool" where
  "follows once seen (ToolCallStart index _ _) = (once \<longrightarrow> index \<notin> seen)"
| "follows once seen (ToolCallArguments index _) = (index \<in> seen)"
| "follows once seen _ = True"

fun calls_in_turn :: "bool \<Rightarrow> 32 word set \<Rightarrow> stream_delta list \<Rightarrow> bool" where
  "calls_in_turn once seen [] = True"
| "calls_in_turn once seen (d # ds) = (follows once seen d \<and> calls_in_turn once (started_by d seen) ds)"

text \<open>
  A relation between the encoder, the pump that read its events and what was heard of the provider, kept by
  each delta of a stream shorter than 2 to the 32.
\<close>

locale relayed_format = caller_encoder take_next
  for take_next :: "stream_item \<Rightarrow> 'z caller_stream_scheme \<Rightarrow> 'z caller_stream_scheme" +
  fixes J :: json_codec and once :: bool
    and follow :: "'z caller_stream_scheme \<Rightarrow> pump \<Rightarrow> heard \<Rightarrow> 32 word set \<Rightarrow> nat \<Rightarrow> bool"
  assumes still_open: "follow s p h seen n \<Longrightarrow> \<not> cs_terminated s"
    and delta_step:
      "follow s p h seen n \<Longrightarrow> follows once seen d \<Longrightarrow> n < 2 ^ 32 \<Longrightarrow>
       (\<And>f. f \<in> set (cs_pending (take_next (Delta d) s)) \<Longrightarrow> reads_back J f) \<Longrightarrow>
       \<exists>p'. follow (take_next (Delta d) s) p' (hear (Delta d) h) (started_by d seen) (Suc n)"
begin

lemma encode_grows: "set (cs_pending s) \<subseteq> set (cs_pending (encode_all take_next items s))"
proof -
  have "s\<lparr>cs_pending := cs_pending s\<rparr> = s" by simp
  then show ?thesis
    using encode_appends [where s = s and ps = "cs_pending s" and items = items] by (simp add: Let_def)
qed

lemma followed:
  assumes "follow s p h seen n" and "calls_in_turn once seen ds" and "n + length ds \<le> 2 ^ 32"
    and "\<And>f. f \<in> set (cs_pending (encode_all take_next (map Delta ds) s)) \<Longrightarrow> reads_back J f"
  shows "\<exists>p' seen' m. follow (encode_all take_next (map Delta ds) s) p' (fold hear (map Delta ds) h) seen' m"
  using assms
proof (induction ds arbitrary: s p h seen n)
  case (Cons d ds)
  have run: "encode_all take_next (map Delta (d # ds)) s = encode_all take_next (map Delta ds) (take_next (Delta d) s)"
    using still_open [OF Cons.prems(1)] by simp
  have "reads_back J f" if "f \<in> set (cs_pending (take_next (Delta d) s))" for f
    using that encode_grows Cons.prems(4) run by (metis subsetD)
  then obtain p' where "follow (take_next (Delta d) s) p' (hear (Delta d) h) (started_by d seen) (Suc n)"
    using delta_step [OF Cons.prems(1), of d] Cons.prems(2,3) by auto
  from Cons.IH [OF this] Cons.prems(2-4) run show ?case by simp
qed auto

lemma followed_to_done:
  assumes "follow s p heard_nothing seen 0" and "calls_in_turn once seen ds" and "length ds \<le> 2 ^ 32"
    and "frames = cs_pending (encode_all take_next (map Delta ds @ [Done]) s)" and "\<forall>f \<in> set frames. reads_back J f"
  obtains s' p' seen' m where "follow s' p' (hear_all (map Delta ds)) seen' m"
    and "frames = cs_pending (take_next Done s')"
proof -
  let ?s = "encode_all take_next (map Delta ds) s"
  have "set (cs_pending ?s) \<subseteq> set frames"
    unfolding assms(4) encode_all_append by (rule encode_grows)
  with assms(5) have "f \<in> set (cs_pending ?s) \<Longrightarrow> reads_back J f" for f by blast
  with followed [OF assms(1,2)] assms(3) obtain p' seen' m where
    follow: "follow ?s p' (hear_all (map Delta ds)) seen' m"
    by (auto simp: hear_all_def)
  moreover have "frames = cs_pending (take_next Done ?s)"
    using still_open [OF follow] by (simp add: assms(4) encode_all_append)
  ultimately show thesis by (rule that)
qed

end

subsection \<open>Through the chat format\<close>

lemma chat_items_eq:
  assumes "reads_back J (Unnamed v)" and "json_get v ''error'' = None"
    and "json_at v [''usage'', ''prompt_tokens''] = None" and "json_at v [''usage'', ''completion_tokens''] = None"
    and "json_at v [''choices'', ''0''] = Some choice" and "json_get choice ''delta'' = Some delta"
    and "json_get choice ''finish_reason'' = Some (json_text finish)"
  shows "wire_items J OpenAiChat (frame_event J (Unnamed v)) p =
     (let text = text_delta Text (Option.bind (json_get delta ''content'') as_str);
          calls = (case Option.bind (json_get delta ''tool_calls'') as_array of Some cs \<Rightarrow> cs | None \<Rightarrow> []);
          (r, called, seen') = chat_tool_calls J calls (pm_seen p)
      in (case r of
            Inl cause \<Rightarrow> (text @ called @ [Failed cause], True, p\<lparr>pm_seen := seen'\<rparr>)
          | Inr _ \<Rightarrow> (text @ called @
              (case finish of Some reason \<Rightarrow> [Delta (Finish (chat_stop_reason reason))] | None \<Rightarrow> []), False,
              p\<lparr>pm_seen := seen'\<rparr>)))"
  using assms
  by (auto simp: wire_items_def openai_chat_items_def stated_usage_def chat_choice_def json_text_def Let_def
      split: prod.splits sum.splits option.splits)

lemma chat_chunk_items:
  assumes "reads_back J (chat_chunk s delta finish)"
  shows "wire_items J OpenAiChat (frame_event J (chat_chunk s delta finish)) p =
     (let text = text_delta Text (Option.bind (json_get delta ''content'') as_str);
          calls = (case Option.bind (json_get delta ''tool_calls'') as_array of Some cs \<Rightarrow> cs | None \<Rightarrow> []);
          (r, called, seen') = chat_tool_calls J calls (pm_seen p)
      in (case r of
            Inl cause \<Rightarrow> (text @ called @ [Failed cause], True, p\<lparr>pm_seen := seen'\<rparr>)
          | Inr _ \<Rightarrow> (text @ called @
              (case finish of Some reason \<Rightarrow> [Delta (Finish (chat_stop_reason reason))] | None \<Rightarrow> []), False,
              p\<lparr>pm_seen := seen'\<rparr>)))"
  using assms unfolding chat_chunk_def
  by (intro chat_items_eq [where choice = "json_obj [(''index'', JInt ONLY_CHOICE), (''delta'', delta),
        (''finish_reason'', json_text finish)]"])
     (simp_all add: json_at.simps array_index_def)

lemma chat_role_items:
  "reads_back J (role_chunk s) \<Longrightarrow> wire_items J OpenAiChat (frame_event J (role_chunk s)) p = ([], False, p)"
  unfolding role_chunk_def by (subst chat_chunk_items) (simp_all add: text_delta_def)

lemma chat_text_items:
  "reads_back J (chat_chunk s (json_obj [(''content'', JStr text)]) None) \<Longrightarrow>
     wire_items J OpenAiChat (frame_event J (chat_chunk s (json_obj [(''content'', JStr text)]) None)) p =
       (if text = [] then [] else [Delta (Text text)], False, p)"
  by (subst chat_chunk_items) (auto simp: text_delta_def split: list.splits)

lemma chat_start_items:
  assumes "reads_back J f" and "index \<notin> set (pm_seen p)"
    and "f = chat_chunk s (json_obj [(''tool_calls'', JArr [json_obj
              [(''index'', JInt (uint index)), (''id'', JStr i), (''type'', JStr ''function''),
               (''function'', json_obj [(''name'', JStr name), (''arguments'', JStr [])])]])]) None"
  shows "wire_items J OpenAiChat (frame_event J f) p =
    ([Delta (ToolCallStart index i name)], False, p\<lparr>pm_seen := List.insert index (pm_seen p)\<rparr>)"
  using assms by (simp only:) (subst chat_chunk_items,
    simp_all add: text_delta_def tool_call_index_def tool_call_start_def tool_call_text_def json_at.simps json_str_at_def)

lemma chat_arguments_items:
  assumes "reads_back J f" and "index \<in> set (pm_seen p)"
    and "f = chat_chunk s (json_obj [(''tool_calls'', JArr [json_obj
          [(''index'', JInt (uint index)), (''function'', json_obj [(''arguments'', JStr delta)])]])]) None"
  shows "wire_items J OpenAiChat (frame_event J f) p =
    (if delta = [] then [] else [Delta (ToolCallArguments index delta)], False, p)"
  using assms by (simp only:) (subst chat_chunk_items,
    auto simp: text_delta_def tool_call_index_def json_at.simps json_str_at_def split: list.splits)

lemma hear_all_append [simp]: "hear_all (xs @ ys) = fold hear ys (hear_all xs)"
  by (simp add: hear_all_def)

lemma add_arguments_nil [simp]: "add_arguments index [] calls = calls"
  by (induction calls) (auto split: prod.splits)

definition chat_follow :: "json_codec \<Rightarrow> chat_stream \<Rightarrow> pump \<Rightarrow> heard \<Rightarrow> 32 word set \<Rightarrow> nat \<Rightarrow> bool" where
  "chat_follow J s p h seen n =
     (read_frames J OpenAiChat (cs_pending s) = (True, p) \<and> \<not> cs_terminated s \<and> \<not> pm_terminal p \<and>
      hear_all (pm_sent p) = h\<lparr>hd_usage := None, hd_stop := None\<rparr> \<and> set (pm_seen p) = seen \<and>
      cs_usage s = hd_usage h \<and> ch_finish_reason s = map_option openai_finish_reason (hd_stop h))"

lemma chat_role_follow:
  assumes "chat_follow J s p h seen n" and "\<And>f. f \<in> set (cs_pending (send_role s)) \<Longrightarrow> reads_back J f"
  shows "chat_follow J (send_role s) p h seen n"
proof (cases "ch_sent_role s")
  case False
  with assms(2) have "reads_back J (role_chunk s)" by (simp add: send_role_def)
  with assms(1) False show ?thesis
    by (auto simp: chat_follow_def send_role_def read_frames_snoc [OF _ chat_role_items] push_frame_def)
qed (use assms in \<open>simp add: send_role_def\<close>)

lemma chat_push_follow:
  assumes "chat_follow J s p h seen n" and "wire_items J OpenAiChat (frame_event J f) p = (items, False, p1)"
    and "p1 = p\<lparr>pm_seen := pm_seen p1\<rparr>" and "set (pm_seen p1) = seen'" and "\<And>m. Failed m \<notin> set items"
    and "fold hear items (h\<lparr>hd_usage := None, hd_stop := None\<rparr>) = h'\<lparr>hd_usage := None, hd_stop := None\<rparr>"
    and "hd_usage h' = hd_usage h" and "hd_stop h' = hd_stop h"
  shows "\<exists>p'. chat_follow J (push_frame f s) p' h' seen' m"
proof -
  have "pm_sent p1 = pm_sent p" "pm_terminal p1 = pm_terminal p" by (metis assms(3) pump.ext_inject pump.surjective pump.update_convs)+
  then show ?thesis
    using assms read_frames_snoc [OF _ assms(2,5), where frames = "cs_pending s"]
    by (auto simp: chat_follow_def push_frame_def)
qed

lemma chat_follow_delta:
  assumes follow: "chat_follow J s p h seen n" and legal: "follows True seen d"
    and reads: "\<And>f. f \<in> set (cs_pending (chat_take (Delta d) s)) \<Longrightarrow> reads_back J f"
  shows "\<exists>p'. chat_follow J (chat_take (Delta d) s) p' (hear (Delta d) h) (started_by d seen) (Suc n)"
proof (cases d)
  case (Text t)
  let ?f = "chat_chunk (send_role s) (json_obj [(''content'', JStr t)]) None"
  have s1: "chat_follow J (send_role s) p h seen n"
    using follow reads Text by (intro chat_role_follow) (simp_all add: Let_def)
  have "reads_back J ?f" using reads Text by (simp add: Let_def)
  from chat_push_follow [OF s1 chat_text_items [OF this]] Text s1 show ?thesis
    by (auto simp: Let_def chat_follow_def)
next
  case (ToolCallStart index i name)
  let ?f = "chat_chunk (send_role s) (json_obj [(''tool_calls'', JArr [json_obj
              [(''index'', JInt (uint index)), (''id'', JStr i), (''type'', JStr ''function''),
               (''function'', json_obj [(''name'', JStr name), (''arguments'', JStr [])])]])]) None"
  have s1: "chat_follow J (send_role s) p h seen n"
    using follow reads ToolCallStart by (intro chat_role_follow) (simp_all add: Let_def)
  have "reads_back J ?f" using reads ToolCallStart by (simp add: Let_def)
  moreover have "index \<notin> set (pm_seen p)" using legal ToolCallStart follow by (simp add: chat_follow_def)
  ultimately show ?thesis
    using chat_push_follow [OF s1 chat_start_items [OF _ _ refl], where h' = "hear (Delta d) h"] ToolCallStart s1
    by (auto simp: Let_def chat_follow_def)
next
  case (ToolCallArguments index delta)
  let ?f = "chat_chunk s (json_obj [(''tool_calls'', JArr [json_obj
          [(''index'', JInt (uint index)), (''function'', json_obj [(''arguments'', JStr delta)])]])]) None"
  have "reads_back J ?f" using reads ToolCallArguments by simp
  moreover have "index \<in> set (pm_seen p)" using legal ToolCallArguments follow by (simp add: chat_follow_def)
  ultimately have items: "wire_items J OpenAiChat (frame_event J ?f) p =
      (if delta = [] then [] else [Delta (ToolCallArguments index delta)], False, p)"
    by (rule chat_arguments_items [OF _ _ refl])
  from chat_push_follow [OF follow items, where h' = "hear (Delta d) h"] ToolCallArguments follow
  show ?thesis by (auto simp: chat_follow_def)
qed (use follow in \<open>auto simp: chat_follow_def\<close>)

interpretation chat_relay: relayed_format chat_take J True "chat_follow J" for J
proof unfold_locales
  show "chat_follow J s p h seen n \<Longrightarrow> \<not> cs_terminated s" for s p h seen n
    by (simp add: chat_follow_def)
qed (blast intro: chat_follow_delta)

lemma strip_start_keeps: "\<forall>w \<in> set ws. w \<noteq> [] \<longrightarrow> hd w \<noteq> c \<Longrightarrow> strip_start ws (c # cs) = c # cs"
proof -
  assume *: "\<forall>w \<in> set ws. w \<noteq> [] \<longrightarrow> hd w \<noteq> c"
  have "\<not> (w \<noteq> [] \<and> take (length w) (c # cs) = w)" if "w \<in> set ws" for w
    using * that by (cases w) auto
  then have "List.find (\<lambda>w. w \<noteq> [] \<and> take (length w) (c # cs) = w) ws = None"
    by (auto simp: find_None_iff)
  then show ?thesis by (subst strip_start.simps) simp
qed

lemma trim_done: "trim_text ''[DONE]'' = ''[DONE]''"
proof -
  have "\<forall>w \<in> set WHITE_SPACE. w \<noteq> [] \<longrightarrow> hd w \<noteq> CHR ''[''"
    "\<forall>w \<in> set (map rev WHITE_SPACE). w \<noteq> [] \<longrightarrow> hd w \<noteq> CHR '']''"
    by (simp_all add: WHITE_SPACE_def upt_rec char_of_eq_iff)
  then show ?thesis by (simp add: trim_text_def strip_start_keeps)
qed

lemma chat_end_items:
  "wire_items J OpenAiChat (frame_event J (Literal ''[DONE]'')) p = ([], True, p)"
  "reads_back J (usage_chunk s i out) \<Longrightarrow>
     wire_items J OpenAiChat (frame_event J (usage_chunk s i out)) p = ([Delta (Usage i out)], False, p)"
  "reads_back J (chat_chunk s (json_obj []) finish) \<Longrightarrow>
     wire_items J OpenAiChat (frame_event J (chat_chunk s (json_obj []) finish)) p =
       (case finish of Some reason \<Rightarrow> [Delta (Finish (chat_stop_reason reason))] | None \<Rightarrow> [], False, p)"
proof -
  show "wire_items J OpenAiChat (frame_event J (Literal ''[DONE]'')) p = ([], True, p)"
    by (simp add: wire_items_def openai_chat_items_def OPENAI_DONE_def trim_done)
  show "reads_back J (usage_chunk s i out) \<Longrightarrow>
     wire_items J OpenAiChat (frame_event J (usage_chunk s i out)) p = ([Delta (Usage i out)], False, p)"
    by (simp add: usage_chunk_def wire_items_def openai_chat_items_def stated_usage_def json_at.simps
        array_index_def)
  show "reads_back J (chat_chunk s (json_obj []) finish) \<Longrightarrow>
     wire_items J OpenAiChat (frame_event J (chat_chunk s (json_obj []) finish)) p =
       (case finish of Some reason \<Rightarrow> [Delta (Finish (chat_stop_reason reason))] | None \<Rightarrow> [], False, p)"
    by (subst chat_chunk_items) (simp_all add: text_delta_def)
qed

lemma chat_follow_done:
  assumes follow: "chat_follow J s p h seen n"
    and reads: "\<And>f. f \<in> set (cs_pending (chat_take Done s)) \<Longrightarrow> reads_back J f"
  shows "\<exists>p'. read_frames J OpenAiChat (cs_pending (chat_take Done s)) = (True, p') \<and> pm_terminal p' \<and>
    hear_all (pm_sent p') = h\<lparr>hd_stop := map_option (chat_stop_reason \<circ> openai_finish_reason) (hd_stop h)\<rparr>"
proof -
  let ?f = "chat_chunk s (json_obj []) (ch_finish_reason s)"
  let ?s = "push_frame ?f s"
  let ?fin = "case ch_finish_reason s of Some reason \<Rightarrow> [Delta (Finish (chat_stop_reason reason))] | None \<Rightarrow> []"
  have f: "reads_back J ?f" using reads by (auto simp: Let_def split: option.splits)
  have "read_frames J OpenAiChat (cs_pending s @ [?f]) =
      (True, p\<lparr>pm_sent := pm_sent p @ ?fin, pm_terminal := False \<or> pm_terminal p\<rparr>)"
    using follow read_frames_snoc [OF _ chat_end_items(3) [OF f], where frames = "cs_pending s"]
    by (auto simp: chat_follow_def split: option.splits)
  then obtain p1 where p1: "read_frames J OpenAiChat (cs_pending s @ [?f]) = (True, p1)"
    and sent: "pm_sent p1 = pm_sent p @ ?fin" by simp
  show ?thesis
  proof (cases "cs_usage s")
    case None
    with follow sent p1 read_frames_snoc [OF p1 chat_end_items(1)] show ?thesis
      by (cases "hd_stop h") (auto simp: chat_follow_def Let_def)
  next
    case (Some u)
    then obtain i out where u: "cs_usage s = Some (i, out)" "hd_usage h = Some (i, out)"
      using follow by (cases u) (simp add: chat_follow_def)
    with reads have "reads_back J (usage_chunk ?s i out)" by (auto simp: Let_def)
    from read_frames_snoc [OF p1 chat_end_items(2) [OF this]] obtain p2 where
      p2: "read_frames J OpenAiChat (cs_pending s @ [?f, usage_chunk ?s i out]) = (True, p2)"
      and sent2: "pm_sent p2 = pm_sent p1 @ [Delta (Usage i out)]" by auto
    from follow sent sent2 u read_frames_snoc [OF p2 chat_end_items(1)] show ?thesis
      by (cases "hd_stop h") (auto simp: chat_follow_def Let_def)
  qed
qed

text \<open>
  C26. Through the chat-completions format a generation survives whole: the gateway behind reads of the events
  this one writes for deltas ended by \<open>Done\<close> the same text, the same tool calls with the same arguments and the same
  meter, the end, and the reason for stopping as the chat vocabulary spells it.
\<close>

theorem chat_format_carries_the_generation:
  assumes "calls_in_turn True {} deltas" and "length deltas \<le> 2 ^ 32"
    and "frames = cs_pending (encode_all chat_take (map Delta deltas @ [Done]) (chat_new request_id model created))"
    and "\<forall>f \<in> set frames. reads_back J f"
  shows "\<exists>p. read_frames J OpenAiChat frames = (True, p) \<and> pm_terminal p \<and>
    hear_all (pm_sent p) = (hear_all (map Delta deltas))
      \<lparr>hd_stop := map_option (chat_stop_reason \<circ> openai_finish_reason) (hd_stop (hear_all (map Delta deltas)))\<rparr>"
proof -
  have "chat_follow J (chat_new request_id model created) pump_start heard_nothing {} 0"
    by (simp add: chat_follow_def chat_new_def read_frames_def pump_start_def hear_all_def heard_nothing_def)
  then obtain s p seen m where "chat_follow J s p (hear_all (map Delta deltas)) seen m"
    and "frames = cs_pending (chat_take Done s)"
    using chat_relay.followed_to_done [OF _ assms] by blast
  with chat_follow_done assms(4) show ?thesis by metis
qed

subsection \<open>Formats that number a call's place\<close>

text \<open>
  A format that numbers the blocks or items it opens sends a call's fragments under the number of its place.
  The calls heard behind are then the provider's under other indices: the table of places is the reading of one list
  by the other.
\<close>

definition renumbered ::
  "(32 word \<rightharpoonup> nat) \<Rightarrow> nat \<Rightarrow> (32 word \<times> string \<times> string \<times> string) list \<Rightarrow>
     (32 word \<times> string \<times> string \<times> string) list \<Rightarrow> bool" where
  "renumbered places bound calls behind =
     (map snd calls = map snd behind \<and> distinct (map fst behind) \<and> (\<forall>j \<in> fst ` set behind. unat j < bound) \<and>
      (\<forall>i. places i = map_option unat (map_of (zip (map fst calls) (map fst behind)) i)))"

lemma renumbered_empty [simp]: "renumbered Map.empty bound [] []"
  by (simp add: renumbered_def)

lemma renumbered_mono: "renumbered places bound calls behind \<Longrightarrow> bound \<le> bound' \<Longrightarrow> renumbered places bound' calls behind"
  by (force simp: renumbered_def)

lemma renumbered_start:
  assumes "renumbered places bound calls behind" and "bound \<le> b" and "b < 2 ^ 32"
  shows "renumbered (places(i \<mapsto> b)) (Suc b) ((i, c, name, a) # calls) ((of_nat b, c, name, a) # behind)"
proof -
  have b: "unat (of_nat b :: 32 word) = b" using assms(3) by (simp add: unsigned_of_nat take_bit_nat_eq_self)
  then have "(of_nat b :: 32 word) \<notin> fst ` set behind" using assms(1,2) by (fastforce simp: renumbered_def)
  moreover have "\<forall>j \<in> fst ` set behind. unat j < Suc b" using assms(1,2) by (fastforce simp: renumbered_def)
  ultimately show ?thesis using assms(1) b by (auto simp: renumbered_def)
qed

lemma add_arguments_fst [simp]: "map fst (add_arguments index delta calls) = map fst calls"
  by (induction index delta calls rule: add_arguments.induct) auto

lemma add_arguments_snd:
  assumes "length calls = length behind" and "map snd calls = map snd behind" and "distinct (map fst behind)"
    and "map_of (zip (map fst calls) (map fst behind)) i = Some j"
  shows "map snd (add_arguments i delta calls) = map snd (add_arguments j delta behind)"
  using assms
proof (induction calls behind rule: list_induct2)
  case (Cons x calls y behind)
  obtain k r where "x = (k, r)" by (cases x)
  moreover obtain k' r' where "y = (k', r')" by (cases y)
  moreover obtain c n a where "r = (c, n, a)" by (metis prod_cases3)
  ultimately have x: "x = (k, c, n, a)" and y: "y = (k', c, n, a)" using Cons.prems by simp_all
  show ?case
  proof (cases "k = i")
    case True
    with Cons.prems x y show ?thesis by simp
  next
    case False
    with Cons.prems(3) x y have later: "map_of (zip (map fst calls) (map fst behind)) i = Some j" by simp
    then have "j \<in> set (map fst behind)" by (metis in_set_zipE map_of_SomeD)
    with Cons.prems(2) y have "k' \<noteq> j" by auto
    with False later Cons x y show ?thesis by simp
  qed
qed simp

lemma renumbered_arguments:
  assumes "renumbered places bound calls behind" and "places i = Some b"
  shows "renumbered places bound (add_arguments i delta calls) (add_arguments (of_nat b) delta behind)"
proof -
  from assms obtain j where j: "map_of (zip (map fst calls) (map fst behind)) i = Some j" "b = unat j"
    by (auto simp: renumbered_def)
  then have "of_nat b = j" by simp
  moreover have "length calls = length behind" using assms(1) by (metis length_map renumbered_def)
  moreover have "fst ` set (add_arguments j delta behind) = fst ` set behind"
    by (metis add_arguments_fst list.set_map)
  ultimately show ?thesis
    using assms(1) add_arguments_snd [of calls behind i j delta] j(1) by (simp add: renumbered_def)
qed

subsection \<open>Through the messages format\<close>

lemma named_items:
  assumes "reads_back J (sse event v)"
  shows "wire_items J AnthropicMessages (frame_event J (sse event v)) p =
    (case messages_event J event v (pm_anthropic p) of (items, ended, st) \<Rightarrow> (items, ended, p\<lparr>pm_anthropic := st\<rparr>))"
    and "wire_items J OpenAiResponses (frame_event J (sse event v)) p =
    (case responses_items J (Some event) (show_json J v) of (items, ended) \<Rightarrow> (items, ended, p))"
  using assms by (simp_all add: sse_def wire_items_def anthropic_items_def split: option.splits)

lemma messages_frame_items:
  "reads_back J (message_start s) \<Longrightarrow>
     wire_items J AnthropicMessages (frame_event J (message_start s)) p = ([], False, p\<lparr>pm_anthropic := Some 0\<rparr>)"
  "reads_back J (sse ''content_block_stop'' v) \<Longrightarrow>
     wire_items J AnthropicMessages (frame_event J (sse ''content_block_stop'' v)) p = ([], False, p)"
  "reads_back J (block_start b (json_obj [(''type'', JStr ''text''), (''text'', JStr [])])) \<Longrightarrow>
     wire_items J AnthropicMessages (frame_event J (block_start b (json_obj [(''type'', JStr ''text''), (''text'', JStr [])]))) p
       = ([], False, p)"
  "reads_back J (block_delta b (json_obj [(''type'', JStr ''text_delta''), (''text'', JStr text)])) \<Longrightarrow>
     wire_items J AnthropicMessages
       (frame_event J (block_delta b (json_obj [(''type'', JStr ''text_delta''), (''text'', JStr text)]))) p
       = (if text = [] then [] else [Delta (Text text)], False, p)"
  using json_u32_nat [of 0 J]
  by (auto simp: message_start_def NOTHING_COUNTED_YET_def block_start_def block_delta_def named_items
      messages_event_def messages_block_start_def messages_block_delta_def json_at.simps json_str_at_def
      text_delta_def split: list.splits)

lemma messages_call_items:
  "b < 2 ^ 32 \<Longrightarrow>
   reads_back J (block_start b (json_obj
       [(''type'', JStr ''tool_use''), (''id'', JStr i), (''name'', JStr name), (''input'', json_obj [])])) \<Longrightarrow>
     wire_items J AnthropicMessages (frame_event J (block_start b (json_obj
       [(''type'', JStr ''tool_use''), (''id'', JStr i), (''name'', JStr name), (''input'', json_obj [])]))) p
       = ([Delta (ToolCallStart (of_nat b) i name)], False, p)"
  "b < 2 ^ 32 \<Longrightarrow>
   reads_back J (block_delta b (json_obj [(''type'', JStr ''input_json_delta''), (''partial_json'', JStr delta)])) \<Longrightarrow>
     wire_items J AnthropicMessages (frame_event J (block_delta b
         (json_obj [(''type'', JStr ''input_json_delta''), (''partial_json'', JStr delta)]))) p
       = (if delta = [] then [] else [Delta (ToolCallArguments (of_nat b) delta)], False, p)"
  using json_u32_nat [of b J]
  by (auto simp: block_start_def block_delta_def named_items messages_event_def messages_block_start_def
      messages_block_delta_def json_at.simps json_str_at_def tool_call_start_def tool_call_text_def
      tool_call_index_def split: list.splits)

definition messages_read :: "json_codec \<Rightarrow> caller_frame list \<Rightarrow> heard \<Rightarrow> bool" where
  "messages_read J frames h =
     (\<exists>p. read_frames J AnthropicMessages frames = (True, p) \<and> \<not> pm_terminal p \<and> pm_anthropic p = Some 0 \<and>
          hear_all (pm_sent p) = h)"

lemma messages_read_snoc:
  assumes "messages_read J frames h" and "\<And>p. wire_items J AnthropicMessages (frame_event J f) p = (items, False, p)"
    and "\<And>m. Failed m \<notin> set items"
  shows "messages_read J (frames @ [f]) (fold hear items h)"
proof -
  from assms(1) obtain p where "read_frames J AnthropicMessages frames = (True, p)" "\<not> pm_terminal p"
    "pm_anthropic p = Some 0" "hear_all (pm_sent p) = h" by (auto simp: messages_read_def)
  with read_frames_snoc [OF _ assms(2,3)] show ?thesis by (auto simp: messages_read_def)
qed

lemma messages_quiet_frames:
  "messages_read J frames h \<Longrightarrow> reads_back J (sse ''content_block_stop'' v) \<Longrightarrow>
     messages_read J (frames @ [sse ''content_block_stop'' v]) h"
  "messages_read J frames h \<Longrightarrow> reads_back J (block_start b (json_obj [(''type'', JStr ''text''), (''text'', JStr [])])) \<Longrightarrow>
     messages_read J (frames @ [block_start b (json_obj [(''type'', JStr ''text''), (''text'', JStr [])])]) h"
  using messages_read_snoc [where items = "[]"] messages_frame_items by fastforce+

text \<open>What one delta leaves of the encoder: the blocks and the table, and the events up to the delta's own.\<close>

lemma close_open_block_fields [simp]:
  "ms_blocks (close_open_block s) = ms_blocks s" "ms_tool_blocks (close_open_block s) = ms_tool_blocks s"
  "ms_stop_reason (close_open_block s) = ms_stop_reason s" "cs_usage (close_open_block s) = cs_usage s"
  "ms_started_message (close_open_block s) = ms_started_message s"
  "cs_terminated (close_open_block s) = cs_terminated s"
  by (auto simp: close_open_block_def push_frame_def split: option.splits)

lemma start_message_fields [simp]:
  "ms_blocks (start_message s) = ms_blocks s" "ms_tool_blocks (start_message s) = ms_tool_blocks s"
  "ms_stop_reason (start_message s) = ms_stop_reason s" "cs_usage (start_message s) = cs_usage s"
  "ms_started_message (start_message s)" "cs_terminated (start_message s) = cs_terminated s"
  by (auto simp: start_message_def push_frame_def)

lemma close_open_block_read:
  "messages_read J (cs_pending s) h \<Longrightarrow> (\<And>f. f \<in> set (cs_pending (close_open_block s)) \<Longrightarrow> reads_back J f) \<Longrightarrow>
     messages_read J (cs_pending (close_open_block s)) h"
  by (auto simp: close_open_block_def push_frame_def intro!: messages_quiet_frames split: option.splits)

definition messages_follow :: "json_codec \<Rightarrow> messages_stream \<Rightarrow> pump \<Rightarrow> heard \<Rightarrow> 32 word set \<Rightarrow> nat \<Rightarrow> bool" where
  "messages_follow J s p h seen n =
     (\<exists>h'. (if ms_started_message s then messages_read J (cs_pending s) h' else cs_pending s = [] \<and> h' = heard_nothing) \<and>
        hd_text h' = hd_text h \<and> hd_usage h' = None \<and> hd_stop h' = None \<and>
        renumbered (ms_tool_blocks s) (length (ms_blocks s)) (hd_calls h) (hd_calls h') \<and>
        \<not> cs_terminated s \<and> cs_usage s = hd_usage h \<and>
        ms_stop_reason s = map_option anthropic_stop_reason (hd_stop h) \<and>
        seen = dom (ms_tool_blocks s) \<and> length (ms_blocks s) \<le> n)"

lemma start_message_follow:
  assumes "messages_follow J s p h seen n" and "\<And>f. f \<in> set (cs_pending (start_message s)) \<Longrightarrow> reads_back J f"
  shows "messages_follow J (start_message s) p h seen n"
proof (cases "ms_started_message s")
  case False
  with assms(2) have "reads_back J (message_start s)" by (simp add: start_message_def)
  from read_frames_snoc [OF _ messages_frame_items(1) [OF this], where frames = "[]" and p = pump_start]
  have "messages_read J [message_start s] heard_nothing"
    by (auto simp: messages_read_def read_frames_def pump_start_def hear_all_def)
  with False assms(1) show ?thesis
    by (auto simp: messages_follow_def) (simp add: start_message_def push_frame_def, blast)
qed (use assms in \<open>simp add: start_message_def\<close>)

lemma open_text_block_facts:
  assumes "open_text_block s = (b, s2)"
  shows "ms_tool_blocks s2 = ms_tool_blocks s" "cs_usage s2 = cs_usage s" "ms_stop_reason s2 = ms_stop_reason s"
    "ms_started_message s2 = ms_started_message s" "cs_terminated s2 = cs_terminated s"
    "length (ms_blocks s) \<le> length (ms_blocks s2)" "length (ms_blocks s2) \<le> Suc (length (ms_blocks s))"
  using assms by (auto simp: open_text_block_def open_block_of_def Let_def push_frame_def split: option.splits)

lemma open_text_block_read:
  assumes "open_text_block s = (b, s2)" and "messages_read J (cs_pending s) h"
    and "\<And>f. f \<in> set (cs_pending s2) \<Longrightarrow> reads_back J f"
  shows "messages_read J (cs_pending s2) h"
proof (cases "open_text s")
  case None
  let ?s1 = "close_open_block s"
  let ?f = "block_start b (json_obj [(''type'', JStr ''text''), (''text'', JStr [])])"
  have s2: "cs_pending s2 = cs_pending ?s1 @ [?f]"
    using assms(1) None by (auto simp: open_text_block_def open_block_of_def Let_def)
  have "messages_read J (cs_pending ?s1) h"
    using assms(2,3) s2 by (intro close_open_block_read) auto
  then show ?thesis unfolding s2 using assms(3) s2 by (intro messages_quiet_frames) auto
qed (use assms in \<open>auto simp: open_text_block_def\<close>)

lemma messages_follow_delta:
  assumes follow: "messages_follow J s p h seen n" and legal: "follows False seen d" and n: "n < 2 ^ 32"
    and reads: "\<And>f. f \<in> set (cs_pending (messages_take (Delta d) s)) \<Longrightarrow> reads_back J f"
  shows "\<exists>p'. messages_follow J (messages_take (Delta d) s) p' (hear (Delta d) h) (started_by d seen) (Suc n)"
proof -
  let ?s1 = "start_message s"
  have "appends (messages_item (Delta d))"
    by (cases d) (auto simp: appends_def Let_def push_frame_def messages_defs split: option.splits)
  then have "set (cs_pending ?s1) \<subseteq> set (cs_pending (messages_take (Delta d) s))"
    using appendsD(1) [of "messages_item (Delta d)", where s = ?s1 and ps = "cs_pending ?s1"]
    by (simp add: messages_take_def)
  with reads have "messages_follow J ?s1 p h seen n" by (intro start_message_follow [OF follow]) auto
  then obtain h' where read: "messages_read J (cs_pending ?s1) h'"
    and heard: "hd_text h' = hd_text h" "hd_usage h' = None" "hd_stop h' = None"
    and calls: "renumbered (ms_tool_blocks s) (length (ms_blocks s)) (hd_calls h) (hd_calls h')"
    and rest: "\<not> cs_terminated s" "cs_usage s = hd_usage h"
      "ms_stop_reason s = map_option anthropic_stop_reason (hd_stop h)" "seen = dom (ms_tool_blocks s)"
      "length (ms_blocks s) \<le> n"
    by (auto simp: messages_follow_def)
  show ?thesis
  proof (cases d)
    case (Text t)
    obtain b s2 where o: "open_text_block ?s1 = (b, s2)" by fastforce
    let ?f = "block_delta b (json_obj [(''type'', JStr ''text_delta''), (''text'', JStr t)])"
    have take_eq: "messages_take (Delta d) s = push_frame ?f s2" using Text o by (simp add: messages_take_def)
    have "messages_read J (cs_pending s2) h'" using reads take_eq by (intro open_text_block_read [OF o read]) auto
    moreover have "reads_back J ?f" using reads take_eq by simp
    ultimately have "messages_read J (cs_pending s2 @ [?f]) (fold hear (if t = [] then [] else [Delta (Text t)]) h')"
      by (intro messages_read_snoc messages_frame_items(4)) auto
    moreover have "renumbered (ms_tool_blocks s) (length (ms_blocks s2)) (hd_calls h) (hd_calls h')"
      using calls open_text_block_facts(6) [OF o] by (auto intro: renumbered_mono)
    ultimately show ?thesis
      unfolding messages_follow_def take_eq using heard rest Text open_text_block_facts [OF o]
      by (intro exI [of _ p] exI [of _ "fold hear (if t = [] then [] else [Delta (Text t)]) h'"])
         (auto simp: push_frame_def)
  next
    case (ToolCallStart index i name)
    let ?s2 = "close_open_block ?s1" and ?b = "length (ms_blocks s)"
    let ?f = "block_start ?b (json_obj
            [(''type'', JStr ''tool_use''), (''id'', JStr i), (''name'', JStr name), (''input'', json_obj [])])"
    have pend: "cs_pending (messages_take (Delta d) s) = cs_pending ?s2 @ [?f]"
      using ToolCallStart by (simp add: messages_take_def open_block_of_def Let_def)
    have "messages_read J (cs_pending ?s2) h'" using reads pend by (intro close_open_block_read [OF read]) auto
    moreover have "reads_back J ?f" using reads pend by simp
    moreover have b: "?b < 2 ^ 32" using rest n by simp
    ultimately have "messages_read J (cs_pending ?s2 @ [?f]) (fold hear [Delta (ToolCallStart (of_nat ?b) i name)] h')"
      by (intro messages_read_snoc messages_call_items(1)) auto
    moreover note renumbered_start [OF calls order_refl b, of index i name "[]"]
    ultimately show ?thesis
      unfolding messages_follow_def pend using heard rest ToolCallStart
      by (intro exI [of _ p] exI [of _ "hear (Delta (ToolCallStart (of_nat ?b) i name)) h'"])
         (auto simp: messages_take_def open_block_of_def Let_def push_frame_def)
  next
    case (ToolCallArguments index delta)
    with legal rest obtain b where b: "ms_tool_blocks s index = Some b" by auto
    let ?f = "block_delta b (json_obj [(''type'', JStr ''input_json_delta''), (''partial_json'', JStr delta)])"
    have take_eq: "messages_take (Delta d) s = push_frame ?f ?s1"
      using ToolCallArguments b by (simp add: messages_take_def)
    have "b < length (ms_blocks s)" using calls b
      by (fastforce simp: renumbered_def dest: map_of_SomeD elim: in_set_zipE)
    then have "b < 2 ^ 32" using rest n by simp
    moreover have "reads_back J ?f" using reads take_eq by simp
    ultimately have "messages_read J (cs_pending ?s1 @ [?f])
        (fold hear (if delta = [] then [] else [Delta (ToolCallArguments (of_nat b) delta)]) h')"
      by (intro messages_read_snoc messages_call_items(2) read) auto
    moreover note renumbered_arguments [OF calls b, of delta]
    ultimately show ?thesis
      unfolding messages_follow_def take_eq using heard rest ToolCallArguments
      by (intro exI [of _ p] exI [of _ "fold hear (if delta = [] then [] else [Delta (ToolCallArguments (of_nat b) delta)]) h'"])
         (auto simp: push_frame_def)
  qed (use read heard calls rest in \<open>auto simp: messages_follow_def messages_take_def\<close>)
qed

interpretation messages_relay: relayed_format messages_take J False "messages_follow J" for J
proof unfold_locales
  show "messages_follow J s p h seen n \<Longrightarrow> \<not> cs_terminated s" for s p h seen n
    by (auto simp: messages_follow_def)
qed (rule messages_follow_delta)

definition messages_last :: "messages_stream \<Rightarrow> caller_frame" where
  "messages_last s =
     sse ''message_delta'' (json_obj
       ([(''type'', JStr ''message_delta''),
         (''delta'', json_obj [(''stop_reason'', json_text (ms_stop_reason s)), (''stop_sequence'', JNull)])] @
        (case cs_usage s of
           Some (i, out) \<Rightarrow> [(''usage'', json_obj [(''input_tokens'', JInt (uint i)), (''output_tokens'', JInt (uint out))])]
         | None \<Rightarrow> [])))"

lemma messages_done_pending:
  "cs_pending (messages_take Done s) = cs_pending (close_open_block (start_message s)) @
     [messages_last s, sse ''message_stop'' (json_obj [(''type'', JStr ''message_stop'')])]"
  by (simp add: messages_take_def messages_done_def messages_last_def Let_def)

lemma messages_end_items:
  "reads_back J (sse ''message_stop'' v) \<Longrightarrow>
     wire_items J AnthropicMessages (frame_event J (sse ''message_stop'' v)) p = ([], True, p)"
  "reads_back J (messages_last s) \<Longrightarrow> pm_anthropic p = Some 0 \<Longrightarrow>
     wire_items J AnthropicMessages (frame_event J (messages_last s)) p =
       ((case cs_usage s of Some (i, out) \<Rightarrow> [Delta (Usage 0 out)] | None \<Rightarrow> []) @
        (case ms_stop_reason s of Some reason \<Rightarrow> [Delta (Finish (messages_stop_reason reason))] | None \<Rightarrow> []), False, p)"
  by (auto simp: messages_last_def named_items messages_event_def messages_delta_def json_at.simps json_str_at_def
      json_text_def split: option.splits)

text \<open>
  C27. Through the Anthropic messages format the gateway behind reads the same text and the same tool calls with
  the same arguments, whichever way the calls interleave, and the end; the reason for stopping comes back as the
  messages vocabulary spells it, and of the meter only the output count: this side opens its message with nothing
  counted, and the other reads the input count there.
\<close>

theorem messages_format_carries_the_generation:
  assumes "calls_in_turn False {} deltas" and "length deltas \<le> 2 ^ 32"
    and "frames = cs_pending (encode_all messages_take (map Delta deltas @ [Done]) (messages_new message_id model))"
    and "\<forall>f \<in> set frames. reads_back J f" and "h = hear_all (map Delta deltas)"
  shows "\<exists>p h'. read_frames J AnthropicMessages frames = (True, p) \<and> pm_terminal p \<and> h' = hear_all (pm_sent p) \<and>
    hd_text h' = hd_text h \<and> map snd (hd_calls h') = map snd (hd_calls h) \<and>
    hd_usage h' = map_option (\<lambda>(i, out). (0, out)) (hd_usage h) \<and>
    hd_stop h' = map_option (messages_stop_reason \<circ> anthropic_stop_reason) (hd_stop h)"
proof -
  have "messages_follow J (messages_new message_id model) pump_start heard_nothing {} 0"
    by (simp add: messages_follow_def messages_new_def heard_nothing_def)
  then obtain s p seen m where follow: "messages_follow J s p h seen m"
    and frames: "frames = cs_pending (messages_take Done s)"
    using messages_relay.followed_to_done [OF _ assms(1-4)] assms(5) by blast
  let ?s2 = "close_open_block (start_message s)"
  have pend: "frames = cs_pending ?s2 @ [messages_last s, sse ''message_stop'' (json_obj [(''type'', JStr ''message_stop'')])]"
    using frames messages_done_pending by simp
  have sub: "f \<in> set (cs_pending ?s2) \<Longrightarrow> reads_back J f" for f using assms(4) pend by auto
  moreover have "set (cs_pending (start_message s)) \<subseteq> set (cs_pending ?s2)"
    by (auto simp: close_open_block_def split: option.splits)
  ultimately have "messages_follow J (start_message s) p h seen m"
    by (intro start_message_follow [OF follow]) blast
  then obtain h' where read: "messages_read J (cs_pending (start_message s)) h'"
    and heard: "hd_text h' = hd_text h" "hd_usage h' = None" "hd_stop h' = None"
      "map snd (hd_calls h') = map snd (hd_calls h)" "cs_usage s = hd_usage h"
      "ms_stop_reason s = map_option anthropic_stop_reason (hd_stop h)"
    by (auto simp: messages_follow_def renumbered_def)
  from close_open_block_read [OF read] sub obtain p1 where
    p1: "read_frames J AnthropicMessages (cs_pending ?s2) = (True, p1)" "pm_anthropic p1 = Some 0"
      "hear_all (pm_sent p1) = h'"
    by (auto simp: messages_read_def)
  have "reads_back J (messages_last s)" using assms(4) pend by simp
  from read_frames_snoc [OF p1(1) messages_end_items(2) [OF this p1(2)]] obtain p2 where
    p2: "read_frames J AnthropicMessages (cs_pending ?s2 @ [messages_last s]) = (True, p2)"
      "pm_sent p2 = pm_sent p1 @ (case cs_usage s of Some (i, out) \<Rightarrow> [Delta (Usage 0 out)] | None \<Rightarrow> []) @
        (case ms_stop_reason s of Some reason \<Rightarrow> [Delta (Finish (messages_stop_reason reason))] | None \<Rightarrow> [])"
    by (auto split: option.splits)
  have "reads_back J (sse ''message_stop'' (json_obj [(''type'', JStr ''message_stop'')]))" using assms(4) pend by simp
  from read_frames_snoc [OF p2(1) messages_end_items(1) [OF this]] p2(2) p1(3) heard show ?thesis
    by (cases "hd_usage h"; cases "hd_stop h") (auto simp: pend split: prod.splits)
qed

end
