(* ===== verification/Responses_Relay.thy ===== *)
theory Responses_Relay
  imports Wire_Relay
begin

section \<open>A generation heard through the Responses format\<close>

text \<open>
  The third relay of \<open>Wire_Relay\<close>: the OpenAI Responses events \<open>core/wire/responses_events.rs\<close> writes, read by
  \<open>providers/stream/openai_responses.rs\<close>; and concrete streams for the three formats, with a codec that reads
  back the events of one stream.
\<close>

definition responses_read :: "json_codec \<Rightarrow> caller_frame list \<Rightarrow> heard \<Rightarrow> bool" where
  "responses_read J frames h =
     (\<exists>p. read_frames J OpenAiResponses frames = (True, p) \<and> \<not> pm_terminal p \<and> hear_all (pm_sent p) = h)"

lemma responses_read_snoc:
  assumes "responses_read J frames h" and "\<And>p. wire_items J OpenAiResponses (frame_event J f) p = (items, False, p)"
    and "\<And>m. Failed m \<notin> set items"
  shows "responses_read J (frames @ [f]) (fold hear items h)"
proof -
  from assms(1) obtain p where "read_frames J OpenAiResponses frames = (True, p)" "\<not> pm_terminal p"
    "hear_all (pm_sent p) = h" by (auto simp: responses_read_def)
  with read_frames_snoc [OF _ assms(2,3)] show ?thesis by (auto simp: responses_read_def)
qed

text \<open>Events the other side passes over.\<close>

fun passed_over :: "caller_frame \<Rightarrow> bool" where
  "passed_over (Named event v) =
     (event \<in> {''response.created'', ''response.content_part.added'', ''response.content_part.done'',
               ''response.output_text.done'', ''response.output_item.done'', ''response.function_call_arguments.done''} \<or>
      event = ''response.output_item.added'' \<and> json_str_at v [''item'', ''type''] \<noteq> Some ''function_call'')"
| "passed_over _ = False"

lemma passed_over_items:
  "reads_back J f \<Longrightarrow> passed_over f \<Longrightarrow> wire_items J OpenAiResponses (frame_event J f) p = ([], False, p)"
  by (cases f) (auto simp: wire_items_def responses_items_def responses_item_added_def)

lemma responses_read_passed:
  "responses_read J frames h \<Longrightarrow> (\<And>f. f \<in> set fs \<Longrightarrow> passed_over f \<and> reads_back J f) \<Longrightarrow>
     responses_read J (frames @ fs) h"
proof (induction fs rule: rev_induct)
  case (snoc f fs)
  then have "responses_read J (frames @ fs) h" by simp
  moreover have "wire_items J OpenAiResponses (frame_event J f) p = ([], False, p)" for p
    using snoc.prems by (intro passed_over_items) simp_all
  ultimately show ?case using responses_read_snoc [where items = "[]"] by fastforce
qed simp

lemma responses_frame_items:
  "b < 2 ^ 32 \<Longrightarrow> reads_back J (item_added b (json_obj
       [(''type'', JStr ''function_call''), (''id'', JStr item_id), (''call_id'', JStr i),
        (''name'', JStr name), (''arguments'', JStr []), (''status'', JStr ''in_progress'')])) \<Longrightarrow>
     wire_items J OpenAiResponses (frame_event J (item_added b (json_obj
       [(''type'', JStr ''function_call''), (''id'', JStr item_id), (''call_id'', JStr i),
        (''name'', JStr name), (''arguments'', JStr []), (''status'', JStr ''in_progress'')]))) p
       = ([Delta (ToolCallStart (of_nat b) i name)], False, p)"
  "reads_back J (sse ''response.output_text.delta'' (json_obj
       [(''type'', JStr ''response.output_text.delta''), (''item_id'', JStr item_id),
        (''output_index'', JInt (int b)), (''content_index'', JInt ONLY_PART), (''delta'', JStr text)])) \<Longrightarrow>
     wire_items J OpenAiResponses (frame_event J (sse ''response.output_text.delta'' (json_obj
       [(''type'', JStr ''response.output_text.delta''), (''item_id'', JStr item_id),
        (''output_index'', JInt (int b)), (''content_index'', JInt ONLY_PART), (''delta'', JStr text)]))) p
       = (if text = [] then [] else [Delta (Text text)], False, p)"
  "b < 2 ^ 32 \<Longrightarrow> reads_back J (sse ''response.function_call_arguments.delta'' (json_obj
       [(''type'', JStr ''response.function_call_arguments.delta''), (''item_id'', JStr item_id),
        (''output_index'', JInt (int b)), (''delta'', JStr delta)])) \<Longrightarrow>
     wire_items J OpenAiResponses (frame_event J (sse ''response.function_call_arguments.delta'' (json_obj
       [(''type'', JStr ''response.function_call_arguments.delta''), (''item_id'', JStr item_id),
        (''output_index'', JInt (int b)), (''delta'', JStr delta)]))) p
       = (if delta = [] then [] else [Delta (ToolCallArguments (of_nat b) delta)], False, p)"
  using json_u32_nat [of b J]
  by (auto simp: item_added_def wire_items_def responses_items_def sse_def responses_item_added_def
      responses_arguments_def json_at.simps json_str_at_def tool_call_start_def tool_call_text_def
      tool_call_index_def text_delta_def split: list.splits)

text \<open>The events the encoder adds before a delta's own.\<close>

lemma close_open_item_pending: "\<exists>fs. cs_pending (close_open_item s) = cs_pending s @ fs \<and> list_all passed_over fs"
  by (auto simp: close_open_item_def Let_def item_done_def sse_def split: option.splits responses_item.splits)

lemma start_response_pending: "\<exists>fs. cs_pending (start_response s) = cs_pending s @ fs \<and> list_all passed_over fs"
  by (auto simp: start_response_def sse_def)

lemma new_message_pending: "\<exists>fs. cs_pending (new_message uuid s) = cs_pending s @ fs \<and> list_all passed_over fs"
  by (auto simp: new_message_def open_message_def item_added_def sse_def Let_def json_str_at_def json_at.simps)

lemma open_message_pending:
  "\<exists>fs. cs_pending (snd (open_message uuid s)) = cs_pending s @ fs \<and> list_all passed_over fs"
proof (cases "message_open s")
  case False
  obtain fs where "cs_pending (close_open_item s) = cs_pending s @ fs" "list_all passed_over fs"
    using close_open_item_pending by blast
  moreover obtain gs where "cs_pending (new_message uuid (close_open_item s)) = cs_pending (close_open_item s) @ gs"
    "list_all passed_over gs"
    using new_message_pending by blast
  ultimately show ?thesis using False by (simp add: open_message_eq)
qed (simp add: open_message_eq)

lemma responses_read_quiet:
  assumes "responses_read J (cs_pending s) h" and "\<exists>fs. cs_pending t = cs_pending s @ fs \<and> list_all passed_over fs"
    and "\<And>f. f \<in> set (cs_pending t) \<Longrightarrow> reads_back J f"
  shows "responses_read J (cs_pending t) h"
  using assms by (auto simp: list_all_iff intro!: responses_read_passed)

fun is_call :: "responses_item \<Rightarrow> bool" where
  "is_call (FunctionCallItem _ _ _ _) = True"
| "is_call _ = False"

lemma add_arguments_empty [simp]: "add_arguments index delta calls = [] \<longleftrightarrow> calls = []"
  by (cases calls) (auto split: prod.splits if_splits)

lemma list_ex_update:
  "nth_item xs b = Some x \<Longrightarrow> P y = P x \<Longrightarrow> list_ex P (xs[b := y]) = list_ex P xs"
  by (auto simp: list_ex_length nth_item_def nth_list_update split: if_splits)

definition responses_follow :: "json_codec \<Rightarrow> responses_stream \<Rightarrow> pump \<Rightarrow> heard \<Rightarrow> 32 word set \<Rightarrow> nat \<Rightarrow> bool" where
  "responses_follow J s p h seen n =
     (\<exists>h'. responses_read J (cs_pending s) h' \<and>
        hd_text h' = hd_text h \<and> hd_usage h' = None \<and> hd_stop h' = None \<and>
        renumbered (rs_tool_items s) (length (rs_items s)) (hd_calls h) (hd_calls h') \<and>
        calls_placed s \<and> (list_ex is_call (rs_items s) \<longleftrightarrow> hd_calls h \<noteq> []) \<and>
        \<not> cs_terminated s \<and> cs_usage s = hd_usage h \<and> rs_stop s = hd_stop h \<and>
        seen = dom (rs_tool_items s) \<and> length (rs_items s) \<le> n)"

lemma responses_follow_delta:
  assumes follow: "responses_follow J s p h seen n" and legal: "follows False seen d" and n: "n < 2 ^ 32"
    and reads: "\<And>f. f \<in> set (cs_pending (responses_take uuid (Delta d) s)) \<Longrightarrow> reads_back J f"
  shows "\<exists>p'. responses_follow J (responses_take uuid (Delta d) s) p' (hear (Delta d) h) (started_by d seen) (Suc n)"
proof -
  let ?s1 = "start_response s" and ?t = "responses_take uuid (Delta d) s"
  from follow obtain h' where before: "responses_read J (cs_pending s) h'"
    and heard: "hd_text h' = hd_text h" "hd_usage h' = None" "hd_stop h' = None"
    and calls: "renumbered (rs_tool_items s) (length (rs_items s)) (hd_calls h) (hd_calls h')"
    and placed: "calls_placed s" and called: "list_ex is_call (rs_items s) \<longleftrightarrow> hd_calls h \<noteq> []"
    and rest: "\<not> cs_terminated s" "cs_usage s = hd_usage h" "rs_stop s = hd_stop h"
      "seen = dom (rs_tool_items s)" "length (rs_items s) \<le> n"
    by (auto simp: responses_follow_def)
  have placed1: "calls_placed ?s1" using placed by (simp add: calls_placed_def)
  obtain fs where "cs_pending ?s1 = cs_pending s @ fs" "list_all passed_over fs"
    using start_response_pending by blast
  note quiet = responses_read_quiet [OF before start_response_pending]
  show ?thesis
  proof (cases d)
    case (Text t)
    let ?s2 = "snd (open_message uuid ?s1)" and ?b = "fst (open_message uuid ?s1)"
    obtain i full where there: "nth_item (rs_items ?s2) ?b = Some (MessageItem i full)"
      using open_message_there by blast
    let ?f = "sse ''response.output_text.delta'' (json_obj
       [(''type'', JStr ''response.output_text.delta''), (''item_id'', JStr i),
        (''output_index'', JInt (int ?b)), (''content_index'', JInt ONLY_PART), (''delta'', JStr t)])"
    have take_eq: "?t = push_frame ?f (?s2\<lparr>rs_items := (rs_items ?s2)[?b := MessageItem i (full @ t)]\<rparr>)"
      using Text there by (simp add: responses_take_def responses_text_eq add_text_def)
    obtain gs where gs: "cs_pending ?s2 = cs_pending ?s1 @ gs" "list_all passed_over gs"
      using open_message_pending by blast
    have "responses_read J (cs_pending ?s1) h'" using reads gs take_eq by (intro quiet) auto
    then have "responses_read J (cs_pending ?s2) h'"
      using reads gs take_eq by (intro responses_read_quiet [where s = ?s1 and t = ?s2]) auto
    moreover have "reads_back J ?f" using reads take_eq by simp
    ultimately have "responses_read J (cs_pending ?s2 @ [?f]) (fold hear (if t = [] then [] else [Delta (Text t)]) h')"
      by (intro responses_read_snoc responses_frame_items(2)) auto
    moreover have items: "rs_tool_items ?s2 = rs_tool_items s" "length (rs_items s) \<le> length (rs_items ?s2)"
      "length (rs_items ?s2) \<le> Suc (length (rs_items s))" "cs_usage ?s2 = cs_usage s" "rs_stop ?s2 = rs_stop s"
      by (simp_all add: open_message_eq)
    moreover have "renumbered (rs_tool_items s) (length (rs_items ?s2)) (hd_calls h) (hd_calls h')"
      using calls items(2) by (rule renumbered_mono)
    moreover have "list_ex is_call ((rs_items ?s2)[?b := MessageItem i (full @ t)]) \<longleftrightarrow> list_ex is_call (rs_items s)"
      using list_ex_update [OF there, of is_call "MessageItem i (full @ t)"] by (simp add: open_message_eq)
    moreover have "calls_placed ?t" "\<not> cs_terminated ?t"
      using responses_text_step [OF placed1 refl, of uuid t] Text rest(1) by (simp_all add: responses_take_def)
    ultimately show ?thesis
      unfolding responses_follow_def using heard rest called Text take_eq
      by (intro exI [of _ p] exI [of _ "fold hear (if t = [] then [] else [Delta (Text t)]) h'"])
         (auto simp: push_frame_def)
  next
    case (ToolCallStart index i name)
    let ?s2 = "close_open_item ?s1" and ?b = "length (rs_items s)"
    let ?f = "item_added ?b (json_obj
       [(''type'', JStr ''function_call''), (''id'', JStr (''fc_'' @ uuid (rs_drawn s))), (''call_id'', JStr i),
        (''name'', JStr name), (''arguments'', JStr []), (''status'', JStr ''in_progress'')])"
    have pend: "cs_pending ?t = cs_pending ?s2 @ [?f]"
      using ToolCallStart by (simp add: responses_take_def responses_call_def Let_def)
    obtain gs where gs: "cs_pending ?s2 = cs_pending ?s1 @ gs" "list_all passed_over gs"
      using close_open_item_pending by blast
    have "responses_read J (cs_pending ?s1) h'" using reads gs pend by (intro quiet) auto
    then have "responses_read J (cs_pending ?s2) h'"
      using reads gs pend by (intro responses_read_quiet [where s = ?s1 and t = ?s2]) auto
    moreover have "reads_back J ?f" using reads pend by simp
    moreover have b: "?b < 2 ^ 32" using rest n by simp
    ultimately have "responses_read J (cs_pending ?s2 @ [?f]) (fold hear [Delta (ToolCallStart (of_nat ?b) i name)] h')"
      by (intro responses_read_snoc responses_frame_items(1)) auto
    moreover note renumbered_start [OF calls order_refl b, of index i name "[]"]
    moreover have "\<not> cs_terminated ?t" "calls_placed ?t"
      using placed rest(1) ToolCallStart
      by (auto simp: responses_take_def responses_call_def Let_def push_frame_def calls_placed_def dest: nth_item_SomeD)
    ultimately show ?thesis
      unfolding responses_follow_def pend using heard rest called ToolCallStart
      by (intro exI [of _ p] exI [of _ "hear (Delta (ToolCallStart (of_nat ?b) i name)) h'"])
         (auto simp: responses_take_def responses_call_def Let_def push_frame_def)
  next
    case (ToolCallArguments index delta)
    with legal rest obtain b where b: "rs_tool_items s index = Some b" by auto
    then obtain item_id c m a where there: "nth_item (rs_items s) b = Some (FunctionCallItem item_id c m a)"
      using placed unfolding calls_placed_def by blast
    let ?f = "sse ''response.function_call_arguments.delta'' (json_obj
       [(''type'', JStr ''response.function_call_arguments.delta''), (''item_id'', JStr item_id),
        (''output_index'', JInt (int b)), (''delta'', JStr delta)])"
    have take_eq: "?t = push_frame ?f (?s1\<lparr>rs_items := (rs_items s)[b := FunctionCallItem item_id c m (a @ delta)]\<rparr>)"
      using ToolCallArguments b there by (simp add: responses_take_def responses_call_arguments_def)
    have "b < 2 ^ 32" using nth_item_SomeD [OF there] rest n by simp
    moreover have "responses_read J (cs_pending ?s1) h'" using reads take_eq by (intro quiet) auto
    moreover have "reads_back J ?f" using reads take_eq by simp
    ultimately have "responses_read J (cs_pending ?s1 @ [?f])
        (fold hear (if delta = [] then [] else [Delta (ToolCallArguments (of_nat b) delta)]) h')"
      by (intro responses_read_snoc responses_frame_items(3)) auto
    moreover note renumbered_arguments [OF calls b, of delta]
    moreover have "list_ex is_call ((rs_items s)[b := FunctionCallItem item_id c m (a @ delta)]) \<longleftrightarrow> list_ex is_call (rs_items s)"
      by (rule list_ex_update [OF there]) simp
    ultimately show ?thesis
      unfolding responses_follow_def take_eq using heard rest called ToolCallArguments placed there
      by (intro exI [of _ p] exI [of _ "fold hear (if delta = [] then [] else [Delta (ToolCallArguments (of_nat b) delta)]) h'"])
         (auto simp: push_frame_def calls_placed_def)
  qed (use quiet reads heard calls placed called rest in \<open>auto simp: responses_follow_def responses_take_def calls_placed_def\<close>)
qed

interpretation responses_relay: relayed_format "responses_take uuid" J False "responses_follow J" for uuid J
proof unfold_locales
  show "responses_follow J s p h seen n \<Longrightarrow> \<not> cs_terminated s" for s p h seen n
    by (auto simp: responses_follow_def)
qed (rule responses_follow_delta)

text \<open>Why a generation stopped, as the other side reads it of the terminal event.\<close>

definition heard_stop :: "stop_reason option \<Rightarrow> bool \<Rightarrow> stop_reason" where
  "heard_stop stop called =
     (case stopped_short stop of
        Some reason \<Rightarrow> incomplete_reason reason
      | None \<Rightarrow> if called then ToolUse else EndTurn)"

definition responses_last :: "responses_stream \<Rightarrow> caller_frame" where
  "responses_last s =
     sse (fst (terminal_response s))
       (json_obj [(''type'', JStr (fst (terminal_response s))), (''response'', snd (terminal_response s))])"

lemma completed_type:
  "Option.bind (json_get (completed_item item) ''type'') as_str = Some ''function_call'' \<longleftrightarrow> is_call item"
  by (cases item) simp_all

lemma terminal_reads:
  assumes "terminal_response s = (event, response)"
  shows "event = (if stopped_short (rs_stop s) = None then ''response.completed'' else ''response.incomplete'')"
    and "json_get response ''usage'' = (case cs_usage s of
       Some (i, out) \<Rightarrow> Some (json_obj [(''input_tokens'', JInt (uint i)), (''output_tokens'', JInt (uint out)),
                                     (''total_tokens'', JInt (uint i + uint out))])
     | None \<Rightarrow> None)"
    and "json_get response ''output'' = Some (JArr (map completed_item (rs_items s)))"
    and "json_get response ''incomplete_details'' =
      (case stopped_short (rs_stop s) of Some reason \<Rightarrow> Some (json_obj [(''reason'', json_text reason)]) | None \<Rightarrow> None)"
    and "\<exists>kvs. response = json_obj kvs"
  using assms by (auto simp: terminal_response_def response_shell_def Let_def split: option.splits)

lemma json_at_response:
  "json_at (json_obj [(''type'', t), (''response'', json_obj kvs)]) (''response'' # key # path) =
     Option.bind (json_get (json_obj kvs) key) (\<lambda>v. json_at v path)"
  by (simp add: json_at.simps split: option.splits)

lemma responses_last_items:
  assumes "reads_back J (responses_last s)"
  shows "wire_items J OpenAiResponses (frame_event J (responses_last s)) p =
    ((case cs_usage s of Some (i, out) \<Rightarrow> [Delta (Usage i out)] | None \<Rightarrow> []) @
     [Delta (Finish (heard_stop (rs_stop s) (list_ex is_call (rs_items s))))], True, p)"
proof -
  obtain event response where t: "terminal_response s = (event, response)" by fastforce
  note r = terminal_reads [OF t]
  then obtain kvs where kvs: "response = json_obj kvs" by blast
  let ?body = "\<lambda>t. json_obj [(''type'', t), (''response'', json_obj kvs)]"
  have usage: "stated_usage (json_u32 J (json_at (?body t) [''response'', ''usage'', ''input_tokens'']) a)
      (json_u32 J (json_at (?body t) [''response'', ''usage'', ''output_tokens'']) b) =
      Inr (case cs_usage s of Some (i, out) \<Rightarrow> [Delta (Usage i out)] | None \<Rightarrow> [])" for a b t
    using r(2) unfolding kvs json_at_response
    by (auto simp: stated_usage_def json_at.simps split: option.splits simp del: json_get_obj)
  have out: "list_ex (\<lambda>item. Option.bind (json_get item ''type'') as_str = Some ''function_call'')
      (map completed_item (rs_items s)) = list_ex is_call (rs_items s)"
    by (simp add: list_ex_iff completed_type)
  have reason: "json_str_at (?body t) [''response'', ''incomplete_details'', ''reason''] = reason"
    if "stopped_short (rs_stop s) = Some reason" for reason t
    using r(4) that unfolding kvs json_str_at_def json_at_response
    by (cases reason) (simp_all del: json_get_obj add: json_at.simps json_text_def json_step_obj)
  have "responses_ended J event (?body (JStr event)) =
      ((case cs_usage s of Some (i, out) \<Rightarrow> [Delta (Usage i out)] | None \<Rightarrow> []) @
       [Delta (Finish (heard_stop (rs_stop s) (list_ex is_call (rs_items s))))], True)"
  proof (cases "stopped_short (rs_stop s)")
    case None
    have "json_at (?body t) [''response'', ''output''] = Some (JArr (map completed_item (rs_items s)))" for t
      using r(3) unfolding kvs json_at_response by (simp del: json_get_obj add: json_at.simps)
    then show ?thesis using None r(1) out
      by (simp add: responses_ended_def usage heard_stop_def)
  next
    case (Some reason)
    then show ?thesis using r(1) reason
      by (simp add: responses_ended_def usage heard_stop_def)
  qed
  moreover have "event = ''response.completed'' \<or> event = ''response.incomplete''" using r(1) by simp
  ultimately show ?thesis
    using assms t kvs by (auto simp: responses_last_def sse_def wire_items_def responses_items_def)
qed

text \<open>
  C28. Through the Responses format the gateway behind reads the same text, the same tool calls with the same
  arguments, whichever way they interleave, the same meter and the end. Why the provider stopped survives for an
  answer that stopped short; otherwise the other side tells only whether a tool was called.
\<close>

theorem responses_format_carries_the_generation:
  assumes "calls_in_turn False {} deltas" and "length deltas \<le> 2 ^ 32"
    and "frames = cs_pending (encode_all (responses_take uuid) (map Delta deltas @ [Done])
           (responses_new response_id model created))"
    and "\<forall>f \<in> set frames. reads_back J f" and "h = hear_all (map Delta deltas)"
  shows "\<exists>p h'. read_frames J OpenAiResponses frames = (True, p) \<and> pm_terminal p \<and> h' = hear_all (pm_sent p) \<and>
    hd_text h' = hd_text h \<and> map snd (hd_calls h') = map snd (hd_calls h) \<and> hd_usage h' = hd_usage h \<and>
    hd_stop h' = Some (heard_stop (hd_stop h) (hd_calls h \<noteq> []))"
proof -
  have "responses_follow J (responses_new response_id model created) pump_start heard_nothing {} 0"
    by (simp add: responses_follow_def responses_new_def heard_nothing_def responses_read_def read_frames_def
        pump_start_def hear_all_def calls_placed_def)
  then obtain s p seen m where follow: "responses_follow J s p h seen m"
    and frames: "frames = cs_pending (responses_take uuid Done s)"
    using responses_relay.followed_to_done [OF _ assms(1-4)] assms(5) by blast
  let ?s2 = "close_open_item (start_response s)"
  have pend: "frames = cs_pending ?s2 @ [responses_last ?s2]"
    by (simp add: frames responses_take_def responses_done_def responses_last_def Let_def case_prod_unfold)
  have sub: "f \<in> set (cs_pending ?s2) \<Longrightarrow> reads_back J f" for f using assms(4) pend by auto
  from follow obtain h' where read: "responses_read J (cs_pending s) h'"
    and heard: "hd_text h' = hd_text h" "hd_usage h' = None" "hd_stop h' = None"
      "map snd (hd_calls h') = map snd (hd_calls h)" "cs_usage s = hd_usage h" "rs_stop s = hd_stop h"
      "list_ex is_call (rs_items s) \<longleftrightarrow> hd_calls h \<noteq> []"
    by (auto simp: responses_follow_def renumbered_def)
  have "\<exists>fs. cs_pending ?s2 = cs_pending s @ fs \<and> list_all passed_over fs"
    using start_response_pending [of s] close_open_item_pending [of "start_response s"] by fastforce
  from responses_read_quiet [OF read this sub] obtain p1 where
    p1: "read_frames J OpenAiResponses (cs_pending ?s2) = (True, p1)" "hear_all (pm_sent p1) = h'"
    by (auto simp: responses_read_def)
  have "reads_back J (responses_last ?s2)" using assms(4) pend by simp
  from read_frames_snoc [OF p1(1) responses_last_items [OF this]] p1(2) heard show ?thesis
    by (cases "hd_usage h") (auto simp: pend split: prod.splits)
qed

subsection \<open>One stream through the three formats\<close>

text \<open>A codec that reads back the events of one stream: a value's text is its place among them.\<close>

fun frame_value :: "caller_frame \<Rightarrow> json list" where
  "frame_value (Named _ v) = [v]"
| "frame_value (Unnamed v) = [v]"
| "frame_value (Literal _) = []"

definition frames_codec :: "caller_frame list \<Rightarrow> json_codec" where
  "frames_codec frames =
     (let vs = concat (map frame_value frames)
      in \<lparr>show_json = (\<lambda>v. replicate (Suc (length (takeWhile (\<lambda>w. w \<noteq> v) vs))) CHR ''x''),
          parse_json = (\<lambda>t. if length t - 1 < length vs then Inr (vs ! (length t - 1)) else Inl ''no event''),
          show_duration = show_nat\<rparr>)"

lemma trim_keeps_x: "trim_text (replicate (Suc n) CHR ''x'') = replicate (Suc n) CHR ''x''"
proof -
  have "\<forall>w \<in> set WHITE_SPACE. w \<noteq> [] \<longrightarrow> hd w \<noteq> CHR ''x''"
    "\<forall>w \<in> set (map rev WHITE_SPACE). w \<noteq> [] \<longrightarrow> hd w \<noteq> CHR ''x''"
    by (simp_all add: WHITE_SPACE_def upt_rec char_of_eq_iff)
  then have "strip_start WHITE_SPACE (replicate (Suc n) CHR ''x'') = replicate (Suc n) CHR ''x''"
    "strip_start (map rev WHITE_SPACE) (replicate (Suc n) CHR ''x'') = replicate (Suc n) CHR ''x''"
    by (simp_all add: strip_start_keeps)
  then show ?thesis by (simp only: trim_text_def rev_replicate)
qed

lemma frames_codec_reads: "\<forall>f \<in> set frames. reads_back (frames_codec frames) f"
proof
  fix f assume f: "f \<in> set frames"
  let ?vs = "concat (map frame_value frames)"
  have reads: "parse_json (frames_codec frames) (show_json (frames_codec frames) v) = Inr v \<and>
      trim_text (show_json (frames_codec frames) v) \<noteq> OPENAI_DONE" if "v \<in> set ?vs" for v
  proof -
    have "length (takeWhile (\<lambda>w. w \<noteq> v) ws) < length ws" if "v \<in> set ws" for ws :: "json list"
      using that by (induction ws) auto
    then have "length (takeWhile (\<lambda>w. w \<noteq> v) ?vs) < length ?vs" using that .
    moreover from nth_length_takeWhile [OF this] have "?vs ! length (takeWhile (\<lambda>w. w \<noteq> v) ?vs) = v" by simp
    ultimately show ?thesis
      by (simp add: frames_codec_def Let_def OPENAI_DONE_def trim_keeps_x del: replicate_Suc) simp
  qed
  show "reads_back (frames_codec frames) f"
  proof (cases f)
    case (Named event v)
    with f have "v \<in> set ?vs" by force
    with Named reads [of v] show ?thesis by simp
  next
    case (Unnamed v)
    with f have "v \<in> set ?vs" by force
    with Unnamed reads [of v] show ?thesis by simp
  qed simp
qed

text \<open>Two calls whose arguments interleave, around a text.\<close>

definition two_calls :: "stream_delta list" where
  "two_calls =
     [Text ''Hi'', ToolCallStart 3 ''c1'' ''f'', ToolCallStart 4 ''c2'' ''g'', ToolCallArguments 3 ''{}'',
      ToolCallArguments 4 ''[]'', Finish ToolUse, Usage 5 7]"

lemma two_calls_heard:
  "hear_all (map Delta two_calls) =
     \<lparr>hd_text = ''Hi'', hd_calls = [(4, ''c2'', ''g'', ''[]''), (3, ''c1'', ''f'', ''{}'')],
      hd_usage = Some (5, 7), hd_stop = Some ToolUse\<rparr>"
  "calls_in_turn True {} two_calls" "calls_in_turn False {} two_calls" "length two_calls \<le> 2 ^ 32"
  by (simp_all add: two_calls_def hear_all_def heard_nothing_def)

theorem chat_format_carries_the_generation_witness:
  "let frames = cs_pending (encode_all chat_take (map Delta two_calls @ [Done]) (chat_new ''r'' ''m'' 0))
   in \<exists>p. read_frames (frames_codec frames) OpenAiChat frames = (True, p) \<and> pm_terminal p \<and>
     hear_all (pm_sent p) =
       \<lparr>hd_text = ''Hi'', hd_calls = [(4, ''c2'', ''g'', ''[]''), (3, ''c1'', ''f'', ''{}'')],
        hd_usage = Some (5, 7), hd_stop = Some ToolUse\<rparr>"
  unfolding Let_def
  using chat_format_carries_the_generation [OF two_calls_heard(2,4) refl frames_codec_reads, of "''r''" "''m''" 0]
  by (simp add: two_calls_heard(1) chat_stop_reason_def)

theorem messages_format_carries_the_generation_witness:
  "let frames = cs_pending (encode_all messages_take (map Delta two_calls @ [Done]) (messages_new ''r'' ''m''))
   in \<exists>p. read_frames (frames_codec frames) AnthropicMessages frames = (True, p) \<and> pm_terminal p \<and>
     hd_text (hear_all (pm_sent p)) = ''Hi'' \<and> map snd (hd_calls (hear_all (pm_sent p))) = [(''c2'', ''g'', ''[]''), (''c1'', ''f'', ''{}'')] \<and>
     hd_usage (hear_all (pm_sent p)) = Some (0, 7) \<and>
     hd_stop (hear_all (pm_sent p)) = Some ToolUse"
  unfolding Let_def
  using messages_format_carries_the_generation [OF two_calls_heard(3,4) refl frames_codec_reads refl, of "''r''" "''m''"]
  by (simp add: two_calls_heard(1) messages_stop_reason_def)

theorem responses_format_carries_the_generation_witness:
  "let frames = cs_pending (encode_all (responses_take show_nat) (map Delta two_calls @ [Done]) (responses_new ''r'' ''m'' 0))
   in \<exists>p. read_frames (frames_codec frames) OpenAiResponses frames = (True, p) \<and> pm_terminal p \<and>
     hd_text (hear_all (pm_sent p)) = ''Hi'' \<and> map snd (hd_calls (hear_all (pm_sent p))) = [(''c2'', ''g'', ''[]''), (''c1'', ''f'', ''{}'')] \<and>
     hd_usage (hear_all (pm_sent p)) = Some (5, 7) \<and>
     hd_stop (hear_all (pm_sent p)) = Some ToolUse"
  unfolding Let_def
  using responses_format_carries_the_generation
    [OF two_calls_heard(3,4) refl frames_codec_reads refl, of show_nat "''r''" "''m''" 0]
  by (simp add: two_calls_heard(1) heard_stop_def stopped_short_def)

end
