(* ===== verification/Wire_Requests.thy ===== *)
theory Wire_Requests
  imports Caller_Wires Responses_Relay
begin

section \<open>What an accepted call holds\<close>

text \<open>
  The checks at the door of \<open>Caller_Wires\<close> against what they are for: the history check is exactly that every tool
  call can be written to any provider and every tool result answers an earlier call; whatever format a call came in,
  what is routed is within the bounds; the system prompt is taken as the code takes it; and an answer sent back as
  history is read as the answer it was.
\<close>

subsection \<open>Histories\<close>

definition well_called :: "json_codec \<Rightarrow> json \<Rightarrow> bool" where
  "well_called J call =
     (json_str_at call [''id''] \<noteq> None \<and> json_str_at call [''function'', ''name''] \<noteq> None \<and>
      (case json_str_at call [''function'', ''arguments''] of
         Some arguments \<Rightarrow> (case parse_json J arguments of Inr _ \<Rightarrow> True | Inl _ \<Rightarrow> False)
       | None \<Rightarrow> False))"

definition calls_made :: "message list \<Rightarrow> string set" where
  "calls_made messages = {i. \<exists>m \<in> set messages. \<exists>call \<in> set (calls_of m). json_str_at call [''id''] = Some i}"

text \<open>Every call is well formed, and a tool result at a place answers a call of the messages before it.\<close>

definition history_sound :: "json_codec \<Rightarrow> message list \<Rightarrow> bool" where
  "history_sound J messages =
     (\<forall>n < length messages.
        list_all (well_called J) (calls_of (messages ! n)) \<and>
        (msg_role (messages ! n) = ''tool'' \<longrightarrow>
           (\<exists>i. msg_tool_call_id (messages ! n) = Some i \<and> i \<in> calls_made (take n messages))))"

lemma history_call_iff:
  "(\<exists>i. history_call J pos call = Inr i) \<longleftrightarrow> well_called J call"
  "history_call J pos call = Inr i \<Longrightarrow> json_str_at call [''id''] = Some i"
  by (auto simp: history_call_def well_called_def Let_def split: option.splits sum.splits if_splits)

lemma history_calls_iff:
  "(\<exists>called'. history_calls J pos calls called = Inr called') \<longleftrightarrow> list_all (well_called J) calls"
  "history_calls J pos calls called = Inr called' \<Longrightarrow>
     called' = called \<union> {i. \<exists>call \<in> set calls. json_str_at call [''id''] = Some i}"
proof (induction calls arbitrary: called)
  case (Cons call calls)
  {
    case 1
    show ?case using Cons.IH(1) history_call_iff(1) [of J pos call]
      by (auto split: sum.splits)
  next
    case 2
    then show ?case using Cons.IH(2) history_call_iff(2) [of J pos call] by (fastforce split: sum.splits)
  }
qed auto

lemma history_result_iff:
  "history_result pos m called = Inr () \<longleftrightarrow>
     (msg_role m = ''tool'' \<longrightarrow> (\<exists>i. msg_tool_call_id m = Some i \<and> i \<in> called))"
  by (auto simp: history_result_def split: option.splits)

lemma calls_made_Cons:
  "calls_made (m # ms) = {i. \<exists>call \<in> set (calls_of m). json_str_at call [''id''] = Some i} \<union> calls_made ms"
  by (auto simp: calls_made_def)

lemma history_from_iff:
  "history_from J pos called messages = Inr () \<longleftrightarrow>
     (\<forall>n < length messages.
        list_all (well_called J) (calls_of (messages ! n)) \<and>
        (msg_role (messages ! n) = ''tool'' \<longrightarrow>
           (\<exists>i. msg_tool_call_id (messages ! n) = Some i \<and> i \<in> called \<union> calls_made (take n messages))))"
proof (induction messages arbitrary: pos called)
  case (Cons m ms)
  let ?new = "{i. \<exists>call \<in> set (calls_of m). json_str_at call [''id''] = Some i}"
  have step: "history_from J pos called (m # ms) = Inr () \<longleftrightarrow>
      history_result pos m called = Inr () \<and> list_all (well_called J) (calls_of m) \<and>
      history_from J (Suc pos) (called \<union> ?new) ms = Inr ()"
    using history_calls_iff(1) [of J pos "calls_of m" called] history_calls_iff(2) [of J pos "calls_of m" called]
    by (fastforce split: sum.splits)
  show ?case
    unfolding step Cons.IH history_result_iff
    by (auto simp: All_less_Suc2 calls_made_Cons) (auto simp: calls_made_def)
qed simp

lemma history_check_core: "validate_history_tool_calls J messages = Inr () \<longleftrightarrow> history_sound J messages"
  by (simp add: validate_history_tool_calls_def history_from_iff history_sound_def)

text \<open>
  C35. The one history check of the three formats refuses exactly the histories a provider could not be sent:
  it passes when and only when every tool call carries an id, a name and arguments that parse as JSON, and every
  tool result names a call that an earlier message carries.
\<close>

theorem history_check_is_exact: "validate_history_tool_calls J messages = Inr () \<longleftrightarrow> history_sound J messages"
  by (rule history_check_core)

subsection \<open>Bounds\<close>

lemma bind_result_InrE:
  assumes "bind_result r f = Inr y"
  obtains x where "r = Inr x" and "f x = Inr y"
  using assms by (cases r) (auto simp: bind_result_def)

definition temperature_ok :: "f64 option \<Rightarrow> bool" where
  "temperature_ok temperature =
     (case temperature of
        Some t \<Rightarrow> f64_is_finite t \<and> f64_ge t MIN_TEMPERATURE \<and> f64_ge MAX_TEMPERATURE t
      | None \<Rightarrow> True)"

definition within_bounds :: "inbound_call \<Rightarrow> bool" where
  "within_bounds call =
     (ic_model call \<noteq> [] \<and> trim (ic_model call) = ic_model call \<and>
      rq_max_tokens (ic_request call) \<noteq> Some 0 \<and> temperature_ok (rq_temperature (ic_request call)))"

lemma validate_ok:
  "validate model max_tokens temperature = Inr () \<longleftrightarrow>
     trim model \<noteq> [] \<and> max_tokens \<noteq> Some 0 \<and> temperature_ok temperature"
  by (auto simp: validate_def temperature_ok_def split: option.splits)

lemma stated_model_trimmed: "stated_model raw = Inr model \<Longrightarrow> trim model = model"
  by (auto simp: stated_model_def split: option.splits)

lemma anthropic_request_ok:
  assumes "anthropic_request J body = Inr call"
  shows "within_bounds call \<and> rq_messages (ic_request call) \<noteq> [] \<and> rq_max_tokens (ic_request call) \<noteq> None \<and>
    history_sound J (rq_messages (ic_request call))"
  using assms unfolding anthropic_request_def
  by (elim bind_result_InrE)
     (auto simp: within_bounds_def inbound_def validate_ok history_check_core dest: stated_model_trimmed
       split: if_splits elim!: bind_result_InrE)

lemma responses_request_ok:
  assumes "responses_request J body = Inr call"
  shows "within_bounds call \<and> rq_messages (ic_request call) \<noteq> [] \<and>
    history_sound J (rq_messages (ic_request call))"
  using assms unfolding responses_request_def
  by (elim bind_result_InrE)
     (auto simp: within_bounds_def inbound_def validate_ok history_check_core dest: stated_model_trimmed
       split: if_splits elim!: bind_result_InrE)

lemma chat_call_ok:
  assumes "chat_call J req = Inr call"
  shows "within_bounds call \<and> (rq_response_schema (ic_request call) \<noteq> None \<longrightarrow> \<not> ic_stream call)"
  using assms unfolding chat_call_def
  by (auto simp: within_bounds_def validate_ok Let_def ok_or_def split: if_splits option.splits prod.splits
      elim!: bind_result_InrE)

text \<open>
  Whichever format a call arrived in, what is routed is within the gateway's bounds: a model named without
  blanks around it, an answer length of at least one where one is stated, a finite temperature between zero and
  two. A Messages or Responses call has at least one message and a history every provider can be sent, a
  Messages call also states its length, and a chat answer held to a schema is never streamed.
\<close>

theorem routed_calls_are_bounded:
  "(case anthropic_request J body of
      Inr call \<Rightarrow> within_bounds call \<and> rq_messages (ic_request call) \<noteq> [] \<and> rq_max_tokens (ic_request call) \<noteq> None \<and>
        history_sound J (rq_messages (ic_request call))
    | Inl _ \<Rightarrow> True) \<and>
   (case responses_request J body of
      Inr call \<Rightarrow> within_bounds call \<and> rq_messages (ic_request call) \<noteq> [] \<and>
        history_sound J (rq_messages (ic_request call))
    | Inl _ \<Rightarrow> True) \<and>
   (case chat_call J req of
      Inr call \<Rightarrow> within_bounds call \<and> (rq_response_schema (ic_request call) = None \<or> ic_stream call = False)
    | Inl _ \<Rightarrow> True)"
  using anthropic_request_ok [of J body] responses_request_ok [of J body] chat_call_ok [of J req]
  by (auto split: sum.splits)

subsection \<open>The system prompt of a chat\<close>

definition text_system :: "message \<Rightarrow> bool" where
  "text_system m = (msg_role m = ''system'' \<and> as_str (msg_content m) \<noteq> None)"

lemma split_system_found: "split_system_from (Some t) ms = (Some t, ms)"
  by (induction ms) auto

text \<open>
  The system prompt of a chat request is the first system message whose content is text. What follows it
  travels unchanged; of what comes before it every system message is dropped, so a system prompt stated as
  content parts reaches no provider.
\<close>

theorem system_prompt_is_the_first_text:
  "split_system_message messages =
     (let before = filter (\<lambda>m. msg_role m \<noteq> ''system'') (takeWhile (\<lambda>m. \<not> text_system m) messages)
      in (case dropWhile (\<lambda>m. \<not> text_system m) messages of
            [] \<Rightarrow> (None, before)
          | m # later \<Rightarrow> (as_str (msg_content m), before @ later)))"
proof -
  have "split_system_from None ms =
     (let before = filter (\<lambda>m. msg_role m \<noteq> ''system'') (takeWhile (\<lambda>m. \<not> text_system m) ms)
      in (case dropWhile (\<lambda>m. \<not> text_system m) ms of
            [] \<Rightarrow> (None, before)
          | m # later \<Rightarrow> (as_str (msg_content m), before @ later)))" for ms
  proof (induction ms)
    case (Cons m ms)
    show ?case
    proof (cases "text_system m")
      case True
      then have "msg_role m = ''system''" "\<exists>t. as_str (msg_content m) = Some t" by (auto simp: text_system_def)
      with True show ?thesis by (auto simp: split_system_found)
    next
      case False
      then have "msg_role m = ''system'' \<Longrightarrow> as_str (msg_content m) = None" by (simp add: text_system_def)
      with False Cons.IH show ?thesis
        by (cases "dropWhile (\<lambda>m. \<not> text_system m) ms") (simp_all add: Let_def del: dropWhile_eq_Nil_conv)
    qed
  qed simp
  then show ?thesis by (simp add: split_system_message_def)
qed

subsection \<open>An answer sent back\<close>

lemma type_of_block_obj [simp]: "type_of_block (json_obj kvs) = Option.bind (map_of (rev kvs) ''type'') as_str"
  by (simp add: type_of_block_def)

lemma block_text_obj [simp]:
  "block_text (json_obj kvs) kind name =
     ok_or (''a `'' @ kind @ ''` content block carries no `'' @ name @ ''` text'') (Option.bind (map_of (rev kvs) name) as_str)"
  by (simp add: block_text_def)

text \<open>The input a call's arguments are sent as: nothing stated is the empty object.\<close>

definition call_input :: "json_codec \<Rightarrow> tool_call \<Rightarrow> (string, json) result" where
  "call_input J call =
     (if trim (tc_arguments call) = [] then Inr (json_obj []) else parse_json J (trim (tc_arguments call)))"

definition sent_call :: "json_codec \<Rightarrow> tool_call \<Rightarrow> json" where
  "sent_call J call =
     json_function_call (tc_id call) (tc_name call)
       (case call_input J call of Inr input \<Rightarrow> show_json J input | Inl _ \<Rightarrow> [])"

lemma tool_use_eq:
  "anthropic_tool_use J call =
     (case call_input J call of
        Inl err \<Rightarrow> Inl (''the model called '' @ tc_name call @ '' with arguments that are not JSON ('' @ err @ ''): '' @
                      trim (tc_arguments call))
      | Inr input \<Rightarrow> Inr (json_obj [(''type'', JStr ''tool_use''), (''id'', JStr (tc_id call)),
                                 (''name'', JStr (tc_name call)), (''input'', input)]))"
  by (simp add: anthropic_tool_use_def call_input_def Let_def)

lemma tool_uses_read:
  "collect_results (map (anthropic_tool_use J) calls) = Inr uses \<Longrightarrow>
     content_blocks J uses c = Inr (c\<lparr>ci_tool_calls := ci_tool_calls c @ map (sent_call J) calls\<rparr>)"
proof (induction calls arbitrary: uses c)
  case (Cons call calls)
  from Cons.prems obtain input rest where input: "call_input J call = Inr input"
    and rest: "collect_results (map (anthropic_tool_use J) calls) = Inr rest"
    and uses: "uses = json_obj [(''type'', JStr ''tool_use''), (''id'', JStr (tc_id call)),
       (''name'', JStr (tc_name call)), (''input'', input)] # rest"
    by (auto simp: tool_use_eq [of J call] split: sum.splits)
  show ?case
    using Cons.IH [OF rest] input by (simp add: uses content_block_def ok_or_def bind_result_def sent_call_def)
qed simp

text \<open>
  An Anthropic answer sent back as history is read as the answer it was: its text, and its calls in order
  with the ids, names and arguments the caller was shown, with no image part and no tool result in it.
\<close>

theorem messages_answer_is_read_back:
  assumes "anthropic_response J message_id model response = Inr answer"
  shows "\<exists>content. json_get answer ''content'' = Some content \<and>
    anthropic_content_in J content =
      Inr (JStr (mr_content response), nonempty (map (sent_call J) (tool_calls_from_response response)), [])"
proof -
  let ?text = "if mr_content response \<noteq> []
      then [json_obj [(''type'', JStr ''text''), (''text'', JStr (mr_content response))]] else []"
  from assms obtain uses where
    uses: "collect_results (map (anthropic_tool_use J) (tool_calls_from_response response)) = Inr uses"
    and content: "json_get answer ''content'' = Some (JArr (?text @ uses))"
    unfolding anthropic_response_def Let_def by (elim bind_result_InrE) (auto split: option.splits)
  have "content_blocks J (?text @ uses) content_empty =
      Inr \<lparr>ci_text = mr_content response,
        ci_parts = (if mr_content response \<noteq> [] then [json_text_part (mr_content response)] else []),
        ci_tool_calls = map (sent_call J) (tool_calls_from_response response), ci_tool_messages = []\<rparr>"
    using tool_uses_read [OF uses] by (simp add: content_block_def content_empty_def ok_or_def bind_result_def)
  then show ?thesis
    using content by (auto simp: anthropic_content_in_def bind_result_def has_images_def json_text_part_def nonempty_def)
qed

lemma item_text_obj [simp]:
  "item_text (json_obj kvs) kind name =
     ok_or (''a `'' @ kind @ ''` item carries no `'' @ name @ ''` text'') (Option.bind (map_of (rev kvs) name) as_str)"
  by (simp add: item_text_def)

definition answer_messages :: "model_response \<Rightarrow> message list" where
  "answer_messages response =
     (if mr_content response \<noteq> []
      then [\<lparr>msg_role = ''assistant'', msg_content = JStr (mr_content response), msg_tool_call_id = None,
             msg_name = None, msg_tool_calls = None\<rparr>] else []) @
     map (\<lambda>call. call_message (tc_id call) (tc_name call) (tc_arguments call)) (tool_calls_from_response response)"

lemma responses_outputs_read:
  "input_items J index (responses_outputs uuid n calls) =
     Inr (map (\<lambda>call. call_message (tc_id call) (tc_name call) (tc_arguments call)) calls)"
proof (induction calls arbitrary: index n)
  case (Cons call calls)
  then show ?case by (simp add: input_item_def ok_or_def bind_result_def)
qed simp

lemma calls_of_call_message [simp]: "calls_of (call_message i name arguments) = [json_function_call i name arguments]"
  by (simp add: calls_of_def call_message_def)

lemma well_called_function_call:
  "well_called J (json_function_call i name arguments) \<longleftrightarrow> (\<exists>v. parse_json J arguments = Inr v)"
  by (auto simp: well_called_def json_function_call_def json_str_at_def json_at.simps split: sum.splits)

lemma history_sound_calls:
  assumes "\<forall>m \<in> set messages. msg_role m \<noteq> ''tool''"
  shows "history_sound J messages \<longleftrightarrow> (\<forall>m \<in> set messages. list_all (well_called J) (calls_of m))"
  using assms by (auto simp: history_sound_def all_set_conv_all_nth)

lemma answer_messages_called:
  "(\<forall>m \<in> set (answer_messages response). list_all (well_called J) (calls_of m)) \<longleftrightarrow>
     list_all (\<lambda>call. \<not> isl (parse_json J (tc_arguments call))) (tool_calls_from_response response)"
proof -
  have plain: "calls_of \<lparr>msg_role = role, msg_content = content, msg_tool_call_id = i, msg_name = name,
      msg_tool_calls = None\<rparr> = []" for role content i name
    by (simp add: calls_of_def)
  have "(\<exists>v. x = Inr v) \<longleftrightarrow> \<not> isl x" for x :: "(string, json) result" by (cases x) auto
  then show ?thesis
    by (simp add: answer_messages_def ball_Un plain well_called_function_call list_all_iff)
qed

text \<open>
  A Responses answer sent back as input is read as the answer it was, its text and its calls with their ids,
  names and arguments to the letter; and it passes the history check exactly when every call's arguments are
  JSON. A call answered with empty arguments, which a Messages answer shows as a call without arguments, is not
  accepted back.
\<close>

theorem responses_answer_is_read_back:
  "\<exists>items. json_get (responses_response uuid response_id model created response) ''output'' = Some (JArr items) \<and>
     input_items J 0 items = Inr (answer_messages response) \<and>
     (validate_history_tool_calls J (answer_messages response) = Inr () \<longleftrightarrow>
       list_all (\<lambda>call. \<not> isl (parse_json J (tc_arguments call))) (tool_calls_from_response response))"
proof -
  let ?text = "if mr_content response \<noteq> []
     then [json_obj [(''type'', JStr ''message''), (''id'', JStr (''msg_'' @ uuid 0)), (''status'', JStr ''completed''),
             (''role'', JStr ''assistant''), (''content'', JArr [output_text (mr_content response)])]] else []"
  let ?items = "?text @ responses_outputs uuid (if mr_content response \<noteq> [] then 1 else 0)
     (tool_calls_from_response response)"
  have "json_get (responses_response uuid response_id model created response) ''output'' = Some (JArr ?items)"
    by (auto simp: responses_response_def Let_def split: option.splits)
  moreover have "input_items J 0 ?items = Inr (answer_messages response)"
    by (simp add: answer_messages_def responses_outputs_read input_item_def message_content_def message_part_def
        output_text_def ok_or_def bind_result_def has_images_def json_text_part_def)
  moreover have "\<forall>m \<in> set (answer_messages response). msg_role m \<noteq> ''tool''"
    by (auto simp: answer_messages_def call_message_def)
  then have "validate_history_tool_calls J (answer_messages response) = Inr () \<longleftrightarrow>
       list_all (\<lambda>call. \<not> isl (parse_json J (tc_arguments call))) (tool_calls_from_response response)"
    unfolding history_check_core by (simp add: history_sound_calls answer_messages_called)
  ultimately show ?thesis by blast
qed

subsection \<open>Concrete answers\<close>

definition calling_answer :: model_response where
  "calling_answer =
     (answered ''m'' ''Hi'' None 0 (Some [\<lparr>tc_id = ''c1'', tc_call_type = ''function'', tc_name = ''f'', tc_arguments = []\<rparr>]))"

theorem messages_answer_is_read_back_witness:
  "\<exists>answer content. anthropic_response (frames_codec []) ''r'' ''m'' calling_answer = Inr answer \<and>
     json_get answer ''content'' = Some content \<and>
     anthropic_content_in (frames_codec []) content =
       Inr (JStr ''Hi'', Some [json_function_call ''c1'' ''f'' (show_json (frames_codec []) (json_obj []))], [])"
proof -
  have "\<exists>answer. anthropic_response (frames_codec []) ''r'' ''m'' calling_answer = Inr answer"
    by (simp add: anthropic_response_def calling_answer_def answered_def tool_calls_from_response_def
        anthropic_tool_use_def trim_def bind_result_def)
  then obtain answer where answer: "anthropic_response (frames_codec []) ''r'' ''m'' calling_answer = Inr answer" ..
  from messages_answer_is_read_back [OF this] answer show ?thesis
    by (simp add: calling_answer_def answered_def tool_calls_from_response_def nonempty_def sent_call_def
        call_input_def trim_def)
qed

end
