(* ===== verification/Inference_Routes.thy ===== *)
theory Inference_Routes
  imports Provider_Address Fallible_Steps
begin

section \<open>The route registry document\<close>

text \<open>
  \<open>src/core/inference_routes/document.rs\<close>, \<open>resolution.rs\<close> and the reading half of \<open>categories.rs\<close>: the typed
  shape of the operator's registry file, the refusals the file has to survive, what one alias resolves to and
  which endpoints may answer it, and the membership of model categories.

  The file is a \<open>route_file\<close>: what \<open>symlink_metadata\<close> and \<open>read_to_string\<close> see. \<open>serde_json\<close> is the record
  \<open>route_crates\<close>: \<open>rc_tree\<close> is the document as the typed reader walks it (members in the order they are
  written, repeated ones included), \<open>rc_value\<close> the untyped \<open>Value\<close> (sorted members), \<open>rc_pretty\<close> the printer, the
  error fields its texts, and \<open>rc_visits\<close> the order a \<open>HashMap\<close> hands out its entries, which only decides which of
  several broken routes is named. A \<open>HashMap\<close> itself is the ordered list of its entries.
\<close>

datatype route_file =
    Absent
  | Unseen string
  | Irregular
  | ForeignOwner
  | SharedMode
  | Unreadable string
  | Body string

record route_crates =
  rc_tree :: "string \<Rightarrow> json option"
  rc_value :: "string \<Rightarrow> (string, json) result"
  rc_pretty :: "json \<Rightarrow> (string, string) result"
  rc_tree_error :: "string \<Rightarrow> string"
  rc_value_error :: "json \<Rightarrow> string"
  rc_absent :: string
  rc_visits :: "(string \<times> string) list \<Rightarrow> (string \<times> string) list"

subsection \<open>The typed shape\<close>

record route_endpoint =
  ep_host :: string
  ep_port :: "16 word"

record route_deployment =
  dp_name :: string
  dp_adapters :: "string list"
  dp_endpoint :: route_endpoint

record category =
  ct_providers :: "string list"
  ct_routes :: "string list"
  ct_terms :: "string list"

type_synonym categories = "(string, category) btmap"

record route_registry =
  rg_deployments :: "route_deployment list"
  rg_routes :: "(string, string) btmap"
  rg_categories :: categories

text \<open>
  A derived \<open>Deserialize\<close> of a struct: an object whose known members are written at most once
  (under \<open>deny_unknown_fields\<close>, nothing else), or an array of the members in their order.
\<close>

fun struct_members :: "bool \<Rightarrow> string list \<Rightarrow> json \<Rightarrow> (string \<Rightarrow> json option) option" where
  "struct_members deny names (JObj kvs) =
     (if list_all (\<lambda>n. length (filter (\<lambda>(k, _). k = n) kvs) \<le> 1) names
           \<and> (deny \<longrightarrow> list_all (\<lambda>(k, _). k \<in> set names) kvs)
      then Some (map_of (filter (\<lambda>(k, _). k \<in> set names) kvs)) else None)"
| "struct_members deny names (JArr vs) =
     (if length vs \<le> length names then Some (map_of (zip names vs)) else None)"
| "struct_members deny names _ = None"

text \<open>A member with \<open>serde(default)\<close>: absent is the default, present has to be of its type.\<close>

definition defaulted :: "'a \<Rightarrow> (json \<Rightarrow> 'a option) \<Rightarrow> json option \<Rightarrow> 'a option" where
  "defaulted d f v = (case v of None \<Rightarrow> Some d | Some x \<Rightarrow> f x)"

fun list_of :: "(json \<Rightarrow> 'a option) \<Rightarrow> json \<Rightarrow> 'a list option" where
  "list_of f (JArr vs) = those (map f vs)"
| "list_of f _ = None"

text \<open>A map's entries, the last of a repeated key kept.\<close>

definition entries_of :: "(string \<times> 'a) list \<Rightarrow> (string, 'a) btmap" where
  "entries_of kvs = foldl (\<lambda>m (k, v). bt_insert k v m) [] kvs"

fun map_from :: "(json \<Rightarrow> 'a option) \<Rightarrow> json \<Rightarrow> (string, 'a) btmap option" where
  "map_from f (JObj kvs) =
     map_option entries_of (those (map (\<lambda>(k, v). map_option (Pair k) (f v)) kvs))"
| "map_from f _ = None"

fun u16_of :: "json \<Rightarrow> 16 word option" where
  "u16_of (JInt n) = (if 0 \<le> n \<and> n < 65536 then Some (word_of_int n) else None)"
| "u16_of _ = None"

definition endpoint_of :: "json \<Rightarrow> route_endpoint option" where
  "endpoint_of v =
     Option.bind (struct_members False [''host'', ''port''] v) (\<lambda>m.
     Option.bind (Option.bind (m ''host'') as_str) (\<lambda>host.
     map_option (\<lambda>port. \<lparr>ep_host = host, ep_port = port\<rparr>) (Option.bind (m ''port'') u16_of)))"

definition adapter_of :: "json \<Rightarrow> string option" where
  "adapter_of v = Option.bind (struct_members False [''name''] v) (\<lambda>m. Option.bind (m ''name'') as_str)"

definition deployment_of :: "json \<Rightarrow> route_deployment option" where
  "deployment_of v =
     Option.bind (struct_members False [''name'', ''adapters'', ''endpoint''] v) (\<lambda>m.
     Option.bind (Option.bind (m ''name'') as_str) (\<lambda>name.
     Option.bind (defaulted [] (list_of adapter_of) (m ''adapters'')) (\<lambda>adapters.
     map_option (\<lambda>e. \<lparr>dp_name = name, dp_adapters = adapters, dp_endpoint = e\<rparr>)
       (Option.bind (m ''endpoint'') endpoint_of))))"

definition category_of :: "json \<Rightarrow> category option" where
  "category_of v =
     Option.bind (struct_members True [''providers'', ''routes'', ''terms''] v) (\<lambda>m.
     Option.bind (defaulted [] (list_of as_str) (m ''providers'')) (\<lambda>providers.
     Option.bind (defaulted [] (list_of as_str) (m ''routes'')) (\<lambda>routes.
     map_option (\<lambda>terms. \<lparr>ct_providers = providers, ct_routes = routes, ct_terms = terms\<rparr>)
       (defaulted [] (list_of as_str) (m ''terms'')))))"

definition registry_of :: "json \<Rightarrow> route_registry option" where
  "registry_of v =
     Option.bind (struct_members False [''deployments'', ''routes'', ''categories''] v) (\<lambda>m.
     Option.bind (defaulted [] (list_of deployment_of) (m ''deployments'')) (\<lambda>deployments.
     Option.bind (defaulted [] (map_from as_str) (m ''routes'')) (\<lambda>routes.
     map_option (\<lambda>cs. \<lparr>rg_deployments = deployments, rg_routes = routes, rg_categories = cs\<rparr>)
       (defaulted [] (map_from category_of) (m ''categories'')))))"

definition SCHEMA_VERSION :: int where
  "SCHEMA_VERSION = 1"

subsection \<open>Reading the file\<close>

definition IRREGULAR :: string where
  "IRREGULAR = ''inference routes must be a regular non-symlink file''"

fun read_body :: "route_crates \<Rightarrow> route_file \<Rightarrow> (string, string) result" where
  "read_body C Absent = Inl (''cannot read inference routes metadata: '' @ rc_absent C)"
| "read_body C (Unseen err) = Inl (''cannot read inference routes metadata: '' @ err)"
| "read_body C Irregular = Inl IRREGULAR"
| "read_body C ForeignOwner = Inl ''inference routes must be owned by the Brama user''"
| "read_body C SharedMode = Inl ''inference routes must not be accessible by group or other''"
| "read_body C (Unreadable err) = Inl (''cannot read inference routes: '' @ err)"
| "read_body C (Body text) = Inr text"

text \<open>\<open>map_err(|error| format!("...: {error}"))\<close>.\<close>

definition prefixed :: "string \<Rightarrow> (string, 'a) result \<Rightarrow> (string, 'a) result" where
  "prefixed words r = (case r of Inl err \<Rightarrow> Inl (words @ err) | Inr x \<Rightarrow> Inr x)"

definition INVALID :: string where
  "INVALID = ''invalid inference routes: ''"

definition read_registry :: "route_crates \<Rightarrow> route_file \<Rightarrow> (string, route_registry) result" where
  "read_registry C file =
     bind_result (read_body C file) (\<lambda>body.
       ok_or (INVALID @ rc_tree_error C body) (Option.bind (rc_tree C body) registry_of))"

fun route_file_exists :: "route_file \<Rightarrow> (string, bool) result" where
  "route_file_exists Absent = Inr False"
| "route_file_exists (Unseen err) = Inl (''cannot read inference routes metadata: '' @ err)"
| "route_file_exists Irregular = Inl IRREGULAR"
| "route_file_exists _ = Inr True"

subsection \<open>Destinations\<close>

definition in_quotes :: "string \<Rightarrow> string" where
  "in_quotes s = [CHR 0x27] @ s @ [CHR 0x27]"

definition BEST_ALIAS :: string where
  "BEST_ALIAS = ''best''"

definition TAILSCALE_FIRST_OCTET :: nat where
  "TAILSCALE_FIRST_OCTET = 100"

text \<open>\<open>Ipv4Addr::is_loopback\<close>, or the first two octets of a Tailscale address.\<close>

fun safe_octets :: "nat option list \<Rightarrow> bool" where
  "safe_octets [Some a, Some b, Some c, Some d] =
     (a = 127 \<or> (a = TAILSCALE_FIRST_OCTET \<and> 64 \<le> b \<and> b < 128))"
| "safe_octets _ = False"

definition safe_inference_host :: "string \<Rightarrow> bool" where
  "safe_inference_host value = safe_octets (map octet (split_on (CHR ''.'') value))"

fun_cases safe_octetsE: "safe_octets os"

definition deployment_for_model :: "route_registry \<Rightarrow> string \<Rightarrow> (string, route_deployment) result" where
  "deployment_for_model r model =
     (case filter (\<lambda>d. dp_name d = model \<or> model \<in> set (dp_adapters d)) (rg_deployments r) of
        [] \<Rightarrow> Inl (''unknown local inference model '' @ in_quotes model)
      | [d] \<Rightarrow> Inr d
      | _ \<Rightarrow> Inl (''ambiguous local inference model '' @ in_quotes model))"

definition safe_endpoint :: "route_deployment \<Rightarrow> bool" where
  "safe_endpoint d = (safe_inference_host (ep_host (dp_endpoint d)) \<and> ep_port (dp_endpoint d) \<noteq> 0)"

definition resolved_destination :: "route_registry \<Rightarrow> string \<Rightarrow> (string, string) result" where
  "resolved_destination r destination =
     (if destination = BEST_ALIAS then Inr destination
      else if CHR ''/'' \<in> set destination then Inr destination
      else bind_result (deployment_for_model r destination) (\<lambda>d.
        if \<not> safe_endpoint d then
          Inl (''inference deployment '' @ in_quotes destination
            @ '' has no safe local or Tailscale endpoint'')
        else Inr (''local-openai/'' @ destination)))"

definition resolved_routes :: "route_crates \<Rightarrow> route_registry \<Rightarrow> (string, (string, string) btmap) result" where
  "resolved_routes C r =
     bind_result (collect_results (map (\<lambda>(alias, destination).
         bind_result (resolved_destination r destination) (\<lambda>to. Inr (alias, to))) (rc_visits C (rg_routes r))))
       (\<lambda>found. Inr (entries_of found))"

definition resolved :: "route_crates \<Rightarrow> route_file \<Rightarrow> (string, (string, string) btmap) result" where
  "resolved C file = bind_result (read_registry C file) (resolved_routes C)"

definition base_url :: "route_crates \<Rightarrow> route_file \<Rightarrow> string \<Rightarrow> (string, string) result" where
  "base_url C file model_name =
     bind_result (read_registry C file) (\<lambda>r.
     bind_result (deployment_for_model r model_name) (\<lambda>d.
       if \<not> safe_endpoint d then
         Inl (''inference model '' @ in_quotes model_name
           @ '' has no safe local or Tailscale endpoint'')
       else Inr (''http://'' @ ep_host (dp_endpoint d) @ '':'' @ show_nat (unat (ep_port (dp_endpoint d))))))"

definition validate_routes :: "route_crates \<Rightarrow> route_file \<Rightarrow> (string, unit) result" where
  "validate_routes C file = bind_result (resolved C file) (\<lambda>_. Inr ())"

definition resolve :: "route_crates \<Rightarrow> route_file \<Rightarrow> string \<Rightarrow> (string, string option) result" where
  "resolve C file alias = bind_result (resolved C file) (\<lambda>routes. Inr (bt_get routes alias))"

subsection \<open>Categories\<close>

text \<open>\<open>str::contains\<close>.\<close>

fun str_contains :: "string \<Rightarrow> string \<Rightarrow> bool" where
  "str_contains [] t = (t = [])"
| "str_contains (c # s) t = (take (length t) (c # s) = t \<or> str_contains s t)"

definition category_contains :: "category \<Rightarrow> registry_model \<Rightarrow> bool" where
  "category_contains c m =
     (list_ex (\<lambda>p. eq_ignore_ascii_case p (rm_provider_id m)) (ct_providers c)
      \<or> list_ex (\<lambda>r. eq_ignore_ascii_case r (rm_route_id m)) (ct_routes c)
      \<or> (ct_terms c \<noteq> [] \<and>
         list_ex (\<lambda>t. str_contains (map ascii_lower (rm_route_id m)) t
                     \<or> str_contains (map ascii_lower (rm_display_name m)) t) (ct_terms c)))"

definition normalized :: "category \<Rightarrow> category" where
  "normalized c =
     \<lparr>ct_providers = map (\<lambda>v. map ascii_lower (trim v)) (ct_providers c),
      ct_routes = map trim (ct_routes c),
      ct_terms = map (\<lambda>v. map ascii_lower (trim v)) (ct_terms c)\<rparr>"

text \<open>A loop whose body may return an error: the first one.\<close>

fun each_ok :: "('a \<Rightarrow> ('e, unit) result) \<Rightarrow> 'a list \<Rightarrow> ('e, unit) result" where
  "each_ok f [] = Inr ()"
| "each_ok f (x # xs) = bind_result (f x) (\<lambda>_. each_ok f xs)"

definition validate_category :: "category \<Rightarrow> string \<Rightarrow> (string, unit) result" where
  "validate_category c name =
     (if ct_providers c = [] \<and> ct_routes c = [] \<and> ct_terms c = [] then
        Inl (''model category '' @ in_quotes name @ '' declares no providers, routes or terms'')
      else
        bind_result (each_ok (\<lambda>p. if valid_provider_id p then Inr () else
          Inl (''model category '' @ in_quotes name @ '' names an invalid provider '' @ in_quotes p)) (ct_providers c))
        (\<lambda>_. bind_result (each_ok (\<lambda>r. if provider_id_from_route r \<noteq> None then Inr () else
          Inl (''model category '' @ in_quotes name @ '' names '' @ in_quotes r
            @ '', which is not a provider/model route'')) (ct_routes c))
        (\<lambda>_. each_ok (\<lambda>t. if t \<noteq> [] then Inr () else
          Inl (''model category '' @ in_quotes name @ '' declares an empty term'')) (ct_terms c))))"

definition is_ascii_lowercase :: "char \<Rightarrow> bool" where
  "is_ascii_lowercase c = (let n = (of_char c :: nat) in 97 \<le> n \<and> n \<le> 122)"

definition valid_category_name :: "string \<Rightarrow> bool" where
  "valid_category_name v =
     (v \<noteq> [] \<and> list_all (\<lambda>c. is_ascii_lowercase c \<or> is_digit c \<or> c = CHR ''-'') v)"

definition bad_category_name :: "string \<Rightarrow> string" where
  "bad_category_name name =
     ''model category '' @ in_quotes name @ '' must be lowercase letters, digits and hyphens''"

definition validate_categories :: "categories \<Rightarrow> (string, unit) result" where
  "validate_categories cs =
     each_ok (\<lambda>(name, c). if \<not> valid_category_name name then Inl (bad_category_name name)
        else validate_category (normalized c) name) cs"

text \<open>The configured path's file, or none; a file that cannot be read declares nothing and is logged.\<close>

definition declared_categories :: "route_crates \<Rightarrow> route_file option \<Rightarrow> categories" where
  "declared_categories C configured =
     (case configured of
        None \<Rightarrow> []
      | Some file \<Rightarrow>
          (case read_registry C file of
             Inr r \<Rightarrow> entries_of (map (\<lambda>(name, c). (name, normalized c)) (rg_categories r))
           | Inl err \<Rightarrow> []))"

definition categories_for :: "categories \<Rightarrow> registry_model \<Rightarrow> string list" where
  "categories_for cs m = remdups_adj (sort (map fst (filter (\<lambda>(_, c). category_contains c m) cs)))"

definition declared_names :: "categories \<Rightarrow> string list" where
  "declared_names cs = map fst (entries_of (map (\<lambda>(name, _). (name, ())) cs))"

subsection \<open>Whole documents\<close>

definition check_destinations :: "route_crates \<Rightarrow> route_registry \<Rightarrow> (string, unit) result" where
  "check_destinations C r =
     each_ok (\<lambda>(_, destination). bind_result (resolved_destination r destination) (\<lambda>_. Inr ()))
       (rc_visits C (rg_routes r))"

definition route_snapshot :: "route_crates \<Rightarrow> route_file \<Rightarrow> (string, json) result" where
  "route_snapshot C file =
     bind_result (read_body C file) (\<lambda>body.
     bind_result (prefixed INVALID (rc_value C body)) (\<lambda>value.
     bind_result (ok_or (INVALID @ rc_value_error C value) (registry_of value)) (\<lambda>r.
     bind_result (check_destinations C r) (\<lambda>_.
     bind_result (validate_categories (rg_categories r)) (\<lambda>_. Inr value)))))"

fun check_deployments :: "route_deployment list \<Rightarrow> string set \<Rightarrow> (string, unit) result" where
  "check_deployments [] names = Inr ()"
| "check_deployments (d # ds) names =
     (if dp_name d = [] \<or> dp_name d \<in> names \<or> \<not> safe_endpoint d then
        Inl (''inference deployment '' @ in_quotes (dp_name d)
          @ '' is duplicated or has no safe local or Tailscale endpoint'')
      else check_deployments ds (insert (dp_name d) names))"

definition validate_document :: "route_crates \<Rightarrow> json \<Rightarrow> (string, unit) result" where
  "validate_document C value =
     bind_result (ok_or (INVALID @ rc_value_error C value) (registry_of value)) (\<lambda>r.
     bind_result (check_deployments (rg_deployments r) {}) (\<lambda>_.
     bind_result (check_destinations C r) (\<lambda>_. validate_categories (rg_categories r))))"

end
