(* ===== verification/Route_Edits.thy ===== *)
theory Route_Edits
  imports Inference_Routes
begin

section \<open>Edits of the route registry\<close>

text \<open>
  \<open>document.rs::write_registry\<close>, the two writers of \<open>categories.rs\<close>, \<open>writing/editing.rs\<close> and
  \<open>writing/importing.rs\<close>: each edit is a step on the registry's \<open>route_file\<close>. What the machine answers while one
  edit runs (the lock, the staging file's creation, writes, sync, re-reads, rename and removal, the directory) is
  the record \<open>route_site\<close>; an operation the machine refuses is \<open>Inl\<close> of its text. The lock is held throughout
  (\<open>held_beside\<close>), so an edit is one step.
\<close>

record route_site =
  rs_path :: string
  rs_parent :: bool
  rs_file_name :: bool
  rs_guard :: "(string, unit) result"
  rs_open :: "(string, unit) result"
  rs_write :: "(string, unit) result"
  rs_finish :: "(string, unit) result"
  rs_sync :: "(string, unit) result"
  rs_reread :: "nat \<Rightarrow> string option"
  rs_rename :: "(string, unit) result"
  rs_left :: "string option"
  rs_directory :: "(string, unit) result"

subsection \<open>The one write\<close>

definition failed_with :: "string \<Rightarrow> string option \<Rightarrow> string" where
  "failed_with err left = (case left of None \<Rightarrow> err | Some kept \<Rightarrow> err @ ''; '' @ kept)"

definition parent_of :: "route_site \<Rightarrow> (string, unit) result" where
  "parent_of site =
     (if rs_parent site then Inr ()
      else Inl (''inference routes path '' @ rs_path site @ '' names no file inside a directory''))"

definition ensure_parent :: "route_site \<Rightarrow> (string, unit) result" where
  "ensure_parent site =
     bind_result (parent_of site) (\<lambda>_. prefixed ''cannot create inference routes directory: '' (rs_directory site))"

text \<open>The \<open>n\<close>th read of the staged file, which is a regular file of its owner alone.\<close>

definition staged_file :: "route_site \<Rightarrow> string \<Rightarrow> nat \<Rightarrow> route_file" where
  "staged_file site text n = (case rs_reread site n of None \<Rightarrow> Body text | Some err \<Rightarrow> Unreadable err)"

definition stage_and_commit :: "route_crates \<Rightarrow> route_site \<Rightarrow> string \<Rightarrow> (string, route_file) result" where
  "stage_and_commit C site text =
     bind_result (prefixed ''cannot create route staging file: '' (rs_open site)) (\<lambda>_.
     bind_result (prefixed ''cannot write route staging file: '' (rs_write site)) (\<lambda>_.
     bind_result (prefixed ''cannot finish route staging file: '' (rs_finish site)) (\<lambda>_.
     bind_result (prefixed ''cannot sync route staging file: '' (rs_sync site)) (\<lambda>_.
     bind_result (validate_routes C (staged_file site (text @ [NL]) 0)) (\<lambda>_.
     bind_result (read_registry C (staged_file site (text @ [NL]) 1)) (\<lambda>r.
     bind_result (validate_categories (rg_categories r)) (\<lambda>_.
     bind_result (prefixed ''cannot commit inference routes: '' (rs_rename site)) (\<lambda>_.
       Inr (Body (text @ [NL]))))))))))"

definition write_registry :: "route_crates \<Rightarrow> route_site \<Rightarrow> json \<Rightarrow> (route_file, string, unit) step" where
  "write_registry C site value file =
     (case prefixed ''cannot encode inference routes: '' (rc_pretty C value) of
        Inl err \<Rightarrow> (Inl err, file)
      | Inr text \<Rightarrow>
          (case parent_of site of
             Inl err \<Rightarrow> (Inl err, file)
           | Inr _ \<Rightarrow>
               (if \<not> rs_file_name site then (Inl ''inference routes path has no safe file name'', file)
                else (case stage_and_commit C site text of
                        Inl err \<Rightarrow> (Inl (failed_with err (rs_left site)), file)
                      | Inr committed \<Rightarrow> (Inr (), committed)))))"

text \<open>What every writer does with the finished document: write it and answer it.\<close>

definition written :: "route_crates \<Rightarrow> route_site \<Rightarrow> json \<Rightarrow> (route_file, string, json) step" where
  "written C site value = bind_step (write_registry C site value) (\<lambda>_. ok_step value)"

subsection \<open>Edits of the document\<close>

definition NOT_AN_OBJECT :: string where
  "NOT_AN_OBJECT = ''inference routes must be a JSON object''"

fun as_object :: "string \<Rightarrow> json \<Rightarrow> (string, (string, json) btmap) result" where
  "as_object err (JObj kvs) = Inr kvs"
| "as_object err _ = Inl err"

text \<open>\<open>entry(name).or_insert_with(..)\<close>.\<close>

definition or_insert :: "string \<Rightarrow> json \<Rightarrow> (string, json) btmap \<Rightarrow> json" where
  "or_insert name absent document = (case bt_get document name of None \<Rightarrow> absent | Some v \<Rightarrow> v)"

definition with_member :: "string \<Rightarrow> string \<Rightarrow> string \<Rightarrow> json \<Rightarrow> json \<Rightarrow> (string, json) result" where
  "with_member member err key entry value =
     bind_result (as_object NOT_AN_OBJECT value) (\<lambda>document.
     bind_result (as_object err (or_insert member (JObj []) document)) (\<lambda>entries.
       Inr (JObj (bt_insert member (JObj (bt_insert key entry entries)) document))))"

definition ROUTES_NOT_AN_OBJECT :: string where
  "ROUTES_NOT_AN_OBJECT = ''inference routes.routes must be an object''"

definition update_route ::
  "route_crates \<Rightarrow> route_site \<Rightarrow> string \<Rightarrow> string \<Rightarrow> (route_file, string, json) step" where
  "update_route C site alias primary =
     bind_step (lift_step (rs_guard site)) (\<lambda>_.
     bind_step (read_step (route_snapshot C)) (\<lambda>value.
     bind_step (lift_step (with_member ''routes'' ROUTES_NOT_AN_OBJECT alias (JStr primary) value)) (\<lambda>edited.
       written C site edited)))"

definition without_route :: "string \<Rightarrow> json \<Rightarrow> (string, json) result" where
  "without_route alias value =
     bind_result (as_object NOT_AN_OBJECT value) (\<lambda>document.
     bind_result (case bt_get document ''routes'' of
         None \<Rightarrow> Inl ROUTES_NOT_AN_OBJECT | Some v \<Rightarrow> as_object ROUTES_NOT_AN_OBJECT v) (\<lambda>routes.
       if bt_get routes alias = None then Inl ''route alias not found''
       else Inr (JObj (bt_insert ''routes'' (JObj (bt_remove alias routes)) document))))"

definition delete_route ::
  "route_crates \<Rightarrow> route_site \<Rightarrow> string \<Rightarrow> (route_file, string, json) step" where
  "delete_route C site alias =
     bind_step (lift_step (rs_guard site)) (\<lambda>_.
     bind_step (read_step (route_snapshot C)) (\<lambda>value.
     bind_step (lift_step (without_route alias value)) (\<lambda>edited. written C site edited)))"

definition category_json :: "category \<Rightarrow> json" where
  "category_json c =
     json_obj [(''providers'', JArr (map JStr (ct_providers c))), (''routes'', JArr (map JStr (ct_routes c))),
       (''terms'', JArr (map JStr (ct_terms c)))]"

definition set_category ::
  "route_crates \<Rightarrow> route_site \<Rightarrow> string \<Rightarrow> category \<Rightarrow> (route_file, string, json) step" where
  "set_category C site name c =
     (if \<not> valid_category_name name then fail_step (bad_category_name name)
      else
        bind_step (lift_step (validate_category (normalized c) name)) (\<lambda>_.
        bind_step (lift_step (rs_guard site)) (\<lambda>_.
        bind_step (read_step (route_snapshot C)) (\<lambda>value.
        bind_step (lift_step (with_member ''categories'' ''inference routes.categories must be an object'' name
            (category_json (normalized c)) value)) (\<lambda>edited.
          written C site edited)))))"

definition without_category :: "string \<Rightarrow> json \<Rightarrow> (string, json) result" where
  "without_category name value =
     bind_result (as_object NOT_AN_OBJECT value) (\<lambda>document.
       (case bt_get document ''categories'' of
          Some (JObj declared) \<Rightarrow>
            (if bt_get declared name = None then Inl (''no model category '' @ in_quotes name @ '' is declared'')
             else Inr (JObj (bt_insert ''categories'' (JObj (bt_remove name declared)) document)))
        | _ \<Rightarrow> Inl (''no model category '' @ in_quotes name @ '' is declared'')))"

definition delete_category ::
  "route_crates \<Rightarrow> route_site \<Rightarrow> string \<Rightarrow> (route_file, string, json) step" where
  "delete_category C site name =
     bind_step (lift_step (rs_guard site)) (\<lambda>_.
     bind_step (read_step (route_snapshot C)) (\<lambda>value.
     bind_step (lift_step (without_category name value)) (\<lambda>edited. written C site edited)))"

definition migrated_entries :: "(string, json) btmap \<Rightarrow> (string, json) btmap" where
  "migrated_entries document =
     (let kept = entries_of [(''schema_version'', or_insert ''schema_version'' (JInt SCHEMA_VERSION) document),
                             (''deployments'', or_insert ''deployments'' (JArr []) document),
                             (''routes'', or_insert ''routes'' (JObj []) document)]
      in case bt_get document ''categories'' of
           Some cs \<Rightarrow> bt_insert ''categories'' cs kept
         | None \<Rightarrow> kept)"

definition migrated :: "(string, json) btmap \<Rightarrow> json" where
  "migrated document = JObj (migrated_entries document)"

definition migrate :: "route_crates \<Rightarrow> route_site \<Rightarrow> (route_file, string, json) step" where
  "migrate C site =
     bind_step (lift_step (rs_guard site)) (\<lambda>_.
     bind_step (read_step (read_body C)) (\<lambda>body.
     bind_step (lift_step (prefixed INVALID (rc_value C body))) (\<lambda>value.
     bind_step (lift_step (as_object NOT_AN_OBJECT value)) (\<lambda>document.
     bind_step (lift_step (validate_document C (migrated document))) (\<lambda>_.
       written C site (migrated document))))))"

subsection \<open>Importing reviewed aliases\<close>

record route_import =
  ri_alias :: string
  ri_primary :: string
  ri_deployments :: "json list"
  ri_expected_primary :: "string option"

datatype route_import_disposition = Imported | Unchanged | Conflicting

record route_import_result =
  rr_alias :: string
  rr_disposition :: route_import_disposition
  rr_detail :: string

definition fresh_registry :: "json \<Rightarrow> json" where
  "fresh_registry routes =
     json_obj [(''schema_version'', JInt SCHEMA_VERSION), (''deployments'', JArr []), (''routes'', routes)]"

definition deployment_name :: "json \<Rightarrow> string option" where
  "deployment_name d = Option.bind (json_get d ''name'') as_str"

definition named_deployment :: "json \<Rightarrow> (string, string) result" where
  "named_deployment d = ok_or ''inference route deployment has no name'' (deployment_name d)"

type_synonym deployments = "(string, json) btmap"

text \<open>The deployments the file has, by name; then those one accepted alias brings, where the name is free.\<close>

fun deployments_by_name :: "json list \<Rightarrow> deployments \<Rightarrow> (string, deployments) result" where
  "deployments_by_name [] known = Inr known"
| "deployments_by_name (d # ds) known =
     bind_result (named_deployment d) (\<lambda>name. deployments_by_name ds (bt_insert name d known))"

fun add_deployments :: "json list \<Rightarrow> deployments \<Rightarrow> (string, deployments) result" where
  "add_deployments [] known = Inr known"
| "add_deployments (d # ds) known =
     bind_result (named_deployment d) (\<lambda>name.
       add_deployments ds (if bt_get known name = None then bt_insert name d known else known))"

definition deployment_conflict :: "deployments \<Rightarrow> json list \<Rightarrow> string option" where
  "deployment_conflict known ds =
     find_map (\<lambda>d. Option.bind (deployment_name d) (\<lambda>name.
       case bt_get known name of
         Some existing \<Rightarrow> (if existing \<noteq> d then Some name else None)
       | None \<Rightarrow> None)) ds"

text \<open>Why an alias is not imported, or \<open>None\<close> when it is accepted.\<close>

definition import_refusal ::
  "bool \<Rightarrow> (string, json) btmap \<Rightarrow> deployments \<Rightarrow> route_import \<Rightarrow> (route_import_disposition \<times> string) option" where
  "import_refusal replace_alias_conflicts existing known route =
     (let current = bt_get existing (ri_alias route)
      in if current \<noteq> map_option JStr (ri_expected_primary route) then
           Some (Conflicting, ''the destination changed after the adoption review'')
         else if current = Some (JStr (ri_primary route)) then
           Some (Unchanged, ''the destination already has this route'')
         else if current \<noteq> None \<and> \<not> replace_alias_conflicts then
           Some (Conflicting, ''the destination keeps its existing alias'')
         else map_option (\<lambda>name. (Conflicting,
             ''deployment '' @ in_quotes name @ '' already exists with a different endpoint or adapter''))
           (deployment_conflict known (ri_deployments route)))"

fun review_imports ::
  "bool \<Rightarrow> (string, json) btmap \<Rightarrow> route_import list \<Rightarrow> deployments \<Rightarrow>
    (string, route_import_result list \<times> route_import list \<times> deployments) result" where
  "review_imports replacing existing [] known = Inr ([], [], known)"
| "review_imports replacing existing (route # rest) known =
     (case import_refusal replacing existing known route of
        Some (disposition, detail) \<Rightarrow>
          bind_result (review_imports replacing existing rest known) (\<lambda>(results, accepted, known').
            Inr (\<lparr>rr_alias = ri_alias route, rr_disposition = disposition, rr_detail = detail\<rparr> # results,
                 accepted, known'))
      | None \<Rightarrow>
          bind_result (add_deployments (ri_deployments route) known) (\<lambda>known1.
          bind_result (review_imports replacing existing rest known1) (\<lambda>(results, accepted, known').
            Inr (results, route # accepted, known'))))"

definition imported_result :: "route_import \<Rightarrow> route_import_result" where
  "imported_result route =
     \<lparr>rr_alias = ri_alias route, rr_disposition = Imported, rr_detail = ''the selected route was persisted''\<rparr>"

text \<open>The accepted aliases written into the routes, then every deployment in the order of its name.\<close>

definition merged_routes :: "route_import list \<Rightarrow> (string, json) btmap \<Rightarrow> (string, json) btmap" where
  "merged_routes accepted routes =
     foldl (\<lambda>m r. bt_insert (ri_alias r) (JStr (ri_primary r)) m) routes accepted"

definition sorted_deployments :: "deployments \<Rightarrow> json list" where
  "sorted_deployments known = sort_by_key (\<lambda>d. case deployment_name d of None \<Rightarrow> [] | Some n \<Rightarrow> [n]) (bt_values known)"

fun as_list :: "string \<Rightarrow> json \<Rightarrow> (string, json list) result" where
  "as_list err (JArr vs) = Inr vs"
| "as_list err _ = Inl err"

definition import_start :: "route_crates \<Rightarrow> route_file \<Rightarrow> (string, json) result" where
  "import_start C file =
     bind_result (route_file_exists file) (\<lambda>there.
       if there then route_snapshot C file else Inr (fresh_registry (JObj [])))"

definition import_routes ::
  "route_crates \<Rightarrow> route_site \<Rightarrow> route_import list \<Rightarrow> bool \<Rightarrow>
    (route_file, string, json \<times> route_import_result list) step" where
  "import_routes C site reviewed replacing =
     bind_step (lift_step (rs_guard site)) (\<lambda>_.
     bind_step (read_step (import_start C)) (\<lambda>value.
     bind_step (lift_step (validate_document C value)) (\<lambda>_.
     bind_step (lift_step (as_object NOT_AN_OBJECT value)) (\<lambda>document.
     bind_step (lift_step (as_object ROUTES_NOT_AN_OBJECT (or_insert ''routes'' (JObj []) document))) (\<lambda>routes.
     bind_step (lift_step (as_list ''inference routes.deployments must be an array''
         (or_insert ''deployments'' (JArr []) document))) (\<lambda>existing.
     bind_step (lift_step (deployments_by_name existing [])) (\<lambda>known.
     bind_step (lift_step (review_imports replacing routes reviewed known)) (\<lambda>(results, accepted, known').
       let filled = bt_insert ''deployments'' (JArr existing) (bt_insert ''routes'' (JObj routes) document);
           edited = JObj (bt_insert ''deployments'' (JArr (sorted_deployments known'))
                      (bt_insert ''routes'' (JObj (merged_routes accepted routes)) document));
           answer = sort_by_key rr_alias (results @ map imported_result accepted)
       in if accepted = [] then ok_step (JObj filled, answer)
          else
            bind_step (lift_step (validate_document C edited)) (\<lambda>_.
            bind_step (lift_step (ensure_parent site)) (\<lambda>_.
            bind_step (write_registry C site edited) (\<lambda>_. ok_step (edited, answer))))))))))))"

end
