(* ===== verification/Route_Promises.thy ===== *)
theory Route_Promises
  imports Route_Edits
begin

section \<open>What the route registry promises\<close>

text \<open>
  Every edit leaves the file as it was or replaces it with one every alias of which resolves
  (\<open>atomic_edit\<close>, interpreted for the six writers); what an edit changes and what it leaves; which addresses a
  local model may be reached at.
\<close>

subsection \<open>Results\<close>

lemma prefixed_Inr: "prefixed w r = Inr x \<longleftrightarrow> r = Inr x"
  by (cases r) (simp_all add: prefixed_def)

lemma each_ok_Inr: "each_ok f xs = Inr () \<longleftrightarrow> (\<forall>x \<in> set xs. f x = Inr ())"
  by (induction xs) (auto simp: bind_result_Inr)

lemmas result_simps = bind_result_Inr prefixed_Inr ok_or_Inr

subsection \<open>Sound files\<close>

text \<open>The file is read, each of its routes resolves and its categories are valid.\<close>

definition well_kept :: "route_crates \<Rightarrow> route_file \<Rightarrow> bool" where
  "well_kept C file =
     (case read_registry C file of
        Inl err \<Rightarrow> False
      | Inr r \<Rightarrow> \<not> Sum_Type.isl (resolved_routes C r) \<and> validate_categories (rg_categories r) = Inr ())"

lemma staged_read:
  "read_registry C (staged_file site text n) = Inr r \<Longrightarrow> read_registry C (Body text) = Inr r"
  by (auto simp: staged_file_def read_registry_def bind_result_def split: option.splits)

lemma committed_well_kept:
  assumes "stage_and_commit C site text = Inr file"
  shows "file = Body (text @ [NL]) \<and> well_kept C file"
proof -
  from assms obtain r where whole: "file = Body (text @ [NL])"
    and valid: "validate_routes C (staged_file site (text @ [NL]) 0) = Inr ()"
    and r: "read_registry C (staged_file site (text @ [NL]) 1) = Inr r"
    and cats: "validate_categories (rg_categories r) = Inr ()"
    by (auto simp: stage_and_commit_def result_simps)
  from valid obtain r0 routes where r0: "read_registry C (staged_file site (text @ [NL]) 0) = Inr r0"
    and routes: "resolved_routes C r0 = Inr routes"
    by (auto simp: validate_routes_def resolved_def result_simps)
  from staged_read [OF r] staged_read [OF r0] have "r0 = r" by simp
  with staged_read [OF r] routes cats whole show ?thesis by (simp add: well_kept_def)
qed

lemma write_registry_refused: "write_registry C site v f = (Inl err, f') \<Longrightarrow> f' = f"
  by (auto simp: write_registry_def split: sum.splits if_splits)

lemma write_registry_committed:
  assumes "write_registry C site v f = (Inr u, f')"
  obtains body where "rc_pretty C v = Inr body" and "f' = Body (body @ [NL])" and "well_kept C f'"
proof -
  from assms obtain body where "rc_pretty C v = Inr body" and "stage_and_commit C site body = Inr f'"
    by (auto simp: write_registry_def prefixed_def split: sum.splits if_splits)
  with that committed_well_kept show ?thesis by blast
qed

subsection \<open>The contract of a writer\<close>

locale atomic_edit =
  fixes C :: route_crates and edit :: "(route_file, string, 'a) step"
  assumes refused: "edit f = (Inl err, f') \<Longrightarrow> f' = f"
    and accepted: "edit f = (Inr x, f') \<Longrightarrow> f' = f \<or> well_kept C f'"
begin

lemma unchanged_or_sound: "snd (edit f) = f \<or> well_kept C (snd (edit f))"
  using refused accepted by (cases "edit f"; cases "fst (edit f)") fastforce+

lemma stays_sound: "well_kept C f \<Longrightarrow> well_kept C (snd (edit f))"
  using unchanged_or_sound [of f] by auto

end

text \<open>A step that only reads, then a writer.\<close>

lemma atomic_write: "atomic_edit C (write_registry C site v)"
  by unfold_locales (auto dest: write_registry_refused elim: write_registry_committed)

lemma atomic_pure: "atomic_edit C (ok_step x)" "atomic_edit C (fail_step e)"
  by (unfold_locales; simp add: ok_step_def fail_step_def)+

lemma atomic_after_read:
  assumes "\<And>x. atomic_edit C (k x)"
  shows "atomic_edit C (bind_step (read_step g) k)" and "atomic_edit C (bind_step (lift_step r) k)"
  using assms
  by (unfold_locales; auto simp: bind_step_def read_step_def lift_step_def split: sum.splits
        dest: atomic_edit.refused atomic_edit.accepted)+

lemma atomic_then_answer:
  assumes "atomic_edit C m"
  shows "atomic_edit C (bind_step m (\<lambda>y. ok_step x))"
  using assms
  by unfold_locales (auto simp: bind_step_def ok_step_def split: sum.splits prod.splits
        dest: atomic_edit.refused atomic_edit.accepted)

lemma atomic_written: "atomic_edit C (written C site v)"
  by (simp add: written_def atomic_then_answer atomic_write)

lemmas atomic_rules = atomic_pure atomic_written atomic_write atomic_then_answer atomic_after_read

interpretation updating: atomic_edit C "update_route C site a primary" for C site a primary
  by (simp add: update_route_def atomic_rules)

interpretation deleting: atomic_edit C "delete_route C site a" for C site a
  by (simp add: delete_route_def atomic_rules)

interpretation setting: atomic_edit C "set_category C site name c" for C site name c
  by (simp add: set_category_def atomic_rules)

interpretation retiring: atomic_edit C "delete_category C site name" for C site name
  by (simp add: delete_category_def atomic_rules)

interpretation migrating: atomic_edit C "migrate C site" for C site
  by (simp add: migrate_def atomic_rules)

interpretation importing: atomic_edit C "import_routes C site reviewed replacing" for C site reviewed replacing
  by (simp add: import_routes_def Let_def split_def atomic_rules)

subsection \<open>Histories of edits\<close>

datatype route_edit =
    UpdateRoute string string
  | DeleteRoute string
  | SetCategory string category
  | DeleteCategory string
  | Migrate
  | ImportRoutes "route_import list" bool

definition answerless :: "(route_file, string, 'a) step \<Rightarrow> (route_file, string, unit) step" where
  "answerless m = bind_step m (\<lambda>_. ok_step ())"

fun apply_edit :: "route_crates \<Rightarrow> route_site \<Rightarrow> route_edit \<Rightarrow> (route_file, string, unit) step" where
  "apply_edit C site (UpdateRoute a primary) = answerless (update_route C site a primary)"
| "apply_edit C site (DeleteRoute a) = answerless (delete_route C site a)"
| "apply_edit C site (SetCategory name c) = answerless (set_category C site name c)"
| "apply_edit C site (DeleteCategory name) = answerless (delete_category C site name)"
| "apply_edit C site Migrate = answerless (migrate C site)"
| "apply_edit C site (ImportRoutes reviewed replacing) = answerless (import_routes C site reviewed replacing)"

definition run_edits :: "route_crates \<Rightarrow> (route_site \<times> route_edit) list \<Rightarrow> route_file \<Rightarrow> route_file" where
  "run_edits C edits f = foldl (\<lambda>f (site, e). snd (apply_edit C site e f)) f edits"

lemma atomic_answerless: "atomic_edit C m \<Longrightarrow> atomic_edit C (answerless m)"
  by (simp add: answerless_def atomic_then_answer)

interpretation editing: atomic_edit C "apply_edit C site e" for C site e
  by (cases e) (simp_all add: atomic_answerless updating.atomic_edit_axioms deleting.atomic_edit_axioms
      setting.atomic_edit_axioms retiring.atomic_edit_axioms migrating.atomic_edit_axioms importing.atomic_edit_axioms)

lemma run_edits_sound: "run_edits C edits f = f \<or> well_kept C (run_edits C edits f)"
proof (induction edits arbitrary: f)
  case (Cons x edits)
  obtain site e where x: "x = (site, e)" by (cases x)
  have "run_edits C (x # edits) f = run_edits C edits (snd (apply_edit C site e f))"
    by (simp add: run_edits_def x)
  with Cons.IH [of "snd (apply_edit C site e f)"] editing.unchanged_or_sound [of C site e f] show ?case
    by metis
qed (simp add: run_edits_def)

lemma well_kept_resolves: "well_kept C f \<Longrightarrow> \<exists>to. resolve C f a = Inr to"
  by (auto simp: well_kept_def resolve_def resolved_def bind_result_def split: sum.splits)

text \<open>
  C19. A route edit the machine or the document refuses leaves the registry file as it was; and
  whatever sequence of route, category, migration and import edits runs on a file, under whatever lock, staging,
  sync, re-read and rename failures, the file at the end is the one at the start or one that is read, whose
  categories are valid and every alias of which resolves without an error. No hypothesis on the JSON library is
  needed: what is committed is what the staged bytes were read back as.
\<close>

theorem edits_leave_a_sound_file:
  "(case apply_edit C site e f of (Inl err, f') \<Rightarrow> f' = f | (Inr _, f') \<Rightarrow> f' = f \<or> well_kept C f')
   \<and> (run_edits C edits f = f
      \<or> (well_kept C (run_edits C edits f) \<and> (\<forall>a. \<exists>to. resolve C (run_edits C edits f) a = Inr to)))"
  using editing.refused [of C site e f] editing.accepted [of C site e f] run_edits_sound [of C edits f]
    well_kept_resolves [of C "run_edits C edits f"]
  by (auto split: prod.splits sum.splits)

subsection \<open>Where a local model may be\<close>

lemma digits_shown:
  assumes "list_all is_digit s" and "s \<noteq> []" and "length s > 1 \<longrightarrow> hd s \<noteq> CHR ''0''"
  shows "show_nat (foldl (\<lambda>acc c. acc * 10 + digit_value c) 0 s) = s
    \<and> (s \<noteq> ''0'' \<longrightarrow> 0 < foldl (\<lambda>acc c. acc * 10 + digit_value c) 0 s)"
  using assms
proof (induction s rule: rev_induct)
  case (snoc c s)
  let ?v = "foldl (\<lambda>acc c. acc * 10 + digit_value c) 0 s"
  from snoc.prems have c: "48 \<le> (of_char c :: nat)" "(of_char c :: nat) \<le> 57" by (auto simp: is_digit_def Let_def)
  then have d: "digit_value c < 10" "char_of (48 + digit_value c) = c" by (auto simp: digit_value_def)
  show ?case
  proof (cases "s = []")
    case True
    have "c \<noteq> CHR ''0'' \<Longrightarrow> 0 < digit_value c"
    proof (rule ccontr)
      assume "c \<noteq> CHR ''0''" and "\<not> 0 < digit_value c"
      moreover have "char_of (48 :: nat) = CHR ''0''" by code_simp
      ultimately show False using d(2) by simp
    qed
    with True d show ?thesis by (simp add: show_nat.simps [of "digit_value c"])
  next
    case False
    with snoc have v: "show_nat ?v = s" "s \<noteq> ''0''" "0 < ?v" by (cases s; auto)+
    with d show ?thesis by (simp add: show_nat.simps [of "?v * 10 + digit_value c"])
  qed
qed simp

lemma octet_shown: "octet s = Some v \<Longrightarrow> s = show_nat v \<and> v < 256"
  using digits_shown [of s] by (auto simp: octet_def Let_def split: if_splits)

lemma split_on_join: "join [sep] (split_on sep s) = s \<and> split_on sep s \<noteq> []"
proof (induction s)
  case (Cons c s)
  then obtain q qs where q: "split_on sep s = q # qs" by (cases "split_on sep s") auto
  with Cons show ?case by (cases qs) auto
qed simp

text \<open>The dotted text of four octets.\<close>

definition dotted :: "nat \<Rightarrow> nat \<Rightarrow> nat \<Rightarrow> nat \<Rightarrow> string" where
  "dotted a b c d = join ''.'' (map show_nat [a, b, c, d])"

lemma safe_host_shape:
  assumes "safe_inference_host host"
  obtains a b c d where "host = dotted a b c d" and "a < 256" "b < 256" "c < 256" "d < 256"
    and "a = 127 \<or> a = 100 \<and> 64 \<le> b \<and> b < 128"
proof -
  from assms obtain a b c d where parts: "map octet (split_on (CHR ''.'') host) = [Some a, Some b, Some c, Some d]"
    and range: "a = 127 \<or> a = 100 \<and> 64 \<le> b \<and> b < 128"
    unfolding safe_inference_host_def by (auto elim!: safe_octetsE simp: TAILSCALE_FIRST_OCTET_def)
  then obtain p q r s where split: "split_on (CHR ''.'') host = [p, q, r, s]"
    and octets: "octet p = Some a" "octet q = Some b" "octet r = Some c" "octet s = Some d"
    by (auto simp: map_eq_Cons_conv)
  from split_on_join [of "CHR ''.''" host] split have "host = join ''.'' [p, q, r, s]" by simp
  then have "host = dotted a b c d" using octets [THEN octet_shown] by (simp add: dotted_def)
  with that octets range octet_shown show ?thesis by blast
qed

lemma base_url_address:
  assumes "base_url C file model_name = Inr address"
  shows "\<exists>a b c d port. address = ''http://'' @ dotted a b c d @ '':'' @ show_nat port
    \<and> a < 256 \<and> b < 256 \<and> c < 256 \<and> d < 256 \<and> (a = 127 \<or> a = 100 \<and> 64 \<le> b \<and> b < 128)
    \<and> 0 < port \<and> port < 65536"
proof -
  from assms obtain d :: route_deployment where safe: "safe_inference_host (ep_host (dp_endpoint d))" "ep_port (dp_endpoint d) \<noteq> 0"
    and address: "address = ''http://'' @ ep_host (dp_endpoint d) @ '':'' @ show_nat (unat (ep_port (dp_endpoint d)))"
    by (auto simp: base_url_def result_simps safe_endpoint_def split: if_splits)
  obtain a b c e where host: "ep_host (dp_endpoint d) = dotted a b c e"
    and octets: "a < 256" "b < 256" "c < 256" "e < 256" "a = 127 \<or> a = 100 \<and> 64 \<le> b \<and> b < 128"
    using safe_host_shape [OF safe(1)] .
  have port: "0 < unat (ep_port (dp_endpoint d))" "unat (ep_port (dp_endpoint d)) < 65536"
    using safe(2) unsigned_less [of "ep_port (dp_endpoint d)"] by (simp_all add: unat_gt_0)
  from address host port octets show ?thesis
    by (intro exI [of _ a] exI [of _ b] exI [of _ c] exI [of _ e] exI [of _ "unat (ep_port (dp_endpoint d))"]) simp
qed

text \<open>
  C22. Whatever the registry file holds, the address a local model is called at is plain HTTP to
  four decimal octets of the loopback network 127.0.0.0/8 or of Tailscale's 100.64.0.0/10, and to a port
  from 1 to 65535: nothing else that an operator, an import or a damaged file names is ever dialled.
\<close>

theorem local_models_stay_on_safe_addresses:
  assumes "base_url C file model_name = Inr address"
  shows "\<exists>a b c d port. address = ''http://'' @ dotted a b c d @ '':'' @ show_nat port
    \<and> a < 256 \<and> b < 256 \<and> c < 256 \<and> d < 256 \<and> (a = 127 \<or> a = 100 \<and> 64 \<le> b \<and> b < 128)
    \<and> 0 < port \<and> port < 65536"
  by (rule base_url_address [OF assms])

end
