(* ===== verification/Route_Effects.thy ===== *)
theory Route_Effects
  imports Route_Promises
begin

section \<open>What one registry edit changes\<close>

text \<open>
  The effect of an update, a removal, an import and the migration on the document, and on what every alias
  resolves to afterwards. The JSON library is asked for two things here: an untyped \<open>Value\<close> keeps the members of
  an object sorted, and a printed document reads back as itself (\<open>writes_back\<close>); a \<open>HashMap\<close> hands out each of
  its entries once.
\<close>

fun sorted_value :: "json \<Rightarrow> bool" where
  "sorted_value (JObj kvs) = (bt_wf kvs \<and> list_all sorted_value (map snd kvs))"
| "sorted_value (JArr vs) = list_all sorted_value vs"
| "sorted_value _ = True"

definition documented_json :: "route_crates \<Rightarrow> bool" where
  "documented_json C \<longleftrightarrow>
     (\<forall>body v. rc_value C body = Inr v \<longrightarrow> sorted_value v) \<and> (\<forall>xs. mset (rc_visits C xs) = mset xs)"

definition writes_back :: "route_crates \<Rightarrow> json \<Rightarrow> bool" where
  "writes_back C v \<longleftrightarrow>
     (\<forall>body. rc_pretty C v = Inr body \<longrightarrow> rc_tree C (body @ [NL]) = Some v \<and> rc_value C (body @ [NL]) = Inr v)"

subsection \<open>Sorted objects\<close>

lemma bt_get_map_of: "bt_get m = map_of m"
proof
  show "bt_get m k = map_of m k" for k by (induction m) auto
qed

lemma sorted_member: "sorted_value (JObj kvs) \<Longrightarrow> bt_get kvs k = Some v \<Longrightarrow> sorted_value v"
  by (auto simp: list_all_iff bt_get_map_of dest!: map_of_SomeD)

lemma bt_wf_distinct: "bt_wf m \<Longrightarrow> distinct (map fst m)"
  by (simp add: bt_wf_def strict_sorted_iff)

lemma map_of_members: "map_of (filter (\<lambda>(k, _). k \<in> S) kvs) n = (if n \<in> S then map_of kvs n else None)"
  by (induction kvs) auto

lemma once_each: "distinct (map fst kvs) \<Longrightarrow> length (filter (\<lambda>(k, _). k = n) kvs) \<le> 1"
proof (induction kvs)
  case (Cons e kvs)
  then show ?case
    by (cases e) (force simp: filter_empty_conv)
qed simp

lemma struct_members_sorted:
  "bt_wf kvs \<Longrightarrow> struct_members False names (JObj kvs) = Some (\<lambda>n. if n \<in> set names then bt_get kvs n else None)"
  using once_each [OF bt_wf_distinct] by (auto simp: list_all_iff bt_get_map_of map_of_members)

lemma registry_of_sorted:
  assumes "bt_wf kvs"
  shows "registry_of (JObj kvs) =
     Option.bind (defaulted [] (list_of deployment_of) (bt_get kvs ''deployments'')) (\<lambda>deployments.
     Option.bind (defaulted [] (map_from as_str) (bt_get kvs ''routes'')) (\<lambda>routes.
     map_option (\<lambda>cs. \<lparr>rg_deployments = deployments, rg_routes = routes, rg_categories = cs\<rparr>)
       (defaulted [] (map_from category_of) (bt_get kvs ''categories''))))"
  unfolding registry_of_def struct_members_sorted [OF assms] by simp

lemma those_map: "those (map g xs) = Some ys \<longleftrightarrow> list_all2 (\<lambda>x y. g x = Some y) xs ys"
  by (induction xs arbitrary: ys) (auto split: option.splits simp: list_all2_Cons1)

lemma entries_of_snoc: "entries_of (xs @ [(k, v)]) = bt_insert k v (entries_of xs)"
  by (simp add: entries_of_def)

lemma bt_wf_entries_of [simp]: "bt_wf (entries_of xs)"
  by (induction xs rule: rev_induct) (auto simp: entries_of_snoc bt_wf_insert, simp add: entries_of_def)

lemma bt_get_entries_of: "distinct (map fst xs) \<Longrightarrow> bt_get (entries_of xs) k = map_of xs k"
proof (induction xs rule: rev_induct)
  case (snoc x xs)
  then show ?case
    by (cases x) (force simp: entries_of_snoc bt_get_insert map_add_def split: option.splits dest: map_of_SomeD)
qed (simp add: entries_of_def)

lemma bt_insert_snoc: "(\<forall>k' \<in> bt_keys m. k' < k) \<Longrightarrow> bt_insert k v m = m @ [(k, v)]"
  by (induction m) (auto simp: bt_keys_def)

lemma entries_of_sorted: "bt_wf m \<Longrightarrow> entries_of m = m"
proof (induction m rule: rev_induct)
  case (snoc e m)
  then show ?case
    by (cases e) (auto simp: bt_wf_def sorted_wrt_append entries_of_snoc bt_insert_snoc bt_keys_def)
qed (simp add: entries_of_def)

subsection \<open>Typed maps of sorted objects\<close>

lemma map_from_sorted:
  assumes "bt_wf kvs"
  shows "map_from f (JObj kvs) = Some m \<longleftrightarrow> list_all2 (\<lambda>(k, v) (k', x). k' = k \<and> f v = Some x) kvs m"
proof -
  have pairs: "(\<lambda>x y. (case x of (k, v) \<Rightarrow> map_option (Pair k) (f v)) = Some y) =
      (\<lambda>(k, v) (k', x). k' = k \<and> f v = Some x)"
    by (auto simp: fun_eq_iff)
  have keys: "list_all2 (\<lambda>(k, v) (k', x). k' = k \<and> f v = Some x) kvs ys \<Longrightarrow> map fst ys = map fst kvs" for ys
    by (induction kvs ys rule: list_all2_induct) auto
  then have "list_all2 (\<lambda>(k, v) (k', x). k' = k \<and> f v = Some x) kvs ys \<Longrightarrow> entries_of ys = ys" for ys
    using assms by (intro entries_of_sorted) (simp add: bt_wf_def)
  then show ?thesis by (auto simp: those_map pairs)
qed

lemma map_from_insert:
  assumes "bt_wf kvs" and "map_from f (JObj kvs) = Some m" and "f v = Some x"
  shows "map_from f (JObj (bt_insert k v kvs)) = Some (bt_insert k x m)"
proof -
  have "list_all2 (\<lambda>(k, v) (k', x). k' = k \<and> f v = Some x) kvs m"
    using assms(2) by (simp only: map_from_sorted [OF assms(1)])
  then have "list_all2 (\<lambda>(k, v) (k', x). k' = k \<and> f v = Some x) (bt_insert k v kvs) (bt_insert k x m)"
    by (induction kvs m rule: list_all2_induct) (auto simp: assms(3))
  then show ?thesis by (simp only: map_from_sorted [OF bt_wf_insert [OF assms(1)]])
qed

lemma map_from_remove:
  assumes "bt_wf kvs" and "map_from f (JObj kvs) = Some m"
  shows "map_from f (JObj (bt_remove k kvs)) = Some (bt_remove k m)"
proof -
  have "list_all2 (\<lambda>(k, v) (k', x). k' = k \<and> f v = Some x) kvs m"
    using assms(2) by (simp only: map_from_sorted [OF assms(1)])
  then have "list_all2 (\<lambda>(k, v) (k', x). k' = k \<and> f v = Some x) (bt_remove k kvs) (bt_remove k m)"
    by (induction kvs m rule: list_all2_induct) auto
  then show ?thesis by (simp only: map_from_sorted [OF bt_wf_remove [OF assms(1)]])
qed

lemma map_from_wf: "map_from f v = Some m \<Longrightarrow> bt_wf m"
  by (cases v) auto

subsection \<open>What every alias resolves to\<close>

lemma collect_results_Inr:
  "collect_results (map g xs) = Inr ys \<longleftrightarrow> list_all2 (\<lambda>x y. g x = Inr y) xs ys"
proof (induction xs arbitrary: ys)
  case (Cons x xs)
  then show ?case by (cases "g x"; cases "collect_results (map g xs)") (force simp: list_all2_Cons1)+
qed auto

lemma list_all2_keyed:
  assumes "list_all2 (\<lambda>(a, d) (b, to). b = a \<and> P d to) xs ys"
  shows "map fst ys = map fst xs"
    and "case map_of xs b of None \<Rightarrow> map_of ys b = None | Some d \<Rightarrow> \<exists>to. P d to \<and> map_of ys b = Some to"
  using assms by (induction xs ys rule: list_all2_induct) (auto split: option.splits)

lemma resolved_routes_get:
  assumes routes: "resolved_routes C r = Inr m" and visits: "\<And>xs. mset (rc_visits C xs) = mset xs"
    and wf: "bt_wf (rg_routes r)"
  shows "case bt_get (rg_routes r) b of
           None \<Rightarrow> bt_get m b = None
         | Some d \<Rightarrow> \<exists>to. resolved_destination r d = Inr to \<and> bt_get m b = Some to"
proof -
  let ?xs = "rc_visits C (rg_routes r)"
  let ?g = "\<lambda>(a, d) (b, to). b = a \<and> resolved_destination r d = Inr to"
  from routes obtain ys where m: "m = entries_of ys"
    and "list_all2 (\<lambda>x y. (case x of (a, d) \<Rightarrow> bind_result (resolved_destination r d) (\<lambda>to. Inr (a, to))) = Inr y) ?xs ys"
    by (auto simp: resolved_routes_def bind_result_Inr collect_results_Inr)
  then have ys: "list_all2 ?g ?xs ys"
    by (elim list_all2_mono) (auto simp: bind_result_Inr)
  then have keys: "map fst ys = map fst ?xs"
    by (rule list_all2_keyed)
  have "mset (map fst ?xs) = mset (map fst (rg_routes r))" using visits by simp
  with bt_wf_distinct [OF wf] have dist: "distinct (map fst ?xs)" by (metis mset_eq_imp_distinct_iff)
  with visits have same: "map_of ?xs = map_of (rg_routes r)"
    using bt_wf_distinct [OF wf] by (metis map_of_inject_set mset_eq_setD)
  have "case map_of ?xs b of None \<Rightarrow> map_of ys b = None
     | Some d \<Rightarrow> \<exists>to. resolved_destination r d = Inr to \<and> map_of ys b = Some to"
    using ys by (rule list_all2_keyed)
  moreover have "bt_get m b = map_of ys b" using m dist keys by (simp add: bt_get_entries_of)
  moreover have "map_of ?xs b = bt_get (rg_routes r) b" using same by (simp add: bt_get_map_of)
  ultimately show ?thesis by (simp split: option.splits)
qed

text \<open>\<open>resolved_destination\<close> looks at the deployments alone.\<close>

lemma resolved_destination_deployments:
  "rg_deployments r = rg_deployments r' \<Longrightarrow> resolved_destination r d = resolved_destination r' d"
  by (simp add: resolved_destination_def deployment_for_model_def)

text \<open>A committed document is the registry that is read.\<close>

lemma written_registry:
  assumes "write_registry C site v f = (Inr u, f')" and "writes_back C v"
  shows "\<exists>r m. registry_of v = Some r \<and> read_registry C f' = Inr r \<and> resolved_routes C r = Inr m"
proof -
  obtain body where body: "rc_pretty C v = Inr body" "f' = Body (body @ [NL])" and kept: "well_kept C f'"
    using write_registry_committed [OF assms(1)] by metis
  with assms(2) have "rc_tree C (body @ [NL]) = Some v" by (simp add: writes_back_def)
  with kept body(2) show ?thesis
    by (auto simp: well_kept_def read_registry_def bind_result_def ok_or_def isl_def
        split: sum.splits option.splits) (metis obj_sumE)
qed

subsection \<open>Setting and removing one alias\<close>

text \<open>The document with its routes replaced by other sorted routes.\<close>

lemma replaced_routes:
  assumes "registry_of (JObj kvs) = Some r" and "bt_wf kvs" and "map_from as_str (JObj routes) = Some m"
  shows "registry_of (JObj (bt_insert ''routes'' (JObj routes) kvs)) = Some (r\<lparr>rg_routes := m\<rparr>)"
  using assms
  by (auto simp: registry_of_sorted bt_wf_insert bt_get_insert defaulted_def bind_eq_Some_conv simp del: map_from.simps)

lemma registry_routes:
  assumes "registry_of (JObj kvs) = Some r" and "bt_wf kvs"
  shows "defaulted [] (map_from as_str) (bt_get kvs ''routes'') = Some (rg_routes r)"
  using assms by (auto simp: registry_of_sorted bind_eq_Some_conv)

lemma snapshot_sorted:
  assumes "route_snapshot C f = Inr v" and "documented_json C"
  obtains r where "registry_of v = Some r" and "sorted_value v"
  using assms by (auto simp: route_snapshot_def result_simps documented_json_def)

lemma snapshot_checked:
  assumes "route_snapshot C f = Inr v" and "registry_of v = Some r"
  shows "check_destinations C r = Inr ()" and "validate_categories (rg_categories r) = Inr ()"
  using assms by (auto simp: route_snapshot_def result_simps)

lemma routes_wf: "registry_of v = Some r \<Longrightarrow> bt_wf (rg_routes r)"
  using map_from_wf [of as_str]
  by (fastforce simp: registry_of_def bind_eq_Some_conv defaulted_def split: option.splits)

text \<open>What a committed document answers, for routes of a registry with the same deployments.\<close>

lemma committed_routes:
  assumes "write_registry C site v f = (Inr u, f')" and "writes_back C v" and "documented_json C"
    and "registry_of v = Some (r\<lparr>rg_routes := m\<rparr>)"
  shows "case bt_get m b of
           None \<Rightarrow> resolve C f' b = Inr None
         | Some d \<Rightarrow> \<exists>to. resolved_destination r d = Inr to \<and> resolve C f' b = Inr (Some to)"
proof -
  let ?r = "r\<lparr>rg_routes := m\<rparr>"
  from written_registry [OF assms(1,2)] assms(4) obtain found where
    read: "read_registry C f' = Inr ?r" and found: "resolved_routes C ?r = Inr found" by auto
  have "resolve C f' b = Inr (bt_get found b)"
    using read found by (simp add: resolve_def resolved_def bind_result_def)
  moreover have "resolved_destination ?r d = resolved_destination r d" for d
    by (rule resolved_destination_deployments) simp
  ultimately show ?thesis
    using resolved_routes_get [OF found, of b] assms(3) routes_wf [OF assms(4)]
    by (auto simp: documented_json_def split: option.splits)
qed

lemma update_document:
  assumes "with_member ''routes'' ROUTES_NOT_AN_OBJECT a (JStr primary) v0 = Inr v"
    and "registry_of v0 = Some r" and "sorted_value v0"
  shows "registry_of v = Some (r\<lparr>rg_routes := bt_insert a primary (rg_routes r)\<rparr>)"
proof -
  from assms(1) obtain kvs routes where v0: "v0 = JObj kvs" and routes: "or_insert ''routes'' (JObj []) kvs = JObj routes"
    and v: "v = JObj (bt_insert ''routes'' (JObj (bt_insert a (JStr primary) routes)) kvs)"
    by (auto simp: with_member_def result_simps elim!: as_object.elims)
  from assms(3) v0 have wf: "bt_wf kvs" by simp
  have sorted: "bt_wf routes"
    using routes assms(3) sorted_member [of kvs "''routes''"] v0 by (auto simp: or_insert_def split: option.splits)
  have "map_from as_str (JObj routes) = Some (rg_routes r)"
    using routes registry_routes [OF _ wf] assms(2) v0
    by (auto simp: or_insert_def defaulted_def entries_of_def split: option.splits)
  then have "map_from as_str (JObj (bt_insert a (JStr primary) routes)) = Some (bt_insert a primary (rg_routes r))"
    by (rule map_from_insert [OF sorted]) simp
  then show ?thesis using replaced_routes wf assms(2) v0 v by blast
qed

lemma remove_document:
  assumes "without_route a v0 = Inr v" and "registry_of v0 = Some r" and "sorted_value v0"
  shows "registry_of v = Some (r\<lparr>rg_routes := bt_remove a (rg_routes r)\<rparr>)"
proof -
  from assms(1) obtain kvs routes where v0: "v0 = JObj kvs" and routes: "bt_get kvs ''routes'' = Some (JObj routes)"
    and v: "v = JObj (bt_insert ''routes'' (JObj (bt_remove a routes)) kvs)"
    by (auto simp: without_route_def result_simps split: option.splits if_splits elim!: as_object.elims)
  from assms(3) v0 have wf: "bt_wf kvs" by simp
  have sorted: "bt_wf routes"
    using routes assms(3) sorted_member [of kvs "''routes''"] v0 by auto
  have "map_from as_str (JObj routes) = Some (rg_routes r)"
    using routes registry_routes [OF _ wf] assms(2) v0 by (auto simp: defaulted_def)
  then have "map_from as_str (JObj (bt_remove a routes)) = Some (bt_remove a (rg_routes r))"
    by (rule map_from_remove [OF sorted])
  then show ?thesis using replaced_routes wf assms(2) v0 v by blast
qed

text \<open>
  C21. After an update of an alias that answered, the alias resolves to the destination written,
  resolved against the deployments the file already had, and every other alias resolves exactly as the file
  named it before: an edit redirects no alias but its own.
\<close>

theorem updated_route_is_where_its_alias_goes:
  assumes "update_route C site a primary f = (Inr v, f')" and "documented_json C" and "writes_back C v"
  shows "\<exists>v0 r. route_snapshot C f = Inr v0 \<and> registry_of v0 = Some r \<and>
    (\<forall>b. case (if b = a then Some primary else bt_get (rg_routes r) b) of
           None \<Rightarrow> resolve C f' b = Inr None
         | Some d \<Rightarrow> \<exists>to. resolved_destination r d = Inr to \<and> resolve C f' b = Inr (Some to))"
proof -
  from assms(1) obtain v0 where v0: "route_snapshot C f = Inr v0"
    and v: "with_member ''routes'' ROUTES_NOT_AN_OBJECT a (JStr primary) v0 = Inr v"
    and wrote: "write_registry C site v f = (Inr (), f')"
    by (auto simp: update_route_def written_def run_simps)
  obtain r where r: "registry_of v0 = Some r" "sorted_value v0" using snapshot_sorted [OF v0 assms(2)] .
  have "case (if b = a then Some primary else bt_get (rg_routes r) b) of
           None \<Rightarrow> resolve C f' b = Inr None
         | Some d \<Rightarrow> \<exists>to. resolved_destination r d = Inr to \<and> resolve C f' b = Inr (Some to)" for b
    using committed_routes [OF wrote assms(3,2) update_document [OF v r], of b] unfolding bt_get_insert .
  with v0 r(1) show ?thesis by blast
qed

text \<open>After a removal that answered, the alias names nothing and every other alias goes where it went.\<close>

theorem removed_route_names_nothing:
  assumes "delete_route C site a f = (Inr v, f')" and "documented_json C" and "writes_back C v"
  shows "\<exists>v0 r. route_snapshot C f = Inr v0 \<and> registry_of v0 = Some r \<and>
    (\<forall>b. case (if b = a then None else bt_get (rg_routes r) b) of
           None \<Rightarrow> resolve C f' b = Inr None
         | Some d \<Rightarrow> \<exists>to. resolved_destination r d = Inr to \<and> resolve C f' b = Inr (Some to))"
proof -
  from assms(1) obtain v0 where v0: "route_snapshot C f = Inr v0" and v: "without_route a v0 = Inr v"
    and wrote: "write_registry C site v f = (Inr (), f')"
    by (auto simp: delete_route_def written_def run_simps)
  obtain r where r: "registry_of v0 = Some r" "sorted_value v0" using snapshot_sorted [OF v0 assms(2)] .
  have "case (if b = a then None else bt_get (rg_routes r) b) of
           None \<Rightarrow> resolve C f' b = Inr None
         | Some d \<Rightarrow> \<exists>to. resolved_destination r d = Inr to \<and> resolve C f' b = Inr (Some to)" for b
    using committed_routes [OF wrote assms(3,2) remove_document [OF v r], of b] unfolding bt_get_remove [OF routes_wf [OF r(1)]] .
  with v0 r(1) show ?thesis by blast
qed

end
