(* ===== verification/Route_Imports.thy ===== *)
theory Route_Imports
  imports Route_Effects
begin

section \<open>Imports and the migration\<close>

text \<open>
  What a merge of reviewed aliases may change (\<open>writing/importing.rs\<close>), that the migration onto the current
  document shape is the same when it runs twice (\<open>writing/editing.rs\<close>), and the concrete registries the properties
  of the registry are applied at.
\<close>

text \<open>The routes and the deployments of a document, a missing member read as empty.\<close>

fun routes_in :: "json \<Rightarrow> (string, json) btmap" where
  "routes_in (JObj kvs) = (case or_insert ''routes'' (JObj []) kvs of JObj routes \<Rightarrow> routes | _ \<Rightarrow> [])"
| "routes_in _ = []"

fun deployments_in :: "json \<Rightarrow> json list" where
  "deployments_in (JObj kvs) = (case or_insert ''deployments'' (JArr []) kvs of JArr ds \<Rightarrow> ds | _ \<Rightarrow> [])"
| "deployments_in _ = []"

subsection \<open>Deployments\<close>

lemma deployment_names:
  assumes "deployment_of d = Some dp" and "deployment_name d = Some n"
  shows "dp_name dp = n"
proof -
  from assms(2) obtain kvs where d: "d = JObj kvs" and n: "map_of kvs ''name'' = Some (JStr n)"
    by (cases d) (auto simp: deployment_name_def bind_eq_Some_conv elim!: as_str.elims)
  from assms(1) d obtain m where "struct_members False [''name'', ''adapters'', ''endpoint''] (JObj kvs) = Some m"
    and name: "Option.bind (m ''name'') as_str = Some (dp_name dp)"
    by (auto simp: deployment_of_def bind_eq_Some_conv)
  then have "m ''name'' = map_of kvs ''name''"
    using map_of_members [of "{''name'', ''adapters'', ''endpoint''}" kvs "''name''"] by (auto split: if_splits)
  with name n show ?thesis by simp
qed

lemma typed_names:
  assumes "list_all2 (\<lambda>d dp. deployment_of d = Some dp) ds dps" and "\<forall>d \<in> set ds. \<exists>n. deployment_name d = Some n"
  shows "map deployment_name ds = map Some (map dp_name dps)"
  using assms by (induction ds dps rule: list_all2_induct) (auto dest: deployment_names)

lemma check_deployments_distinct:
  "check_deployments ds names = Inr () \<Longrightarrow> distinct (map dp_name ds) \<and> set (map dp_name ds) \<inter> names = {}"
  by (induction ds names rule: check_deployments.induct) (auto split: if_splits)

lemma deployments_by_name_get:
  assumes "deployments_by_name ds known = Inr known'" and "distinct (map deployment_name ds)"
    and "\<forall>d \<in> set ds. \<forall>n. deployment_name d = Some n \<longrightarrow> bt_get known n = None"
  shows "(\<forall>d \<in> set ds. \<exists>n. deployment_name d = Some n \<and> bt_get known' n = Some d)
    \<and> (\<forall>n d. bt_get known n = Some d \<longrightarrow> bt_get known' n = Some d)"
  using assms
proof (induction ds arbitrary: known)
  case (Cons d ds)
  then obtain n where n: "deployment_name d = Some n" and rest: "deployments_by_name ds (bt_insert n d known) = Inr known'"
    by (auto simp: bind_result_Inr named_deployment_def ok_or_Inr)
  have free: "\<forall>e \<in> set ds. \<forall>k. deployment_name e = Some k \<longrightarrow> bt_get (bt_insert n d known) k = None"
    using Cons.prems(2,3) n by (auto simp: bt_get_insert image_iff)
  from Cons.IH [OF rest _ free] Cons.prems(2) have
    "(\<forall>e \<in> set ds. \<exists>k. deployment_name e = Some k \<and> bt_get known' k = Some e)"
    "\<forall>k e. bt_get (bt_insert n d known) k = Some e \<longrightarrow> bt_get known' k = Some e" by simp_all
  then have later: "\<forall>e \<in> set ds. \<exists>k. deployment_name e = Some k \<and> bt_get known' k = Some e"
    and kept: "bt_get (bt_insert n d known) k = Some e \<Longrightarrow> bt_get known' k = Some e" for k e by blast+
  have "bt_get known' k = Some e" if "bt_get known k = Some e" for k e
    using that kept [of k e] Cons.prems(3) n by (cases "k = n") (auto simp: bt_get_insert)
  with later kept [of n d] n show ?case by (auto simp: bt_get_insert)
qed simp

lemma deployments_by_name_named:
  "deployments_by_name ds known = Inr known' \<Longrightarrow> \<forall>d \<in> set ds. \<exists>n. deployment_name d = Some n"
  by (induction ds arbitrary: known) (auto simp: result_simps named_deployment_def)

lemma add_deployments_keeps:
  "add_deployments ds known = Inr known' \<Longrightarrow> bt_get known n = Some d \<Longrightarrow> bt_get known' n = Some d"
proof (induction ds arbitrary: known)
  case (Cons e ds)
  then show ?case by (fastforce simp: bind_result_Inr bt_get_insert split: if_splits)
qed simp

subsection \<open>The review\<close>

lemma review_keeps:
  assumes "review_imports replacing existing reviewed known = Inr (results, accepted, known')"
    and "bt_get known n = Some d"
  shows "bt_get known' n = Some d"
  using assms
  by (induction replacing existing reviewed known arbitrary: results accepted rule: review_imports.induct)
     (auto simp: bind_result_Inr split: option.splits prod.splits dest: add_deployments_keeps)

lemma import_accepted:
  assumes "import_refusal replacing existing known r = None"
  shows "bt_get existing (ri_alias r) = map_option JStr (ri_expected_primary r)
    \<and> (replacing \<or> bt_get existing (ri_alias r) = None)"
  using assms by (auto simp: import_refusal_def Let_def split: if_splits)

lemma review_accepts:
  assumes "review_imports replacing existing reviewed known = Inr (results, accepted, known')" and "r \<in> set accepted"
  shows "r \<in> set reviewed \<and> bt_get existing (ri_alias r) = map_option JStr (ri_expected_primary r)
    \<and> (replacing \<or> bt_get existing (ri_alias r) = None)"
  using assms
proof (induction reviewed arbitrary: known results accepted)
  case (Cons route rest)
  show ?case
  proof (cases "import_refusal replacing existing known route")
    case None
    with Cons.prems obtain known1 accepted1 where "accepted = route # accepted1"
      and rest: "review_imports replacing existing rest known1 = Inr (results, accepted1, known')"
      by (auto simp: bind_result_Inr)
    with Cons.IH [OF rest] Cons.prems(2) import_accepted [OF None] show ?thesis by fastforce
  next
    case (Some why)
    with Cons.prems obtain results1
      where rest: "review_imports replacing existing rest known = Inr (results1, accepted, known')"
      by (cases why) (auto simp: bind_result_Inr)
    show ?thesis using Cons.IH [OF rest Cons.prems(2)] by auto
  qed
qed simp

lemma review_answers_each:
  assumes "review_imports replacing existing reviewed known = Inr (results, accepted, known')"
  shows "mset (map rr_alias results @ map ri_alias accepted) = mset (map ri_alias reviewed)"
  using assms
  by (induction replacing existing reviewed known arbitrary: results accepted rule: review_imports.induct)
     (auto simp: bind_result_Inr split: option.splits prod.splits)

lemma merged_routes_get:
  "bt_get (merged_routes accepted routes) b =
     (case List.find (\<lambda>r. ri_alias r = b) (rev accepted) of
        None \<Rightarrow> bt_get routes b | Some r \<Rightarrow> Some (JStr (ri_primary r)))"
proof (induction accepted rule: rev_induct)
  case (snoc r accepted)
  then show ?case by (simp add: merged_routes_def bt_get_insert)
qed (simp add: merged_routes_def)

lemma found_in_list: "List.find P (rev xs) = Some x \<Longrightarrow> x \<in> set xs \<and> P x"
  by (metis find_Some_iff nth_mem set_rev)

lemma sorted_deployments_set: "set (sorted_deployments known) = set (bt_values known)"
  by (simp add: sorted_deployments_def)

text \<open>The existing deployments of a document that passed validation, each under its own name.\<close>

lemma existing_deployments_known:
  assumes "validate_document C (JObj kvs) = Inr ()" and "bt_wf kvs"
    and "or_insert ''deployments'' (JArr []) kvs = JArr ds" and "deployments_by_name ds [] = Inr known"
  shows "\<forall>d \<in> set ds. \<exists>n. deployment_name d = Some n \<and> bt_get known n = Some d"
proof -
  from assms(1) obtain r where r: "registry_of (JObj kvs) = Some r" "check_deployments (rg_deployments r) {} = Inr ()"
    by (auto simp: validate_document_def result_simps)
  have "list_of deployment_of (JArr ds) = Some (rg_deployments r)"
    using r(1) assms(2,3)
    by (auto simp: registry_of_sorted or_insert_def defaulted_def bind_eq_Some_conv split: option.splits)
  then have typed: "list_all2 (\<lambda>d dp. deployment_of d = Some dp) ds (rg_deployments r)" by (simp add: those_map)
  have named: "\<forall>d \<in> set ds. \<exists>n. deployment_name d = Some n" using deployments_by_name_named [OF assms(4)] .
  have "map deployment_name ds = map Some (map dp_name (rg_deployments r))"
    using typed named by (rule typed_names)
  then have "distinct (map deployment_name ds)"
    using check_deployments_distinct [OF r(2)] by (simp only: distinct_map [of Some] inj_Some simp_thms)
  from deployments_by_name_get [OF assms(4) this] show ?thesis by simp
qed

subsection \<open>The merge\<close>

text \<open>What a run of an import that answered went through.\<close>

lemma import_run:
  assumes "import_routes C site reviewed replacing f = (Inr (v, answer), f')"
  obtains kvs routes ds known results accepted known' where
    "import_start C f = Inr (JObj kvs)" and "validate_document C (JObj kvs) = Inr ()"
    and "or_insert ''routes'' (JObj []) kvs = JObj routes" and "or_insert ''deployments'' (JArr []) kvs = JArr ds"
    and "deployments_by_name ds [] = Inr known"
    and "review_imports replacing routes reviewed known = Inr (results, accepted, known')"
    and "answer = sort_by_key rr_alias (results @ map imported_result accepted)"
    and "accepted = [] \<and> f' = f
           \<and> v = JObj (bt_insert ''deployments'' (JArr ds) (bt_insert ''routes'' (JObj routes) kvs))
       \<or> accepted \<noteq> [] \<and> write_registry C site v f = (Inr (), f')
           \<and> v = JObj (bt_insert ''deployments'' (JArr (sorted_deployments known'))
                      (bt_insert ''routes'' (JObj (merged_routes accepted routes)) kvs))"
  using assms unfolding import_routes_def Let_def
  by (fastforce simp: run_simps split: prod.splits if_splits elim!: as_object.elims as_list.elims)

lemma import_start_sorted:
  assumes "import_start C f = Inr (JObj kvs)" and "documented_json C"
  shows "bt_wf kvs"
proof (cases "route_file_exists f = Inr True")
  case True
  with assms(1) have "route_snapshot C f = Inr (JObj kvs)" by (simp add: import_start_def bind_result_def)
  then show ?thesis using snapshot_sorted [OF _ assms(2)] by (metis sorted_value.simps(1))
next
  case False
  with assms(1) have "JObj kvs = fresh_registry (JObj [])"
    by (auto simp: import_start_def bind_result_def split: sum.splits if_splits)
  then show ?thesis by (auto simp: fresh_registry_def json_obj_def bt_wf_def)
qed

text \<open>
  C20. An import of reviewed aliases that answered: an alias whose destination changed was one of the
  reviewed aliases, had until then exactly the destination its review expected (none, unless replacing was asked
  for) and now has the destination of one such review; every deployment the document had is still in it as it was;
  each reviewed alias has one line in the answer; and the file is the one it was or holds the answered document.
\<close>

theorem imports_redirect_only_reviewed_aliases:
  assumes "import_routes C site reviewed replacing f = (Inr (v, answer), f')" and "documented_json C"
  shows "\<exists>v0. import_start C f = Inr v0
    \<and> (\<forall>b. bt_get (routes_in v) b \<noteq> bt_get (routes_in v0) b \<longrightarrow>
         (\<exists>r \<in> set reviewed. ri_alias r = b \<and> bt_get (routes_in v) b = Some (JStr (ri_primary r))
            \<and> bt_get (routes_in v0) b = map_option JStr (ri_expected_primary r)
            \<and> (replacing \<or> bt_get (routes_in v0) b = None)))
    \<and> set (deployments_in v0) \<subseteq> set (deployments_in v)
    \<and> mset (map rr_alias answer) = mset (map ri_alias reviewed)
    \<and> (f' = f \<or> (\<exists>body. rc_pretty C v = Inr body \<and> f' = Body (body @ [NL])))"
proof -
  obtain kvs routes ds known results accepted known' where start: "import_start C f = Inr (JObj kvs)"
    and valid: "validate_document C (JObj kvs) = Inr ()"
    and routes: "or_insert ''routes'' (JObj []) kvs = JObj routes" and ds: "or_insert ''deployments'' (JArr []) kvs = JArr ds"
    and known: "deployments_by_name ds [] = Inr known"
    and review: "review_imports replacing routes reviewed known = Inr (results, accepted, known')"
    and answer: "answer = sort_by_key rr_alias (results @ map imported_result accepted)"
    and ended: "accepted = [] \<and> f' = f
           \<and> v = JObj (bt_insert ''deployments'' (JArr ds) (bt_insert ''routes'' (JObj routes) kvs))
       \<or> accepted \<noteq> [] \<and> write_registry C site v f = (Inr (), f')
           \<and> v = JObj (bt_insert ''deployments'' (JArr (sorted_deployments known'))
                      (bt_insert ''routes'' (JObj (merged_routes accepted routes)) kvs))"
    using import_run [OF assms(1)] .
  have before: "routes_in (JObj kvs) = routes" "deployments_in (JObj kvs) = ds" using routes ds by simp_all
  have after: "routes_in v = merged_routes accepted routes"
    using ended by (auto simp: or_insert_def bt_get_insert merged_routes_def)
  have held: "set ds \<subseteq> set (deployments_in v)"
  proof (cases "accepted = []")
    case True
    with ended show ?thesis by (auto simp: or_insert_def bt_get_insert)
  next
    case False
    with ended have v: "deployments_in v = sorted_deployments known'" by (auto simp: or_insert_def bt_get_insert)
    show ?thesis
    proof
      fix d assume "d \<in> set ds"
      with existing_deployments_known [OF valid import_start_sorted [OF start assms(2)] ds known] obtain n
        where "bt_get known n = Some d" by blast
      from review_keeps [OF review this] show "d \<in> set (deployments_in v)"
        using v by (simp add: sorted_deployments_set bt_get_values)
    qed
  qed
  have redirected: "\<exists>r \<in> set reviewed. ri_alias r = b \<and> bt_get (routes_in v) b = Some (JStr (ri_primary r))
      \<and> bt_get routes b = map_option JStr (ri_expected_primary r) \<and> (replacing \<or> bt_get routes b = None)"
    if changed: "bt_get (routes_in v) b \<noteq> bt_get routes b" for b
  proof -
    from changed after obtain r where found: "List.find (\<lambda>r. ri_alias r = b) (rev accepted) = Some r"
      and "bt_get (routes_in v) b = Some (JStr (ri_primary r))"
      by (auto simp: merged_routes_get split: option.splits)
    moreover from found have "r \<in> set accepted" "ri_alias r = b" 
      by (auto dest: found_in_list)
    ultimately show ?thesis using review_accepts [OF review] by blast
  qed
  have listed: "mset (map rr_alias answer) = mset (map ri_alias reviewed)"
    using review_answers_each [OF review] by (simp add: answer imported_result_def image_mset.compositionality comp_def)
  have kept: "f' = f \<or> (\<exists>body. rc_pretty C v = Inr body \<and> f' = Body (body @ [NL]))"
    using ended by (auto elim: write_registry_committed)
  show ?thesis
    using start before held redirected listed kept by (intro exI [of _ "JObj kvs"]) simp
qed

subsection \<open>Migrating twice\<close>

lemma migrated_get:
  "bt_get (migrated_entries kvs) k =
     (if k = ''categories'' then bt_get kvs ''categories''
      else if k = ''routes'' then Some (or_insert ''routes'' (JObj []) kvs)
      else if k = ''deployments'' then Some (or_insert ''deployments'' (JArr []) kvs)
      else if k = ''schema_version'' then Some (or_insert ''schema_version'' (JInt SCHEMA_VERSION) kvs)
      else None)"
  unfolding migrated_entries_def Let_def entries_of_def
  by (auto simp: bt_get_insert split: option.splits)

lemma migrated_again: "migrated (migrated_entries kvs) = migrated kvs"
  by (simp add: migrated_def migrated_entries_def [of "migrated_entries kvs"] or_insert_def [of _ _ "migrated_entries kvs"]
      migrated_get) (simp add: migrated_entries_def)

text \<open>
  The migration is the same run twice as once: where it answered a document that the JSON library
  prints and reads back, running it again on the file it left answers the same document and leaves the same file.
  It drops no alias, deployment or category the older file stated.
\<close>

theorem migration_runs_twice_as_once:
  assumes "migrate C site f = (Inr v, f')" and "writes_back C v"
  shows "migrate C site f' = (Inr v, f')
    \<and> (\<exists>body v0. read_body C f = Inr body \<and> rc_value C body = Inr v0 \<and> routes_in v = routes_in v0
         \<and> deployments_in v = deployments_in v0
         \<and> json_get v ''categories'' = json_get v0 ''categories'')"
proof -
  from assms(1) obtain body kvs where guard: "rs_guard site = Inr ()" and read: "read_body C f = Inr body"
    and parsed: "rc_value C body = Inr (JObj kvs)" and v: "v = migrated kvs"
    and valid: "validate_document C v = Inr ()" and wrote: "write_registry C site v f = (Inr (), f')"
    by (auto simp: migrate_def written_def run_simps prefixed_Inr elim!: as_object.elims)
  obtain body' where there: "f' = Body (body' @ [NL])" and returns: "rc_value C (body' @ [NL]) = Inr v"
    using write_registry_committed [OF wrote] assms(2) unfolding writes_back_def by metis
  have "write_registry C site v f' = (Inr (), f')"
    using wrote by (auto simp: write_registry_def split: sum.splits if_splits)
  then have "migrate C site f' = (Inr v, f')"
    using guard there returns v valid migrated_again [of kvs]
    by (simp add: migrate_def written_def bind_step_def lift_step_def read_step_def ok_step_def prefixed_def migrated_def)
  moreover have "routes_in v = routes_in (JObj kvs)" "deployments_in v = deployments_in (JObj kvs)"
    "json_get v ''categories'' = json_get (JObj kvs) ''categories''"
    using v by (simp_all add: migrated_def migrated_get or_insert_def [of _ _ "migrated_entries kvs"] flip: bt_get_map_of)
  ultimately show ?thesis using read parsed by blast
qed

subsection \<open>Concrete registries\<close>

definition local_registry :: json where
  "local_registry =
     JObj [(''deployments'', JArr [JObj [(''endpoint'', JObj [(''host'', JStr ''127.0.0.1''), (''port'', JInt 8080)]),
                                        (''name'', JStr ''llama'')]]),
           (''routes'', JObj [(''fast'', JStr ''llama'')])]"

definition smart_registry :: json where
  "smart_registry =
     JObj [(''deployments'', JArr [JObj [(''endpoint'', JObj [(''host'', JStr ''127.0.0.1''), (''port'', JInt 8080)]),
                                        (''name'', JStr ''llama'')]]),
           (''routes'', JObj [(''fast'', JStr ''llama''), (''smart'', JStr ''best'')])]"

definition migrated_registry :: json where
  "migrated_registry =
     JObj [(''deployments'', JArr [JObj [(''endpoint'', JObj [(''host'', JStr ''127.0.0.1''), (''port'', JInt 8080)]),
                                        (''name'', JStr ''llama'')]]),
           (''routes'', JObj [(''fast'', JStr ''llama'')]), (''schema_version'', JInt 1)]"

text \<open>A library that knows two documents: the one on disk, whose text is \<open>old\<close>, and the one written.\<close>

definition two_documents :: "json \<Rightarrow> json \<Rightarrow> route_crates" where
  "two_documents old new =
     \<lparr>rc_tree = (\<lambda>body. Some (if body = ''old'' then old else new)),
      rc_value = (\<lambda>body. Inr (if body = ''old'' then old else new)), rc_pretty = (\<lambda>v. Inr ''new''),
      rc_tree_error = (\<lambda>_. []), rc_value_error = (\<lambda>_. []), rc_absent = [], rc_visits = (\<lambda>xs. xs)\<rparr>"

definition willing_site :: route_site where
  "willing_site =
     \<lparr>rs_path = ''/etc/brama/routes.json'', rs_parent = True, rs_file_name = True, rs_guard = Inr (),
      rs_open = Inr (), rs_write = Inr (), rs_finish = Inr (), rs_sync = Inr (), rs_reread = (\<lambda>_. None),
      rs_rename = Inr (), rs_left = None, rs_directory = Inr ()\<rparr>"

lemma two_documents_documented:
  "sorted_value old \<Longrightarrow> sorted_value new \<Longrightarrow> documented_json (two_documents old new)"
  by (simp add: documented_json_def two_documents_def)

lemma two_documents_writes_back: "writes_back (two_documents old new) new"
  by (simp add: writes_back_def two_documents_def NL_def)

lemma sorted_registries:
  "sorted_value local_registry" "sorted_value smart_registry" "sorted_value migrated_registry"
  by code_simp+

lemma smart_route_set:
  "update_route (two_documents local_registry smart_registry) willing_site ''smart'' ''best'' (Body ''old'')
     = (Inr smart_registry, Body (''new'' @ [NL]))"
  by code_simp

theorem updated_route_is_where_its_alias_goes_witness:
  "\<exists>v0 r. route_snapshot (two_documents local_registry smart_registry) (Body ''old'') = Inr v0 \<and> registry_of v0 = Some r \<and>
    (\<forall>b. case (if b = ''smart'' then Some ''best'' else bt_get (rg_routes r) b) of
           None \<Rightarrow> resolve (two_documents local_registry smart_registry) (Body (''new'' @ [NL])) b = Inr None
         | Some d \<Rightarrow> \<exists>to. resolved_destination r d = Inr to
             \<and> resolve (two_documents local_registry smart_registry) (Body (''new'' @ [NL])) b = Inr (Some to))"
  by (rule updated_route_is_where_its_alias_goes [OF smart_route_set
      two_documents_documented [OF sorted_registries(1,2)] two_documents_writes_back])

theorem local_models_stay_on_safe_addresses_witness:
  "\<exists>a b c d port. ''http://127.0.0.1:8080'' = ''http://'' @ dotted a b c d @ '':'' @ show_nat port
    \<and> a < 256 \<and> b < 256 \<and> c < 256 \<and> d < 256 \<and> (a = 127 \<or> a = 100 \<and> 64 \<le> b \<and> b < 128)
    \<and> 0 < port \<and> port < 65536"
proof -
  let ?C = "two_documents local_registry smart_registry"
  let ?llama = "\<lparr>dp_name = ''llama'', dp_adapters = [], dp_endpoint = \<lparr>ep_host = ''127.0.0.1'', ep_port = 8080\<rparr>\<rparr>"
  have "bind_result (read_registry ?C (Body ''old'')) (\<lambda>r. deployment_for_model r ''llama'') = Inr ?llama" by code_simp
  moreover have "safe_endpoint ?llama" by code_simp
  ultimately have "base_url ?C (Body ''old'') ''llama'' = Inr (''http://127.0.0.1:'' @ show_nat 8080)"
    by (auto simp: base_url_def bind_result_def split: sum.splits)
  moreover have "char_of (56 :: nat) = CHR ''8''" "char_of (48 :: nat) = CHR ''0''" by code_simp+
  ultimately have "base_url ?C (Body ''old'') ''llama'' = Inr ''http://127.0.0.1:8080''"
    by (simp add: show_nat.simps)
  then show ?thesis by (rule local_models_stay_on_safe_addresses)
qed

definition smart_import :: route_import where
  "smart_import = \<lparr>ri_alias = ''smart'', ri_primary = ''best'', ri_deployments = [], ri_expected_primary = None\<rparr>"

theorem imports_redirect_only_reviewed_aliases_witness:
  "\<exists>v0. import_start (two_documents local_registry smart_registry) (Body ''old'') = Inr v0
    \<and> (\<forall>b. bt_get (routes_in smart_registry) b \<noteq> bt_get (routes_in v0) b \<longrightarrow>
         (\<exists>r \<in> set [smart_import]. ri_alias r = b \<and> bt_get (routes_in smart_registry) b = Some (JStr (ri_primary r))
            \<and> bt_get (routes_in v0) b = map_option JStr (ri_expected_primary r)
            \<and> (False \<or> bt_get (routes_in v0) b = None)))
    \<and> set (deployments_in v0) \<subseteq> set (deployments_in smart_registry)
    \<and> mset (map rr_alias [imported_result smart_import]) = mset (map ri_alias [smart_import])
    \<and> (Body (''new'' @ [NL]) = Body ''old'' \<or> (\<exists>body. rc_pretty (two_documents local_registry smart_registry) smart_registry
          = Inr body \<and> Body (''new'' @ [NL]) = Body (body @ [NL])))"
proof -
  have "import_routes (two_documents local_registry smart_registry) willing_site [smart_import] False (Body ''old'')
      = (Inr (smart_registry, [imported_result smart_import]), Body (''new'' @ [NL]))"
    by code_simp
  then show ?thesis
    by (rule imports_redirect_only_reviewed_aliases [OF _ two_documents_documented [OF sorted_registries(1,2)]])
qed

theorem migration_runs_twice_as_once_witness:
  "migrate (two_documents local_registry migrated_registry) willing_site (Body (''new'' @ [NL]))
     = (Inr migrated_registry, Body (''new'' @ [NL]))"
proof -
  have "migrate (two_documents local_registry migrated_registry) willing_site (Body ''old'')
      = (Inr migrated_registry, Body (''new'' @ [NL]))"
    by code_simp
  from migration_runs_twice_as_once [OF this two_documents_writes_back] show ?thesis by blast
qed

end
