(* ===== verification/Aliases.thy ===== *)
theory Aliases
  imports Route_Imports
begin

section \<open>Aliases\<close>

text \<open>
  \<open>core/server/aliases/\<close>: the names this gateway knows, which kind of route each may carry, the table a process serves
  from (the launcher's declaration and the operator's registry), the one route an alias resolves to per capability,
  the diagnosis an operator reads, and the report assembled from them.

  The registry file is read on every question, so the table holds what the configured path holds
  (\<open>ma_registry\<close>, \<open>None\<close> when no path is configured). Whether the deployment holds a provider's credential
  (\<open>broker::provider_capability_configured\<close>) is the argument \<open>capability\<close>.
\<close>

definition WISENT_BACKEND_ALIAS :: string where "WISENT_BACKEND_ALIAS = ''wisent-backend''"
definition WISENT_EVALUATION_ALIAS :: string where "WISENT_EVALUATION_ALIAS = ''wisent-backend/evaluation''"
definition WISENT_EMBEDDING_ALIAS :: string where "WISENT_EMBEDDING_ALIAS = ''wisent-backend/embeddings''"
definition WISENT_MODERATION_ALIAS :: string where "WISENT_MODERATION_ALIAS = ''wisent-backend/moderation''"
definition WELES_ALIAS :: string where "WELES_ALIAS = ''weles''"
definition DECISION_ALIAS :: string where "DECISION_ALIAS = ''decision-model''"
definition BEST_DECISION_ALIAS :: string where "BEST_DECISION_ALIAS = ''best-decision-model''"
definition IMAGE_ALIAS :: string where "IMAGE_ALIAS = ''image-model''"
definition VIDEO_ALIAS :: string where "VIDEO_ALIAS = ''video-model''"
definition VOICE_ALIAS :: string where "VOICE_ALIAS = ''voice-model''"

definition DECISION_ALIASES :: "string list" where
  "DECISION_ALIASES = [DECISION_ALIAS, BEST_DECISION_ALIAS]"

definition MEDIA_ALIASES :: "string list" where
  "MEDIA_ALIASES = [IMAGE_ALIAS, VIDEO_ALIAS, VOICE_ALIAS]"

definition MODEL_ALIASES :: "string list" where
  "MODEL_ALIASES =
     [WISENT_BACKEND_ALIAS, WISENT_EVALUATION_ALIAS, WISENT_EMBEDDING_ALIAS, WISENT_MODERATION_ALIAS,
      WELES_ALIAS, BEST_ALIAS]"

lemmas alias_names =
  WISENT_BACKEND_ALIAS_def WISENT_EVALUATION_ALIAS_def WISENT_EMBEDDING_ALIAS_def WISENT_MODERATION_ALIAS_def
  WELES_ALIAS_def DECISION_ALIAS_def BEST_DECISION_ALIAS_def IMAGE_ALIAS_def VIDEO_ALIAS_def VOICE_ALIAS_def
  BEST_ALIAS_def DECISION_ALIASES_def MEDIA_ALIASES_def MODEL_ALIASES_def

definition alias_route_shape_supported :: "string \<Rightarrow> string \<Rightarrow> bool" where
  "alias_route_shape_supported name route =
     (if route = BEST_ALIAS
      then name \<noteq> WISENT_EMBEDDING_ALIAS \<and> name \<noteq> WISENT_MODERATION_ALIAS \<and> name \<noteq> DECISION_ALIAS
           \<and> name \<notin> set MEDIA_ALIASES
      else if name = WISENT_EMBEDDING_ALIAS then supports_embedding_route route
      else if name = WISENT_MODERATION_ALIAS then supports_moderation_route route
      else if name = DECISION_ALIAS \<or> name = BEST_DECISION_ALIAS then supports_decision_route route
      else if name = IMAGE_ALIAS then supports_image_route route
      else if name = VIDEO_ALIAS then supports_video_route route
      else if name = VOICE_ALIAS then supports_speech_route route
      else supports_chat_route route)"

definition alias_requires_direct_capability :: "string \<Rightarrow> string \<Rightarrow> bool" where
  "alias_requires_direct_capability name route = (name \<noteq> BEST_ALIAS \<and> route \<noteq> BEST_ALIAS)"

subsection \<open>The table\<close>

record model_aliases =
  ma_routes :: "(string, string) btmap"
  ma_registry :: "route_file option"

type_synonym capability = "string \<Rightarrow> (string, bool) result"

definition serviceable :: "capability \<Rightarrow> string \<Rightarrow> string \<Rightarrow> string option" where
  "serviceable capability name route =
     (if \<not> alias_requires_direct_capability name route then Some route
      else (case provider_id_from_route route of
              None \<Rightarrow> None
            | Some provider \<Rightarrow> (if capability provider = Inr True then Some route else None)))"

text \<open>The lookup every route question shares: the registry answers first, the launcher's table where it names nothing.\<close>

definition source :: "route_crates \<Rightarrow> capability \<Rightarrow> model_aliases \<Rightarrow> string \<Rightarrow> string option" where
  "source C capability M name =
     (let declared = Option.bind (bt_get (ma_routes M) name) (serviceable capability name)
      in case ma_registry M of
           None \<Rightarrow> declared
         | Some file \<Rightarrow>
             (case resolve C file name of
                Inr (Some route) \<Rightarrow> serviceable capability name route
              | Inr None \<Rightarrow> declared
              | Inl err \<Rightarrow> None))"

definition chat_route :: "route_crates \<Rightarrow> capability \<Rightarrow> model_aliases \<Rightarrow> string \<Rightarrow> string option" where
  "chat_route C capability M name =
     (if name = WISENT_EMBEDDING_ALIAS \<or> name = WISENT_MODERATION_ALIAS \<or> name \<in> set DECISION_ALIASES
           \<or> name \<in> set MEDIA_ALIASES
      then None else source C capability M name)"

definition decision_route :: "route_crates \<Rightarrow> capability \<Rightarrow> model_aliases \<Rightarrow> string \<Rightarrow> string option" where
  "decision_route C capability M name =
     (if name \<notin> set DECISION_ALIASES then None else source C capability M name)"

definition image_route :: "route_crates \<Rightarrow> capability \<Rightarrow> model_aliases \<Rightarrow> string \<Rightarrow> string option" where
  "image_route C capability M name = (if name \<noteq> IMAGE_ALIAS then None else source C capability M name)"

definition video_route :: "route_crates \<Rightarrow> capability \<Rightarrow> model_aliases \<Rightarrow> string \<Rightarrow> string option" where
  "video_route C capability M name = (if name \<noteq> VIDEO_ALIAS then None else source C capability M name)"

definition voice_route :: "route_crates \<Rightarrow> capability \<Rightarrow> model_aliases \<Rightarrow> string \<Rightarrow> string option" where
  "voice_route C capability M name = (if name \<noteq> VOICE_ALIAS then None else source C capability M name)"

definition declared_aliases :: "route_crates \<Rightarrow> string \<Rightarrow> model_aliases \<Rightarrow> (string, string list) result" where
  "declared_aliases C path M =
     (let named = MODEL_ALIASES @ map fst (ma_routes M)
      in case ma_registry M of
           None \<Rightarrow> Inr (remdups_adj (sort named))
         | Some file \<Rightarrow>
             (case resolved C file of
                Inl err \<Rightarrow> Inl (''the route registry '' @ path @ '' cannot be read: '' @ err)
              | Inr dynamic \<Rightarrow> Inr (remdups_adj (sort (named @ map fst dynamic)))))"

definition is_declared :: "route_crates \<Rightarrow> model_aliases \<Rightarrow> string \<Rightarrow> bool" where
  "is_declared C M name =
     (name \<in> set MODEL_ALIASES \<or> bt_get (ma_routes M) name \<noteq> None
      \<or> (case ma_registry M of None \<Rightarrow> False | Some file \<Rightarrow> resolve C file name \<noteq> Inr None))"

definition declared_route :: "route_crates \<Rightarrow> model_aliases \<Rightarrow> string \<Rightarrow> (string, string option) result" where
  "declared_route C M name =
     (case ma_registry M of
        None \<Rightarrow> Inr (bt_get (ma_routes M) name)
      | Some file \<Rightarrow>
          (case resolve C file name of
             Inl err \<Rightarrow> Inl err
           | Inr (Some route) \<Rightarrow> Inr (Some route)
           | Inr None \<Rightarrow> Inr (bt_get (ma_routes M) name)))"

subsection \<open>Starting up\<close>

text \<open>
  The environment a process starts in: the declared table, the registry it names, the error of \<open>serde_json\<close> for a
  text that is no table, and the order a \<open>HashSet\<close> lists missing names in.
\<close>

record alias_env =
  ae_declared :: "(string, string option) result"
  ae_registry :: "route_file option"
  ae_table_error :: "string \<Rightarrow> string"
  ae_listed :: "string list \<Rightarrow> string list"

definition MODEL_ALIASES_ENV :: string where
  "MODEL_ALIASES_ENV = ''BRAMA_MODEL_ALIASES''"

definition ALIASES_REQUIRED :: string where
  "ALIASES_REQUIRED =
     MODEL_ALIASES_ENV @ '' is required and is assembled by src/release/bin/start-with-skarbiec from the sealed policy directory. Starting the binary directly cannot obtain it: launch the gateway through that launcher, or export the variable yourself. Restarting an unlaunched process will not repair this.''"

definition check_table_route :: "string \<times> string \<Rightarrow> (string, unit) result" where
  "check_table_route = (\<lambda>(name, route).
     if CHR ''*'' \<in> set route \<or> trim route \<noteq> route then
       Inl (MODEL_ALIASES_ENV @ '' contains an unsafe route for '' @ name)
     else if \<not> alias_route_shape_supported name route then
       Inl (MODEL_ALIASES_ENV @ '' route for '' @ name @ '' is not a shape this alias can take'')
     else Inr ())"

definition extended :: "(string, 'v) btmap \<Rightarrow> (string, 'v) btmap \<Rightarrow> (string, 'v) btmap" where
  "extended m extra = foldl (\<lambda>m (k, v). bt_insert k v m) m extra"

definition from_env :: "route_crates \<Rightarrow> alias_env \<Rightarrow> bool \<Rightarrow> (string, model_aliases) result" where
  "from_env C E require_exact_aliases =
     bind_result (ae_declared E) (\<lambda>declared.
     bind_result (case declared of
         Some encoded \<Rightarrow> Inr encoded
       | None \<Rightarrow> (if \<not> require_exact_aliases then Inr ''{}'' else Inl ALIASES_REQUIRED)) (\<lambda>encoded.
     bind_result (ok_or (MODEL_ALIASES_ENV @ '' is invalid: '' @ ae_table_error E encoded)
         (Option.bind (rc_tree C encoded) (map_from as_str))) (\<lambda>routes.
     bind_result (case ae_registry E of None \<Rightarrow> Inr routes | Some file \<Rightarrow>
         bind_result (resolved C file) (\<lambda>dynamic. Inr (extended routes dynamic))) (\<lambda>effective.
     let missing = filter (\<lambda>name. bt_get effective name = None) MODEL_ALIASES
     in if require_exact_aliases \<and> missing \<noteq> [] then
          Inl (MODEL_ALIASES_ENV @ '' is missing required alias(es): '' @ join '', '' (ae_listed E missing))
        else
          bind_result (each_ok check_table_route (rc_visits C effective)) (\<lambda>_.
            Inr \<lparr>ma_routes = routes, ma_registry = ae_registry E\<rparr>)))))"

subsection \<open>Diagnosis\<close>

datatype alias_state = Serving | NoRoute | CapabilityAbsent | RoutesFileInvalid | CapabilityCheckFailed

record alias_diagnosis =
  ad_name :: string
  ad_state :: alias_state
  ad_route :: "string option"
  ad_reason :: "string option"
  ad_subscription_resolved :: bool

definition alias_serving :: "alias_diagnosis \<Rightarrow> bool" where
  "alias_serving d = (ad_state d = Serving)"

definition ticked :: "string \<Rightarrow> string" where
  "ticked s = ''`'' @ s @ ''`''"

definition no_route_reason :: "string \<Rightarrow> string" where
  "no_route_reason name =
     (if name \<in> set MODEL_ALIASES then
        ''alias '' @ ticked name @ '' is required by this gateway but no route is declared for it; declare one with `PUT /v1/admin/routes` or in the launcher'' @ [CHR 0x27] @ ''s model_aliases policy''
      else if name \<in> set DECISION_ALIASES then
        ''alias '' @ ticked name @ '' is a decision alias this gateway knows but no route is declared for it; declare one with `brama routes set '' @ name @ '' <provider/model>` or `PUT /v1/admin/routes`''
      else if name \<in> set MEDIA_ALIASES then
        ''alias '' @ ticked name @ '' is a media alias this gateway knows but no route is declared for it; declare one with `brama routes set '' @ name @ '' <provider/model>` or `PUT /v1/admin/routes`''
      else ''alias '' @ ticked name @ '' is not declared on this gateway'')"

definition route_configured :: "capability \<Rightarrow> string \<Rightarrow> string \<Rightarrow> (string, bool) result" where
  "route_configured capability name route =
     (if \<not> alias_requires_direct_capability name route then Inr True
      else (case provider_id_from_route route of Some provider \<Rightarrow> capability provider | None \<Rightarrow> Inr False))"

definition absent_reason :: "string \<Rightarrow> string \<Rightarrow> string" where
  "absent_reason name route =
     ''alias '' @ ticked name @ '' routes to '' @ route @ '' but this gateway holds no provider credential for '' @
     (case provider_id_from_route route of
        Some provider \<Rightarrow> provider
      | None \<Rightarrow> ''the provider of '' @ route @ '', which names none this gateway knows'') @
     ''; issue the provider capability on this host or point the alias at a route it can reach, such as `best`''"

definition diagnose :: "route_crates \<Rightarrow> capability \<Rightarrow> model_aliases \<Rightarrow> string \<Rightarrow> alias_diagnosis" where
  "diagnose C capability M name =
     (if name = BEST_ALIAS \<and> (case declared_route C M name of Inr (Some _) \<Rightarrow> False | _ \<Rightarrow> True) then
        \<lparr>ad_name = name, ad_state = Serving, ad_route = Some BEST_ALIAS, ad_reason = None, ad_subscription_resolved = True\<rparr>
      else
        (case declared_route C M name of
           Inl err \<Rightarrow>
             \<lparr>ad_name = name, ad_state = RoutesFileInvalid, ad_route = None,
              ad_reason = Some (''the inference route registry could not be read: '' @ err), ad_subscription_resolved = False\<rparr>
         | Inr None \<Rightarrow>
             \<lparr>ad_name = name, ad_state = NoRoute, ad_route = None, ad_reason = Some (no_route_reason name),
              ad_subscription_resolved = False\<rparr>
         | Inr (Some route) \<Rightarrow>
             (case route_configured capability name route of
                Inr True \<Rightarrow>
                  \<lparr>ad_name = name, ad_state = Serving, ad_route = Some route, ad_reason = None,
                   ad_subscription_resolved = False\<rparr>
              | Inl err \<Rightarrow>
                  \<lparr>ad_name = name, ad_state = CapabilityCheckFailed, ad_route = Some route, ad_reason = Some err,
                   ad_subscription_resolved = False\<rparr>
              | Inr False \<Rightarrow>
                  \<lparr>ad_name = name, ad_state = CapabilityAbsent, ad_route = Some route,
                   ad_reason = Some (absent_reason name route), ad_subscription_resolved = False\<rparr>)))"

text \<open>\<open>alias_routing\<close>: each shape through its own accessor.\<close>

definition alias_routing ::
  "route_crates \<Rightarrow> capability \<Rightarrow> model_aliases \<Rightarrow> string \<Rightarrow> string option \<times> alias_diagnosis" where
  "alias_routing C capability M name =
     ((if name \<in> set DECISION_ALIASES then decision_route C capability M name
       else if name = IMAGE_ALIAS then image_route C capability M name
       else if name = VIDEO_ALIAS then video_route C capability M name
       else if name = VOICE_ALIAS then voice_route C capability M name
       else chat_route C capability M name),
      diagnose C capability M name)"

subsection \<open>What an alias promises\<close>

text \<open>
  C0. An alias serves one capability: of the chat, decision, image, video and voice routes at most one
  answers for any name, whatever the operator declared, and none for the two typed names, whose endpoints ask the table
  themselves.
\<close>

theorem alias_serves_one_shape:
  "length (filter (\<lambda>r. r \<noteq> None)
      [chat_route C capability M name, decision_route C capability M name, image_route C capability M name,
       video_route C capability M name, voice_route C capability M name])
     \<le> (if name \<in> {WISENT_EMBEDDING_ALIAS, WISENT_MODERATION_ALIAS} then 0 else 1)"
  by (auto simp: chat_route_def decision_route_def image_route_def video_route_def voice_route_def alias_names)

lemma source_declared:
  "source C capability M name =
     (case declared_route C M name of
        Inr (Some route) \<Rightarrow> (if route_configured capability name route = Inr True then Some route else None)
      | _ \<Rightarrow> None)"
  by (auto simp: source_def declared_route_def serviceable_def route_configured_def Let_def
      split: option.splits sum.splits)

text \<open>
  C10. The diagnosis an operator reads agrees with what a request meets: an alias is reported as serving exactly when the
  lookup every request shares finds it a route (or when it is \<open>best\<close>, which the pool resolves), and the route
  reported is the one found; a registry that cannot be read, a missing declaration, a missing credential and a
  check that failed are four other states.
\<close>

theorem diagnosis_agrees_with_routing:
  "alias_serving (diagnose C capability M name) =
     (name = BEST_ALIAS \<or> (\<exists>route. source C capability M name = Some route))
   \<and> (case source C capability M name of
        Some route \<Rightarrow> ad_route (diagnose C capability M name) = Some route
      | None \<Rightarrow> True)"
  by (auto simp: source_declared diagnose_def alias_serving_def route_configured_def alias_requires_direct_capability_def
      split: sum.splits option.splits bool.splits)

subsection \<open>A table that started\<close>

lemma extended_get:
  "distinct (map fst extra) \<Longrightarrow> bt_get (extended m extra) k = (case bt_get extra k of Some v \<Rightarrow> Some v | None \<Rightarrow> bt_get m k)"
proof (induction extra arbitrary: m)
  case (Cons e extra)
  obtain k1 v1 where e: "e = (k1, v1)" by (cases e)
  have "extended m (e # extra) = extended (bt_insert k1 v1 m) extra" by (simp add: extended_def e)
  moreover have "bt_get extra k1 = None" using Cons.prems e by (simp add: bt_get_None bt_keys_def)
  ultimately show ?case
    using Cons.IH [of "bt_insert k1 v1 m"] Cons.prems e
    by (cases "k = k1") (auto simp: bt_get_insert split: option.splits)
qed (simp add: extended_def)

lemma resolved_distinct: "resolved C file = Inr dynamic \<Longrightarrow> distinct (map fst dynamic)"
  by (auto simp: resolved_def resolved_routes_def bind_result_Inr intro: bt_wf_distinct)

lemma bt_get_wf: "bt_wf m \<Longrightarrow> bt_get m k = Some v \<Longrightarrow> (k, v) \<in> set m"
  by (simp add: bt_get_map_of map_of_SomeD)

lemma effective_declared:
  assumes "(case place of None \<Rightarrow> Inr routes | Some f \<Rightarrow>
      bind_result (resolved C f) (\<lambda>dynamic. Inr (extended routes dynamic))) = Inr effective"
  shows "declared_route C \<lparr>ma_routes = routes, ma_registry = place\<rparr> name = Inr (bt_get effective name)"
proof (cases place)
  case None
  with assms show ?thesis by (simp add: declared_route_def)
next
  case (Some f)
  with assms obtain dynamic where "resolved C f = Inr dynamic" and "effective = extended routes dynamic"
    by (auto simp: bind_result_Inr)
  moreover from this have "bt_get effective name = (case bt_get dynamic name of Some v \<Rightarrow> Some v | None \<Rightarrow> bt_get routes name)"
    by (simp add: extended_get resolved_distinct)
  ultimately show ?thesis using Some
    by (auto simp: declared_route_def resolve_def bind_result_def split: option.splits)
qed

text \<open>
  C11. A gateway that started serves no alias on a route of the wrong kind: every route declared for a name, in the
  launcher's table or in the registry, has the shape the name promises and no wildcard or stray blanks; and when the exact
  table was required, every name of the contract has a route.
\<close>

theorem started_table_keeps_its_promises:
  assumes "from_env C E require_exact = Inr M" and "\<forall>xs. mset (rc_visits C xs) = mset xs"
  shows "(\<forall>name route. declared_route C M name = Inr (Some route) \<longrightarrow>
            alias_route_shape_supported name route \<and> CHR ''*'' \<notin> set route \<and> trim route = route)
       \<and> (require_exact \<longrightarrow> (\<forall>name \<in> set MODEL_ALIASES. \<exists>route. declared_route C M name = Inr (Some route)))"
proof -
  from assms(1) obtain routes effective where
    effective: "(case ae_registry E of None \<Rightarrow> Inr routes | Some f \<Rightarrow>
      bind_result (resolved C f) (\<lambda>dynamic. Inr (extended routes dynamic))) = Inr effective"
    and M: "M = \<lparr>ma_routes = routes, ma_registry = ae_registry E\<rparr>"
    and present: "require_exact \<Longrightarrow> filter (\<lambda>name. bt_get effective name = None) MODEL_ALIASES = []"
    and checked: "each_ok check_table_route (rc_visits C effective) = Inr ()"
    unfolding from_env_def Let_def by (auto simp: bind_result_Inr split: if_splits)
  have declared: "declared_route C M name = Inr (bt_get effective name)" for name
    unfolding M by (rule effective_declared [OF effective])
  have "alias_route_shape_supported name route \<and> CHR ''*'' \<notin> set route \<and> trim route = route"
    if "bt_get effective name = Some route" for name route
  proof -
    have "(name, route) \<in> set effective" using that by (simp add: bt_get_map_of map_of_SomeD)
    then have "(name, route) \<in> set (rc_visits C effective)" using assms(2) by (metis mset_eq_setD)
    with checked have "check_table_route (name, route) = Inr ()" by (auto simp: each_ok_Inr)
    then show ?thesis by (auto simp: check_table_route_def split: if_splits)
  qed
  moreover have "\<exists>route. bt_get effective name = Some route" if "require_exact" "name \<in> set MODEL_ALIASES" for name
    using present [OF that(1)] that(2) by (auto simp: filter_empty_conv)
  ultimately show ?thesis by (auto simp: declared)
qed

definition contract_table :: json where
  "contract_table =
     JObj [(''best'', JStr ''best''), (''weles'', JStr ''best''), (''wisent-backend'', JStr ''best''),
           (''wisent-backend/embeddings'', JStr ''openai/text-embedding-3-small''),
           (''wisent-backend/evaluation'', JStr ''best''), (''wisent-backend/moderation'', JStr ''openai/omni-moderation'')]"

definition launched :: alias_env where
  "launched =
     \<lparr>ae_declared = Inr (Some ''old''), ae_registry = None, ae_table_error = (\<lambda>_. []), ae_listed = (\<lambda>xs. xs)\<rparr>"

theorem started_table_keeps_its_promises_witness:
  "\<exists>M. from_env (two_documents contract_table contract_table) launched True = Inr M
     \<and> (\<forall>name \<in> set MODEL_ALIASES. \<exists>route. declared_route (two_documents contract_table contract_table) M name = Inr (Some route))"
proof -
  let ?C = "two_documents contract_table contract_table"
  have "\<not> Sum_Type.isl (from_env ?C launched True)" by code_simp
  then obtain M where M: "from_env ?C launched True = Inr M" by (cases "from_env ?C launched True") auto
  have "\<forall>xs. mset (rc_visits ?C xs) = mset xs" by (simp add: two_documents_def)
  from started_table_keeps_its_promises [OF M this] M show ?thesis by auto
qed

end
