(* ===== verification/Task_Quality.thy ===== *)
theory Task_Quality
  imports Selection Caller_Wires Inference_Routes
begin

section \<open>Task quality\<close>

text \<open>
  \<open>subscription_dispatch/quality.rs\<close> (the collector that asks each of an agent's models one question and journals
  whether it passed), \<open>dispatch/ranking/task_quality.rs\<close> (the order \<open>task:<name>\<close> walks) and the two task selectors of
  \<open>dispatch/selection/\<close>. The record \<open>quality_crates\<close> is what is outside: chrono's reading of a time and its text
  of one, \<open>Debug\<close> of a string, and the order a \<open>HashMap\<close> hands out its entries.
\<close>

record quality_crates =
  qc_seconds :: "string \<Rightarrow> (string, int) result"
  qc_now_text :: "nat \<Rightarrow> string"
  qc_debug :: "string \<Rightarrow> string"
  qc_visits :: "(string \<times> f64 \<times> int) list \<Rightarrow> (string \<times> f64 \<times> int) list"

subsection \<open>Equal scores\<close>

text \<open>
  The exact value of a finite double, in units of the smallest one. \<open>(x - y).abs() < f64::EPSILON\<close>: the
  subtraction rounds to the nearest double, ties to the even one, so the rounded difference is below \<open>2 ^ - 52\<close>
  exactly when the difference is below the midpoint of \<open>2 ^ - 52\<close> and the double before it, which is
  \<open>2 ^ - 52 - 2 ^ - 106\<close>. Nothing is near an infinity or a NaN.
\<close>

definition f64_units :: "f64 \<Rightarrow> int" where
  "f64_units x =
     (let e = f64_mag x div 2 ^ 52; m = f64_mag x mod 2 ^ 52;
          n = (if e = 0 then m else (2 ^ 52 + m) * 2 ^ nat (e - 1))
      in if f64_negative x then - n else n)"

definition f64_finite :: "f64 \<Rightarrow> bool" where
  "f64_finite x = (f64_mag x < 0x7FF0000000000000)"

definition same_score :: "f64 \<Rightarrow> f64 \<Rightarrow> bool" where
  "same_score x y =
     (f64_finite x \<and> f64_finite y \<and> \<bar>f64_units x - f64_units y\<bar> < 2 ^ 1022 - 2 ^ 968)"

subsection \<open>The fields of a check\<close>

fun row_text :: "json_codec \<Rightarrow> json option \<Rightarrow> string option" where
  "row_text J (Some (JStr value)) = Some (trim value)"
| "row_text J (Some (JInt value)) = Some (show_json J (JInt value))"
| "row_text J (Some (JFloat value)) = Some (show_json J (JFloat value))"
| "row_text J (Some (JBool value)) = Some (if value then ''true'' else ''false'')"
| "row_text J _ = None"

definition string_field :: "json_codec \<Rightarrow> json \<Rightarrow> string \<Rightarrow> string option" where
  "string_field J row key = row_text J (json_get row key)"

definition malformed :: "json_codec \<Rightarrow> string \<Rightarrow> json \<Rightarrow> string \<Rightarrow> refusal" where
  "malformed J task row cause =
     gateway GDependencyUnavailable
       (''task '' @ in_quotes task @ '' quality check '' @ show_json J row @ '' cannot rank: '' @ cause)"

definition score_field :: "json_codec \<Rightarrow> json \<Rightarrow> (string, f64) result" where
  "score_field J row =
     (case json_get row ''score'' of
        Some score \<Rightarrow> ok_or (''its score '' @ show_json J score @ '' is not a number'') (as_f64 score)
      | None \<Rightarrow> Inl ''it records no score'')"

definition model_field :: "json \<Rightarrow> (string, string) result" where
  "model_field row =
     (case Option.bind (json_get row ''model'') as_str of
        Some model \<Rightarrow> (if trim model \<noteq> [] then Inr (trim model) else Inl ''it names no model'')
      | None \<Rightarrow> Inl ''it names no model'')"

definition checked_at_field :: "quality_crates \<Rightarrow> json_codec \<Rightarrow> json \<Rightarrow> (string, int) result" where
  "checked_at_field Q J row =
     (case string_field J row ''checked_at'' of
        None \<Rightarrow> Inl ''it records no checked_at time''
      | Some value \<Rightarrow>
          (case qc_seconds Q value of
             Inr t \<Rightarrow> Inr t
           | Inl err \<Rightarrow> Inl (''its checked_at '' @ qc_debug Q value @ '' is not an RFC 3339 time: '' @ err)))"

subsection \<open>The ranking\<close>

type_synonym latest_checks = "(string, f64 \<times> int) btmap"

definition active_check :: "json_codec \<Rightarrow> json \<Rightarrow> bool" where
  "active_check J row = (string_field J row ''status'' = Some ''active'')"

text \<open>The newest check of each model; of two checks of one time the first one read stays.\<close>

definition keep_newest :: "string \<Rightarrow> f64 \<Rightarrow> int \<Rightarrow> latest_checks \<Rightarrow> latest_checks" where
  "keep_newest model score checked_at latest =
     (case bt_get latest model of
        Some (_, existing) \<Rightarrow>
          (if existing \<ge> checked_at then latest else bt_insert model (score, checked_at) latest)
      | None \<Rightarrow> bt_insert model (score, checked_at) latest)"

definition rank_row ::
  "quality_crates \<Rightarrow> json_codec \<Rightarrow> string \<Rightarrow> string list \<Rightarrow> json \<Rightarrow> latest_checks \<Rightarrow> (refusal, latest_checks) result" where
  "rank_row Q J task active row latest =
     (case model_field row of
        Inl cause \<Rightarrow> Inl (malformed J task row cause)
      | Inr model \<Rightarrow>
          (if model \<notin> set active then Inr latest
           else (case score_field J row of
                   Inl cause \<Rightarrow> Inl (malformed J task row cause)
                 | Inr score \<Rightarrow>
                     (case checked_at_field Q J row of
                        Inl cause \<Rightarrow> Inl (malformed J task row cause)
                      | Inr checked_at \<Rightarrow> Inr (keep_newest model score checked_at latest)))))"

fun rank_rows ::
  "quality_crates \<Rightarrow> json_codec \<Rightarrow> string \<Rightarrow> string list \<Rightarrow> json list \<Rightarrow> latest_checks \<Rightarrow> (refusal, latest_checks) result" where
  "rank_rows Q J task active [] latest = Inr latest"
| "rank_rows Q J task active (row # rows) latest =
     bind_result (rank_row Q J task active row latest) (rank_rows Q J task active rows)"

text \<open>Highest score first; of two checks of equal score, the later first.\<close>

definition better_check :: "string \<times> f64 \<times> int \<Rightarrow> string \<times> f64 \<times> int \<Rightarrow> ordering" where
  "better_check a b =
     then_with (f64_total_cmp (fst (snd b)) (fst (snd a))) (cmp (snd (snd b)) (snd (snd a)))"

definition scored_checks :: "quality_crates \<Rightarrow> latest_checks \<Rightarrow> (string \<times> f64 \<times> int) list" where
  "scored_checks Q latest = sort_by better_check (qc_visits Q latest)"

definition score_groups :: "(string \<times> f64 \<times> int) list \<Rightarrow> string list list" where
  "score_groups scored =
     map (map fst) (chunk_by (\<lambda>l r. same_score (fst (snd l)) (fst (snd r))) scored)"

fun order_groups :: "(string \<Rightarrow> headroom) \<Rightarrow> string list list \<Rightarrow> draws \<Rightarrow> string list drawn" where
  "order_groups key [] ds = Some (Inr [], ds)"
| "order_groups key (one # groups) ds =
     (case shuffle_within_equal (\<lambda>l r. headroom_cmp (key l) (key r) = Equal) (sort_by_key key one) ds of
        None \<Rightarrow> None
      | Some (Inl refused, ds') \<Rightarrow> Some (Inl refused, ds')
      | Some (Inr one', ds') \<Rightarrow>
          (case order_groups key groups ds' of
             None \<Rightarrow> None
           | Some (Inl refused, ds'') \<Rightarrow> Some (Inl refused, ds'')
           | Some (Inr rest, ds'') \<Rightarrow> Some (Inr (one' @ rest), ds'')))"

definition order_scored ::
  "'f api \<Rightarrow> string \<Rightarrow> (string \<times> f64 \<times> int) list \<Rightarrow> world \<Rightarrow> ((refusal, string list) result \<times> world) option" where
  "order_scored A agent scored w =
     (case api_routing A agent w of
        (Inl err, w1) \<Rightarrow> Some (Inl (gateway GDependencyUnavailable err), w1)
      | (Inr rows, w1) \<Rightarrow>
          (case unretired (api_codec A) (w_journal w1) rows of
             Inl rf \<Rightarrow> Some (Inl rf, w1)
           | Inr subscriptions \<Rightarrow>
               (case now_ms w1 of (now, w2) \<Rightarrow>
                 (case order_groups (route_plan_key (w_ledger w2) now subscriptions) (score_groups scored) (w_draws w2) of
                    None \<Rightarrow> None
                  | Some (r, ds) \<Rightarrow> Some (r, w2\<lparr>w_draws := ds\<rparr>)))))"

definition ranked_checks ::
  "quality_crates \<Rightarrow> json_codec \<Rightarrow> journal \<Rightarrow> string \<Rightarrow> string \<Rightarrow> string list \<Rightarrow> (refusal, latest_checks) result" where
  "ranked_checks Q J jn agent task active =
     (case checks_for_task J jn agent task of
        Inl err \<Rightarrow> Inl (gateway GDependencyUnavailable err)
      | Inr rows \<Rightarrow>
          (if rows = [] then Inl (gateway GInvalidRequest (''no quality checks configured for task '' @ in_quotes task))
           else (case rank_rows Q J task active (filter (active_check J) rows) [] of
                   Inl rf \<Rightarrow> Inl rf
                 | Inr latest \<Rightarrow>
                     (if latest = []
                      then Inl (gateway GSubscriptionUnavailable
                             (''no active quality check result for task '' @ in_quotes task @ '' and signed agent''))
                      else Inr latest))))"

definition task_quality_models ::
  "quality_crates \<Rightarrow> 'f api \<Rightarrow> string \<Rightarrow> string \<Rightarrow> world \<Rightarrow> ((refusal, string list) result \<times> world) option" where
  "task_quality_models Q A agent task w =
     (case active_supported_models_for_agent A agent w of
        None \<Rightarrow> None
      | Some (Inl rf, w1) \<Rightarrow> Some (Inl rf, w1)
      | Some (Inr active, w1) \<Rightarrow>
          (case ranked_checks Q (api_codec A) (w_journal w1) agent task active of
             Inl rf \<Rightarrow> Some (Inl rf, w1)
           | Inr latest \<Rightarrow> order_scored A agent (scored_checks Q latest) w1))"

subsection \<open>The task selectors\<close>

definition task_context :: "string \<Rightarrow> string" where
  "task_context task = ''no working quality-ranked model for task '' @ in_quotes task"

definition dispatch_task_subscription where
  "dispatch_task_subscription K Q A U headers request raw_body task w =
     (case authenticated U headers raw_body w of
        (Inl err, w1) \<Rightarrow> Some (unauthenticated request err, w1)
      | (Inr agent, w1) \<Rightarrow>
          select_buffered K A agent request (task_context task) (task_quality_models Q A agent task w1))"

definition dispatch_task_subscription_stream where
  "dispatch_task_subscription_stream K Q A U headers request raw_body task w =
     (case authenticated U headers raw_body w of
        (Inl err, w1) \<Rightarrow> Some (Inl (unauthenticated request err), w1)
      | (Inr agent, w1) \<Rightarrow>
          select_stream K A agent request (task_context task) (task_quality_models Q A agent task w1))"

subsection \<open>The collector\<close>

record quality_options =
  qo_agent_id :: string
  qo_task :: string
  qo_prompt :: string
  qo_expected_exact :: "string option"
  qo_expected_contains :: "string option"
  qo_persist :: bool
  qo_max_models :: nat
  qo_allow_provider_cost :: bool

record quality_check =
  ck_model :: string
  ck_provider :: "string option"
  ck_passed :: bool
  ck_score :: f64
  ck_checked_at :: string
  ck_row :: json

definition QUALITY_SOURCE :: string where
  "QUALITY_SOURCE = ''brama-task-quality''"

definition quality_status :: "bool \<Rightarrow> string" where
  "quality_status passed = (if passed then ''active'' else ''failed'')"

definition expected_matches :: "quality_options \<Rightarrow> string \<Rightarrow> bool" where
  "expected_matches opts content =
     (case qo_expected_exact opts of
        Some expected \<Rightarrow> trim content = trim expected
      | None \<Rightarrow>
          (case qo_expected_contains opts of
             Some expected \<Rightarrow> str_contains content expected
           | None \<Rightarrow> False))"

definition service_name :: "string \<Rightarrow> string" where
  "service_name provider =
     (if provider = ''claude_code'' then ''Claude Code''
      else if provider = ''codex'' then ''Codex''
      else if provider = ''kimi'' then ''Kimi Code''
      else if provider = ''opencode'' then ''OpenCode''
      else provider)"

definition quality_request :: "quality_options \<Rightarrow> string \<Rightarrow> model_request" where
  "quality_request opts model =
     \<lparr>rq_messages = [\<lparr>msg_role = ''user'', msg_content = JStr (qo_prompt opts), msg_tool_call_id = None,
                       msg_name = None, msg_tool_calls = None\<rparr>],
      rq_model = model, rq_max_tokens = None, rq_temperature = None, rq_system = None, rq_tools = None,
      rq_tool_choice = None, rq_billing_target = None, rq_response_schema = None\<rparr>"

definition optional :: "('a \<Rightarrow> json) \<Rightarrow> 'a option \<Rightarrow> json" where
  "optional f v = (case v of None \<Rightarrow> JNull | Some x \<Rightarrow> f x)"

definition quality_row ::
  "quality_options \<Rightarrow> string \<Rightarrow> string option \<Rightarrow> bool \<Rightarrow> f64 \<Rightarrow> string \<Rightarrow> string \<Rightarrow> model_response \<Rightarrow> json" where
  "quality_row opts model provider passed score content checked_at resp =
     json_obj [(''agent_id'', JStr (qo_agent_id opts)), (''source'', JStr QUALITY_SOURCE),
       (''provider'', optional JStr provider), (''service'', optional (\<lambda>p. JStr (service_name p)) provider),
       (''subscription_id'', JNull), (''account_identifier'', JStr (qo_task opts)),
       (''status'', JStr (quality_status passed)), (''auth_method'', JNull), (''plan'', JNull),
       (''check_kind'', JStr ''task_quality''), (''confidence'', JStr ''observed''),
       (''error'', optional JStr (reason_of resp)),
       (''metadata'', json_obj [(''task'', JStr (qo_task opts)), (''model'', JStr model), (''score'', json_f64 score),
          (''prompt'', JStr (qo_prompt opts)), (''expectedExact'', optional JStr (qo_expected_exact opts)),
          (''expectedContains'', optional JStr (qo_expected_contains opts)), (''output'', JStr content),
          (''latencyMs'', json_f64 (mr_latency_ms resp)), (''attempts'', JInt (uint (mr_attempts resp))),
          (''success'', JBool (success resp))]),
       (''checked_at'', JStr checked_at), (''updated_at'', JStr checked_at)]"

text \<open>\<open>f64::from(u8::from(passed))\<close> is \<open>1.0\<close> or \<open>0.0\<close>.\<close>

definition verdict_score :: "bool \<Rightarrow> f64" where
  "verdict_score passed = (if passed then 0x3FF0000000000000 else 0)"

definition check_model ::
  "'f crates \<Rightarrow> quality_crates \<Rightarrow> 'f api \<Rightarrow> quality_options \<Rightarrow> string \<Rightarrow> world \<Rightarrow> (quality_check \<times> world) option" where
  "check_model K Q A opts model w =
     (let checked_at = qc_now_text Q (w_tick w)
      in case dispatch_subscription_for_agent K A (qo_agent_id opts) (quality_request opts model) (snd (now_ms w)) of
           None \<Rightarrow> None
         | Some (resp, w1) \<Rightarrow>
             (let content = trim (mr_content resp);
                  passed = (success resp \<and> expected_matches opts content);
                  score = verdict_score passed;
                  provider = provider_for model
              in Some (\<lparr>ck_model = model, ck_provider = provider, ck_passed = passed, ck_score = score,
                       ck_checked_at = checked_at,
                       ck_row = quality_row opts model provider passed score content checked_at resp\<rparr>, w1)))"

fun check_models ::
  "'f crates \<Rightarrow> quality_crates \<Rightarrow> 'f api \<Rightarrow> quality_options \<Rightarrow> string list \<Rightarrow> world \<Rightarrow> (quality_check list \<times> world) option" where
  "check_models K Q A opts [] w = Some ([], w)"
| "check_models K Q A opts (model # models) w =
     (case check_model K Q A opts model w of
        None \<Rightarrow> None
      | Some (check, w1) \<Rightarrow>
          map_option (\<lambda>(checks, w2). (check # checks, w2)) (check_models K Q A opts models w1))"

fun persist_quality_rows ::
  "'f api \<Rightarrow> quality_options \<Rightarrow> quality_check list \<Rightarrow> world \<Rightarrow> (string, unit) result \<times> world" where
  "persist_quality_rows A opts [] w = (Inr (), w)"
| "persist_quality_rows A opts (check # checks) w =
     (case ck_provider check of
        None \<Rightarrow> persist_quality_rows A opts checks w
      | Some provider \<Rightarrow>
          (case record_check (api_codec A) (fst (w_appends w (w_append_tick w))) (qo_agent_id opts) provider
                  (ck_model check) (qo_task opts) QUALITY_SOURCE (quality_status (ck_passed check))
                  (Some (ck_score check)) (ck_checked_at check) (w_journal w) of
             (recorded, jn) \<Rightarrow>
               (let w1 = w\<lparr>w_append_tick := Suc (w_append_tick w), w_journal := jn\<rparr>
                in case recorded of
                     Inl err \<Rightarrow> (Inl err, w1)
                   | Inr _ \<Rightarrow> persist_quality_rows A opts checks w1)))"

definition best_models :: "quality_check list \<Rightarrow> string list" where
  "best_models checks =
     (case f64_reduce_max (map ck_score (filter ck_passed checks)) of
        Some best \<Rightarrow> map ck_model (filter (\<lambda>c. ck_passed c \<and> same_score (ck_score c) best) checks)
      | None \<Rightarrow> [])"

definition options_refusal :: "quality_options \<Rightarrow> string option" where
  "options_refusal opts =
     (if \<not> qo_allow_provider_cost opts
      then Some ''refusing billable task-quality collection without explicit cost acknowledgement''
      else if qo_max_models opts = 0 then Some ''max_models must be at least one''
      else if trim (qo_task opts) = [] then Some ''task is required''
      else if trim (qo_prompt opts) = [] then Some ''prompt is required''
      else if qo_expected_exact opts = None \<and> qo_expected_contains opts = None
      then Some ''expected_exact or expected_contains is required''
      else None)"

definition quality_report :: "quality_options \<Rightarrow> quality_check list \<Rightarrow> json" where
  "quality_report opts checks =
     json_obj [(''ok'', JBool True), (''source'', JStr QUALITY_SOURCE), (''agentId'', JStr (qo_agent_id opts)),
       (''task'', JStr (qo_task opts)), (''persisted'', JBool (qo_persist opts)),
       (''maxModels'', JInt (int (qo_max_models opts))), (''rows'', JInt (int (length checks))),
       (''bestModel'', case best_models checks of [only] \<Rightarrow> JStr only | _ \<Rightarrow> JNull),
       (''bestModels'', JArr (map JStr (best_models checks))), (''checks'', JArr (map ck_row checks))]"

text \<open>A refusal of the candidate list converts into its sentence.\<close>

definition collect_task_quality ::
  "'f crates \<Rightarrow> quality_crates \<Rightarrow> 'f api \<Rightarrow> quality_options \<Rightarrow> world \<Rightarrow> ((string, json) result \<times> world) option" where
  "collect_task_quality K Q A opts w =
     (case options_refusal opts of
        Some err \<Rightarrow> Some (Inl err, w)
      | None \<Rightarrow>
          (case active_supported_models_for_agent A (qo_agent_id opts) w of
             None \<Rightarrow> None
           | Some (Inl rf, w1) \<Rightarrow> Some (Inl (rf_message rf), w1)
           | Some (Inr models, w1) \<Rightarrow>
               (case check_models K Q A opts (take (qo_max_models opts) models) w1 of
                  None \<Rightarrow> None
                | Some (checks, w2) \<Rightarrow>
                    (if qo_persist opts
                     then (case persist_quality_rows A opts checks w2 of
                             (Inl err, w3) \<Rightarrow> Some (Inl err, w3)
                           | (Inr _, w3) \<Rightarrow> Some (Inr (quality_report opts checks), w3))
                     else Some (Inr (quality_report opts checks), w2)))))"

subsection \<open>What a ranking stands on\<close>

text \<open>The model, score and time of a check that can rank.\<close>

definition reads_check :: "quality_crates \<Rightarrow> json_codec \<Rightarrow> json \<Rightarrow> string \<Rightarrow> f64 \<Rightarrow> int \<Rightarrow> bool" where
  "reads_check Q J row model score checked_at =
     (model_field row = Inr model \<and> score_field J row = Inr score \<and> checked_at_field Q J row = Inr checked_at)"

text \<open>The rows that rank a model: the active checks of the task that name it.\<close>

definition newest_check ::
  "quality_crates \<Rightarrow> json_codec \<Rightarrow> json list \<Rightarrow> string \<Rightarrow> f64 \<Rightarrow> int \<Rightarrow> bool" where
  "newest_check Q J rows model score checked_at \<longleftrightarrow>
     (\<exists>row \<in> set rows. reads_check Q J row model score checked_at)
     \<and> (\<forall>row \<in> set rows. model_field row = Inr model \<longrightarrow>
          (\<exists>other older. reads_check Q J row model other older \<and> older \<le> checked_at))"

lemma rank_row_step:
  assumes "rank_row Q J task active row latest = Inr latest'" and "model_field row = Inr model"
  shows "if model \<in> set active
    then \<exists>score checked_at. reads_check Q J row model score checked_at \<and> latest' = keep_newest model score checked_at latest
    else latest' = latest"
  using assms by (auto simp: rank_row_def reads_check_def split: sum.splits if_splits)

lemma keep_newest_get:
  "bt_get (keep_newest model score checked_at latest) m =
     (if m = model
      then (case bt_get latest model of
              Some (s, t) \<Rightarrow> if t \<ge> checked_at then Some (s, t) else Some (score, checked_at)
            | None \<Rightarrow> Some (score, checked_at))
      else bt_get latest m)"
  by (auto simp: keep_newest_def bt_get_insert split: option.splits)

lemma bt_wf_keep_newest: "bt_wf latest \<Longrightarrow> bt_wf (keep_newest model score checked_at latest)"
  by (auto simp: keep_newest_def bt_wf_insert split: option.splits)

lemma rank_rows_snoc:
  "rank_rows Q J task active (rows @ [row]) latest =
     bind_result (rank_rows Q J task active rows latest) (rank_row Q J task active row)"
  by (induction rows arbitrary: latest) (auto simp: bind_result_def split: sum.splits)

text \<open>A check names its model, and its score and time read when the model is published.\<close>

definition check_readable :: "quality_crates \<Rightarrow> json_codec \<Rightarrow> string list \<Rightarrow> json \<Rightarrow> bool" where
  "check_readable Q J published row \<longleftrightarrow>
     (\<exists>model. model_field row = Inr model
        \<and> (model \<in> set published \<longrightarrow> (\<exists>score checked_at. reads_check Q J row model score checked_at)))"

lemma rank_rows_readable: "rank_rows Q J task active rows latest = Inr latest' \<Longrightarrow> list_all (check_readable Q J active) rows"
proof (induction rows arbitrary: latest)
  case (Cons row rows)
  from Cons.prems obtain mid where step: "rank_row Q J task active row latest = Inr mid"
    and rest: "rank_rows Q J task active rows mid = Inr latest'" by (auto simp: bind_result_Inr)
  obtain model where model: "model_field row = Inr model"
    using step by (auto simp: rank_row_def split: sum.splits)
  then have "check_readable Q J active row"
    using rank_row_step [OF step model] by (auto simp: check_readable_def split: if_splits)
  with Cons.IH [OF rest] show ?case by simp
qed simp

lemma rank_rows_newest:
  assumes "rank_rows Q J task active rows [] = Inr latest"
  shows "bt_wf latest
    \<and> (\<forall>m. bt_get latest m \<noteq> None \<longleftrightarrow> m \<in> set active \<and> (\<exists>row \<in> set rows. model_field row = Inr m))
    \<and> (\<forall>m s t. bt_get latest m = Some (s, t) \<longrightarrow> newest_check Q J rows m s t)"
  using assms
proof (induction rows arbitrary: latest rule: rev_induct)
  case (snoc row rows)
  then obtain before where before: "rank_rows Q J task active rows [] = Inr before"
    and step: "rank_row Q J task active row before = Inr latest"
    by (auto simp: rank_rows_snoc bind_result_Inr)
  note IH = snoc.IH [OF before]
  obtain model where model: "model_field row = Inr model"
    using step by (auto simp: rank_row_def split: sum.splits)
  show ?case
  proof (cases "model \<in> set active")
    case False
    then have same: "latest = before" using rank_row_step [OF step model] by simp
    have "newest_check Q J (rows @ [row]) m s t" if "bt_get before m = Some (s, t)" for m s t
    proof -
      have "m \<in> set active" using IH that by fastforce
      with False have "m \<noteq> model" by auto
      with IH that model show ?thesis by (auto simp: newest_check_def)
    qed
    with IH same False model show ?thesis by auto
  next
    case True
    then obtain score checked_at where reads: "reads_check Q J row model score checked_at"
      and latest: "latest = keep_newest model score checked_at before"
      using rank_row_step [OF step model] by auto
    have "newest_check Q J (rows @ [row]) m s t" if "bt_get latest m = Some (s, t)" for m s t
    proof (cases "m = model")
      case False
      with that latest have "bt_get before m = Some (s, t)" by (simp add: keep_newest_get)
      with IH have "newest_check Q J rows m s t" by blast
      with False model show ?thesis by (auto simp: newest_check_def)
    next
      case same: True
      show ?thesis
      proof (cases "bt_get before model")
        case None
        with IH True have "\<not> (\<exists>row \<in> set rows. model_field row = Inr model)" by blast
        with None that latest same reads show ?thesis by (auto simp: newest_check_def keep_newest_get)
      next
        case (Some old)
        obtain s0 t0 where old: "old = (s0, t0)" by (cases old)
        with IH Some have held: "newest_check Q J rows model s0 t0" by blast
        from that latest same Some old have "(s, t) = (if t0 \<ge> checked_at then (s0, t0) else (score, checked_at))"
          by (auto simp: keep_newest_get split: if_splits)
        then consider "s = s0" "t = t0" "checked_at \<le> t0" | "s = score" "t = checked_at" "t0 < checked_at"
          by (auto split: if_splits)
        then show ?thesis
        proof cases
          case 1
          with held reads same show ?thesis by (auto simp: newest_check_def)
        next
          case 2
          have "\<exists>other older. reads_check Q J r model other older \<and> older \<le> checked_at"
            if "r \<in> set rows" "model_field r = Inr model" for r
            using held that 2(3) by (auto simp: newest_check_def) (meson less_imp_le order_trans)
          with 2 reads same show ?thesis by (auto simp: newest_check_def)
        qed
      qed
    qed
    moreover have "bt_get latest m \<noteq> None \<longleftrightarrow> m = model \<or> bt_get before m \<noteq> None" for m
      using latest by (auto simp: keep_newest_get split: option.splits if_splits)
    ultimately show ?thesis using IH latest True model by (auto simp: bt_wf_keep_newest)
  qed
qed simp

subsection \<open>The order\<close>

definition check_key :: "string \<times> f64 \<times> int \<Rightarrow> int list" where
  "check_key c = [- f64_total (fst (snd c)), - snd (snd c)]"

lemma better_check_key: "better_check a b = cmp (check_key a) (check_key b)"
  by (auto simp: better_check_def check_key_def then_with_def f64_total_cmp_def cmp_def list_less_def)

lemma scored_checks_sorted: "sorted (map check_key (scored_checks Q latest))"
proof -
  have "sort_by better_check = sort_by_key check_key"
    unfolding sort_by_key_def by (rule arg_cong [of _ _ sort_by]) (simp add: fun_eq_iff better_check_key)
  then show ?thesis by (simp add: scored_checks_def)
qed

lemma order_groups_keeps:
  assumes "order_groups key gs ds = Some (Inr out, ds')" and "length (concat gs) < 2 ^ 63"
  shows "\<exists>gs'. out = concat gs' \<and> list_all2 (\<lambda>g' g. mset g' = mset g \<and> sorted (map key g')) gs' gs"
  using assms
proof (induction gs arbitrary: ds out)
  case (Cons g gs)
  from Cons.prems(1) obtain g' ds1 rest where first:
      "shuffle_within_equal (\<lambda>l r. headroom_cmp (key l) (key r) = Equal) (sort_by_key key g) ds = Some (Inr g', ds1)"
    and rest: "order_groups key gs ds1 = Some (Inr rest, ds')" and out: "out = g' @ rest"
    by (auto split: option.splits prod.splits sum.splits)
  have same: "headroom_cmp l r = Equal \<Longrightarrow> l = r" for l r
    by (cases l; cases r) (auto simp: f64_total_cmp_def f64_total_inject)
  have "length (sort_by_key key g) < 2 ^ 63" using Cons.prems(2) by simp
  note kept = shuffle_within_equal_keeps [OF first same this]
  obtain gs' where "rest = concat gs'" and "list_all2 (\<lambda>g' g. mset g' = mset g \<and> sorted (map key g')) gs' gs"
    using Cons.IH [OF rest] Cons.prems(2) by auto
  moreover have "mset g' = mset g \<and> sorted (map key g')" using kept by simp
  ultimately show ?case using out by (intro exI [of _ "g' # gs'"]) simp
qed simp

lemma score_groups_concat: "concat (score_groups scored) = map fst scored"
  by (simp add: score_groups_def flip: map_concat)

lemma groups_mset: "list_all2 (\<lambda>g' g. mset g' = mset g \<and> P g') gs' gs \<Longrightarrow> mset (concat gs') = mset (concat gs)"
  by (induction gs' gs rule: list_all2_induct) auto

lemma latest_length:
  assumes "bt_wf latest" and "\<forall>m. bt_get latest m \<noteq> None \<longrightarrow> m \<in> set active"
  shows "length latest \<le> length active"
proof -
  have "distinct (map fst latest)" using assms(1) by (simp add: bt_wf_def strict_sorted_iff)
  moreover have "set (map fst latest) \<subseteq> set active" using assms(2) bt_get_None [of latest] by (auto simp: bt_keys_def)
  ultimately have "length (map fst latest) \<le> card (set active)" by (metis card_mono distinct_card List.finite_set)
  then show ?thesis using card_length [of active] by simp
qed

lemma bt_get_in: "bt_wf m \<Longrightarrow> (k, v) \<in> set m \<longleftrightarrow> bt_get m k = Some v"
proof (induction m)
  case (Cons e m)
  then show ?case by (cases e) (auto simp: bt_wf_Cons bt_keys_def)
qed simp

lemma order_scored_run:
  assumes "order_scored A agent scored w = Some (Inr models, w')"
  obtains entries w1 subs ds ds' where "api_routing A agent w = (Inr entries, w1)"
    and "unretired (api_codec A) (w_journal w1) entries = Inr subs"
    and "order_groups (route_plan_key (w_ledger w1) (w_clock w1 (w_tick w1)) subs) (score_groups scored) ds
           = Some (Inr models, ds')"
  using assms by (auto simp: order_scored_def now_ms_def split: prod.splits sum.splits option.splits)

text \<open>
  C32. The models a \<open>task:<name>\<close> request walks are exactly the models published to the agent that an active
  check of the task names, each once. They come in groups of equal score, the highest first, and inside one group
  the freest plan first; the score of a model is the one of its newest active check. No active check of the
  task was passed over unread: each one names a model, and those of a published model have a readable score
  and time; a check that does not refuses the ranking. Only the score and time of a check of a model that
  is not published are never looked at.
\<close>

theorem task_models_ranked_by_newest_checks:
  assumes run: "task_quality_models Q A agent task w = Some (Inr models, w')"
    and visits: "\<forall>xs. mset (qc_visits Q xs) = mset xs"
    and short: "\<forall>active w1. active_supported_models_for_agent A agent w = Some (Inr active, w1) \<longrightarrow> length active < 2 ^ 63"
  shows "\<exists>active w1 rows scored groups entries w2 subs.
    active_supported_models_for_agent A agent w = Some (Inr active, w1)
    \<and> checks_for_task (api_codec A) (w_journal w1) agent task = Inr rows
    \<and> list_all (check_readable Q (api_codec A) active) (filter (active_check (api_codec A)) rows)
    \<and> distinct models
    \<and> set models = {m \<in> set active. \<exists>row \<in> set rows. active_check (api_codec A) row \<and> model_field row = Inr m}
    \<and> models = concat groups \<and> list_all2 (\<lambda>g s. mset g = mset s) groups (score_groups scored)
    \<and> mset (map fst scored) = mset models \<and> sorted (map check_key scored)
    \<and> api_routing A agent w1 = (Inr entries, w2) \<and> unretired (api_codec A) (w_journal w2) entries = Inr subs
    \<and> (\<forall>g \<in> set groups. sorted (map (route_plan_key (w_ledger w2) (w_clock w2 (w_tick w2)) subs) g))
    \<and> (\<forall>(m, s, t) \<in> set scored. newest_check Q (api_codec A) (filter (active_check (api_codec A)) rows) m s t)"
proof -
  from run obtain active w1 latest where listed: "active_supported_models_for_agent A agent w = Some (Inr active, w1)"
    and ranked: "ranked_checks Q (api_codec A) (w_journal w1) agent task active = Inr latest"
    and ordered: "order_scored A agent (scored_checks Q latest) w1 = Some (Inr models, w')"
    by (auto simp: task_quality_models_def split: option.splits sum.splits)
  from ranked obtain rows where rows: "checks_for_task (api_codec A) (w_journal w1) agent task = Inr rows"
    and latest: "rank_rows Q (api_codec A) task active (filter (active_check (api_codec A)) rows) [] = Inr latest"
    by (auto simp: ranked_checks_def split: sum.splits if_splits)
  note newest = rank_rows_newest [OF latest] and readable = rank_rows_readable [OF latest]
  let ?scored = "scored_checks Q latest"
  have same: "mset ?scored = mset latest" using visits by (simp add: scored_checks_def)
  have "length latest \<le> length active" using latest_length newest by blast
  then have few: "length (concat (score_groups ?scored)) < 2 ^ 63"
    using short listed mset_eq_length [OF same] by (fastforce simp: score_groups_concat)
  obtain entries w2 subs ds ds' where routed: "api_routing A agent w1 = (Inr entries, w2)"
      "unretired (api_codec A) (w_journal w2) entries = Inr subs"
    and grouped: "order_groups (route_plan_key (w_ledger w2) (w_clock w2 (w_tick w2)) subs) (score_groups ?scored) ds
           = Some (Inr models, ds')"
    using order_scored_run [OF ordered] .
  let ?key = "route_plan_key (w_ledger w2) (w_clock w2 (w_tick w2)) subs"
  from order_groups_keeps [OF grouped few] obtain groups where models: "models = concat groups"
    and groups: "list_all2 (\<lambda>g' g. mset g' = mset g \<and> sorted (map ?key g')) groups (score_groups ?scored)" by blast
  have perm: "mset models = mset (map fst latest)"
    using groups_mset [OF groups] models same by (simp add: score_groups_concat)
  have dist: "distinct (map fst latest)" using newest by (simp add: bt_wf_def strict_sorted_iff)
  have members: "set models = bt_keys latest" using mset_eq_setD [OF perm] by (simp add: bt_keys_def)
  have keys: "m \<in> bt_keys latest \<longleftrightarrow>
      m \<in> set active \<and> (\<exists>row \<in> set rows. active_check (api_codec A) row \<and> model_field row = Inr m)" for m
  proof -
    have "bt_get latest m \<noteq> None \<longleftrightarrow>
        m \<in> set active \<and> (\<exists>row \<in> set (filter (active_check (api_codec A)) rows). model_field row = Inr m)"
      using newest by blast
    then show ?thesis using bt_get_None [of latest m] by auto
  qed
  have proven: "newest_check Q (api_codec A) (filter (active_check (api_codec A)) rows) m s t" if "(m, s, t) \<in> set ?scored" for m s t
    using that newest mset_eq_setD [OF same] bt_get_in [of latest m "(s, t)"] by auto
  have distinct: "distinct models" using mset_eq_imp_distinct_iff [OF perm] dist by simp
  have scored_perm: "mset (map fst ?scored) = mset models" using perm same by simp
  have groups': "list_all2 (\<lambda>g s. mset g = mset s) groups (score_groups ?scored)"
    using groups by (rule list_all2_mono) simp
  have freest: "\<forall>g \<in> set groups. sorted (map ?key g)"
    using groups by (auto simp: list_all2_conv_all_nth in_set_conv_nth)
  show ?thesis
    using listed rows readable distinct members keys models groups' scored_perm scored_checks_sorted [of Q latest] proven routed freest
    by (intro exI [of _ active] exI [of _ w1] exI [of _ rows] exI [of _ ?scored] exI [of _ groups] exI [of _ entries]
          exI [of _ w2] exI [of _ subs]) auto
qed

definition measured_row :: json where
  "measured_row = check_record ''a'' ''codex'' ''codex/m'' ''sums'' QUALITY_SOURCE ''active'' (Some 0x3FF0000000000000) ''t''"

definition measured_api :: "string api" where
  "measured_api = plain_api\<lparr>api_codec := \<lparr>show_json = (\<lambda>_. ''r''), parse_json = (\<lambda>_. Inr measured_row), show_duration = (\<lambda>_. [])\<rparr>\<rparr>"

definition measured_world :: world where
  "measured_world = listed_world\<lparr>w_journal := line_journal ''r''\<rparr>"

definition plain_quality :: quality_crates where
  "plain_quality = \<lparr>qc_seconds = (\<lambda>_. Inr 7), qc_now_text = (\<lambda>_. ''t''), qc_debug = (\<lambda>s. s), qc_visits = (\<lambda>xs. xs)\<rparr>"

lemma measured_journal:
  "read_all (api_codec measured_api) (line_journal ''r'') = Inr [measured_row]"
  "is_retired (api_codec measured_api) (line_journal ''r'') (se_id plain_member) = Inr False"
  by code_simp+

lemma measured_active:
  "\<exists>w1. active_supported_models_for_agent measured_api ''a'' measured_world = Some (Inr [''codex/m''], w1)
     \<and> w_journal w1 = line_journal ''r'' \<and> w_ledger w1 = [] \<and> w_draws w1 = []"
  using measured_journal
  by (simp add: active_supported_models_for_agent_def registry_models_for_agent_def routable_entries_def measured_api_def
      plain_api_def plain_member_def measured_world_def listed_world_def plain_world_def now_ms_def
      pool_without_servable_member_def usage_for_def grant_state_def snapshot_models_def publish_def Let_def
      order_for_agent_def order_models_by_plan_def shuffle_within_equal_def sort_by_key_def shuffle_run_def plain_model_def)

lemma measured_ranking:
  "ranked_checks plain_quality (api_codec measured_api) (line_journal ''r'') ''a'' ''sums'' [''codex/m'']
     = Inr [(''codex/m'', (0x3FF0000000000000, 7))]"
  by code_simp

lemma measured_models:
  "\<exists>w'. task_quality_models plain_quality measured_api ''a'' ''sums'' measured_world = Some (Inr [''codex/m''], w')"
proof -
  obtain w1 where w1: "active_supported_models_for_agent measured_api ''a'' measured_world = Some (Inr [''codex/m''], w1)"
    "w_journal w1 = line_journal ''r''" "w_ledger w1 = []" "w_draws w1 = []" using measured_active by blast
  have "score_groups (scored_checks plain_quality [(''codex/m'', (0x3FF0000000000000, 7))]) = [[''codex/m'']]"
    by code_simp
  moreover have "api_routing measured_api ''a'' w1 = (Inr [plain_member], w1)"
    by (simp add: measured_api_def plain_api_def)
  ultimately show ?thesis
    using w1 measured_ranking measured_journal
    by (simp add: task_quality_models_def order_scored_def now_ms_def shuffle_within_equal_def sort_by_key_def shuffle_run_def)
qed

theorem task_models_ranked_by_newest_checks_witness:
  "\<exists>active rows. list_all (check_readable plain_quality (api_codec measured_api) active)
       (filter (active_check (api_codec measured_api)) rows) \<and> set [''codex/m''] =
     {m \<in> set active. \<exists>row \<in> set rows. active_check (api_codec measured_api) row \<and> model_field row = Inr m}"
proof -
  obtain w' where run: "task_quality_models plain_quality measured_api ''a'' ''sums'' measured_world = Some (Inr [''codex/m''], w')"
    using measured_models by blast
  have "\<forall>xs. mset (qc_visits plain_quality xs) = mset xs" by (simp add: plain_quality_def)
  moreover have "\<forall>active w1. active_supported_models_for_agent measured_api ''a'' measured_world = Some (Inr active, w1)
      \<longrightarrow> length active < 2 ^ 63"
    using measured_active by auto
  ultimately show ?thesis using task_models_ranked_by_newest_checks [OF run] by blast
qed

end
