(* ===== verification/Chat_Routing.thy ===== *)
theory Chat_Routing
  imports Aliases Task_Quality Alias_Measures
begin

section \<open>The routing decision\<close>

text \<open>
  \<open>core/server/chat/routing/\<close> with what it stands on: the refusal documents (\<open>core/server/refusal/\<close>), who a request is
  from (\<open>admission/identity.rs\<close>), the account behind a signed-in user (\<open>subscriptions/account.rs\<close>), the entitlement
  gate (\<open>core/server/rewards.rs\<close>, \<open>gateway/broker/rewards/ledger.rs\<close>) and the selectors (\<open>chat/request.rs\<close>). A call is
  decided once, then attempted by the one dispatch entry point the decision names, inside an
  admission that is settled with how it ended.

  The record \<open>edge_env\<close> holds what the edge is handed: the alias table, the registry's JSON library, which
  provider credentials the deployment holds, the operator's gated aliases, the contribution ledger's answer, the HTTP
  library's readings, the request id drawn, and what other requests do to the concurrency measures while this one is in
  flight. The state is the pair of the dispatch world and those measures.
\<close>

subsection \<open>Refusal documents\<close>

type_synonym api_error = "nat \<times> json"

definition error_response ::
  "nat \<Rightarrow> string \<Rightarrow> string \<Rightarrow> string \<Rightarrow> bool \<Rightarrow> 32 word option \<Rightarrow> api_error" where
  "error_response status error_type code message retryable attempts =
     (status, json_obj [(''error'',
        json_obj ([(''message'', JStr message), (''type'', JStr error_type), (''code'', JStr code),
                   (''retryable'', JBool retryable)] @
                  (case attempts of None \<Rightarrow> [] | Some n \<Rightarrow> [(''attempts'', JInt (uint n))])))])"

definition status_words :: "nat \<Rightarrow> string \<times> string \<times> bool" where
  "status_words status =
     (if status = 400 then (''request_error'', ''invalid_request'', False)
      else if status = 401 then (''authentication_error'', ''unauthenticated'', False)
      else if status = 403 then (''authorization_error'', ''forbidden'', False)
      else if status = 404 then (''state_error'', ''subscription_not_found'', False)
      else if status = 409 then (''state_error'', ''state_conflict'', False)
      else if status = 426 then (''transport_error'', ''secure_transport_required'', False)
      else if status = 429 then (''capacity_error'', ''subscription_unavailable'', True)
      else if status = 503 then (''dependency_error'', ''dependency_unavailable'', True)
      else if status = 502 then (''provider_error'', ''provider_failure'', False)
      else (''internal_error'', ''internal_error'', False))"

definition api_error :: "nat \<Rightarrow> string \<Rightarrow> api_error" where
  "api_error status message =
     (case status_words status of (error_type, code, retryable) \<Rightarrow>
        error_response status error_type code message retryable None)"

definition api_error_with_details :: "nat \<Rightarrow> string \<Rightarrow> string \<Rightarrow> json \<Rightarrow> api_error" where
  "api_error_with_details status code message details =
     (status, json_obj [(''error'', json_obj [(''message'', JStr message),
        (''type'', JStr (if status = 503 then ''dependency_error'' else if status = 400 then ''request_error'' else ''state_error'')),
        (''code'', JStr code), (''retryable'', JBool False), (''details'', details)])])"

record model_error_contract =
  ec_status :: nat
  ec_error_type :: string
  ec_code :: string
  ec_retryable :: bool

fun provider_refusal_contract :: "provider_refusal \<Rightarrow> model_error_contract" where
  "provider_refusal_contract RateLimited =
     \<lparr>ec_status = 429, ec_error_type = ''capacity_error'', ec_code = ''provider_rate_limited'', ec_retryable = True\<rparr>"
| "provider_refusal_contract QuotaExhausted =
     \<lparr>ec_status = 502, ec_error_type = ''provider_error'', ec_code = ''provider_quota_exhausted'', ec_retryable = False\<rparr>"
| "provider_refusal_contract ContextLengthExceeded =
     \<lparr>ec_status = 400, ec_error_type = ''request_error'', ec_code = ''context_length_exceeded'', ec_retryable = False\<rparr>"
| "provider_refusal_contract DependencyUnavailable =
     \<lparr>ec_status = 503, ec_error_type = ''dependency_error'', ec_code = ''dependency_unavailable'', ec_retryable = True\<rparr>"
| "provider_refusal_contract (Gateway GDependencyUnavailable) =
     \<lparr>ec_status = 503, ec_error_type = ''dependency_error'', ec_code = ''dependency_unavailable'', ec_retryable = True\<rparr>"
| "provider_refusal_contract Authentication =
     \<lparr>ec_status = 502, ec_error_type = ''provider_error'', ec_code = ''provider_failure'', ec_retryable = False\<rparr>"
| "provider_refusal_contract ProviderFailure =
     \<lparr>ec_status = 502, ec_error_type = ''provider_error'', ec_code = ''provider_failure'', ec_retryable = False\<rparr>"
| "provider_refusal_contract (Gateway GProviderFailure) =
     \<lparr>ec_status = 502, ec_error_type = ''provider_error'', ec_code = ''provider_failure'', ec_retryable = False\<rparr>"
| "provider_refusal_contract (Gateway GUnauthenticated) =
     \<lparr>ec_status = 401, ec_error_type = ''authentication_error'', ec_code = ''unauthenticated'', ec_retryable = False\<rparr>"
| "provider_refusal_contract (Gateway GInvalidRequest) =
     \<lparr>ec_status = 400, ec_error_type = ''request_error'', ec_code = ''invalid_request'', ec_retryable = False\<rparr>"
| "provider_refusal_contract (Gateway GCredentialUnauthorized) =
     \<lparr>ec_status = 503, ec_error_type = ''authorization_error'', ec_code = ''credential_unauthorized'', ec_retryable = False\<rparr>"
| "provider_refusal_contract (Gateway GSubscriptionReauthorizationRequired) =
     \<lparr>ec_status = 503, ec_error_type = ''authorization_error'', ec_code = ''subscription_reauthorization_required'',
      ec_retryable = True\<rparr>"
| "provider_refusal_contract (Gateway GSubscriptionUnavailable) =
     \<lparr>ec_status = 429, ec_error_type = ''capacity_error'', ec_code = ''subscription_unavailable'', ec_retryable = True\<rparr>"

definition response_contract :: "model_response \<Rightarrow> model_error_contract option" where
  "response_contract response = map_option provider_refusal_contract (failure_class response)"

subsection \<open>Who is asking\<close>

record human_context =
  hc_user_simple :: string
  hc_user_text :: string

datatype client_kind = Workload "string option" | Human human_context

record client_identity =
  ci_client_id :: string
  ci_kind :: client_kind
  ci_allowed_models :: "string list option"
  ci_every_model :: bool

definition authorizes_model :: "client_identity \<Rightarrow> string \<Rightarrow> bool" where
  "authorizes_model i model =
     (ci_every_model i \<or> (case ci_allowed_models i of None \<Rightarrow> True | Some models \<Rightarrow> model \<in> set models))"

definition model_refusal :: "client_identity \<Rightarrow> string \<Rightarrow> string" where
  "model_refusal i model =
     (let allowed = sort (case ci_allowed_models i of None \<Rightarrow> [] | Some models \<Rightarrow> models);
          scoped = ''client '' @ ci_client_id i @ '' may not use model '' @ model @ '': its credential is scoped to '' @
                   (if allowed = [] then ''no model'' else join '', '' allowed)
      in case ci_kind i of
           Workload agent \<Rightarrow>
             scoped @ ''. It lacks the Skarbiec capability call:brama#'' @ model @
             ''; call:brama issues every route. On the vault owner: stado credentials token mint '' @ ci_client_id i @
             '' --host <vault owner> --capabilities call:brama,<the consumer'' @ [CHR 0x27] @ ''s other capabilities> --audience '' @
             (case agent of Some a \<Rightarrow> a | None \<Rightarrow> ci_client_id i) @
             '' --replace-capabilities --token-item <the item holding its bearer>''
         | Human _ \<Rightarrow> scoped)"

definition identity_agent :: "client_identity \<Rightarrow> string option" where
  "identity_agent i = (case ci_kind i of Workload agent \<Rightarrow> agent | Human _ \<Rightarrow> None)"

definition identity_human :: "client_identity \<Rightarrow> human_context option" where
  "identity_human i = (case ci_kind i of Human context \<Rightarrow> Some context | Workload _ \<Rightarrow> None)"

text \<open>The first live subscription of the route's provider that the signed-in user's account holds.\<close>

fun account_holds ::
  "'f api \<Rightarrow> string \<Rightarrow> string \<Rightarrow> subscription_entry list \<Rightarrow> world \<Rightarrow> (api_error, bool) result" where
  "account_holds A route provider [] w = Inr False"
| "account_holds A route provider (e # es) w =
     (if \<not> eq_ignore_ascii_case (se_provider e) provider \<or> se_status e \<noteq> ''active''
      then account_holds A route provider es w
      else (case is_retired (api_codec A) (w_journal w) (se_id e) of
              Inl err \<Rightarrow> Inl (api_error 503 (''route '' @ route @ '': '' @ err))
            | Inr retired \<Rightarrow> (if \<not> retired then Inr True else account_holds A route provider es w)))"

definition account_agent_for_route ::
  "'f api \<Rightarrow> client_identity \<Rightarrow> string \<Rightarrow> world \<Rightarrow> (api_error, string option) result \<times> world" where
  "account_agent_for_route A i route w =
     (case identity_human i of
        None \<Rightarrow> (Inr None, w)
      | Some context \<Rightarrow>
          (let agent = ''user-'' @ hc_user_simple context
           in case provider_id_from_route route of
                None \<Rightarrow> (Inr None, w)
              | Some provider \<Rightarrow>
                  (case api_routing A agent w of
                     (Inl err, w1) \<Rightarrow>
                       (Inl (api_error 503 (''route '' @ route @ '': no live subscription; discovery failed: '' @ err)), w1)
                   | (Inr entries, w1) \<Rightarrow>
                       (case account_holds A route provider entries w1 of
                          Inl err \<Rightarrow> (Inl err, w1)
                        | Inr held \<Rightarrow> (Inr (if held then Some agent else None), w1)))))"

subsection \<open>The entitlement gate\<close>

datatype unanswered = Undeclared | Failed_ledger string

fun unanswered_text :: "unanswered \<Rightarrow> string" where
  "unanswered_text Undeclared = ''this gateway declares no contribution ledger (BRAMA_CONTRIBUTION_LEDGER_URL)''"
| "unanswered_text (Failed_ledger cause) = ''the contribution ledger did not answer: '' @ cause"

definition unanswered_error :: "unanswered \<Rightarrow> api_error" where
  "unanswered_error err =
     api_error_with_details (case err of Undeclared \<Rightarrow> 501 | Failed_ledger _ \<Rightarrow> 503) ''contribution_ledger_unanswered''
       (unanswered_text err) (JObj [])"

datatype gate = Granted string | Denied string string

record 'f edge_env =
  ee_aliases :: model_aliases
  ee_routes :: route_crates
  ee_capability :: capability
  ee_gated_aliases :: "(string, string option) result"
  ee_ledger :: "string \<Rightarrow> string \<Rightarrow> (unanswered, json) result"
  ee_show :: "json \<Rightarrow> string"
  ee_header_text :: "string \<Rightarrow> (string, string) result"
  ee_debug :: "string \<Rightarrow> string"
  ee_request_id :: string
  ee_provider_credential :: "string \<Rightarrow> ('f, string) result"
  ee_meanwhile :: "concurrency_state \<Rightarrow> concurrency_state"

text \<open>\<open>gated\<close>; the setting is the trimmed text of the environment variable.\<close>

definition gated :: "'f edge_env \<Rightarrow> string \<Rightarrow> (string, bool) result" where
  "gated E name =
     (case ee_gated_aliases E of
        Inl err \<Rightarrow> Inl err
      | Inr None \<Rightarrow> Inr False
      | Inr (Some names) \<Rightarrow> Inr (list_ex (\<lambda>g. trim g = name) (split_on (CHR '','') names)))"

definition check_entitlement :: "'f edge_env \<Rightarrow> string \<Rightarrow> string \<Rightarrow> (unanswered, gate) result" where
  "check_entitlement E contributor name =
     (case ee_ledger E contributor name of
        Inl err \<Rightarrow> Inl err
      | Inr answer \<Rightarrow>
          (let said = (\<lambda>key. Option.bind (json_get answer key) as_str)
           in case (Option.bind (json_get answer ''granted'') as_bool, said ''entitlement_id'', said ''reason'', said ''message'') of
                (Some True, Some entitlement, _, _) \<Rightarrow> Inr (Granted entitlement)
              | (Some False, _, Some reason, Some message) \<Rightarrow> Inr (Denied reason message)
              | _ \<Rightarrow> Inl (Failed_ledger
                  (''the ledger'' @ [CHR 0x27] @ ''s entitlement answer is neither a grant nor a denial with its reason: ''
                   @ ee_show E answer))))"

definition contributor_id :: "client_identity \<Rightarrow> string" where
  "contributor_id i =
     (case identity_human i of
        Some context \<Rightarrow> hc_user_text context
      | None \<Rightarrow> (case identity_agent i of Some agent \<Rightarrow> agent | None \<Rightarrow> ci_client_id i))"

definition admit_beyond_scope :: "'f edge_env \<Rightarrow> client_identity \<Rightarrow> string \<Rightarrow> (api_error, unit) result" where
  "admit_beyond_scope E i model =
     (case gated E model of
        Inl err \<Rightarrow> Inl (api_error_with_details 503 ''gated_aliases_unreadable''
                    (''whether '' @ model @ '' is gated could not be read: '' @ err) (JObj []))
      | Inr False \<Rightarrow> Inl (api_error 403 (model_refusal i model))
      | Inr True \<Rightarrow>
          (case check_entitlement E (contributor_id i) model of
             Inl err \<Rightarrow> Inl (unanswered_error err)
           | Inr (Granted _) \<Rightarrow> Inr ()
           | Inr (Denied reason message) \<Rightarrow>
               Inl (api_error_with_details 403 ''entitlement_required''
                 (model_refusal i model @ ''; '' @ model @ '' is served to holders of its entitlement: '' @ message)
                 (json_obj [(''reason'', JStr reason), (''contributor_id'', JStr (contributor_id i)), (''scope'', JStr model)]))))"

subsection \<open>Selectors and the leased subscription\<close>

definition is_any_subscription_selector :: "string \<Rightarrow> bool" where
  "is_any_subscription_selector model = eq_ignore_ascii_case (trim model) ''any''"

definition is_any_vision_capable_subscription_selector :: "string \<Rightarrow> bool" where
  "is_any_vision_capable_subscription_selector model = eq_ignore_ascii_case (trim model) ''any-vision-capable''"

definition strip_prefix :: "string \<Rightarrow> string \<Rightarrow> string option" where
  "strip_prefix front s = (if take (length front) s = front then Some (drop (length front) s) else None)"

definition task_subscription_selector :: "string \<Rightarrow> string option" where
  "task_subscription_selector model =
     Option.bind (map_option trim (strip_prefix ''task:'' (trim model))) (\<lambda>task. if task \<noteq> [] then Some task else None)"

definition SUBSCRIPTION_HEADER :: string where "SUBSCRIPTION_HEADER = ''x-brama-subscription''"
definition ACCOUNT_HEADER :: string where "ACCOUNT_HEADER = ''x-brama-account''"

definition named_lease :: "string \<Rightarrow> (string \<times> string) option" where
  "named_lease value =
     (case split_once (CHR '':'') value of
        None \<Rightarrow> None
      | Some (provider, sid) \<Rightarrow>
          (if trim provider \<noteq> [] \<and> trim sid \<noteq> [] then Some (trim provider, trim sid) else None))"

definition leased_target ::
  "'f edge_env \<Rightarrow> (string \<times> string) list \<Rightarrow> (string, billing_target option) result" where
  "leased_target E headers =
     (case map_of headers SUBSCRIPTION_HEADER of
        None \<Rightarrow> Inr None
      | Some raw \<Rightarrow>
          (case ee_header_text E raw of
             Inl err \<Rightarrow> Inl (SUBSCRIPTION_HEADER @ '' is not text ('' @ err @ ''); it names <provider>:<subscription_id>'')
           | Inr value \<Rightarrow>
               (case named_lease value of
                  None \<Rightarrow> Inl (SUBSCRIPTION_HEADER @ '' is '' @ ee_debug E value @ ''; it names <provider>:<subscription_id>'')
                | Some (provider, sid) \<Rightarrow>
                    (case (case map_of headers ACCOUNT_HEADER of
                             None \<Rightarrow> Inr []
                           | Some raw \<Rightarrow>
                               (case ee_header_text E raw of
                                  Inl err \<Rightarrow> Inl (ACCOUNT_HEADER @ '' is not text ('' @ err @ ''); it names the member'' @ [CHR 0x27] @ ''s account'')
                                | Inr account \<Rightarrow> Inr (trim account))) of
                       Inl err \<Rightarrow> Inl err
                     | Inr account \<Rightarrow>
                         Inr (Some \<lparr>bt_provider_id = provider, bt_account_id = (if account = [] then sid else account),
                                   bt_subscription_id = sid\<rparr>)))))"

subsection \<open>The deployment's own routes\<close>

text \<open>
  \<open>dispatch_direct\<close> and its stream. A direct stream is the provider's own: no recorder stands between it and the caller, so
  a committed call is either one the pool records or one nothing records.
\<close>

definition provider_resource :: "string \<Rightarrow> string" where
  "provider_resource provider = ''provider:'' @ slug provider"

datatype committed = Recorded routed_stream | Unrecorded string "32 word" provider_stream

datatype dispatched_call = Buffered model_response | Committed committed

definition dispatch_direct ::
  "'f crates \<Rightarrow> 'f api \<Rightarrow> 'f edge_env \<Rightarrow> model_request \<Rightarrow> world \<Rightarrow> model_response \<times> world" where
  "dispatch_direct K A E request w =
     (case direct_credential K (ee_provider_credential E) (api_utf8 A) (rq_model request) of
        Inr (provider, credential) \<Rightarrow> api_dispatch A request (provider_resource provider) credential w
      | Inl refused \<Rightarrow> (from_refusal (rq_model request) refused, w))"

definition dispatch_direct_stream ::
  "'f crates \<Rightarrow> 'f api \<Rightarrow> 'f edge_env \<Rightarrow> model_request \<Rightarrow> world \<Rightarrow> (model_response, committed) result \<times> world" where
  "dispatch_direct_stream K A E request w =
     (case direct_credential K (ee_provider_credential E) (api_utf8 A) (rq_model request) of
        Inl refused \<Rightarrow> (Inl (from_refusal (rq_model request) refused), w)
      | Inr (provider, credential) \<Rightarrow>
          (case api_dispatch_stream A request (provider_resource provider) credential w of
             (Inl failed, w1) \<Rightarrow> (Inl failed, w1)
           | (Inr stream, w1) \<Rightarrow> (Inr (Unrecorded (rq_model request) 1 stream), w1)))"

subsection \<open>The decision\<close>

record dispatch_plan =
  pl_request :: model_request
  pl_task :: "string option"
  pl_any :: bool
  pl_any_vision :: bool
  pl_best :: bool
  pl_declared_route :: bool
  pl_preferred_route :: "string option"
  pl_account_agent :: "string option"
  pl_caller_scoped :: bool
  pl_stream :: bool

record routed_call_meta =
  rm_routing_mode :: string
  rm_alias_source :: "string option"
  rm_request_id :: string

definition reported_model :: "routed_call_meta \<Rightarrow> string \<Rightarrow> string \<Rightarrow> string" where
  "reported_model meta requested_model resolved_model =
     (if rm_alias_source meta \<noteq> None then requested_model else resolved_model)"

fun state_text :: "alias_state \<Rightarrow> string" where
  "state_text Serving = ''serving''"
| "state_text NoRoute = ''no_route''"
| "state_text CapabilityAbsent = ''capability_absent''"
| "state_text RoutesFileInvalid = ''routes_file_invalid''"
| "state_text CapabilityCheckFailed = ''capability_check_failed''"

definition unserviceable :: "string \<Rightarrow> alias_diagnosis \<Rightarrow> api_error" where
  "unserviceable requested_model d =
     api_error_with_details 503 ''alias_unserviceable''
       (case ad_reason d of
          Some reason \<Rightarrow> reason
        | None \<Rightarrow> ''alias '' @ ticked requested_model @ '' has no serviceable route, and its diagnosis states no cause'')
       (json_obj [(''alias'', JStr (ad_name d)), (''state'', JStr (state_text (ad_state d))),
                  (''route'', (case ad_route d of None \<Rightarrow> JNull | Some route \<Rightarrow> JStr route))])"

definition routing_mode :: "bool \<Rightarrow> bool \<Rightarrow> bool \<Rightarrow> bool \<Rightarrow> bool \<Rightarrow> bool \<Rightarrow> bool \<Rightarrow> string" where
  "routing_mode task vision any_model declared best scoped aliased =
     (if task then ''task'' else if vision then ''any-vision-capable'' else if any_model then ''any''
      else if declared then ''best-declared-route'' else if best then ''best''
      else if scoped then ''subscription'' else if aliased then ''alias'' else ''direct'')"

text \<open>The decision once the caller is admitted and the billing target is known.\<close>

definition plan_call ::
  "'f edge_env \<Rightarrow> string option \<Rightarrow> string \<Rightarrow> model_request \<Rightarrow> bool \<Rightarrow>
   (api_error, dispatch_plan \<times> routed_call_meta) result" where
  "plan_call E account_agent requested request stream =
     (let task = task_subscription_selector requested;
          any_model = is_any_subscription_selector requested;
          any_vision = is_any_vision_capable_subscription_selector requested
      in if requested \<in> set DECISION_ALIASES then
           Inl (api_error 400 (ticked requested @
             '' is a decision alias: it answers typed questions on POST /v1/decisions, not chat completions''))
         else if requested \<in> set MEDIA_ALIASES then
           Inl (api_error 400 (ticked requested @
             '' is a media alias: it generates on POST /v1/images/generations or POST /v1/videos, not chat completions''))
         else
           (let alias_source = chat_route (ee_routes E) (ee_capability E) (ee_aliases E) requested;
                diagnosis = diagnose (ee_routes E) (ee_capability E) (ee_aliases E) requested
            in if alias_source = None \<and> requested \<noteq> BEST_ALIAS \<and> is_declared (ee_routes E) (ee_aliases E) requested
                  \<and> \<not> alias_serving diagnosis then
                 Inl (unserviceable requested diagnosis)
               else
                 (let best = (requested = BEST_ALIAS \<or> alias_source = Some BEST_ALIAS);
                      selected = (case alias_source of Some route \<Rightarrow> route | None \<Rightarrow> requested);
                      preferred = (if is_subscription_model selected then Some selected else None);
                      declared = (best \<and> (case alias_source of Some route \<Rightarrow> route \<noteq> BEST_ALIAS | None \<Rightarrow> False)
                                  \<and> \<not> provider_requires_caller_identity selected)
                  in if \<not> (any_model \<or> any_vision \<or> best \<or> task \<noteq> None \<or> is_subscription_model selected) then
                       Inl (api_error 400 ''model must be a canonical provider/model route or a supported selector'')
                     else
                       (let scoped = (account_agent \<noteq> None \<or> any_model \<or> any_vision \<or> best \<or> task \<noteq> None
                              \<or> rq_billing_target request \<noteq> None \<or> provider_requires_caller_identity selected)
                        in Inr (\<lparr>pl_request = request\<lparr>rq_model := selected\<rparr>, pl_task = task, pl_any = any_model,
                                 pl_any_vision = any_vision, pl_best = best, pl_declared_route = declared,
                                 pl_preferred_route = preferred, pl_account_agent = account_agent,
                                 pl_caller_scoped = scoped, pl_stream = stream\<rparr>,
                                \<lparr>rm_routing_mode = routing_mode (task \<noteq> None) any_vision any_model declared best scoped
                                   (alias_source \<noteq> None),
                                 rm_alias_source = alias_source, rm_request_id = ''chatcmpl-'' @ ee_request_id E\<rparr>)))))"

subsection \<open>The attempt\<close>

text \<open>\<open>dispatch\<close>: the same ladder for a stream and for a buffered answer. \<open>None\<close> is a walk that never ends.\<close>

definition recorded ::
  "((model_response, routed_stream) result \<times> world) option \<Rightarrow> ((model_response, committed) result \<times> world) option" where
  "recorded = map_option (\<lambda>(r, w). (map_sum id Recorded r, w))"

definition dispatch ::
  "'f crates \<Rightarrow> quality_crates \<Rightarrow> 'f api \<Rightarrow> auth_env \<Rightarrow> 'f edge_env \<Rightarrow> client_identity \<Rightarrow> (string \<times> string) list \<Rightarrow> string \<Rightarrow>
   dispatch_plan \<Rightarrow> world \<Rightarrow> (dispatched_call \<times> world) option" where
  "dispatch K Q A U E i headers raw_body plan w =
     (let request = pl_request plan
      in if pl_stream plan then
           map_option (\<lambda>(opened, w'). (case opened of Inr routed \<Rightarrow> Committed routed | Inl failure \<Rightarrow> Buffered failure, w'))
             (case pl_task plan of
                Some task \<Rightarrow> recorded (dispatch_task_subscription_stream K Q A U headers request raw_body task w)
              | None \<Rightarrow>
                  if pl_any_vision plan then
                    recorded (dispatch_any_vision_capable_subscription_stream K A U headers request raw_body w)
                  else if pl_any plan then recorded (dispatch_any_subscription_stream K A U headers request raw_body w)
                  else if pl_declared_route plan then Some (dispatch_direct_stream K A E request w)
                  else if pl_best plan then
                    recorded (case identity_agent i of
                      Some agent \<Rightarrow> dispatch_best_subscription_stream_for_agent K A agent request (pl_preferred_route plan) w
                    | None \<Rightarrow> dispatch_best_subscription_stream K A U headers request raw_body (pl_preferred_route plan) w)
                  else (case pl_account_agent plan of
                          Some agent \<Rightarrow> recorded (dispatch_subscription_stream_for_agent K A agent request w)
                        | None \<Rightarrow>
                            if pl_caller_scoped plan then recorded (dispatch_subscription_stream K A U headers request raw_body w)
                            else Some (dispatch_direct_stream K A E request w)))
         else
           map_option (\<lambda>(answer, w'). (Buffered answer, w'))
             (case pl_task plan of
                Some task \<Rightarrow> dispatch_task_subscription K Q A U headers request raw_body task w
              | None \<Rightarrow>
                  if pl_any_vision plan then dispatch_any_vision_capable_subscription K A U headers request raw_body w
                  else if pl_any plan then dispatch_any_subscription K A U headers request raw_body w
                  else if pl_declared_route plan then Some (dispatch_direct K A E request w)
                  else if pl_best plan then
                    (case identity_agent i of
                       Some agent \<Rightarrow> dispatch_best_subscription_for_agent K A agent request (pl_preferred_route plan) w
                     | None \<Rightarrow> dispatch_best_subscription K A U headers request raw_body (pl_preferred_route plan) w)
                  else (case pl_account_agent plan of
                          Some agent \<Rightarrow> dispatch_subscription_for_agent K A agent request w
                        | None \<Rightarrow>
                            if pl_caller_scoped plan then dispatch_subscription K A U headers request raw_body w
                            else Some (dispatch_direct K A E request w))))"

definition settled_call :: "dispatched_call \<Rightarrow> settled" where
  "settled_call call = (case call of
       Committed _ \<Rightarrow> Answered
     | Buffered answer \<Rightarrow> (case failure_class answer of
           None \<Rightarrow> Answered
         | Some RateLimited \<Rightarrow> RefusedForCapacity
         | Some (Gateway GSubscriptionUnavailable) \<Rightarrow> RefusedForCapacity
         | Some _ \<Rightarrow> OtherRefusal))"

subsection \<open>One model call\<close>

text \<open>The billing target the body named, or the leased subscription of the headers.\<close>

definition billed_request ::
  "'f edge_env \<Rightarrow> (string \<times> string) list \<Rightarrow> model_request \<Rightarrow> (api_error, model_request) result" where
  "billed_request E headers request =
     (if rq_billing_target request \<noteq> None then Inr request
      else (case leased_target E headers of
              Inl err \<Rightarrow> Inl (api_error 400 err)
            | Inr target \<Rightarrow> Inr (request\<lparr>rq_billing_target := target\<rparr>)))"

definition admitted_caller ::
  "'f edge_env \<Rightarrow> client_identity \<Rightarrow> string option \<Rightarrow> string \<Rightarrow> (api_error, unit) result" where
  "admitted_caller E i account_agent requested =
     (if \<not> authorizes_model i requested \<and> account_agent = None then admit_beyond_scope E i requested else Inr ())"

definition route_model_call ::
  "'f crates \<Rightarrow> quality_crates \<Rightarrow> 'f api \<Rightarrow> auth_env \<Rightarrow> 'f edge_env \<Rightarrow> client_identity \<Rightarrow> (string \<times> string) list \<Rightarrow> string \<Rightarrow>
   string \<Rightarrow> model_request \<Rightarrow> bool \<Rightarrow> world \<Rightarrow> concurrency_state \<Rightarrow>
   ((api_error, dispatched_call \<times> routed_call_meta) result \<times> world \<times> concurrency_state) option" where
  "route_model_call K Q A U E i headers raw_body requested request stream w cs =
     (case account_agent_for_route A i requested w of
        (Inl err, w1) \<Rightarrow> Some (Inl err, w1, cs)
      | (Inr account_agent, w1) \<Rightarrow>
          (case bind_result (admitted_caller E i account_agent requested) (\<lambda>_.
                bind_result (billed_request E headers request) (\<lambda>request.
                plan_call E account_agent requested request stream)) of
             Inl err \<Rightarrow> Some (Inl err, w1, cs)
           | Inr (plan, meta) \<Rightarrow>
               (case admit requested cs of
                  (admission, cs1) \<Rightarrow>
                    map_option (\<lambda>(call, w2).
                        (Inr (call, meta), w2, settle admission (settled_call call) (ee_meanwhile E cs1)))
                      (dispatch K Q A U E i headers raw_body plan w1))))"

subsection \<open>Who may call, and who pays\<close>

lemma admitted_callerD:
  "admitted_caller E i account_agent m = Inr u \<Longrightarrow>
     authorizes_model i m \<or> account_agent \<noteq> None
     \<or> (gated E m = Inr True \<and> (\<exists>entitlement. check_entitlement E (contributor_id i) m = Inr (Granted entitlement)))"
  by (auto simp: admitted_caller_def admit_beyond_scope_def split: if_splits sum.splits bool.splits gate.splits)

text \<open>
  C5. No model call reaches a provider, and none is counted in flight, unless its caller may make it. A call that was
  dispatched had a credential scoped to the model it named, or a signed-in user whose own account holds a live
  subscription of the route, or an entitlement the contribution ledger granted to a gated alias; and the name was
  neither a decision nor a media alias. A call that was refused leaves the concurrency measures as they were and
  the world as the account lookup left it.
\<close>

theorem dispatched_calls_were_authorized:
  assumes "route_model_call K Q A U E i headers raw_body m request stream w cs = Some (r, w', cs')"
  shows "case r of
     Inl refused \<Rightarrow> cs' = cs \<and> w' = snd (account_agent_for_route A i m w)
   | Inr _ \<Rightarrow>
       m \<notin> set DECISION_ALIASES \<union> set MEDIA_ALIASES \<and>
       (authorizes_model i m
        \<or> (\<exists>agent. fst (account_agent_for_route A i m w) = Inr (Some agent))
        \<or> (gated E m = Inr True \<and> (\<exists>entitlement. check_entitlement E (contributor_id i) m = Inr (Granted entitlement))))"
proof (cases r)
  case (Inl refused)
  with assms show ?thesis
    by (auto simp: route_model_call_def split: prod.splits sum.splits)
next
  case (Inr answer)
  with assms obtain account_agent w1 billed plan where
    account: "account_agent_for_route A i m w = (Inr account_agent, w1)"
    and admitted: "admitted_caller E i account_agent m = Inr ()"
    and plan: "plan_call E account_agent m billed stream = Inr plan"
    by (auto simp: route_model_call_def bind_result_Inr split: prod.splits sum.splits)
  from plan have "m \<notin> set DECISION_ALIASES \<union> set MEDIA_ALIASES"
    by (auto simp: plan_call_def Let_def split: if_splits)
  with admitted_callerD [OF admitted] account Inr show ?thesis by auto
qed

definition deployment_modes :: "string set" where
  "deployment_modes = {''best-declared-route'', ''alias'', ''direct''}"

lemma deployment_mode:
  "routing_mode task vision any_model declared best scoped aliased \<in> deployment_modes \<longleftrightarrow>
     \<not> task \<and> \<not> vision \<and> \<not> any_model \<and> (declared \<or> \<not> best \<and> \<not> scoped)"
  "routing_mode task vision any_model declared best scoped aliased = ''best-declared-route'' \<longleftrightarrow>
     \<not> task \<and> \<not> vision \<and> \<not> any_model \<and> declared"
  by (auto simp: routing_mode_def deployment_modes_def)

text \<open>What every plan of the decision satisfies.\<close>

lemma plan_callD:
  assumes "plan_call E account_agent m request stream = Inr (plan, meta)"
  shows "rm_routing_mode meta = routing_mode (pl_task plan \<noteq> None) (pl_any_vision plan) (pl_any plan)
           (pl_declared_route plan) (pl_best plan) (pl_caller_scoped plan) (rm_alias_source meta \<noteq> None)"
    and "pl_declared_route plan \<longrightarrow> \<not> provider_requires_caller_identity (rq_model (pl_request plan))"
    and "\<not> pl_caller_scoped plan \<longrightarrow> pl_account_agent plan = None \<and> rq_billing_target request = None
           \<and> \<not> pl_best plan \<and> \<not> provider_requires_caller_identity (rq_model (pl_request plan))"
    and "pl_account_agent plan = account_agent" and "pl_stream plan = stream"
  using assms by (auto simp: plan_call_def Let_def split: if_splits)

lemma direct_rungs:
  assumes "pl_task plan = None" "\<not> pl_any_vision plan" "\<not> pl_any plan"
    and "pl_declared_route plan \<or> \<not> pl_best plan \<and> pl_account_agent plan = None \<and> \<not> pl_caller_scoped plan"
  shows "dispatch K Q A U E i headers raw_body plan w =
           Some (if pl_stream plan
                 then (case dispatch_direct_stream K A E (pl_request plan) w of
                         (Inr routed, w') \<Rightarrow> (Committed routed, w')
                       | (Inl failure, w') \<Rightarrow> (Buffered failure, w'))
                 else (case dispatch_direct K A E (pl_request plan) w of (answer, w') \<Rightarrow> (Buffered answer, w')))"
  using assms
  by (cases "dispatch_direct_stream K A E (pl_request plan) w"; cases "fst (dispatch_direct_stream K A E (pl_request plan) w)";
      cases "dispatch_direct K A E (pl_request plan) w")
    (auto simp: dispatch_def Let_def)

lemma subscription_rungs:
  assumes "pl_task plan \<noteq> None \<or> pl_any_vision plan \<or> pl_any plan \<or> \<not> pl_declared_route plan \<and> pl_caller_scoped plan"
  shows "dispatch K Q A U (E\<lparr>ee_provider_credential := credentials\<rparr>) i headers raw_body plan w =
         dispatch K Q A U E i headers raw_body plan w"
  using assms by (auto simp: dispatch_def Let_def split: option.splits)

text \<open>
  C6. The reported routing mode tells who pays. In the modes \<open>best-declared-route\<close>, \<open>alias\<close> and \<open>direct\<close> the
  deployment does: the call is one direct attempt at a route no subscription provider serves, whoever asks and
  whatever the headers say, and outside \<open>best-declared-route\<close> the request named no billing target and no account stands behind it. In
  every other mode the deployment's provider credentials cannot matter: the call ends the same way
  whatever they are.
\<close>

theorem routing_mode_tells_who_pays:
  assumes "plan_call E account_agent m request stream = Inr (plan, meta)"
  shows "if rm_routing_mode meta \<in> deployment_modes then
           \<not> provider_requires_caller_identity (rq_model (pl_request plan))
           \<and> (rm_routing_mode meta \<noteq> ''best-declared-route'' \<longrightarrow> rq_billing_target request = None \<and> account_agent = None)
           \<and> dispatch K Q A U E i headers raw_body plan w =
               Some (if stream
                     then (case dispatch_direct_stream K A E (pl_request plan) w of
                             (Inr routed, w') \<Rightarrow> (Committed routed, w')
                           | (Inl failure, w') \<Rightarrow> (Buffered failure, w'))
                     else (case dispatch_direct K A E (pl_request plan) w of (answer, w') \<Rightarrow> (Buffered answer, w')))
         else dispatch K Q A U (E\<lparr>ee_provider_credential := credentials\<rparr>) i headers raw_body plan w =
              dispatch K Q A U E i headers raw_body plan w"
proof (cases "rm_routing_mode meta \<in> deployment_modes")
  case True
  note facts = plan_callD [OF assms]
  have rung: "pl_task plan = None" "\<not> pl_any_vision plan" "\<not> pl_any plan"
    "pl_declared_route plan \<or> \<not> pl_best plan \<and> pl_account_agent plan = None \<and> \<not> pl_caller_scoped plan"
    using True facts(3) unfolding facts(1) deployment_mode by auto
  have "rm_routing_mode meta \<noteq> ''best-declared-route'' \<longrightarrow> rq_billing_target request = None \<and> account_agent = None"
    using True facts(3,4) unfolding facts(1) deployment_mode by auto
  moreover have "\<not> provider_requires_caller_identity (rq_model (pl_request plan))"
    using rung(4) facts(2,3) by auto
  ultimately show ?thesis
    unfolding if_P [OF True] direct_rungs [OF rung] facts(5) by blast
next
  case False
  then have "pl_task plan \<noteq> None \<or> pl_any_vision plan \<or> pl_any plan \<or> \<not> pl_declared_route plan \<and> pl_caller_scoped plan"
    using plan_callD(3) [OF assms] unfolding plan_callD(1) [OF assms] deployment_mode by auto
  then show ?thesis unfolding if_not_P [OF False] by (rule subscription_rungs)
qed

subsection \<open>What a call leaves in the measures\<close>

definition answered_status :: "dispatched_call \<Rightarrow> nat option" where
  "answered_status call = (case call of
       Committed _ \<Rightarrow> None
     | Buffered answer \<Rightarrow> map_option ec_status (response_contract answer))"

text \<open>The status a caller is answered with and how the call is settled agree.\<close>

lemma settled_by_status:
  "settled_call call =
     (case answered_status call of None \<Rightarrow> Answered | Some n \<Rightarrow> if n = 429 then RefusedForCapacity else OtherRefusal)"
proof -
  have "(case c of RateLimited \<Rightarrow> RefusedForCapacity | Gateway GSubscriptionUnavailable \<Rightarrow> RefusedForCapacity | _ \<Rightarrow> OtherRefusal) =
        (if ec_status (provider_refusal_contract c) = 429 then RefusedForCapacity else OtherRefusal)" for c
    by (cases c rule: provider_refusal_contract.cases) simp_all
  then show ?thesis
    by (auto simp: settled_call_def answered_status_def response_contract_def split: dispatched_call.splits option.splits)
qed

text \<open>
  C13. Capacity is learned from exactly the calls a caller sees refused for capacity. Once a call is routed its
  handle is live no more, however it ended. A call whose answer carries no refusal, or that committed a stream, raises what the requested alias is
  known to carry to the calls in flight with it, and leaves it where it was already as much; one answered \<open>429\<close> lowers it to
  the calls still in flight, and leaves it where it was already as little; any other refusal leaves it where the other
  requests put it.
\<close>

theorem routed_calls_measure_capacity:
  assumes "route_model_call K Q A U E i headers raw_body m request stream w cs = Some (Inr (call, meta), w', cs')"
  shows "cc_next cs \<notin> set (cc_live cs')
       \<and> (let before = ee_meanwhile E (snd (admit m cs))
          in case answered_status call of
               None \<Rightarrow> carried_of cs' m = Some (raised (carried_of before m) (in_flight_of before m))
             | Some status \<Rightarrow>
                 if status = 429 then carried_of cs' m = Some (lowered (carried_of before m) (in_flight_of cs' m))
                 else carried_of cs' m = carried_of before m)"
proof -
  obtain admission cs1 where adm: "admit m cs = (admission, cs1)" by fastforce
  then have handle: "ad_call admission = cc_next cs" "ad_alias admission = m" by (auto simp: admit_def Let_def)
  have cs': "cs' = settle admission (settled_call call) (ee_meanwhile E cs1)"
    using assms adm by (auto simp: route_model_call_def split: prod.splits sum.splits)
  have "cc_next cs \<notin> set (cc_live cs')" by (simp add: cs' settle_def Let_def handle)
  then show ?thesis
    using settled_call_measures_capacity [of admission "settled_call call" "ee_meanwhile E cs1"]
    unfolding settled_by_status cs' adm Let_def handle by (auto split: option.splits if_splits)
qed

subsection \<open>A call on the deployment's own route\<close>

definition plain_edge :: "string edge_env" where
  "plain_edge =
     \<lparr>ee_aliases = \<lparr>ma_routes = [], ma_registry = None\<rparr>, ee_routes = two_documents (JObj []) (JObj []),
      ee_capability = (\<lambda>_. Inr True), ee_gated_aliases = Inr None, ee_ledger = (\<lambda>_ _. Inl Undeclared),
      ee_show = (\<lambda>_. []), ee_header_text = (\<lambda>t. Inr t), ee_debug = (\<lambda>t. t), ee_request_id = ''1'',
      ee_provider_credential = (\<lambda>_. Inr ''key''), ee_meanwhile = (\<lambda>cs. cs)\<rparr>"

definition plain_client :: client_identity where
  "plain_client = \<lparr>ci_client_id = ''c'', ci_kind = Workload None, ci_allowed_models = Some [''openai/m''], ci_every_model = False\<rparr>"

definition plain_auth :: auth_env where
  "plain_auth =
     \<lparr>au_mac = plain_mac, au_secret = (\<lambda>_. Inr ''secret''), au_path = Inr ''replay'', au_lock = None, au_fault = None\<rparr>"

definition no_calls :: concurrency_state where
  "no_calls = \<lparr>cc_routes = [], cc_live = [], cc_next = 0\<rparr>"

definition plain_plan :: "dispatch_plan \<times> routed_call_meta" where
  "plain_plan =
     (\<lparr>pl_request = plain_request\<lparr>rq_model := ''openai/m''\<rparr>, pl_task = None, pl_any = False, pl_any_vision = False,
       pl_best = False, pl_declared_route = False, pl_preferred_route = Some ''openai/m'', pl_account_agent = None,
       pl_caller_scoped = False, pl_stream = False\<rparr>,
      \<lparr>rm_routing_mode = ''direct'', rm_alias_source = None, rm_request_id = ''chatcmpl-1''\<rparr>)"

lemma plain_planned: "plan_call plain_edge None ''openai/m'' plain_request False = Inr plain_plan"
  by code_simp

lemma plain_routed:
  "route_model_call plain_crates plain_quality plain_api U plain_edge plain_client [] [] ''openai/m'' plain_request False
     plain_world no_calls =
   Some (Inr (Buffered plain_answer, snd plain_plan), plain_world,
     settle (fst (admit ''openai/m'' no_calls)) Answered (snd (admit ''openai/m'' no_calls)))"
proof -
  have caller: "account_agent_for_route plain_api plain_client ''openai/m'' plain_world = (Inr None, plain_world)"
    "admitted_caller plain_edge plain_client None ''openai/m'' = Inr ()"
    "billed_request plain_edge [] plain_request = Inr plain_request"
    by (simp_all add: account_agent_for_route_def identity_human_def plain_client_def admitted_caller_def
        authorizes_model_def billed_request_def leased_target_def plain_request_def)
  have "direct_credential plain_crates (ee_provider_credential plain_edge) (api_utf8 plain_api) ''openai/m'' = Inr (''openai'', ''key'')"
    by code_simp
  then have "dispatch plain_crates plain_quality plain_api U plain_edge plain_client [] [] (fst plain_plan) plain_world
      = Some (Buffered plain_answer, plain_world)"
    by (subst direct_rungs) (simp_all add: plain_plan_def dispatch_direct_def plain_api_def)
  moreover have "settled_call (Buffered plain_answer) = Answered" "ee_meanwhile plain_edge = (\<lambda>cs. cs)"
    by (simp_all add: settled_call_def plain_answer_def answered_def failure_class_def plain_edge_def)
  ultimately show ?thesis
    by (cases plain_plan) (simp add: route_model_call_def caller plain_planned split_beta bind_result_def)
qed

theorem dispatched_calls_were_authorized_witness:
  "authorizes_model plain_client ''openai/m'' \<and> ''openai/m'' \<notin> set DECISION_ALIASES \<union> set MEDIA_ALIASES"
  using dispatched_calls_were_authorized [OF plain_routed [of plain_auth]]
  by (simp add: authorizes_model_def plain_client_def)

theorem routing_mode_tells_who_pays_witness:
  "\<not> provider_requires_caller_identity ''openai/m'' \<and> rq_billing_target plain_request = None
   \<and> dispatch plain_crates plain_quality plain_api plain_auth plain_edge plain_client [] [] (fst plain_plan) plain_world
     = Some (Buffered (fst (dispatch_direct plain_crates plain_api plain_edge (pl_request (fst plain_plan)) plain_world)), plain_world)"
proof -
  have "plan_call plain_edge None ''openai/m'' plain_request False = Inr (fst plain_plan, snd plain_plan)"
    by (simp add: plain_planned)
  moreover have mode: "rm_routing_mode (snd plain_plan) = ''direct''" "rq_model (pl_request (fst plain_plan)) = ''openai/m''"
    "''direct'' \<in> deployment_modes"
    by (simp_all add: plain_plan_def deployment_modes_def)
  moreover have "snd (dispatch_direct plain_crates plain_api plain_edge (pl_request (fst plain_plan)) plain_world) = plain_world"
    by (simp add: dispatch_direct_def plain_api_def split: sum.splits)
  ultimately show ?thesis
    using routing_mode_tells_who_pays [of plain_edge None "''openai/m''" plain_request False "fst plain_plan" "snd plain_plan"
        plain_crates plain_quality plain_api plain_auth plain_client "[]" "[]" plain_world "\<lambda>_. Inr []"]
    by (simp add: split_beta)
qed

theorem routed_calls_measure_capacity_witness:
  "\<exists>cs'. carried_of cs' ''openai/m'' =
        Some (raised (carried_of (snd (admit ''openai/m'' no_calls)) ''openai/m'')
                (in_flight_of (snd (admit ''openai/m'' no_calls)) ''openai/m''))
     \<and> cc_next no_calls \<notin> set (cc_live cs')"
proof -
  have "answered_status (Buffered plain_answer) = None" "ee_meanwhile plain_edge = (\<lambda>cs. cs)"
    by (simp_all add: answered_status_def response_contract_def plain_answer_def answered_def failure_class_def plain_edge_def)
  then show ?thesis
    using routed_calls_measure_capacity [OF plain_routed [of plain_auth]] by (auto simp: Let_def)
qed

end
