(* ===== verification/F64_Arith.thy ===== *)
theory F64_Arith
  imports Task_Quality Caller_Wires
begin

section \<open>Arithmetic of doubles\<close>

text \<open>
  IEEE arithmetic in the default rounding mode, on doubles whose sign bit is clear, which is all the modelled
  code computes with. The exact result is a fraction in units of the smallest double; \<open>f64_bits\<close> rounds it to the nearest
  double, a half to the even one. A double of \<open>k * 2 ^ 52 + m\<close> is \<open>m * 2 ^ k\<close> units with \<open>m < 2 ^ 53\<close>, so a
  mantissa that rounds up to \<open>2 ^ 53\<close> carries into the exponent by itself. Rounding is monotone and exact on
  doubles, which is all that is needed of it.
\<close>

definition half_even :: "nat \<Rightarrow> nat \<Rightarrow> nat" where
  "half_even n d = (let q = n div d; r = n mod d in if 2 * r > d \<or> 2 * r = d \<and> odd q then q + 1 else q)"

definition f64_bits :: "nat \<Rightarrow> nat \<Rightarrow> nat" where
  "f64_bits n d = (let k = bit_length (n div d) - 53 in k * 2 ^ 52 + half_even n (d * 2 ^ k))"

definition INFINITY_BITS :: nat where "INFINITY_BITS = 0x7FF0000000000000"

definition f64_nearest :: "nat \<Rightarrow> nat \<Rightarrow> f64" where
  "f64_nearest n d = of_nat (min (f64_bits n d) INFINITY_BITS)"

definition f64_add :: "f64 \<Rightarrow> f64 \<Rightarrow> f64" where
  "f64_add x y =
     (if f64_finite x \<and> f64_finite y then f64_nearest (nat (f64_units x) + nat (f64_units y)) 1 else of_nat INFINITY_BITS)"

definition f64_mul :: "f64 \<Rightarrow> f64 \<Rightarrow> f64" where
  "f64_mul x y = f64_nearest (nat (f64_units x) * nat (f64_units y)) (2 ^ 1074)"

definition f64_div :: "f64 \<Rightarrow> f64 \<Rightarrow> f64" where
  "f64_div x y = f64_nearest (nat (f64_units x) * 2 ^ 1074) (nat (f64_units y))"

definition f64_sub :: "f64 \<Rightarrow> f64 \<Rightarrow> f64" where
  "f64_sub x y =
     (if f64_units y \<le> f64_units x then f64_nearest (nat (f64_units x - f64_units y)) 1
      else f64_nearest (nat (f64_units y - f64_units x)) 1 + 2 ^ 63)"

text \<open>\<open>is_normal\<close>: neither zero, nor subnormal, nor infinite, nor NaN.\<close>

definition f64_is_normal :: "f64 \<Rightarrow> bool" where
  "f64_is_normal x = (2 ^ 52 \<le> f64_mag x \<and> f64_mag x < 0x7FF0000000000000)"

definition ONE :: f64 where "ONE = 0x3FF0000000000000"

definition f64_in_unit :: "f64 \<Rightarrow> bool" where
  "f64_in_unit x = (\<not> f64_negative x \<and> f64_mag x \<le> f64_mag ONE)"

subsection \<open>Rounding is monotone\<close>

lemma bit_length_bounds: "n < 2 ^ bit_length n" "0 < n \<Longrightarrow> 2 ^ (bit_length n - 1) \<le> n"
proof (induction n rule: bit_length.induct)
  case (1 n)
  {
    case 1
    show ?case
    proof (cases "n = 0")
      case False
      then have "n div 2 < 2 ^ bit_length (n div 2)" using "1.IH"(1) by simp
      then show ?thesis using False by (subst bit_length.simps) auto
    qed simp
  next
    case 2
    then have len: "bit_length n = Suc (bit_length (n div 2))" by (subst bit_length.simps) simp
    show ?case
    proof (cases "n div 2 = 0")
      case True
      then have "bit_length (n div 2) = 0" by (subst bit_length.simps) simp
      with len 2 show ?thesis by simp
    next
      case False
      then have "2 ^ (bit_length (n div 2) - 1) \<le> n div 2" using "1.IH"(2) 2 by simp
      moreover have "0 < bit_length (n div 2)" using False by (subst bit_length.simps) simp
      then have "(2::nat) ^ bit_length (n div 2) = 2 * 2 ^ (bit_length (n div 2) - 1)" by (simp flip: power_Suc)
      ultimately show ?thesis using len by simp
    qed
  }
qed

lemma bit_length_unique:
  assumes "2 ^ b \<le> n" "n < 2 ^ Suc b"
  shows "bit_length n = Suc b"
proof -
  have pos: "0 < n" using assms(1) by (metis less_le_trans zero_less_numeral zero_less_power)
  have "(2::nat) ^ b < 2 ^ bit_length n" using assms(1) bit_length_bounds(1) le_less_trans by blast
  then have "b < bit_length n" by simp
  moreover have "(2::nat) ^ (bit_length n - 1) < 2 ^ Suc b"
    using assms(2) bit_length_bounds(2) [OF pos] le_less_trans by blast
  then have "bit_length n - 1 < Suc b" by (rule power_less_imp_less_exp [rotated]) simp
  ultimately show ?thesis by simp
qed

lemma bit_length_mono: "m \<le> n \<Longrightarrow> bit_length m \<le> bit_length n"
proof (cases "m = 0")
  case False
  assume "m \<le> n"
  have "(2::nat) ^ (bit_length m - 1) \<le> m" using bit_length_bounds(2) [of m] False by simp
  also have "m < 2 ^ bit_length n" using \<open>m \<le> n\<close> bit_length_bounds(1) [of n] by (rule le_less_trans)
  finally have "bit_length m - 1 < bit_length n" by (rule power_less_imp_less_exp [rotated]) simp
  then show ?thesis by simp
qed (simp add: bit_length.simps)

lemma half_even_bounds: "n div d \<le> half_even n d" "half_even n d \<le> n div d + 1"
  by (simp_all add: half_even_def Let_def)

lemma half_even_dvd: "0 < d \<Longrightarrow> half_even (a * d) d = a"
  by (simp add: half_even_def)

lemma div_le_cross:
  assumes "n1 * d2 \<le> n2 * d1" "0 < d1" "0 < d2"
  shows "n1 div d1 \<le> n2 div (d2::nat)"
proof -
  have "(n1 div d1) * d1 * d2 \<le> n1 * d2" by simp
  also have "\<dots> \<le> n2 * d1" by (rule assms(1))
  finally have "(n1 div d1) * d2 * d1 \<le> n2 * d1" by (simp add: mult.commute mult.left_commute)
  then have "(n1 div d1) * d2 \<le> n2" using assms(2) by simp
  then show ?thesis using assms(3) by (simp add: less_eq_div_iff_mult_less_eq)
qed

lemma half_even_mono:
  assumes cross: "n1 * d2 \<le> n2 * d1" and pos: "0 < d1" "0 < d2"
  shows "half_even n1 d1 \<le> half_even n2 d2"
proof (cases "n1 div d1 = n2 div d2")
  case False
  then have "n1 div d1 + 1 \<le> n2 div d2" using div_le_cross [OF assms] by simp
  then show ?thesis using half_even_bounds le_trans by blast
next
  case True
  define q where "q = n1 div d1"
  define r1 where "r1 = n1 mod d1"
  define r2 where "r2 = n2 mod d2"
  have n: "n1 = q * d1 + r1" "n2 = q * d2 + r2"
    unfolding q_def r1_def r2_def by (simp, simp add: True)
  have r: "r1 * d2 \<le> r2 * d1" using cross unfolding n by (simp add: algebra_simps)
  have "d2 < 2 * r2" if "d1 < 2 * r1"
  proof -
    have "d1 * d2 < 2 * r1 * d2" using that pos by simp
    also have "\<dots> \<le> 2 * r2 * d1" using r by simp
    finally show ?thesis using pos by (simp add: mult.commute)
  qed
  moreover have "d2 \<le> 2 * r2" if "2 * r1 = d1"
  proof -
    have "d1 * d2 \<le> 2 * r2 * d1" using r that by (metis mult.assoc mult_le_mono2)
    then show ?thesis using pos by (simp add: mult.commute)
  qed
  ultimately show ?thesis
    unfolding half_even_def Let_def True [symmetric] q_def [symmetric] r1_def [symmetric] r2_def [symmetric] by auto
qed

lemma mantissa_bounds:
  fixes n d :: nat
  assumes "0 < d"
  defines "k \<equiv> bit_length (n div d) - 53"
  shows "half_even n (d * 2 ^ k) \<le> 2 ^ 53" and "0 < k \<Longrightarrow> 2 ^ 52 \<le> half_even n (d * 2 ^ k)"
proof -
  let ?q = "n div d"
  have split: "n div (d * 2 ^ k) = ?q div 2 ^ k" by (simp add: div_mult2_eq)
  have "?q < 2 ^ bit_length ?q" by (rule bit_length_bounds)
  also have "\<dots> \<le> 2 ^ (53 + k)" unfolding k_def by (intro power_increasing) simp_all
  finally have "?q div 2 ^ k < 2 ^ 53" by (simp add: power_add less_mult_imp_div_less)
  then show "half_even n (d * 2 ^ k) \<le> 2 ^ 53"
    using half_even_bounds(2) [of n "d * 2 ^ k"] unfolding split by simp
  assume "0 < k"
  then have big: "53 + k = bit_length ?q" by (simp add: k_def)
  then have "0 < ?q" by (cases "?q = 0") (simp_all add: bit_length.simps)
  then have "2 ^ (52 + k) \<le> ?q" using bit_length_bounds(2) [of ?q] by (simp flip: big)
  then have "2 ^ 52 \<le> ?q div 2 ^ k"
    by (simp add: power_add less_eq_div_iff_mult_less_eq)
  then show "2 ^ 52 \<le> half_even n (d * 2 ^ k)"
    using half_even_bounds(1) [of n "d * 2 ^ k"] unfolding split by simp
qed

lemma f64_bits_mono:
  assumes cross: "n1 * d2 \<le> n2 * d1" and pos: "0 < d1" "0 < d2"
  shows "f64_bits n1 d1 \<le> f64_bits n2 d2"
proof -
  define k1 where "k1 = bit_length (n1 div d1) - 53"
  define k2 where "k2 = bit_length (n2 div d2) - 53"
  have le: "k1 \<le> k2" unfolding k1_def k2_def
    using bit_length_mono [OF div_le_cross [OF assms]] by simp
  show ?thesis
  proof (cases "k1 = k2")
    case True
    have "n1 * (d2 * 2 ^ k2) \<le> n2 * (d1 * 2 ^ k2)" using cross by (simp add: mult.assoc [symmetric])
    then have "half_even n1 (d1 * 2 ^ k2) \<le> half_even n2 (d2 * 2 ^ k2)" using pos by (intro half_even_mono) simp_all
    then show ?thesis by (simp add: f64_bits_def Let_def flip: k1_def k2_def) (simp add: True)
  next
    case False
    then have "(k1 + 1) * 2 ^ 52 \<le> k2 * 2 ^ 52" using le by (intro mult_right_mono) simp_all
    moreover have "half_even n1 (d1 * 2 ^ k1) \<le> 2 ^ 53" unfolding k1_def by (rule mantissa_bounds(1) [OF pos(1)])
    moreover have "2 ^ 52 \<le> half_even n2 (d2 * 2 ^ k2)"
      unfolding k2_def by (rule mantissa_bounds(2) [OF pos(2)]) (use False le in \<open>simp add: k2_def\<close>)
    ultimately show ?thesis by (simp add: f64_bits_def Let_def flip: k1_def k2_def)
  qed
qed

subsection \<open>Rounding is exact on doubles\<close>

definition nat_units :: "f64 \<Rightarrow> nat" where
  "nat_units x = nat (f64_units x)"

lemma nat_units_split:
  assumes "\<not> f64_negative x"
  shows "nat_units x =
    (let e = nat (f64_mag x) div 2 ^ 52; m = nat (f64_mag x) mod 2 ^ 52 in if e = 0 then m else (2 ^ 52 + m) * 2 ^ (e - 1))"
proof -
  define n where "n = nat (f64_mag x)"
  have mag: "f64_mag x = int n" using f64_mag_bounds(1) [of x] by (simp add: n_def)
  have e: "f64_mag x div 2 ^ 52 = int (n div 2 ^ 52)" and m: "f64_mag x mod 2 ^ 52 = int (n mod 2 ^ 52)"
    unfolding mag by (simp_all add: zdiv_int zmod_int)
  have "nat ((2 ^ 52 + int (n mod 2 ^ 52)) * 2 ^ nat (int (n div 2 ^ 52) - 1)) = (2 ^ 52 + n mod 2 ^ 52) * 2 ^ (n div 2 ^ 52 - 1)"
    by (simp add: nat_mult_distrib nat_add_distrib nat_power_eq nat_diff_distrib)
  then show ?thesis
    unfolding nat_units_def f64_units_def Let_def e m n_def [symmetric] using assms by simp
qed

lemma f64_bits_exact:
  assumes "\<not> f64_negative x"
  shows "f64_bits (nat_units x) 1 = nat (f64_mag x)"
proof -
  define n where "n = nat (f64_mag x)"
  define e where "e = n div 2 ^ 52"
  define m where "m = n mod 2 ^ 52"
  have n: "n = e * 2 ^ 52 + m" by (simp add: e_def m_def)
  have m_lt: "m < 2 ^ 52" by (simp add: m_def)
  have units: "nat_units x = (if e = 0 then m else (2 ^ 52 + m) * 2 ^ (e - 1))"
    using nat_units_split [OF assms] by (simp add: e_def m_def n_def Let_def)
  show ?thesis
  proof (cases "e = 0")
    case True
    have "bit_length m \<le> bit_length (2 ^ 52 - 1)" using m_lt by (intro bit_length_mono) simp
    also have "bit_length (2 ^ 52 - 1) = Suc 51" by (rule bit_length_unique) simp_all
    finally have "bit_length m - 53 = 0" by simp
    then show ?thesis using True units n half_even_dvd [of 1 m] by (simp add: f64_bits_def n_def [symmetric])
  next
    case False
    let ?u = "(2 ^ 52 + m) * 2 ^ (e - 1)"
    have "(2::nat) ^ (52 + (e - 1)) \<le> ?u" by (simp add: power_add)
    moreover have "(2 ^ 52 + m) * 2 ^ (e - 1) < 2 ^ 53 * 2 ^ (e - 1)" using m_lt by (intro mult_strict_right_mono) simp_all
    then have "?u < 2 ^ Suc (52 + (e - 1))" by (simp add: power_add)
    ultimately have "bit_length ?u = Suc (52 + (e - 1))" by (rule bit_length_unique)
    then have "bit_length ?u - 53 = e - 1" by simp
    then have "f64_bits ?u 1 = (e - 1) * 2 ^ 52 + (2 ^ 52 + m)"
      by (simp add: f64_bits_def half_even_dvd)
    also have "\<dots> = n" using False n by (cases e) simp_all
    finally show ?thesis using False units by (simp add: n_def)
  qed
qed

lemma f64_mag_of_nat: "n \<le> INFINITY_BITS \<Longrightarrow> f64_mag (of_nat n) = int n \<and> \<not> f64_negative (of_nat n :: f64)"
  by (simp add: f64_mag_def f64_negative_def INFINITY_BITS_def unsigned_of_nat take_bit_nat_eq_self uint_nat)

lemma f64_nearest_simps [simp]:
  "f64_mag (f64_nearest n d) = int (min (f64_bits n d) INFINITY_BITS)" "\<not> f64_negative (f64_nearest n d)"
  using f64_mag_of_nat [of "min (f64_bits n d) INFINITY_BITS"] by (simp_all add: f64_nearest_def)

text \<open>The order of the bits is the order of the values.\<close>

lemma f64_order:
  assumes "\<not> f64_negative x" "\<not> f64_negative y"
  shows "nat_units x \<le> nat_units y \<longleftrightarrow> f64_mag x \<le> f64_mag y"
proof -
  have up: "nat_units a \<le> nat_units b \<Longrightarrow> f64_mag a \<le> f64_mag b" if "\<not> f64_negative a" "\<not> f64_negative b" for a b
    using f64_bits_mono [of "nat_units a" 1 "nat_units b" 1] f64_bits_exact that f64_mag_bounds(1) [of b] by simp
  moreover have "nat_units x \<le> nat_units y" if "f64_mag x \<le> f64_mag y"
  proof (rule ccontr)
    assume "\<not> nat_units x \<le> nat_units y"
    then have "f64_mag y \<le> f64_mag x" using up [of y x] assms by simp
    with that have "f64_total x = f64_total y" using assms by (simp add: f64_total_def)
    then have "x = y" by (simp add: f64_total_inject)
    with \<open>\<not> nat_units x \<le> nat_units y\<close> show False by simp
  qed
  ultimately show ?thesis using assms by blast
qed

subsection \<open>What the operations keep\<close>

lemma ONE_simps [simp]: "\<not> f64_negative ONE" "f64_mag ONE = 0x3FF0000000000000" "f64_finite ONE" "f64_in_unit ONE"
  by (simp_all add: ONE_def f64_negative_def f64_mag_def f64_finite_def f64_in_unit_def)

lemma nat_units_ONE: "nat_units ONE = 2 ^ 1074"
  using nat_units_split [of ONE] by simp

lemma f64_add_ge:
  assumes "\<not> f64_negative x" "\<not> f64_negative y" "f64_finite x" "f64_finite y"
  shows "\<not> f64_negative (f64_add x y) \<and> f64_mag x \<le> f64_mag (f64_add x y) \<and> f64_mag y \<le> f64_mag (f64_add x y)"
proof -
  have "f64_bits (nat_units x) 1 \<le> f64_bits (nat_units x + nat_units y) 1"
    "f64_bits (nat_units y) 1 \<le> f64_bits (nat_units x + nat_units y) 1"
    by (rule f64_bits_mono; simp)+
  then show ?thesis
    using assms f64_bits_exact [OF assms(1)] f64_bits_exact [OF assms(2)]
    by (auto simp: f64_add_def nat_units_def [symmetric] f64_finite_def INFINITY_BITS_def min_def nat_le_iff)
qed

lemma f64_div_in_unit:
  assumes "\<not> f64_negative x" "\<not> f64_negative t" "f64_mag x \<le> f64_mag t" "f64_is_normal t"
  shows "f64_in_unit (f64_div x t)"
proof -
  have le: "nat_units x \<le> nat_units t" using assms f64_order by blast
  have "\<not> nat_units t \<le> nat_units 0"
    using assms(2,4) f64_order [of t 0] by (simp add: f64_is_normal_def f64_negative_def f64_mag_def)
  then have pos: "0 < nat_units t" by simp
  have "f64_bits (nat_units x * 2 ^ 1074) (nat_units t) \<le> f64_bits (2 ^ 1074) 1"
    using le pos by (intro f64_bits_mono) simp_all
  also have "\<dots> = 0x3FF0000000000000" using f64_bits_exact [of ONE] by (simp add: nat_units_ONE)
  finally show ?thesis
    by (simp add: f64_in_unit_def f64_div_def nat_units_def [symmetric] INFINITY_BITS_def)
qed

lemma f64_sub_in_unit:
  assumes "f64_in_unit p"
  shows "f64_in_unit (f64_sub ONE p)"
proof -
  have p: "\<not> f64_negative p" "f64_mag p \<le> f64_mag ONE" using assms by (simp_all add: f64_in_unit_def)
  then have le: "nat_units p \<le> nat_units ONE" using f64_order [of p ONE] by simp
  have units: "0 \<le> f64_units p" "0 \<le> f64_units ONE"
    using p(1) f64_mag_bounds(1) by (simp_all add: f64_units_def Let_def)
  then have "f64_units p \<le> f64_units ONE" using le by (simp add: nat_units_def)
  moreover have "f64_bits (nat (f64_units ONE - f64_units p)) 1 \<le> f64_bits (nat_units ONE) 1"
    using units by (intro f64_bits_mono) (simp_all add: nat_units_def nat_diff_distrib)
  ultimately show ?thesis
    using f64_bits_exact [of ONE] by (simp add: f64_in_unit_def f64_sub_def INFINITY_BITS_def)
qed

end
