(* ===== verification/Decisions.thy ===== *)
theory Decisions
  imports Chat_Routing F64_Arith
begin

section \<open>Typed decisions\<close>

text \<open>
  \<open>core/decisions/\<close> and \<open>core/server/decisions.rs\<close>: the questions a caller may ask and what they are refused for, the
  prompt and the answer schema a chat model is asked with, the distribution it answers and the typed answer computed
  from it, a native provider's answer checked against what was declared, and the endpoint.

  A \<open>serde_json\<close> map is a \<open>BTreeMap\<close> here (the crate's \<open>preserve_order\<close> is off), so questions, options and answers are in the
  order of their keys. The texts of \<open>serde_json\<close>'s errors and its pretty printer are the record \<open>decision_crates\<close>.
  Probabilities are doubles with the arithmetic of \<open>F64_Arith\<close>; \<open>Iterator::sum\<close> starts at a zero, which
  no sum of doubles without a sign shows. The counters of answered and refused decisions are not modelled.
\<close>

subsection \<open>Questions\<close>

record decision_crates =
  dx_codec :: json_codec
  dx_unknown :: "string \<Rightarrow> string list \<Rightarrow> string"
  dx_kind_error :: "json \<Rightarrow> string"
  dx_not_map :: "json \<Rightarrow> string"
  dx_pretty :: "json \<Rightarrow> string"

datatype question =
    Noul string
  | Choice string "(string \<times> string option) list"
  | Score string "string list"

record decision_request =
  dr_model :: string
  dr_state :: json
  dr_questions :: "(string \<times> question) list"

fun labels :: "question \<Rightarrow> string list" where
  "labels (Noul _) = [''true'', ''false'']"
| "labels (Choice _ options) = map fst options"
| "labels (Score _ levels) = map show_nat [0..<length levels]"

fun instructions :: "question \<Rightarrow> string" where
  "instructions (Noul i) = i"
| "instructions (Choice i _) = i"
| "instructions (Score i _) = i"

fun kind :: "question \<Rightarrow> string" where
  "kind (Noul _) = ''noul''"
| "kind (Choice _ _) = ''choice''"
| "kind (Score _ _) = ''score''"

definition question_of :: "decision_request \<Rightarrow> string \<Rightarrow> question option" where
  "question_of request key = map_of (dr_questions request) key"

fun object_of :: "json \<Rightarrow> (string \<times> json) list option" where
  "object_of (JObj kvs) = Some kvs"
| "object_of _ = None"

text \<open>\<open>deny_unknown_fields\<close>: the first member that is not a field, in the map's order.\<close>

definition known_fields :: "decision_crates \<Rightarrow> string list \<Rightarrow> (string \<times> json) list \<Rightarrow> (string, unit) result" where
  "known_fields X allowed kvs =
     (case filter (\<lambda>k. k \<notin> set allowed) (map fst kvs) of [] \<Rightarrow> Inr () | k # _ \<Rightarrow> Inl (dx_unknown X k allowed))"

definition stated_text :: "json option \<Rightarrow> string option" where
  "stated_text v =
     (case Option.bind v as_str of None \<Rightarrow> None | Some t \<Rightarrow> (if trim t = [] then None else Some (trim t)))"

definition validate_key :: "string \<Rightarrow> (string, unit) result" where
  "validate_key key =
     (if key = [] \<or> trim key \<noteq> key then Inl (''question key '' @ ticked key @ '' must be non-empty and trimmed'')
      else if list_ex is_control key then Inl (''question key '' @ ticked key @ '' must not contain control characters'')
      else Inr ())"

definition about_question :: "string \<Rightarrow> string \<Rightarrow> string" where
  "about_question key rest = ''question '' @ ticked key @ rest"

definition validate_label :: "string \<Rightarrow> string \<Rightarrow> (string, unit) result" where
  "validate_label key label =
     (if label = [] \<or> trim label \<noteq> label then
        Inl (about_question key ('' option '' @ ticked label @ '' must be non-empty and trimmed''))
      else if list_ex is_control label then
        Inl (about_question key ('' option '' @ ticked label @ '' must not contain control characters''))
      else Inr ())"

datatype question_kind = KNoul | KChoice | KScore

text \<open>An enum of unit variants is read from its name, and also from an object that maps its name to null.\<close>

fun kind_named :: "string \<Rightarrow> question_kind option" where
  "kind_named s = (if s = ''noul'' then Some KNoul else if s = ''choice'' then Some KChoice
     else if s = ''score'' then Some KScore else None)"

fun read_kind :: "json \<Rightarrow> question_kind option" where
  "read_kind (JStr s) = kind_named s"
| "read_kind (JObj [(s, JNull)]) = kind_named s"
| "read_kind _ = None"

definition read_option :: "string \<Rightarrow> string \<times> json \<Rightarrow> (string, string \<times> string option) result" where
  "read_option key = (\<lambda>(label, rubric).
     bind_result (validate_label key label) (\<lambda>_.
     case rubric of
       JNull \<Rightarrow> Inr (label, None)
     | JStr t \<Rightarrow> Inr (label, Some t)
     | _ \<Rightarrow> Inl (about_question key ('' option '' @ ticked label @ '' must describe itself with a string or null''))))"

definition read_level :: "string \<Rightarrow> json \<Rightarrow> (string, string) result" where
  "read_level key level =
     ok_or (about_question key '' must describe every level with a non-empty string'') (stated_text (Some level))"

definition shape_question :: "string \<Rightarrow> json \<Rightarrow> string \<Rightarrow> question_kind \<Rightarrow> (string, question) result" where
  "shape_question key value text k =
     (case k of
       KNoul \<Rightarrow>
         (if json_get value ''criteria'' \<noteq> None then
            Inl (about_question key '' is a noul and declares no criteria: a noul is answered with the probability that it is true'')
          else Inr (Noul text))
     | KChoice \<Rightarrow>
         bind_result (ok_or (about_question key '' must declare `criteria` as an object of option labels'')
           (Option.bind (json_get value ''criteria'') object_of)) (\<lambda>criteria.
         if length criteria < 2 then Inl (about_question key '' must declare at least two options'')
         else bind_result (collect_results (map (read_option key) criteria)) (\<lambda>options. Inr (Choice text options)))
     | KScore \<Rightarrow>
         bind_result (ok_or (about_question key '' must declare `criteria` as an ordered array of levels, lowest first'')
           (Option.bind (json_get value ''criteria'') as_array)) (\<lambda>criteria.
         if length criteria < 2 then Inl (about_question key '' must declare at least two levels'')
         else bind_result (collect_results (map (read_level key) criteria)) (\<lambda>levels. Inr (Score text levels))))"

definition parse_question :: "decision_crates \<Rightarrow> string \<Rightarrow> json \<Rightarrow> (string, question) result" where
  "parse_question X key value =
     bind_result (ok_or (about_question key '' must be an object'') (object_of value)) (\<lambda>object.
     bind_result (map_sum (\<lambda>err. about_question key ('': '' @ err @ ''; a question has `type`, `instructions` and `criteria`'')) id
         (known_fields X [''type'', ''instructions'', ''criteria''] object)) (\<lambda>_.
     bind_result (ok_or (about_question key '' must carry non-empty `instructions`'')
         (stated_text (json_get value ''instructions''))) (\<lambda>text.
     bind_result (case json_get value ''type'' of
         None \<Rightarrow> Inl (about_question key '' must declare a `type`: noul, choice or score'')
       | Some declared \<Rightarrow> ok_or (about_question key ('' declares unsupported type '' @ show_json (dx_codec X) declared @
           '': a question is a noul, a choice or a score ('' @ dx_kind_error X declared @ '')'')) (read_kind declared)) (\<lambda>k.
     shape_question key value text k))))"

definition read_question :: "decision_crates \<Rightarrow> string \<times> json \<Rightarrow> (string, string \<times> question) result" where
  "read_question X = (\<lambda>(key, value).
     bind_result (validate_key key) (\<lambda>_. bind_result (parse_question X key value) (\<lambda>q. Inr (key, q))))"

definition empty_state :: "json \<Rightarrow> bool" where
  "empty_state state = (state = JNull \<or> (case as_str state of None \<Rightarrow> False | Some t \<Rightarrow> trim t = []))"

definition parse_decision :: "decision_crates \<Rightarrow> json \<Rightarrow> (string, decision_request) result" where
  "parse_decision X body =
     bind_result (ok_or ''the request body must be a JSON object'' (object_of body)) (\<lambda>object.
     bind_result (map_sum (\<lambda>err. err @ '': a decision carries `model`, `state` and `questions`'') id
         (known_fields X [''model'', ''state'', ''questions''] object)) (\<lambda>_.
     bind_result (ok_or ''missing field `model`'' (stated_text (json_get body ''model''))) (\<lambda>model.
     bind_result (ok_or ''missing field `state`'' (json_get body ''state'')) (\<lambda>state.
     if empty_state state then Inl ''`state` must not be empty''
     else
       bind_result (ok_or ''`questions` must be an object of question keys''
         (Option.bind (json_get body ''questions'') object_of)) (\<lambda>declared.
       if declared = [] then Inl ''`questions` must declare at least one question''
       else bind_result (collect_results (map (read_question X) declared)) (\<lambda>questions.
         Inr \<lparr>dr_model = model, dr_state = state, dr_questions = questions\<rparr>))))))"

definition decision_state_text :: "decision_crates \<Rightarrow> decision_request \<Rightarrow> string" where
  "decision_state_text X request = (case dr_state request of JStr t \<Rightarrow> t | other \<Rightarrow> dx_pretty X other)"

subsection \<open>Asking a chat model\<close>

definition SYSTEM_PROMPT :: string where
  "SYSTEM_PROMPT = ''You are a decision engine. You read a state and answer each question by distributing probability over exactly the labels that question declares. Answer with one JSON object and nothing else: no prose, no code fence, no explanation. Its keys are the question keys, and each value is an object mapping every declared label of that question to a number between 0 and 1. The numbers for one question sum to 1. Use every label the question declares and no other label.''"

fun question_prompt :: "string \<times> question \<Rightarrow> string" where
  "question_prompt (key, q) =
     ''- '' @ key @ '' ('' @ kind q @ ''): '' @ instructions q @ [NL] @
     (case q of
        Noul _ \<Rightarrow> ''  labels: true, false'' @ [NL]
      | Choice _ options \<Rightarrow>
          ''  labels:'' @ [NL] @
          concat (map (\<lambda>(label, rubric). ''    '' @ label @ (case rubric of Some r \<Rightarrow> '': '' @ r | None \<Rightarrow> []) @ [NL]) options)
      | Score _ levels \<Rightarrow>
          ''  labels, lowest first:'' @ [NL] @
          concat (map (\<lambda>(index, level). ''    '' @ show_nat index @ '': '' @ level @ [NL]) (enumerate 0 levels)))"

definition user_prompt :: "decision_crates \<Rightarrow> decision_request \<Rightarrow> string" where
  "user_prompt X request =
     ''STATE'' @ [NL] @ decision_state_text X request @ [NL, NL] @ ''QUESTIONS'' @ [NL] @
     concat (map question_prompt (dr_questions request)) @
     [NL] @ ''ANSWER'' @ [NL] @ ''One JSON object keyed by question key, each value an object of label probabilities.''"

definition closed_object :: "(string \<times> json) list \<Rightarrow> string list \<Rightarrow> json" where
  "closed_object properties required =
     json_obj [(''type'', JStr ''object''), (''properties'', json_obj properties), (''required'', JArr (map JStr required)),
               (''additionalProperties'', JBool False)]"

definition answer_schema :: "decision_request \<Rightarrow> response_schema" where
  "answer_schema request =
     \<lparr>rs_name = ''decision'',
      rs_schema = closed_object
        (map (\<lambda>(key, q). (key, closed_object (map (\<lambda>label. (label, json_obj [(''type'', JStr ''number'')])) (labels q)) (labels q)))
          (dr_questions request))
        (map fst (dr_questions request))\<rparr>"

definition decision_chat_request :: "decision_crates \<Rightarrow> decision_request \<Rightarrow> string \<Rightarrow> model_request" where
  "decision_chat_request X request route =
     \<lparr>rq_messages = [\<lparr>msg_role = ''user'', msg_content = JStr (user_prompt X request), msg_tool_call_id = None,
                     msg_name = None, msg_tool_calls = None\<rparr>],
      rq_model = route, rq_max_tokens = None, rq_temperature = None, rq_system = Some SYSTEM_PROMPT, rq_tools = None,
      rq_tool_choice = None, rq_billing_target = None, rq_response_schema = Some (answer_schema request)\<rparr>"

subsection \<open>Reading a distribution\<close>

definition about_answer :: "string \<Rightarrow> string \<Rightarrow> string" where
  "about_answer key rest = ''answer for question '' @ ticked key @ rest"

text \<open>The keys as the model wrote them, trimmed; one that is not declared and one named twice are refused.\<close>

fun read_labels ::
  "string \<Rightarrow> string list \<Rightarrow> (string \<times> json) list \<Rightarrow> (string \<times> json) list \<Rightarrow> (string, (string \<times> json) list) result" where
  "read_labels key declared [] by_label = Inr by_label"
| "read_labels key declared ((spelled, v) # rest) by_label =
     (let label = trim spelled
      in if label \<notin> set declared then
           Inl (about_answer key ('' names label '' @ ticked spelled @ '', which this question does not declare''))
         else if label \<in> set (map fst by_label) then
           Inl (about_answer key ('' names label '' @ ticked label @ '' more than once''))
         else read_labels key declared rest ((label, v) # by_label))"

definition label_mass ::
  "json_codec \<Rightarrow> string \<Rightarrow> (string \<times> json) list \<Rightarrow> string \<Rightarrow> (string, string \<times> f64 option) result" where
  "label_mass J key by_label label =
     (case map_of by_label label of
        None \<Rightarrow> Inr (label, None)
      | Some spelled \<Rightarrow>
          (case as_f64 spelled of
             None \<Rightarrow> Inl (about_answer key ('' gives label '' @ ticked label @ '' '' @ show_json J spelled @ '', which is not a number''))
           | Some x \<Rightarrow>
               (if \<not> f64_finite x \<or> f64_negative x then
                  Inl (about_answer key ('' gives label '' @ ticked label @ '' a probability that is not a non-negative number''))
                else Inr (label, Some x))))"

definition total_mass :: "(string \<times> f64 option) list \<Rightarrow> f64" where
  "total_mass mass = foldl f64_add 0 (List.map_filter snd mass)"

definition share :: "f64 \<Rightarrow> f64 option \<Rightarrow> f64" where
  "share whole v = (case v of Some x \<Rightarrow> f64_div x whole | None \<Rightarrow> 0)"

definition distribution ::
  "json_codec \<Rightarrow> string \<Rightarrow> question \<Rightarrow> (string \<times> json) list \<Rightarrow> (string, (string \<times> f64) list) result" where
  "distribution J key q reply =
     bind_result (read_labels key (labels q) reply []) (\<lambda>by_label.
     bind_result (collect_results (map (label_mass J key by_label) (labels q))) (\<lambda>mass.
     if \<not> f64_is_normal (total_mass mass) then Inl (about_answer key '' carries no probability mass'')
     else Inr (map (\<lambda>(label, v). (label, share (total_mass mass) v)) mass)))"

subsection \<open>The typed answer\<close>

text \<open>\<open>max_by\<close> keeps the last of equal elements.\<close>

fun heaviest :: "(string \<times> f64) list \<Rightarrow> (string \<times> f64) option" where
  "heaviest [] = None"
| "heaviest (x # xs) =
     Some (foldl (\<lambda>best y. if f64_total (snd best) \<le> f64_total (snd y) then y else best) x xs)"

definition complement :: "f64 \<Rightarrow> f64" where
  "complement p = f64_sub ONE p"

definition probability_map :: "(string \<times> f64) list \<Rightarrow> json" where
  "probability_map d = json_obj (map (\<lambda>(label, p). (label, json_f64 p)) d)"

definition expected_level :: "(string \<times> f64) list \<Rightarrow> f64" where
  "expected_level d = foldl f64_add 0 (map (\<lambda>(index, label, p). f64_mul (f64_of_nat index) p) (enumerate 0 d))"

definition typed_answer :: "string \<Rightarrow> question \<Rightarrow> (string \<times> f64) list \<Rightarrow> (string, json) result" where
  "typed_answer key q d =
     bind_result (ok_or (about_question key '' declares no label to answer with'') (heaviest d)) (\<lambda>(top_label, top_mass).
     case q of
       Noul _ \<Rightarrow>
         bind_result (ok_or (''yes-or-no question '' @ ticked key @ '' has no `true` label'') (map_of d ''true'')) (\<lambda>truth.
           Inr (json_obj [(''noul'', json_f64 truth), (''confidence'', json_f64 (f64_max truth (complement truth)))]))
     | Choice _ _ \<Rightarrow>
         Inr (json_obj [(''choice'', JStr top_label), (''probabilities'', probability_map d), (''confidence'', json_f64 top_mass)])
     | Score _ levels \<Rightarrow>
         Inr (json_obj [(''score'', json_f64 (expected_level d)), (''probabilities'', probability_map d),
                        (''confidence'', json_f64 top_mass), (''legend'', JArr (map JStr levels))]))"

definition check_question_keys :: "decision_request \<Rightarrow> (string \<times> json) list \<Rightarrow> (string, unit) result" where
  "check_question_keys request reply =
     each_ok (\<lambda>key. if question_of request key = None
        then Inl (''answer names undeclared question '' @ ticked key) else Inr ()) (map fst reply)"

definition the_answer :: "string \<Rightarrow> (string \<times> json) list \<Rightarrow> (string, (string \<times> json) list) result" where
  "the_answer key reply = ok_or (about_answer key '' is missing'') (Option.bind (map_of reply key) object_of)"

text \<open>Both engines answer every question in turn.\<close>

definition answer_each ::
  "(string \<Rightarrow> question \<Rightarrow> (string \<times> json) list \<Rightarrow> (string, json) result) \<Rightarrow> decision_request \<Rightarrow> (string \<times> json) list \<Rightarrow>
   (string, (string, json) btmap) result" where
  "answer_each answer request reply =
     bind_result (check_question_keys request reply) (\<lambda>_.
     bind_result (collect_results (map (\<lambda>(key, q).
         bind_result (the_answer key reply) (\<lambda>a. bind_result (answer key q a) (\<lambda>v. Inr (key, v)))) (dr_questions request)))
       (\<lambda>answers. Inr (entries_of answers)))"

definition chat_answer :: "json_codec \<Rightarrow> string \<Rightarrow> question \<Rightarrow> (string \<times> json) list \<Rightarrow> (string, json) result" where
  "chat_answer J key q reply = bind_result (distribution J key q reply) (typed_answer key q)"

definition json_object :: "decision_crates \<Rightarrow> string \<Rightarrow> (string, (string \<times> json) list) result" where
  "json_object X text =
     map_sum (\<lambda>err. ''the model'' @ [CHR 0x27] @ ''s JSON object of label probabilities does not parse: '' @ err) id
       (bind_result (parse_json (dx_codec X) text) (\<lambda>v. ok_or (dx_not_map X v) (object_of v)))"

definition answers_from_text :: "decision_crates \<Rightarrow> decision_request \<Rightarrow> string \<Rightarrow> (string, (string, json) btmap) result" where
  "answers_from_text X request text =
     bind_result (json_object X text) (answer_each (chat_answer (dx_codec X)) request)"

subsection \<open>A native provider's answer\<close>

definition probability :: "json \<Rightarrow> f64 option" where
  "probability v =
     (case as_f64 v of
        None \<Rightarrow> None
      | Some x \<Rightarrow> (if f64_finite x \<and> \<not> f64_negative x \<and> f64_value x \<le> f64_value ONE then Some x else None))"

definition stated_confidence :: "string \<Rightarrow> (string \<times> json) list \<Rightarrow> (string, f64 option) result" where
  "stated_confidence key answer =
     (case map_of answer ''confidence'' of
        None \<Rightarrow> Inr None
      | Some v \<Rightarrow> map_sum id Some (ok_or (about_answer key '' carries an invalid `confidence`'') (probability v)))"

definition carry_over ::
  "json_codec \<Rightarrow> string \<Rightarrow> question \<Rightarrow> (string \<times> json) list \<Rightarrow> (string, (string \<times> json) list) result" where
  "carry_over J key q answer =
     bind_result (case map_of answer ''probabilities'' of
         None \<Rightarrow> Inr []
       | Some raw \<Rightarrow>
           bind_result (ok_or (about_answer key '' carries non-object `probabilities`'') (object_of raw)) (\<lambda>probabilities.
           bind_result (distribution J key q probabilities) (\<lambda>d. Inr [(''probabilities'', probability_map d)]))) (\<lambda>masses.
     bind_result (stated_confidence key answer) (\<lambda>c.
       Inr (masses @ (case c of None \<Rightarrow> [] | Some x \<Rightarrow> [(''confidence'', json_f64 x)]))))"

definition native_answer :: "json_codec \<Rightarrow> string \<Rightarrow> question \<Rightarrow> (string \<times> json) list \<Rightarrow> (string, json) result" where
  "native_answer J key q answer =
     (case q of
        Noul _ \<Rightarrow>
          bind_result (ok_or (about_answer key '' is missing `noul`'') (map_of answer ''noul'')) (\<lambda>raw.
          bind_result (ok_or (about_answer key '' has an invalid `noul` probability'') (probability raw)) (\<lambda>value.
          bind_result (stated_confidence key answer) (\<lambda>stated.
            Inr (json_obj [(''noul'', json_f64 value),
              (''confidence'', json_f64 (case stated of Some c \<Rightarrow> c | None \<Rightarrow> f64_max value (complement value)))]))))
      | Choice _ options \<Rightarrow>
          bind_result (ok_or (about_answer key '' is missing `choice`'') (map_of answer ''choice'')) (\<lambda>raw.
          bind_result (ok_or (about_answer key '' has a non-string `choice`'') (as_str raw)) (\<lambda>choice.
          if choice \<notin> set (map fst options) then
            Inl (about_answer key ('' names option '' @ ticked choice @ '', which this question does not declare''))
          else bind_result (carry_over J key q answer) (\<lambda>more. Inr (json_obj ((''choice'', JStr choice) # more)))))
      | Score _ levels \<Rightarrow>
          bind_result (ok_or (about_answer key '' is missing `score`'') (map_of answer ''score'')) (\<lambda>raw.
          bind_result (ok_or (about_answer key '' has a non-number `score`'') (as_f64 raw)) (\<lambda>score.
          if levels = [] then Inl (about_question key '' declares no rubric levels'')
          else if \<not> f64_finite score \<or> f64_negative score \<or> f64_value (f64_of_nat (length levels - 1)) < f64_value score then
            Inl (about_answer key '' scores outside the rubric it was given'')
          else bind_result (carry_over J key q answer) (\<lambda>more.
            Inr (json_obj ((''score'', json_f64 score) # more @ [(''legend'', JArr (map JStr levels))]))))))"

definition answers_from_native :: "decision_crates \<Rightarrow> decision_request \<Rightarrow> json \<Rightarrow> (string, (string, json) btmap) result" where
  "answers_from_native X request body =
     bind_result (ok_or ''the provider answered with no object of answers'' (object_of body)) (\<lambda>object.
     bind_result (ok_or ''the provider answered without `answers`'' (json_get body ''answers'')) (\<lambda>raw.
     bind_result (ok_or (''the provider'' @ [CHR 0x27] @ ''s `answers` is not an object of answers'') (object_of raw))
       (answer_each (native_answer (dx_codec X)) request)))"

subsection \<open>The two engines\<close>

definition ENGINE_NATIVE :: string where "ENGINE_NATIVE = ''typesafe-systemone''"
definition ENGINE_CHAT :: string where "ENGINE_CHAT = ''chat-distribution''"

record decision_outcome =
  do_answers :: "(string, json) btmap"
  do_engine :: string
  do_route :: string
  do_input_tokens :: "32 word option"
  do_output_tokens :: "32 word option"
  do_latency_ms :: f64

record contract_breach =
  cb_answered_by :: string
  cb_reason :: string
  cb_reply :: string

datatype decision_failure = Provider_refused refusal | Contract contract_breach

definition breach_sentence :: "contract_breach \<Rightarrow> string" where
  "breach_sentence b = cb_answered_by b @ '' answered outside the declared schema: '' @ cb_reason b"

definition usage_field :: "json \<Rightarrow> string \<Rightarrow> (string, 32 word option) result" where
  "usage_field body name =
     (case Option.bind (json_pointer body ''usage'' name) as_u64 of
        None \<Rightarrow> Inr None
      | Some tokens \<Rightarrow>
          map_sum (\<lambda>err. ''the provider stated usage.'' @ name @ '' '' @ show_nat (unat tokens) @ '', which no count holds: '' @ err) Some
            (to_u32 tokens))"

definition native_question :: "question \<Rightarrow> json" where
  "native_question q =
     json_obj ([(''type'', JStr (kind q)), (''instructions'', JStr (instructions q))] @
       (case q of
          Noul _ \<Rightarrow> []
        | Choice _ options \<Rightarrow>
            [(''criteria'', json_obj (map (\<lambda>(label, rubric). (label, case rubric of None \<Rightarrow> JNull | Some r \<Rightarrow> JStr r)) options))]
        | Score _ levels \<Rightarrow> [(''criteria'', JArr (map JStr levels))]))"

definition native_questions :: "decision_request \<Rightarrow> json" where
  "native_questions request = json_obj (map (\<lambda>(key, q). (key, native_question q)) (dr_questions request))"

text \<open>
  The call to a provider that speaks the decision wire, its latency included, is the argument \<open>N\<close>: the route, the
  payload, the vault item and the credential.
\<close>

type_synonym native_call = "string \<Rightarrow> json \<Rightarrow> string \<Rightarrow> string \<Rightarrow> world \<Rightarrow> ((refusal, json) result \<times> f64) \<times> world"

definition dispatch_direct_decision ::
  "'f crates \<Rightarrow> 'f api \<Rightarrow> 'f edge_env \<Rightarrow> native_call \<Rightarrow> string \<Rightarrow> json \<Rightarrow> world \<Rightarrow> ((refusal, json) result \<times> f64) \<times> world" where
  "dispatch_direct_decision K A E N route payload w =
     (case direct_credential K (ee_provider_credential E) (api_utf8 A) route of
        Inl refused \<Rightarrow> ((Inl refused, 0), w)
      | Inr (provider, credential) \<Rightarrow> N route payload (provider_resource provider) credential w)"

definition outcome_from_native ::
  "decision_crates \<Rightarrow> string \<Rightarrow> decision_request \<Rightarrow> (refusal, json) result \<Rightarrow> f64 \<Rightarrow> (decision_failure, decision_outcome) result" where
  "outcome_from_native X route request received latency =
     bind_result (map_sum Provider_refused id received) (\<lambda>body.
     let breach = (\<lambda>reason. Contract \<lparr>cb_answered_by = route, cb_reason = reason, cb_reply = show_json (dx_codec X) body\<rparr>)
     in bind_result (map_sum breach id (answers_from_native X request body)) (\<lambda>answers.
        bind_result (map_sum breach id (usage_field body ''input_tokens'')) (\<lambda>input.
        bind_result (map_sum breach id (usage_field body ''output_tokens'')) (\<lambda>out.
          Inr \<lparr>do_answers = answers, do_engine = ENGINE_NATIVE, do_route = route, do_input_tokens = input,
               do_output_tokens = out, do_latency_ms = latency\<rparr>))))"

definition decide_natively ::
  "decision_crates \<Rightarrow> 'f crates \<Rightarrow> 'f api \<Rightarrow> 'f edge_env \<Rightarrow> native_call \<Rightarrow> string \<Rightarrow> decision_request \<Rightarrow> world \<Rightarrow>
   (decision_failure, decision_outcome) result \<times> world" where
  "decide_natively X K A E N route request w =
     (case dispatch_direct_decision K A E N route
             (json_obj [(''state'', dr_state request), (''questions'', native_questions request)]) w of
        ((received, latency), w1) \<Rightarrow> (outcome_from_native X route request received latency, w1))"

definition outcome_from_chat ::
  "decision_crates \<Rightarrow> string \<Rightarrow> decision_request \<Rightarrow> model_response \<Rightarrow> (decision_failure, decision_outcome) result" where
  "outcome_from_chat X route request response =
     (case mr_refusal response of
        Some refused \<Rightarrow> Inl (Provider_refused refused)
      | None \<Rightarrow>
          (let answered_by = (if mr_model response = [] then route else mr_model response)
           in bind_result (map_sum (\<lambda>reason. Contract \<lparr>cb_answered_by = answered_by, cb_reason = reason,
                                                       cb_reply = mr_content response\<rparr>) id
                (answers_from_text X request (mr_content response))) (\<lambda>answers.
              Inr \<lparr>do_answers = answers, do_engine = ENGINE_CHAT, do_route = answered_by,
                   do_input_tokens = map_option tu_input_tokens (mr_usage response),
                   do_output_tokens = map_option tu_output_tokens (mr_usage response),
                   do_latency_ms = mr_latency_ms response\<rparr>)))"

definition decide_on_direct_route ::
  "decision_crates \<Rightarrow> 'f crates \<Rightarrow> 'f api \<Rightarrow> 'f edge_env \<Rightarrow> native_call \<Rightarrow> string \<Rightarrow> decision_request \<Rightarrow> world \<Rightarrow>
   (decision_failure, decision_outcome) result \<times> world" where
  "decide_on_direct_route X K A E N route request w =
     (if native_decision_route route then decide_natively X K A E N route request w
      else (case dispatch_direct K A E (decision_chat_request X request route) w of
              (response, w1) \<Rightarrow> (outcome_from_chat X route request response, w1)))"

definition decide_for_agent ::
  "decision_crates \<Rightarrow> 'f crates \<Rightarrow> 'f api \<Rightarrow> 'f edge_env \<Rightarrow> native_call \<Rightarrow> string \<Rightarrow> string \<Rightarrow> decision_request \<Rightarrow> world \<Rightarrow>
   ((decision_failure, decision_outcome) result \<times> world) option" where
  "decide_for_agent X K A E N route agent request w =
     (if route \<noteq> BEST_ALIAS then Some (decide_on_direct_route X K A E N route request w)
      else map_option (\<lambda>(response, w1). (outcome_from_chat X route request response, w1))
             (dispatch_best_subscription_for_agent K A agent (decision_chat_request X request route) None w))"

subsection \<open>The endpoint\<close>

definition delegated ::
  "decision_crates \<Rightarrow> 'f crates \<Rightarrow> 'f api \<Rightarrow> auth_env \<Rightarrow> 'f edge_env \<Rightarrow> native_call \<Rightarrow> client_identity \<Rightarrow> (string \<times> string) list \<Rightarrow> string \<Rightarrow>
   decision_request \<Rightarrow> world \<Rightarrow> ((decision_failure, decision_outcome) result \<times> world) option" where
  "delegated X K A U E N i headers body request w =
     (case identity_agent i of
        Some agent \<Rightarrow> decide_for_agent X K A E N BEST_ALIAS agent request w
      | None \<Rightarrow>
          map_option (\<lambda>(response, w1). (outcome_from_chat X BEST_ALIAS request response, w1))
            (dispatch_best_subscription K A U headers (decision_chat_request X request BEST_ALIAS) body None w))"

definition json_option :: "('a \<Rightarrow> json) \<Rightarrow> 'a option \<Rightarrow> json" where
  "json_option f v = (case v of None \<Rightarrow> JNull | Some x \<Rightarrow> f x)"

definition answered_document :: "string \<Rightarrow> decision_outcome \<Rightarrow> json" where
  "answered_document name outcome =
     json_obj [(''model'', JStr name), (''route'', JStr (do_route outcome)), (''engine'', JStr (do_engine outcome)),
       (''answers'', JObj (do_answers outcome)),
       (''usage'', json_obj [(''input_tokens'', json_option (\<lambda>n. JInt (uint n)) (do_input_tokens outcome)),
          (''output_tokens'', json_option (\<lambda>n. JInt (uint n)) (do_output_tokens outcome)),
          (''latency_ms'', json_f64 (do_latency_ms outcome))])]"

definition typed_dispatch_error :: "refusal \<Rightarrow> api_error" where
  "typed_dispatch_error refused =
     (let contract = provider_refusal_contract (rf_class refused)
      in error_response (ec_status contract) (ec_error_type contract) (ec_code contract) (rf_message refused)
           (ec_retryable contract) (if asked_provider (rf_class refused) then Some 1 else None))"

definition CONTRACT_VIOLATED :: string where "CONTRACT_VIOLATED = ''decision_contract_violated''"

definition refused_decision :: "string \<Rightarrow> string \<Rightarrow> decision_failure \<Rightarrow> api_error" where
  "refused_decision name route failure = (case failure of
       Provider_refused refused \<Rightarrow> typed_dispatch_error refused
     | Contract b \<Rightarrow>
         api_error_with_details 502 CONTRACT_VIOLATED (breach_sentence b)
           (json_obj [(''alias'', JStr name), (''route'', JStr route), (''answered_by'', JStr (cb_answered_by b)),
              (''reason'', JStr (cb_reason b)), (''reply'', JStr (cb_reply b)),
              (''engine_hint'', JStr (if name = DECISION_ALIAS then ''point this alias at a stronger decision route''
                 else ''the subscription model behind `best` answered outside the declared schema''))]))"

definition unserviceable_decision :: "string \<Rightarrow> alias_diagnosis \<Rightarrow> api_error" where
  "unserviceable_decision name d =
     api_error_with_details 503 ''alias_unserviceable''
       (case ad_reason d of
          Some reason \<Rightarrow> reason
        | None \<Rightarrow> ''alias '' @ ticked name @ '' has no serviceable route: it is '' @ state_text (ad_state d))
       (json_obj [(''alias'', JStr (ad_name d)), (''state'', JStr (state_text (ad_state d))),
                  (''route'', json_option JStr (ad_route d))])"

definition admitted_decision ::
  "decision_crates \<Rightarrow> 'f edge_env \<Rightarrow> client_identity \<Rightarrow> string \<Rightarrow> (api_error, decision_request \<times> string) result" where
  "admitted_decision X E i body =
     bind_result (map_sum (\<lambda>err. api_error 400 (''invalid JSON: '' @ err)) id (parse_json (dx_codec X) body)) (\<lambda>parsed.
     bind_result (map_sum (api_error 400) id (parse_decision X parsed)) (\<lambda>request.
     if dr_model request \<notin> set DECISION_ALIASES then
       Inl (api_error 400 ''model must be `decision-model` or `best-decision-model`'')
     else if \<not> authorizes_model i (dr_model request) then Inl (api_error 403 (model_refusal i (dr_model request)))
     else (case decision_route (ee_routes E) (ee_capability E) (ee_aliases E) (dr_model request) of
             None \<Rightarrow> Inl (unserviceable_decision (dr_model request)
                       (diagnose (ee_routes E) (ee_capability E) (ee_aliases E) (dr_model request)))
           | Some route \<Rightarrow> Inr (request, route))))"

definition decisions ::
  "decision_crates \<Rightarrow> 'f crates \<Rightarrow> 'f api \<Rightarrow> auth_env \<Rightarrow> 'f edge_env \<Rightarrow> native_call \<Rightarrow> client_identity \<Rightarrow> (string \<times> string) list \<Rightarrow> string \<Rightarrow>
   world \<Rightarrow> ((api_error, json) result \<times> world) option" where
  "decisions X K A U E N i headers body w =
     (case admitted_decision X E i body of
        Inl err \<Rightarrow> Some (Inl err, w)
      | Inr (request, route) \<Rightarrow>
          map_option (\<lambda>(outcome, w1).
              (map_sum (refused_decision (dr_model request) route) (answered_document (dr_model request)) outcome, w1))
            (if route = BEST_ALIAS then delegated X K A U E N i headers body request w
             else Some (decide_on_direct_route X K A E N route request w)))"

end
