(* ===== verification/Decision_Promises.thy ===== *)
theory Decision_Promises
  imports Decisions Wire_Requests
begin

section \<open>What a decision promises\<close>

text \<open>
  Whatever a model answered, a caller is handed one answer per question it asked, inside what the question declared: the
  probabilities lie between 0 and 1 and carry exactly the declared labels, a choice is one of the options. Which replies are
  accepted is characterized exactly, and the questions survive the trip through the native wire.
\<close>

subsection \<open>Sums of masses\<close>

definition f64_sane :: "f64 \<Rightarrow> bool" where
  "f64_sane x = (\<not> f64_negative x \<and> f64_mag x \<le> int INFINITY_BITS)"

lemma f64_sane_INFINITY: "f64_sane (of_nat INFINITY_BITS)" "f64_mag (of_nat INFINITY_BITS) = int INFINITY_BITS"
  using f64_mag_of_nat [of INFINITY_BITS] by (simp_all add: f64_sane_def)

lemma f64_sane_nearest [simp]: "f64_sane (f64_nearest n d)"
  by (simp add: f64_sane_def)

lemma f64_sane_zero: "f64_sane 0"
  by (simp add: f64_sane_def f64_negative_def f64_mag_def)

lemma f64_add_sane:
  assumes "f64_sane x" "f64_sane y"
  shows "f64_sane (f64_add x y) \<and> f64_mag x \<le> f64_mag (f64_add x y) \<and> f64_mag y \<le> f64_mag (f64_add x y)"
proof (cases "f64_finite x \<and> f64_finite y")
  case True
  with f64_add_ge [of x y] assms show ?thesis by (simp add: f64_sane_def f64_add_def)
next
  case False
  then have "f64_add x y = of_nat INFINITY_BITS" by (auto simp: f64_add_def)
  with f64_sane_INFINITY assms show ?thesis by (simp add: f64_sane_def)
qed

lemma f64_sum_bounds:
  assumes "f64_sane a" "\<forall>x \<in> set xs. f64_sane x"
  shows "f64_sane (foldl f64_add a xs) \<and> f64_mag a \<le> f64_mag (foldl f64_add a xs)
       \<and> (\<forall>x \<in> set xs. f64_mag x \<le> f64_mag (foldl f64_add a xs))"
  using assms
proof (induction xs arbitrary: a)
  case (Cons x xs)
  then have sum: "f64_sane (f64_add a x)" "f64_mag a \<le> f64_mag (f64_add a x)" "f64_mag x \<le> f64_mag (f64_add a x)"
    using f64_add_sane by auto
  from Cons.IH [OF this(1)] Cons.prems(2) sum(2,3) show ?case by fastforce
qed simp

subsection \<open>Distributions\<close>

text \<open>What a mass is: the number stated for a label, or none.\<close>

definition a_mass :: "f64 option \<Rightarrow> bool" where
  "a_mass v = (case v of None \<Rightarrow> True | Some x \<Rightarrow> f64_finite x \<and> \<not> f64_negative x)"

lemma label_mass_Inr: "label_mass J key by_label label = Inr (l, v) \<Longrightarrow> l = label \<and> a_mass v"
  by (auto simp: label_mass_def a_mass_def split: option.splits if_splits)

lemma masses_read:
  assumes "collect_results (map (label_mass J key by_label) ls) = Inr mass"
  shows "map fst mass = ls \<and> (\<forall>(l, v) \<in> set mass. a_mass v)"
proof -
  have "list_all2 (\<lambda>label m. label_mass J key by_label label = Inr m) ls mass"
    using assms by (simp add: collect_results_Inr list.rel_map)
  then show ?thesis
    by (induction rule: list_all2_induct) (auto dest!: label_mass_Inr)
qed

lemma share_in_unit:
  assumes mass: "\<forall>(l, v) \<in> set mass. a_mass v" and normal: "f64_is_normal (total_mass mass)" and "(l, v) \<in> set mass"
  shows "f64_in_unit (share (total_mass mass) v)"
proof (cases v)
  case None
  then show ?thesis by (simp add: share_def f64_in_unit_def f64_negative_def f64_mag_def)
next
  case (Some x)
  let ?xs = "List.map_filter snd mass"
  have "\<forall>y \<in> set ?xs. f64_sane y"
    using mass by (auto simp: map_filter_def a_mass_def f64_sane_def f64_finite_def INFINITY_BITS_def split: option.splits)
  moreover have "x \<in> set ?xs" using assms(3) Some by (force simp: map_filter_def)
  ultimately have "f64_mag x \<le> f64_mag (total_mass mass)" "\<not> f64_negative (total_mass mass)"
    using f64_sum_bounds [OF f64_sane_zero, of ?xs] by (auto simp: total_mass_def f64_sane_def)
  moreover have "\<not> f64_negative x" using mass assms(3) Some by (auto simp: a_mass_def)
  ultimately show ?thesis using Some normal by (simp add: share_def f64_div_in_unit)
qed

lemma distribution_bounds:
  assumes "distribution J key q reply = Inr d"
  shows "map fst d = labels q \<and> (\<forall>(l, p) \<in> set d. f64_in_unit p)"
proof -
  from assms obtain by_label mass where
    mass: "collect_results (map (label_mass J key by_label) (labels q)) = Inr mass"
    and normal: "f64_is_normal (total_mass mass)"
    and d: "d = map (\<lambda>(label, v). (label, share (total_mass mass) v)) mass"
    unfolding distribution_def by (auto simp: bind_result_Inr split: if_splits)
  from masses_read [OF mass] have "map fst mass = labels q" and masses: "\<forall>(l, v) \<in> set mass. a_mass v" by auto
  then show ?thesis
    using share_in_unit [OF masses normal] by (auto simp: d o_def case_prod_beta)
qed

subsection \<open>Answers inside the schema\<close>

lemma bt_insert_subset: "set (bt_insert k v m) \<subseteq> insert (k, v) (set m)"
  by (induction m) (auto split: if_splits)

lemma entries_of_subset: "set (entries_of xs) \<subseteq> set xs \<and> bt_keys (entries_of xs) = fst ` set xs"
proof (induction xs rule: rev_induct)
  case (snoc x xs)
  obtain k v where x: "x = (k, v)" by (cases x)
  show ?case
    using snoc bt_insert_subset [of k v "entries_of xs"] by (auto simp: x entries_of_snoc bt_keys_insert)
qed (simp add: entries_of_def)

lemma json_obj_entries: "json_obj kvs = JObj (entries_of kvs)"
  by (simp add: json_obj_def entries_of_def)

lemma json_f64_in_unit: "f64_in_unit p \<Longrightarrow> json_f64 p = JFloat p"
  by (simp add: json_f64_def f64_in_unit_def)

definition unit_number :: "json \<Rightarrow> bool" where
  "unit_number v = (\<exists>p. v = JFloat p \<and> f64_in_unit p)"

definition declared_masses :: "question \<Rightarrow> json \<Rightarrow> bool" where
  "declared_masses q m = (\<exists>kvs. m = JObj kvs \<and> bt_wf kvs \<and> bt_keys kvs = set (labels q) \<and> (\<forall>(l, p) \<in> set kvs. unit_number p))"

definition all_fields :: "(json \<Rightarrow> bool) \<Rightarrow> json \<Rightarrow> string \<Rightarrow> bool" where
  "all_fields P a name = (case json_get a name of None \<Rightarrow> True | Some v \<Rightarrow> P v)"

text \<open>An answer inside what its question declares.\<close>

fun declared_answer :: "question \<Rightarrow> json \<Rightarrow> bool" where
  "declared_answer (Noul i) a =
     ((\<exists>v. json_get a ''noul'' = Some v \<and> unit_number v) \<and> (\<exists>v. json_get a ''confidence'' = Some v \<and> unit_number v))"
| "declared_answer (Choice i options) a =
     ((\<exists>label \<in> set (map fst options). json_get a ''choice'' = Some (JStr label))
      \<and> all_fields (declared_masses (Choice i options)) a ''probabilities'' \<and> all_fields unit_number a ''confidence'')"
| "declared_answer (Score i levels) a =
     ((\<exists>x. json_get a ''score'' = Some (json_f64 x) \<and> \<not> f64_negative x) \<and> json_get a ''legend'' = Some (JArr (map JStr levels))
      \<and> all_fields (declared_masses (Score i levels)) a ''probabilities'' \<and> all_fields unit_number a ''confidence'')"

lemma probability_map_declared:
  assumes "map fst d = labels q" "\<forall>(l, p) \<in> set d. f64_in_unit p"
  shows "declared_masses q (probability_map d)"
proof -
  let ?kvs = "map (\<lambda>(label, p). (label, json_f64 p)) d"
  have "fst ` set ?kvs = set (map fst d)" by force
  then have keys: "bt_keys (entries_of ?kvs) = set (labels q)"
    using entries_of_subset [of ?kvs] assms(1) by simp
  have "unit_number v" if "(l, v) \<in> set (entries_of ?kvs)" for l v
  proof -
    from that entries_of_subset [of ?kvs] obtain p where "(l, p) \<in> set d" "v = json_f64 p" by auto
    with assms(2) show ?thesis by (auto simp: unit_number_def json_f64_in_unit)
  qed
  with keys show ?thesis by (auto simp: declared_masses_def probability_map_def json_obj_entries)
qed

lemma f64_max_in_unit: "f64_in_unit x \<Longrightarrow> f64_in_unit y \<Longrightarrow> f64_in_unit (f64_max x y)"
  by (simp add: f64_max_def)

lemma heaviest_max:
  assumes "heaviest d = Some x"
  shows "x \<in> set d \<and> (\<forall>y \<in> set d. f64_total (snd y) \<le> f64_total (snd x))"
proof -
  let ?pick = "\<lambda>best y :: string \<times> f64. if f64_total (snd best) \<le> f64_total (snd y) then y else best"
  have fold: "foldl ?pick b zs \<in> insert b (set zs)
      \<and> (\<forall>y \<in> insert b (set zs). f64_total (snd y) \<le> f64_total (snd (foldl ?pick b zs)))" for b zs
  proof (induction zs arbitrary: b)
    case (Cons z zs)
    show ?case
    proof (cases "f64_total (snd b) \<le> f64_total (snd z)")
      case True
      with Cons.IH [of z] show ?thesis by (auto simp del: foldl_Nil intro: order_trans)
    next
      case False
      with Cons.IH [of b] show ?thesis by (auto simp del: foldl_Nil)
    qed
  qed simp
  show ?thesis
  proof (cases d)
    case (Cons y ys)
    then have "x = foldl ?pick y ys" using assms by (simp only: heaviest.simps option.inject)
    with fold [of y ys] show ?thesis unfolding Cons list.set by blast
  qed (use assms in simp)
qed

lemma chat_answer_declared:
  assumes "chat_answer J key q reply = Inr a"
  shows "declared_answer q a"
proof -
  from assms obtain d where d: "distribution J key q reply = Inr d" and a: "typed_answer key q d = Inr a"
    by (auto simp: chat_answer_def bind_result_Inr)
  from distribution_bounds [OF d] have fst: "map fst d = labels q" and unit: "\<forall>(l, p) \<in> set d. f64_in_unit p" by auto
  from a obtain top mass where top: "heaviest d = Some (top, mass)"
    by (auto simp: typed_answer_def bind_result_Inr ok_or_Inr)
  then have "(top, mass) \<in> set d" using heaviest_max by blast
  then have top_unit: "f64_in_unit mass" "top \<in> set (labels q)" using unit fst by (auto simp flip: fst intro: rev_image_eqI)
  have masses: "declared_masses q (probability_map d)" by (rule probability_map_declared [OF fst unit])
  show ?thesis
  proof (cases q)
    case (Noul i)
    with a top obtain t where t: "map_of d ''true'' = Some t"
      and a': "a = json_obj [(''noul'', json_f64 t), (''confidence'', json_f64 (f64_max t (complement t)))]"
      by (auto simp: typed_answer_def bind_result_Inr ok_or_Inr)
    have "f64_in_unit t" using t unit by (auto dest: map_of_SomeD)
    then have "unit_number (json_f64 t)" "unit_number (json_f64 (f64_max t (complement t)))"
      by (simp_all add: unit_number_def json_f64_in_unit f64_max_in_unit f64_sub_in_unit complement_def)
    then show ?thesis using Noul a' by simp
  next
    case (Choice i options)
    then have "a = json_obj [(''choice'', JStr top), (''probabilities'', probability_map d), (''confidence'', json_f64 mass)]"
      using a top by (simp add: typed_answer_def bind_result_def ok_or_def)
    then show ?thesis using Choice top_unit masses
      by (simp add: all_fields_def unit_number_def json_f64_in_unit)
  next
    case (Score i levels)
    then have "a = json_obj [(''score'', json_f64 (expected_level d)), (''probabilities'', probability_map d),
        (''confidence'', json_f64 mass), (''legend'', JArr (map JStr levels))]"
      using a top by (simp add: typed_answer_def bind_result_def ok_or_def)
    moreover have "f64_sane (expected_level d)"
      unfolding expected_level_def
      by (intro f64_sum_bounds [THEN conjunct1] f64_sane_zero) (auto simp: f64_mul_def)
    ultimately show ?thesis using Score top_unit masses
      by (auto simp: all_fields_def unit_number_def json_f64_in_unit f64_sane_def)
  qed
qed

lemma probability_unit: "probability v = Some p \<Longrightarrow> f64_in_unit p"
  by (auto simp: probability_def f64_in_unit_def f64_value_def split: option.splits if_splits)

lemma stated_confidence_unit: "stated_confidence key answer = Inr (Some c) \<Longrightarrow> f64_in_unit c"
  by (cases "map_of answer ''confidence''")
    (auto simp: stated_confidence_def ok_or_def split: option.splits intro: probability_unit)

text \<open>What a native provider's optional members add.\<close>

lemma carry_over_declared:
  assumes "carry_over J key q answer = Inr extra"
  shows "\<exists>masses c. extra = masses @ c \<and> (masses = [] \<or> (\<exists>m. masses = [(''probabilities'', m)] \<and> declared_masses q m))
       \<and> (c = [] \<or> (\<exists>v. c = [(''confidence'', v)] \<and> unit_number v))"
proof -
  from assms obtain masses stated where
    masses: "(case map_of answer ''probabilities'' of
         None \<Rightarrow> Inr []
       | Some raw \<Rightarrow>
           bind_result (ok_or (about_answer key '' carries non-object `probabilities`'') (object_of raw)) (\<lambda>probabilities.
           bind_result (distribution J key q probabilities) (\<lambda>d. Inr [(''probabilities'', probability_map d)]))) = Inr masses"
    and stated: "stated_confidence key answer = Inr stated"
    and extra: "extra = masses @ (case stated of None \<Rightarrow> [] | Some x \<Rightarrow> [(''confidence'', json_f64 x)])"
    by (auto simp: carry_over_def bind_result_Inr)
  have "masses = [] \<or> (\<exists>m. masses = [(''probabilities'', m)] \<and> declared_masses q m)"
    using masses by (auto simp: bind_result_Inr split: option.splits dest!: distribution_bounds intro: probability_map_declared)
  moreover have "(case stated of None \<Rightarrow> [] | Some x \<Rightarrow> [(''confidence'', json_f64 x)]) = [] \<or>
      (\<exists>v. (case stated of None \<Rightarrow> [] | Some x \<Rightarrow> [(''confidence'', json_f64 x)]) = [(''confidence'', v)] \<and> unit_number v)"
    using stated stated_confidence_unit by (auto simp: unit_number_def json_f64_in_unit split: option.splits)
  ultimately show ?thesis using extra by blast
qed

lemma native_answer_declared:
  assumes "native_answer J key q answer = Inr a"
  shows "declared_answer q a"
proof (cases q)
  case (Noul i)
  with assms obtain raw p stated where v: "probability raw = Some p" "stated_confidence key answer = Inr stated"
    and a: "a = json_obj [(''noul'', json_f64 p),
      (''confidence'', json_f64 (case stated of Some c \<Rightarrow> c | None \<Rightarrow> f64_max p (complement p)))]"
    by (auto simp: native_answer_def bind_result_Inr ok_or_Inr)
  have "f64_in_unit p" by (rule probability_unit [OF v(1)])
  moreover from this have "f64_in_unit (case stated of Some c \<Rightarrow> c | None \<Rightarrow> f64_max p (complement p))"
    using stated_confidence_unit [of key answer] v(2)
    by (auto simp: complement_def f64_max_in_unit f64_sub_in_unit split: option.splits)
  ultimately show ?thesis using Noul a by (simp add: unit_number_def json_f64_in_unit)
next
  case (Choice i options)
  with assms obtain choice extra where "choice \<in> set (map fst options)" "carry_over J key q answer = Inr extra"
    and "a = json_obj ((''choice'', JStr choice) # extra)"
    by (auto simp: native_answer_def bind_result_Inr ok_or_Inr split: if_splits)
  then show ?thesis using carry_over_declared [of J key q answer extra] Choice
    by (auto simp: all_fields_def) force+
next
  case (Score i levels)
  with assms obtain score extra where "\<not> f64_negative score" "carry_over J key q answer = Inr extra"
    and "a = json_obj ((''score'', json_f64 score) # extra @ [(''legend'', JArr (map JStr levels))])"
    by (auto simp: native_answer_def bind_result_Inr ok_or_Inr split: if_splits)
  then show ?thesis using carry_over_declared [of J key q answer extra] Score
    by (auto simp: all_fields_def)
qed

subsection \<open>Every question, once\<close>

lemma bt_wf_keys: "bt_wf m \<Longrightarrow> map fst m' = map fst m \<Longrightarrow> bt_wf m'"
  by (simp add: bt_wf_def)

lemma map_of_list_all2:
  assumes "list_all2 (\<lambda>(k, x) (k', y). k' = k \<and> P k x y) xs ys" "distinct (map fst xs)" "(k, x) \<in> set xs"
  shows "\<exists>y. map_of ys k = Some y \<and> P k x y"
  using assms
proof (induction xs ys rule: list_all2_induct)
  case (Cons e xs f ys)
  then show ?case by (cases e; cases f; cases "fst e = k") (auto dest: map_of_SomeD intro: rev_image_eqI)
qed simp

lemma answer_each_answers:
  assumes "answer_each f request reply = Inr answers" and sorted: "bt_wf (dr_questions request)"
  shows "map fst answers = map fst (dr_questions request)
       \<and> (\<forall>(key, q) \<in> set (dr_questions request). \<exists>a given. map_of answers key = Some a \<and> f key q given = Inr a)"
proof -
  let ?one = "\<lambda>(key, q). bind_result (the_answer key reply) (\<lambda>a. bind_result (f key q a) (\<lambda>v. Inr (key, v)))"
  from assms(1) obtain pairs where pairs: "collect_results (map ?one (dr_questions request)) = Inr pairs"
    and answers: "answers = entries_of pairs"
    by (auto simp: answer_each_def bind_result_Inr)
  have each: "list_all2 (\<lambda>(key, q) (key', a). key' = key \<and> (\<exists>given. f key q given = Inr a)) (dr_questions request) pairs"
    using pairs unfolding collect_results_Inr by (rule list_all2_mono) (auto simp: bind_result_Inr)
  then have keys: "map fst pairs = map fst (dr_questions request)"
    by (induction rule: list_all2_induct) auto
  then have "answers = pairs" using bt_wf_keys [OF sorted keys] answers by (simp add: entries_of_sorted)
  moreover have "\<exists>a. map_of pairs key = Some a \<and> (\<exists>given. f key q given = Inr a)" if "(key, q) \<in> set (dr_questions request)" for key q
    using map_of_list_all2 [OF each bt_wf_distinct [OF sorted] that] .
  ultimately show ?thesis using keys by blast
qed

lemma sorted_json_member: "sorted_value v \<Longrightarrow> json_get v k = Some x \<Longrightarrow> sorted_value x"
  by (cases v) (auto simp: list.pred_set dest!: map_of_SomeD)

lemma parse_decision_sorted:
  assumes "parse_decision X body = Inr request" "sorted_value body"
  shows "bt_wf (dr_questions request)"
proof -
  from assms(1) obtain declared questions where
    declared: "Option.bind (json_get body ''questions'') object_of = Some declared"
    and read: "collect_results (map (read_question X) declared) = Inr questions"
    and request: "dr_questions request = questions"
    by (auto simp: parse_decision_def bind_result_Inr ok_or_Inr split: if_splits)
  from declared obtain v where "json_get body ''questions'' = Some v" "v = JObj declared"
    by (cases "json_get body ''questions''") (auto elim: object_of.elims)
  then have "bt_wf declared" using sorted_json_member [OF assms(2)] by fastforce
  moreover have "list_all2 (\<lambda>d q. read_question X d = Inr q) declared questions"
    using read by (simp add: collect_results_Inr)
  then have "map fst questions = map fst declared"
    by (induction rule: list_all2_induct) (auto simp: read_question_def bind_result_Inr)
  ultimately show ?thesis unfolding request by (rule bt_wf_keys)
qed

lemma map_sum_Inr: "map_sum f g r = Inr y \<longleftrightarrow> (\<exists>x. r = Inr x \<and> y = g x)"
  by (cases r) auto

lemma outcome_declared:
  assumes "bt_wf (dr_questions request)"
    and "outcome_from_chat X route request response = Inr outcome \<or> outcome_from_native X route request received latency = Inr outcome"
  shows "map fst (do_answers outcome) = map fst (dr_questions request)
       \<and> (\<forall>(key, q) \<in> set (dr_questions request). \<exists>a. map_of (do_answers outcome) key = Some a \<and> declared_answer q a)"
proof -
  from assms(2) have "(\<exists>reply. answer_each (chat_answer (dx_codec X)) request reply = Inr (do_answers outcome))
      \<or> (\<exists>reply. answer_each (native_answer (dx_codec X)) request reply = Inr (do_answers outcome))"
    by (auto simp: outcome_from_chat_def outcome_from_native_def answers_from_text_def answers_from_native_def Let_def
        bind_result_Inr map_sum_Inr split: option.splits)
  then obtain f reply where f: "answer_each f request reply = Inr (do_answers outcome)"
    and declared: "\<And>key q given a. f key q given = Inr a \<Longrightarrow> declared_answer q a"
    using chat_answer_declared native_answer_declared by metis
  from answer_each_answers [OF f assms(1)] declared show ?thesis by blast
qed

text \<open>
  C8. A decision that is answered is answered inside the schema its caller declared, whichever engine answered and whatever
  the model wrote. The caller may use the decision alias it named, the document carries exactly one answer per question
  asked and no other, a yes-or-no answer and every confidence is a number between 0 and 1, a choice is one of the declared
  options, probabilities carry exactly the declared labels, each between 0 and 1, and a score is not negative and comes with its
  rubric. The hypothesis is that \<open>serde_json\<close> keeps a map in the order of its keys.
\<close>

theorem decisions_answer_inside_the_schema:
  assumes "decisions X K A U E N i headers body w = Some (Inr doc, w')"
    and "\<forall>text v. parse_json (dx_codec X) text = Inr v \<longrightarrow> sorted_value v"
  shows "\<exists>request route answers. admitted_decision X E i body = Inr (request, route)
     \<and> dr_model request \<in> set DECISION_ALIASES \<and> authorizes_model i (dr_model request)
     \<and> json_get doc ''answers'' = Some (JObj answers)
     \<and> map fst answers = map fst (dr_questions request)
     \<and> (\<forall>(key, q) \<in> set (dr_questions request). \<exists>a. map_of answers key = Some a \<and> declared_answer q a)"
proof -
  from assms(1) obtain request route outcome where
    admitted: "admitted_decision X E i body = Inr (request, route)"
    and doc: "doc = answered_document (dr_model request) outcome"
    and out: "(\<exists>way response. outcome_from_chat X way request response = Inr outcome)
        \<or> (\<exists>way received latency. outcome_from_native X way request received latency = Inr outcome)"
    unfolding decisions_def delegated_def decide_for_agent_def decide_on_direct_route_def decide_natively_def
    by (fastforce simp: map_sum_Inr split: sum.splits prod.splits if_splits option.splits)
  from admitted obtain parsed where parsed: "parse_json (dx_codec X) body = Inr parsed" "parse_decision X parsed = Inr request"
    and allowed: "dr_model request \<in> set DECISION_ALIASES" "authorizes_model i (dr_model request)"
    by (auto simp: admitted_decision_def bind_result_Inr map_sum_Inr split: if_splits option.splits)
  have "bt_wf (dr_questions request)"
    using parse_decision_sorted [OF parsed(2)] assms(2) parsed(1) by blast
  from outcome_declared [OF this] out have
    "map fst (do_answers outcome) = map fst (dr_questions request)
     \<and> (\<forall>(key, q) \<in> set (dr_questions request). \<exists>a. map_of (do_answers outcome) key = Some a \<and> declared_answer q a)"
    by blast
  moreover have "json_get doc ''answers'' = Some (JObj (do_answers outcome))"
    by (simp add: doc answered_document_def)
  ultimately show ?thesis using admitted allowed by blast
qed

lemma f64_add_zero:
  assumes "f64_finite x" "\<not> f64_negative x"
  shows "f64_add 0 x = x"
proof -
  have zero: "f64_finite 0" "f64_units 0 = 0" by (simp_all add: f64_finite_def f64_mag_def f64_units_def f64_negative_def)
  have bits: "f64_bits (nat (f64_units x)) (Suc 0) = nat (f64_mag x)"
    using f64_bits_exact [OF assms(2)] by (simp add: nat_units_def)
  have mag: "f64_mag x = uint x" using uint_f64_split [of x] assms(2) by simp
  have "nat (uint x) \<le> nat 0x7FF0000000000000"
    using assms(1) unfolding f64_finite_def mag by (intro nat_mono) simp
  then have "min (nat (uint x)) INFINITY_BITS = nat (uint x)" by (simp add: INFINITY_BITS_def min_def)
  then show ?thesis
    using zero assms(1) bits mag by (simp add: f64_add_def f64_nearest_def word_of_nat_eq_iff of_nat_nat)
qed

definition asked_body :: json where
  "asked_body =
     JObj [(''model'', JStr ''decision-model''),
           (''questions'', JObj [(''q'', JObj [(''instructions'', JStr ''Is it?''), (''type'', JStr ''noul'')])]),
           (''state'', JStr ''s'')]"

definition replied_body :: json where
  "replied_body = JObj [(''q'', JObj [(''true'', JFloat 0x3FF0000000000000)])]"

definition asked_crates :: decision_crates where
  "asked_crates =
     \<lparr>dx_codec = \<lparr>show_json = (\<lambda>_. []), parse_json = (\<lambda>t. Inr (if t = ''hello'' then replied_body else asked_body)), show_duration = (\<lambda>_. [])\<rparr>,
      dx_unknown = (\<lambda>_ _. []), dx_kind_error = (\<lambda>_. []), dx_not_map = (\<lambda>_. []), dx_pretty = (\<lambda>_. [])\<rparr>"

definition deciding_edge :: "string edge_env" where
  "deciding_edge = plain_edge\<lparr>ee_aliases := \<lparr>ma_routes = [(''decision-model'', ''openai/m'')], ma_registry = None\<rparr>\<rparr>"

definition deciding_client :: client_identity where
  "deciding_client = plain_client\<lparr>ci_every_model := True\<rparr>"

definition asked_request :: decision_request where
  "asked_request = \<lparr>dr_model = ''decision-model'', dr_state = JStr ''s'', dr_questions = [(''q'', Noul ''Is it?'')]\<rparr>"

lemma asked_admitted: "admitted_decision asked_crates deciding_edge deciding_client ''b'' = Inr (asked_request, ''openai/m'')"
  by code_simp

lemma asked_reply:
  "\<exists>a. chat_answer (dx_codec asked_crates) ''q'' (Noul ''Is it?'') [(''true'', JFloat 0x3FF0000000000000)] = Inr a"
proof -
  have "f64_add 0 0x3FF0000000000000 = 0x3FF0000000000000"
    by (rule f64_add_zero) (simp_all add: f64_finite_def f64_mag_def f64_negative_def)
  then have "total_mass [(''true'', Some 0x3FF0000000000000), (''false'', None)] = 0x3FF0000000000000"
    by (simp add: total_mass_def map_filter_def)
  moreover have "trim ''true'' = ''true''" by code_simp
  ultimately show ?thesis
    by (simp add: chat_answer_def distribution_def label_mass_def f64_finite_def f64_mag_def f64_negative_def
        f64_is_normal_def typed_answer_def bind_result_def ok_or_def)
qed

lemma asked_answered:
  "\<exists>doc. decisions asked_crates plain_crates plain_api plain_auth deciding_edge (\<lambda>_ _ _ _ w. ((Inr JNull, 0), w)) deciding_client []
     ''b'' plain_world = Some (Inr doc, plain_world)"
proof -
  obtain a where a: "chat_answer (dx_codec asked_crates) ''q'' (Noul ''Is it?'') [(''true'', JFloat 0x3FF0000000000000)] = Inr a"
    using asked_reply by blast
  have "json_object asked_crates (mr_content plain_answer) = Inr [(''q'', JObj [(''true'', JFloat 0x3FF0000000000000)])]"
    by (simp add: json_object_def asked_crates_def plain_answer_def answered_def replied_body_def bind_result_def ok_or_def)
  then have "answers_from_text asked_crates asked_request (mr_content plain_answer) = Inr [(''q'', a)]"
    using a by (simp add: answers_from_text_def answer_each_def check_question_keys_def question_of_def asked_request_def
        the_answer_def bind_result_def ok_or_def entries_of_def)
  moreover have "mr_refusal plain_answer = None" by (simp add: plain_answer_def answered_def)
  ultimately have chat: "\<exists>outcome. outcome_from_chat asked_crates ''openai/m'' asked_request plain_answer = Inr outcome"
    by (simp add: outcome_from_chat_def Let_def bind_result_def)
  have "direct_credential plain_crates (ee_provider_credential deciding_edge) (api_utf8 plain_api) ''openai/m'' = Inr (''openai'', ''key'')"
    by code_simp
  then have "dispatch_direct plain_crates plain_api deciding_edge (decision_chat_request asked_crates asked_request ''openai/m'') plain_world
      = (plain_answer, plain_world)"
    by (simp add: dispatch_direct_def decision_chat_request_def plain_api_def)
  moreover have "\<not> native_decision_route ''openai/m''" "''openai/m'' \<noteq> BEST_ALIAS" by code_simp+
  ultimately show ?thesis
    using chat by (auto simp: decisions_def asked_admitted decide_on_direct_route_def)
qed

theorem decisions_answer_inside_the_schema_witness:
  "\<exists>doc request route answers a.
     decisions asked_crates plain_crates plain_api plain_auth deciding_edge (\<lambda>_ _ _ _ w. ((Inr JNull, 0), w)) deciding_client []
       ''b'' plain_world = Some (Inr doc, plain_world)
     \<and> admitted_decision asked_crates deciding_edge deciding_client ''b'' = Inr (request, route)
     \<and> json_get doc ''answers'' = Some (JObj answers) \<and> map_of answers ''q'' = Some a \<and> declared_answer (Noul ''Is it?'') a"
proof -
  obtain doc where run: "decisions asked_crates plain_crates plain_api plain_auth deciding_edge (\<lambda>_ _ _ _ w. ((Inr JNull, 0), w))
      deciding_client [] ''b'' plain_world = Some (Inr doc, plain_world)"
    using asked_answered by blast
  have "sorted_value replied_body" "sorted_value asked_body" by code_simp+
  then have sorted: "\<forall>text v. parse_json (dx_codec asked_crates) text = Inr v \<longrightarrow> sorted_value v"
    by (simp add: asked_crates_def)
  from decisions_answer_inside_the_schema [OF run sorted] run show ?thesis
    by (auto simp: asked_admitted asked_request_def)
qed

subsection \<open>Which replies are accepted\<close>

lemma read_labels_Inr:
  "read_labels key declared reply by_label = Inr found \<longleftrightarrow>
     list_all (\<lambda>(k, v). trim k \<in> set declared) reply \<and> distinct (map (trim \<circ> fst) reply)
     \<and> set (map (trim \<circ> fst) reply) \<inter> fst ` set by_label = {}
     \<and> found = rev (map (\<lambda>(k, v). (trim k, v)) reply) @ by_label"
proof (induction reply arbitrary: by_label)
  case (Cons e reply)
  then show ?case by (cases e) (auto simp: Let_def)
qed auto

definition a_number :: "json \<Rightarrow> bool" where
  "a_number v = (case as_f64 v of None \<Rightarrow> False | Some x \<Rightarrow> f64_finite x \<and> \<not> f64_negative x)"

lemma label_mass_iff:
  "label_mass J key by_label label = Inr m \<longleftrightarrow>
     m = (label, Option.bind (map_of by_label label) as_f64)
     \<and> (case map_of by_label label of None \<Rightarrow> True | Some v \<Rightarrow> a_number v)"
  by (auto simp: label_mass_def a_number_def split: option.splits)

lemma masses_iff:
  "(\<exists>mass. collect_results (map (label_mass J key by_label) ls) = Inr mass \<and> P mass) \<longleftrightarrow>
     list_all (\<lambda>l. case map_of by_label l of None \<Rightarrow> True | Some v \<Rightarrow> a_number v) ls
     \<and> P (map (\<lambda>l. (l, Option.bind (map_of by_label l) as_f64)) ls)"
proof -
  have "collect_results (map (label_mass J key by_label) ls) = Inr mass \<longleftrightarrow>
      list_all (\<lambda>l. case map_of by_label l of None \<Rightarrow> True | Some v \<Rightarrow> a_number v) ls
      \<and> mass = map (\<lambda>l. (l, Option.bind (map_of by_label l) as_f64)) ls" for mass
    unfolding collect_results_Inr label_mass_iff
    by (induction ls arbitrary: mass) (auto simp: list_all2_Cons1)
  then show ?thesis by auto
qed

text \<open>
  C9. Exactly which distributions a model may answer: every key names a declared label once blanks around it are dropped, no
  label is named twice, every value is a finite number without a sign, and the masses, added in the order of the labels, are a
  normal number. A declared label that no key names carries no mass, and does not refuse the answer. Anything else is
  refused, and nothing is repaired.
\<close>

theorem reply_is_accepted_exactly:
  "(\<exists>d. distribution J key q reply = Inr d) \<longleftrightarrow>
     list_all (\<lambda>(k, v). trim k \<in> set (labels q) \<and> a_number v) reply \<and> distinct (map (trim \<circ> fst) reply)
     \<and> f64_is_normal (foldl f64_add 0
         (List.map_filter (\<lambda>l. Option.bind (map_of (map (\<lambda>(k, v). (trim k, v)) reply) l) as_f64) (labels q)))"
proof (cases "distinct (map (trim \<circ> fst) reply)")
  case True
  let ?read = "map (\<lambda>(k, v). (trim k, v)) reply"
  have fst_read: "map fst ?read = map (trim \<circ> fst) reply" by (induction reply) auto
  have dist: "distinct (map fst ?read)" using True by (simp only: fst_read)
  then have look: "map_of (rev ?read) = map_of ?read"
    by (intro map_of_inject_set [THEN iffD2]) (simp_all only: rev_map [symmetric] distinct_rev set_rev)
  have total: "total_mass (map (\<lambda>l. (l, Option.bind (map_of ?read l) as_f64)) ls) =
      foldl f64_add 0 (List.map_filter (\<lambda>l. Option.bind (map_of ?read l) as_f64) ls)" for ls
    by (simp add: total_mass_def map_filter_def comp_def filter_map)
  have numbers: "list_all (\<lambda>(k, v). trim k \<in> set ls) reply \<Longrightarrow>
      list_all (\<lambda>l. case map_of ?read l of None \<Rightarrow> True | Some v \<Rightarrow> a_number v) ls \<longleftrightarrow> list_all (\<lambda>(k, v). a_number v) reply" for ls
  proof
    assume named: "list_all (\<lambda>(k, v). trim k \<in> set ls) reply"
      and all: "list_all (\<lambda>l. case map_of ?read l of None \<Rightarrow> True | Some v \<Rightarrow> a_number v) ls"
    have "a_number v" if "(k, v) \<in> set reply" for k v
    proof -
      have "map_of ?read (trim k) = Some v" using that by (intro map_of_is_SomeI [OF dist]) (force simp: image_iff)
      with named all that show ?thesis by (fastforce simp: list.pred_set)
    qed
    then show "list_all (\<lambda>(k, v). a_number v) reply" by (auto simp: list.pred_set)
  next
    assume all: "list_all (\<lambda>(k, v). a_number v) reply"
    then show "list_all (\<lambda>l. case map_of ?read l of None \<Rightarrow> True | Some v \<Rightarrow> a_number v) ls"
      by (auto simp: list.pred_set split: option.splits dest!: map_of_SomeD)
  qed
  have "(\<exists>d. distribution J key q reply = Inr d) \<longleftrightarrow>
      (\<exists>found. read_labels key (labels q) reply [] = Inr found \<and>
        (\<exists>mass. collect_results (map (label_mass J key found) (labels q)) = Inr mass \<and> f64_is_normal (total_mass mass)))"
    by (auto simp: distribution_def bind_result_Inr)
  also have "\<dots> \<longleftrightarrow> list_all (\<lambda>(k, v). trim k \<in> set (labels q)) reply \<and>
      list_all (\<lambda>(k, v). a_number v) reply \<and>
      f64_is_normal (foldl f64_add 0 (List.map_filter (\<lambda>l. Option.bind (map_of ?read l) as_f64) (labels q)))"
    using True numbers [of "labels q"] by (auto simp: read_labels_Inr masses_iff look total)
  finally show ?thesis using True by (auto simp: list.pred_set split_beta)
qed (auto simp: distribution_def bind_result_Inr read_labels_Inr)

subsection \<open>The native wire\<close>

definition clean :: "string \<Rightarrow> bool" where
  "clean t = (t \<noteq> [] \<and> trim t = t)"

fun wf_question :: "question \<Rightarrow> bool" where
  "wf_question (Noul i) = clean i"
| "wf_question (Choice i options) =
     (clean i \<and> 2 \<le> length options \<and> bt_wf options \<and> list_all (\<lambda>(l, _). clean l \<and> \<not> list_ex is_control l) options)"
| "wf_question (Score i levels) = (clean i \<and> 2 \<le> length levels \<and> list_all clean levels)"

lemma stated_text_iff: "stated_text v = Some t \<longleftrightarrow> (\<exists>s. v = Some (JStr s) \<and> t = trim s \<and> trim s \<noteq> [])"
  by (cases v) (auto simp: stated_text_def split: option.splits elim: as_str.elims)

lemma stated_text_clean: "stated_text v = Some t \<Longrightarrow> clean t" "clean t \<Longrightarrow> stated_text (Some (JStr t)) = Some t"
  by (auto simp: stated_text_iff clean_def)

lemma known_fields_iff: "known_fields X allowed kvs = Inr () \<longleftrightarrow> fst ` set kvs \<subseteq> set allowed"
proof -
  have "filter (\<lambda>k. k \<notin> set allowed) (map fst kvs) = [] \<longleftrightarrow> fst ` set kvs \<subseteq> set allowed"
    by (auto simp: filter_empty_conv)
  then show ?thesis by (auto simp: known_fields_def split: list.splits)
qed

lemma known_fields_obj:
  "fst ` set kvs \<subseteq> set allowed \<Longrightarrow> known_fields X allowed (entries_of kvs) = Inr ()"
  using entries_of_subset [of kvs] by (simp add: known_fields_iff bt_keys_def)

lemma validate_label_iff: "validate_label key l = Inr () \<longleftrightarrow> clean l \<and> \<not> list_ex is_control l"
  by (auto simp: validate_label_def clean_def)

lemma read_option_iff:
  "read_option key (label, rubric) = Inr (l, r) \<longleftrightarrow>
     l = label \<and> clean label \<and> \<not> list_ex is_control label \<and> rubric = (case r of None \<Rightarrow> JNull | Some t \<Rightarrow> JStr t)"
  using validate_label_iff [of key label]
  by (auto simp: read_option_def bind_result_Inr split: json.splits option.splits)

lemma parse_question_wf:
  assumes "parse_question X key v = Inr q" "sorted_value v"
  shows "wf_question q"
proof -
  from assms(1) obtain told k where told: "stated_text (json_get v ''instructions'') = Some told"
    and shape: "shape_question key v told k = Inr q"
    by (auto simp: parse_question_def bind_result_Inr ok_or_Inr)
  have clean: "clean told" by (rule stated_text_clean(1) [OF told])
  show ?thesis
  proof (cases k)
    case KNoul
    with shape clean show ?thesis by (auto simp: shape_question_def split: if_splits)
  next
    case KChoice
    with shape obtain c criteria options where c: "json_get v ''criteria'' = Some c" "object_of c = Some criteria"
      and len: "2 \<le> length criteria" and read: "list_all2 (\<lambda>x y. read_option key x = Inr y) criteria options"
      and q: "q = Choice told options"
      by (auto simp: shape_question_def bind_result_Inr ok_or_Inr collect_results_Inr bind_eq_Some_conv split: if_splits)
    have "bt_wf criteria" using sorted_json_member [OF assms(2) c(1)] c(2) by (cases c) auto
    moreover have "map fst options = map fst criteria \<and> list_all (\<lambda>(l, _). clean l \<and> \<not> list_ex is_control l) options"
      using read by (induction rule: list_all2_induct) (auto simp: read_option_iff)
    moreover have "length options = length criteria" using read by (simp add: list_all2_lengthD)
    ultimately show ?thesis using q clean len bt_wf_keys [of criteria options] by simp
  next
    case KScore
    with shape obtain criteria levels where len: "2 \<le> length criteria"
      and read: "list_all2 (\<lambda>x y. read_level key x = Inr y) criteria levels" and q: "q = Score told levels"
      by (auto simp: shape_question_def bind_result_Inr ok_or_Inr collect_results_Inr not_less split: if_splits)
    have "list_all clean levels"
      using read by (induction rule: list_all2_induct) (auto simp: read_level_def ok_or_Inr dest: stated_text_clean(1))
    then show ?thesis using q clean len read by (simp add: list_all2_lengthD)
  qed
qed

text \<open>A question rendered for the native wire is read back as itself.\<close>

lemma criteria_read_back:
  assumes "wf_question q"
  shows "shape_question key (native_question q) (instructions q)
      (case q of Noul _ \<Rightarrow> KNoul | Choice _ _ \<Rightarrow> KChoice | Score _ _ \<Rightarrow> KScore) = Inr q"
proof (cases q)
  case (Noul i)
  then show ?thesis by (simp add: shape_question_def native_question_def)
next
  case (Choice i options)
  let ?cs = "map (\<lambda>(label, rubric). (label, case rubric of None \<Rightarrow> JNull | Some r \<Rightarrow> JStr r)) options"
  have "map fst ?cs = map fst options" by (induction options) auto
  then have "json_obj ?cs = JObj ?cs"
    using assms Choice bt_wf_keys [of options ?cs] by (simp add: json_obj_entries entries_of_sorted)
  moreover have "list_all2 (\<lambda>x y. read_option key x = Inr y) ?cs options"
    using assms Choice by (auto simp: list.rel_map list.pred_set read_option_iff intro!: list.rel_refl_strong)
  then have "collect_results (map (read_option key) ?cs) = Inr options" by (simp only: collect_results_Inr)
  ultimately show ?thesis
    using assms Choice by (simp add: shape_question_def native_question_def bind_result_def ok_or_def)
next
  case (Score i levels)
  have "list_all2 (\<lambda>x y. read_level key x = Inr y) (map JStr levels) levels"
    using assms Score
    by (auto simp: list.rel_map list.pred_set read_level_def stated_text_clean(2) ok_or_def intro!: list.rel_refl_strong)
  then have "collect_results (map (read_level key) (map JStr levels)) = Inr levels" by (simp only: collect_results_Inr)
  then show ?thesis
    using assms Score by (simp add: shape_question_def native_question_def bind_result_def ok_or_def)
qed

lemma question_read_back:
  assumes "wf_question q"
  shows "parse_question X key (native_question q) = Inr q"
proof -
  let ?kvs = "[(''type'', JStr (kind q)), (''instructions'', JStr (instructions q))] @
     (case q of
        Noul _ \<Rightarrow> []
      | Choice _ options \<Rightarrow>
          [(''criteria'', json_obj (map (\<lambda>(label, rubric). (label, case rubric of None \<Rightarrow> JNull | Some r \<Rightarrow> JStr r)) options))]
      | Score _ levels \<Rightarrow> [(''criteria'', JArr (map JStr levels))])"
  have obj: "native_question q = json_obj ?kvs" by (simp add: native_question_def)
  have "object_of (native_question q) = Some (entries_of ?kvs)" by (simp only: obj json_obj_entries object_of.simps)
  moreover have "known_fields X [''type'', ''instructions'', ''criteria''] (entries_of ?kvs) = Inr ()"
    by (rule known_fields_obj) (cases q; simp)
  moreover have "json_get (native_question q) ''type'' = Some (JStr (kind q))"
    "json_get (native_question q) ''instructions'' = Some (JStr (instructions q))"
    unfolding obj by (cases q; simp)+
  moreover have "stated_text (Some (JStr (instructions q))) = Some (instructions q)"
    using assms by (cases q) (simp_all add: stated_text_clean(2))
  moreover have "read_kind (JStr (kind q)) = Some (case q of Noul _ \<Rightarrow> KNoul | Choice _ _ \<Rightarrow> KChoice | Score _ _ \<Rightarrow> KScore)"
    by (cases q) simp_all
  ultimately show ?thesis
    using criteria_read_back [OF assms, of key] by (simp add: parse_question_def bind_result_def ok_or_def)
qed

lemma questions_wf:
  assumes "parse_decision X body = Inr request" "sorted_value body"
  shows "list_all (\<lambda>(key, q). validate_key key = Inr () \<and> wf_question q) (dr_questions request)
       \<and> dr_questions request \<noteq> [] \<and> clean (dr_model request) \<and> \<not> empty_state (dr_state request)"
proof -
  from assms(1) obtain declared where
    declared: "Option.bind (json_get body ''questions'') object_of = Some declared" "declared \<noteq> []"
    and read: "list_all2 (\<lambda>x y. read_question X x = Inr y) declared (dr_questions request)"
    and rest: "stated_text (json_get body ''model'') = Some (dr_model request)" "\<not> empty_state (dr_state request)"
    by (auto simp: parse_decision_def bind_result_Inr ok_or_Inr collect_results_Inr split: if_splits)
  from declared obtain v where "json_get body ''questions'' = Some v" "v = JObj declared"
    by (cases "json_get body ''questions''") (auto elim: object_of.elims)
  then have "list_all (\<lambda>(k, v). sorted_value v) declared"
    using sorted_json_member [OF assms(2)] by (fastforce simp: list.pred_set)
  with read have "list_all (\<lambda>(key, q). validate_key key = Inr () \<and> wf_question q) (dr_questions request)"
    by (induction rule: list_all2_induct) (auto simp: read_question_def bind_result_Inr dest: parse_question_wf)
  moreover have "dr_questions request \<noteq> []" using read declared(2) by auto
  ultimately show ?thesis using rest stated_text_clean(1) by blast
qed

text \<open>
  What is sent to a provider that speaks the decision wire says what the caller asked: the state and the questions
  rendered for it, with the model beside them, are read by the same endpoint as the very request they were rendered
  from, rubrics, labels, levels and order included. A Brama can stand behind a Brama.
\<close>

theorem native_wire_says_the_request:
  assumes "parse_decision X body = Inr request" and "sorted_value body"
  shows "parse_decision X (json_obj [(''model'', JStr (dr_model request)), (''state'', dr_state request),
           (''questions'', native_questions request)]) = Inr request"
proof -
  note wf = questions_wf [OF assms] and sorted = parse_decision_sorted [OF assms]
  let ?kvs = "[(''model'', JStr (dr_model request)), (''state'', dr_state request), (''questions'', native_questions request)]"
  let ?qs = "map (\<lambda>(key, q). (key, native_question q)) (dr_questions request)"
  have "map fst ?qs = map fst (dr_questions request)" by (induction "dr_questions request") auto
  then have qs: "native_questions request = JObj ?qs"
    using bt_wf_keys [OF sorted, of ?qs] by (simp add: native_questions_def json_obj_entries entries_of_sorted)
  have "list_all2 (\<lambda>x y. read_question X x = Inr y) ?qs (dr_questions request)"
    using wf by (auto simp: list.rel_map list.pred_set read_question_def question_read_back bind_result_def
        intro!: list.rel_refl_strong)
  then have "collect_results (map (read_question X) ?qs) = Inr (dr_questions request)" by (simp only: collect_results_Inr)
  moreover have "known_fields X [''model'', ''state'', ''questions''] (entries_of ?kvs) = Inr ()"
    by (rule known_fields_obj) simp
  moreover have "object_of (json_obj ?kvs) = Some (entries_of ?kvs)" by (simp only: json_obj_entries object_of.simps)
  moreover have "stated_text (Some (JStr (dr_model request))) = Some (dr_model request)" using wf stated_text_clean(2) by blast
  ultimately show ?thesis
    using wf by (simp add: parse_decision_def qs bind_result_def ok_or_def)
qed

theorem native_wire_says_the_request_witness:
  "parse_decision asked_crates (json_obj [(''model'', JStr (dr_model asked_request)), (''state'', dr_state asked_request),
     (''questions'', native_questions asked_request)]) = Inr asked_request"
proof -
  have "parse_decision asked_crates asked_body = Inr asked_request" "sorted_value asked_body" by code_simp+
  then show ?thesis by (rule native_wire_says_the_request)
qed

end
