(* ===== verification/Provider_Dialects.thy ===== *)
theory Provider_Dialects
  imports Wire_Requests Chat_Routing
begin

section \<open>What is sent to a provider\<close>

text \<open>
  \<open>providers/adapter/dialect.rs\<close> and \<open>dialect/\<close>, the request side: one request in the body each wire protocol expects. The models a
  provider has refused \<open>temperature\<close> for are a list (\<open>refused_settings.rs\<close> keeps them in a set behind a mutex).
  \<open>document\<close> is the embedded table of model limits and \<open>J\<close> is \<open>serde_json\<close>; \<open>to_string\<close> of a value is
  \<open>show_json J\<close>.
\<close>

subsection \<open>Messages\<close>

definition content_text :: "message \<Rightarrow> string" where
  "content_text m = (case msg_content m of
       JStr s \<Rightarrow> s
     | JArr parts \<Rightarrow>
         concat (List.map_filter (\<lambda>p. if Option.bind (json_get p ''type'') as_str = Some ''text''
                                   then Option.bind (json_get p ''text'') as_str else None) parts)
     | _ \<Rightarrow> [])"

definition named_tool_choice :: "json \<Rightarrow> string option" where
  "named_tool_choice choice =
     (case Option.bind (or_option (json_pointer choice ''function'' ''name'') (json_get choice ''name'')) as_str of
        None \<Rightarrow> None
      | Some name \<Rightarrow> (if name = [] then None else Some name))"

definition stated_system :: "model_request \<Rightarrow> string option" where
  "stated_system request = (case rq_system request of None \<Rightarrow> None | Some s \<Rightarrow> (if s = [] then None else Some s))"

definition answer_format :: "response_schema \<Rightarrow> json" where
  "answer_format schema =
     json_obj [(''type'', JStr ''json_schema''),
       (''json_schema'', json_obj [(''name'', JStr (rs_name schema)), (''strict'', JBool True), (''schema'', rs_schema schema)])]"

definition openai_message :: "message \<Rightarrow> json" where
  "openai_message m =
     json_obj ([(''role'', JStr (msg_role m)), (''content'', msg_content m)] @
       (case msg_tool_call_id m of None \<Rightarrow> [] | Some i \<Rightarrow> [(''tool_call_id'', JStr i)]) @
       (case msg_tool_calls m of None \<Rightarrow> [] | Some calls \<Rightarrow> [(''tool_calls'', JArr calls)]))"

definition openai_messages :: "model_request \<Rightarrow> json list" where
  "openai_messages request =
     (case stated_system request of
        None \<Rightarrow> []
      | Some system \<Rightarrow> [json_obj [(''role'', JStr ''system''), (''content'', JStr system)]]) @
     map openai_message (rq_messages request)"

subsection \<open>Tool schemas\<close>

text \<open>
  \<open>normalize_json_schema\<close>. A property that is a bare type name becomes a schema of that type, which has nothing further to
  normalize. The type is inferred from the members a node has, which visiting its children does not change.
\<close>

definition needs_type :: "(string \<times> json) list \<Rightarrow> bool" where
  "needs_type kvs = (kvs \<noteq> [] \<and> map_of kvs ''type'' = None \<and> map_of kvs ''$ref'' = None)"

definition inferred_type :: "(string \<times> json) list \<Rightarrow> string" where
  "inferred_type kvs =
     (if map_of kvs ''properties'' \<noteq> None then ''object''
      else if map_of kvs ''items'' \<noteq> None then ''array''
      else (case Option.bind (map_of kvs ''enum'') as_array of
              Some (JInt _ # _) \<Rightarrow> ''number''
            | Some (JFloat _ # _) \<Rightarrow> ''number''
            | Some (JBool _ # _) \<Rightarrow> ''boolean''
            | _ \<Rightarrow> ''string''))"

definition shorthand :: "string \<Rightarrow> json" where
  "shorthand name =
     JObj [(''type'', JStr (if name \<in> {''string'', ''number'', ''integer'', ''boolean'', ''object'', ''array'', ''null''}
                            then name else ''string''))]"

definition APPLICATORS :: "string list" where
  "APPLICATORS = [''items'', ''additionalProperties'', ''anyOf'', ''oneOf'', ''allOf'', ''not'']"

definition SCHEMA_MAPS :: "string list" where
  "SCHEMA_MAPS = [''patternProperties'', ''$defs'', ''definitions'']"

lemma json_member_size: "(k, v) \<in> set kvs \<Longrightarrow> size v < size_list (size_prod (\<lambda>x. 0) size) kvs"
proof -
  have prod: "size_prod (\<lambda>x. 0) size = (\<lambda>x :: string \<times> json. Suc (size (snd x)))" by (auto simp: fun_eq_iff)
  show "(k, v) \<in> set kvs \<Longrightarrow> size v < size_list (size_prod (\<lambda>x. 0) size) kvs"
    unfolding prod by (induction kvs) auto
qed

lemma json_item_size: "x \<in> set vs \<Longrightarrow> size (x :: json) < Suc (size_list size vs)"
  by (induction vs) auto

function normalize_json_schema :: "json \<Rightarrow> json" where
  "normalize_json_schema (JObj kvs) =
     (let visited = map (\<lambda>(k, v). (k,
            if k = ''properties'' then
              (case v of
                 JObj ps \<Rightarrow> JObj (map (\<lambda>(n, p). (n, case p of JStr name \<Rightarrow> shorthand name | _ \<Rightarrow> normalize_json_schema p)) ps)
               | _ \<Rightarrow> v)
            else if k \<in> set APPLICATORS then normalize_json_schema v
            else if k \<in> set SCHEMA_MAPS then
              (case v of JObj ss \<Rightarrow> JObj (map (\<lambda>(n, s). (n, normalize_json_schema s)) ss) | _ \<Rightarrow> v)
            else v)) kvs
      in JObj (if needs_type kvs then bt_insert ''type'' (JStr (inferred_type kvs)) visited else visited))"
| "normalize_json_schema (JArr vs) = JArr (map normalize_json_schema vs)"
| "normalize_json_schema JNull = JNull"
| "normalize_json_schema (JBool b) = JBool b"
| "normalize_json_schema (JInt i) = JInt i"
| "normalize_json_schema (JFloat x) = JFloat x"
| "normalize_json_schema (JStr s) = JStr s"
  by pat_completeness auto

termination
  by (relation "measure size") (auto dest!: json_member_size simp: json_item_size)

definition tool_value :: "tool \<Rightarrow> json" where
  "tool_value t =
     json_obj [(''type'', JStr (tool_type t)),
       (''function'', json_obj ([(''name'', JStr (tool_name t)), (''description'', JStr (tool_description t))] @
          (case tool_parameters t of None \<Rightarrow> [] | Some p \<Rightarrow> [(''parameters'', normalize_json_schema p)])))]"

definition normalized_tools_value :: "tool list \<Rightarrow> json" where
  "normalized_tools_value tools = JArr (map tool_value tools)"

subsection \<open>The Responses wire\<close>

definition json_or_null :: "json option \<Rightarrow> json" where
  "json_or_null v = (case v of None \<Rightarrow> JNull | Some x \<Rightarrow> x)"

definition sent_responses_tool_choice :: "json \<Rightarrow> json" where
  "sent_responses_tool_choice choice =
     (case named_tool_choice choice of
        Some name \<Rightarrow> json_obj [(''type'', JStr ''function''), (''name'', JStr name)]
      | None \<Rightarrow> choice)"

definition responses_message :: "string \<Rightarrow> string \<Rightarrow> string \<Rightarrow> json" where
  "responses_message role content_type told =
     json_obj [(''type'', JStr ''message''), (''role'', JStr role),
       (''content'', JArr [json_obj [(''type'', JStr content_type), (''text'', JStr told)]])]"

definition responses_items_of :: "message \<Rightarrow> json list" where
  "responses_items_of m =
     (if msg_role m = ''tool'' then
        [json_obj [(''type'', JStr ''function_call_output''),
           (''call_id'', json_or_null (map_option JStr (msg_tool_call_id m))), (''output'', JStr (content_text m))]]
      else (case msg_tool_calls m of
              Some calls \<Rightarrow>
                (if content_text m = [] then [] else [responses_message ''assistant'' ''output_text'' (content_text m)]) @
                map (\<lambda>call. json_obj [(''type'', JStr ''function_call''), (''call_id'', json_or_null (json_get call ''id'')),
                   (''name'', json_or_null (json_pointer call ''function'' ''name'')),
                   (''arguments'', json_or_null (json_pointer call ''function'' ''arguments''))]) calls
            | None \<Rightarrow>
                (if msg_role m = ''assistant'' then [responses_message ''assistant'' ''output_text'' (content_text m)]
                 else [responses_message ''user'' ''input_text'' (content_text m)])))"

definition responses_input :: "model_request \<Rightarrow> json list" where
  "responses_input request = concat (map responses_items_of (rq_messages request))"

definition responses_tools :: "model_request \<Rightarrow> json list option" where
  "responses_tools request =
     (case rq_tools request of
        None \<Rightarrow> None
      | Some [] \<Rightarrow> None
      | Some tools \<Rightarrow>
          Some (map (\<lambda>t. json_obj [(''type'', JStr ''function''), (''name'', JStr (tool_name t)),
             (''description'', JStr (tool_description t)), (''parameters'', json_or_null (tool_parameters t))]) tools))"

definition CODEX_TOOL_CHOICE :: string where "CODEX_TOOL_CHOICE = ''auto''"

definition responses_payload :: "model_request \<Rightarrow> string \<Rightarrow> json" where
  "responses_payload request model_id =
     json_obj ([(''model'', JStr model_id), (''input'', JArr (responses_input request)), (''store'', JBool False),
                (''stream'', JBool True)] @
       (case stated_system request of None \<Rightarrow> [] | Some system \<Rightarrow> [(''instructions'', JStr system)]) @
       (case responses_tools request of
          None \<Rightarrow> []
        | Some tools \<Rightarrow>
            [(''tools'', JArr tools),
             (''tool_choice'', case rq_tool_choice request of
                Some choice \<Rightarrow> sent_responses_tool_choice choice | None \<Rightarrow> JStr CODEX_TOOL_CHOICE)]) @
       (case rq_response_schema request of
          None \<Rightarrow> []
        | Some schema \<Rightarrow>
            [(''text'', json_obj [(''format'', json_obj [(''type'', JStr ''json_schema''), (''name'', JStr (rs_name schema)),
                (''schema'', rs_schema schema), (''strict'', JBool True)])])]))"

subsection \<open>The Messages wire\<close>

definition sent_anthropic_tool_choice :: "json \<Rightarrow> json option" where
  "sent_anthropic_tool_choice choice =
     (case named_tool_choice choice of
        Some name \<Rightarrow> Some (json_obj [(''type'', JStr ''tool''), (''name'', JStr name)])
      | None \<Rightarrow>
          (if as_str choice = Some ''auto'' then Some (json_obj [(''type'', JStr ''auto'')])
           else if as_str choice = Some ''required'' then Some (json_obj [(''type'', JStr ''any'')])
           else None))"

fun split_text :: "string \<Rightarrow> string \<Rightarrow> (string \<times> string) option" where
  "split_text sep [] = (if sep = [] then Some ([], []) else None)"
| "split_text sep (c # cs) =
     (if take (length sep) (c # cs) = sep then Some ([], drop (length sep) (c # cs))
      else map_option (\<lambda>(a, b). (c # a, b)) (split_text sep cs))"

definition image_source :: "string \<Rightarrow> json" where
  "image_source url =
     (case Option.bind (strip_prefix ''data:'' url) (split_text '';base64,'') of
        Some (media_type, data) \<Rightarrow>
          json_obj [(''type'', JStr ''base64''), (''media_type'', JStr media_type), (''data'', JStr data)]
      | None \<Rightarrow> json_obj [(''type'', JStr ''url''), (''url'', JStr url)])"

definition sent_block :: "json \<Rightarrow> json" where
  "sent_block part =
     (if Option.bind (json_get part ''type'') as_str \<noteq> Some ''image_url'' then part
      else (case Option.bind (json_pointer part ''image_url'' ''url'') as_str of
              None \<Rightarrow> part
            | Some url \<Rightarrow> json_obj [(''type'', JStr ''image''), (''source'', image_source url)]))"

definition sent_tool_use :: "json_codec \<Rightarrow> json \<Rightarrow> (string, json) result" where
  "sent_tool_use J call =
     bind_result (ok_or (''history tool call '' @ show_json J call @ '' carries no text arguments'')
       (Option.bind (json_pointer call ''function'' ''arguments'') as_str)) (\<lambda>arguments.
     bind_result (map_sum (\<lambda>err. ''history tool call '' @ show_json J call @ '' carries arguments that are not JSON: '' @ err) id
       (parse_json J arguments)) (\<lambda>input.
     Inr (json_obj [(''type'', JStr ''tool_use''), (''id'', json_or_null (json_get call ''id'')),
        (''name'', json_or_null (json_pointer call ''function'' ''name'')), (''input'', input)])))"

definition anthropic_content :: "json_codec \<Rightarrow> message \<Rightarrow> (string, json) result" where
  "anthropic_content J m =
     (if msg_role m = ''tool'' then
        Inr (JArr [json_obj [(''type'', JStr ''tool_result''),
          (''tool_use_id'', json_or_null (map_option JStr (msg_tool_call_id m))), (''content'', JStr (content_text m))]])
      else (case msg_tool_calls m of
              Some calls \<Rightarrow>
                bind_result (collect_results (map (sent_tool_use J) calls)) (\<lambda>uses.
                  Inr (JArr ((if content_text m = [] then []
                              else [json_obj [(''type'', JStr ''text''), (''text'', JStr (content_text m))]]) @ uses)))
            | None \<Rightarrow>
                Inr (case msg_content m of JArr parts \<Rightarrow> JArr (map sent_block parts) | content \<Rightarrow> content)))"

definition sent_anthropic_message :: "json_codec \<Rightarrow> message \<Rightarrow> (string, json) result" where
  "sent_anthropic_message J m =
     bind_result (anthropic_content J m) (\<lambda>content.
       Inr (json_obj [(''role'', JStr (if msg_role m = ''assistant'' then ''assistant'' else ''user'')), (''content'', content)]))"

definition sent_anthropic_messages :: "json_codec \<Rightarrow> model_request \<Rightarrow> (string, json list) result" where
  "sent_anthropic_messages J request = collect_results (map (sent_anthropic_message J) (rq_messages request))"

definition sent_anthropic_tool :: "tool \<Rightarrow> json" where
  "sent_anthropic_tool t =
     json_obj [(''name'', JStr (tool_name t)), (''description'', JStr (tool_description t)),
       (''input_schema'', case tool_parameters t of Some p \<Rightarrow> p | None \<Rightarrow> json_obj [(''type'', JStr ''object'')])]"

definition answer_tool :: "model_request \<Rightarrow> response_schema option" where
  "answer_tool request = (if rq_tools request = None then rq_response_schema request else None)"

definition anthropic_tooling :: "model_request \<Rightarrow> json option \<times> json option" where
  "anthropic_tooling request =
     (case answer_tool request of
        Some schema \<Rightarrow>
          (Some (JArr [json_obj [(''name'', JStr (rs_name schema)), (''description'', JStr ''Give the answer as this object.''),
             (''input_schema'', rs_schema schema)]]),
           Some (json_obj [(''type'', JStr ''tool''), (''name'', JStr (rs_name schema))]))
      | None \<Rightarrow>
          (map_option (\<lambda>tools. JArr (map sent_anthropic_tool tools)) (rq_tools request),
           Option.bind (rq_tool_choice request) sent_anthropic_tool_choice))"

subsection \<open>The payload\<close>

definition without_refused :: "string list \<Rightarrow> string \<Rightarrow> model_request \<Rightarrow> model_request" where
  "without_refused learned model_id request =
     (if rq_temperature request \<noteq> None \<and> model_id \<in> set learned then request\<lparr>rq_temperature := None\<rparr> else request)"

definition optional_member :: "string \<Rightarrow> json option \<Rightarrow> (string \<times> json) list" where
  "optional_member key v = (case v of None \<Rightarrow> [] | Some x \<Rightarrow> [(key, x)])"

definition openai_payload :: "provider_descriptor \<Rightarrow> string \<Rightarrow> model_request \<Rightarrow> json" where
  "openai_payload d model_id request =
     json_obj ([(''model'', JStr model_id), (''messages'', JArr (openai_messages request))] @
       optional_member ''max_tokens'' (map_option (\<lambda>n. JInt (uint n)) (rq_max_tokens request)) @
       (if pd_id d = ''kimi'' then [] else optional_member ''temperature'' (map_option json_f64 (rq_temperature request))) @
       optional_member ''tools'' (map_option normalized_tools_value (rq_tools request)) @
       optional_member ''tool_choice'' (rq_tool_choice request) @
       (if pd_id d = ''kimi'' then [] else optional_member ''response_format'' (map_option answer_format (rq_response_schema request))))"

definition anthropic_payload ::
  "json_codec \<Rightarrow> (string, json) result \<Rightarrow> provider_descriptor \<Rightarrow> string \<Rightarrow> model_request \<Rightarrow> (string, json) result" where
  "anthropic_payload J document d model_id request =
     bind_result (sent_anthropic_messages J request) (\<lambda>messages.
     bind_result (required_output_limit document (pd_id d) model_id (rq_max_tokens request)) (\<lambda>limit.
     Inr (json_obj ([(''model'', JStr model_id), (''messages'', JArr messages), (''max_tokens'', JInt (uint limit))] @
       optional_member ''temperature'' (map_option json_f64 (rq_temperature request)) @
       optional_member ''system'' (map_option JStr (stated_system request)) @
       optional_member ''tools'' (fst (anthropic_tooling request)) @ optional_member ''tool_choice'' (snd (anthropic_tooling request))))))"

definition chat_payload ::
  "json_codec \<Rightarrow> (string, json) result \<Rightarrow> string list \<Rightarrow> provider_descriptor \<Rightarrow> string \<Rightarrow> model_request \<Rightarrow> (string, json) result" where
  "chat_payload J document learned d model_id request =
     (let request = without_refused learned model_id request
      in case pd_wire d of
           OpenAiChat \<Rightarrow> Inr (openai_payload d model_id request)
         | AnthropicMessages \<Rightarrow> anthropic_payload J document d model_id request
         | OpenAiResponses \<Rightarrow> Inr (responses_payload request model_id)
         | TypeSafeSystemOne \<Rightarrow> Inr JNull)"

definition set_member :: "string \<Rightarrow> json \<Rightarrow> json \<Rightarrow> json" where
  "set_member k v body = (case json_set body k v of Some b \<Rightarrow> b | None \<Rightarrow> body)"

definition streaming_chat_payload ::
  "json_codec \<Rightarrow> (string, json) result \<Rightarrow> string list \<Rightarrow> provider_descriptor \<Rightarrow> string \<Rightarrow> model_request \<Rightarrow> (string, json) result" where
  "streaming_chat_payload J document learned d model_id request =
     bind_result (chat_payload J document learned d model_id request) (\<lambda>body.
     Inr (case pd_wire d of
            OpenAiChat \<Rightarrow>
              (let streamed = set_member ''stream'' (JBool True) body
               in if pd_id d = ''kimi'' then streamed
                  else set_member ''stream_options'' (json_obj [(''include_usage'', JBool True)]) streamed)
          | AnthropicMessages \<Rightarrow> set_member ''stream'' (JBool True) body
          | _ \<Rightarrow> body))"

end
