(* ===== verification/Dialect_Promises.thy ===== *)
theory Dialect_Promises
  imports Provider_Dialects
begin

section \<open>What a provider is sent\<close>

text \<open>
  What holds of the bodies of \<open>Provider_Dialects\<close>: a tool schema is typed where providers look for a type, a setting a
  model has refused is never sent to it again, and a call the gateway took at its door can be written on every wire.
\<close>

subsection \<open>Typed schemas\<close>

text \<open>
  Where the schemas of a schema stand: the schema itself, each value of its \<open>properties\<close>, the subschemas of
  its applicators, each value of a map of named schemas, and each item of a list that stands there.
\<close>

inductive schema_in :: "json \<Rightarrow> json \<Rightarrow> bool" for root where
  itself: "schema_in root root"
| item: "schema_in root (JArr vs) \<Longrightarrow> s \<in> set vs \<Longrightarrow> schema_in root s"
| property_schema: "schema_in root (JObj kvs) \<Longrightarrow> (''properties'', JObj ps) \<in> set kvs \<Longrightarrow> (n, s) \<in> set ps \<Longrightarrow>
     schema_in root s"
| applied: "schema_in root (JObj kvs) \<Longrightarrow> (k, s) \<in> set kvs \<Longrightarrow>
     k \<in> {''items'', ''additionalProperties'', ''anyOf'', ''oneOf'', ''allOf'', ''not''} \<Longrightarrow> schema_in root s"
| named: "schema_in root (JObj kvs) \<Longrightarrow> (k, JObj ss) \<in> set kvs \<Longrightarrow>
     k \<in> {''patternProperties'', ''$defs'', ''definitions''} \<Longrightarrow> (n, s) \<in> set ss \<Longrightarrow> schema_in root s"

text \<open>
  A node a provider can read: an object is empty, has a \<open>type\<close> or refers elsewhere, and none of its
  properties is a bare name. A schema is typed when every schema in it is such a node.
\<close>

definition states_type :: "json \<Rightarrow> bool" where
  "states_type s = (case s of
       JObj kvs \<Rightarrow> (kvs = [] \<or> ''type'' \<in> fst ` set kvs \<or> ''$ref'' \<in> fst ` set kvs)
         \<and> (\<nexists>ps n name. (''properties'', JObj ps) \<in> set kvs \<and> (n, JStr name) \<in> set ps)
     | _ \<Rightarrow> True)"

definition typed_schema :: "json \<Rightarrow> bool" where
  "typed_schema schema = ({s. schema_in schema s} \<subseteq> {s. states_type s})"

text \<open>The same read down the tree, which the inductions over a schema use.\<close>

function typed_tree :: "json \<Rightarrow> bool" where
  "typed_tree (JObj kvs) =
     (\<not> needs_type kvs \<and>
      list_all (\<lambda>(k, v).
        if k = ''properties'' then
          (case v of
             JObj ps \<Rightarrow> list_all (\<lambda>(n, p). case p of JStr _ \<Rightarrow> False | _ \<Rightarrow> typed_tree p) ps
           | _ \<Rightarrow> True)
        else if k \<in> set APPLICATORS then typed_tree v
        else if k \<in> set SCHEMA_MAPS then
          (case v of JObj ss \<Rightarrow> list_all (\<lambda>(n, s). typed_tree s) ss | _ \<Rightarrow> True)
        else True) kvs)"
| "typed_tree (JArr vs) = list_all typed_tree vs"
| "typed_tree JNull = True"
| "typed_tree (JBool b) = True"
| "typed_tree (JInt i) = True"
| "typed_tree (JFloat x) = True"
| "typed_tree (JStr s) = True"
  by pat_completeness auto

termination
  by (relation "measure size") (auto dest!: json_member_size simp: json_item_size)

lemma bt_insert_members: "set (bt_insert k v m) \<subseteq> insert (k, v) (set m)"
  by (induction m) (auto split: if_splits)

lemma bt_insert_nonempty [simp]: "bt_insert k v m \<noteq> []"
  by (cases m) (auto split: if_splits)

lemma map_of_revalued:
  "map_of (map (\<lambda>(k, v). (k, f k v)) kvs) k = map_option (f k) (map_of kvs k)"
  by (induction kvs) auto

lemma shorthand_typed: "typed_tree (shorthand name)"
  by (simp add: shorthand_def needs_type_def APPLICATORS_def SCHEMA_MAPS_def)

lemma shorthand_not_name: "shorthand name \<noteq> JStr s"
  by (simp add: shorthand_def)

lemma normalize_not_name: "(\<nexists>s. v = JStr s) \<Longrightarrow> normalize_json_schema v \<noteq> JStr s"
  by (cases v) (auto simp: Let_def)

text \<open>What visiting a property and visiting a member make of them.\<close>

definition visited_property :: "json \<Rightarrow> json" where
  "visited_property p = (case p of JStr name \<Rightarrow> shorthand name | _ \<Rightarrow> normalize_json_schema p)"

definition typed_property :: "json \<Rightarrow> bool" where
  "typed_property p = (case p of JStr _ \<Rightarrow> False | _ \<Rightarrow> typed_tree p)"

definition on_values :: "(json \<Rightarrow> json) \<Rightarrow> json \<Rightarrow> json" where
  "on_values f v = (case v of JObj ps \<Rightarrow> JObj (map (\<lambda>(n, p). (n, f p)) ps) | _ \<Rightarrow> v)"

definition all_values :: "(json \<Rightarrow> bool) \<Rightarrow> json \<Rightarrow> bool" where
  "all_values P v = (case v of JObj ps \<Rightarrow> list_all (\<lambda>(n, p). P p) ps | _ \<Rightarrow> True)"

definition visited_member :: "string \<Rightarrow> json \<Rightarrow> json" where
  "visited_member k v =
     (if k = ''properties'' then on_values visited_property v
      else if k \<in> set APPLICATORS then normalize_json_schema v
      else if k \<in> set SCHEMA_MAPS then on_values normalize_json_schema v
      else v)"

definition typed_member :: "string \<Rightarrow> json \<Rightarrow> bool" where
  "typed_member k v =
     (if k = ''properties'' then all_values typed_property v
      else if k \<in> set APPLICATORS then typed_tree v
      else if k \<in> set SCHEMA_MAPS then all_values typed_tree v
      else True)"

lemma normalize_object:
  "normalize_json_schema (JObj kvs) =
     (let visited = map (\<lambda>(k, v). (k, visited_member k v)) kvs
      in JObj (if needs_type kvs then bt_insert ''type'' (JStr (inferred_type kvs)) visited else visited))"
  unfolding normalize_json_schema.simps(1) visited_member_def on_values_def visited_property_def ..

lemma typed_object:
  "typed_tree (JObj kvs) = (\<not> needs_type kvs \<and> list_all (\<lambda>(k, v). typed_member k v) kvs)"
  unfolding typed_tree.simps(1) typed_member_def all_values_def typed_property_def ..

declare normalize_json_schema.simps(1) [simp del] typed_tree.simps(1) [simp del]

lemma needs_type_visited:
  "needs_type (map (\<lambda>(k, v). (k, visited_member k v)) kvs) = needs_type kvs"
  by (simp add: needs_type_def map_of_revalued)

lemma typed_type_member: "typed_member ''type'' v"
  by (simp add: typed_member_def APPLICATORS_def SCHEMA_MAPS_def)

lemma typed_normalized_object:
  assumes "\<And>k v. (k, v) \<in> set kvs \<Longrightarrow> typed_member k (visited_member k v)"
  shows "typed_tree (normalize_json_schema (JObj kvs))"
proof -
  let ?visited = "map (\<lambda>(k, v). (k, visited_member k v)) kvs"
  have visited: "list_all (\<lambda>(k, v). typed_member k v) ?visited"
    using assms by (auto simp: list_all_iff)
  have "list_all (\<lambda>(k, v). typed_member k v) (bt_insert ''type'' t ?visited)" for t
    using visited bt_insert_members [of "''type''" t ?visited] typed_type_member
    unfolding list_all_iff by (blast intro: typed_type_member)
  moreover have "\<not> needs_type (bt_insert ''type'' t ?visited)" for t
    by (simp add: needs_type_def)
  ultimately show ?thesis using visited
    by (simp add: normalize_object typed_object needs_type_visited Let_def)
qed

lemma typed_visited_property:
  "typed_tree (normalize_json_schema p) \<Longrightarrow> typed_property (visited_property p)"
proof (cases "\<exists>s. p = JStr s")
  case True
  then obtain s where "visited_property p = shorthand s" by (auto simp: visited_property_def)
  then show ?thesis using shorthand_typed [of s] by (simp add: typed_property_def shorthand_def)
next
  case False
  moreover from False have "visited_property p = normalize_json_schema p"
    by (cases p) (auto simp: visited_property_def)
  moreover assume "typed_tree (normalize_json_schema p)"
  ultimately show ?thesis using normalize_not_name [OF False]
    by (cases "normalize_json_schema p") (auto simp: typed_property_def)
qed

lemma typed_visited_member:
  assumes "\<And>u. size u < Suc (size v) \<Longrightarrow> typed_tree (normalize_json_schema u)"
  shows "typed_member k (visited_member k v)"
proof -
  have member: "typed_tree (normalize_json_schema u)" if "v = JObj ps" "(n, u) \<in> set ps" for n u ps
    using assms json_member_size [OF that(2)] that(1) by simp
  then have "all_values typed_property (on_values visited_property v)"
    and "all_values typed_tree (on_values normalize_json_schema v)"
    by (cases v; auto simp: all_values_def on_values_def list_all_iff intro!: typed_visited_property)+
  then show ?thesis using assms [of v] by (simp add: visited_member_def typed_member_def)
qed

lemma normalized_is_typed: "typed_tree (normalize_json_schema v)"
proof (induction v rule: measure_induct_rule [of size])
  case (less v)
  show ?case
  proof (cases v)
    case (JObj kvs)
    have "typed_tree (normalize_json_schema u)" if "(k, w) \<in> set kvs" "size u < Suc (size w)" for k w u
      using less [of u] json_member_size [OF that(1)] that(2) JObj by simp
    then show ?thesis unfolding JObj by (intro typed_normalized_object typed_visited_member)
  next
    case (JArr vs)
    then show ?thesis using less json_item_size [of _ vs] by (auto simp: list_all_iff)
  qed auto
qed

lemma visited_typed_property:
  "typed_property p \<Longrightarrow> (typed_tree p \<Longrightarrow> normalize_json_schema p = p) \<Longrightarrow> visited_property p = p"
  by (cases p) (auto simp: typed_property_def visited_property_def)

lemma visited_typed_member:
  assumes "\<And>u. size u < Suc (size v) \<Longrightarrow> typed_tree u \<Longrightarrow> normalize_json_schema u = u" and "typed_member k v"
  shows "visited_member k v = v"
proof -
  have member: "normalize_json_schema u = u" if "v = JObj ps" "(n, u) \<in> set ps" "typed_tree u" for n u ps
    using assms(1) json_member_size [OF that(2)] that by simp
  then have "all_values typed_property v \<Longrightarrow> on_values visited_property v = v"
    and "all_values typed_tree v \<Longrightarrow> on_values normalize_json_schema v = v"
    by (cases v; force simp: all_values_def on_values_def list_all_iff intro!: map_idI visited_typed_property)+
  then show ?thesis using assms by (simp add: visited_member_def typed_member_def)
qed

lemma typed_is_left_alone: "typed_tree v \<Longrightarrow> normalize_json_schema v = v"
proof (induction v rule: measure_induct_rule [of size])
  case (less v)
  show ?case
  proof (cases v)
    case (JObj kvs)
    have "visited_member k w = w" if "(k, w) \<in> set kvs" for k w
      using visited_typed_member [of w k] less json_member_size [OF that] JObj that
      by (auto simp: typed_object list_all_iff)
    then have "map (\<lambda>(k, v). (k, visited_member k v)) kvs = kvs"
      by (intro map_idI) auto
    then show ?thesis using less(2) by (simp add: JObj normalize_object typed_object Let_def)
  next
    case (JArr vs)
    then show ?thesis using less json_item_size [of _ vs] by (auto simp: list_all_iff intro!: map_idI)
  qed auto
qed

subsection \<open>Every schema in a schema\<close>

lemma schema_in_trans:
  assumes "schema_in b c" and "schema_in a b"
  shows "schema_in a c"
  using assms(1)
proof (induction rule: schema_in.induct)
  case itself
  show ?case by (rule assms(2))
next
  case (item vs s)
  then show ?case using schema_in.item by metis
next
  case (property_schema kvs ps n s)
  then show ?case using schema_in.property_schema by metis
next
  case (applied kvs k s)
  then show ?case using schema_in.applied by metis
next
  case (named kvs k ss n s)
  then show ?case using schema_in.named by metis
qed

lemma typed_tree_below: "schema_in v s \<Longrightarrow> typed_tree v \<Longrightarrow> typed_tree s"
proof (induction rule: schema_in.induct)
  case (property_schema kvs ps n s)
  then have "typed_property s" by (force simp: typed_object list_all_iff typed_member_def all_values_def)
  then show ?case by (cases s) (simp_all add: typed_property_def)
next
  case (applied kvs k s)
  then show ?case by (auto simp: typed_object list_all_iff typed_member_def APPLICATORS_def)
next
  case (named kvs k ss n s)
  then show ?case
    by (force simp: typed_object list_all_iff typed_member_def all_values_def APPLICATORS_def SCHEMA_MAPS_def)
qed (auto simp: list_all_iff)

lemma needs_type_iff: "needs_type kvs \<longleftrightarrow> \<not> (kvs = [] \<or> ''type'' \<in> fst ` set kvs \<or> ''$ref'' \<in> fst ` set kvs)"
  by (auto simp: needs_type_def map_of_eq_None_iff)

lemma typed_tree_states: "typed_tree s \<Longrightarrow> states_type s"
  by (cases s)
     (force simp: states_type_def typed_object needs_type_iff list_all_iff typed_member_def all_values_def typed_property_def)+

lemma typed_object_from:
  assumes "\<And>u. size u < size (JObj kvs) \<Longrightarrow> schema_in (JObj kvs) u \<Longrightarrow> typed_tree u" and "states_type (JObj kvs)"
  shows "typed_tree (JObj kvs)"
proof -
  note up = schema_in.itself [of "JObj kvs"]
  have below: "size u < size (JObj kvs)" if "(k, JObj ps) \<in> set kvs" "(n, u) \<in> set ps" for k ps n u
    using json_member_size [OF that(1)] json_member_size [OF that(2)] by simp
  have "typed_member k v" if m: "(k, v) \<in> set kvs" for k v
  proof -
    consider "k = ''properties''" | "k \<in> set APPLICATORS" "k \<noteq> ''properties''"
      | "k \<in> set SCHEMA_MAPS" "k \<notin> set APPLICATORS" "k \<noteq> ''properties''"
      | "k \<notin> set APPLICATORS" "k \<notin> set SCHEMA_MAPS" "k \<noteq> ''properties''" by blast
    then show ?thesis
    proof cases
      case 1
      have "typed_property p" if "v = JObj ps" "(n, p) \<in> set ps" for ps n p
      proof -
        from that m 1 have here: "(''properties'', JObj ps) \<in> set kvs" by simp
        have "typed_tree p" using assms(1) [OF below [OF here that(2)]] schema_in.property_schema [OF up here that(2)] by simp
        moreover have no_name: "p \<noteq> JStr name" for name using assms(2) here that(2) by (auto simp: states_type_def)
        ultimately show ?thesis using no_name by (cases p) (auto simp: typed_property_def)
      qed
      then show ?thesis using 1 by (cases v) (auto simp: typed_member_def all_values_def list_all_iff)
    next
      case 2
      then have "schema_in (JObj kvs) v" using schema_in.applied [OF up m] by (simp add: APPLICATORS_def)
      then show ?thesis using 2 assms(1) [of v] json_member_size [OF m] by (simp add: typed_member_def)
    next
      case 3
      have "typed_tree s" if "v = JObj ss" "(n, s) \<in> set ss" for ss n s
      proof -
        from that m have here: "(k, JObj ss) \<in> set kvs" by simp
        from 3 schema_in.named [OF up here _ that(2)] have "schema_in (JObj kvs) s" by (simp add: SCHEMA_MAPS_def)
        with assms(1) [OF below [OF here that(2)]] show ?thesis by simp
      qed
      then show ?thesis using 3 by (cases v) (auto simp: typed_member_def all_values_def list_all_iff)
    qed (simp add: typed_member_def)
  qed
  then show ?thesis using assms(2) by (auto simp: typed_object list_all_iff states_type_def needs_type_iff)
qed

lemma typed_schema_tree: "typed_schema v \<longleftrightarrow> typed_tree v"
proof
  assume "typed_tree v"
  then show "typed_schema v" using typed_tree_below typed_tree_states by (auto simp: typed_schema_def)
next
  assume "typed_schema v"
  then show "typed_tree v"
  proof (induction v rule: measure_induct_rule [of size])
    case (less v)
    have below: "typed_tree u" if "size u < size v" "schema_in v u" for u
      using less(1) [OF that(1)] less(2) schema_in_trans [OF _ that(2)] by (auto simp: typed_schema_def)
    have "states_type v" using less(2) by (auto simp: typed_schema_def intro: schema_in.itself)
    show ?case
    proof (cases v)
      case (JObj kvs)
      with below \<open>states_type v\<close> show ?thesis by (auto intro: typed_object_from)
    next
      case (JArr vs)
      then show ?thesis
        using below schema_in.item [OF schema_in.itself] by (auto simp: list_all_iff json_item_size)
    qed simp_all
  qed
qed

subsection \<open>What a member becomes\<close>

text \<open>The type a node without one is given, from the members it has.\<close>

definition conservative_type :: "(string \<times> json) list \<Rightarrow> string" where
  "conservative_type kvs =
     (if ''properties'' \<in> fst ` set kvs then ''object''
      else if ''items'' \<in> fst ` set kvs then ''array''
      else if \<exists>x xs. map_of kvs ''enum'' = Some (JArr (x # xs)) \<and> (\<exists>i f. x = JInt i \<or> x = JFloat f) then ''number''
      else if \<exists>b xs. map_of kvs ''enum'' = Some (JArr (JBool b # xs)) then ''boolean''
      else ''string'')"

lemma inferred_is_conservative: "inferred_type kvs = conservative_type kvs"
proof -
  have has: "map_of kvs k \<noteq> None \<longleftrightarrow> k \<in> fst ` set kvs" for k by (simp add: map_of_eq_None_iff)
  have "(case Option.bind (map_of kvs ''enum'') as_array of
       Some (JInt _ # _) \<Rightarrow> ''number'' | Some (JFloat _ # _) \<Rightarrow> ''number''
     | Some (JBool _ # _) \<Rightarrow> ''boolean'' | _ \<Rightarrow> ''string'') =
    (if \<exists>x xs. map_of kvs ''enum'' = Some (JArr (x # xs)) \<and> (\<exists>i f. x = JInt i \<or> x = JFloat f) then ''number''
      else if \<exists>b xs. map_of kvs ''enum'' = Some (JArr (JBool b # xs)) then ''boolean''
      else ''string'')"
  proof (cases "map_of kvs ''enum''")
    case (Some v)
    then show ?thesis by (cases v) (auto split: list.splits json.splits)
  qed simp
  then show ?thesis by (simp only: inferred_type_def conservative_type_def has)
qed

text \<open>A property that names one of the seven types becomes a schema of it, and any other name one of a string.\<close>

definition spelled_out :: "json \<Rightarrow> json" where
  "spelled_out p = (case p of
       JStr name \<Rightarrow>
         JObj [(''type'', JStr (if name = ''number'' \<or> name = ''integer'' \<or> name = ''boolean'' \<or> name = ''object''
                                  \<or> name = ''array'' \<or> name = ''null'' then name else ''string''))]
     | _ \<Rightarrow> normalize_json_schema p)"

definition member_becomes :: "string \<Rightarrow> json \<Rightarrow> json" where
  "member_becomes k v =
     (if k = ''properties'' then on_values spelled_out v
      else if k \<in> {''patternProperties'', ''$defs'', ''definitions''} then on_values normalize_json_schema v
      else if k \<in> {''items'', ''additionalProperties'', ''anyOf'', ''oneOf'', ''allOf'', ''not''} then normalize_json_schema v
      else v)"

lemma visited_becomes: "visited_member k v = member_becomes k v"
proof -
  have "visited_property = spelled_out"
    by (auto simp: fun_eq_iff visited_property_def spelled_out_def shorthand_def split: json.split)
  then show ?thesis
    by (auto simp: visited_member_def member_becomes_def APPLICATORS_def SCHEMA_MAPS_def)
qed

lemma normalized_member:
  "json_get (normalize_json_schema (JObj kvs)) k =
     (if k = ''type'' \<and> kvs \<noteq> [] \<and> ''type'' \<notin> fst ` set kvs \<and> ''$ref'' \<notin> fst ` set kvs
      then Some (JStr (conservative_type kvs)) else map_option (member_becomes k) (map_of kvs k))"
  by (auto simp: normalize_object Let_def needs_type_iff inferred_is_conservative visited_becomes map_of_revalued)

text \<open>
  C37. Normalizing a tool schema leaves every schema in it, wherever one stands, empty, typed or a reference, and no
  property of it a bare name. An object keeps its members: its properties, applicators and maps of named
  schemas are normalized in place and every other member is left as it is; only a type is added, to a node that is not
  empty, has none and refers nowhere: object beside \<open>properties\<close>, array beside \<open>items\<close>, number or boolean
  after the first value of an \<open>enum\<close>, otherwise string. A bare property becomes a schema of the type it
  names, or of a string when it names none. A schema is left as it is exactly when it was typed already, so normalizing
  twice is normalizing once.
\<close>

theorem sent_schemas_are_typed:
  "typed_schema (normalize_json_schema schema) \<and>
   (normalize_json_schema schema = schema \<longleftrightarrow> typed_schema schema) \<and>
   normalize_json_schema (normalize_json_schema schema) = normalize_json_schema schema \<and>
   json_get (normalize_json_schema (JObj kvs)) k =
     (if k = ''type'' \<and> kvs \<noteq> [] \<and> ''type'' \<notin> fst ` set kvs \<and> ''$ref'' \<notin> fst ` set kvs
      then Some (JStr (conservative_type kvs)) else map_option (member_becomes k) (map_of kvs k))"
  using normalized_is_typed [of schema] typed_is_left_alone [of schema]
    typed_is_left_alone [of "normalize_json_schema schema"] normalized_member [of kvs k]
  unfolding typed_schema_tree by metis

subsection \<open>Settings\<close>

lemma map_of_optional_member [simp]:
  "map_of (rev (optional_member key v)) k = (if k = key then v else None)"
  by (auto simp: optional_member_def split: option.splits)

lemma stated_wire_temperature:
  "json_get (openai_payload d model_id request) ''temperature'' =
     (if pd_id d = ''kimi'' then None else map_option json_f64 (rq_temperature request))"
  "json_get (responses_payload request model_id) ''temperature'' = None"
  by (auto simp: openai_payload_def responses_payload_def map_add_def split: option.splits)

lemma messages_wire_temperature:
  "anthropic_payload J document d model_id request = Inr body \<Longrightarrow>
     json_get body ''temperature'' = map_option json_f64 (rq_temperature request)"
  by (auto simp: anthropic_payload_def map_add_def split: option.splits elim!: bind_result_InrE)

text \<open>
  The temperature a body carries is the caller's or none, on every wire. It is left out for a model a
  provider has refused it for, for Kimi's chat wire, which takes only its own, and on the Responses wire, which
  carries no temperature.
\<close>

theorem refused_temperature_is_left_out:
  "case chat_payload J document learned d model_id request of
     Inr body \<Rightarrow>
       json_get body ''temperature'' =
         (if model_id \<in> set learned \<or> pd_wire d \<in> {OpenAiResponses, TypeSafeSystemOne} \<or>
             pd_wire d = OpenAiChat \<and> pd_id d = ''kimi''
          then None else map_option json_f64 (rq_temperature request))
   | Inl _ \<Rightarrow> True"
  by (cases "pd_wire d")
     (auto simp: chat_payload_def without_refused_def Let_def stated_wire_temperature
       split: sum.splits dest!: messages_wire_temperature)

subsection \<open>Conversations\<close>

lemma json_step_member: "array_index k = None \<Longrightarrow> json_step v k = json_get v k"
  by (cases v) auto

lemma json_str_at_member: "array_index k = None \<Longrightarrow> json_str_at v [k] = Option.bind (json_get v k) as_str"
  by (simp add: json_str_at_def json_at.simps json_step_member split: option.splits)

lemma json_str_at_pointer:
  "array_index a = None \<Longrightarrow> array_index b = None \<Longrightarrow> json_str_at v [a, b] = Option.bind (json_pointer v a b) as_str"
  by (simp add: json_str_at_def json_at.simps json_step_member json_pointer_def split: option.splits)

lemma called_names [simp]: "array_index ''function'' = None" "array_index ''arguments'' = None"
  "array_index ''name'' = None" "array_index ''id'' = None"
  by code_simp+

text \<open>What a call of the history says, and the block that says it on the Messages wire.\<close>

definition call_block :: "json_codec \<Rightarrow> json \<Rightarrow> json \<Rightarrow> bool" where
  "call_block J call block =
     (\<exists>i name arguments input.
        json_str_at call [''id''] = Some i \<and> json_str_at call [''function'', ''name''] = Some name \<and>
        json_str_at call [''function'', ''arguments''] = Some arguments \<and> parse_json J arguments = Inr input \<and>
        block = json_obj [(''type'', JStr ''tool_use''), (''id'', JStr i), (''name'', JStr name), (''input'', input)])"

lemma as_str_Some: "as_str v = Some s \<longleftrightarrow> v = JStr s"
  by (cases v) auto

lemma well_called_is_sent:
  assumes "well_called J call"
  shows "\<exists>block. sent_tool_use J call = Inr block \<and> call_block J call block"
  using assms
  by (auto simp: well_called_def sent_tool_use_def call_block_def json_str_at_member json_str_at_pointer
      bind_eq_Some_conv as_str_Some json_or_null_def bind_result_def ok_or_def split: option.splits sum.splits)

lemma well_called_are_sent:
  "list_all (well_called J) calls \<Longrightarrow>
     \<exists>blocks. collect_results (map (sent_tool_use J) calls) = Inr blocks \<and> list_all2 (call_block J) calls blocks"
proof (induction calls)
  case (Cons call calls)
  then show ?case using well_called_is_sent [of J call] by (auto split: sum.splits)
qed simp

definition calls_sound :: "json_codec \<Rightarrow> message list \<Rightarrow> bool" where
  "calls_sound J messages = list_all (\<lambda>m. list_all (well_called J) (calls_of m)) messages"

lemma sound_history_calls: "history_sound J messages \<Longrightarrow> calls_sound J messages"
  by (auto simp: history_sound_def calls_sound_def list_all_length)

lemma sound_message_is_sent:
  "list_all (well_called J) (calls_of m) \<Longrightarrow> \<exists>sent. sent_anthropic_message J m = Inr sent"
  using well_called_are_sent [of J "calls_of m"]
  by (auto simp: sent_anthropic_message_def anthropic_content_def calls_of_def bind_result_def
      split: option.splits)

lemma sound_messages_are_sent:
  "calls_sound J messages \<Longrightarrow> \<exists>sent. collect_results (map (sent_anthropic_message J) messages) = Inr sent"
proof (induction messages)
  case (Cons m messages)
  then show ?case using sound_message_is_sent [of J m] by (auto simp: calls_sound_def split: sum.splits)
qed simp

text \<open>A request is sendable when only an unknown answer length can keep it off a wire.\<close>

definition sendable ::
  "json_codec \<Rightarrow> (string, json) result \<Rightarrow> string list \<Rightarrow> provider_descriptor \<Rightarrow> string \<Rightarrow> model_request \<Rightarrow> bool" where
  "sendable J document learned d model_id request =
     (case chat_payload J document learned d model_id request of
        Inr _ \<Rightarrow> True
      | Inl err \<Rightarrow>
          pd_wire d = AnthropicMessages \<and> rq_max_tokens request = None \<and>
          required_output_limit document (pd_id d) model_id None = Inl err)"

lemma sound_requests_are_sendable:
  assumes "calls_sound J (rq_messages request)"
  shows "sendable J document learned d model_id request"
proof (cases "pd_wire d = AnthropicMessages")
  case True
  let ?request = "without_refused learned model_id request"
  have kept: "rq_messages ?request = rq_messages request" "rq_max_tokens ?request = rq_max_tokens request"
    by (simp_all add: without_refused_def)
  obtain sent where "sent_anthropic_messages J ?request = Inr sent"
    using sound_messages_are_sent [OF assms] by (auto simp: sent_anthropic_messages_def kept)
  then show ?thesis using True
    by (auto simp: sendable_def chat_payload_def anthropic_payload_def kept bind_result_def
        required_output_limit_def Let_def split: sum.splits option.splits)
qed (auto simp: sendable_def chat_payload_def Let_def split: wire_protocol.splits)

lemma split_system_kept: "set (snd (split_system_from system ms)) \<subseteq> set ms"
proof (induction ms arbitrary: system)
  case (Cons m ms)
  show ?case using Cons [of system] Cons [of "as_str (msg_content m)"] by (auto split: prod.splits)
qed simp

lemma chat_call_sound:
  assumes "chat_call J req = Inr call"
  shows "calls_sound J (rq_messages (ic_request call))"
proof -
  obtain messages where sound: "history_sound J messages"
    and taken: "rq_messages (ic_request call) = snd (split_system_message messages)"
    using assms unfolding chat_call_def
    by (auto simp: history_check_core Let_def split: if_splits option.splits prod.splits elim!: bind_result_InrE)
  show ?thesis using sound_history_calls [OF sound] split_system_kept [of None messages]
    by (auto simp: taken split_system_message_def calls_sound_def list_all_iff)
qed

text \<open>
  C36. Whatever format a call was taken in, it can be written on the wire of every provider: nothing of its
  history is refused once the door let it in. The one thing that can be missing is an answer length, on the
  Messages wire, for a call that states none and a model nothing states a limit of; a Messages call states
  its own and is never refused.
\<close>

theorem accepted_calls_can_be_sent:
  "(case anthropic_request J body of
      Inr call \<Rightarrow> \<exists>sent. chat_payload J document learned d model_id (ic_request call) = Inr sent
    | Inl _ \<Rightarrow> True) \<and>
   (case responses_request J body of
      Inr call \<Rightarrow> sendable J document learned d model_id (ic_request call)
    | Inl _ \<Rightarrow> True) \<and>
   (case chat_call J chat of
      Inr call \<Rightarrow> sendable J document learned d model_id (ic_request call)
    | Inl _ \<Rightarrow> True)"
proof (intro conjI)
  show "case anthropic_request J body of
      Inr call \<Rightarrow> \<exists>sent. chat_payload J document learned d model_id (ic_request call) = Inr sent | Inl _ \<Rightarrow> True"
  proof (cases "anthropic_request J body")
    case (Inr call)
    note taken = anthropic_request_ok [OF Inr]
    then have "sendable J document learned d model_id (ic_request call)"
      by (intro sound_requests_are_sendable sound_history_calls) simp
    with taken show ?thesis using Inr by (auto simp: sendable_def split: sum.splits)
  qed simp
  show "case responses_request J body of
      Inr call \<Rightarrow> sendable J document learned d model_id (ic_request call) | Inl _ \<Rightarrow> True"
    by (auto split: sum.splits intro!: sound_requests_are_sendable sound_history_calls dest!: responses_request_ok)
  show "case chat_call J chat of
      Inr call \<Rightarrow> sendable J document learned d model_id (ic_request call) | Inl _ \<Rightarrow> True"
    by (auto split: sum.splits intro!: sound_requests_are_sendable chat_call_sound)
qed

end
