(* ===== verification/Provider_Answers.thy ===== *)
theory Provider_Answers
  imports Dialect_Promises Route_Effects
begin

section \<open>What a provider answered\<close>

text \<open>
  The answer side of \<open>providers/adapter/dialect/\<close>, \<open>adapter/usage/mod.rs\<close> and \<open>call/outcome/refusal.rs\<close>: one buffered answer of
  each wire read into a \<open>model_response\<close>, and a refused one classified by its status. \<open>bad_call\<close> is the sentence
  \<open>serde_json\<close> says of a value that is no \<open>ToolCall\<close>; a status is its number.
\<close>

definition attempted_failure :: "string \<Rightarrow> refusal \<Rightarrow> model_response" where
  "attempted_failure route_id refusal = (from_refusal route_id refusal)\<lparr>mr_attempts := 1\<rparr>"

definition provider_failure :: "string \<Rightarrow> string \<Rightarrow> model_response" where
  "provider_failure route_id cause = attempted_failure route_id \<lparr>rf_class = ProviderFailure, rf_message = cause\<rparr>"

subsection \<open>Token counts\<close>

definition usage_count :: "json_codec \<Rightarrow> json option \<Rightarrow> string \<Rightarrow> (string, 32 word option) result" where
  "usage_count J v side =
     (case v of
        None \<Rightarrow> Inr None
      | Some JNull \<Rightarrow> Inr None
      | Some count_stated \<Rightarrow>
          (case Provider_Registry.as_u64 count_stated of
             None \<Rightarrow> Inl (''the provider stated '' @ side @ '' tokens as '' @ show_json J count_stated @ '', not a whole number'')
           | Some n \<Rightarrow>
               (if unat n < 2 ^ 32 then Inr (Some (ucast n))
                else Inl (''the provider stated '' @ show_nat (unat n) @ '' '' @ side @
                       '' tokens, more than a count holds: out of range integral type conversion attempted''))))"

definition answer_usage :: "json_codec \<Rightarrow> json option \<Rightarrow> json option \<Rightarrow> (string, token_usage option) result" where
  "answer_usage J input out =
     bind_result (usage_count J input ''input'') (\<lambda>i.
     bind_result (usage_count J out ''output'') (\<lambda>n.
     Inr (case (i, n) of
            (Some a, Some b) \<Rightarrow> Some \<lparr>tu_input_tokens = a, tu_output_tokens = b\<rparr>
          | _ \<Rightarrow> None)))"

subsection \<open>The chat wire\<close>

text \<open>The derived \<open>Deserialize\<close> of \<open>ToolCall\<close>: an object with its fields, or a sequence of exactly them.\<close>

definition read_call_function :: "json \<Rightarrow> (string \<times> string) option" where
  "read_call_function v =
     (case v of
        JObj kvs \<Rightarrow>
          Option.bind (Option.bind (map_of kvs ''name'') as_str) (\<lambda>name.
            map_option (Pair name) (Option.bind (map_of kvs ''arguments'') as_str))
      | JArr [name, arguments] \<Rightarrow> Option.bind (as_str name) (\<lambda>n. map_option (Pair n) (as_str arguments))
      | _ \<Rightarrow> None)"

definition tool_call_of :: "json option \<Rightarrow> json option \<Rightarrow> json option \<Rightarrow> tool_call option" where
  "tool_call_of i kind function_value =
     Option.bind (Option.bind i as_str) (\<lambda>call_id.
     Option.bind (Option.bind kind as_str) (\<lambda>call_type.
     map_option (\<lambda>(name, arguments). \<lparr>tc_id = call_id, tc_call_type = call_type, tc_name = name, tc_arguments = arguments\<rparr>)
       (Option.bind function_value read_call_function)))"

definition read_tool_call :: "json \<Rightarrow> tool_call option" where
  "read_tool_call v =
     (case v of
        JObj kvs \<Rightarrow> tool_call_of (map_of kvs ''id'') (map_of kvs ''type'') (map_of kvs ''function'')
      | JArr [i, kind, function_value] \<Rightarrow> tool_call_of (Some i) (Some kind) (Some function_value)
      | _ \<Rightarrow> None)"

definition read_tool_calls :: "(json \<Rightarrow> string) \<Rightarrow> json list \<Rightarrow> (string, tool_call list) result" where
  "read_tool_calls bad_call calls = collect_results (map (\<lambda>c. ok_or (bad_call c) (read_tool_call c)) calls)"

definition openai_content :: "json_codec \<Rightarrow> json \<Rightarrow> (string, string) result" where
  "openai_content J choice =
     (case json_get choice ''content'' of
        Some (JStr told) \<Rightarrow> Inr told
      | None \<Rightarrow> Inr []
      | Some JNull \<Rightarrow> Inr []
      | Some other \<Rightarrow> Inl (''the provider answered message content that is not text: '' @ show_json J other))"

definition openai_calls :: "(json \<Rightarrow> string) \<Rightarrow> json \<Rightarrow> (string, tool_call list option) result" where
  "openai_calls bad_call choice =
     (case Option.bind (json_get choice ''tool_calls'') as_array of
        None \<Rightarrow> Inr None
      | Some calls \<Rightarrow>
          (case read_tool_calls bad_call calls of
             Inr read \<Rightarrow> Inr (if read = [] then None else Some read)
           | Inl err \<Rightarrow> Inl (''the provider answered a tool call this gateway cannot read: '' @ err)))"

definition model_response_from_openai ::
  "json_codec \<Rightarrow> (json \<Rightarrow> string) \<Rightarrow> string \<Rightarrow> json \<Rightarrow> f64 \<Rightarrow> model_response" where
  "model_response_from_openai J bad_call route_id body elapsed_ms =
     (case json_at body [''choices'', ''0'', ''message''] of
        None \<Rightarrow> provider_failure route_id (''the provider answered without choices[0].message: '' @ show_json J body)
      | Some choice \<Rightarrow>
          (case openai_content J choice of
             Inl cause \<Rightarrow> provider_failure route_id cause
           | Inr content \<Rightarrow>
               (case openai_calls bad_call choice of
                  Inl cause \<Rightarrow> provider_failure route_id cause
                | Inr tool_calls \<Rightarrow>
                    (if content = [] \<and> tool_calls = None
                     then provider_failure route_id
                            (''the provider answered with neither content nor tool calls: '' @ show_json J body)
                     else (case answer_usage J (json_pointer body ''usage'' ''prompt_tokens'')
                                  (json_pointer body ''usage'' ''completion_tokens'') of
                             Inr usage \<Rightarrow> answered route_id content usage elapsed_ms tool_calls
                           | Inl cause \<Rightarrow> provider_failure route_id cause)))))"

subsection \<open>The Messages wire\<close>

fun anthropic_blocks ::
  "json_codec \<Rightarrow> json list \<Rightarrow> string \<times> tool_call list \<Rightarrow> (string, string \<times> tool_call list) result" where
  "anthropic_blocks J [] read = Inr read"
| "anthropic_blocks J (block # blocks) (told, calls) =
     (let kind = Option.bind (json_get block ''type'') as_str
      in if kind = Some ''text'' then
           (case Option.bind (json_get block ''text'') as_str of
              Some part \<Rightarrow> anthropic_blocks J blocks (told @ part, calls)
            | None \<Rightarrow> Inl (''the provider answered a text block without its text: '' @ show_json J block))
         else if kind = Some ''tool_use'' then
           (case (Option.bind (json_get block ''id'') as_str, Option.bind (json_get block ''name'') as_str,
                  json_get block ''input'') of
              (Some i, Some name, Some input) \<Rightarrow>
                anthropic_blocks J blocks
                  (told, calls @ [\<lparr>tc_id = i, tc_call_type = ''function'', tc_name = name, tc_arguments = show_json J input\<rparr>])
            | _ \<Rightarrow> Inl (''the provider answered a tool_use block without its id, name or input: '' @ show_json J block))
         else anthropic_blocks J blocks (told, calls))"

text \<open>The call of the answer tool, taken out of the calls: its arguments are the answer.\<close>

fun taken_call :: "string \<Rightarrow> tool_call list \<Rightarrow> (string \<times> tool_call list) option" where
  "taken_call name [] = None"
| "taken_call name (call # calls) =
     (if tc_name call = name then Some (tc_arguments call, calls)
      else map_option (\<lambda>(arguments, rest). (arguments, call # rest)) (taken_call name calls))"

definition model_response_from_anthropic ::
  "json_codec \<Rightarrow> string \<Rightarrow> json \<Rightarrow> f64 \<Rightarrow> response_schema option \<Rightarrow> model_response" where
  "model_response_from_anthropic J route_id body elapsed_ms answer_schema =
     (case Option.bind (json_get body ''content'') as_array of
        None \<Rightarrow> provider_failure route_id (''the provider answered without a content list: '' @ show_json J body)
      | Some blocks \<Rightarrow>
          (case anthropic_blocks J blocks ([], []) of
             Inl cause \<Rightarrow> provider_failure route_id cause
           | Inr (told, calls) \<Rightarrow>
               (let (told, calls) =
                  (case Option.bind answer_schema (\<lambda>schema. taken_call (rs_name schema) calls) of
                     Some (arguments, rest) \<Rightarrow> (arguments, rest)
                   | None \<Rightarrow> (told, calls))
                in case answer_usage J (json_pointer body ''usage'' ''input_tokens'')
                          (json_pointer body ''usage'' ''output_tokens'') of
                     Inl cause \<Rightarrow> provider_failure route_id cause
                   | Inr usage \<Rightarrow>
                       answered route_id told usage elapsed_ms (if calls = [] then None else Some calls))))"

subsection \<open>The Responses wire\<close>

definition stream_failure_class :: "json option \<Rightarrow> provider_refusal" where
  "stream_failure_class err =
     (case Option.bind (Option.bind err (\<lambda>e. json_get e ''code'')) as_str of
        None \<Rightarrow> ProviderFailure
      | Some code \<Rightarrow>
          (if code = ''rate_limit_exceeded'' \<or> code = ''slow_down'' then RateLimited
           else if code = ''insufficient_quota'' then QuotaExhausted
           else if code = ''context_length_exceeded'' then ContextLengthExceeded
           else if code = ''server_error'' then DependencyUnavailable
           else ProviderFailure))"

definition call_text :: "json_codec \<Rightarrow> json \<Rightarrow> json option \<Rightarrow> string \<Rightarrow> (string, string) result" where
  "call_text J item v part =
     ok_or (''the provider answered a function_call without its '' @ part @ '': '' @ show_json J item) (Option.bind v as_str)"

definition function_call :: "json_codec \<Rightarrow> json \<Rightarrow> (string, tool_call) result" where
  "function_call J item =
     bind_result (call_text J item (or_option (json_get item ''call_id'') (json_get item ''id'')) ''call_id'') (\<lambda>i.
     bind_result (call_text J item (json_get item ''name'') ''name'') (\<lambda>name.
     bind_result (call_text J item (json_get item ''arguments'') ''arguments'') (\<lambda>arguments.
     Inr \<lparr>tc_id = i, tc_call_type = ''function'', tc_name = name, tc_arguments = arguments\<rparr>)))"

definition parts_text :: "json \<Rightarrow> string" where
  "parts_text item =
     concat (List.map_filter (\<lambda>part. Option.bind (json_get part ''text'') as_str)
       (case Option.bind (json_get item ''content'') as_array of Some parts \<Rightarrow> parts | None \<Rightarrow> []))"

text \<open>One output item: text of a message or a call, read by both \<open>output_item.done\<close> and the final \<open>output\<close>.\<close>

definition output_item ::
  "json_codec \<Rightarrow> json \<Rightarrow> string \<times> tool_call list \<Rightarrow> (string, string \<times> tool_call list) result" where
  "output_item J item read =
     (case read of (told, calls) \<Rightarrow>
        (let kind = Option.bind (json_get item ''type'') as_str
         in if kind = Some ''message'' then Inr (told @ parts_text item, calls)
            else if kind = Some ''function_call''
            then map_sum id (\<lambda>call. (told, calls @ [call])) (function_call J item)
            else Inr (told, calls)))"

fun output_items ::
  "json_codec \<Rightarrow> json list \<Rightarrow> string \<times> tool_call list \<Rightarrow> (string, string \<times> tool_call list) result" where
  "output_items J [] read = Inr read"
| "output_items J (item # items) read = bind_result (output_item J item read) (output_items J items)"

record stream_reading =
  sr_content :: string
  sr_completed :: "json option"
  sr_failure :: "(string \<times> provider_refusal) option"
  sr_done :: "string \<times> tool_call list"

definition failed_event :: "json_codec \<Rightarrow> json \<Rightarrow> string \<times> provider_refusal" where
  "failed_event J event =
     (let err = json_pointer event ''response'' ''error''
      in (case Option.bind (Option.bind err (\<lambda>e. json_get e ''message'')) as_str of
            Some message \<Rightarrow> message
          | None \<Rightarrow> ''codex response failed without a message: '' @ show_json J event,
          stream_failure_class err))"

definition error_event :: "json_codec \<Rightarrow> json \<Rightarrow> string \<times> provider_refusal" where
  "error_event J event =
     (case Option.bind (json_get event ''message'') as_str of
        Some message \<Rightarrow> message
      | None \<Rightarrow> ''codex stream error without a message: '' @ show_json J event,
      stream_failure_class (Some event))"

definition read_event :: "json_codec \<Rightarrow> json \<Rightarrow> stream_reading \<Rightarrow> (string, stream_reading) result" where
  "read_event J event s =
     (case Option.bind (json_get event ''type'') as_str of
        None \<Rightarrow> Inr s
      | Some kind \<Rightarrow>
          (if kind = ''response.output_text.delta'' then
             Inr (case Option.bind (json_get event ''delta'') as_str of
                    Some delta \<Rightarrow> s\<lparr>sr_content := sr_content s @ delta\<rparr> | None \<Rightarrow> s)
           else if kind = ''response.output_item.done'' then
             (case json_get event ''item'' of
                None \<Rightarrow> Inr s
              | Some item \<Rightarrow> map_sum id (\<lambda>read. s\<lparr>sr_done := read\<rparr>) (output_item J item (sr_done s)))
           else if kind = ''response.completed'' \<or> kind = ''response.incomplete'' then
             Inr (s\<lparr>sr_completed := json_get event ''response''\<rparr>)
           else if kind = ''response.failed'' then Inr (s\<lparr>sr_failure := Some (failed_event J event)\<rparr>)
           else if kind = ''error'' then Inr (s\<lparr>sr_failure := Some (error_event J event)\<rparr>)
           else Inr s))"

text \<open>The data of the lines that carry an event.\<close>

definition event_data :: "string \<Rightarrow> string list" where
  "event_data body =
     filter (\<lambda>d. d \<noteq> [] \<and> d \<noteq> ''[DONE]'') (List.map_filter (\<lambda>line. map_option trim (strip_prefix ''data:'' line)) (str_lines body))"

fun read_events :: "json_codec \<Rightarrow> string list \<Rightarrow> stream_reading \<Rightarrow> (string, stream_reading) result" where
  "read_events J [] s = Inr s"
| "read_events J (data # rest) s =
     (case parse_json J data of
        Inl err \<Rightarrow> Inl (''the provider stream sent a non-JSON event ('' @ err @ ''): '' @ data)
      | Inr event \<Rightarrow> bind_result (read_event J event s) (read_events J rest))"

definition new_calls :: "tool_call list \<Rightarrow> tool_call list \<Rightarrow> tool_call list" where
  "new_calls calls done_calls =
     foldl (\<lambda>acc call. if list_ex (\<lambda>c. tc_id c = tc_id call) acc then acc else acc @ [call]) calls done_calls"

definition completed_answer :: "json_codec \<Rightarrow> string \<Rightarrow> stream_reading \<Rightarrow> json \<Rightarrow> f64 \<Rightarrow> model_response" where
  "completed_answer J route_id s completed elapsed_ms =
     (case output_items J (case Option.bind (json_get completed ''output'') as_array of Some out \<Rightarrow> out | None \<Rightarrow> []) ([], []) of
        Inl cause \<Rightarrow> provider_failure route_id cause
      | Inr (told, calls) \<Rightarrow>
          (let content = (if told \<noteq> [] then told else sr_content s);
               content = (if content = [] \<and> fst (sr_done s) \<noteq> [] then fst (sr_done s) else content);
               tool_calls = new_calls calls (snd (sr_done s));
               usage = json_get completed ''usage''
           in case answer_usage J (Option.bind usage (\<lambda>u. json_get u ''input_tokens''))
                     (Option.bind usage (\<lambda>u. json_get u ''output_tokens'')) of
                Inl cause \<Rightarrow> provider_failure route_id cause
              | Inr usage_read \<Rightarrow>
                  answered route_id content usage_read elapsed_ms (if tool_calls = [] then None else Some tool_calls)))"

definition model_response_from_responses_stream :: "json_codec \<Rightarrow> string \<Rightarrow> string \<Rightarrow> f64 \<Rightarrow> model_response" where
  "model_response_from_responses_stream J route_id body elapsed_ms =
     (case read_events J (event_data body) \<lparr>sr_content = [], sr_completed = None, sr_failure = None, sr_done = ([], [])\<rparr> of
        Inl cause \<Rightarrow> provider_failure route_id cause
      | Inr s \<Rightarrow>
          (case (sr_failure s, sr_completed s) of
             (Some (message, c), _) \<Rightarrow>
               attempted_failure route_id \<lparr>rf_class = c, rf_message = contract_kind c @ '': '' @ message\<rparr>
           | (None, None) \<Rightarrow>
               provider_failure route_id
                 ''the provider stream ended without response.completed or response.incomplete''
           | (None, Some completed) \<Rightarrow> completed_answer J route_id s completed elapsed_ms))"

subsection \<open>Refused answers\<close>

definition INSUFFICIENT_QUOTA :: string where "INSUFFICIENT_QUOTA = ''insufficient_quota''"

definition CONTEXT_LENGTH_EXCEEDED :: string where "CONTEXT_LENGTH_EXCEEDED = ''context_length_exceeded''"

definition error_names :: "json_codec \<Rightarrow> string \<Rightarrow> string \<Rightarrow> bool" where
  "error_names J body wanted =
     (case parse_json J body of
        Inl _ \<Rightarrow> False
      | Inr v \<Rightarrow>
          Option.bind (json_pointer v ''error'' ''code'') as_str = Some wanted \<or>
          Option.bind (json_pointer v ''error'' ''type'') as_str = Some wanted)"

definition refusal_class :: "json_codec \<Rightarrow> nat \<Rightarrow> string \<Rightarrow> provider_refusal" where
  "refusal_class J status body =
     (if status = 429 then (if error_names J body INSUFFICIENT_QUOTA then QuotaExhausted else RateLimited)
      else if status = 413 \<or> (400 \<le> status \<and> status < 500 \<and> error_names J body CONTEXT_LENGTH_EXCEEDED)
      then ContextLengthExceeded
      else if status = 401 \<or> status = 403 then Authentication
      else if 500 \<le> status \<and> status < 600 then DependencyUnavailable
      else ProviderFailure)"

definition refusal_sentence :: "json_codec \<Rightarrow> nat \<Rightarrow> string \<Rightarrow> string" where
  "refusal_sentence J status body =
     (let said = trim body
      in if said = [] then ''provider returned HTTP '' @ show_nat status @ '' with an empty body''
         else (case parse_json J said of
                 Inr v \<Rightarrow>
                   (case Option.bind (or_option (json_pointer v ''error'' ''message'')
                           (or_option (json_get v ''message'') (or_option (json_get v ''detail'') (json_get v ''error'')))) as_str of
                      Some message \<Rightarrow> message
                    | None \<Rightarrow> said)
               | Inl not_json \<Rightarrow> said @ '' (the body is not JSON: '' @ not_json @ '')''))"

definition provider_refused :: "json_codec \<Rightarrow> nat \<Rightarrow> string \<Rightarrow> refusal" where
  "provider_refused J status body =
     \<lparr>rf_class = refusal_class J status body,
      rf_message = contract_kind (refusal_class J status body) @ '': '' @ refusal_sentence J status body\<rparr>"

definition provider_error :: "json_codec \<Rightarrow> string \<Rightarrow> nat \<Rightarrow> string \<Rightarrow> model_response" where
  "provider_error J route_id status body = attempted_failure route_id (provider_refused J status body)"

subsection \<open>What an answer holds\<close>

lemma failed_not_success [simp]:
  "mr_refusal (provider_failure route_id cause) = Some \<lparr>rf_class = ProviderFailure, rf_message = cause\<rparr>"
  "mr_refusal (attempted_failure route_id r) = Some r"
  "mr_refusal (answered route_id content usage elapsed_ms calls) = None"
  by (simp_all add: provider_failure_def attempted_failure_def from_refusal_def answered_def)

definition choice_text :: "json \<Rightarrow> string" where
  "choice_text choice = (case json_get choice ''content'' of Some (JStr told) \<Rightarrow> told | _ \<Rightarrow> [])"

definition choice_calls :: "json \<Rightarrow> json list" where
  "choice_calls choice = (case Option.bind (json_get choice ''tool_calls'') as_array of Some calls \<Rightarrow> calls | None \<Rightarrow> [])"

lemma openai_content_read: "openai_content J choice = Inr content \<Longrightarrow> content = choice_text choice"
  by (auto simp: openai_content_def choice_text_def split: option.splits json.splits)

lemma openai_calls_read:
  assumes "openai_calls bad_call choice = Inr calls"
  obtains read where "calls = (if read = [] then None else Some read)" and "map read_tool_call (choice_calls choice) = map Some read"
proof (cases "Option.bind (json_get choice ''tool_calls'') as_array")
  case (Some cs)
  then obtain read where read: "read_tool_calls bad_call cs = Inr read"
    and calls: "calls = (if read = [] then None else Some read)"
    using assms by (auto simp: openai_calls_def split: sum.splits)
  have "map read_tool_call cs = map Some read"
    using read unfolding read_tool_calls_def collect_results_Inr
    by (induction rule: list_all2_induct) (auto simp: ok_or_def split: option.splits)
  then show thesis using calls Some that by (simp add: choice_calls_def)
next
  case None
  then show thesis using assms that [of "[]"] by (simp add: openai_calls_def choice_calls_def)
qed

text \<open>
  An answer of the chat wire that counts as one says something: the text of its first choice, calls or both, each call the
  model made and none it did not.
\<close>

theorem chat_answer_says_something:
  "let response = model_response_from_openai J bad_call route_id body elapsed_ms
   in case mr_refusal response of
        None \<Rightarrow>
          (\<exists>choice read. json_at body [''choices'', ''0'', ''message''] = Some choice \<and>
             mr_content response = choice_text choice \<and> mr_tool_calls response = (if read = [] then None else Some read) \<and>
             map read_tool_call (choice_calls choice) = map Some read \<and> \<not> (mr_content response = [] \<and> read = []))
      | Some _ \<Rightarrow> True"
proof (cases "mr_refusal (model_response_from_openai J bad_call route_id body elapsed_ms)")
  case None
  let ?response = "model_response_from_openai J bad_call route_id body elapsed_ms"
  obtain choice content calls usage where
    "json_at body [''choices'', ''0'', ''message''] = Some choice"
    and content: "openai_content J choice = Inr content" and calls: "openai_calls bad_call choice = Inr calls"
    and "\<not> (content = [] \<and> calls = None)" and "?response = answered route_id content usage elapsed_ms calls"
    using None unfolding model_response_from_openai_def
    by (auto split: option.splits sum.splits if_splits)
  moreover obtain read where "calls = (if read = [] then None else Some read)"
    and "map read_tool_call (choice_calls choice) = map Some read"
    using openai_calls_read [OF calls] .
  ultimately show ?thesis using openai_content_read [OF content] None by (auto simp: answered_def Let_def)
qed (simp add: Let_def)

text \<open>What the events of a Responses stream say, and what the reader makes of them.\<close>

definition event_kind :: "json \<Rightarrow> string" where
  "event_kind event = (case Option.bind (json_get event ''type'') as_str of Some kind \<Rightarrow> kind | None \<Rightarrow> [])"

definition reports_failure :: "json \<Rightarrow> bool" where
  "reports_failure event = (event_kind event \<in> {''response.failed'', ''error''})"

definition delta_text :: "json \<Rightarrow> string" where
  "delta_text event =
     (if event_kind event = ''response.output_text.delta''
      then (case Option.bind (json_get event ''delta'') as_str of Some d \<Rightarrow> d | None \<Rightarrow> []) else [])"

definition done_item :: "json \<Rightarrow> json option" where
  "done_item event = (if event_kind event = ''response.output_item.done'' then json_get event ''item'' else None)"

text \<open>The response of the last event that ends the stream.\<close>

definition final_response :: "json list \<Rightarrow> json option" where
  "final_response events =
     (case filter (\<lambda>e. event_kind e \<in> {''response.completed'', ''response.incomplete''}) (rev events) of
        e # _ \<Rightarrow> json_get e ''response''
      | [] \<Rightarrow> None)"

definition final_output :: "json \<Rightarrow> json list" where
  "final_output completed = (case Option.bind (json_get completed ''output'') as_array of Some out \<Rightarrow> out | None \<Rightarrow> [])"

definition stream_says :: "json_codec \<Rightarrow> json list \<Rightarrow> stream_reading \<Rightarrow> bool" where
  "stream_says J events s =
     (sr_content s = concat (map delta_text events) \<and> sr_completed s = final_response events \<and>
      (sr_failure s = None \<longleftrightarrow> list_all (\<lambda>e. \<not> reports_failure e) events) \<and>
      output_items J (List.map_filter done_item events) ([], []) = Inr (sr_done s))"

lemma output_items_append:
  "output_items J (xs @ ys) read = bind_result (output_items J xs read) (output_items J ys)"
  by (induction xs arbitrary: read) (auto simp: bind_result_def split: sum.splits)

lemma map_filter_append: "List.map_filter f (xs @ ys) = List.map_filter f xs @ List.map_filter f ys"
  by (simp add: List.map_filter_def)

lemma final_response_snoc:
  "final_response (events @ [event]) =
     (if event_kind event \<in> {''response.completed'', ''response.incomplete''} then json_get event ''response''
      else final_response events)"
  by (simp add: final_response_def)

lemma read_event_kind:
  "read_event J event s =
     (if event_kind event = ''response.output_text.delta'' then Inr (s\<lparr>sr_content := sr_content s @ delta_text event\<rparr>)
      else if event_kind event = ''response.output_item.done'' then
        (case json_get event ''item'' of
           None \<Rightarrow> Inr s
         | Some item \<Rightarrow> map_sum id (\<lambda>read. s\<lparr>sr_done := read\<rparr>) (output_item J item (sr_done s)))
      else if event_kind event \<in> {''response.completed'', ''response.incomplete''} then
        Inr (s\<lparr>sr_completed := json_get event ''response''\<rparr>)
      else if event_kind event = ''response.failed'' then Inr (s\<lparr>sr_failure := Some (failed_event J event)\<rparr>)
      else if event_kind event = ''error'' then Inr (s\<lparr>sr_failure := Some (error_event J event)\<rparr>)
      else Inr s)"
proof (cases "Option.bind (json_get event ''type'') as_str")
  case (Some kind)
  then have "event_kind event = kind" by (simp add: event_kind_def)
  then show ?thesis using Some by (simp add: read_event_def delta_text_def split: option.splits)
qed (simp add: event_kind_def read_event_def)

lemma read_event_says:
  assumes says: "stream_says J events s" and one: "read_event J event s = Inr s'"
  shows "stream_says J (events @ [event]) s'"
proof -
  note defs = stream_says_def final_response_snoc reports_failure_def delta_text_def done_item_def
    map_filter_append output_items_append List.map_filter_simps
  consider "event_kind event = ''response.output_text.delta''" | "event_kind event = ''response.output_item.done''"
    | "event_kind event = ''response.completed''" | "event_kind event = ''response.incomplete''"
    | "event_kind event = ''response.failed''" | "event_kind event = ''error''"
    | "event_kind event \<notin> {''response.output_text.delta'', ''response.output_item.done'', ''response.completed'',
         ''response.incomplete'', ''response.failed'', ''error''}"
    by blast
  then show ?thesis
  proof cases
    case 2
    then show ?thesis using says one
      by (cases "json_get event ''item''"; cases "output_item J (the (json_get event ''item'')) (sr_done s)")
         (auto simp: read_event_kind defs bind_result_def)
  qed (use says one in \<open>auto simp: read_event_kind defs bind_result_def\<close>)
qed

lemma read_events_say:
  assumes "read_events J data s = Inr s'" and "stream_says J events s"
  shows "\<exists>more. list_all2 (\<lambda>d e. parse_json J d = Inr e) data more \<and> stream_says J (events @ more) s'"
  using assms
proof (induction data arbitrary: s events)
  case (Cons d data)
  from Cons.prems(1) obtain event s1 where parsed: "parse_json J d = Inr event"
    and one: "read_event J event s = Inr s1" and rest: "read_events J data s1 = Inr s'"
    by (auto split: sum.splits elim!: bind_result_InrE)
  from Cons.IH [OF rest read_event_says [OF Cons.prems(2) one]] parsed show ?case by fastforce
qed auto

lemma new_calls_ids: "set (map tc_id (new_calls calls added)) = set (map tc_id (calls @ added))"
proof -
  let ?add = "\<lambda>acc call. if list_ex (\<lambda>c. tc_id c = tc_id call) acc then acc else acc @ [call]"
  have "tc_id ` set (foldl ?add calls added) = tc_id ` set calls \<union> tc_id ` set added"
  proof (induction added arbitrary: calls)
    case (Cons call added)
    then show ?case by (auto simp: list_ex_iff image_iff) (metis)+
  qed simp
  then show ?thesis by (simp add: new_calls_def image_Un)
qed

definition first_told :: "string \<Rightarrow> string \<Rightarrow> string \<Rightarrow> string" where
  "first_told final deltas finished = (if final \<noteq> [] then final else if deltas \<noteq> [] then deltas else finished)"

lemma first_told_eq:
  "(let content = (if final \<noteq> [] then final else deltas)
    in if content = [] \<and> finished \<noteq> [] then finished else content) = first_told final deltas finished"
  by (auto simp: first_told_def)

lemma answered_calls [simp]:
  "tool_calls_from_response (answered route_id content usage elapsed_ms (if calls = [] then None else Some calls)) = calls"
  "mr_content (answered route_id content usage elapsed_ms stated_calls) = content"
  by (simp_all add: answered_def tool_calls_from_response_def)

lemma completed_answer_holds:
  assumes "mr_refusal (completed_answer J route_id s completed elapsed_ms) = None"
  obtains told calls where "output_items J (final_output completed) ([], []) = Inr (told, calls)"
    and "set (map tc_id (tool_calls_from_response (completed_answer J route_id s completed elapsed_ms))) =
      set (map tc_id (calls @ snd (sr_done s)))"
    and "mr_content (completed_answer J route_id s completed elapsed_ms) =
      first_told told (sr_content s) (fst (sr_done s))"
proof -
  obtain told calls where out: "output_items J (final_output completed) ([], []) = Inr (told, calls)"
    using assms by (cases "output_items J (final_output completed) ([], [])")
      (auto simp: completed_answer_def final_output_def)
  obtain usage where "completed_answer J route_id s completed elapsed_ms =
      answered route_id (first_told told (sr_content s) (fst (sr_done s))) usage
        elapsed_ms (if new_calls calls (snd (sr_done s)) = [] then None else Some (new_calls calls (snd (sr_done s))))"
    using assms out
    by (auto simp: completed_answer_def final_output_def Let_def first_told_eq [unfolded Let_def] split: sum.splits)
  then show thesis by (intro that [OF out]) (simp_all add: new_calls_ids del: set_map)
qed

text \<open>
  C38. A buffered Responses stream counts as an answer only when it is whole: every event was read, none reported a failure, and
  the last event that ends a stream carries its response. The answer then has every call the stream stated,
  as an item on its own or in the final output, and the text of the final output, else of the deltas, else of the finished
  items.
\<close>

theorem cut_stream_is_no_answer:
  "let response = model_response_from_responses_stream J route_id body elapsed_ms
   in case mr_refusal response of
        None \<Rightarrow>
          (\<exists>events completed told calls done_text done_calls.
             list_all2 (\<lambda>d e. parse_json J d = Inr e) (event_data body) events \<and>
             list_all (\<lambda>e. \<not> reports_failure e) events \<and> final_response events = Some completed \<and>
             output_items J (final_output completed) ([], []) = Inr (told, calls) \<and>
             output_items J (List.map_filter done_item events) ([], []) = Inr (done_text, done_calls) \<and>
             set (map tc_id (tool_calls_from_response response)) = set (map tc_id (calls @ done_calls)) \<and>
             mr_content response = first_told told (concat (map delta_text events)) done_text)
      | Some _ \<Rightarrow> True"
proof (cases "mr_refusal (model_response_from_responses_stream J route_id body elapsed_ms)")
  case None
  let ?start = "\<lparr>sr_content = [], sr_completed = None, sr_failure = None, sr_done = ([], [])\<rparr>"
  let ?response = "model_response_from_responses_stream J route_id body elapsed_ms"
  obtain s completed where read: "read_events J (event_data body) ?start = Inr s" and "sr_failure s = None"
    and "sr_completed s = Some completed" and answer: "?response = completed_answer J route_id s completed elapsed_ms"
    using None unfolding model_response_from_responses_stream_def
    by (auto split: option.splits sum.splits)
  moreover have "stream_says J [] ?start" by (simp add: stream_says_def final_response_def List.map_filter_simps)
  ultimately obtain events where events: "list_all2 (\<lambda>d e. parse_json J d = Inr e) (event_data body) events"
    and says: "stream_says J events s"
    using read_events_say [OF read, of "[]"] by auto
  from None have whole: "mr_refusal (completed_answer J route_id s completed elapsed_ms) = None" by (simp add: answer)
  obtain told calls where final: "output_items J (final_output completed) ([], []) = Inr (told, calls)"
    "set (map tc_id (tool_calls_from_response ?response)) = set (map tc_id (calls @ snd (sr_done s)))"
    "mr_content ?response =
      first_told told (sr_content s) (fst (sr_done s))"
    using completed_answer_holds [OF whole] unfolding answer by metis
  have "list_all (\<lambda>e. \<not> reports_failure e) events" "final_response events = Some completed"
    "sr_content s = concat (map delta_text events)"
    "output_items J (List.map_filter done_item events) ([], []) = Inr (fst (sr_done s), snd (sr_done s))"
    using says \<open>sr_failure s = None\<close> \<open>sr_completed s = Some completed\<close> by (simp_all add: stream_says_def)
  with events final show ?thesis unfolding None Let_def option.case by metis
qed (simp add: Let_def)

end
