(* ===== verification/Model_Catalogue.thy ===== *)
theory Model_Catalogue
  imports Provider_Answers
begin

section \<open>The public model catalogue\<close>

text \<open>
  \<open>src/src/subscription_dispatch/model_catalog/\<close>: what the models.dev document says of a provider and of
  its models (\<open>provider.rs\<close>, \<open>parse.rs\<close>) and the snapshot a request is routed by (\<open>mod.rs\<close>). Where the
  document comes from (\<open>source.rs\<close>: the live read, the copy on disk), the declared age, the clock and the wait
  for the load lock, during which another request may load, are the record \<open>catalog_site\<close>. The refresh that is
  started beside the requests is \<open>load_catalog\<close> run by its own task.
\<close>

subsection \<open>Providers\<close>

datatype catalog_protocol = CatalogOpenAiChat | CatalogAnthropicMessages | GoogleGenerateContent | Unsupported

datatype catalog_auth = CatalogBearer | CatalogXApiKey | CatalogGoogleApiKey

record catalog_provider =
  cg_id :: string
  cg_display_name :: string
  cg_protocol :: catalog_protocol
  cg_auth :: catalog_auth

definition executable :: "catalog_provider \<Rightarrow> bool" where
  "executable d = (cg_protocol d \<noteq> Unsupported)"

definition protocol_for :: "string \<Rightarrow> catalog_protocol \<times> catalog_auth" where
  "protocol_for npm =
     (if npm = ''@ai-sdk/anthropic'' then (CatalogAnthropicMessages, CatalogXApiKey)
      else if npm = ''@ai-sdk/google'' then (GoogleGenerateContent, CatalogGoogleApiKey)
      else if npm = ''@ai-sdk/openai-compatible'' \<or>
        npm \<in> {''@ai-sdk/openai'', ''@ai-sdk/xai'', ''@ai-sdk/mistral'', ''@ai-sdk/cerebras'', ''@ai-sdk/perplexity'',
               ''@ai-sdk/deepinfra'', ''@openrouter/ai-sdk-provider'', ''@ai-sdk/togetherai'', ''@ai-sdk/gateway'',
               ''@ai-sdk/groq'', ''venice-ai-sdk-provider'', ''merge-gateway-ai-sdk-provider'', ''ai-gateway-provider''}
      then (CatalogOpenAiChat, CatalogBearer)
      else (Unsupported, CatalogBearer))"

subsection \<open>The document\<close>

record catalog_snapshot =
  cn_providers :: "(string, catalog_provider) btmap"
  cn_models :: "registry_model list"
  cn_revision :: string

definition row_id :: "json \<Rightarrow> string \<Rightarrow> string" where
  "row_id row key = (case Option.bind (json_get row ''id'') as_str of Some i \<Rightarrow> trim i | None \<Rightarrow> trim key)"

definition row_name :: "json \<Rightarrow> string \<Rightarrow> string" where
  "row_name row i = (case Option.bind (json_get row ''name'') as_str of Some name \<Rightarrow> name | None \<Rightarrow> i)"

definition catalog_modalities :: "json \<Rightarrow> string \<Rightarrow> string list" where
  "catalog_modalities model side =
     (case Option.bind (json_pointer model ''modalities'' side) as_array of
        Some values \<Rightarrow> List.map_filter as_str values
      | None \<Rightarrow> [])"

definition catalog_cost :: "json \<Rightarrow> string \<Rightarrow> f64 option" where
  "catalog_cost model key = Option.bind (Option.bind (json_get model ''cost'') (\<lambda>cost. json_get cost key)) as_f64"

definition catalog_model :: "string \<Rightarrow> string \<Rightarrow> json \<Rightarrow> registry_model" where
  "catalog_model i model_id model =
     \<lparr>rm_route_id = i @ ''/'' @ model_id, rm_provider_id = i, rm_model_id = model_id,
      rm_display_name = row_name model model_id,
      rm_context_window = Option.bind (json_pointer model ''limit'' ''context'') Provider_Registry.as_u64,
      rm_max_output_tokens = Option.bind (json_pointer model ''limit'' ''output'') Provider_Registry.as_u64,
      rm_input_modalities = catalog_modalities model ''input'', rm_output_modalities = catalog_modalities model ''output'',
      rm_open_weights = Option.bind (json_get model ''open_weights'') as_bool,
      rm_tools = Option.bind (json_get model ''tool_call'') as_bool,
      rm_reasoning = Option.bind (json_get model ''reasoning'') as_bool,
      rm_input_price = catalog_cost model ''input'', rm_output_price = catalog_cost model ''output'',
      rm_cache_read_price = catalog_cost model ''cache_read'', rm_cache_write_price = catalog_cost model ''cache_write''\<rparr>"

fun model_rows :: "string \<Rightarrow> (string \<times> json) list \<Rightarrow> registry_model list \<times> string \<Rightarrow> registry_model list \<times> string" where
  "model_rows i [] read = read"
| "model_rows i ((key, model) # rows) (models, latest) =
     (let model_id = row_id model key
      in if \<not> valid_model_id model_id then model_rows i rows (models, latest)
         else model_rows i rows
           (models @ [catalog_model i model_id model],
            case Option.bind (json_get model ''last_updated'') as_str of
              Some updated \<Rightarrow> (if latest < updated then updated else latest)
            | None \<Rightarrow> latest))"

definition row_wire :: "json \<Rightarrow> catalog_protocol \<times> catalog_auth" where
  "row_wire row =
     (case Option.bind (json_get row ''npm'') as_str of Some npm \<Rightarrow> protocol_for npm | None \<Rightarrow> (Unsupported, CatalogBearer))"

fun provider_rows ::
  "(string \<times> json) list \<Rightarrow> (string, catalog_provider) btmap \<Rightarrow> registry_model list \<times> string \<Rightarrow>
   (string, catalog_provider) btmap \<times> registry_model list \<times> string" where
  "provider_rows [] providers read = (providers, read)"
| "provider_rows ((key, row) # rows) providers read =
     (let i = row_id row key; (protocol, auth) = row_wire row
      in if \<not> valid_provider_id i then provider_rows rows providers read
         else provider_rows rows
           (bt_insert i \<lparr>cg_id = i, cg_display_name = row_name row i, cg_protocol = protocol, cg_auth = auth\<rparr> providers)
           (case json_get row ''models'' of Some (JObj ms) \<Rightarrow> model_rows i ms read | _ \<Rightarrow> read))"

text \<open>\<open>Vec::dedup_by\<close> on the route: of neighbours of one route the first stays.\<close>

fun dedup_routes :: "registry_model list \<Rightarrow> registry_model list" where
  "dedup_routes [] = []"
| "dedup_routes [m] = [m]"
| "dedup_routes (m # n # ms) =
     (if rm_route_id n = rm_route_id m then dedup_routes (m # ms) else m # dedup_routes (n # ms))"

definition parse_catalog :: "json_codec \<Rightarrow> string \<Rightarrow> (string, catalog_snapshot) result" where
  "parse_catalog J raw =
     (case parse_json J raw of
        Inl err \<Rightarrow> Inl (''the models.dev catalog is not JSON: '' @ err)
      | Inr (JObj rows) \<Rightarrow>
          (let (providers, found, latest) = provider_rows rows [] ([], []);
               models = dedup_routes (sort_by_key rm_route_id found)
           in Inr \<lparr>cn_providers = providers, cn_models = models,
                   cn_revision = ''models-dev-'' @ latest @ ''-'' @ show_nat (length providers) @ ''-'' @
                     show_nat (length models)\<rparr>)
      | Inr _ \<Rightarrow> Inl ''models.dev root must be an object'')"

subsection \<open>The snapshot in memory\<close>

datatype catalog_source = CatalogLive | LastFetchedCopy string string

record cached_snapshot =
  cd_loaded_at :: nat
  cd_snapshot :: catalog_snapshot
  cd_source :: catalog_source

record 'w catalog_site =
  cw_codec :: json_codec
  cw_age :: "(string, nat option) result"
  cw_now :: "'w \<Rightarrow> nat"
  cw_live :: "'w \<Rightarrow> (string, string) result \<times> 'w"
  cw_store :: "string \<Rightarrow> 'w \<Rightarrow> 'w"
  cw_copy :: "'w \<Rightarrow> (string, string \<times> string) result \<times> 'w"
  cw_wait :: "'w \<Rightarrow> cached_snapshot option \<times> 'w"

text \<open>\<open>fresh\<close>: instants in nanoseconds, the age in seconds.\<close>

definition catalog_fresh :: "nat option \<Rightarrow> nat \<Rightarrow> cached_snapshot \<Rightarrow> bool" where
  "catalog_fresh ttl now cached =
     (case ttl of None \<Rightarrow> True | Some seconds \<Rightarrow> now - cd_loaded_at cached < seconds * 10 ^ 9)"

definition read_catalog :: "'w catalog_site \<Rightarrow> 'w \<Rightarrow> (string, string \<times> catalog_source) result \<times> 'w" where
  "read_catalog C w =
     (case cw_live C w of
        (Inr raw, w1) \<Rightarrow> (Inr (raw, CatalogLive), cw_store C raw w1)
      | (Inl live_error, w1) \<Rightarrow>
          (case cw_copy C w1 of
             (Inl cache_error, w2) \<Rightarrow>
               (Inl (''models.dev unavailable ('' @ live_error @ ''); cache unavailable ('' @ cache_error @ '')''), w2)
           | (Inr (raw, written_at), w2) \<Rightarrow> (Inr (raw, LastFetchedCopy written_at live_error), w2)))"

definition load_catalog ::
  "'w catalog_site \<Rightarrow> nat option \<Rightarrow> cached_snapshot option \<Rightarrow> 'w \<Rightarrow>
   (string, catalog_snapshot) result \<times> cached_snapshot option \<times> 'w" where
  "load_catalog C ttl cache w =
     (case read_catalog C w of
        (Inl err, w1) \<Rightarrow> (Inl err, cache, w1)
      | (Inr (raw, read_from), w1) \<Rightarrow>
          (case parse_catalog (cw_codec C) raw of
             Inl err \<Rightarrow> (Inl err, cache, w1)
           | Inr parsed \<Rightarrow>
               (let stored = Some \<lparr>cd_loaded_at = cw_now C w1, cd_snapshot = parsed, cd_source = read_from\<rparr>
                in case cache of
                     Some cached \<Rightarrow>
                       (if catalog_fresh ttl (cw_now C w1) cached then (Inr (cd_snapshot cached), cache, w1)
                        else (Inr parsed, stored, w1))
                   | None \<Rightarrow> (Inr parsed, stored, w1))))"

text \<open>\<open>snapshot\<close>; the flag is \<open>REFRESHING\<close>, which a snapshot past its age sets.\<close>

definition snapshot ::
  "'w catalog_site \<Rightarrow> cached_snapshot option \<Rightarrow> bool \<Rightarrow> 'w \<Rightarrow>
   (string, catalog_snapshot) result \<times> cached_snapshot option \<times> bool \<times> 'w" where
  "snapshot C cache refreshing w =
     (case cw_age C of
        Inl err \<Rightarrow> (Inl err, cache, refreshing, w)
      | Inr ttl \<Rightarrow>
          (case cache of
             Some cached \<Rightarrow>
               (Inr (cd_snapshot cached), cache, refreshing \<or> \<not> catalog_fresh ttl (cw_now C w) cached, w)
           | None \<Rightarrow>
               (case cw_wait C w of
                  (Some cached, w1) \<Rightarrow> (Inr (cd_snapshot cached), Some cached, refreshing, w1)
                | (None, w1) \<Rightarrow>
                    (case load_catalog C ttl None w1 of (r, cache', w2) \<Rightarrow> (r, cache', refreshing, w2)))))"

subsection \<open>What a catalogue holds\<close>

text \<open>
  A catalogue lists every provider under its own id, and every model under the route of its provider and id, each
  route once.
\<close>

definition model_named :: "registry_model \<Rightarrow> bool" where
  "model_named m = (rm_route_id m = rm_provider_id m @ ''/'' @ rm_model_id m
     \<and> valid_provider_id (rm_provider_id m) \<and> valid_model_id (rm_model_id m))"

definition providers_ok :: "(string, catalog_provider) btmap \<Rightarrow> bool" where
  "providers_ok providers =
     (bt_wf providers \<and> (\<forall>i d. bt_get providers i = Some d \<longrightarrow> cg_id d = i \<and> valid_provider_id i))"

definition catalog_ok :: "catalog_snapshot \<Rightarrow> bool" where
  "catalog_ok s = (providers_ok (cn_providers s)
     \<and> sorted_wrt (<) (map rm_route_id (cn_models s)) \<and> list_all model_named (cn_models s))"

definition cache_ok :: "cached_snapshot option \<Rightarrow> bool" where
  "cache_ok cache = (case cache of None \<Rightarrow> True | Some cached \<Rightarrow> catalog_ok (cd_snapshot cached))"

lemma model_rows_named:
  "valid_provider_id i \<Longrightarrow> list_all model_named (fst read) \<Longrightarrow> list_all model_named (fst (model_rows i rows read))"
  by (induction i rows read rule: model_rows.induct)
     (auto simp: Let_def model_named_def catalog_model_def)

lemma providers_ok_insert:
  "providers_ok providers \<Longrightarrow> cg_id d = i \<Longrightarrow> valid_provider_id i \<Longrightarrow> providers_ok (bt_insert i d providers)"
  by (simp add: providers_ok_def bt_wf_insert bt_get_insert)

lemma row_models_named:
  assumes "valid_provider_id i" "list_all model_named (fst read)"
  shows "list_all model_named (fst (case v of Some (JObj ms) \<Rightarrow> model_rows i ms read | _ \<Rightarrow> read))"
  using assms by (simp add: model_rows_named split: option.split json.split)

lemma provider_rows_ok:
  "providers_ok providers \<Longrightarrow> list_all model_named (fst read) \<Longrightarrow>
     providers_ok (fst (provider_rows rows providers read)) \<and>
     list_all model_named (fst (snd (provider_rows rows providers read)))"
proof (induction rows providers read rule: provider_rows.induct)
  case (2 key row rows providers read)
  obtain protocol auth where wire: "row_wire row = (protocol, auth)" by fastforce
  show ?case
  proof (cases "valid_provider_id (row_id row key)")
    case True
    show ?thesis
      using 2(2) [OF refl wire [symmetric] refl] True row_models_named [OF True 2(4)] providers_ok_insert [OF 2(3) _ True]
      by (simp add: wire Let_def del: split_paired_All)
  next
    case False
    with 2(1) [OF refl wire [symmetric] refl] 2(3,4) show ?thesis by (simp add: wire Let_def)
  qed
qed simp

lemma dedup_routes_props:
  "sorted (map rm_route_id ms) \<Longrightarrow>
     sorted_wrt (<) (map rm_route_id (dedup_routes ms)) \<and> set (dedup_routes ms) \<subseteq> set ms \<and>
     (ms \<noteq> [] \<longrightarrow> dedup_routes ms \<noteq> [] \<and> hd (dedup_routes ms) = hd ms)"
proof (induction ms rule: dedup_routes.induct)
  case (3 m n ms)
  show ?case
  proof (cases "rm_route_id n = rm_route_id m")
    case True
    with 3 show ?thesis by auto
  next
    case False
    with 3 have rest: "sorted_wrt (<) (map rm_route_id (dedup_routes (n # ms)))" "set (dedup_routes (n # ms)) \<subseteq> set (n # ms)"
      by auto
    moreover have "rm_route_id m < rm_route_id x" if "x \<in> set (n # ms)" for x
    proof -
      from 3(3) that have "rm_route_id m \<le> rm_route_id n" "rm_route_id n \<le> rm_route_id x" by auto
      with False show ?thesis by auto
    qed
    ultimately show ?thesis using False by auto
  qed
qed auto

theorem parsed_catalog_ok: "parse_catalog J raw = Inr s \<Longrightarrow> catalog_ok s"
proof -
  assume parsed: "parse_catalog J raw = Inr s"
  then obtain rows where rows: "parse_json J raw = Inr (JObj rows)"
    by (auto simp: parse_catalog_def split: sum.splits json.splits)
  obtain providers found latest where read: "provider_rows rows [] ([], []) = (providers, found, latest)"
    by (metis prod_cases3)
  with parsed rows have s: "cn_providers s = providers" "cn_models s = dedup_routes (sort_by_key rm_route_id found)"
    by (auto simp: parse_catalog_def Let_def)
  have "providers_ok providers \<and> list_all model_named found"
    using provider_rows_ok [of "[]" "([], [])" rows] read by (simp add: providers_ok_def bt_wf_def)
  moreover have "sorted (map rm_route_id (sort_by_key rm_route_id found))" "set (sort_by_key rm_route_id found) = set found"
    using sort_by_key_props by (auto intro: mset_eq_setD)
  ultimately show ?thesis using dedup_routes_props [of "sort_by_key rm_route_id found"]
    by (auto simp: catalog_ok_def s list_all_iff)
qed

lemma load_catalog_ok:
  assumes "load_catalog C ttl cache w = (r, cache', w')" "cache_ok cache"
  shows "cache_ok cache' \<and> (\<forall>s. r = Inr s \<longrightarrow> catalog_ok s)"
  using assms
  by (auto simp: load_catalog_def cache_ok_def Let_def dest: parsed_catalog_ok parsed_catalog_ok [OF sym]
      split: prod.splits sum.splits option.splits if_splits)

lemma snapshot_ok:
  assumes "snapshot C cache refreshing w = (r, cache', refreshing', w')" "cache_ok cache" "\<And>w. cache_ok (fst (cw_wait C w))"
  shows "cache_ok cache' \<and> (\<forall>s. r = Inr s \<longrightarrow> catalog_ok s)"
proof (cases cache)
  case (Some cached)
  with assms(1,2) show ?thesis by (auto simp: snapshot_def cache_ok_def split: sum.splits)
next
  case None
  show ?thesis
  proof (cases "cw_age C")
    case (Inr ttl)
    obtain held w1 where waited: "cw_wait C w = (held, w1)" by fastforce
    then have "cache_ok held" using assms(3) [of w] by simp
    then show ?thesis
    proof (cases held)
      case None
      obtain r1 cache1 w2 where loaded: "load_catalog C ttl None w1 = (r1, cache1, w2)" by (metis prod_cases3)
      with assms(1) \<open>cache = None\<close> Inr waited None have "r1 = r" "cache1 = cache'" by (auto simp: snapshot_def)
      with load_catalog_ok [OF loaded] show ?thesis by (simp add: cache_ok_def)
    qed (use assms(1) \<open>cache = None\<close> Inr waited in \<open>auto simp: snapshot_def cache_ok_def\<close>)
  qed (use assms(1,2) None in \<open>auto simp: snapshot_def cache_ok_def\<close>)
qed

end
