(* ===== verification/Provider_Sends.thy ===== *)
theory Provider_Sends
  imports Model_Catalogue
begin

unbundle bit_operations_syntax

section \<open>What a provider call is made of\<close>

text \<open>
  \<open>adapter/call/credential.rs\<close> and \<open>credential/\<close>, \<open>call/outcome/retry.rs\<close> and \<open>response_body.rs\<close>,
  \<open>dialect/refused_settings.rs\<close> and the parts of \<open>providers/adapter.rs\<close> before and after the send: a stored secret reduced to a
  key, the headers and the body it travels in, the send, the one resend, the reading. The record \<open>provider_site\<close> is what is
  outside: crates (\<open>serde_json\<close>, \<open>url\<close>, base64, SHA-256, xxHash), the deployment (environment, routes file, host), the
  network, what the catalogue is read from, and the plan headers (\<open>ps_limits\<close>), which are not modelled. A send answers with the
  models other requests were taught about meanwhile. \<open>cl_posted\<close> is a history variable.
\<close>

subsection \<open>Stored secrets\<close>

text \<open>The derived \<open>Deserialize\<close> of \<open>Envelope\<close>: exactly its two fields, by name or as a sequence.\<close>

definition peeled :: "json \<Rightarrow> json option" where
  "peeled v =
     (case v of
        JObj kvs \<Rightarrow>
          (if list_all (\<lambda>(k, _). k = ''type'' \<or> k = ''value'') kvs \<and> map_of kvs ''type'' \<noteq> None
           then map_of kvs ''value'' else None)
      | JArr [_, inner] \<Rightarrow> Some inner
      | _ \<Rightarrow> None)"

lemma peeled_smaller: "peeled v = Some inner \<Longrightarrow> size inner < size v"
  by (auto simp: peeled_def split: json.splits if_splits list.splits dest!: map_of_SomeD json_member_size)

function credential_behind :: "json \<Rightarrow> json" where
  "credential_behind v = (case peeled v of Some inner \<Rightarrow> credential_behind inner | None \<Rightarrow> v)"
  by pat_completeness auto
termination by (relation "measure size") (auto dest: peeled_smaller)

declare credential_behind.simps [simp del]

definition credential_document :: "json_codec \<Rightarrow> string \<Rightarrow> json option" where
  "credential_document J secret =
     (case parse_json J (trim secret) of Inl _ \<Rightarrow> None | Inr v \<Rightarrow> Some (credential_behind v))"

definition credential_shape :: "json \<Rightarrow> string" where
  "credential_shape document =
     (case document of
        JObj kvs \<Rightarrow> ''a JSON object with fields ['' @ join '', '' (sort (map fst kvs)) @ '']''
      | JArr items \<Rightarrow> ''a JSON array of '' @ show_nat (length items) @ '' entries''
      | JStr _ \<Rightarrow> ''an empty JSON string''
      | JInt _ \<Rightarrow> ''a bare JSON number''
      | JFloat _ \<Rightarrow> ''a bare JSON number''
      | JBool _ \<Rightarrow> ''a bare JSON boolean''
      | JNull \<Rightarrow> ''JSON null'')"

definition SUPPORTED_KEY_FIELDS :: string where
  "SUPPORTED_KEY_FIELDS = ''key, apiKey, api_key, access, accessToken, '' @
     ''access_token, token, tokens.access_token, claudeAiOauth.accessToken''"

definition BORROWED_FROM :: string where "BORROWED_FROM = ''brama_borrowed_from''"

definition key_candidates :: "json \<Rightarrow> json list" where
  "key_candidates document =
     List.map_filter id
       (map (json_get document) [''key'', ''apiKey'', ''api_key'', ''access'', ''accessToken'', ''access_token'', ''token''] @
        [json_pointer document ''tokens'' ''access_token'', json_pointer document ''claudeAiOauth'' ''accessToken''])"

definition no_credential :: "string \<Rightarrow> json \<Rightarrow> string" where
  "no_credential item document =
     ''Skarbiec item `'' @ item @ ''` holds '' @ credential_shape document @ '', which carries no credential: expected a bare '' @
     ''secret, a typed envelope carrying it under `value`, or an object carrying it under one of '' @ SUPPORTED_KEY_FIELDS"

definition credential_key :: "json_codec \<Rightarrow> string \<Rightarrow> string \<Rightarrow> (string, string) result" where
  "credential_key J item secret =
     (let trimmed = trim secret; empty = ''Skarbiec item `'' @ item @ ''` holds an empty credential''
      in if trimmed = [] then Inl empty
         else (case credential_document J trimmed of
                 None \<Rightarrow> Inr trimmed
               | Some document \<Rightarrow>
                   (if json_get document BORROWED_FROM \<noteq> None
                    then Inl (''Skarbiec item `'' @ item @ ''` carries a borrowed harness grant; Brama requires its own '' @
                           ''independent sign-in before provider use'')
                    else (case as_str document of
                            Some key \<Rightarrow> (if trim key = [] then Inl empty else Inr (trim key))
                          | None \<Rightarrow>
                              (case find_map as_str (key_candidates document) of
                                 Some key \<Rightarrow> (if trim key \<noteq> [] then Inr key else Inl (no_credential item document))
                               | None \<Rightarrow> Inl (no_credential item document))))))"

definition provider_credential_key ::
  "json_codec \<Rightarrow> provider_descriptor \<Rightarrow> string \<Rightarrow> string \<Rightarrow> (string, string) result" where
  "provider_credential_key J d item secret = (if pd_auth d = AuthNone then Inr [] else credential_key J item secret)"

definition jwt_claims :: "json_codec \<Rightarrow> (string \<Rightarrow> (string, string) result) \<Rightarrow> string \<Rightarrow> (string, json) result" where
  "jwt_claims J decode token =
     (case split_on (CHR ''.'') token of
        [header, payload, signature] \<Rightarrow>
          (if header = [] \<or> payload = [] \<or> signature = []
           then Inl (''the grant'' @ [CHR 0x27] @ ''s identity token has an empty compact segment'')
           else
             bind_result (map_sum (\<lambda>err. ''the grant'' @ [CHR 0x27] @ ''s identity token claims are not base64url: '' @ err) id
               (decode payload)) (\<lambda>decoded.
             bind_result (map_sum (\<lambda>err. ''the grant'' @ [CHR 0x27] @ ''s identity token claims are not JSON: '' @ err) id
               (parse_json J decoded)) (\<lambda>claims.
             case claims of
               JObj _ \<Rightarrow> Inr claims
             | _ \<Rightarrow> Inl (''the grant'' @ [CHR 0x27] @ ''s identity token claims are not a JSON object''))))
      | _ \<Rightarrow> Inl (''the grant'' @ [CHR 0x27] @ ''s identity token is not three dot-separated segments''))"

definition is_object :: "json \<Rightarrow> bool" where
  "is_object v = (case v of JObj _ \<Rightarrow> True | _ \<Rightarrow> False)"

definition stated_account :: "string \<Rightarrow> json \<Rightarrow> (string, string option) result" where
  "stated_account cause v =
     (case as_str v of Some i \<Rightarrow> (if trim i = [] then Inl cause else Inr (Some i)) | None \<Rightarrow> Inl cause)"

definition claimed_account :: "json \<Rightarrow> (string, string option) result" where
  "claimed_account claims =
     (case json_get claims ''https://api.openai.com/auth'' of
        None \<Rightarrow> Inr None
      | Some auth \<Rightarrow>
          (if \<not> is_object auth then Inl (''the Codex grant'' @ [CHR 0x27] @ ''s OpenAI auth claim is not a JSON object'')
           else (case json_get auth ''chatgpt_account_id'' of
                   None \<Rightarrow> Inr None
                 | Some account \<Rightarrow>
                     stated_account (''the Codex grant'' @ [CHR 0x27] @ ''s chatgpt_account_id claim is not a nonempty string'')
                       account)))"

definition credential_account_id ::
  "json_codec \<Rightarrow> (string \<Rightarrow> (string, string) result) \<Rightarrow> string \<Rightarrow> (string, string option) result" where
  "credential_account_id J decode secret =
     (case Option.bind (credential_document J secret) (\<lambda>document. json_get document ''tokens'') of
        None \<Rightarrow> Inr None
      | Some tokens \<Rightarrow>
          (if \<not> is_object tokens then Inl (''the Codex grant'' @ [CHR 0x27] @ ''s tokens field is not a JSON object'')
           else (case json_get tokens ''account_id'' of
                   Some account \<Rightarrow>
                     stated_account (''the Codex grant'' @ [CHR 0x27] @ ''s tokens.account_id is not a nonempty string'') account
                 | None \<Rightarrow>
                     (case json_get tokens ''id_token'' of
                        None \<Rightarrow> Inr None
                      | Some token \<Rightarrow>
                          bind_result (ok_or (''the Codex grant'' @ [CHR 0x27] @ ''s tokens.id_token is not a string'') (as_str token))
                            (\<lambda>token. bind_result (jwt_claims J decode token) claimed_account)))))"

subsection \<open>What is outside\<close>

record posted =
  po_url :: string
  po_headers :: "(string \<times> string) list"
  po_body :: string

record send_error =
  se_connect :: bool
  se_request :: bool
  se_timed_out :: "bool list"
  se_cause :: string

datatype body_read = Body string | BodyCut string | NotUtf8 string

record http_answer =
  ha_status :: nat
  ha_plan :: "(string \<times> string) list"
  ha_body :: body_read
  ha_elapsed_ms :: f64

record 'w provider_site =
  ps_codec :: json_codec
  ps_document :: "(string, json) result"
  ps_bad_call :: "json \<Rightarrow> string"
  ps_base64url :: "string \<Rightarrow> (string, string) result"
  ps_sha256_hex :: "string \<Rightarrow> string"
  ps_xxh64 :: "string \<Rightarrow> 64 word \<Rightarrow> 64 word"
  ps_parse_url :: url_parser
  ps_env :: environment
  ps_push_segments :: "url \<Rightarrow> string list \<Rightarrow> string"
  ps_routes_path :: "string option"
  ps_routes_file :: "string \<Rightarrow> route_file"
  ps_route_crates :: route_crates
  ps_os :: string
  ps_arch :: string
  ps_client :: "(string, unit) result"
  ps_request_id :: "'w \<Rightarrow> string"
  ps_limits :: "(string \<times> string) list \<Rightarrow> 'w \<Rightarrow> limit_reading list"
  ps_catalog :: "'w catalog_site"
  ps_send :: "posted \<Rightarrow> 'w \<Rightarrow> (send_error, http_answer) result \<times> string list \<times> 'w"

record 'w call_state =
  cl_learned :: "string list"
  cl_posted :: "posted list"
  cl_catalog :: "cached_snapshot option"
  cl_refreshing :: bool
  cl_world :: 'w

subsection \<open>Headers and body\<close>

definition ANTHROPIC_API_VERSION :: string where "ANTHROPIC_API_VERSION = ''2023-06-01''"

record capture =
  cp_release :: string
  cp_agent_sdk :: string
  cp_client :: string
  cp_betas :: string
  cp_stainless :: "(string \<times> string) list"
  cp_stainless_after_host :: "(string \<times> string) list"
  cp_fingerprint_salt :: string
  cp_fingerprint_offsets :: "nat list"
  cp_fingerprint_chars :: nat
  cp_checksum_seed :: "64 word"
  cp_checksum_mask :: "64 word"

definition CLAUDE_CODE_CAPTURE :: capture where
  "CLAUDE_CODE_CAPTURE =
     \<lparr>cp_release = ''2.1.165'', cp_agent_sdk = ''0.3.165'', cp_client = ''1.11187.4'',
      cp_betas = ''claude-code-20250219,oauth-2025-04-20,interleaved-thinking-2025-05-14,context-management-2025-06-27,'' @
        ''prompt-caching-scope-2026-01-05,mid-conversation-system-2026-04-07,advanced-tool-use-2025-11-20,'' @
        ''extended-cache-ttl-2025-04-11'',
      cp_stainless = [(''x-stainless-retry-count'', ''0''), (''x-stainless-runtime-version'', ''v24.3.0''),
        (''x-stainless-package-version'', ''0.94.0''), (''x-stainless-runtime'', ''node''), (''x-stainless-lang'', ''js'')],
      cp_stainless_after_host = [(''x-stainless-timeout'', ''900'')],
      cp_fingerprint_salt = ''59cf53e54c78'', cp_fingerprint_offsets = [4, 7, 20], cp_fingerprint_chars = 3,
      cp_checksum_seed = 0x4d659218e32a3268, cp_checksum_mask = 0xfffff\<rparr>"

definition stainless_os :: "string \<Rightarrow> string" where
  "stainless_os os =
     (if os = ''macos'' then ''MacOS'' else if os = ''windows'' then ''Windows'' else if os = ''linux'' then ''Linux''
      else if os = ''freebsd'' then ''FreeBSD'' else ''Other::unknown'')"

definition stainless_arch :: "string \<Rightarrow> string" where
  "stainless_arch arch =
     (if arch = ''x86_64'' then ''x64'' else if arch = ''aarch64'' then ''arm64'' else if arch = ''x86'' then ''x86''
      else ''other::unknown'')"

definition claude_code_headers :: "string \<Rightarrow> string \<Rightarrow> string \<Rightarrow> (string \<times> string) list" where
  "claude_code_headers os arch request_id =
     [(''user-agent'', ''claude-cli/'' @ cp_release CLAUDE_CODE_CAPTURE @ '' (external, local-agent, agent-sdk/'' @
         cp_agent_sdk CLAUDE_CODE_CAPTURE @ '')''),
      (''anthropic-beta'', cp_betas CLAUDE_CODE_CAPTURE), (''x-app'', ''cli''),
      (''anthropic-dangerous-direct-browser-access'', ''true''), (''anthropic-client-platform'', ''desktop_app''),
      (''anthropic-client-version'', cp_client CLAUDE_CODE_CAPTURE)] @
     cp_stainless CLAUDE_CODE_CAPTURE @
     [(''x-stainless-arch'', stainless_arch arch), (''x-stainless-os'', stainless_os os)] @
     cp_stainless_after_host CLAUDE_CODE_CAPTURE @ [(''x-client-request-id'', request_id)]"

definition bearer_auth :: "string \<Rightarrow> (string \<times> string) list" where
  "bearer_auth key = [(''authorization'', ''Bearer '' @ key)]"

definition authorize :: "'w provider_site \<Rightarrow> string \<Rightarrow> provider_descriptor \<Rightarrow> string \<Rightarrow> (string \<times> string) list" where
  "authorize S request_id d key =
     (case pd_auth d of
        AuthNone \<Rightarrow> []
      | Bearer \<Rightarrow> bearer_auth key
      | XApiKey \<Rightarrow> [(''x-api-key'', key), (''anthropic-version'', ANTHROPIC_API_VERSION)]
      | AnthropicBearer \<Rightarrow>
          bearer_auth key @ [(''anthropic-version'', ANTHROPIC_API_VERSION)] @
          claude_code_headers (ps_os S) (ps_arch S) request_id
      | XiApiKey \<Rightarrow> [(''xi-api-key'', key)]
      | GoogleApiKey \<Rightarrow> [(''x-goog-api-key'', key)])"

definition authorize_with_account ::
  "'w provider_site \<Rightarrow> string \<Rightarrow> provider_descriptor \<Rightarrow> string \<Rightarrow> string option \<Rightarrow> (string \<times> string) list" where
  "authorize_with_account S request_id d key account_id =
     authorize S request_id d key @
     (if pd_wire d \<noteq> OpenAiResponses then []
      else [(''OpenAI-Beta'', ''responses=experimental''), (''originator'', ''codex_cli_rs'')] @
           (case account_id of Some i \<Rightarrow> [(''chatgpt-account-id'', i)] | None \<Rightarrow> []))"

definition authorize_provider ::
  "'w provider_site \<Rightarrow> string \<Rightarrow> provider_descriptor \<Rightarrow> string \<Rightarrow> string \<Rightarrow> (string, (string \<times> string) list) result" where
  "authorize_provider S request_id d key secret =
     map_sum id (authorize_with_account S request_id d key)
       (if pd_wire d = OpenAiResponses then credential_account_id (ps_codec S) (ps_base64url S) secret else Inr None)"

definition first_user_text :: "model_request \<Rightarrow> string" where
  "first_user_text request =
     (case List.find (\<lambda>m. msg_role m = ''user'') (rq_messages request) of
        None \<Rightarrow> []
      | Some m \<Rightarrow>
          (case msg_content m of
             JStr told \<Rightarrow> told
           | JArr parts \<Rightarrow>
               (case Option.bind (Option.bind (List.find (\<lambda>p. Option.bind (json_get p ''type'') as_str = Some ''text'') parts)
                       (\<lambda>p. json_get p ''text'')) as_str of
                  Some told \<Rightarrow> told
                | None \<Rightarrow> [])
           | _ \<Rightarrow> []))"

definition CHECKSUM_PLACEHOLDER :: string where "CHECKSUM_PLACEHOLDER = ''cch=00000''"

definition CLAUDE_CODE_SENTENCE :: string where
  "CLAUDE_CODE_SENTENCE = ''You are a Claude agent, built on Anthropic'' @ [CHR 0x27] @ ''s Claude Agent SDK.''"

definition billing_header :: "(string \<Rightarrow> string) \<Rightarrow> string \<Rightarrow> string" where
  "billing_header digest_hex told =
     (let salt = map (\<lambda>i. if i < length told then told ! i else CHR ''0'') (cp_fingerprint_offsets CLAUDE_CODE_CAPTURE);
          fingerprint = take (cp_fingerprint_chars CLAUDE_CODE_CAPTURE)
            (digest_hex (cp_fingerprint_salt CLAUDE_CODE_CAPTURE @ salt @ cp_release CLAUDE_CODE_CAPTURE))
      in ''x-anthropic-billing-header: cc_version='' @ cp_release CLAUDE_CODE_CAPTURE @ ''.'' @ fingerprint @
         ''; cc_entrypoint=local-agent; '' @ CHECKSUM_PLACEHOLDER @ '';'')"

fun find_text :: "string \<Rightarrow> string \<Rightarrow> nat option" where
  "find_text [] needle = (if needle = [] then Some 0 else None)"
| "find_text (c # cs) needle =
     (if take (length needle) (c # cs) = needle then Some 0 else map_option Suc (find_text cs needle))"

definition hex_char :: "64 word \<Rightarrow> char" where
  "hex_char n = ''0123456789abcdef'' ! unat (n AND 15)"

definition hex5 :: "64 word \<Rightarrow> string" where
  "hex5 n = map (\<lambda>k. hex_char (drop_bit (4 * k) n)) [4, 3, 2, 1, 0]"

definition overwrite :: "nat \<Rightarrow> string \<Rightarrow> string \<Rightarrow> string" where
  "overwrite i new s = take i s @ new @ drop (i + length new) s"

definition stamp_checksum :: "'w provider_site \<Rightarrow> string \<Rightarrow> string \<Rightarrow> string" where
  "stamp_checksum S bytes attestation =
     (case find_text bytes (show_json (ps_codec S) (JStr attestation)) of
        None \<Rightarrow> bytes
      | Some start \<Rightarrow>
          (case find_text (drop start bytes) CHECKSUM_PLACEHOLDER of
             None \<Rightarrow> bytes
           | Some placeholder \<Rightarrow>
               overwrite (start + placeholder + length ''cch='')
                 (hex5 (ps_xxh64 S bytes (cp_checksum_seed CLAUDE_CODE_CAPTURE) AND cp_checksum_mask CLAUDE_CODE_CAPTURE)) bytes))"

definition attested_payload :: "string \<Rightarrow> json \<Rightarrow> json" where
  "attested_payload attestation payload =
     (let blocks = [json_obj [(''type'', JStr ''text''), (''text'', JStr attestation)],
            json_obj [(''type'', JStr ''text''), (''text'', JStr CLAUDE_CODE_SENTENCE),
              (''cache_control'', json_obj [(''type'', JStr ''ephemeral'')])]] @
          (case json_get payload ''system'' of
             Some (JStr system) \<Rightarrow> (if system = [] then [] else [json_obj [(''type'', JStr ''text''), (''text'', JStr system)]])
           | Some (JArr existing) \<Rightarrow> existing
           | _ \<Rightarrow> [])
      in set_member ''system'' (JArr blocks) payload)"

definition attested_body :: "'w provider_site \<Rightarrow> json \<Rightarrow> model_request \<Rightarrow> string" where
  "attested_body S payload request =
     (let attestation = billing_header (ps_sha256_hex S) (first_user_text request)
      in stamp_checksum S (show_json (ps_codec S) (attested_payload attestation payload)) attestation)"

definition provider_body ::
  "'w provider_site \<Rightarrow> string \<Rightarrow> (string \<times> string) list \<Rightarrow> provider_descriptor \<Rightarrow> json \<Rightarrow> model_request \<Rightarrow> posted" where
  "provider_body S url headers d payload request =
     \<lparr>po_url = url, po_headers = headers @ [(''content-type'', ''application/json'')],
      po_body = (if pd_auth d = AnthropicBearer then attested_body S payload request else show_json (ps_codec S) payload)\<rparr>"

subsection \<open>The call\<close>

definition TEMPERATURE_DEPRECATED :: string where
  "TEMPERATURE_DEPRECATED = ''`temperature` is deprecated for this model''"

definition learn_refused_temperature :: "string \<Rightarrow> nat \<Rightarrow> string \<Rightarrow> string list \<Rightarrow> bool \<times> string list" where
  "learn_refused_temperature model_id status body learned =
     (if status \<noteq> 400 \<or> \<not> str_contains body TEMPERATURE_DEPRECATED \<or> model_id \<in> set learned then (False, learned)
      else (True, model_id # learned))"

definition silent_host :: "send_error \<Rightarrow> bool" where
  "silent_host err = list_ex id (se_timed_out err)"

definition post :: "'w provider_site \<Rightarrow> posted \<Rightarrow> 'w call_state \<Rightarrow> (send_error, http_answer) result \<times> 'w call_state" where
  "post S p c =
     (case ps_send S p (cl_world c) of
        (r, taught, w) \<Rightarrow> (r, c\<lparr>cl_learned := taught @ cl_learned c, cl_posted := cl_posted c @ [p], cl_world := w\<rparr>))"

definition send_once_more_if_unsent ::
  "'w provider_site \<Rightarrow> posted \<Rightarrow> 'w call_state \<Rightarrow> (send_error, http_answer) result \<times> 'w call_state" where
  "send_once_more_if_unsent S p c =
     (case post S p c of
        (Inl err, c1) \<Rightarrow>
          (if (se_connect err \<or> se_request err) \<and> \<not> silent_host err then post S p c1 else (Inl err, c1))
      | (Inr answer, c1) \<Rightarrow> (Inr answer, c1))"

definition transport_refusal :: "string \<Rightarrow> refusal" where
  "transport_refusal cause =
     \<lparr>rf_class = DependencyUnavailable,
      rf_message = contract_kind DependencyUnavailable @ '': provider request failed: '' @ cause\<rparr>"

definition transport_failure :: "string \<Rightarrow> send_error \<Rightarrow> model_response" where
  "transport_failure route_id err = attempted_failure route_id (transport_refusal (se_cause err))"

definition response_text :: "http_answer \<Rightarrow> (refusal, string) result" where
  "response_text answer =
     (case ha_body answer of
        Body told \<Rightarrow> Inr told
      | BodyCut cause \<Rightarrow> Inl (transport_refusal cause)
      | NotUtf8 cause \<Rightarrow>
          Inl \<lparr>rf_class = ProviderFailure, rf_message = ''provider_failure: provider response is not UTF-8: '' @ cause\<rparr>)"

definition with_limits :: "model_response \<Rightarrow> limit_reading list \<Rightarrow> model_response" where
  "with_limits response limits = response\<lparr>mr_limits := limits\<rparr>"

definition is_success :: "nat \<Rightarrow> bool" where
  "is_success status = (200 \<le> status \<and> status < 300)"

definition credential_refused :: "model_request \<Rightarrow> string \<Rightarrow> model_response" where
  "credential_refused request err = refused_answer (rq_model request) GCredentialUnauthorized err"

definition unconfigured_route :: "model_request \<Rightarrow> string \<Rightarrow> model_response" where
  "unconfigured_route request err = refused_answer (rq_model request) GProviderFailure err"

definition client_unavailable :: "model_request \<Rightarrow> string \<Rightarrow> model_response" where
  "client_unavailable request err = refused_answer (rq_model request) GDependencyUnavailable err"

definition unreadable_conversation :: "model_request \<Rightarrow> string \<Rightarrow> model_response" where
  "unreadable_conversation request err = refused_answer (rq_model request) GInvalidRequest (''invalid_request: '' @ err)"

text \<open>\<open>provider_base_url_for\<close>, a local model read from the routes file of the deployment.\<close>

definition call_base_url :: "'w provider_site \<Rightarrow> provider_descriptor \<Rightarrow> string \<Rightarrow> (string, string) result" where
  "call_base_url S d model_id =
     provider_base_url_for (ps_parse_url S) (ps_env S) (ps_routes_path S)
       (\<lambda>path. base_url (ps_route_crates S) (ps_routes_file S path)) d model_id"

text \<open>Everything up to the send, the same for a buffered and a streamed call but for the payload.\<close>

definition prepared ::
  "'w provider_site \<Rightarrow> (string \<Rightarrow> model_request \<Rightarrow> (string, json) result) \<Rightarrow> provider_descriptor \<Rightarrow> string \<Rightarrow>
   model_request \<Rightarrow> string \<Rightarrow> string \<Rightarrow> 'w \<Rightarrow> (model_response, posted) result" where
  "prepared S payload_of d model_id request item secret w =
     (if pd_chat_path d = []
      then Inl (refused_answer (rq_model request) GInvalidRequest (''invalid_request: route `'' @ rq_model request @
             ''` serves typed decisions only; call POST /v1/decisions''))
      else
      bind_result (map_sum (credential_refused request) id (provider_credential_key (ps_codec S) d item secret)) (\<lambda>key.
      bind_result (map_sum (unconfigured_route request) id
        (call_base_url S d model_id)) (\<lambda>base_url.
      bind_result (map_sum (client_unavailable request) id (ps_client S)) (\<lambda>_.
      bind_result (map_sum (unreadable_conversation request) id (payload_of model_id request)) (\<lambda>payload.
      bind_result (map_sum (credential_refused request) id (authorize_provider S (ps_request_id S w) d key secret)) (\<lambda>headers.
      Inr (provider_body S (endpoint base_url (pd_chat_path d)) headers d payload request)))))))"

definition read_answer ::
  "'w provider_site \<Rightarrow> provider_descriptor \<Rightarrow> model_request \<Rightarrow> limit_reading list \<Rightarrow> f64 \<Rightarrow> string \<Rightarrow> model_response" where
  "read_answer S d request limits elapsed_ms told =
     (if pd_wire d = OpenAiResponses
      then with_limits (model_response_from_responses_stream (ps_codec S) (rq_model request) told elapsed_ms) limits
      else (case parse_json (ps_codec S) told of
              Inl err \<Rightarrow> provider_failure (rq_model request) (''invalid provider response: '' @ err)
            | Inr body \<Rightarrow>
                with_limits
                  (if pd_wire d = OpenAiChat
                   then model_response_from_openai (ps_codec S) (ps_bad_call S) (rq_model request) body elapsed_ms
                   else model_response_from_anthropic (ps_codec S) (rq_model request) body elapsed_ms (answer_tool request))
                  limits))"

subsection \<open>What a send leaves\<close>

lemma post_learned: "post S p c = (r, c1) \<Longrightarrow> set (cl_learned c) \<subseteq> set (cl_learned c1)"
  by (auto simp: post_def split: prod.splits)

lemma sent_learned: "send_once_more_if_unsent S p c = (r, c1) \<Longrightarrow> set (cl_learned c) \<subseteq> set (cl_learned c1)"
  by (auto simp: send_once_more_if_unsent_def split: prod.splits sum.splits if_splits dest!: post_learned)

lemma learned_once:
  "learn_refused_temperature model_id status body learned = (True, now_learned) \<Longrightarrow>
     model_id \<notin> set learned \<and> model_id \<in> set now_learned"
  by (auto simp: learn_refused_temperature_def split: if_splits)

lemma map_sum_InrE:
  assumes "map_sum f id r = Inr y" obtains "r = Inr y"
  using assms by (cases r) auto

lemma sent_posts:
  assumes "send_once_more_if_unsent S p c = (r, c1)"
  obtains n where "cl_posted c1 = cl_posted c @ replicate n p" and "0 < n" and "n \<le> 2"
proof -
  have "cl_posted c1 = cl_posted c @ replicate 1 p \<or> cl_posted c1 = cl_posted c @ replicate 2 p"
    using assms
    by (auto simp: send_once_more_if_unsent_def post_def numeral_2_eq_2 split: prod.splits sum.splits if_splits)
  then show thesis using that by fastforce
qed

end
