(* ===== verification/Catalogue_Calls.thy ===== *)
theory Catalogue_Calls
  imports Provider_Sends
begin

section \<open>Providers known only from the catalogue\<close>

text \<open>
  \<open>src/src/providers/adapter/catalog.rs\<close> (\<open>dispatch_catalog\<close>), \<open>catalog/endpoint.rs\<close>, \<open>catalog/google_generate.rs\<close> and
  \<open>authorize_catalog\<close> of \<open>call/credential/authorization.rs\<close>: the call of a route whose provider this build has no descriptor for.
  What \<open>path_segments_mut\<close> makes of a URL is the site's \<open>ps_push_segments\<close>; the URL crate refuses it for a URL that cannot be
  a base.
\<close>

subsection \<open>Where a catalogue provider stands\<close>

text \<open>\<open>str::strip_suffix\<close>.\<close>

definition strip_suffix :: "string \<Rightarrow> string \<Rightarrow> string option" where
  "strip_suffix ending s =
     (if length ending \<le> length s \<and> drop (length s - length ending) s = ending
      then Some (take (length s - length ending) s) else None)"

definition catalog_endpoint :: "string \<Rightarrow> string \<Rightarrow> string" where
  "catalog_endpoint url path =
     (let base = trim_end_matches (CHR ''/'') url
      in if strip_suffix path base \<noteq> None then base
         else (case (if path = ''/models''
                     then or_option (strip_suffix ''/chat/completions'' base) (strip_suffix ''/messages'' base) else None) of
                 Some front \<Rightarrow> endpoint front path
               | None \<Rightarrow> endpoint base path))"

definition TRUSTED_CATALOG_BASE_URLS :: "(string \<times> string) list" where
  "TRUSTED_CATALOG_BASE_URLS =
     [(''abliteration-ai'', ''https://api.abliteration.ai/v1''),
      (''anthropic'', ''https://api.anthropic.com/v1''),
      (''kimi'', ''https://api.kimi.com/coding/v1''),
      (''openai'', ''https://api.openai.com/v1''),
      (''codex'', ''https://chatgpt.com/backend-api/codex''),
      (''openrouter'', ''https://openrouter.ai/api/v1''),
      (''groq'', ''https://api.groq.com/openai/v1''),
      (''mistral'', ''https://api.mistral.ai/v1''),
      (''xai'', ''https://api.x.ai/v1''),
      (''deepseek'', ''https://api.deepseek.com''),
      (''cerebras'', ''https://api.cerebras.ai/v1''),
      (''fireworks'', ''https://api.fireworks.ai/inference/v1''),
      (''togetherai'', ''https://api.together.xyz/v1''),
      (''nvidia'', ''https://integrate.api.nvidia.com/v1''),
      (''moonshot'', ''https://api.moonshot.ai/v1''),
      (''zai'', ''https://api.z.ai/api/paas/v4''),
      (''qwen'', ''https://dashscope-intl.aliyuncs.com/compatible-mode/v1''),
      (''huggingface'', ''https://router.huggingface.co/v1''),
      (''featherless'', ''https://api.featherless.ai/v1''),
      (''venice'', ''https://api.venice.ai/api/v1''),
      (''novita'', ''https://api.novita.ai/openai/v1''),
      (''synthetic'', ''https://api.synthetic.new/v1''),
      (''perplexity'', ''https://api.perplexity.ai''),
      (''deepinfra'', ''https://api.deepinfra.com/v1/openai''),
      (''google'', ''https://generativelanguage.googleapis.com/v1beta'')]"

definition trusted_catalog_base_url :: "string \<Rightarrow> string option" where
  "trusted_catalog_base_url provider_id = map_of TRUSTED_CATALOG_BASE_URLS provider_id"

definition catalog_provider_base_url ::
  "url_parser \<Rightarrow> environment \<Rightarrow> catalog_provider \<Rightarrow> (string, string) result" where
  "catalog_provider_base_url parse_url env d =
     bind_result (ok_or (''provider `'' @ cg_id d @ ''` has no trusted endpoint'') (trusted_catalog_base_url (cg_id d)))
       (\<lambda>declared.
         bind_result (provider_base_url_override env (cg_id d)) (\<lambda>overridden.
           case overridden of
             Some configured \<Rightarrow> validated_provider_base_url parse_url (cg_id d) configured declared True
           | None \<Rightarrow> validated_provider_base_url parse_url (cg_id d) declared declared False))"

definition authorize_catalog :: "catalog_provider \<Rightarrow> string \<Rightarrow> (string \<times> string) list" where
  "authorize_catalog d key =
     (case cg_auth d of
        CatalogBearer \<Rightarrow> bearer_auth key
      | CatalogXApiKey \<Rightarrow> [(''x-api-key'', key), (''anthropic-version'', ANTHROPIC_API_VERSION)]
      | CatalogGoogleApiKey \<Rightarrow> [(''x-goog-api-key'', key)])"

subsection \<open>The generateContent dialect\<close>

definition google_mode :: "string \<Rightarrow> (string \<times> json) list \<Rightarrow> json" where
  "google_mode mode allowed = json_obj [(''functionCallingConfig'', json_obj ((''mode'', JStr mode) # allowed))]"

definition google_tool_config :: "json \<Rightarrow> json option" where
  "google_tool_config choice =
     (case named_tool_choice choice of
        Some name \<Rightarrow> Some (google_mode ''ANY'' [(''allowedFunctionNames'', JArr [JStr name])])
      | None \<Rightarrow>
          (if as_str choice = Some ''auto'' then Some (google_mode ''AUTO'' [])
           else if as_str choice = Some ''required'' then Some (google_mode ''ANY'' [])
           else if as_str choice = Some ''none'' then Some (google_mode ''NONE'' [])
           else None))"

definition google_part :: "json \<Rightarrow> json option" where
  "google_part part =
     (let kind = Option.bind (json_get part ''type'') as_str
      in if kind = Some ''text'' then map_option (\<lambda>told. json_obj [(''text'', told)]) (json_get part ''text'')
         else if kind = Some ''image_url'' then
           Option.bind (Option.bind (json_pointer part ''image_url'' ''url'') as_str) (\<lambda>url.
             case strip_prefix ''data:'' url of
               Some data \<Rightarrow>
                 map_option (\<lambda>(mime, encoded).
                   json_obj [(''inlineData'', json_obj [(''mimeType'', JStr mime), (''data'', JStr encoded)])])
                   (split_text '';base64,'' data)
             | None \<Rightarrow> Some (json_obj [(''fileData'', json_obj [(''fileUri'', JStr url)])]))
         else None)"

definition google_call :: "json_codec \<Rightarrow> json \<Rightarrow> (string, json) result" where
  "google_call J call =
     bind_result (ok_or (''history tool call '' @ show_json J call @ '' carries no text arguments'')
       (Option.bind (json_pointer call ''function'' ''arguments'') as_str)) (\<lambda>arguments.
     bind_result (map_sum (\<lambda>err. ''history tool call '' @ show_json J call @ '' carries arguments that are not JSON: '' @ err) id
       (parse_json J arguments)) (\<lambda>args.
     Inr (json_obj [(''functionCall'',
       json_obj [(''name'', json_or_null (json_pointer call ''function'' ''name'')), (''args'', args)])])))"

definition google_parts :: "json_codec \<Rightarrow> (string, json) btmap \<Rightarrow> message \<Rightarrow> (string, json list) result" where
  "google_parts J names m =
     (if msg_role m = ''tool''
      then Inr [json_obj [(''functionResponse'',
             json_obj [(''name'', json_or_null (Option.bind (msg_tool_call_id m) (bt_get names))),
               (''response'', json_obj [(''result'', JStr (content_text m))])])]]
      else
        (let parts = (case msg_content m of
               JStr told \<Rightarrow> [json_obj [(''text'', JStr told)]]
             | JArr values \<Rightarrow> List.map_filter google_part values
             | _ \<Rightarrow> [])
         in case msg_tool_calls m of
              None \<Rightarrow> Inr parts
            | Some calls \<Rightarrow>
                bind_result (collect_results (map (google_call J) calls)) (\<lambda>called. Inr (parts @ called))))"

definition google_call_name :: "json \<Rightarrow> (string \<times> json) option" where
  "google_call_name call =
     Option.bind (Option.bind (json_get call ''id'') as_str) (\<lambda>i.
       map_option (Pair i) (json_pointer call ''function'' ''name''))"

definition google_names :: "model_request \<Rightarrow> (string, json) btmap" where
  "google_names request =
     foldl (\<lambda>names (i, name). bt_insert i name names) []
       (List.map_filter google_call_name
          (concat (map (\<lambda>m. case msg_tool_calls m of Some calls \<Rightarrow> calls | None \<Rightarrow> []) (rq_messages request))))"

definition google_content :: "json_codec \<Rightarrow> (string, json) btmap \<Rightarrow> message \<Rightarrow> (string, json) result" where
  "google_content J names m =
     bind_result (google_parts J names m) (\<lambda>parts.
       Inr (json_obj [(''role'', JStr (if msg_role m = ''assistant'' then ''model'' else ''user'')), (''parts'', JArr parts)]))"

definition google_declaration :: "tool \<Rightarrow> json" where
  "google_declaration t =
     json_obj [(''name'', JStr (tool_name t)), (''description'', JStr (tool_description t)),
       (''parameters'', case tool_parameters t of Some p \<Rightarrow> p | None \<Rightarrow> json_obj [(''type'', JStr ''object'')])]"

definition generation_config :: "model_request \<Rightarrow> json" where
  "generation_config request =
     json_obj (optional_member ''maxOutputTokens'' (map_option (\<lambda>n. JInt (uint n)) (rq_max_tokens request)) @
       optional_member ''temperature'' (map_option json_f64 (rq_temperature request)) @
       (case (if rq_tools request = None then rq_response_schema request else None) of
          None \<Rightarrow> []
        | Some schema \<Rightarrow>
            [(''responseMimeType'', JStr ''application/json''), (''responseJsonSchema'', rs_schema schema)]))"

definition google_payload :: "json_codec \<Rightarrow> model_request \<Rightarrow> (string, json) result" where
  "google_payload J request =
     bind_result (collect_results (map (google_content J (google_names request)) (rq_messages request))) (\<lambda>contents.
     Inr (json_obj ([(''contents'', JArr contents), (''generationConfig'', generation_config request)] @
       optional_member ''systemInstruction''
         (map_option (\<lambda>system. json_obj [(''parts'', JArr [json_obj [(''text'', JStr system)]])]) (stated_system request)) @
       (case rq_tools request of
          None \<Rightarrow> []
        | Some [] \<Rightarrow> []
        | Some tools \<Rightarrow>
            [(''tools'', JArr [json_obj [(''functionDeclarations'', JArr (map google_declaration tools))]])]) @
       optional_member ''toolConfig'' (Option.bind (rq_tool_choice request) google_tool_config))))"

text \<open>One part of the answer after another; the index numbers its calls.\<close>

fun google_answer_parts ::
  "json_codec \<Rightarrow> nat \<Rightarrow> json list \<Rightarrow> string \<times> tool_call list \<Rightarrow> (string, string \<times> tool_call list) result" where
  "google_answer_parts J index [] read = Inr read"
| "google_answer_parts J index (part # parts) (content, calls) =
     (let content = content @ (case Option.bind (json_get part ''text'') as_str of Some told \<Rightarrow> told | None \<Rightarrow> [])
      in case json_get part ''functionCall'' of
           None \<Rightarrow> google_answer_parts J (Suc index) parts (content, calls)
         | Some call \<Rightarrow>
             (case Option.bind (json_get call ''name'') as_str of
                None \<Rightarrow> Inl (''the provider answered a functionCall without a name: '' @ show_json J part)
              | Some name \<Rightarrow>
                  google_answer_parts J (Suc index) parts (content, calls @
                    [\<lparr>tc_id = ''google-call-'' @ show_nat index, tc_call_type = ''function'', tc_name = name,
                      tc_arguments = show_json J (case json_get call ''args'' of Some args \<Rightarrow> args | None \<Rightarrow> JObj [])\<rparr>])))"

definition model_response_from_google :: "json_codec \<Rightarrow> string \<Rightarrow> json \<Rightarrow> f64 \<Rightarrow> model_response" where
  "model_response_from_google J route_id body elapsed_ms =
     (case Option.bind (json_at body [''candidates'', ''0'', ''content'', ''parts'']) as_array of
        None \<Rightarrow> provider_failure route_id (''the provider answered without candidates[0].content.parts: '' @ show_json J body)
      | Some parts \<Rightarrow>
          (case google_answer_parts J 0 parts ([], []) of
             Inl cause \<Rightarrow> provider_failure route_id cause
           | Inr (content, calls) \<Rightarrow>
               (case answer_usage J (json_pointer body ''usageMetadata'' ''promptTokenCount'')
                       (json_pointer body ''usageMetadata'' ''candidatesTokenCount'') of
                  Inl cause \<Rightarrow> provider_failure route_id cause
                | Inr usage \<Rightarrow> answered route_id content usage elapsed_ms (if calls = [] then None else Some calls))))"

subsection \<open>The call\<close>

definition catalog_openai_body :: "string \<Rightarrow> model_request \<Rightarrow> json" where
  "catalog_openai_body model_id request =
     json_obj ([(''model'', JStr model_id), (''messages'', JArr (openai_messages request))] @
       optional_member ''max_tokens'' (map_option (\<lambda>n. JInt (uint n)) (rq_max_tokens request)) @
       optional_member ''temperature'' (map_option json_f64 (rq_temperature request)) @
       optional_member ''tools'' (map_option normalized_tools_value (rq_tools request)) @
       optional_member ''tool_choice'' (rq_tool_choice request) @
       optional_member ''response_format'' (map_option answer_format (rq_response_schema request)))"

definition catalog_anthropic_body ::
  "'w provider_site \<Rightarrow> string \<Rightarrow> string \<Rightarrow> model_request \<Rightarrow> (model_response, json) result" where
  "catalog_anthropic_body S provider_id model_id request =
     bind_result (map_sum (unreadable_conversation request) id (sent_anthropic_messages (ps_codec S) request)) (\<lambda>messages.
     bind_result (map_sum (refused_answer (rq_model request) GInvalidRequest) id
       (required_output_limit (ps_document S) provider_id model_id (rq_max_tokens request))) (\<lambda>limit.
     Inr (json_obj ([(''model'', JStr model_id), (''messages'', JArr messages), (''max_tokens'', JInt (uint limit))] @
       optional_member ''temperature'' (map_option json_f64 (rq_temperature request)) @
       optional_member ''system'' (map_option JStr (stated_system request)) @
       optional_member ''tools'' (fst (anthropic_tooling request)) @ optional_member ''tool_choice'' (snd (anthropic_tooling request))))))"

definition google_url :: "'w provider_site \<Rightarrow> model_request \<Rightarrow> string \<Rightarrow> string \<Rightarrow> (model_response, string) result" where
  "google_url S request base model_id =
     (case ps_parse_url S base of
        Inl err \<Rightarrow> Inl (unconfigured_route request err)
      | Inr u \<Rightarrow>
          (if ur_cannot_be_a_base u
           then Inl (refused_answer (rq_model request) GProviderFailure ''provider API endpoint cannot be a base URL'')
           else Inr (ps_push_segments S u [''models'', model_id @ '':generateContent''])))"

text \<open>
  The URL and the body of the protocol. The last branch is the code's \<open>unreachable!()\<close>: a provider of an unsupported
  protocol is refused by \<open>catalog_listed\<close> before.
\<close>

definition catalog_post ::
  "'w provider_site \<Rightarrow> catalog_provider \<Rightarrow> string \<Rightarrow> string \<Rightarrow> string \<Rightarrow> model_request \<Rightarrow>
   (model_response, string \<times> json) result" where
  "catalog_post S d provider_id model_id base request =
     (case cg_protocol d of
        CatalogOpenAiChat \<Rightarrow>
          Inr (catalog_endpoint base ''/chat/completions'', catalog_openai_body model_id request)
      | CatalogAnthropicMessages \<Rightarrow>
          bind_result (catalog_anthropic_body S provider_id model_id request) (\<lambda>body.
            Inr (catalog_endpoint base ''/messages'', body))
      | GoogleGenerateContent \<Rightarrow>
          bind_result (google_url S request base model_id) (\<lambda>url.
          bind_result (map_sum (unreadable_conversation request) id (google_payload (ps_codec S) request)) (\<lambda>payload.
            Inr (url, payload)))
      | Unsupported \<Rightarrow> Inl (refused_answer (rq_model request) GProviderFailure ''unreachable''))"

text \<open>The checks of a route against the catalogue, and everything up to the send.\<close>

definition catalog_listed ::
  "catalog_snapshot \<Rightarrow> model_request \<Rightarrow> string \<Rightarrow> string \<Rightarrow> (model_response, catalog_provider) result" where
  "catalog_listed catalog request provider_id model_id =
     (case bt_get (cn_providers catalog) provider_id of
        None \<Rightarrow>
          Inl (refused_answer (rq_model request) GDependencyUnavailable
                 (''provider `'' @ provider_id @ ''` is not in the Wisent catalog''))
      | Some d \<Rightarrow>
          (if \<not> executable d
           then Inl (refused_answer (rq_model request) GProviderFailure
                  (''provider `'' @ provider_id @ ''` uses an unsupported protocol''))
           else if \<not> list_ex (\<lambda>m. rm_route_id m = rq_model request) (cn_models catalog)
           then Inl (refused_answer (rq_model request) GProviderFailure
                  (''model `'' @ model_id @ ''` is not advertised by provider `'' @ provider_id @ ''`''))
           else Inr d))"

definition catalog_prepared ::
  "'w provider_site \<Rightarrow> catalog_snapshot \<Rightarrow> string \<Rightarrow> string \<Rightarrow> model_request \<Rightarrow> string \<Rightarrow> string \<Rightarrow>
   (model_response, catalog_provider \<times> posted) result" where
  "catalog_prepared S catalog provider_id model_id request item secret =
     bind_result (catalog_listed catalog request provider_id model_id) (\<lambda>d.
     bind_result (map_sum (credential_refused request) id (credential_key (ps_codec S) item secret)) (\<lambda>key.
     bind_result (map_sum (unconfigured_route request) id
       (catalog_provider_base_url (ps_parse_url S) (ps_env S) d)) (\<lambda>base_url.
     bind_result (map_sum (client_unavailable request) id (ps_client S)) (\<lambda>_.
     bind_result (catalog_post S d provider_id model_id base_url request) (\<lambda>(url, payload).
     Inr (d, \<lparr>po_url = url, po_headers = authorize_catalog d key @ [(''content-type'', ''application/json'')],
              po_body = show_json (ps_codec S) payload\<rparr>))))))"

definition catalog_answer ::
  "'w provider_site \<Rightarrow> catalog_provider \<Rightarrow> model_request \<Rightarrow> f64 \<Rightarrow> json \<Rightarrow> model_response" where
  "catalog_answer S d request elapsed_ms body =
     (case cg_protocol d of
        CatalogAnthropicMessages \<Rightarrow>
          model_response_from_anthropic (ps_codec S) (rq_model request) body elapsed_ms (answer_tool request)
      | GoogleGenerateContent \<Rightarrow> model_response_from_google (ps_codec S) (rq_model request) body elapsed_ms
      | _ \<Rightarrow> model_response_from_openai (ps_codec S) (ps_bad_call S) (rq_model request) body elapsed_ms)"

definition catalog_sent ::
  "'w provider_site \<Rightarrow> model_request \<Rightarrow> catalog_provider \<times> posted \<Rightarrow> 'w call_state \<Rightarrow> model_response \<times> 'w call_state" where
  "catalog_sent S request dp c =
     (case dp of (d, p) \<Rightarrow>
       (case send_once_more_if_unsent S p c of
          (Inl err, c1) \<Rightarrow> (transport_failure (rq_model request) err, c1)
        | (Inr answer, c1) \<Rightarrow>
            (case response_text answer of
               Inl cause \<Rightarrow> (attempted_failure (rq_model request) cause, c1)
             | Inr told \<Rightarrow>
                 (let limits = ps_limits S (ha_plan answer) (cl_world c1)
                  in if \<not> is_success (ha_status answer)
                     then (with_limits (provider_error (ps_codec S) (rq_model request) (ha_status answer) told) limits, c1)
                     else (case parse_json (ps_codec S) told of
                             Inl err \<Rightarrow> (provider_failure (rq_model request) (''invalid provider response: '' @ err), c1)
                           | Inr body \<Rightarrow>
                               (with_limits (catalog_answer S d request (ha_elapsed_ms answer) body) limits, c1))))))"

definition catalog_route :: "model_request \<Rightarrow> (string \<times> string) option" where
  "catalog_route request =
     (case split_once (CHR ''/'') (rq_model request) of
        None \<Rightarrow> None
      | Some (provider_id, model_id) \<Rightarrow>
          (if valid_provider_id provider_id \<and> valid_model_id model_id then Some (provider_id, model_id) else None))"

definition call_snapshot ::
  "'w provider_site \<Rightarrow> 'w call_state \<Rightarrow> (string, catalog_snapshot) result \<times> 'w call_state" where
  "call_snapshot S c =
     (case snapshot (ps_catalog S) (cl_catalog c) (cl_refreshing c) (cl_world c) of
        (r, cache, refreshing, w) \<Rightarrow> (r, c\<lparr>cl_catalog := cache, cl_refreshing := refreshing, cl_world := w\<rparr>))"

definition dispatch_catalog ::
  "'w provider_site \<Rightarrow> model_request \<Rightarrow> string \<Rightarrow> string \<Rightarrow> 'w call_state \<Rightarrow> model_response \<times> 'w call_state" where
  "dispatch_catalog S request item secret c =
     (case catalog_route request of
        None \<Rightarrow> (refused_answer (rq_model request) GInvalidRequest ''invalid provider/model route'', c)
      | Some (provider_id, model_id) \<Rightarrow>
          (case call_snapshot S c of
             (Inl err, c1) \<Rightarrow> (refused_answer (rq_model request) GDependencyUnavailable err, c1)
           | (Inr catalog, c1) \<Rightarrow>
               (case catalog_prepared S catalog provider_id model_id request item secret of
                  Inl refused \<Rightarrow> (refused, c1)
                | Inr dp \<Rightarrow> catalog_sent S request dp c1)))"

subsection \<open>What the dialect can carry\<close>

lemma well_called_for_google: "well_called J call \<Longrightarrow> \<exists>sent. google_call J call = Inr sent"
proof -
  assume "well_called J call"
  then obtain sent where "sent_tool_use J call = Inr sent" using well_called_is_sent by blast
  then show ?thesis by (auto simp: sent_tool_use_def google_call_def bind_result_Inr)
qed

lemma google_calls_carried:
  "list_all (well_called J) calls \<Longrightarrow> \<exists>sent. collect_results (map (google_call J) calls) = Inr sent"
proof (induction calls)
  case (Cons call calls)
  then show ?case using well_called_for_google [of J call] by auto
qed simp

lemma google_contents_carried:
  "calls_sound J messages \<Longrightarrow> \<exists>sent. collect_results (map (google_content J names) messages) = Inr sent"
proof (induction messages)
  case (Cons m messages)
  then have "list_all (well_called J) (calls_of m)" by (simp add: calls_sound_def)
  then have "\<exists>sent. google_content J names m = Inr sent"
    using google_calls_carried [of J "calls_of m"]
    by (auto simp: google_content_def google_parts_def calls_of_def bind_result_def Let_def split: option.splits)
  with Cons show ?case by (auto simp: calls_sound_def)
qed simp

text \<open>A conversation whose history was checked at the door can be written in the generateContent dialect too.\<close>

theorem accepted_calls_reach_google:
  "(case chat_call J chat of Inr call \<Rightarrow> \<exists>sent. google_payload J (ic_request call) = Inr sent | Inl _ \<Rightarrow> True)"
proof (cases "chat_call J chat")
  case (Inr call)
  from google_contents_carried [OF chat_call_sound [OF Inr]] obtain sent where
    "collect_results (map (google_content J (google_names (ic_request call))) (rq_messages (ic_request call))) = Inr sent" by blast
  then show ?thesis using Inr by (simp add: google_payload_def bind_result_def)
qed simp

subsection \<open>Where a catalogue call goes\<close>

text \<open>A post a catalogue route's own provider is to receive, by the catalogue the call was routed by.\<close>

definition catalog_addressed ::
  "'w provider_site \<Rightarrow> model_request \<Rightarrow> string \<Rightarrow> string \<Rightarrow> 'w call_state \<Rightarrow> posted \<Rightarrow> bool" where
  "catalog_addressed S request item secret c p =
     (\<exists>provider_id model_id catalog d base_url key payload.
        catalog_route request = Some (provider_id, model_id) \<and> fst (call_snapshot S c) = Inr catalog \<and>
        bt_get (cn_providers catalog) provider_id = Some d \<and> rq_model request \<in> rm_route_id ` set (cn_models catalog) \<and>
        catalog_provider_base_url (ps_parse_url S) (ps_env S) d = Inr base_url \<and>
        catalog_post S d provider_id model_id base_url request = Inr (po_url p, payload) \<and>
        credential_key (ps_codec S) item secret = Inr key \<and>
        po_headers p = authorize_catalog d key @ [(''content-type'', ''application/json'')])"

lemma catalog_prepared_addressed:
  assumes "catalog_route request = Some (provider_id, model_id)" and "fst (call_snapshot S c) = Inr catalog"
    and "catalog_prepared S catalog provider_id model_id request item secret = Inr (d, p)"
  shows "catalog_addressed S request item secret c p"
  using assms unfolding catalog_addressed_def catalog_prepared_def catalog_listed_def
  by (fastforce simp: list_ex_iff intro: rev_image_eqI split: option.splits if_splits elim!: bind_result_InrE map_sum_InrE)

lemma catalog_sent_posts: "snd (catalog_sent S request (d, p) c) = snd (send_once_more_if_unsent S p c)"
  by (simp add: catalog_sent_def Let_def split: prod.split sum.split)

lemma call_snapshot_posts [simp]: "cl_posted (snd (call_snapshot S c)) = cl_posted c"
  by (simp add: call_snapshot_def split: prod.split)

lemma dispatch_catalog_posts:
  "\<exists>posts. cl_posted (snd (dispatch_catalog S request item secret c)) = cl_posted c @ posts \<and> length posts \<le> 2 \<and>
     list_all (catalog_addressed S request item secret c) posts"
proof (cases "catalog_route request")
  case (Some route)
  then obtain provider_id model_id where route: "catalog_route request = Some (provider_id, model_id)" by (cases route) auto
  obtain r c1 where read: "call_snapshot S c = (r, c1)" by fastforce
  then have kept: "cl_posted c1 = cl_posted c" using call_snapshot_posts [of S c] by simp
  show ?thesis
  proof (cases r)
    case (Inr catalog)
    show ?thesis
    proof (cases "catalog_prepared S catalog provider_id model_id request item secret")
      case (Inr dp)
      obtain d p where dp: "dp = (d, p)" by fastforce
      obtain x c2 where sent: "send_once_more_if_unsent S p c1 = (x, c2)" by fastforce
      have "catalog_addressed S request item secret c p"
        using catalog_prepared_addressed [OF route _ Inr [unfolded dp]] read \<open>r = Inr catalog\<close> by simp
      moreover obtain n where "cl_posted c2 = cl_posted c1 @ replicate n p" "n \<le> 2" using sent_posts [OF sent] .
      ultimately show ?thesis
        using catalog_sent_posts [of S request d p c1] kept
        by (intro exI [of _ "replicate n p"])
           (simp add: dispatch_catalog_def route read Inr \<open>r = Inr catalog\<close> dp sent list_all_iff)
    qed (use kept in \<open>simp add: dispatch_catalog_def route read Inr\<close>)
  qed (use kept in \<open>simp add: dispatch_catalog_def route read\<close>)
qed (simp add: dispatch_catalog_def)

text \<open>The address a catalogue provider's base URL is validated to be.\<close>

lemma catalog_base_url_trusted:
  assumes "catalog_provider_base_url parse_url env d = Inr out"
  shows "\<exists>declared u candidate. trusted_catalog_base_url (cg_id d) = Some declared \<and> parse_url candidate = Inr u
    \<and> out = trim_end_matches (CHR ''/'') (ur_text u)
    \<and> trusted_address parse_url (env (override_name (cg_id d)) = Inr (Some candidate)) declared u"
proof -
  from assms obtain declared overridden where declared: "trusted_catalog_base_url (cg_id d) = Some declared"
    and o: "provider_base_url_override env (cg_id d) = Inr overridden"
    and v: "(case overridden of
        Some configured \<Rightarrow> validated_provider_base_url parse_url (cg_id d) configured declared True
      | None \<Rightarrow> validated_provider_base_url parse_url (cg_id d) declared declared False) = Inr out"
    by (auto simp: catalog_provider_base_url_def bind_result_Inr ok_or_Inr)
  show ?thesis
  proof (cases overridden)
    case None
    with v obtain u where "parse_url declared = Inr u" "trusted_address parse_url False declared u"
      "out = trim_end_matches (CHR ''/'') (ur_text u)" using validated_trusted by fastforce
    moreover from this(2) have "trusted_address parse_url e declared u" for e
      by (auto simp: trusted_address_def split: if_splits)
    ultimately show ?thesis using declared by blast
  next
    case (Some configured)
    with o have "env (override_name (cg_id d)) = Inr (Some configured)"
      by (auto simp: provider_base_url_override_def split: sum.splits option.splits if_splits)
    with v Some declared validated_trusted show ?thesis by fastforce
  qed
qed

end
