(* ===== verification/Provider_Calls.thy ===== *)
theory Provider_Calls
  imports Catalogue_Calls
begin

section \<open>One call to a provider\<close>

text \<open>
  \<open>src/src/providers/adapter.rs\<close> (\<open>dispatch\<close>, \<open>dispatch_stream\<close>): the buffered and the streamed call, composed of the parts of
  \<open>Provider_Sends\<close> and, for a route without a descriptor, of \<open>Catalogue_Calls\<close>; where a call goes and what it counts.
\<close>

subsection \<open>The calls\<close>

definition unlearned :: "string \<Rightarrow> 'w call_state \<Rightarrow> nat" where
  "unlearned value c = (case registry_route value of Some (_, m) \<Rightarrow> (if m \<in> set (cl_learned c) then 0 else 1) | None \<Rightarrow> 0)"

function dispatch_provider ::
  "'w provider_site \<Rightarrow> model_request \<Rightarrow> string \<Rightarrow> string \<Rightarrow> 'w call_state \<Rightarrow> model_response \<times> 'w call_state" where
  "dispatch_provider S request item secret c =
     (case registry_route (rq_model request) of
        None \<Rightarrow> dispatch_catalog S request item secret c
      | Some (d, model_id) \<Rightarrow>
          (case prepared S (chat_payload (ps_codec S) (ps_document S) (cl_learned c) d) d model_id request item secret (cl_world c) of
             Inl refused \<Rightarrow> (refused, c)
           | Inr p \<Rightarrow>
               (case send_once_more_if_unsent S p c of
                  (Inl err, c1) \<Rightarrow> (transport_failure (rq_model request) err, c1)
                | (Inr answer, c1) \<Rightarrow>
                    (case response_text answer of
                       Inl cause \<Rightarrow> (attempted_failure (rq_model request) cause, c1)
                     | Inr told \<Rightarrow>
                         (let limits = ps_limits S (ha_plan answer) (cl_world c1)
                          in if is_success (ha_status answer)
                             then (read_answer S d request limits (ha_elapsed_ms answer) told, c1)
                             else (case learn_refused_temperature model_id (ha_status answer) told (cl_learned c1) of
                                     (True, learned) \<Rightarrow> dispatch_provider S request item secret (c1\<lparr>cl_learned := learned\<rparr>)
                                   | (False, _) \<Rightarrow>
                                       (with_limits (provider_error (ps_codec S) (rq_model request) (ha_status answer) told) limits, c1)))))))"
  by pat_completeness auto

termination
  by (relation "measure (\<lambda>(S, request, item, secret, c). unlearned (rq_model request) c)")
     (auto simp: unlearned_def dest!: learned_once [OF sym] sent_learned [OF sym])

declare dispatch_provider.simps [simp del]

text \<open>
  \<open>dispatch_stream\<close>: the status decides before the body is read; what is opened is the answer whose bytes
  \<open>Event_Streams\<close> reads.
\<close>

function dispatch_stream ::
  "'w provider_site \<Rightarrow> model_request \<Rightarrow> string \<Rightarrow> string \<Rightarrow> 'w call_state \<Rightarrow>
   (model_response, limit_reading list \<times> wire_protocol \<times> http_answer) result \<times> 'w call_state" where
  "dispatch_stream S request item secret c =
     (case registry_route (rq_model request) of
        None \<Rightarrow>
          (Inl (refused_answer (rq_model request) GInvalidRequest ''streaming is supported for provider routes only''), c)
      | Some (d, model_id) \<Rightarrow>
          (case prepared S (streaming_chat_payload (ps_codec S) (ps_document S) (cl_learned c) d) d model_id request item secret
                  (cl_world c) of
             Inl refused \<Rightarrow> (Inl refused, c)
           | Inr p \<Rightarrow>
               (case send_once_more_if_unsent S p c of
                  (Inl err, c1) \<Rightarrow> (Inl (transport_failure (rq_model request) err), c1)
                | (Inr answer, c1) \<Rightarrow>
                    (let limits = ps_limits S (ha_plan answer) (cl_world c1)
                     in if is_success (ha_status answer) then (Inr (limits, pd_wire d, answer), c1)
                        else (case response_text answer of
                                Inl cause \<Rightarrow> (Inl (attempted_failure (rq_model request) cause), c1)
                              | Inr told \<Rightarrow>
                                  (case learn_refused_temperature model_id (ha_status answer) told (cl_learned c1) of
                                     (True, learned) \<Rightarrow> dispatch_stream S request item secret (c1\<lparr>cl_learned := learned\<rparr>)
                                   | (False, _) \<Rightarrow>
                                       (Inl (with_limits (provider_error (ps_codec S) (rq_model request) (ha_status answer) told) limits),
                                        c1)))))))"
  by pat_completeness auto

termination
  by (relation "measure (\<lambda>(S, request, item, secret, c). unlearned (rq_model request) c)")
     (auto simp: unlearned_def dest!: learned_once [OF sym] sent_learned [OF sym])

declare dispatch_stream.simps [simp del]

subsection \<open>Where a call goes\<close>

text \<open>A post a route's own provider is to receive: at its chat endpoint, with its credential's headers.\<close>

definition addressed :: "'w provider_site \<Rightarrow> model_request \<Rightarrow> string \<Rightarrow> string \<Rightarrow> posted \<Rightarrow> bool" where
  "addressed S request item secret p =
     (\<exists>d model_id base_url key request_id headers.
        registry_route (rq_model request) = Some (d, model_id) \<and>
        call_base_url S d model_id = Inr base_url \<and>
        po_url p = endpoint base_url (pd_chat_path d) \<and>
        provider_credential_key (ps_codec S) d item secret = Inr key \<and>
        authorize_provider S request_id d key secret = Inr headers \<and>
        po_headers p = headers @ [(''content-type'', ''application/json'')])"

lemma prepared_addressed:
  assumes "registry_route (rq_model request) = Some (d, model_id)"
    and "prepared S payload_of d model_id request item secret w = Inr p"
  shows "addressed S request item secret p"
  using assms unfolding addressed_def prepared_def
  by (auto simp: provider_body_def split: if_splits elim!: bind_result_InrE map_sum_InrE)

lemma sent_catalog: "send_once_more_if_unsent S p c = (r, c1) \<Longrightarrow> cl_catalog c1 = cl_catalog c"
  by (auto simp: send_once_more_if_unsent_def post_def split: prod.splits sum.splits if_splits)

definition posts_ok :: "'w provider_site \<Rightarrow> model_request \<Rightarrow> string \<Rightarrow> string \<Rightarrow> 'w call_state \<Rightarrow> 'w call_state \<Rightarrow> bool" where
  "posts_ok S request item secret c c' =
     (\<exists>posts. cl_posted c' = cl_posted c @ posts \<and> list_all (addressed S request item secret) posts \<and>
        length posts \<le> 2 * Suc (unlearned (rq_model request) c) \<and> cl_catalog c' = cl_catalog c)"

lemma posts_none [simp]: "posts_ok S request item secret c c"
  by (simp add: posts_ok_def)

lemma posts_sent:
  assumes "send_once_more_if_unsent S p c = (r, c1)" and "addressed S request item secret p"
  shows "posts_ok S request item secret c c1"
proof -
  obtain n where "cl_posted c1 = cl_posted c @ replicate n p" and "n \<le> 2" using sent_posts [OF assms(1)] .
  then show ?thesis using assms(2) sent_catalog [OF assms(1)] by (auto simp: posts_ok_def list_all_iff)
qed

lemma posts_resent:
  assumes sent: "send_once_more_if_unsent S p c = (r, c1)" and "addressed S request item secret p"
    and route: "registry_route (rq_model request) = Some (d, model_id)"
    and learned: "learn_refused_temperature model_id status told (cl_learned c1) = (True, learned)"
    and again: "posts_ok S request item secret (c1\<lparr>cl_learned := learned\<rparr>) c2"
  shows "posts_ok S request item secret c c2"
proof -
  have "model_id \<notin> set (cl_learned c)" "model_id \<in> set learned"
    using learned_once [OF learned] sent_learned [OF sent] by auto
  then have "unlearned (rq_model request) c = 1" "unlearned (rq_model request) (c1\<lparr>cl_learned := learned\<rparr>) = 0"
    by (simp_all add: unlearned_def route)
  moreover obtain n where "cl_posted c1 = cl_posted c @ replicate n p" and "n \<le> 2" using sent_posts [OF sent] .
  ultimately show ?thesis using again \<open>addressed S request item secret p\<close> sent_catalog [OF sent]
    by (auto simp: posts_ok_def list_all_iff)
qed

lemma dispatch_posts:
  "registry_route (rq_model request) \<noteq> None \<Longrightarrow> posts_ok S request item secret c (snd (dispatch_provider S request item secret c))"
proof (induction S request item secret c rule: dispatch_provider.induct)
  case (1 S request item secret c)
  note unfolded = dispatch_provider.simps [of S request item secret c]
  show ?case
  proof (cases "registry_route (rq_model request)")
    case (Some dm)
    then obtain d model_id where route: "registry_route (rq_model request) = Some (d, model_id)" by (cases dm) auto
    show ?thesis
    proof (cases "prepared S (chat_payload (ps_codec S) (ps_document S) (cl_learned c) d) d model_id request item secret
        (cl_world c)")
      case (Inr p)
      obtain r c1 where sent: "send_once_more_if_unsent S p c = (r, c1)" by fastforce
      note known = prepared_addressed [OF route Inr]
      have again: "posts_ok S request item secret c (snd (dispatch_provider S request item secret (c1\<lparr>cl_learned := learned\<rparr>)))"
        if "r = Inr answer" "response_text answer = Inr told" "\<not> is_success (ha_status answer)"
          "learn_refused_temperature model_id (ha_status answer) told (cl_learned c1) = (True, learned)" for answer told learned
        using posts_resent [OF sent known route that(4)] 1(1) [OF route refl Inr] 1(2) that sent by simp
      show ?thesis using posts_sent [OF sent known] again
        by (auto simp: unfolded route Inr sent Let_def split: sum.splits prod.splits bool.splits)
    qed (simp add: unfolded route)
  qed (use 1(2) in simp)
qed

lemma dispatch_stream_posts: "posts_ok S request item secret c (snd (dispatch_stream S request item secret c))"
proof (induction S request item secret c rule: dispatch_stream.induct)
  case (1 S request item secret c)
  note unfolded = dispatch_stream.simps [of S request item secret c]
  show ?case
  proof (cases "registry_route (rq_model request)")
    case (Some dm)
    then obtain d model_id where route: "registry_route (rq_model request) = Some (d, model_id)" by (cases dm) auto
    show ?thesis
    proof (cases "prepared S (streaming_chat_payload (ps_codec S) (ps_document S) (cl_learned c) d) d model_id request item secret
        (cl_world c)")
      case (Inr p)
      obtain r c1 where sent: "send_once_more_if_unsent S p c = (r, c1)" by fastforce
      note known = prepared_addressed [OF route Inr]
      have again: "posts_ok S request item secret c (snd (dispatch_stream S request item secret (c1\<lparr>cl_learned := learned\<rparr>)))"
        if "r = Inr answer" "response_text answer = Inr told" "\<not> is_success (ha_status answer)"
          "learn_refused_temperature model_id (ha_status answer) told (cl_learned c1) = (True, learned)" for answer told learned
        using posts_resent [OF sent known route that(4)] 1 [OF route refl Inr] that sent by simp
      show ?thesis using posts_sent [OF sent known] again
        by (auto simp: unfolded route Inr sent Let_def split: sum.splits prod.splits bool.splits)
    qed (simp add: unfolded route)
  qed (simp add: unfolded split: prod.splits)
qed

text \<open>The address a local model may be read at: plain HTTP to loopback or to a Tailscale address, and a port.\<close>

definition safe_local_address :: "string \<Rightarrow> bool" where
  "safe_local_address address =
     (\<exists>a b e f port. address = ''http://'' @ dotted a b e f @ '':'' @ show_nat port
        \<and> a < 256 \<and> b < 256 \<and> e < 256 \<and> f < 256 \<and> (a = 127 \<or> a = 100 \<and> 64 \<le> b \<and> b < 128)
        \<and> 0 < port \<and> port < 65536)"

text \<open>
  The hosts a post may go to. A catalogue provider: the address it is trusted at, or a loopback address the deployment declares for
  it. A provider of the registry: the address it is declared at, or such a loopback address; a local model where no address is
  declared for it, the safe address of its deployment in the routes file.
\<close>

definition on_trusted_host :: "'w provider_site \<Rightarrow> model_request \<Rightarrow> posted \<Rightarrow> bool" where
  "on_trusted_host S request p =
     (case registry_route (rq_model request) of
        None \<Rightarrow>
          (\<exists>provider_id model_id declared u candidate base.
             catalog_route request = Some (provider_id, model_id) \<and>
             trusted_catalog_base_url provider_id = Some declared \<and> ps_parse_url S candidate = Inr u \<and>
             trusted_address (ps_parse_url S) (ps_env S (override_name provider_id) = Inr (Some candidate)) declared u \<and>
             base = trim_end_matches (CHR ''/'') (ur_text u) \<and>
             (po_url p = catalog_endpoint base ''/chat/completions'' \<or> po_url p = catalog_endpoint base ''/messages'' \<or>
              (\<exists>v. ps_parse_url S base = Inr v \<and> po_url p = ps_push_segments S v [''models'', model_id @ '':generateContent''])))
      | Some (d, _) \<Rightarrow>
          (\<exists>u candidate. ps_parse_url S candidate = Inr u \<and>
             po_url p = endpoint (trim_end_matches (CHR ''/'') (ur_text u)) (pd_chat_path d) \<and>
             trusted_address (ps_parse_url S) (ps_env S (override_name (pd_id d)) = Inr (Some candidate)) (pd_base_url d) u) \<or>
          (pd_id d = ''local-openai'' \<and>
             (\<exists>address. safe_local_address address \<and> po_url p = endpoint address (pd_chat_path d))))"

lemma call_base_url_trusted:
  assumes "call_base_url S d model_id = Inr out"
  shows "(\<exists>u candidate. ps_parse_url S candidate = Inr u \<and> out = trim_end_matches (CHR ''/'') (ur_text u) \<and>
      trusted_address (ps_parse_url S) (ps_env S (override_name (pd_id d)) = Inr (Some candidate)) (pd_base_url d) u) \<or>
    (pd_id d = ''local-openai'' \<and> safe_local_address out)"
proof (cases "pd_id d = ''local-openai''")
  case True
  show ?thesis
  proof (cases "provider_base_url_override (ps_env S) (pd_id d)")
    case (Inr overridden)
    show ?thesis
    proof (cases overridden)
      case None
      with assms True Inr obtain path where "base_url (ps_route_crates S) (ps_routes_file S path) model_id = Inr out"
        by (auto simp: call_base_url_def provider_base_url_for_def split: option.splits)
      then show ?thesis using base_url_address True by (simp add: safe_local_address_def)
    next
      case (Some configured)
      with assms True Inr have "provider_base_url (ps_parse_url S) (ps_env S) d = Inr out"
        by (simp add: call_base_url_def provider_base_url_for_def provider_base_url_def)
      then show ?thesis using base_url_trusted by blast
    qed
  qed (use assms True in \<open>simp add: call_base_url_def provider_base_url_for_def\<close>)
next
  case False
  with assms have "provider_base_url (ps_parse_url S) (ps_env S) d = Inr out"
    by (simp add: call_base_url_def provider_base_url_for_def)
  then show ?thesis using base_url_trusted by blast
qed

lemma addressed_trusted: "addressed S request item secret p \<Longrightarrow> on_trusted_host S request p"
  unfolding addressed_def on_trusted_host_def using call_base_url_trusted by fastforce

lemma catalog_post_url:
  assumes "catalog_post S d provider_id model_id base request = Inr (url, payload)"
  shows "url = catalog_endpoint base ''/chat/completions'' \<or> url = catalog_endpoint base ''/messages'' \<or>
    (\<exists>v. ps_parse_url S base = Inr v \<and> url = ps_push_segments S v [''models'', model_id @ '':generateContent''])"
  using assms
  by (auto simp: catalog_post_def google_url_def split: catalog_protocol.splits sum.splits if_splits elim!: bind_result_InrE)

lemma catalog_addressed_trusted:
  assumes "catalog_addressed S request item secret c p" and "registry_route (rq_model request) = None"
    and "cache_ok (cl_catalog c)" and "\<And>w. cache_ok (fst (cw_wait (ps_catalog S) w))"
  shows "on_trusted_host S request p"
proof -
  from assms(1) obtain provider_id model_id catalog d out payload where
    route: "catalog_route request = Some (provider_id, model_id)" and read: "fst (call_snapshot S c) = Inr catalog"
    and listed: "bt_get (cn_providers catalog) provider_id = Some d"
    and base: "catalog_provider_base_url (ps_parse_url S) (ps_env S) d = Inr out"
    and posted: "catalog_post S d provider_id model_id out request = Inr (po_url p, payload)"
    unfolding catalog_addressed_def by blast
  obtain r cache refreshing w where
    "snapshot (ps_catalog S) (cl_catalog c) (cl_refreshing c) (cl_world c) = (r, cache, refreshing, w)"
    by (metis prod_cases4)
  with read snapshot_ok [OF this assms(3,4)] have "catalog_ok catalog" by (auto simp: call_snapshot_def)
  with listed have "cg_id d = provider_id" by (auto simp: catalog_ok_def providers_ok_def)
  with catalog_base_url_trusted [OF base] catalog_post_url [OF posted] route assms(2) show ?thesis
    unfolding on_trusted_host_def by auto
qed

text \<open>Each post is the one the call was to make, and it goes to a host its provider is trusted at.\<close>

definition to_its_provider ::
  "'w provider_site \<Rightarrow> model_request \<Rightarrow> string \<Rightarrow> string \<Rightarrow> 'w call_state \<Rightarrow> posted \<Rightarrow> bool" where
  "to_its_provider S request item secret c p =
     ((case registry_route (rq_model request) of
         None \<Rightarrow> catalog_addressed S request item secret c p
       | Some _ \<Rightarrow> addressed S request item secret p)
      \<and> on_trusted_host S request p)"

lemma registry_posts:
  assumes "posts_ok S request item secret c c'" and "registry_route (rq_model request) \<noteq> None"
  shows "\<exists>posts. cl_posted c' = cl_posted c @ posts \<and> length posts \<le> 4 \<and>
    list_all (to_its_provider S request item secret c) posts"
proof -
  have "unlearned (rq_model request) c \<le> 1" by (auto simp: unlearned_def split: option.splits)
  then show ?thesis using assms unfolding posts_ok_def to_its_provider_def
    by (fastforce simp: list_all_iff intro: addressed_trusted)
qed

lemma call_snapshot_ok:
  assumes "cache_ok (cl_catalog c)" and "\<And>w. cache_ok (fst (cw_wait (ps_catalog S) w))"
  shows "cache_ok (cl_catalog (snd (call_snapshot S c)))"
proof -
  obtain r cache refreshing w where
    "snapshot (ps_catalog S) (cl_catalog c) (cl_refreshing c) (cl_world c) = (r, cache, refreshing, w)"
    by (metis prod_cases4)
  with snapshot_ok [OF this assms] show ?thesis by (simp add: call_snapshot_def)
qed

lemma dispatch_catalog_cache:
  assumes "cache_ok (cl_catalog c)" and "\<And>w. cache_ok (fst (cw_wait (ps_catalog S) w))"
  shows "cache_ok (cl_catalog (snd (dispatch_catalog S request item secret c)))"
proof -
  have sent: "cl_catalog (snd (catalog_sent S request dp c1)) = cl_catalog c1" for dp c1
    using catalog_sent_posts [of S request "fst dp" "snd dp" c1] sent_catalog [of S "snd dp" c1]
    by (cases "send_once_more_if_unsent S (snd dp) c1") simp
  show ?thesis using call_snapshot_ok [OF assms] assms(1)
    by (auto simp: dispatch_catalog_def sent split: option.split prod.splits sum.splits)
qed

text \<open>
  C7. A call leaves only for the provider its route names: buffered or streamed, whatever the network does and other requests
  learn meanwhile, each post goes to that provider's endpoint with the headers of the key the stored secret was reduced to, so a
  secret that reduces to none is posted nowhere. The endpoint stands on the host the provider is declared with, or is trusted at when
  only the catalogue knows it, or on a loopback host the deployment named for it; a local model nothing was named for is read on
  plain HTTP at a loopback or Tailscale address of the routes file. A route that neither the registry nor the
  catalogue lists is posted nowhere. A call ends, after at most four posts: the request and its resend without a refused setting, each
  sent once more when it never reached the provider. It leaves a catalogue in memory that lists every provider under its own id,
  when it found one.
\<close>

theorem calls_reach_only_their_provider:
  assumes "cache_ok (cl_catalog c)" and "\<forall>w. cache_ok (fst (cw_wait (ps_catalog S) w))"
  shows "(\<exists>posts. cl_posted (snd (dispatch_provider S request item secret c)) = cl_posted c @ posts \<and> length posts \<le> 4 \<and>
      list_all (to_its_provider S request item secret c) posts) \<and>
   (\<exists>posts. cl_posted (snd (dispatch_stream S request item secret c)) = cl_posted c @ posts \<and> length posts \<le> 4 \<and>
      list_all (to_its_provider S request item secret c) posts) \<and>
   cache_ok (cl_catalog (snd (dispatch_provider S request item secret c))) \<and>
   cache_ok (cl_catalog (snd (dispatch_stream S request item secret c)))"
proof (cases "registry_route (rq_model request)")
  case None
  note waits = assms(2) [rule_format]
  obtain posts where posts: "cl_posted (snd (dispatch_catalog S request item secret c)) = cl_posted c @ posts" "length posts \<le> 2"
    "list_all (catalog_addressed S request item secret c) posts" using dispatch_catalog_posts by blast
  have "list_all (to_its_provider S request item secret c) posts"
    using posts(3) catalog_addressed_trusted [OF _ None assms(1) waits] None by (auto simp: list_all_iff to_its_provider_def)
  with posts dispatch_catalog_cache [OF assms(1) waits] assms(1) show ?thesis
    by (simp add: dispatch_provider.simps [of S request] dispatch_stream.simps [of S request] None)
next
  case (Some route)
  then have known: "registry_route (rq_model request) \<noteq> None" by simp
  note ok = dispatch_posts [OF known, of S item secret c] dispatch_stream_posts [of S request item secret c]
  then have "cl_catalog (snd (dispatch_provider S request item secret c)) = cl_catalog c"
    "cl_catalog (snd (dispatch_stream S request item secret c)) = cl_catalog c"
    by (auto simp: posts_ok_def)
  with registry_posts [OF ok(1) known] registry_posts [OF ok(2) known] assms(1) show ?thesis by simp
qed

text \<open>
  A site whose catalogue knows one provider, whose network answers nothing, and a call of a model of that provider: it is
  posted once, on the address the provider is trusted at.
\<close>

definition silent_codec :: json_codec where
  "silent_codec = \<lparr>show_json = (\<lambda>_. ''{}''), parse_json = (\<lambda>_. Inl ''no JSON''), show_duration = (\<lambda>_. [])\<rparr>"

definition perplexity_catalog :: catalog_snapshot where
  "perplexity_catalog =
     \<lparr>cn_providers = [(''perplexity'', \<lparr>cg_id = ''perplexity'', cg_display_name = ''Perplexity'', cg_protocol = CatalogOpenAiChat,
         cg_auth = CatalogBearer\<rparr>)],
      cn_models = [catalog_model ''perplexity'' ''m'' JNull], cn_revision = []\<rparr>"

definition silent_site :: "unit provider_site" where
  "silent_site =
     \<lparr>ps_codec = silent_codec, ps_document = Inl ''none'', ps_bad_call = (\<lambda>_. []), ps_base64url = Inr,
      ps_sha256_hex = (\<lambda>_. []), ps_xxh64 = (\<lambda>_ seed. seed),
      ps_parse_url = (\<lambda>s. Inr \<lparr>ur_scheme = ''https'', ur_cannot_be_a_base = False, ur_username = [], ur_password = None,
        ur_query = None, ur_fragment = None, ur_host = Some ''api.perplexity.ai'', ur_text = s\<rparr>),
      ps_env = (\<lambda>_. Inr None), ps_push_segments = (\<lambda>u _. ur_text u), ps_routes_path = None, ps_routes_file = (\<lambda>_. Absent),
      ps_route_crates = \<lparr>rc_tree = (\<lambda>_. None), rc_value = (\<lambda>_. Inl []), rc_pretty = (\<lambda>_. Inl []), rc_tree_error = (\<lambda>_. []),
        rc_value_error = (\<lambda>_. []), rc_absent = [], rc_visits = (\<lambda>xs. xs)\<rparr>,
      ps_os = ''linux'', ps_arch = ''x86_64'', ps_client = Inr (), ps_request_id = (\<lambda>_. []), ps_limits = (\<lambda>_ _. []),
      ps_catalog = \<lparr>cw_codec = silent_codec, cw_age = Inr None, cw_now = (\<lambda>_. 0), cw_live = (\<lambda>w. (Inl ''down'', w)),
        cw_store = (\<lambda>_ w. w), cw_copy = (\<lambda>w. (Inl ''none'', w)), cw_wait = (\<lambda>w. (None, w))\<rparr>,
      ps_send = (\<lambda>_ w. (Inl \<lparr>se_connect = True, se_request = False, se_timed_out = [True], se_cause = ''silent''\<rparr>, [], w))\<rparr>"

definition perplexity_call :: "unit call_state" where
  "perplexity_call =
     \<lparr>cl_learned = [], cl_posted = [],
      cl_catalog = Some \<lparr>cd_loaded_at = 0, cd_snapshot = perplexity_catalog, cd_source = CatalogLive\<rparr>,
      cl_refreshing = False, cl_world = ()\<rparr>"

definition perplexity_request :: model_request where
  "perplexity_request = plain_request\<lparr>rq_model := ''perplexity/m''\<rparr>"

lemma perplexity_posted:
  "map po_url (cl_posted (snd (dispatch_provider silent_site perplexity_request ''i'' ''key'' perplexity_call))) =
     [''https://api.perplexity.ai/chat/completions'']"
  by code_simp

theorem calls_reach_only_their_provider_witness:
  "\<exists>p. cl_posted (snd (dispatch_provider silent_site perplexity_request ''i'' ''key'' perplexity_call)) = [p] \<and>
     po_url p = ''https://api.perplexity.ai/chat/completions'' \<and>
     to_its_provider silent_site perplexity_request ''i'' ''key'' perplexity_call p"
proof -
  have "catalog_ok perplexity_catalog"
    by (simp add: catalog_ok_def providers_ok_def bt_wf_def perplexity_catalog_def model_named_def catalog_model_def
        valid_provider_id_def valid_model_id_def is_ascii_alphanumeric_def is_control_def trim_def is_ws_def Let_def)
  then have "cache_ok (cl_catalog perplexity_call)" by (simp add: cache_ok_def perplexity_call_def)
  moreover have "\<forall>w. cache_ok (fst (cw_wait (ps_catalog silent_site) w))" by (simp add: silent_site_def cache_ok_def)
  ultimately obtain posts where
    "cl_posted (snd (dispatch_provider silent_site perplexity_request ''i'' ''key'' perplexity_call)) = cl_posted perplexity_call @ posts"
    "list_all (to_its_provider silent_site perplexity_request ''i'' ''key'' perplexity_call) posts"
    using calls_reach_only_their_provider [of perplexity_call silent_site perplexity_request "''i''" "''key''"] by blast
  with perplexity_posted show ?thesis by (auto simp: perplexity_call_def map_eq_Cons_conv)
qed

subsection \<open>What is counted\<close>

lemma read_attempts [simp]:
  "mr_attempts (provider_failure route_id cause) = 1" "mr_attempts (attempted_failure route_id r) = 1"
  "mr_attempts (answered route_id content usage elapsed_ms calls) = 1"
  "mr_attempts (with_limits response limits) = mr_attempts response"
  "mr_attempts (refused_answer route_id g err) = 0"
  by (simp_all add: provider_failure_def attempted_failure_def answered_def with_limits_def refused_answer_def
      failure_answer_def from_refusal_def)

lemma reader_attempts [simp]:
  "mr_attempts (model_response_from_openai J bad_call route_id body elapsed_ms) = 1"
  "mr_attempts (model_response_from_anthropic J route_id body elapsed_ms schema) = 1"
  "mr_attempts (model_response_from_responses_stream J route_id told elapsed_ms) = 1"
  by (auto simp: model_response_from_openai_def model_response_from_anthropic_def
      model_response_from_responses_stream_def completed_answer_def Let_def
      split: option.splits sum.splits prod.splits)

lemma read_answer_attempts [simp]: "mr_attempts (read_answer S d request limits elapsed_ms told) = 1"
  by (simp add: read_answer_def split: sum.splits)

lemma map_sum_InlD: "map_sum f g r = Inl y \<Longrightarrow> \<exists>x. y = f x"
  by (cases r) auto

lemma prepared_refused: "prepared S payload_of d model_id request item secret w = Inl refused \<Longrightarrow> mr_attempts refused = 0"
  by (auto simp: prepared_def bind_result_def credential_refused_def unconfigured_route_def client_unavailable_def
      unreadable_conversation_def split: if_splits sum.splits dest!: map_sum_InlD)

text \<open>
  An answer counts one provider call, or none when nothing was sent, also when the request was sent again without a
  setting the provider had just refused.
\<close>

theorem resent_calls_count_once:
  assumes "registry_route (rq_model request) \<noteq> None"
  shows "mr_attempts (fst (dispatch_provider S request item secret c)) \<le> 1"
  using assms
proof (induction S request item secret c rule: dispatch_provider.induct)
  case (1 S request item secret c)
  then obtain d model_id where route: "registry_route (rq_model request) = Some (d, model_id)" by auto
  note again = 1(1) [OF route refl _ _ _ _ refl]
  show ?case using 1(2) again
    by (auto simp: dispatch_provider.simps [of S request item secret c] route transport_failure_def provider_error_def Let_def
        prepared_refused split: sum.splits prod.splits bool.splits)
qed

text \<open>An answer of the Messages wire with no block in it is taken as a successful answer that says nothing.\<close>

theorem empty_messages_answer_succeeds:
  "model_response_from_anthropic J route_id (json_obj [(''content'', JArr [])]) elapsed_ms None =
     answered route_id [] None elapsed_ms None"
  by (simp add: model_response_from_anthropic_def answer_usage_def usage_count_def json_pointer_def bind_result_def)

end
