(* ===== verification/Spec2Isabelle.thy ===== *)
theory Spec2Isabelle
  imports Usage_Events Alias_Measures Leases Provider_Address Rotation_Outcomes Event_Streams Selection Acquisition_Safety
    Wire_Requests Route_Imports Decision_Promises Provider_Calls
begin

text \<open>
  \<^bold>\<open>Brama: routing model requests over a pool of subscriptions.\<close>

  Brama (\<open>src/src/\<close>) is a gateway: an agent signs a request, the gateway authenticates it, ranks the model
  routes the agent's subscriptions publish, walks them, and for each route walks the accounts of the
  route's provider until one answers. What each account has spent, which are blocked, retired or need a
  sign-in, and which live session runs on which account is kept in three files: the usage ledger, the
  journal and the lease register.

  \<^bold>\<open>How the parts interact.\<close> A selector (\<open>dispatch/selection\<close>) authenticates the caller (\<open>crypto\<close>,
  \<open>dispatch/caller_identity.rs\<close>), takes the published routes from the model snapshot
  (\<open>dispatch/catalogue\<close>), orders them by the headroom the ledger states (\<open>dispatch/ranking\<close>) and attempts
  them in turn. An attempt (\<open>dispatch/rotation\<close>) sizes the request (\<open>catalogue/cache/routing.rs\<close>), selects the
  eligible rows of the inventory (the journal says which are retired), orders them (headroom, pin, blocks) and
  presents them one by one: redeem from the vault, ask the provider, record the call in the
  ledger, refresh a refused token once, retire an account whose fresh token was refused, record a block for an
  exhausted one. An emptied pool is refused in a class that says what a caller can do about it
  (\<open>dispatch/refusal\<close>, \<open>rotation/verdict.rs\<close>).

  \<^bold>\<open>Theories, in import order.\<close>
  \<^item> \<open>Prelude\<close>, \<open>BTree_Map\<close>, \<open>F64\<close>: results, strings, saturating and ordering helpers; \<open>BTreeMap\<close> as a sorted
    association list with its interface as the locale \<open>ordered_map\<close>; \<open>f64\<close> as IEEE bits with \<open>total_cmp\<close>,
    \<open>partial_cmp\<close> and \<open>max\<close>.
  \<^item> \<open>Model_Types\<close>, \<open>Samples\<close>: \<open>types.rs\<close>, \<open>types/\<close>, \<open>core/failure.rs\<close>; the concrete values the witnesses run on.
  \<^item> \<open>Usage_Ledger\<close>, \<open>Usage_Spend\<close>, \<open>Usage_Checks\<close>, \<open>Usage_Credential\<close>, \<open>Plan_Windows\<close>, \<open>Usage_Events\<close>:
    \<open>subscription_dispatch/usage/\<close>. One record per account, one definition per operation, the process copy and
    its file. The locale \<open>entry_writer\<close> is the contract of every operation (it touches one account and keeps records well
    formed) and is interpreted for each; \<open>usage_step\<close> is the step relation of a process that writes,
    fails to write and restarts.
  \<^item> \<open>Journal\<close>: \<open>journal/mod.rs\<close>, \<open>journal/subscriptions.rs\<close>. The journal is its text; appends may be torn; the
    locale \<open>record_log\<close> is what readers rely on.
  \<^item> \<open>Alias_Measures\<close>: \<open>journal/concurrency.rs\<close>, \<open>journal/answers.rs\<close>, with the relation \<open>carrying\<close> over all
    interleavings of requests.
  \<^item> \<open>Declarations\<close>, \<open>Leases\<close>: \<open>acquire/declaration.rs\<close>, \<open>leases/\<close>, with the step relation \<open>lease_step\<close>.
  \<^item> \<open>Ranking\<close>: \<open>ranking/plan_order.rs\<close>, \<open>ranking/pin.rs\<close>, \<open>catalogue/route.rs\<close>.
  \<^item> \<open>Replay\<close>: \<open>crypto/\<close> and \<open>caller_identity.rs\<close>.
  \<^item> \<open>Provider_Registry\<close>, \<open>Provider_Address\<close>, \<open>Request_Sizing\<close>: \<open>providers/adapter/registry/\<close> and
    \<open>catalogue/cache/routing.rs\<close>.
  \<^item> \<open>Pool_Refusal\<close>: \<open>dispatch/refusal/\<close>, \<open>rotation/verdict.rs\<close>.
  \<^item> \<open>Rotation\<close>, \<open>Rotation_Walks\<close>, \<open>Rotation_Outcomes\<close>: \<open>dispatch/rotation/\<close>, \<open>dispatch/credential/\<close>,
    \<open>routed_stream.rs\<close>. The locale \<open>row_walk\<close> holds the facts of a walk over rows once and is interpreted for the
    buffered and the streaming one.
  \<^item> \<open>Discovery\<close>: \<open>catalogue/subscription_models.rs\<close>, \<open>catalogue/cache.rs\<close>, \<open>pool/account/standing.rs\<close>.
  \<^item> \<open>Event_Streams\<close>: the server-sent-event framer, the three provider wires and the pump that sends their items
    (\<open>providers/stream/\<close>); over bytes, in any chunking.
  \<^item> \<open>Wire_Events\<close>, \<open>Wire_Delivery\<close>, \<open>Wire_Promises\<close>: the three encoders a caller is streamed through
    (\<open>core/wire/\<close>, \<open>core/server/streaming/\<close>). What every encoder holds is the record \<open>caller_stream\<close>, extended per format;
    \<open>poll_next\<close> is the loop all three write; the locales \<open>caller_encoder\<close> and \<open>closing_encoder\<close> are the laws of a
    format's step, each interpreted for the three; \<open>caller_run\<close> is a history of arrivals and polls in any order.
  \<^item> \<open>Wire_Relay\<close>, \<open>Responses_Relay\<close>: the encoders composed with the decoders of \<open>Event_Streams\<close>, over the locale
    \<open>relayed_format\<close>.
  \<^item> \<open>Caller_Wires\<close>, \<open>Wire_Requests\<close>: the readings of a Messages, a Responses and a chat request, the shared bounds and
    history check, and the buffered answers (\<open>core/wire/\<close>, \<open>core/server/chat/\<close>).
  \<^item> \<open>Inference_Routes\<close>, \<open>Route_Edits\<close>, \<open>Route_Promises\<close>, \<open>Route_Effects\<close>, \<open>Route_Imports\<close>: \<open>core/inference_routes/\<close>. The typed
    document, resolution and categories; the staged write and the six writers as steps on the file, each an interpretation of the
    locale \<open>atomic_edit\<close>; what one edit, an import and the migration change.
  \<^item> \<open>Task_Quality\<close>: \<open>quality.rs\<close>, \<open>dispatch/ranking/task_quality.rs\<close> and the task selectors.
  \<^item> \<open>Aliases\<close>: \<open>core/server/aliases/\<close>: the names, the kind of route each may carry, the table a process starts with, the lookup of a
    request and the diagnosis of an operator.
  \<^item> \<open>Chat_Routing\<close>: \<open>core/server/chat/routing/\<close> with the refusal documents, the caller's identity, the entitlement gate and the
    account behind a signed-in user. \<open>route_model_call\<close> composes the components: authorization, decision, the one
    dispatch entry point (\<open>Selection\<close>, \<open>Task_Quality\<close>, a direct route), settlement in \<open>Alias_Measures\<close>.
  \<^item> \<open>F64_Arith\<close>, \<open>Decisions\<close>, \<open>Decision_Promises\<close>: \<open>core/decisions/\<close>, \<open>core/server/decisions.rs\<close>. Addition, product, quotient and
    difference of doubles rounded to nearest; typed questions, the two engines that answer them, the endpoint.
  \<^item> \<open>Provider_Dialects\<close>, \<open>Dialect_Promises\<close>, \<open>Provider_Answers\<close>, \<open>Provider_Sends\<close>, \<open>Provider_Calls\<close>: \<open>providers/adapter.rs\<close>,
    \<open>adapter/dialect/\<close>, \<open>adapter/call/credential/\<close>, \<open>adapter/call/outcome/\<close>. The body each wire is sent, a buffered answer read back, a
    refused one classified, and the call that joins them: stored secret, headers, send, the resend without a refused setting.
  \<^item> \<open>Model_Catalogue\<close>, \<open>Catalogue_Calls\<close>: \<open>subscription_dispatch/model_catalog/\<close> and \<open>adapter/catalog.rs\<close>, \<open>catalog/endpoint.rs\<close>,
    \<open>catalog/google_generate.rs\<close>. The public catalogue read into providers and models, the snapshot a call is routed by, and the
    call to a provider only the catalogue knows, which \<open>Provider_Calls\<close> hands over to.
  \<^item> \<open>Fallible_Steps\<close>: code joined by \<open>?\<close> as steps over a state, with the triples \<open>holds\<close> and \<open>keeps\<close>.
  \<^item> \<open>Reset_Settings\<close>, \<open>Reset_Redemption\<close>, \<open>Reset_Safety\<close>: \<open>acquire/resets/\<close>, \<open>journal/resets.rs\<close>: the operator's policy,
    the choice of a credit, its redemption and the maintenance pass over all members.
  \<^item> \<open>Acquisition\<close>, \<open>Acquisition_Safety\<close>: \<open>acquire/decide/\<close>, \<open>acquire/purchase/\<close>, \<open>acquire/mod.rs\<close>: the decision to buy an
    account and the purchase through Weles.
  \<^item> \<open>Selection\<close>: \<open>dispatch/selection/\<close>, \<open>ranking/candidates.rs\<close>, \<open>direct_route.rs\<close>.

  \<^bold>\<open>How the code is read.\<close>
  \<^item> Strings are Isabelle strings, so text is over the first 256 code points, except in
    \<open>Event_Streams\<close>, where a string is its UTF-8 bytes (as the events of the \<open>Wire\<close> theories are). \<open>u32\<close> and \<open>u64\<close> are words with
    \<open>saturating_add\<close> where the code saturates; \<open>i64\<close> instants are \<open>int\<close> with saturation written out;
    a vector is shorter than $2^{63}$, stated as a hypothesis where the shuffle's index arithmetic needs it.
  \<^item> A \<open>HashMap\<close> is a map, a \<open>BTreeMap\<close> a sorted association list, \<open>sort_by\<close> stable insertion.
  \<^item> A file is what reading it yields: absent, unreadable, not decodable, or its value; a write replaces it
    whole or is refused with a cause that is an argument. A lock that cannot be taken is an argument too.
  \<^item> The clock is a stream of readings, one consumed per \<open>now_ms()\<close>, so two readings of one walk may differ;
    one ordering reads it once. Random words are a list of draws; a run that waits for more is \<open>None\<close>.
  \<^item> Third-party code is a parameter: \<open>crates\<close> (error envelopes, date text), \<open>json_codec\<close> (\<open>serde_json\<close>),
    \<open>mac_crates\<close> (HMAC, SHA-256, hex), \<open>url_parser\<close> (\<open>url\<close>). What the theorems rely on is stated as named
    hypotheses (\<open>codec_ok\<close>), with witnesses.
  \<^item> The vault, the providers, the sign-in worker and other requests are the fields of the record \<open>api\<close>: each takes the
    world and answers with a world it may have changed, so interference at every await point is covered.
    The ledger in the world is the process copy, which \<open>with_ledger_memory_eq\<close> relates to the file.
  \<^item> A provider call runs over the record \<open>provider_site\<close>: crates, deployment, network, what the catalogue is read from, and the models other requests were taught about.
  \<^item> Resets and purchases run over \<open>shop\<close>, the world with two history variables; the provider, Weles and the file system
    around them are the fields of the record \<open>market\<close>.
  \<^item> Logs are not modelled. \<open>wk_asked\<close>, \<open>dc_read\<close>, \<open>w_served\<close>, \<open>cl_posted\<close>, \<open>sp_resets\<close>, \<open>sp_purchases\<close> and the routes a ranked walk asked are history variables.

  \<^bold>\<open>What is shown.\<close> Each property is the theorem after a text block that carries its number:
  presentations, answers, records and retirements of a rotation; the order of rosters and of routes; the
  exhaustiveness of the ranked walk; single use of signed requests; the session limit as an invariant of
  all interleavings; well-formedness, durability and separation of the ledger; spend as saturating sums; blocks,
  grants and windows; membership in the journal; trusted provider addresses; request sizing; alias measures;
  independence of a stream's items from its chunking, and what of a stream reaches the ledger;
  saved resets sent at most once and under the operator's policy; purchases asked for a shortage, below the cap,
  on record first and not repeated automatically; every caller format's stream delivered in order, ended, reported
  once and closed exactly for a whole answer; each format read back by the gateway's own decoder; requests within
  bounds, histories checked exactly, answers readable as history; the route registry sound after every edit; aliases
  that keep their kind, and a diagnosis that agrees with routing; model calls dispatched only for a caller who may make them,
  paid by whom the routing mode says, and measured by how they were answered; decisions answered inside the
  schema their caller declared; provider calls sent only to the provider their route names, at an address it is trusted at, conversations that fit every wire,
  tool schemas typed, cut streams never taken for answers.

  \<^bold>\<open>Termination, bounds and fuel.\<close> Every definition is total: walks recurse on their lists, a provider call on whether its model is known to refuse a setting, a schema on its size, and the rejection
  sampling of the shuffle recurses on the list of draws; \<open>ordering_returns\<close> shows that enough acceptable draws give an answer.
  No definition uses fuel.

  \<^bold>\<open>Not modelled.\<close> The HTTP handlers around the routing decision (tokens, catalogue documents, counters), terminal commands, child processes of the vault, token endpoints, plan headers and usage reports,
  the listing of a provider's models, media calls; the sign-in worker; handing accounts to harnesses;
  operator reports.
\<close>

section \<open>From the provider's bytes to the ledger\<close>

lemma settled_ends_done:
  assumes "settled_stream broken sent"
  shows "ends_done hung_up 0 sent \<longleftrightarrow> Done \<in> set sent \<and> list_all (\<lambda>k. \<not> hung_up k) [0..<length sent]"
proof (cases sent rule: rev_cases)
  case (snoc pre item)
  have pre: "list_all (\<lambda>i. \<not> terminal_item i) pre" using assms snoc by (simp add: settled_stream_def)
  then have no_done: "Done \<notin> set pre" by (auto simp: list.pred_set)
  show ?thesis
  proof
    assume "ends_done hung_up 0 sent"
    then obtain p rest where p: "sent = p @ Done # rest" "list_all (\<lambda>k. \<not> hung_up (0 + k)) [0..<Suc (length p)]"
      unfolding ends_done_def by blast
    with no_done snoc have "rest = []" by (cases rest rule: rev_cases) auto
    with p show "Done \<in> set sent \<and> list_all (\<lambda>k. \<not> hung_up k) [0..<length sent]" by simp
  next
    assume "Done \<in> set sent \<and> list_all (\<lambda>k. \<not> hung_up k) [0..<length sent]"
    with snoc no_done pre show "ends_done hung_up 0 sent"
      unfolding ends_done_def by (intro exI [of _ pre] exI [of _ "[]"]) auto
  qed
qed simp

text \<open>
  C40. From a provider's body to the ledger: the call a stream leaves in the ledger is recorded once, for the account that
  opened it, and as answered exactly when the body was read to its end after the provider's own terminal
  event, no event of it failed, and the caller took every item.
\<close>

theorem stream_answered_iff_done:
  "case run_stream_recorder hung_up latency (spawn J wire broken chunks) task w of (sent, w') \<Rightarrow>
     \<exists>r. w' = note_call (st_subscription task) (st_provider task) r w
       \<and> (success r \<longleftrightarrow> Done \<in> set (spawn J wire broken chunks)
            \<and> list_all (\<lambda>k. \<not> hung_up k) [0..<length (spawn J wire broken chunks)])"
  using settled_ends_done [OF pump_settles, of hung_up] recorded_verdict(1)
  by (simp add: run_stream_recorder_def Let_def) blast

end
